(* ===== verification/Prelude.thy ===== *)
theory Prelude
  imports Main "HOL-Library.Word" "HOL-Library.Char_ord" "HOL-Library.List_Lexorder"
    "HOL-Library.Sublist"
begin

text \<open>
  The vocabulary every component shares: Rust's \<open>Result\<close> with its early
  returns, machine words and their big-endian bytes, \<open>String\<close> as UTF-8 bytes
  with the \<open>char\<close> queries the sources use, decimal printing, JSON values,
  \<open>BTreeMap\<close> as a strictly sorted association list, and the two interfaces
  several components implement (an ordered map, a log reducer).
\<close>

named_theorems result_simps \<open>success and failure of the result combinators\<close>
named_theorems byte_simps \<open>lengths and round trips of the byte encodings\<close>

section \<open>Machine integers\<close>

type_synonym byte = "8 word"
type_synonym u8 = "8 word"
type_synonym u32 = "32 word"
type_synonym u64 = "64 word"
type_synonym bytes32 = "256 word"
type_synonym address20 = "160 word"

definition checked_add :: "'a::len word \<Rightarrow> 'a word \<Rightarrow> 'a word option" where
  "checked_add a b = (if unat a + unat b < 2 ^ LENGTH('a) then Some (a + b) else None)"

definition saturating_add :: "'a::len word \<Rightarrow> 'a word \<Rightarrow> 'a word" where
  "saturating_add a b = (if unat a + unat b < 2 ^ LENGTH('a) then a + b else - 1)"

text \<open>\<open>u64::try_from(usize)\<close> and \<open>u32::try_from(usize)\<close>.\<close>

definition u64_try_from :: "nat \<Rightarrow> u64 option" where
  "u64_try_from n = (if n < 2 ^ 64 then Some (of_nat n) else None)"

definition u32_try_from :: "nat \<Rightarrow> u32 option" where
  "u32_try_from n = (if n < 2 ^ 32 then Some (of_nat n) else None)"

lemma u64_try_from_SomeD: "u64_try_from n = Some w \<Longrightarrow> unat w = n"
  by (auto simp: u64_try_from_def unat_of_nat split: if_splits)

lemma u32_try_from_SomeD: "u32_try_from n = Some w \<Longrightarrow> unat w = n"
  by (auto simp: u32_try_from_def unat_of_nat split: if_splits)

lemma checked_add_SomeD: "checked_add a b = Some c \<Longrightarrow> unat c = unat a + unat b"
  by (auto simp: checked_add_def unat_word_ariths split: if_splits)

lemma checked_add_eq_Some_iff:
  fixes a b c :: "'a::len word"
  shows "checked_add a b = Some c \<longleftrightarrow> unat a + unat b = unat c"
proof
  assume "unat a + unat b = unat c"
  moreover have "unat c < 2 ^ LENGTH('a)" by (rule unsigned_less)
  ultimately show "checked_add a b = Some c"
    by (simp add: checked_add_def) (metis of_nat_add of_nat_unat ucast_id)
qed (simp add: checked_add_SomeD)

section \<open>Results and early returns\<close>

text \<open>
  \<open>Result<T, E>\<close> is the sum \<open>'e + 't\<close>. The operator \<open>?\<close> is
  \<open>bind_result\<close>; a run of checks, each followed by \<open>?\<close>, is \<open>checks\<close>;
  \<open>if b { return Err(e) }\<close> is \<open>err_if\<close>.
\<close>

fun bind_result :: "'e + 'a \<Rightarrow> ('a \<Rightarrow> 'e + 'b) \<Rightarrow> 'e + 'b" where
  "bind_result (Inl e) f = Inl e"
| "bind_result (Inr x) f = f x"

fun map_err :: "('e \<Rightarrow> 'f) \<Rightarrow> 'e + 'a \<Rightarrow> 'f + 'a" where
  "map_err g (Inl e) = Inl (g e)"
| "map_err g (Inr x) = Inr x"

fun ok_or :: "'e \<Rightarrow> 'a option \<Rightarrow> 'e + 'a" where
  "ok_or e None = Inl e"
| "ok_or e (Some x) = Inr x"

definition err_if :: "bool \<Rightarrow> 'e \<Rightarrow> 'e + unit" where
  "err_if b e = (if b then Inl e else Inr ())"

fun checks :: "('e + unit) list \<Rightarrow> 'e + unit" where
  "checks [] = Inr ()"
| "checks (Inl e # cs) = Inl e"
| "checks (Inr u # cs) = checks cs"

fun is_ok :: "'e + 'a \<Rightarrow> bool" where
  "is_ok (Inl e) = False"
| "is_ok (Inr x) = True"

lemma bind_result_eq_Inr [simp, result_simps]:
  "bind_result r f = Inr y \<longleftrightarrow> (\<exists>x. r = Inr x \<and> f x = Inr y)"
  by (cases r) auto

lemma bind_result_eq_Inl [result_simps]:
  "bind_result r f = Inl e \<longleftrightarrow> r = Inl e \<or> (\<exists>x. r = Inr x \<and> f x = Inl e)"
  by (cases r) auto

lemma map_err_eq_Inr [simp, result_simps]: "map_err g r = Inr x \<longleftrightarrow> r = Inr x"
  by (cases r) auto

lemma ok_or_eq_Inr [simp, result_simps]: "ok_or e x = Inr y \<longleftrightarrow> x = Some y"
  by (cases x) auto

lemma err_if_eq_Inr [simp, result_simps]: "err_if b e = Inr u \<longleftrightarrow> \<not> b"
  by (simp add: err_if_def)

lemma err_if_eq_Inl [simp, result_simps]: "err_if b e = Inl f \<longleftrightarrow> b \<and> e = f"
  by (auto simp: err_if_def)

lemma checks_Cons_eq_Inr [simp, result_simps]:
  "checks (c # cs) = Inr u \<longleftrightarrow> c = Inr () \<and> checks cs = Inr ()"
  by (cases c) auto

lemma checks_append_eq_Inr [simp, result_simps]:
  "checks (cs @ ds) = Inr u \<longleftrightarrow> checks cs = Inr () \<and> checks ds = Inr ()"
  by (induction cs) auto

lemma checks_eq_Inr_iff: "checks cs = Inr u \<longleftrightarrow> (\<forall>c \<in> set cs. c = Inr ())"
  by (induction cs) auto

lemma is_ok_iff [simp]: "is_ok r \<longleftrightarrow> (\<exists>x. r = Inr x)"
  by (cases r) auto

text \<open>
  \<open>for x in xs { check(x)?; }\<close>, and the same loop with a \<open>BTreeSet\<close> of the keys
  seen so far: \<open>if !seen.insert(key(x)) { return Err(dup) }\<close>.
\<close>

definition each :: "('a \<Rightarrow> 'e + unit) \<Rightarrow> 'a list \<Rightarrow> 'e + unit" where
  "each check xs = checks (map check xs)"

fun each_unique ::
  "('a \<Rightarrow> 'e + unit) \<Rightarrow> ('a \<Rightarrow> 'k) \<Rightarrow> 'e \<Rightarrow> 'k list \<Rightarrow> 'a list \<Rightarrow> 'e + unit" where
  "each_unique check key dup seen [] = Inr ()"
| "each_unique check key dup seen (x # xs) =
     checks [check x, err_if (List.member seen (key x)) dup,
             each_unique check key dup (key x # seen) xs]"

lemma each_eq_Inr [simp, result_simps]:
  "each check xs = Inr u \<longleftrightarrow> (\<forall>x \<in> set xs. check x = Inr ())"
  by (auto simp: each_def checks_eq_Inr_iff)

lemma each_unique_eq_Inr:
  "each_unique check key dup seen xs = Inr u \<longleftrightarrow>
     (\<forall>x \<in> set xs. check x = Inr ()) \<and> distinct (map key xs) \<and> set (map key xs) \<inter> set seen = {}"
  by (induction xs arbitrary: seen) auto

lemma each_unique_Nil_eq_Inr [simp, result_simps]:
  "each_unique check key dup [] xs = Inr u \<longleftrightarrow>
     (\<forall>x \<in> set xs. check x = Inr ()) \<and> distinct (map key xs)"
  by (simp add: each_unique_eq_Inr)

section \<open>Big-endian bytes\<close>

fun be_nat_bytes :: "nat \<Rightarrow> nat \<Rightarrow> byte list" where
  "be_nat_bytes 0 v = []"
| "be_nat_bytes (Suc n) v = be_nat_bytes n (v div 256) @ [of_nat v]"

definition be_nat :: "byte list \<Rightarrow> nat" where
  "be_nat bs = foldl (\<lambda>acc b. acc * 256 + unat b) 0 bs"

definition to_be_bytes :: "'a::len word \<Rightarrow> byte list" where
  "to_be_bytes w = be_nat_bytes (LENGTH('a) div 8) (unat w)"

definition from_be_bytes :: "byte list \<Rightarrow> 'a::len word" where
  "from_be_bytes bs = of_nat (be_nat bs)"

lemma length_be_nat_bytes [simp, byte_simps]: "length (be_nat_bytes n v) = n"
  by (induction n arbitrary: v) auto

lemma be_nat_Nil [simp]: "be_nat [] = 0"
  by (simp add: be_nat_def)

lemma be_nat_snoc [simp]: "be_nat (bs @ [b]) = be_nat bs * 256 + unat b"
  by (simp add: be_nat_def)

lemma be_nat_be_nat_bytes: "be_nat (be_nat_bytes n v) = v mod 256 ^ n"
proof (induction n arbitrary: v)
  case 0
  then show ?case by simp
next
  case (Suc n)
  have "v mod (256 * 256 ^ n) = 256 * (v div 256 mod 256 ^ n) + v mod 256"
    by (rule mod_mult2_eq)
  with Suc show ?case by (simp add: unat_of_nat)
qed

lemma be_nat_less: "be_nat bs < 256 ^ length bs"
proof (induction bs rule: rev_induct)
  case Nil
  then show ?case by simp
next
  case (snoc b bs)
  have "unat b < 256" using unsigned_less [of b] by simp
  with snoc have "be_nat bs * 256 + unat b < (be_nat bs + 1) * 256" by simp
  also have "\<dots> \<le> 256 ^ length bs * 256" using snoc by (intro mult_right_mono) auto
  finally show ?case by simp
qed

lemma byte_256_eq_0 [simp]: "(256 :: byte) = 0"
  by (simp add: word_eq_iff_unsigned)

lemma be_nat_bytes_be_nat: "be_nat_bytes (length bs) (be_nat bs) = bs"
proof (induction bs rule: rev_induct)
  case (snoc b bs)
  have "unat b < 256" using unsigned_less [of b] by simp
  moreover have "of_nat (be_nat bs * 256 + unat b) = b"
    by (simp add: byte_256_eq_0)
  ultimately show ?case using snoc by simp
qed simp

lemma length_to_be_bytes [simp, byte_simps]:
  "length (to_be_bytes (w :: 'a::len word)) = LENGTH('a) div 8"
  by (simp add: to_be_bytes_def)

lemma power_256_bytes:
  assumes "8 dvd n"
  shows "(256 :: nat) ^ (n div 8) = 2 ^ n"
proof -
  have "(2 ^ 8 :: nat) ^ (n div 8) = 2 ^ (8 * (n div 8))"
    by (rule power_mult [symmetric])
  with assms show ?thesis by simp
qed

lemma from_to_be_bytes:
  assumes "8 dvd LENGTH('a)"
  shows "from_be_bytes (to_be_bytes (w :: 'a::len word)) = w"
proof -
  have "(256 :: nat) ^ (LENGTH('a) div 8) = 2 ^ LENGTH('a)"
    using assms(1) by (rule power_256_bytes)
  then show ?thesis
    by (simp add: from_be_bytes_def to_be_bytes_def be_nat_be_nat_bytes unsigned_less)
qed

lemma to_from_be_bytes:
  assumes "8 dvd LENGTH('a)" "length bs = LENGTH('a) div 8"
  shows "to_be_bytes (from_be_bytes bs :: 'a::len word) = bs"
proof -
  have "(256 :: nat) ^ (LENGTH('a) div 8) = 2 ^ LENGTH('a)"
    using assms(1) by (rule power_256_bytes)
  then have "be_nat bs < 2 ^ LENGTH('a)"
    using be_nat_less [of bs] assms by simp
  then have "unat (from_be_bytes bs :: 'a word) = be_nat bs"
    by (simp add: from_be_bytes_def unat_of_nat)
  then show ?thesis
    using assms be_nat_bytes_be_nat [of bs] by (simp add: to_be_bytes_def)
qed

lemma to_be_bytes_inject:
  assumes "8 dvd LENGTH('a)"
  shows "to_be_bytes (v :: 'a::len word) = to_be_bytes w \<longleftrightarrow> v = w"
  using from_to_be_bytes [OF assms] by metis

text \<open>The widths the protocol uses.\<close>

lemma to_be_bytes_simps [simp, byte_simps]:
  "length (to_be_bytes (a :: bytes32)) = 32"
  "length (to_be_bytes (b :: address20)) = 20"
  "length (to_be_bytes (c :: u64)) = 8"
  "length (to_be_bytes (d :: u32)) = 4"
  by simp_all

lemma to_be_bytes_inject_simps [simp, byte_simps]:
  "to_be_bytes (a :: bytes32) = to_be_bytes a' \<longleftrightarrow> a = a'"
  "to_be_bytes (b :: address20) = to_be_bytes b' \<longleftrightarrow> b = b'"
  "to_be_bytes (c :: u64) = to_be_bytes c' \<longleftrightarrow> c = c'"
  "to_be_bytes (d :: u32) = to_be_bytes d' \<longleftrightarrow> d = d'"
  by (simp_all add: to_be_bytes_inject)

section \<open>Strings\<close>

text \<open>
  A Rust \<open>String\<close> holds UTF-8 bytes; \<open>string\<close> is a list of 8-bit characters, so
  \<open>len()\<close> is \<open>length\<close>, \<open>as_bytes()\<close> is \<open>str_bytes\<close> and the byte order \<open>Ord\<close>
  of \<open>str\<close> is the lexicographic order of the list. \<open>chars()\<close> decodes: each chunk
  is the encoding of one scalar value.
\<close>

definition str_bytes :: "string \<Rightarrow> byte list" where
  "str_bytes s = map of_char s"

lemma length_str_bytes [simp, byte_simps]: "length (str_bytes s) = length s"
  by (simp add: str_bytes_def)

lemma str_bytes_append [simp]: "str_bytes (s @ t) = str_bytes s @ str_bytes t"
  by (simp add: str_bytes_def)

lemma of_char_of_nat_byte: "unat (of_char c :: byte) = of_char c"
proof -
  have "(of_char c :: byte) = of_nat (of_char c)" by (cases c) simp
  moreover have "(of_char c :: nat) < 256" by simp
  ultimately show ?thesis by (simp add: unat_of_nat)
qed

lemma of_char_byte_inject [simp]: "(of_char c :: byte) = of_char d \<longleftrightarrow> c = d"
proof
  assume "(of_char c :: byte) = of_char d"
  then have "unat (of_char c :: byte) = unat (of_char d :: byte)" by simp
  then have "(of_char c :: nat) = of_char d"
    by (simp add: of_char_of_nat_byte)
  then show "c = d" by simp
qed simp

lemma str_bytes_inject [simp, byte_simps]: "str_bytes s = str_bytes t \<longleftrightarrow> s = t"
  by (auto simp: str_bytes_def inj_map_eq_map inj_def)

definition utf8_width :: "char \<Rightarrow> nat" where
  "utf8_width c = (let n = (of_char c :: nat) in
     if n < 192 then 1 else if n < 224 then 2 else if n < 240 then 3 else 4)"

function utf8_chunks :: "string \<Rightarrow> string list" where
  "utf8_chunks [] = []"
| "utf8_chunks (c # cs) =
     (c # take (utf8_width c - 1) cs) # utf8_chunks (drop (utf8_width c - 1) cs)"
  by pat_completeness auto
termination
  by (relation "measure length") auto

fun scalar_of :: "string \<Rightarrow> nat" where
  "scalar_of [a, b] = (of_char a mod 32) * 64 + of_char b mod 64"
| "scalar_of [a, b, c] = (of_char a mod 16) * 4096 + (of_char b mod 64) * 64 + of_char c mod 64"
| "scalar_of [a, b, c, d] =
     (of_char a mod 8) * 262144 + (of_char b mod 64) * 4096 + (of_char c mod 64) * 64
       + of_char d mod 64"
| "scalar_of (a # as) = of_char a"
| "scalar_of [] = 0"

definition str_chars :: "string \<Rightarrow> nat list" where
  "str_chars s = map scalar_of (utf8_chunks s)"

text \<open>\<open>char::is_control\<close> is the Unicode category Cc; \<open>char::is_whitespace\<close> the
  property White\_Space, which \<open>str::trim\<close> strips at both ends.\<close>

definition is_control :: "nat \<Rightarrow> bool" where
  "is_control n \<longleftrightarrow> n < 32 \<or> 127 \<le> n \<and> n < 160"

definition is_whitespace :: "nat \<Rightarrow> bool" where
  "is_whitespace n \<longleftrightarrow> 9 \<le> n \<and> n \<le> 13 \<or> n = 32 \<or> n = 133 \<or> n = 160 \<or> n = 5760
     \<or> 8192 \<le> n \<and> n \<le> 8202 \<or> n = 8232 \<or> n = 8233 \<or> n = 8239 \<or> n = 8287 \<or> n = 12288"

definition str_trim :: "string \<Rightarrow> string" where
  "str_trim s = (let strip = dropWhile (\<lambda>k. is_whitespace (scalar_of k))
     in concat (rev (strip (rev (strip (utf8_chunks s))))))"

definition is_ascii_digit :: "char \<Rightarrow> bool" where
  "is_ascii_digit c \<longleftrightarrow> (let n = (of_char c :: nat) in 48 \<le> n \<and> n \<le> 57)"

definition is_ascii_lowercase :: "char \<Rightarrow> bool" where
  "is_ascii_lowercase c \<longleftrightarrow> (let n = (of_char c :: nat) in 97 \<le> n \<and> n \<le> 122)"

definition is_ascii_uppercase :: "char \<Rightarrow> bool" where
  "is_ascii_uppercase c \<longleftrightarrow> (let n = (of_char c :: nat) in 65 \<le> n \<and> n \<le> 90)"

definition is_ascii_alphanumeric :: "char \<Rightarrow> bool" where
  "is_ascii_alphanumeric c \<longleftrightarrow> is_ascii_digit c \<or> is_ascii_lowercase c \<or> is_ascii_uppercase c"

definition starts_with :: "string \<Rightarrow> string \<Rightarrow> bool" where
  "starts_with p s \<longleftrightarrow> take (length p) s = p"

fun split_on :: "char \<Rightarrow> string \<Rightarrow> string list" where
  "split_on d [] = [Nil]"
| "split_on d (c # cs) =
     (if c = d then [] # split_on d cs
      else (case split_on d cs of [] \<Rightarrow> [c # Nil] | p # ps \<Rightarrow> (c # p) # ps))"

definition opt_str :: "string option \<Rightarrow> (string \<Rightarrow> 'e + unit) \<Rightarrow> 'e + unit" where
  "opt_str x check = (case x of None \<Rightarrow> Inr () | Some s \<Rightarrow> check s)"

section \<open>Decimal printing\<close>

definition digit_char :: "nat \<Rightarrow> char" where
  "digit_char d = char_of (48 + d)"

fun show_nat :: "nat \<Rightarrow> string" where
  "show_nat n =
     (if n < 10 then [digit_char n] else show_nat (n div 10) @ [digit_char (n mod 10)])"

declare show_nat.simps [simp del]

section \<open>JSON values\<close>

text \<open>What \<open>Serialize\<close> hands to the canonicalizer: every schema uses integers only, the
  protocol's natural numbers. \<open>JNegative n\<close> is the number \<open>- n\<close>; a fraction, which only a
  parsed document can hold, is kept as its text.\<close>

datatype json =
    JNull
  | JBool bool
  | JNum nat
  | JNegative nat
  | JFraction string
  | JStr string
  | JArr "json list"
  | JObj "(string \<times> json) list"

section \<open>Ordered maps\<close>

text \<open>
  The contract of \<open>BTreeMap\<close> the reducers rely on: \<open>get\<close> after \<open>insert\<close>, and
  iteration in strictly increasing key order. The client facts are proved from
  the contract alone.
\<close>

locale ordered_map =
  fixes empty :: "'m"
    and insert_kv :: "'k::linorder \<Rightarrow> 'v \<Rightarrow> 'm \<Rightarrow> 'm"
    and get :: "'m \<Rightarrow> 'k \<Rightarrow> 'v option"
    and entries :: "'m \<Rightarrow> ('k \<times> 'v) list"
    and invar :: "'m \<Rightarrow> bool"
  assumes empty_invar: "invar empty"
    and insert_invar: "invar m \<Longrightarrow> invar (insert_kv k v m)"
    and get_empty: "get empty k = None"
    and get_insert: "get (insert_kv k v m) j = (if j = k then Some v else get m j)"
    and entries_get: "invar m \<Longrightarrow> get m k = Some v \<longleftrightarrow> (k, v) \<in> set (entries m)"
    and entries_sorted: "invar m \<Longrightarrow> sorted_wrt (<) (map fst (entries m))"
begin

definition submap :: "'m \<Rightarrow> 'm \<Rightarrow> bool" where
  "submap m n \<longleftrightarrow> (\<forall>k v. get m k = Some v \<longrightarrow> get n k = Some v)"

lemma submap_refl: "submap m m"
  by (simp add: submap_def)

lemma submap_trans: "submap m n \<Longrightarrow> submap n p \<Longrightarrow> submap m p"
  by (auto simp: submap_def)

lemma insert_fresh_submap: "get m k = None \<Longrightarrow> submap m (insert_kv k v m)"
  by (auto simp: submap_def get_insert)

lemma insert_same_submap: "get m k = Some v \<Longrightarrow> submap m (insert_kv k v m)"
  by (auto simp: submap_def get_insert)

lemma distinct_keys: "invar m \<Longrightarrow> distinct (map fst (entries m))"
  using entries_sorted strict_sorted_iff by blast

lemma entries_insert_set:
  assumes "invar m" "get m k = None"
  shows "set (entries (insert_kv k v m)) = insert (k, v) (set (entries m))"
proof -
  have "x \<in> set (entries (insert_kv k v m)) \<longleftrightarrow> x \<in> insert (k, v) (set (entries m))" for x
    using assms entries_get [OF insert_invar [OF assms(1)], of k v "fst x" "snd x"]
      entries_get [OF assms(1), of "fst x" "snd x"] entries_get [OF assms(1), of k "snd x"]
    by (cases x) (auto simp: get_insert split: if_splits)
  then show ?thesis by blast
qed

lemma all_values_insert:
  assumes "invar m" "\<forall>(j, w) \<in> set (entries m). P j w" "P k v"
  shows "\<forall>(j, w) \<in> set (entries (insert_kv k v m)). P j w"
  using assms entries_get [OF assms(1)] entries_get [OF insert_invar [OF assms(1)], of k v]
  by (fastforce simp: get_insert split: if_splits)

end

text \<open>The implementation: a strictly sorted association list.\<close>

type_synonym ('k, 'v) btree = "('k \<times> 'v) list"

fun bt_insert :: "'k::linorder \<Rightarrow> 'v \<Rightarrow> ('k, 'v) btree \<Rightarrow> ('k, 'v) btree" where
  "bt_insert k v [] = [(k, v)]"
| "bt_insert k v (e # es) =
     (if fst e < k then e # bt_insert k v es
      else if fst e = k then (k, v) # es
      else (k, v) # e # es)"

definition bt_get :: "('k, 'v) btree \<Rightarrow> 'k \<Rightarrow> 'v option" where
  "bt_get m k = map_of m k"

definition bt_values :: "('k, 'v) btree \<Rightarrow> 'v list" where
  "bt_values m = map snd m"

definition bt_contains_key :: "('k, 'v) btree \<Rightarrow> 'k \<Rightarrow> bool" where
  "bt_contains_key m k \<longleftrightarrow> bt_get m k \<noteq> None"

definition bt_invar :: "('k::linorder, 'v) btree \<Rightarrow> bool" where
  "bt_invar m \<longleftrightarrow> sorted_wrt (<) (map fst m)"

lemma bt_get_insert:
  "bt_get (bt_insert k v m) j = (if j = k then Some v else bt_get m j)"
  by (induction m) (auto simp: bt_get_def)

lemma bt_insert_keys: "set (map fst (bt_insert k v m)) = insert k (set (map fst m))"
  by (induction m) auto

lemma bt_insert_invar: "bt_invar m \<Longrightarrow> bt_invar (bt_insert k v m)"
proof (induction m)
  case (Cons e es)
  have "fst e < k \<Longrightarrow> \<forall>y \<in> set (map fst (bt_insert k v es)). fst e < y"
    unfolding bt_insert_keys using Cons.prems by (auto simp: bt_invar_def)
  with Cons show ?case by (auto simp: bt_invar_def)
qed (simp add: bt_invar_def)

lemma bt_get_entries: "bt_invar m \<Longrightarrow> bt_get m k = Some v \<longleftrightarrow> (k, v) \<in> set m"
  by (simp add: bt_get_def bt_invar_def map_of_eq_Some_iff strict_sorted_iff)

interpretation bt: ordered_map "[]" bt_insert bt_get "\<lambda>m. m" bt_invar
  by unfold_locales
    (auto simp: bt_insert_invar bt_get_insert bt_get_entries, auto simp: bt_invar_def bt_get_def)

lemma bt_contains_key_iff: "bt_contains_key m k \<longleftrightarrow> (\<exists>v. bt_get m k = Some v)"
  by (simp add: bt_contains_key_def)

text \<open>\<open>BTreeMap::remove\<close>.\<close>

definition bt_remove :: "'k \<Rightarrow> ('k, 'v) btree \<Rightarrow> ('k, 'v) btree" where
  "bt_remove k m = filter (\<lambda>e. fst e \<noteq> k) m"

lemma bt_get_remove: "bt_get (bt_remove k m) j = (if j = k then None else bt_get m j)"
  by (induction m) (auto simp: bt_remove_def bt_get_def)

lemma bt_remove_invar: "bt_invar m \<Longrightarrow> bt_invar (bt_remove k m)"
  by (induction m) (auto simp: bt_remove_def bt_invar_def)

lemmas bt_simps = bt_get_insert bt_contains_key_def bt.get_empty

section \<open>Log reducers\<close>

text \<open>
  A reducer folds a fallible step over a log and stops at the first error. What
  every component needs of it: a run splits at any point, a step invariant is an
  invariant of the run, and a step-wise preorder relates the ends of a run.
\<close>

fun run_log :: "('s \<Rightarrow> 'a \<Rightarrow> 'e + 's) \<Rightarrow> 's \<Rightarrow> 'a list \<Rightarrow> 'e + 's" where
  "run_log step s [] = Inr s"
| "run_log step s (a # as) = bind_result (step s a) (\<lambda>t. run_log step t as)"

lemma run_log_append:
  "run_log step s (as @ bs) = bind_result (run_log step s as) (\<lambda>t. run_log step t bs)"
proof (induction as arbitrary: s)
  case (Cons a as)
  then show ?case by (cases "step s a") auto
qed simp

locale log_invariant =
  fixes step :: "'s \<Rightarrow> 'a \<Rightarrow> 'e + 's"
    and inv :: "'s \<Rightarrow> bool"
  assumes step_inv: "inv s \<Longrightarrow> step s a = Inr t \<Longrightarrow> inv t"
begin

lemma run_inv: "inv s \<Longrightarrow> run_log step s as = Inr t \<Longrightarrow> inv t"
  by (induction as arbitrary: s) (auto dest: step_inv)

end

locale log_preorder =
  fixes step :: "'s \<Rightarrow> 'a \<Rightarrow> 'e + 's"
    and le :: "'s \<Rightarrow> 's \<Rightarrow> bool"
  assumes le_refl: "le s s"
    and le_trans: "le s t \<Longrightarrow> le t u \<Longrightarrow> le s u"
    and step_le: "step s a = Inr t \<Longrightarrow> le s t"
begin

lemma run_le: "run_log step s as = Inr t \<Longrightarrow> le s t"
  by (induction as arbitrary: s) (auto intro: le_refl dest: step_le le_trans)

lemma prefix_le: "run_log step s (as @ bs) = Inr t \<Longrightarrow>
  \<exists>m. run_log step s as = Inr m \<and> le m t"
  by (auto simp: run_log_append intro: run_le)

end

text \<open>A reducer refines another when every accepted step is a step of it.\<close>

locale log_refinement =
  fixes step :: "'s \<Rightarrow> 'a \<Rightarrow> 'e + 's"
    and abstract_step :: "'t \<Rightarrow> 'a \<Rightarrow> 'f + 't"
    and abstraction :: "'s \<Rightarrow> 't"
  assumes step_refines:
    "step s a = Inr s' \<Longrightarrow> abstract_step (abstraction s) a = Inr (abstraction s')"
begin

lemma run_refines:
  "run_log step s as = Inr s' \<Longrightarrow>
     run_log abstract_step (abstraction s) as = Inr (abstraction s')"
  by (induction as arbitrary: s) (auto dest: step_refines)

end

end
