(* ===== verification/Text_Digest.thy ===== *)
theory Text_Digest
  imports Prelude
begin

text \<open>
  The bottom of \<open>protocol/src\<close>: the error enum (\<open>error.rs\<close>), the text validators
  (\<open>text.rs\<close>), fixed-width digests, their strict lowercase hex form and the
  domain-separated identifier derivations (\<open>digest.rs\<close>). The cryptographic and
  serialization crates the sources call are the fields of \<open>externals\<close>.
\<close>

section \<open>Functions of other crates\<close>

text \<open>
  \<open>sha2\<close>, \<open>sha3\<close>, \<open>serde_json_canonicalizer\<close>, \<open>p256\<close>, \<open>time\<close> and the string parser
  of \<open>serde_json\<close>. A parsed RFC 3339 instant is its UTC offset in seconds, its
  nanosecond and its Unix second.
\<close>

record rfc3339_time =
  rt_offset :: int
  rt_nanosecond :: nat
  rt_unix :: int

record externals =
  ext_sha256 :: "byte list \<Rightarrow> bytes32"
  ext_keccak256 :: "byte list \<Rightarrow> bytes32"
  ext_canonicalize :: "json \<Rightarrow> string + byte list"
  ext_p256_point :: "bytes32 \<Rightarrow> bytes32 \<Rightarrow> bool"
  ext_p256_scalars :: "bytes32 \<Rightarrow> bytes32 \<Rightarrow> bool"
  ext_p256_verify :: "bytes32 \<times> bytes32 \<Rightarrow> byte list \<Rightarrow> bytes32 \<times> bytes32 \<Rightarrow> bool"
  ext_rfc3339 :: "string \<Rightarrow> rfc3339_time option"
  ext_json_string :: "string \<Rightarrow> string option"

section \<open>Errors\<close>

text \<open>
  \<open>Panic\<close> is not a variant of the enum: it is the outcome of an \<open>expect\<close> that
  fails. I/O errors are carried as their text.
\<close>

datatype protocol_error =
    InvalidField string string
  | Json string
  | CanonicalJson string
  | InvalidPublicKey
  | InvalidSignature
  | HighSignatureS
  | DigestMismatch
  | LineageError u32 string
  | LineageActionError u64 string
  | InvalidTreePath string
  | TreeSymlink string
  | TreeEntryType string
  | TreeForbidden string
  | TreeChanged string
  | DuplicateTreePath string
  | TreeIo string string
  | InvalidFasciaTreePath string
  | FasciaTreeSymlink string
  | FasciaTreeEntryType string
  | FasciaTreeChanged string
  | DuplicateFasciaTreePath string
  | FasciaTreeIo string string
  | Panic string

type_synonym 'a result = "protocol_error + 'a"

fun display_error :: "protocol_error \<Rightarrow> string" where
  "display_error (InvalidField field reason) = ''invalid '' @ field @ '': '' @ reason"
| "display_error (Json e) = ''invalid JSON: '' @ e"
| "display_error (CanonicalJson e) = ''canonical JSON failed: '' @ e"
| "display_error InvalidPublicKey = ''invalid P-256 public key''"
| "display_error InvalidSignature = ''invalid P-256 signature''"
| "display_error HighSignatureS = ''P-256 signature is not low-s''"
| "display_error DigestMismatch = ''digest does not match the signed object''"
| "display_error (LineageError sequence reason) =
     ''lineage error at sequence '' @ show_nat (unat sequence) @ '': '' @ reason"
| "display_error (LineageActionError sequence reason) =
     ''lineage-action error at sequence '' @ show_nat (unat sequence) @ '': '' @ reason"
| "display_error (InvalidTreePath p) = ''source-tree path is invalid: '' @ p"
| "display_error (TreeSymlink p) = ''source-tree entry is a symbolic link: '' @ p"
| "display_error (TreeEntryType p) =
     ''source-tree entry is not a regular file or directory: '' @ p"
| "display_error (TreeForbidden p) =
     ''source-tree contains a forbidden private or generated path: '' @ p"
| "display_error (TreeChanged p) = ''source-tree changed while it was being read: '' @ p"
| "display_error (DuplicateTreePath p) = ''duplicate normalized source-tree path: '' @ p"
| "display_error (TreeIo path source) = ''source-tree I/O failed at '' @ path @ '': '' @ source"
| "display_error (InvalidFasciaTreePath p) = ''Fascia-tree path is invalid: '' @ p"
| "display_error (FasciaTreeSymlink p) = ''Fascia-tree entry is a symbolic link: '' @ p"
| "display_error (FasciaTreeEntryType p) =
     ''Fascia-tree entry is not a regular file or directory: '' @ p"
| "display_error (FasciaTreeChanged p) = ''Fascia-tree changed while it was being read: '' @ p"
| "display_error (DuplicateFasciaTreePath p) = ''duplicate normalized Fascia-tree path: '' @ p"
| "display_error (FasciaTreeIo path source) =
     ''Fascia-tree I/O failed at '' @ path @ '': '' @ source"
| "display_error (Panic p) = p"

section \<open>Text validators\<close>

definition invalid :: "string \<Rightarrow> string \<Rightarrow> protocol_error" where
  "invalid field reason = InvalidField field reason"

definition validate_token :: "string \<Rightarrow> string \<Rightarrow> nat \<Rightarrow> nat \<Rightarrow> unit result" where
  "validate_token field value minimum maximum = checks [
     err_if (length value < minimum \<or> length value > maximum)
       (invalid field (''length must be '' @ show_nat minimum @ ''..='' @ show_nat maximum)),
     err_if (value \<noteq> str_trim value \<or> list_ex is_control (str_chars value))
       (invalid field ''must be trimmed and contain no control characters'')]"

text \<open>The loop of \<open>validate_slug\<close>: index and \<open>previous_dash\<close> are its variables.\<close>

fun slug_loop :: "string \<Rightarrow> nat \<Rightarrow> bool \<Rightarrow> string \<Rightarrow> bool result" where
  "slug_loop field index previous_dash [] = Inr previous_dash"
| "slug_loop field index previous_dash (c # cs) =
     (let valid = is_ascii_lowercase c \<or> is_ascii_digit c \<or> c = CHR ''-''
      in if \<not> valid \<or> (c = CHR ''-'' \<and> (index = 0 \<or> previous_dash))
         then Inl (invalid field ''must be lowercase ASCII words separated by single hyphens'')
         else slug_loop field (Suc index) (c = CHR ''-'') cs)"

definition validate_slug :: "string \<Rightarrow> string \<Rightarrow> unit result" where
  "validate_slug field value =
     bind_result (validate_token field value 1 63) (\<lambda>_.
     bind_result (slug_loop field 0 False value) (\<lambda>previous_dash.
     err_if previous_dash (invalid field ''must not end with a hyphen'')))"

definition bundle_part_bad :: "string \<Rightarrow> bool" where
  "bundle_part_bad part \<longleftrightarrow>
     part = [] \<or> hd part = CHR ''-'' \<or> last part = CHR ''-''
     \<or> \<not> list_all (\<lambda>c. is_ascii_alphanumeric c \<or> c = CHR ''-'') part"

definition validate_bundle_id :: "string \<Rightarrow> string \<Rightarrow> unit result" where
  "validate_bundle_id field value =
     bind_result (validate_token field value 3 255) (\<lambda>_.
     let parts = split_on (CHR ''.'') value
     in err_if (length parts < 2 \<or> list_ex bundle_part_bad parts)
          (invalid field
            ''must be a reverse-domain identifier using ASCII letters, digits, and hyphens''))"

definition is_lower_hex_char :: "char \<Rightarrow> bool" where
  "is_lower_hex_char c \<longleftrightarrow>
     is_ascii_digit c \<or> (let n = (of_char c :: nat) in 97 \<le> n \<and> n \<le> 102)"

definition validate_lower_hex :: "string \<Rightarrow> string \<Rightarrow> nat \<Rightarrow> unit result" where
  "validate_lower_hex field value bytes =
     err_if (length value \<noteq> 2 + bytes * 2 \<or> \<not> starts_with ''0x'' value
         \<or> \<not> list_all is_lower_hex_char (drop 2 value))
       (invalid field (''must be 0x followed by '' @ show_nat (bytes * 2)
          @ '' lowercase hex digits''))"

section \<open>Hexadecimal\<close>

definition hex_digit :: "byte \<Rightarrow> char" where
  "hex_digit n = ''0123456789abcdef'' ! unat n"

definition encode_prefixed :: "byte list \<Rightarrow> string" where
  "encode_prefixed bytes =
     ''0x'' @ concat (map (\<lambda>b. [hex_digit (drop_bit 4 b), hex_digit (and b 15)]) bytes)"

definition decode_nibble :: "byte \<Rightarrow> byte option" where
  "decode_nibble value =
     (if 48 \<le> value \<and> value \<le> 57 then Some (value - 48)
      else if 97 \<le> value \<and> value \<le> 102 then Some (value - 97 + 10)
      else None)"

fun decode_pairs :: "byte list \<Rightarrow> byte list option" where
  "decode_pairs (h # l # bs) =
     (case decode_nibble h of None \<Rightarrow> None | Some high \<Rightarrow>
      (case decode_nibble l of None \<Rightarrow> None | Some low \<Rightarrow>
      (case decode_pairs bs of None \<Rightarrow> None | Some rest \<Rightarrow>
        Some (or (push_bit 4 high) low # rest))))"
| "decode_pairs _ = Some []"

definition decode_lower_hex :: "string \<Rightarrow> nat \<Rightarrow> byte list option" where
  "decode_lower_hex input n =
     (if length input \<noteq> n * 2 then None else decode_pairs (str_bytes input))"

definition bytes32_from_hex :: "string \<Rightarrow> string \<Rightarrow> bytes32 result" where
  "bytes32_from_hex field value =
     bind_result (validate_lower_hex field value 32) (\<lambda>_.
     bind_result (ok_or (invalid field ''contains invalid hexadecimal'')
                    (decode_lower_hex (drop 2 value) 32)) (\<lambda>bytes.
     Inr (from_be_bytes bytes)))"

definition bytes32_to_hex :: "bytes32 \<Rightarrow> string" where
  "bytes32_to_hex b = encode_prefixed (to_be_bytes b)"

text \<open>\<open>Deserialize\<close> and \<open>Display\<close> of an address; serde carries the error as text.\<close>

definition address20_deserialize :: "string \<Rightarrow> string + address20" where
  "address20_deserialize value =
     bind_result (map_err display_error (validate_lower_hex ''address'' value 20)) (\<lambda>_.
     bind_result (ok_or ''address contains invalid hexadecimal''
                    (decode_lower_hex (drop 2 value) 20)) (\<lambda>bytes.
     Inr (from_be_bytes bytes)))"

definition address20_display :: "address20 \<Rightarrow> string" where
  "address20_display a = encode_prefixed (to_be_bytes a)"

section \<open>Identifiers\<close>

type_synonym shot_id = bytes32
type_synonym expression_id = bytes32
type_synonym version_id = bytes32

definition is_zero :: "bytes32 \<Rightarrow> bool" where
  "is_zero b \<longleftrightarrow> b = 0"

definition address_is_zero :: "address20 \<Rightarrow> bool" where
  "address_is_zero a \<longleftrightarrow> list_all (\<lambda>b. b = 0) (to_be_bytes a)"

definition sha256 :: "externals \<Rightarrow> byte list \<Rightarrow> bytes32" where
  "sha256 E bytes = ext_sha256 E bytes"

definition version_id_preimage ::
  "shot_id \<Rightarrow> expression_id \<Rightarrow> u64 \<Rightarrow> bytes32 \<Rightarrow> bytes32 \<Rightarrow> byte list" where
  "version_id_preimage shot_id expression_id ordinal genome_digest source_digest =
     str_bytes (''TOHSENO-VERSION-ID-V2'' @ [CHR 0x00])
     @ to_be_bytes shot_id @ to_be_bytes expression_id @ to_be_bytes ordinal
     @ to_be_bytes genome_digest @ to_be_bytes source_digest"

definition version_id_derive ::
  "externals \<Rightarrow> shot_id \<Rightarrow> expression_id \<Rightarrow> u64 \<Rightarrow> bytes32 \<Rightarrow> bytes32 \<Rightarrow> version_id" where
  "version_id_derive E shot_id expression_id ordinal genome_digest source_digest =
     sha256 E (version_id_preimage shot_id expression_id ordinal genome_digest source_digest)"

definition version_id_legacy_preimage ::
  "shot_id \<Rightarrow> expression_id \<Rightarrow> u32 \<Rightarrow> bytes32 \<Rightarrow> byte list" where
  "version_id_legacy_preimage shot_id expression_id sequence record_commitment =
     str_bytes (''TOHSENO-LEGACY-V1-VERSION'' @ [CHR 0x00])
     @ to_be_bytes shot_id @ to_be_bytes expression_id @ to_be_bytes sequence
     @ to_be_bytes record_commitment"

definition version_id_for_legacy_v1 ::
  "externals \<Rightarrow> shot_id \<Rightarrow> expression_id \<Rightarrow> u32 \<Rightarrow> bytes32 \<Rightarrow> version_id" where
  "version_id_for_legacy_v1 E shot_id expression_id sequence record_commitment =
     sha256 E (version_id_legacy_preimage shot_id expression_id sequence record_commitment)"

definition expression_id_legacy_preimage :: "shot_id \<Rightarrow> string \<Rightarrow> byte list" where
  "expression_id_legacy_preimage shot_id bundle_id =
     str_bytes (''TOHSENO-LEGACY-V1-EXPRESSION'' @ [CHR 0x00])
     @ to_be_bytes shot_id @ str_bytes bundle_id"

definition expression_id_for_legacy_v1 ::
  "externals \<Rightarrow> shot_id \<Rightarrow> string \<Rightarrow> expression_id" where
  "expression_id_for_legacy_v1 E shot_id bundle_id =
     sha256 E (expression_id_legacy_preimage shot_id bundle_id)"

section \<open>Canonical commitments\<close>

definition canonical_to_vec :: "externals \<Rightarrow> json \<Rightarrow> byte list result" where
  "canonical_to_vec E value = map_err CanonicalJson (ext_canonicalize E value)"

definition sha256_commitment :: "externals \<Rightarrow> json \<Rightarrow> bytes32 result" where
  "sha256_commitment E value =
     bind_result (canonical_to_vec E value) (\<lambda>bytes. Inr (sha256 E bytes))"

section \<open>Hexadecimal is a bijection onto the strict form\<close>

lemma nibble_cases:
  fixes n :: byte
  assumes "unat n < 16"
  shows "n \<in> {0, 1, 2, 3, 4, 5, 6, 7, 8, 9, 10, 11, 12, 13, 14, 15}"
proof -
  define k where "k = unat n"
  have "[0..<16] = [0 :: nat, 1, 2, 3, 4, 5, 6, 7, 8, 9, 10, 11, 12, 13, 14, 15]"
    by code_simp
  with assms have "k \<in> set [0 :: nat, 1, 2, 3, 4, 5, 6, 7, 8, 9, 10, 11, 12, 13, 14, 15]"
    unfolding k_def by (metis atLeastLessThan_iff le0 set_upt)
  moreover have "n = of_nat k" by (simp add: k_def)
  ultimately show ?thesis by (auto simp del: of_nat_unat)
qed

lemma decode_nibble_hex_digit:
  "unat n < 16 \<Longrightarrow> decode_nibble (of_char (hex_digit n)) = Some n"
  using nibble_cases [of n] by (auto simp: hex_digit_def decode_nibble_def)

lemma hex_digit_is_lower_hex: "unat n < 16 \<Longrightarrow> is_lower_hex_char (hex_digit n)"
  using nibble_cases [of n] by (auto simp: hex_digit_def is_lower_hex_char_def is_ascii_digit_def)

lemma lower_hex_char_cases:
  assumes "is_lower_hex_char c"
  shows "c \<in> set ''0123456789abcdef''"
proof -
  have "map char_of ([48..<58] @ [97..<103] :: nat list) = ''0123456789abcdef''"
    by code_simp
  moreover have "48 \<le> (of_char c :: nat) \<and> of_char c < (58 :: nat)
      \<or> 97 \<le> (of_char c :: nat) \<and> of_char c < (103 :: nat)"
    using assms by (auto simp: is_lower_hex_char_def is_ascii_digit_def Let_def)
  then have "of_char c \<in> set ([48..<58] @ [97..<103] :: nat list)"
    by (simp only: set_append set_upt Un_iff atLeastLessThan_iff)
  then have "char_of (of_char c :: nat) \<in> set (map char_of ([48..<58] @ [97..<103] :: nat list))"
    by (simp only: set_map image_eqI)
  ultimately show ?thesis by (metis char_of_char)
qed

lemma decode_nibble_lower_hex:
  assumes "is_lower_hex_char c"
  obtains n where "decode_nibble (of_char c) = Some n" "unat n < 16" "hex_digit n = c"
proof -
  have "\<exists>n. decode_nibble (of_char c) = Some n \<and> unat n < 16 \<and> hex_digit n = c"
    using lower_hex_char_cases [OF assms] by (auto simp: hex_digit_def decode_nibble_def)
  with that show thesis by blast
qed

lemma byte_and_15: "and b 15 = take_bit 4 (b :: byte)"
  by (simp add: take_bit_eq_mask mask_numeral)

lemma byte_nibbles_join: "or (push_bit 4 (drop_bit 4 b)) (and b 15) = (b :: byte)"
  unfolding byte_and_15 by (rule bit_word_eqI) (auto simp: bit_simps)

lemma nibbles_bound: "unat (drop_bit 4 (b :: byte)) < 16" "unat (and b 15 :: byte) < 16"
proof -
  have "unat b < 256" using unsigned_less [of b] by simp
  then show "unat (drop_bit 4 b) < 16"
    by (simp add: drop_bit_eq_div unat_div)
  show "unat (and b 15 :: byte) < 16"
    unfolding byte_and_15 by (simp add: take_bit_eq_mod unat_mod)
qed

lemma nibbles_split:
  fixes h l :: byte
  assumes "unat h < 16" "unat l < 16"
  shows "drop_bit 4 (or (push_bit 4 h) l) = h" "and (or (push_bit 4 h) l) 15 = l"
  using nibble_cases [OF assms(1)] nibble_cases [OF assms(2)] by auto

definition hex_pair :: "byte \<Rightarrow> string" where
  "hex_pair b = [hex_digit (drop_bit 4 b), hex_digit (and b 15)]"

lemma encode_prefixed_pairs: "encode_prefixed bytes = ''0x'' @ concat (map hex_pair bytes)"
  by (simp add: encode_prefixed_def hex_pair_def [abs_def])

lemma length_hex_pairs [simp]: "length (concat (map hex_pair bytes)) = 2 * length bytes"
  by (induction bytes) (auto simp: hex_pair_def)

lemma hex_pairs_lower: "list_all is_lower_hex_char (concat (map hex_pair bytes))"
  by (induction bytes)
    (auto simp: hex_pair_def intro!: hex_digit_is_lower_hex nibbles_bound)

lemma decode_pairs_hex_pairs: "decode_pairs (str_bytes (concat (map hex_pair bytes))) = Some bytes"
  by (induction bytes)
    (auto simp: hex_pair_def str_bytes_def decode_nibble_hex_digit nibbles_bound byte_nibbles_join)

lemma encode_prefixed_inject: "encode_prefixed xs = encode_prefixed ys \<longleftrightarrow> xs = ys"
  unfolding encode_prefixed_pairs
  by (metis append_same_eq decode_pairs_hex_pairs option.inject same_append_eq)

lemma decode_pairs_onto:
  "list_all is_lower_hex_char s \<Longrightarrow> even (length s) \<Longrightarrow>
     \<exists>bytes. decode_pairs (str_bytes s) = Some bytes \<and> s = concat (map hex_pair bytes)"
proof (induction s rule: induct_list012)
  case (3 h l s)
  then obtain bytes where "decode_pairs (str_bytes s) = Some bytes"
    and "s = concat (map hex_pair bytes)" by auto
  moreover obtain n where "decode_nibble (of_char h) = Some n" "unat n < 16" "hex_digit n = h"
    using "3.prems" decode_nibble_lower_hex by (metis list.pred_inject(2))
  moreover obtain m where "decode_nibble (of_char l) = Some m" "unat m < 16" "hex_digit m = l"
    using "3.prems" decode_nibble_lower_hex by (metis list.pred_inject(2))
  ultimately have "decode_pairs (str_bytes (h # l # s)) = Some (or (push_bit 4 n) m # bytes)"
    and "hex_pair (or (push_bit 4 n) m) = [h, l]" and "s = concat (map hex_pair bytes)"
    by (simp_all add: str_bytes_def hex_pair_def nibbles_split del: drop_bit_or)
  then show ?case by (intro exI [of _ "or (push_bit 4 n) m # bytes"]) simp
qed (auto simp: str_bytes_def)

text \<open>Validation and decoding accept a text exactly when it is the printed form.\<close>

lemma starts_with_iff: "starts_with p s \<longleftrightarrow> (\<exists>t. s = p @ t)"
  by (auto simp: starts_with_def) (metis append_take_drop_id)

lemma lower_hex_decode_iff:
  "validate_lower_hex f s n = Inr () \<and> decode_lower_hex (drop 2 s) n = Some bytes \<longleftrightarrow>
     s = encode_prefixed bytes \<and> length bytes = n"
proof
  assume l: "validate_lower_hex f s n = Inr () \<and> decode_lower_hex (drop 2 s) n = Some bytes"
  then obtain t where s: "s = ''0x'' @ t" and hex: "list_all is_lower_hex_char t"
    and len: "length t = n * 2" and dec: "decode_pairs (str_bytes t) = Some bytes"
    by (auto simp: validate_lower_hex_def decode_lower_hex_def starts_with_iff split: if_splits)
  from decode_pairs_onto [OF hex] len dec have "t = concat (map hex_pair bytes)" by auto
  with s len show "s = encode_prefixed bytes \<and> length bytes = n"
    by (simp add: encode_prefixed_pairs)
next
  assume "s = encode_prefixed bytes \<and> length bytes = n"
  then show "validate_lower_hex f s n = Inr () \<and> decode_lower_hex (drop 2 s) n = Some bytes"
    by (auto simp: validate_lower_hex_def decode_lower_hex_def encode_prefixed_pairs
        starts_with_iff hex_pairs_lower decode_pairs_hex_pairs)
qed

text \<open>
  The strict hexadecimal form of a 32-byte digest is a bijection: a text
  parses to a digest exactly when it is the digest's own printed form, so
  uppercase, unprefixed or wrongly sized texts are all refused and printing then
  parsing is the identity.
\<close>

lemma bytes32_hex_exact: "bytes32_from_hex field s = Inr b \<longleftrightarrow> s = bytes32_to_hex b"
proof -
  have "bytes32_from_hex field s = Inr b \<longleftrightarrow>
      (\<exists>bytes. validate_lower_hex field s 32 = Inr () \<and>
        decode_lower_hex (drop 2 s) 32 = Some bytes \<and> from_be_bytes bytes = b)"
    by (auto simp: bytes32_from_hex_def)
  also have "\<dots> \<longleftrightarrow> (\<exists>bytes. s = encode_prefixed bytes \<and> length bytes = 32 \<and> from_be_bytes bytes = b)"
    using lower_hex_decode_iff [of field s 32] by blast
  also have "\<dots> \<longleftrightarrow> s = bytes32_to_hex b"
    by (auto simp: bytes32_to_hex_def to_from_be_bytes from_to_be_bytes
        intro!: exI [of _ "to_be_bytes b"])
  finally show ?thesis .
qed

lemma address20_hex_exact: "address20_deserialize s = Inr a \<longleftrightarrow> s = address20_display a"
proof -
  have "address20_deserialize s = Inr a \<longleftrightarrow>
      (\<exists>bytes. validate_lower_hex ''address'' s 20 = Inr () \<and>
        decode_lower_hex (drop 2 s) 20 = Some bytes \<and> from_be_bytes bytes = a)"
    by (auto simp: address20_deserialize_def)
  also have "\<dots> \<longleftrightarrow> (\<exists>bytes. s = encode_prefixed bytes \<and> length bytes = 20 \<and> from_be_bytes bytes = a)"
    using lower_hex_decode_iff [of "''address''" s 20] by blast
  also have "\<dots> \<longleftrightarrow> s = address20_display a"
    by (auto simp: address20_display_def to_from_be_bytes from_to_be_bytes
        intro!: exI [of _ "to_be_bytes a"])
  finally show ?thesis .
qed

section \<open>Slugs\<close>

text \<open>ASCII text: each character is its own chunk.\<close>

lemma utf8_chunks_ascii:
  "list_all (\<lambda>c. of_char c < (128 :: nat)) s \<Longrightarrow> utf8_chunks s = map (\<lambda>c. [c]) s"
  by (induction s rule: utf8_chunks.induct) (auto simp: utf8_width_def Let_def)

lemma scalar_of_single [simp]: "scalar_of [c] = of_char c"
  by simp

lemma strip_none:
  assumes "list_all (\<lambda>k. \<not> P k) ks"
  shows "dropWhile P ks = ks"
  using assms by (cases ks) auto

definition is_printable :: "char \<Rightarrow> bool" where
  "is_printable c \<longleftrightarrow> 32 < (of_char c :: nat) \<and> of_char c < (127 :: nat)"

lemma printable_ascii_token:
  assumes "list_all is_printable s"
  shows "str_trim s = s \<and> \<not> list_ex is_control (str_chars s)"
proof -
  have chunks: "utf8_chunks s = map (\<lambda>c. [c]) s"
    using assms by (intro utf8_chunks_ascii) (auto simp: is_printable_def list_all_iff)
  have "list_all (\<lambda>k. \<not> is_whitespace (scalar_of k)) (map (\<lambda>c. [c]) s)"
    using assms by (auto simp: list_all_iff is_printable_def is_whitespace_def)
  then have "str_trim s = s"
    by (simp add: str_trim_def chunks strip_none Let_def list_all_rev concat_map_singleton)
  moreover have "\<not> list_ex is_control (str_chars s)"
    using assms
    by (auto simp: str_chars_def chunks list_ex_iff list_all_iff is_printable_def is_control_def)
  ultimately show ?thesis by blast
qed

definition is_slug_char :: "char \<Rightarrow> bool" where
  "is_slug_char c \<longleftrightarrow> is_ascii_lowercase c \<or> is_ascii_digit c"

lemma slug_char_printable: "is_slug_char c \<or> c = CHR ''-'' \<Longrightarrow> is_printable c"
  by (auto simp: is_printable_def is_slug_char_def is_ascii_lowercase_def is_ascii_digit_def Let_def)

lemma dash_not_slug_char [simp]: "\<not> is_slug_char (CHR ''-'')"
  by (simp add: is_slug_char_def is_ascii_lowercase_def is_ascii_digit_def)

definition slug_words :: "string \<Rightarrow> bool" where
  "slug_words s \<longleftrightarrow> list_all (\<lambda>w. w \<noteq> [] \<and> list_all is_slug_char w) (split_on (CHR ''-'') s)"

lemma split_on_not_Nil [simp]: "split_on d s \<noteq> []"
  by (induction s) (auto split: list.splits)

text \<open>The loop reads the rest of a word: with no character of it read yet
  (\<open>index = 0\<close> or just after a hyphen) it must not be empty.\<close>

lemma slug_loop_words:
  "slug_loop field index dash s = Inr False \<longleftrightarrow>
     (case split_on (CHR ''-'') s of w # ws \<Rightarrow>
        list_all is_slug_char w \<and> (w = [] \<longrightarrow> \<not> dash \<and> (s = [] \<or> index \<noteq> 0)) \<and>
        list_all (\<lambda>w. w \<noteq> [] \<and> list_all is_slug_char w) ws
      | [] \<Rightarrow> False)"
proof (induction s arbitrary: index dash)
  case (Cons c s)
  obtain w ws where split: "split_on (CHR ''-'') s = w # ws"
    by (cases "split_on (CHR ''-'') s") auto
  show ?case
  proof (cases "c = CHR ''-''")
    case True
    then show ?thesis
      using split by (auto simp: Cons.IH is_slug_char_def [symmetric] Let_def)
  next
    case False
    then show ?thesis
      using split by (auto simp: Cons.IH is_slug_char_def Let_def)
  qed
qed simp

lemma split_on_chars:
  "c \<in> set s \<Longrightarrow> c = d \<or> (\<exists>w \<in> set (split_on d s). c \<in> set w)"
  by (induction s) (auto split: list.splits if_splits)

lemma slug_words_printable: "slug_words s \<Longrightarrow> list_all is_printable s"
  using split_on_chars [of _ s "CHR ''-''"] slug_char_printable
  by (fastforce simp: slug_words_def list_all_iff)

text \<open>
  a slug is accepted exactly when it is one to 63 bytes of lowercase ASCII
  words of letters and digits joined by single hyphens. The one-pass loop with
  its hyphen flag is equivalent to splitting at the hyphens and asking that no
  word is empty.
\<close>

lemma validate_slug_grammar:
  "validate_slug field v = Inr () \<longleftrightarrow> 1 \<le> length v \<and> length v \<le> 63 \<and> slug_words v"
proof -
  obtain w ws where split: "split_on (CHR ''-'') v = w # ws"
    by (cases "split_on (CHR ''-'') v") auto
  have loop: "slug_loop field 0 False v = Inr False \<longleftrightarrow> slug_words v" if "v \<noteq> []"
    using that split by (auto simp: slug_loop_words slug_words_def)
  have "validate_slug field v = Inr () \<longleftrightarrow>
      validate_token field v 1 63 = Inr () \<and> slug_loop field 0 False v = Inr False"
    by (auto simp: validate_slug_def)
  also have "\<dots> \<longleftrightarrow> 1 \<le> length v \<and> length v \<le> 63 \<and> slug_words v"
    using loop printable_ascii_token [of v] slug_words_printable [of v]
    by (cases "v = []") (auto simp: validate_token_def Suc_le_eq)
  finally show ?thesis .
qed

section \<open>Identifier preimages\<close>

lemma version_id_preimage_inject:
  "version_id_preimage s e n g d = version_id_preimage s' e' n' g' d' \<longleftrightarrow>
     s = s' \<and> e = e' \<and> n = n' \<and> g = g' \<and> d = d'"
  by (auto simp: version_id_preimage_def)

lemma version_id_legacy_preimage_inject:
  "version_id_legacy_preimage s e n c = version_id_legacy_preimage s' e' n' c' \<longleftrightarrow>
     s = s' \<and> e = e' \<and> n = n' \<and> c = c'"
  by (auto simp: version_id_legacy_preimage_def)

lemma expression_id_legacy_preimage_inject:
  "expression_id_legacy_preimage s b = expression_id_legacy_preimage s' b' \<longleftrightarrow> s = s' \<and> b = b'"
  by (auto simp: expression_id_legacy_preimage_def)

lemma preimage_domains:
  "version_id_preimage s e n g d \<noteq> version_id_legacy_preimage s' e' n' c"
  "version_id_preimage s e n g d \<noteq> expression_id_legacy_preimage s' b"
  "version_id_legacy_preimage s e n' c \<noteq> expression_id_legacy_preimage s' b"
  by (auto simp: version_id_preimage_def version_id_legacy_preimage_def
      expression_id_legacy_preimage_def str_bytes_def)

text \<open>
  Two versions share an identifier only if they agree on Shot, expression,
  ordinal, genome and source, or the two named byte strings are a SHA-256
  collision: no field can be shifted into its neighbour.
\<close>

lemma version_id_binds:
  assumes "version_id_derive E s e n g d = version_id_derive E s' e' n' g' d'"
  shows "(s, e, n, g, d) = (s', e', n', g', d') \<or>
    (version_id_preimage s e n g d \<noteq> version_id_preimage s' e' n' g' d' \<and>
     sha256 E (version_id_preimage s e n g d) = sha256 E (version_id_preimage s' e' n' g' d'))"
  using assms by (auto simp: version_id_derive_def version_id_preimage_inject)

end
