(* ===== verification/Signatures.thy ===== *)
theory Signatures
  imports Text_Digest
begin

text \<open>
  \<open>protocol/src/signature.rs\<close>: P-256 public keys and signatures, the low-s rule,
  detached signatures and sidecars, and the compact 129-byte signature encoding;
  with the JSON form (\<open>Serialize\<close>) of each, which the commitments cover.
\<close>

section \<open>JSON forms\<close>

text \<open>
  Digests and addresses serialize as their hex text, integers as numbers,
  \<open>Option\<close> as \<open>null\<close> or, with \<open>skip_serializing_if\<close>, as an absent member.
\<close>

definition json_bytes32 :: "bytes32 \<Rightarrow> json" where
  "json_bytes32 b = JStr (bytes32_to_hex b)"

definition json_address20 :: "address20 \<Rightarrow> json" where
  "json_address20 a = JStr (address20_display a)"

definition json_word :: "'a::len word \<Rightarrow> json" where
  "json_word w = JNum (unat w)"

definition json_strings :: "string list \<Rightarrow> json" where
  "json_strings xs = JArr (map JStr xs)"

fun json_option :: "('a \<Rightarrow> json) \<Rightarrow> 'a option \<Rightarrow> json" where
  "json_option f None = JNull"
| "json_option f (Some x) = f x"

fun member_option :: "string \<Rightarrow> ('a \<Rightarrow> json) \<Rightarrow> 'a option \<Rightarrow> (string \<times> json) list" where
  "member_option name f None = []"
| "member_option name f (Some x) = [(name, f x)]"

section \<open>Keys and signatures\<close>

definition COMPACT_SIGNATURE_VERSION :: byte where
  "COMPACT_SIGNATURE_VERSION = 1"

definition COMPACT_SIGNATURE_LENGTH :: nat where
  "COMPACT_SIGNATURE_LENGTH = 129"

definition P256_HALF_ORDER :: "byte list" where
  "P256_HALF_ORDER =
    [0x7f, 0xff, 0xff, 0xff, 0x80, 0x00, 0x00, 0x00, 0x7f, 0xff, 0xff, 0xff, 0xff, 0xff, 0xff, 0xff,
     0xde, 0x73, 0x7d, 0x56, 0xd3, 0x8b, 0xcf, 0x42, 0x79, 0xdc, 0xe5, 0x61, 0x7e, 0x31, 0x92, 0xa8]"

record p256_public_key =
  pk_x :: bytes32
  pk_y :: bytes32

definition verifying_key :: "externals \<Rightarrow> p256_public_key \<Rightarrow> (bytes32 \<times> bytes32) result" where
  "verifying_key E key =
     (if ext_p256_point E (pk_x key) (pk_y key) then Inr (pk_x key, pk_y key)
      else Inl InvalidPublicKey)"

definition public_key_validate :: "externals \<Rightarrow> p256_public_key \<Rightarrow> unit result" where
  "public_key_validate E key = bind_result (verifying_key E key) (\<lambda>_. Inr ())"

definition public_key_json :: "p256_public_key \<Rightarrow> json" where
  "public_key_json key = JObj [(''x'', json_bytes32 (pk_x key)), (''y'', json_bytes32 (pk_y key))]"

record p256_signature =
  sig_r :: bytes32
  sig_s :: bytes32

definition validate_scalars :: "externals \<Rightarrow> p256_signature \<Rightarrow> (bytes32 \<times> bytes32) result" where
  "validate_scalars E sg =
     (if ext_p256_scalars E (sig_r sg) (sig_s sg) then Inr (sig_r sg, sig_s sg)
      else Inl InvalidSignature)"

definition is_low_s :: "p256_signature \<Rightarrow> bool" where
  "is_low_s sg \<longleftrightarrow> to_be_bytes (sig_s sg) \<le> P256_HALF_ORDER"

definition validate_low_s :: "externals \<Rightarrow> p256_signature \<Rightarrow> (bytes32 \<times> bytes32) result" where
  "validate_low_s E sg =
     bind_result (validate_scalars E sg) (\<lambda>signature.
       if \<not> is_low_s sg then Inl HighSignatureS else Inr signature)"

definition signature_json :: "p256_signature \<Rightarrow> json" where
  "signature_json sg = JObj [(''r'', json_bytes32 (sig_r sg)), (''s'', json_bytes32 (sig_s sg))]"

datatype signature_algorithm = P256

definition verify_digest ::
  "externals \<Rightarrow> p256_public_key \<Rightarrow> bytes32 \<Rightarrow> p256_signature \<Rightarrow> unit result" where
  "verify_digest E public_key digest sg =
     bind_result (verifying_key E public_key) (\<lambda>vk.
     bind_result (validate_low_s E sg) (\<lambda>signature.
       if ext_p256_verify E vk (to_be_bytes digest) signature then Inr ()
       else Inl InvalidSignature))"

record detached_signature =
  ds_algorithm :: signature_algorithm
  ds_digest :: bytes32
  ds_signature :: p256_signature
  ds_low_s :: bool

definition detached_validate :: "externals \<Rightarrow> detached_signature \<Rightarrow> unit result" where
  "detached_validate E d = checks [
     err_if (ds_algorithm d \<noteq> P256) (invalid ''signature.algorithm'' ''must be p256''),
     err_if (\<not> ds_low_s d) (invalid ''signature.low_s'' ''must be true''),
     bind_result (validate_low_s E (ds_signature d)) (\<lambda>_. Inr ())]"

definition detached_verify ::
  "externals \<Rightarrow> detached_signature \<Rightarrow> p256_public_key \<Rightarrow> unit result" where
  "detached_verify E d public_key = checks [
     detached_validate E d,
     verify_digest E public_key (ds_digest d) (ds_signature d)]"

record signature_sidecar =
  ss_schema :: string
  ss_algorithm :: signature_algorithm
  ss_digest :: bytes32
  ss_public_key :: p256_public_key
  ss_signature :: p256_signature
  ss_low_s :: bool

definition SIDECAR_SCHEMA :: string where
  "SIDECAR_SCHEMA = ''tohseno.signature/1''"

definition sidecar_validate :: "externals \<Rightarrow> signature_sidecar \<Rightarrow> unit result" where
  "sidecar_validate E sc = checks [
     err_if (ss_schema sc \<noteq> SIDECAR_SCHEMA)
       (invalid ''signature.schema'' (''must be '' @ SIDECAR_SCHEMA)),
     err_if (ss_algorithm sc \<noteq> P256) (invalid ''signature.algorithm'' ''must be p256''),
     err_if (\<not> ss_low_s sc) (invalid ''signature.low_s'' ''must be true''),
     public_key_validate E (ss_public_key sc),
     bind_result (validate_low_s E (ss_signature sc)) (\<lambda>_. Inr ())]"

text \<open>The signed object is passed as its JSON form.\<close>

definition sidecar_verify :: "externals \<Rightarrow> signature_sidecar \<Rightarrow> json \<Rightarrow> unit result" where
  "sidecar_verify E sc signed_object =
     bind_result (sidecar_validate E sc) (\<lambda>_.
     bind_result (sha256_commitment E signed_object) (\<lambda>observed.
       if ss_digest sc \<noteq> observed then Inl DigestMismatch
       else verify_digest E (ss_public_key sc) observed (ss_signature sc)))"

definition sidecar_json :: "signature_sidecar \<Rightarrow> json" where
  "sidecar_json sc = JObj [
     (''schema'', JStr (ss_schema sc)),
     (''algorithm'', JStr (case ss_algorithm sc of P256 \<Rightarrow> ''p256'')),
     (''digest'', json_bytes32 (ss_digest sc)),
     (''public_key'', public_key_json (ss_public_key sc)),
     (''signature'', signature_json (ss_signature sc)),
     (''low_s'', JBool (ss_low_s sc))]"

section \<open>The compact encoding\<close>

definition encode_compact ::
  "externals \<Rightarrow> p256_public_key \<Rightarrow> p256_signature \<Rightarrow> byte list result" where
  "encode_compact E public_key sg =
     bind_result (public_key_validate E public_key) (\<lambda>_.
     bind_result (validate_low_s E sg) (\<lambda>_.
       Inr (COMPACT_SIGNATURE_VERSION # to_be_bytes (pk_x public_key)
            @ to_be_bytes (pk_y public_key) @ to_be_bytes (sig_r sg) @ to_be_bytes (sig_s sg))))"

definition slice :: "nat \<Rightarrow> nat \<Rightarrow> byte list \<Rightarrow> byte list" where
  "slice i j bs = take (j - i) (drop i bs)"

definition decode_compact ::
  "externals \<Rightarrow> byte list \<Rightarrow> (p256_public_key \<times> p256_signature) result" where
  "decode_compact E encoded =
     (if length encoded \<noteq> COMPACT_SIGNATURE_LENGTH \<or> encoded ! 0 \<noteq> COMPACT_SIGNATURE_VERSION
      then Inl (invalid ''compact_signature'' ''must be version 0x01 followed by x, y, r, and s'')
      else
        let component = (\<lambda>i j. from_be_bytes (slice i j encoded));
            public_key = \<lparr>pk_x = component 1 33, pk_y = component 33 65\<rparr>;
            signature = \<lparr>sig_r = component 65 97, sig_s = component 97 129\<rparr>
        in bind_result (public_key_validate E public_key) (\<lambda>_.
           bind_result (validate_low_s E signature) (\<lambda>_.
             Inr (public_key, signature))))"

section \<open>What verification establishes\<close>

lemma public_key_validate_ok [simp]:
  "public_key_validate E key = Inr u \<longleftrightarrow> ext_p256_point E (pk_x key) (pk_y key)"
  by (simp add: public_key_validate_def verifying_key_def)

lemma validate_low_s_ok [simp]:
  "validate_low_s E sg = Inr p \<longleftrightarrow>
     ext_p256_scalars E (sig_r sg) (sig_s sg) \<and> is_low_s sg \<and> p = (sig_r sg, sig_s sg)"
  by (auto simp: validate_low_s_def validate_scalars_def)

lemma verify_digest_ok:
  "verify_digest E key d sg = Inr u \<longleftrightarrow>
     ext_p256_point E (pk_x key) (pk_y key) \<and> ext_p256_scalars E (sig_r sg) (sig_s sg) \<and>
     is_low_s sg \<and>
     ext_p256_verify E (pk_x key, pk_y key) (to_be_bytes d) (sig_r sg, sig_s sg)"
  by (auto simp: verify_digest_def verifying_key_def)

lemma sha256_commitment_ok:
  "sha256_commitment E j = Inr d \<longleftrightarrow>
     (\<exists>bytes. ext_canonicalize E j = Inr bytes \<and> d = sha256 E bytes)"
  by (auto simp: sha256_commitment_def canonical_to_vec_def)

lemma sidecar_verifyD:
  assumes "sidecar_verify E sc j = Inr u"
  shows "sha256_commitment E j = Inr (ss_digest sc)"
    and "verify_digest E (ss_public_key sc) (ss_digest sc) (ss_signature sc) = Inr ()"
    and "ss_low_s sc" and "ss_schema sc = SIDECAR_SCHEMA"
  using assms by (auto simp: sidecar_verify_def sidecar_validate_def split: if_splits)

section \<open>Low-s\<close>

lemma be_nat_Cons: "be_nat (b # bs) = unat b * 256 ^ length bs + be_nat bs"
proof (induction bs rule: rev_induct)
  case Nil
  then show ?case by (simp add: be_nat_def)
next
  case (snoc c bs)
  have "be_nat ((b # bs) @ [c]) = be_nat (b # bs) * 256 + unat c" by (rule be_nat_snoc)
  with snoc show ?case by (simp add: algebra_simps)
qed

text \<open>Byte arrays of one length compare as the numbers they spell.\<close>

lemma be_nat_order: "length xs = length ys \<Longrightarrow> xs < ys \<longleftrightarrow> be_nat xs < be_nat ys"
proof (induction xs ys rule: list_induct2)
  case (Cons x xs y ys)
  have bx: "be_nat xs < 256 ^ length ys" and bys: "be_nat ys < 256 ^ length ys"
    using be_nat_less [of xs] be_nat_less [of ys] Cons.hyps by simp_all
  consider "x < y" | "x = y" | "y < x" by (rule linorder_cases)
  then show ?case
  proof cases
    case 1
    then have "(unat x + 1) * 256 ^ length ys \<le> unat y * 256 ^ length ys"
      by (intro mult_right_mono) (auto simp: word_less_nat_alt)
    with bx have "be_nat (x # xs) < be_nat (y # ys)"
      using Cons.hyps by (simp add: be_nat_Cons algebra_simps)
    with 1 show ?thesis by simp
  next
    case 2
    then show ?thesis using Cons by (simp add: be_nat_Cons)
  next
    case 3
    then have "(unat y + 1) * 256 ^ length ys \<le> unat x * 256 ^ length ys"
      by (intro mult_right_mono) (auto simp: word_less_nat_alt)
    with bys have "be_nat (y # ys) < be_nat (x # xs)"
      using Cons.hyps by (simp add: be_nat_Cons algebra_simps)
    with 3 show ?thesis by auto
  qed
qed simp

lemma be_nat_to_be_bytes32: "be_nat (to_be_bytes (w :: bytes32)) = unat w"
proof -
  have "unat w < 2 ^ 256" using unsigned_less [of w] by simp
  then show ?thesis by (simp add: to_be_bytes_def be_nat_be_nat_bytes)
qed

text \<open>The order of the P-256 group (FIPS 186-4, D.1.2.3).\<close>

definition p256_order :: nat where
  "p256_order = 0xFFFFFFFF00000000FFFFFFFFFFFFFFFFBCE6FAADA7179E84F3B9CAC2FC632551"

lemma half_order_value: "be_nat P256_HALF_ORDER = p256_order div 2"
  by (simp add: P256_HALF_ORDER_def p256_order_def be_nat_def)

lemma is_low_s_iff: "is_low_s sg \<longleftrightarrow> unat (sig_s sg) \<le> p256_order div 2"
proof -
  have "length (to_be_bytes (sig_s sg)) = length P256_HALF_ORDER"
    by (simp add: P256_HALF_ORDER_def)
  from be_nat_order [OF this [symmetric]] show ?thesis
    by (simp add: is_low_s_def linorder_not_less [symmetric] half_order_value
        be_nat_to_be_bytes32)
qed

text \<open>
  the byte-wise low-s test singles out one member of every ECDSA pair: for a
  scalar \<open>s\<close> strictly between zero and the P-256 order, exactly one of \<open>s\<close> and
  its negation passes, so a valid signature cannot be re-encoded by negating \<open>s\<close>.
\<close>

lemma low_s_excludes_negation:
  assumes "0 < unat (sig_s a)" and "unat (sig_s a) < p256_order"
    and "unat (sig_s b) = p256_order - unat (sig_s a)"
  shows "is_low_s a \<longleftrightarrow> \<not> is_low_s b"
proof -
  have "odd p256_order" by (simp add: p256_order_def)
  then have "p256_order = 2 * (p256_order div 2) + 1" by presburger
  with assms show ?thesis unfolding is_low_s_iff by linarith
qed

section \<open>The compact encoding round-trips\<close>

text \<open>
  a byte string decodes to a key and a signature exactly when encoding them
  produces it: the 129-byte form is canonical and loses nothing.
\<close>

lemma compact_round_trip:
  "decode_compact E bs = Inr (key, sg) \<longleftrightarrow> encode_compact E key sg = Inr bs"
proof
  assume d: "decode_compact E bs = Inr (key, sg)"
  then have len: "length bs = 129" and hd: "bs ! 0 = 1"
    and key: "key = \<lparr>pk_x = from_be_bytes (slice 1 33 bs), pk_y = from_be_bytes (slice 33 65 bs)\<rparr>"
    and sg: "sg = \<lparr>sig_r = from_be_bytes (slice 65 97 bs), sig_s = from_be_bytes (slice 97 129 bs)\<rparr>"
    and ok: "public_key_validate E key = Inr ()" "validate_low_s E sg = Inr (sig_r sg, sig_s sg)"
    by (auto simp: decode_compact_def COMPACT_SIGNATURE_LENGTH_def COMPACT_SIGNATURE_VERSION_def
        Let_def split: if_splits)
  have sl: "length (slice i (i + 32) bs) = 32" if "i + 32 \<le> 129" for i
    using that len by (simp add: slice_def)
  have "bs = take 1 bs @ slice 1 33 bs @ slice 33 65 bs @ slice 65 97 bs @ slice 97 129 bs"
    using len by (intro nth_equalityI) (auto simp: slice_def nth_append)
  moreover have "take 1 bs = [1]"
    using len hd by (cases bs) auto
  ultimately have "bs = 1 # slice 1 33 bs @ slice 33 65 bs @ slice 65 97 bs @ slice 97 129 bs"
    by simp
  then show "encode_compact E key sg = Inr bs"
    using ok sl [of 1] sl [of 33] sl [of 65] sl [of 97]
    by (simp add: encode_compact_def key sg to_from_be_bytes COMPACT_SIGNATURE_VERSION_def)
next
  assume "encode_compact E key sg = Inr bs"
  then show "decode_compact E bs = Inr (key, sg)"
    by (auto simp: encode_compact_def decode_compact_def COMPACT_SIGNATURE_LENGTH_def Let_def
        slice_def from_to_be_bytes COMPACT_SIGNATURE_VERSION_def is_low_s_def)
qed

end
