(* ===== verification/Identity.thy ===== *)
theory Identity
  imports Signatures
begin

text \<open>
  \<open>protocol/src/identity.rs\<close>: the chain-scoped BuilderID and its text form, device
  keys, recovery authority, installation identity, the account salt and the
  CREATE2 account prediction.
\<close>

definition ROBINHOOD_CHAIN_ID :: u64 where
  "ROBINHOOD_CHAIN_ID = 4663"

text \<open>From \<open>protocol/src/builder.rs\<close>: the largest integer every JSON reader keeps.\<close>

definition MAX_SAFE_JSON_INTEGER :: u64 where
  "MAX_SAFE_JSON_INTEGER = 9007199254740991"

definition RECOVERY_DERIVATION_PATH :: string where
  "RECOVERY_DERIVATION_PATH = ''m/44'/60'/0'/0/0''"

definition INITIAL_BUILDER_ACCOUNT_SALT_DOMAIN :: "byte list" where
  "INITIAL_BUILDER_ACCOUNT_SALT_DOMAIN = str_bytes (''TOHSENO-BUILDER-SALT-V1'' @ [CHR 0x00])"

section \<open>BuilderID\<close>

datatype builder_id = BuilderId (account: address20)

definition builder_id_validate :: "builder_id \<Rightarrow> unit result" where
  "builder_id_validate b =
     err_if (address_is_zero (account b)) (invalid ''builder_id'' ''account must not be zero'')"

definition builder_id_prefix :: string where
  "builder_id_prefix = ''eip155:'' @ show_nat (unat ROBINHOOD_CHAIN_ID) @ '':''"

definition builder_id_display :: "builder_id \<Rightarrow> string" where
  "builder_id_display b = builder_id_prefix @ address20_display (account b)"

definition strip_prefix :: "string \<Rightarrow> string \<Rightarrow> string option" where
  "strip_prefix p s = (if starts_with p s then Some (drop (length p) s) else None)"

text \<open>The address is read by \<open>serde_json::from_str\<close> from the text put between
  double quotes.\<close>

definition json_quoted :: "string \<Rightarrow> string" where
  "json_quoted s = [CHR 0x22] @ s @ [CHR 0x22]"

definition address20_from_json :: "externals \<Rightarrow> string \<Rightarrow> address20 option" where
  "address20_from_json E doc =
     (case ext_json_string E doc of None \<Rightarrow> None
      | Some s \<Rightarrow> (case address20_deserialize s of Inl e \<Rightarrow> None | Inr a \<Rightarrow> Some a))"

definition builder_id_parse :: "externals \<Rightarrow> string \<Rightarrow> builder_id result" where
  "builder_id_parse E value =
     bind_result (ok_or (invalid ''builder_id'' (''must begin with '' @ builder_id_prefix))
                    (strip_prefix builder_id_prefix value)) (\<lambda>address.
     bind_result (ok_or (invalid ''builder_id'' ''contains an invalid account address'')
                    (address20_from_json E (json_quoted address))) (\<lambda>acct.
     bind_result (builder_id_validate (BuilderId acct)) (\<lambda>_.
       Inr (BuilderId acct))))"

definition builder_id_json :: "builder_id \<Rightarrow> json" where
  "builder_id_json b = JStr (builder_id_display b)"

section \<open>Device keys, recovery, installations\<close>

definition keccak256 :: "externals \<Rightarrow> byte list \<Rightarrow> bytes32" where
  "keccak256 E bytes = ext_keccak256 E bytes"

definition device_key_id :: "externals \<Rightarrow> p256_public_key \<Rightarrow> bytes32" where
  "device_key_id E public_key =
     keccak256 E (to_be_bytes (pk_x public_key) @ to_be_bytes (pk_y public_key))"

definition key_digest :: "externals \<Rightarrow> byte list \<Rightarrow> p256_public_key \<Rightarrow> bytes32" where
  "key_digest E domain public_key =
     sha256 E (domain @ to_be_bytes (pk_x public_key) @ to_be_bytes (pk_y public_key))"

definition installation_id :: "externals \<Rightarrow> p256_public_key \<Rightarrow> bytes32" where
  "installation_id E public_key =
     key_digest E (str_bytes (''TOHSENO-INSTALLATION-ID-V1'' @ [CHR 0x00])) public_key"

record builder_device_key =
  dk_key_id :: bytes32
  dk_public_key :: p256_public_key

definition device_key_from_public_key ::
  "externals \<Rightarrow> p256_public_key \<Rightarrow> builder_device_key result" where
  "device_key_from_public_key E public_key =
     bind_result (public_key_validate E public_key) (\<lambda>_.
       Inr \<lparr>dk_key_id = device_key_id E public_key, dk_public_key = public_key\<rparr>)"

definition device_key_validate :: "externals \<Rightarrow> builder_device_key \<Rightarrow> unit result" where
  "device_key_validate E k = checks [
     public_key_validate E (dk_public_key k),
     err_if (dk_key_id k \<noteq> device_key_id E (dk_public_key k))
       (invalid ''key_id'' ''must be the protocol device-key digest of x and y'')]"

datatype recovery_scheme = Bip39Bip44Secp256k1

record recovery_authority =
  ra_scheme :: recovery_scheme
  ra_derivation_path :: string
  ra_address :: address20

definition recovery_authority_validate :: "recovery_authority \<Rightarrow> unit result" where
  "recovery_authority_validate r = checks [
     err_if (ra_scheme r \<noteq> Bip39Bip44Secp256k1)
       (invalid ''recovery.scheme'' ''unsupported recovery scheme''),
     err_if (ra_derivation_path r \<noteq> RECOVERY_DERIVATION_PATH)
       (invalid ''recovery.derivation_path'' (''must be '' @ RECOVERY_DERIVATION_PATH)),
     err_if (address_is_zero (ra_address r)) (invalid ''recovery.address'' ''must not be zero'')]"

record installation_identity =
  ii_installation_id :: bytes32
  ii_public_key :: p256_public_key

definition installation_from_public_key ::
  "externals \<Rightarrow> p256_public_key \<Rightarrow> installation_identity result" where
  "installation_from_public_key E public_key =
     bind_result (public_key_validate E public_key) (\<lambda>_.
       Inr \<lparr>ii_installation_id = installation_id E public_key, ii_public_key = public_key\<rparr>)"

definition installation_validate :: "externals \<Rightarrow> installation_identity \<Rightarrow> unit result" where
  "installation_validate E i = checks [
     public_key_validate E (ii_public_key i),
     err_if (ii_installation_id i \<noteq> installation_id E (ii_public_key i))
       (invalid ''installation_id'' ''must be the protocol installation digest of x and y'')]"

section \<open>Account derivation\<close>

definition initial_builder_account_salt :: "externals \<Rightarrow> p256_public_key \<Rightarrow> bytes32 result" where
  "initial_builder_account_salt E initial_key =
     bind_result (public_key_validate E initial_key) (\<lambda>_.
       Inr (sha256 E (INITIAL_BUILDER_ACCOUNT_SALT_DOMAIN
              @ to_be_bytes (device_key_id E initial_key))))"

definition create2_init_code :: "p256_public_key \<Rightarrow> byte list \<Rightarrow> byte list" where
  "create2_init_code initial_key creation_bytecode =
     creation_bytecode @ to_be_bytes (pk_x initial_key) @ to_be_bytes (pk_y initial_key)"

definition create2_preimage :: "address20 \<Rightarrow> bytes32 \<Rightarrow> bytes32 \<Rightarrow> byte list" where
  "create2_preimage factory salt init_code_hash =
     0xff # to_be_bytes factory @ to_be_bytes salt @ to_be_bytes init_code_hash"

definition predict_builder_account ::
  "externals \<Rightarrow> address20 \<Rightarrow> bytes32 \<Rightarrow> p256_public_key \<Rightarrow> byte list \<Rightarrow> builder_id result" where
  "predict_builder_account E factory salt initial_key creation_bytecode =
     bind_result (checks [
       public_key_validate E initial_key,
       err_if (address_is_zero factory) (invalid ''factory'' ''must not be the zero address''),
       err_if (creation_bytecode = []) (invalid ''creation_bytecode'' ''must not be empty'')])
     (\<lambda>_.
       let init_code_hash = keccak256 E (create2_init_code initial_key creation_bytecode);
           digest = keccak256 E (create2_preimage factory salt init_code_hash)
       in Inr (BuilderId (from_be_bytes (drop 12 (to_be_bytes digest)))))"

section \<open>Facts\<close>

lemma address_is_zero_iff [simp]: "address_is_zero a \<longleftrightarrow> a = 0"
proof
  assume "address_is_zero a"
  then have "to_be_bytes a = replicate 20 0"
    by (auto simp: address_is_zero_def list_all_length intro!: nth_equalityI)
  also have "\<dots> = to_be_bytes (0 :: address20)" by code_simp
  finally show "a = 0" by simp
next
  have "address_is_zero 0" by code_simp
  then show "a = 0 \<Longrightarrow> address_is_zero a" by simp
qed

lemma builder_id_validate_ok [simp]: "builder_id_validate b = Inr u \<longleftrightarrow> account b \<noteq> 0"
  by (simp add: builder_id_validate_def)

lemma strip_prefix_Some: "strip_prefix p s = Some t \<longleftrightarrow> s = p @ t"
  by (auto simp: strip_prefix_def starts_with_iff)

text \<open>
  RFC 8259: a quoted text without quotation mark, reverse solidus and control
  characters stands for itself.
\<close>

definition json_plain_strings :: "externals \<Rightarrow> bool" where
  "json_plain_strings E \<longleftrightarrow>
     (\<forall>s. list_all (\<lambda>c. is_printable c \<and> c \<noteq> CHR 0x22 \<and> c \<noteq> CHR 0x5C) s
        \<longrightarrow> ext_json_string E (json_quoted s) = Some s)"

lemma lower_hex_plain:
  "is_lower_hex_char c \<Longrightarrow> is_printable c \<and> c \<noteq> CHR 0x22 \<and> c \<noteq> CHR 0x5C"
  by (auto simp: is_lower_hex_char_def is_ascii_digit_def is_printable_def Let_def)

lemma address20_display_plain:
  "list_all (\<lambda>c. is_printable c \<and> c \<noteq> CHR 0x22 \<and> c \<noteq> CHR 0x5C) (address20_display a)"
  using hex_pairs_lower [of "to_be_bytes a"] lower_hex_plain
  by (auto simp: address20_display_def encode_prefixed_pairs list_all_iff is_printable_def)

lemma address20_display_exact: "address20_deserialize (address20_display a) = Inr a"
  by (simp add: address20_hex_exact)

text \<open>
  every nonzero BuilderID survives printing and parsing, for any JSON parser
  that reads plain quoted texts as themselves; the zero account is refused.
\<close>

lemma builder_id_round_trip:
  assumes "json_plain_strings E"
  shows "builder_id_parse E (builder_id_display b) =
    (if account b = 0 then Inl (invalid ''builder_id'' ''account must not be zero'') else Inr b)"
proof -
  have "ext_json_string E (json_quoted (address20_display (account b))) =
      Some (address20_display (account b))"
    using assms address20_display_plain unfolding json_plain_strings_def by blast
  moreover have "strip_prefix builder_id_prefix (builder_id_display b)
      = Some (address20_display (account b))"
    by (simp add: strip_prefix_Some builder_id_display_def)
  ultimately show ?thesis
    by (cases b) (simp add: builder_id_parse_def address20_from_json_def address20_display_exact
        builder_id_validate_def err_if_def)
qed

text \<open>
  RFC 8259: the six characters of the escape \<open>u0030\<close> stand for the digit zero, whatever
  plain text follows.
\<close>

definition json_zero_escapes :: "externals \<Rightarrow> bool" where
  "json_zero_escapes E \<longleftrightarrow>
     (\<forall>s. list_all (\<lambda>c. is_printable c \<and> c \<noteq> CHR 0x22 \<and> c \<noteq> CHR 0x5C) s
        \<longrightarrow> ext_json_string E (json_quoted ((CHR 0x5C # ''u0030'') @ s)) = Some (CHR ''0'' # s))"

text \<open>The printed form with the leading zero of the address escaped.\<close>

definition builder_id_escaped :: "builder_id \<Rightarrow> string" where
  "builder_id_escaped b =
     builder_id_prefix @ (CHR 0x5C # ''u0030'') @ tl (address20_display (account b))"

lemma address20_display_zero: "address20_display a = CHR ''0'' # tl (address20_display a)"
  by (simp add: address20_display_def encode_prefixed_pairs)

lemma builder_id_escaped_differs: "builder_id_escaped b \<noteq> builder_id_display b"
  unfolding builder_id_escaped_def builder_id_display_def
  by (subst address20_display_zero [of "account b"]) simp

text \<open>
  parsing is not exact. The address is put between quotes and read as JSON, so for any
  parser that decodes escapes as JSON prescribes, every nonzero BuilderID has a second
  accepted text besides its printed form.
\<close>

lemma builder_id_parse_not_exact:
  assumes "json_zero_escapes E" and "account b \<noteq> 0"
  shows "builder_id_parse E (builder_id_escaped b) = Inr b \<and> builder_id_escaped b \<noteq> builder_id_display b"
proof -
  let ?rest = "tl (address20_display (account b))"
  have "list_all (\<lambda>c. is_printable c \<and> c \<noteq> CHR 0x22 \<and> c \<noteq> CHR 0x5C) ?rest"
    using address20_display_plain [of "account b"] by (subst (asm) address20_display_zero) simp
  then have "ext_json_string E (json_quoted ((CHR 0x5C # ''u0030'') @ ?rest)) = Some (CHR ''0'' # ?rest)"
    using assms(1) unfolding json_zero_escapes_def by blast
  then have "address20_from_json E (json_quoted ((CHR 0x5C # ''u0030'') @ ?rest)) = Some (account b)"
    using address20_display_exact [of "account b"]
    unfolding address20_from_json_def address20_display_zero [of "account b", symmetric] by simp
  moreover have "strip_prefix builder_id_prefix (builder_id_escaped b)
      = Some ((CHR 0x5C # ''u0030'') @ ?rest)"
    by (simp add: strip_prefix_Some builder_id_escaped_def)
  ultimately show ?thesis
    using assms(2) builder_id_escaped_differs
    by (cases b) (simp add: builder_id_parse_def builder_id_validate_def)
qed

end
