(* ===== verification/Shot_Record.thy ===== *)
theory Shot_Record
  imports Identity
begin

text \<open>
  The frozen first protocol generation: canonical timestamps and the signed
  \<open>tohseno.shot/1\<close> record (\<open>protocol/src/record.rs\<close>) and the verification of a
  record lineage (\<open>protocol/src/evolution.rs\<close>).
\<close>

section \<open>Timestamps\<close>

datatype canonical_timestamp = CanonicalTimestamp (as_str: string)

definition timestamp_parse :: "externals \<Rightarrow> string \<Rightarrow> canonical_timestamp result" where
  "timestamp_parse E value =
     bind_result (ok_or (invalid ''created_at'' ''must be a valid RFC3339 timestamp'')
                    (ext_rfc3339 E value)) (\<lambda>parsed.
     if rt_offset parsed \<noteq> 0 \<or> rt_nanosecond parsed \<noteq> 0 \<or> length value \<noteq> 20
        \<or> last value \<noteq> CHR ''Z''
     then Inl (invalid ''created_at'' ''must use exact UTC second form YYYY-MM-DDTHH:MM:SSZ'')
     else Inr (CanonicalTimestamp value))"

definition unix_timestamp :: "externals \<Rightarrow> canonical_timestamp \<Rightarrow> int result" where
  "unix_timestamp E t =
     (case ext_rfc3339 E (as_str t) of
        None \<Rightarrow> Inl (Panic ''validated canonical timestamp'')
      | Some parsed \<Rightarrow> Inr (rt_unix parsed))"

definition timestamp_json :: "canonical_timestamp \<Rightarrow> json" where
  "timestamp_json t = JStr (as_str t)"

section \<open>Records\<close>

definition PROTOCOL_NAME :: string where "PROTOCOL_NAME = ''tohseno''"
definition SHOT_SCHEMA :: string where "SHOT_SCHEMA = ''tohseno.shot/1''"
definition APPLE_FASCIA_ID :: string where "APPLE_FASCIA_ID = ''tohseno.apple/1''"

record factory_descriptor =
  fd_implementation :: string
  fd_version :: string
  fd_source_commit :: string

definition is_git_object_id :: "string \<Rightarrow> bool" where
  "is_git_object_id s \<longleftrightarrow> length s = 40 \<and> list_all is_lower_hex_char s"

definition factory_validate :: "factory_descriptor \<Rightarrow> unit result" where
  "factory_validate f = checks [
     validate_token ''factory.implementation'' (fd_implementation f) 1 200,
     validate_token ''factory.version'' (fd_version f) 1 64,
     err_if (\<not> is_git_object_id (fd_source_commit f))
       (invalid ''factory.source_commit'' ''must be a 40-character lowercase Git object ID'')]"

definition factory_json :: "factory_descriptor \<Rightarrow> json" where
  "factory_json f = JObj [
     (''implementation'', JStr (fd_implementation f)),
     (''version'', JStr (fd_version f)),
     (''source_commit'', JStr (fd_source_commit f))]"

datatype shot_origin =
  LegacyAdoption (legacy_latest_shot: u32) (legacy_source_sha256: bytes32)

fun shot_origin_json :: "shot_origin \<Rightarrow> json" where
  "shot_origin_json (LegacyAdoption latest source) = JObj [
     (''kind'', JStr ''legacy_adoption''),
     (''legacy_latest_shot'', json_word latest),
     (''legacy_source_sha256'', json_bytes32 source)]"

record shot_record =
  sr_protocol :: string
  sr_schema :: string
  sr_shot_id :: shot_id
  sr_slug :: string
  sr_builder_id :: builder_id
  sr_sequence :: u32
  sr_previous :: "bytes32 option"
  sr_fascia :: string
  sr_bundle_id :: string
  sr_bundle_version :: u32
  sr_genesis_input_sha256 :: bytes32
  sr_source_tree_sha256 :: bytes32
  sr_fascia_sha256 :: bytes32
  sr_factory :: factory_descriptor
  sr_created_at :: canonical_timestamp
  sr_origin :: "shot_origin option"

definition shot_record_json :: "shot_record \<Rightarrow> json" where
  "shot_record_json r = JObj ([
     (''protocol'', JStr (sr_protocol r)),
     (''schema'', JStr (sr_schema r)),
     (''shot_id'', json_bytes32 (sr_shot_id r)),
     (''slug'', JStr (sr_slug r)),
     (''builder_id'', builder_id_json (sr_builder_id r)),
     (''sequence'', json_word (sr_sequence r)),
     (''previous'', json_option json_bytes32 (sr_previous r)),
     (''fascia'', JStr (sr_fascia r)),
     (''bundle_id'', JStr (sr_bundle_id r)),
     (''bundle_version'', json_word (sr_bundle_version r)),
     (''genesis_input_sha256'', json_bytes32 (sr_genesis_input_sha256 r)),
     (''source_tree_sha256'', json_bytes32 (sr_source_tree_sha256 r)),
     (''fascia_sha256'', json_bytes32 (sr_fascia_sha256 r)),
     (''factory'', factory_json (sr_factory r)),
     (''created_at'', timestamp_json (sr_created_at r))]
     @ member_option ''origin'' shot_origin_json (sr_origin r))"

definition record_origin_checks :: "shot_record \<Rightarrow> unit result" where
  "record_origin_checks r =
     (case sr_origin r of
        Some (LegacyAdoption latest source) \<Rightarrow>
          bind_result (err_if (latest = 0)
            (invalid ''origin.legacy_latest_shot'' ''must be at least 1'')) (\<lambda>_.
          bind_result (ok_or (invalid ''origin.legacy_latest_shot''
              ''must leave room for the adopted root Evolution'') (checked_add latest 1)) (\<lambda>expected.
          checks [
            err_if (sr_sequence r \<noteq> expected)
              (invalid ''sequence'' ''an adopted root must equal legacy_latest_shot + 1''),
            err_if (sr_previous r \<noteq> None)
              (invalid ''previous''
                ''an adopted root has no protocol commitment to reference and must be null''),
            err_if (source = 0)
              (invalid ''origin.legacy_source_sha256''
                ''must commit the adopted legacy source'')]))
      | None \<Rightarrow>
          (if sr_sequence r = 1 then
             err_if (sr_previous r \<noteq> None) (invalid ''previous'' ''must be null for sequence 1'')
           else
             err_if (sr_previous r = None)
               (invalid ''previous''
                 ''must contain the preceding protocol Evolution commitment'')))"

definition shot_record_validate :: "shot_record \<Rightarrow> unit result" where
  "shot_record_validate r = checks [
     err_if (sr_protocol r \<noteq> PROTOCOL_NAME) (invalid ''protocol'' (''must be '' @ PROTOCOL_NAME)),
     err_if (sr_schema r \<noteq> SHOT_SCHEMA) (invalid ''schema'' (''must be '' @ SHOT_SCHEMA)),
     err_if (sr_fascia r \<noteq> APPLE_FASCIA_ID) (invalid ''fascia'' (''must be '' @ APPLE_FASCIA_ID)),
     err_if (is_zero (sr_shot_id r)) (invalid ''shot_id'' ''must not be zero''),
     builder_id_validate (sr_builder_id r),
     validate_slug ''slug'' (sr_slug r),
     validate_bundle_id ''bundle_id'' (sr_bundle_id r),
     err_if (sr_sequence r = 0) (invalid ''sequence'' ''must be at least 1''),
     err_if (sr_bundle_version r \<noteq> sr_sequence r)
       (invalid ''bundle_version'' ''must equal the Evolution sequence''),
     record_origin_checks r,
     factory_validate (sr_factory r)]"

definition record_legacy_latest_shot :: "shot_record \<Rightarrow> u32 option" where
  "record_legacy_latest_shot r = map_option legacy_latest_shot (sr_origin r)"

definition shot_record_commitment :: "externals \<Rightarrow> shot_record \<Rightarrow> bytes32 result" where
  "shot_record_commitment E r =
     bind_result (shot_record_validate r) (\<lambda>_. sha256_commitment E (shot_record_json r))"

definition record_verify_signature ::
  "externals \<Rightarrow> shot_record \<Rightarrow> signature_sidecar \<Rightarrow> unit result" where
  "record_verify_signature E r signature = checks [
     shot_record_validate r,
     sidecar_verify E signature (shot_record_json r)]"

section \<open>Lineage verification, generation 1\<close>

record verified_evolution =
  ve_sequence :: u32
  ve_commitment :: bytes32
  ve_signer :: p256_public_key

record verified_lineage =
  vl_shot_id :: shot_id
  vl_builder_id :: builder_id
  vl_root_sequence :: u32
  vl_legacy_latest_shot :: "u32 option"
  vl_evolutions :: "verified_evolution list"

definition verified_lineage_head :: "verified_lineage \<Rightarrow> verified_evolution option" where
  "verified_lineage_head l =
     (if vl_evolutions l = [] then None else Some (last (vl_evolutions l)))"

type_synonym v1_entry = "shot_record \<times> signature_sidecar"

text \<open>The loop of \<open>verify_lineage\<close>: \<open>index\<close>, \<open>previous_commitment\<close> and
  \<open>previous_time\<close> are its variables, \<open>root\<close> and \<open>root_sequence\<close> are fixed.\<close>

definition v1_time_checks ::
  "externals \<Rightarrow> shot_record \<Rightarrow> int option \<Rightarrow> unit result" where
  "v1_time_checks E r previous_time =
     (case previous_time of None \<Rightarrow> Inr ()
      | Some time \<Rightarrow> bind_result (unix_timestamp E (sr_created_at r)) (\<lambda>t.
          err_if (t < time) (LineageError (sr_sequence r) ''created_at moved backwards'')))"

definition v1_entry_checks ::
  "externals \<Rightarrow> shot_record \<Rightarrow> u32 \<Rightarrow> nat \<Rightarrow> bytes32 option \<Rightarrow> int option \<Rightarrow> v1_entry
     \<Rightarrow> unit result" where
  "v1_entry_checks E root root_sequence index previous_commitment previous_time entry =
     (let r = fst entry; fail = LineageError (sr_sequence r) in
      bind_result (if index < 2 ^ 32 then Inr (of_nat index)
                   else Inl (LineageError (- 1) ''lineage is too long'')) (\<lambda>offset.
      bind_result (ok_or (LineageError (- 1) ''lineage sequence overflowed'')
                     (checked_add root_sequence offset)) (\<lambda>expected_sequence.
      checks [
        err_if (sr_sequence r \<noteq> expected_sequence)
          (fail ''sequence is not contiguous from the lineage root''),
        err_if (index > 0 \<and> sr_origin r \<noteq> None)
          (fail ''legacy-adoption origin is permitted only on the lineage root''),
        err_if (sr_shot_id r \<noteq> sr_shot_id root) (fail ''ShotID changed''),
        err_if (sr_builder_id r \<noteq> sr_builder_id root)
          (fail ''BuilderID changed without an ownership-proof model''),
        err_if (sr_bundle_id r \<noteq> sr_bundle_id root) (fail ''bundle identifier changed''),
        err_if (sr_fascia r \<noteq> sr_fascia root) (fail ''Fascia identifier changed''),
        err_if (sr_previous r \<noteq> previous_commitment)
          (fail ''previous commitment does not match''),
        v1_time_checks E r previous_time,
        map_err (\<lambda>e. fail (''record signature failed: '' @ display_error e))
          (record_verify_signature E r (snd entry))])))"

fun v1_loop ::
  "externals \<Rightarrow> shot_record \<Rightarrow> u32 \<Rightarrow> nat \<Rightarrow> bytes32 option \<Rightarrow> int option \<Rightarrow> v1_entry list
     \<Rightarrow> verified_evolution list result" where
  "v1_loop E root root_sequence index previous_commitment previous_time [] = Inr []"
| "v1_loop E root root_sequence index previous_commitment previous_time (entry # entries) =
     (let r = fst entry; fail = LineageError (sr_sequence r) in
      bind_result (v1_entry_checks E root root_sequence index previous_commitment previous_time
                     entry) (\<lambda>_.
      bind_result (map_err (\<lambda>e. fail (''commitment failed: '' @ display_error e))
                     (shot_record_commitment E r)) (\<lambda>commitment.
      bind_result (unix_timestamp E (sr_created_at r)) (\<lambda>time.
      bind_result (v1_loop E root root_sequence (Suc index) (Some commitment) (Some time) entries)
        (\<lambda>evolutions.
        Inr (\<lparr>ve_sequence = sr_sequence r, ve_commitment = commitment,
               ve_signer = ss_public_key (snd entry)\<rparr> # evolutions))))))"

definition v1_root_sequence :: "shot_record \<Rightarrow> u32 result" where
  "v1_root_sequence genesis =
     (case record_legacy_latest_shot genesis of
        Some _ \<Rightarrow> Inr (sr_sequence genesis)
      | None \<Rightarrow>
          (if sr_sequence genesis = 1 \<and> sr_previous genesis = None then Inr 1
           else Inl (LineageError (sr_sequence genesis)
             ''lineage must begin at sequence 1 or at a declared legacy-adoption root'')))"

definition verify_lineage :: "externals \<Rightarrow> v1_entry list \<Rightarrow> verified_lineage result" where
  "verify_lineage E entries =
     (case entries of
        [] \<Rightarrow> Inl (LineageError 0 ''lineage is empty'')
      | (genesis, _) # _ \<Rightarrow>
          bind_result (map_err
            (\<lambda>e. LineageError (sr_sequence genesis) (''lineage root is invalid: '' @ display_error e))
            (shot_record_validate genesis)) (\<lambda>_.
          bind_result (v1_root_sequence genesis) (\<lambda>root_sequence.
          bind_result (v1_loop E genesis root_sequence 0 None None entries) (\<lambda>evolutions.
            Inr \<lparr>vl_shot_id = sr_shot_id genesis, vl_builder_id = sr_builder_id genesis,
                 vl_root_sequence = root_sequence,
                 vl_legacy_latest_shot = record_legacy_latest_shot genesis,
                 vl_evolutions = evolutions\<rparr>))))"

end
