(* ===== verification/Ontology.thy ===== *)
theory Ontology
  imports Shot_Record
begin

text \<open>
  \<open>protocol/src/ontology.rs\<close>: the neutral versioned records a lineage action
  carries, each with its validation and its JSON form, the canonical Organ graph
  and the acceptance-gate names.
\<close>

definition INTENTION_SCHEMA :: string where "INTENTION_SCHEMA = ''tohseno.intention/2''"
definition SHOT_COMMITMENT_SCHEMA :: string where
  "SHOT_COMMITMENT_SCHEMA = ''tohseno.shot-commitment/2''"
definition GENOME_SCHEMA :: string where "GENOME_SCHEMA = ''tohseno.genome/2''"
definition GENOME_PROPOSAL_SCHEMA :: string where
  "GENOME_PROPOSAL_SCHEMA = ''tohseno.genome-proposal/2''"
definition GENOME_ACCEPTANCE_SCHEMA :: string where
  "GENOME_ACCEPTANCE_SCHEMA = ''tohseno.genome-acceptance/2''"
definition EXPRESSION_SCHEMA :: string where "EXPRESSION_SCHEMA = ''tohseno.expression/2''"
definition ORGAN_SCHEMA :: string where "ORGAN_SCHEMA = ''tohseno.organ/2''"
definition VERSION_SCHEMA :: string where "VERSION_SCHEMA = ''tohseno.version/2''"
definition FEEDBACK_SCHEMA :: string where "FEEDBACK_SCHEMA = ''tohseno.feedback/2''"
definition EVOLUTIONARY_INTENT_SCHEMA :: string where
  "EVOLUTIONARY_INTENT_SCHEMA = ''tohseno.evolutionary-intent/2''"
definition EVOLUTION_SCHEMA :: string where "EVOLUTION_SCHEMA = ''tohseno.evolution/2''"
definition OWNERSHIP_SCHEMA :: string where "OWNERSHIP_SCHEMA = ''tohseno.ownership/2''"
definition TOKEN_ASSOCIATION_SCHEMA :: string where
  "TOKEN_ASSOCIATION_SCHEMA = ''tohseno.token-association/2''"
definition VERIFICATION_RESULT_SCHEMA :: string where
  "VERIFICATION_RESULT_SCHEMA = ''tohseno.verification-result/2''"
definition ARTIFACT_AVAILABILITY_SCHEMA :: string where
  "ARTIFACT_AVAILABILITY_SCHEMA = ''tohseno.artifact-availability/2''"
definition PARENT_RELATION_SCHEMA :: string where
  "PARENT_RELATION_SCHEMA = ''tohseno.parent-relation/2''"
definition PARENT_AUTHORIZATION_SCHEMA :: string where
  "PARENT_AUTHORIZATION_SCHEMA = ''tohseno.parent-authorization/2''"

section \<open>Shared checks\<close>

definition require_schema :: "string \<Rightarrow> string \<Rightarrow> string \<Rightarrow> unit result" where
  "require_schema field observed expected =
     err_if (observed \<noteq> expected) (invalid field (''must be '' @ expected))"

definition require_nonzero :: "string \<Rightarrow> bytes32 \<Rightarrow> unit result" where
  "require_nonzero field digest = err_if (digest = 0) (invalid field ''must not be zero'')"

definition validate_tokens ::
  "string \<Rightarrow> string list \<Rightarrow> nat \<Rightarrow> nat \<Rightarrow> nat \<Rightarrow> unit result" where
  "validate_tokens field values minimum maximum item_maximum = checks [
     err_if (length values < minimum \<or> length values > maximum)
       (invalid field (''must contain '' @ show_nat minimum @ ''..='' @ show_nat maximum
          @ '' entries'')),
     each_unique (\<lambda>value. validate_token field value 1 item_maximum) (\<lambda>value. value)
       (invalid field ''must not contain duplicates'') [] values]"

definition validate_safe_positive :: "string \<Rightarrow> u64 \<Rightarrow> unit result" where
  "validate_safe_positive field value =
     err_if (value = 0 \<or> value > MAX_SAFE_JSON_INTEGER)
       (invalid field (''must be in 1..='' @ show_nat (unat MAX_SAFE_JSON_INTEGER)))"

definition optional :: "'a option \<Rightarrow> ('a \<Rightarrow> unit result) \<Rightarrow> unit result" where
  "optional x check = (case x of None \<Rightarrow> Inr () | Some v \<Rightarrow> check v)"

section \<open>Artifacts\<close>

datatype availability_status =
    Absent | Unknown | IntentionallyPrivate | LocallyAvailable | PubliclyAvailable
  | Replicated | CryptographicallyVerified | OnChainAnchored

fun availability_status_name :: "availability_status \<Rightarrow> string" where
  "availability_status_name Absent = ''absent''"
| "availability_status_name Unknown = ''unknown''"
| "availability_status_name IntentionallyPrivate = ''intentionally_private''"
| "availability_status_name LocallyAvailable = ''locally_available''"
| "availability_status_name PubliclyAvailable = ''publicly_available''"
| "availability_status_name Replicated = ''replicated''"
| "availability_status_name CryptographicallyVerified = ''cryptographically_verified''"
| "availability_status_name OnChainAnchored = ''on_chain_anchored''"

datatype artifact_location_kind = LocalPath | Https | ContentAddress | NodeLocation | Chain

fun location_kind_name :: "artifact_location_kind \<Rightarrow> string" where
  "location_kind_name LocalPath = ''local_path''"
| "location_kind_name Https = ''https''"
| "location_kind_name ContentAddress = ''content_address''"
| "location_kind_name NodeLocation = ''node''"
| "location_kind_name Chain = ''chain''"

record artifact_location =
  al_kind :: artifact_location_kind
  al_value :: string

definition artifact_location_validate :: "artifact_location \<Rightarrow> unit result" where
  "artifact_location_validate l = checks [
     validate_token ''artifact.location.value'' (al_value l) 1 4096,
     err_if (al_kind l = Https \<and> \<not> starts_with ''https://'' (al_value l))
       (invalid ''artifact.location.value'' ''an https location must begin with https://'')]"

definition artifact_location_json :: "artifact_location \<Rightarrow> json" where
  "artifact_location_json l = JObj [
     (''kind'', JStr (location_kind_name (al_kind l))),
     (''value'', JStr (al_value l))]"

record artifact_descriptor =
  ad_digest :: bytes32
  ad_media_type :: string
  ad_byte_length :: u64
  ad_name :: "string option"

definition artifact_descriptor_validate :: "artifact_descriptor \<Rightarrow> unit result" where
  "artifact_descriptor_validate d = checks [
     require_nonzero ''artifact.digest'' (ad_digest d),
     validate_token ''artifact.media_type'' (ad_media_type d) 1 255,
     err_if (ad_byte_length d > MAX_SAFE_JSON_INTEGER)
       (invalid ''artifact.byte_length'' ''must be a JSON-safe unsigned integer''),
     optional (ad_name d) (\<lambda>name. validate_token ''artifact.name'' name 1 255)]"

definition artifact_descriptor_json :: "artifact_descriptor \<Rightarrow> json" where
  "artifact_descriptor_json d = JObj ([
     (''digest'', json_bytes32 (ad_digest d)),
     (''media_type'', JStr (ad_media_type d)),
     (''byte_length'', json_word (ad_byte_length d))]
     @ member_option ''name'' JStr (ad_name d))"

record artifact_availability =
  av_schema :: string
  av_artifact :: artifact_descriptor
  av_status :: availability_status
  av_locations :: "artifact_location list"

definition artifact_availability_new ::
  "artifact_descriptor \<Rightarrow> availability_status \<Rightarrow> artifact_availability" where
  "artifact_availability_new artifact status =
     \<lparr>av_schema = ARTIFACT_AVAILABILITY_SCHEMA, av_artifact = artifact, av_status = status,
      av_locations = []\<rparr>"

definition artifact_availability_validate :: "artifact_availability \<Rightarrow> unit result" where
  "artifact_availability_validate a = checks [
     require_schema ''artifact_availability.schema'' (av_schema a) ARTIFACT_AVAILABILITY_SCHEMA,
     artifact_descriptor_validate (av_artifact a),
     err_if (length (av_locations a) > 32)
       (invalid ''artifact_availability.locations'' ''must contain at most 32 locations''),
     each_unique artifact_location_validate (\<lambda>l. (al_kind l, al_value l))
       (invalid ''artifact_availability.locations'' ''must not contain duplicate locations'')
       [] (av_locations a),
     err_if ((av_status a = Absent \<or> av_status a = Unknown) \<and> av_locations a \<noteq> [])
       (invalid ''artifact_availability.locations''
         ''absent or unknown bytes cannot claim a location'')]"

definition artifact_availability_json :: "artifact_availability \<Rightarrow> json" where
  "artifact_availability_json a = JObj [
     (''schema'', JStr (av_schema a)),
     (''artifact'', artifact_descriptor_json (av_artifact a)),
     (''status'', JStr (availability_status_name (av_status a))),
     (''locations'', JArr (map artifact_location_json (av_locations a)))]"

section \<open>Intention\<close>

record original_material =
  om_artifact :: artifact_availability
  om_inline_text :: "string option"

definition original_material_validate :: "externals \<Rightarrow> original_material \<Rightarrow> unit result" where
  "original_material_validate E m = checks [
     artifact_availability_validate (om_artifact m),
     optional (om_inline_text m) (\<lambda>text.
       let bytes = str_bytes text; artifact = av_artifact (om_artifact m) in checks [
         err_if (sha256 E bytes \<noteq> ad_digest artifact
             \<or> u64_try_from (length bytes) \<noteq> Some (ad_byte_length artifact))
           (invalid ''intention.material.inline_text''
             ''exact UTF-8 bytes must match the artifact digest and length''),
         err_if (av_status (om_artifact m) = Absent \<or> av_status (om_artifact m) = Unknown)
           (invalid ''intention.material.availability''
             ''inline bytes cannot be absent or unknown'')])]"

definition original_material_json :: "original_material \<Rightarrow> json" where
  "original_material_json m = JObj (
     [(''artifact'', artifact_availability_json (om_artifact m))]
     @ member_option ''inline_text'' JStr (om_inline_text m))"

record intention_record =
  in_schema :: string
  in_materials :: "original_material list"
  in_owner_note :: "string option"
  in_captured_at :: canonical_timestamp

definition intention_new ::
  "original_material list \<Rightarrow> canonical_timestamp \<Rightarrow> intention_record" where
  "intention_new materials captured_at =
     \<lparr>in_schema = INTENTION_SCHEMA, in_materials = materials, in_owner_note = None,
      in_captured_at = captured_at\<rparr>"

definition intention_validate :: "externals \<Rightarrow> intention_record \<Rightarrow> unit result" where
  "intention_validate E r = checks [
     require_schema ''intention.schema'' (in_schema r) INTENTION_SCHEMA,
     err_if (in_materials r = [] \<or> length (in_materials r) > 64)
       (invalid ''intention.materials'' ''must contain 1..=64 original materials''),
     each_unique (original_material_validate E) (\<lambda>m. ad_digest (av_artifact (om_artifact m)))
       (invalid ''intention.materials'' ''must not repeat an artifact digest'')
       [] (in_materials r),
     optional (in_owner_note r) (\<lambda>note. validate_token ''intention.owner_note'' note 1 4000)]"

definition intention_json :: "intention_record \<Rightarrow> (string \<times> json) list" where
  "intention_json r = [
     (''schema'', JStr (in_schema r)),
     (''materials'', JArr (map original_material_json (in_materials r)))]
     @ member_option ''owner_note'' JStr (in_owner_note r)
     @ [(''captured_at'', timestamp_json (in_captured_at r))]"

definition intention_commitment :: "externals \<Rightarrow> intention_record \<Rightarrow> bytes32 result" where
  "intention_commitment E r =
     bind_result (intention_validate E r) (\<lambda>_. sha256_commitment E (JObj (intention_json r)))"

section \<open>Shot commitment\<close>

datatype commitment_origin =
    Native
  | LegacyV1 (co_root_record: bytes32) (co_head_record: bytes32) (co_root_sequence: u32)
  | Descendant (co_parent_shot: shot_id) (co_parent_head: bytes32)

fun commitment_origin_validate :: "commitment_origin \<Rightarrow> unit result" where
  "commitment_origin_validate Native = Inr ()"
| "commitment_origin_validate (LegacyV1 root_record head_record root_sequence) = checks [
     require_nonzero ''shot_commitment.origin.root_record_commitment'' root_record,
     require_nonzero ''shot_commitment.origin.head_record_commitment'' head_record,
     err_if (root_sequence = 0)
       (invalid ''shot_commitment.origin.root_sequence'' ''must be positive'')]"
| "commitment_origin_validate (Descendant parent_shot_id parent_head) = checks [
     err_if (is_zero parent_shot_id)
       (invalid ''shot_commitment.origin.parent_shot_id'' ''must not be zero''),
     require_nonzero ''shot_commitment.origin.parent_head'' parent_head]"

fun commitment_origin_json :: "commitment_origin \<Rightarrow> json" where
  "commitment_origin_json Native = JObj [(''kind'', JStr ''native'')]"
| "commitment_origin_json (LegacyV1 root_record head_record root_sequence) = JObj [
     (''kind'', JStr ''legacy_v1''),
     (''root_record_commitment'', json_bytes32 root_record),
     (''head_record_commitment'', json_bytes32 head_record),
     (''root_sequence'', json_word root_sequence)]"
| "commitment_origin_json (Descendant parent_shot_id parent_head) = JObj [
     (''kind'', JStr ''descendant''),
     (''parent_shot_id'', json_bytes32 parent_shot_id),
     (''parent_head'', json_bytes32 parent_head)]"

record shot_commitment =
  sc_schema :: string
  sc_intention_commitment :: bytes32
  sc_initial_controller :: builder_id
  sc_initial_controller_key :: p256_public_key
  sc_origin :: commitment_origin
  sc_committed_at :: canonical_timestamp

definition shot_commitment_new ::
  "bytes32 \<Rightarrow> builder_id \<Rightarrow> p256_public_key \<Rightarrow> canonical_timestamp \<Rightarrow> shot_commitment" where
  "shot_commitment_new intention controller key committed_at =
     \<lparr>sc_schema = SHOT_COMMITMENT_SCHEMA, sc_intention_commitment = intention,
      sc_initial_controller = controller, sc_initial_controller_key = key,
      sc_origin = Native, sc_committed_at = committed_at\<rparr>"

definition shot_commitment_validate :: "externals \<Rightarrow> shot_commitment \<Rightarrow> unit result" where
  "shot_commitment_validate E c = checks [
     require_schema ''shot_commitment.schema'' (sc_schema c) SHOT_COMMITMENT_SCHEMA,
     require_nonzero ''shot_commitment.intention_commitment'' (sc_intention_commitment c),
     builder_id_validate (sc_initial_controller c),
     public_key_validate E (sc_initial_controller_key c),
     commitment_origin_validate (sc_origin c)]"

definition shot_commitment_json :: "shot_commitment \<Rightarrow> (string \<times> json) list" where
  "shot_commitment_json c = [
     (''schema'', JStr (sc_schema c)),
     (''intention_commitment'', json_bytes32 (sc_intention_commitment c)),
     (''initial_controller'', builder_id_json (sc_initial_controller c)),
     (''initial_controller_key'', public_key_json (sc_initial_controller_key c)),
     (''origin'', commitment_origin_json (sc_origin c)),
     (''committed_at'', timestamp_json (sc_committed_at c))]"

section \<open>Genome\<close>

record genome =
  g_schema :: string
  g_revision :: u64
  g_purpose :: string
  g_intended_for :: "string list"
  g_essential_experience :: "string list"
  g_behavioral_invariants :: "string list"
  g_interaction_laws :: "string list"
  g_aesthetic_principles :: "string list"
  g_privacy_principles :: "string list"
  g_ownership_principles :: "string list"
  g_platform_commitments :: "string list"
  g_boundaries :: "string list"
  g_non_goals :: "string list"
  g_required_capabilities :: "string list"
  g_forbidden_transformations :: "string list"
  g_acceptance_principles :: "string list"
  g_freely_changeable :: "string list"

definition genome_validate :: "genome \<Rightarrow> unit result" where
  "genome_validate g = checks [
     require_schema ''genome.schema'' (g_schema g) GENOME_SCHEMA,
     validate_safe_positive ''genome.revision'' (g_revision g),
     validate_token ''genome.purpose'' (g_purpose g) 1 4000,
     validate_tokens ''genome.intended_for'' (g_intended_for g) 1 64 1000,
     validate_tokens ''genome.essential_experience'' (g_essential_experience g) 1 64 2000,
     validate_tokens ''genome.behavioral_invariants'' (g_behavioral_invariants g) 1 128 2000,
     validate_tokens ''genome.interaction_laws'' (g_interaction_laws g) 0 128 2000,
     validate_tokens ''genome.aesthetic_principles'' (g_aesthetic_principles g) 0 128 2000,
     validate_tokens ''genome.privacy_principles'' (g_privacy_principles g) 1 128 2000,
     validate_tokens ''genome.ownership_principles'' (g_ownership_principles g) 1 128 2000,
     validate_tokens ''genome.platform_commitments'' (g_platform_commitments g) 0 64 1000,
     validate_tokens ''genome.boundaries'' (g_boundaries g) 0 128 2000,
     validate_tokens ''genome.non_goals'' (g_non_goals g) 0 128 2000,
     validate_tokens ''genome.required_capabilities'' (g_required_capabilities g) 0 128 500,
     validate_tokens ''genome.forbidden_transformations'' (g_forbidden_transformations g) 1 128 2000,
     validate_tokens ''genome.acceptance_principles'' (g_acceptance_principles g) 1 128 2000,
     validate_tokens ''genome.freely_changeable'' (g_freely_changeable g) 0 128 2000]"

definition genome_json :: "genome \<Rightarrow> json" where
  "genome_json g = JObj [
     (''schema'', JStr (g_schema g)),
     (''revision'', json_word (g_revision g)),
     (''purpose'', JStr (g_purpose g)),
     (''intended_for'', json_strings (g_intended_for g)),
     (''essential_experience'', json_strings (g_essential_experience g)),
     (''behavioral_invariants'', json_strings (g_behavioral_invariants g)),
     (''interaction_laws'', json_strings (g_interaction_laws g)),
     (''aesthetic_principles'', json_strings (g_aesthetic_principles g)),
     (''privacy_principles'', json_strings (g_privacy_principles g)),
     (''ownership_principles'', json_strings (g_ownership_principles g)),
     (''platform_commitments'', json_strings (g_platform_commitments g)),
     (''boundaries'', json_strings (g_boundaries g)),
     (''non_goals'', json_strings (g_non_goals g)),
     (''required_capabilities'', json_strings (g_required_capabilities g)),
     (''forbidden_transformations'', json_strings (g_forbidden_transformations g)),
     (''acceptance_principles'', json_strings (g_acceptance_principles g)),
     (''freely_changeable'', json_strings (g_freely_changeable g))]"

definition genome_digest :: "externals \<Rightarrow> genome \<Rightarrow> bytes32 result" where
  "genome_digest E g =
     bind_result (genome_validate g) (\<lambda>_. sha256_commitment E (genome_json g))"

record genome_proposal =
  gp_schema :: string
  gp_base_revision :: "u64 option"
  gp_base_genome_digest :: "bytes32 option"
  gp_proposed :: genome
  gp_rationale :: string
  gp_mutation_summary :: "string list"

definition genome_proposal_initial :: "genome \<Rightarrow> string \<Rightarrow> genome_proposal" where
  "genome_proposal_initial proposed rationale =
     \<lparr>gp_schema = GENOME_PROPOSAL_SCHEMA, gp_base_revision = None, gp_base_genome_digest = None,
      gp_proposed = proposed, gp_rationale = rationale, gp_mutation_summary = []\<rparr>"

definition genome_proposal_base_checks :: "genome_proposal \<Rightarrow> unit result" where
  "genome_proposal_base_checks p =
     (let reject = Inl (invalid ''genome_proposal.base_revision''
        ''initial revision 1 has no base or mutations; later revisions require the exact base and an explicit mutation summary'')
      in case (gp_base_revision p, gp_base_genome_digest p) of
        (None, None) \<Rightarrow>
          (if g_revision (gp_proposed p) = 1 \<and> gp_mutation_summary p = [] then Inr () else reject)
      | (Some base, Some digest) \<Rightarrow>
          (if base > 0 \<and> g_revision (gp_proposed p) = saturating_add base 1 \<and> digest \<noteq> 0
              \<and> gp_mutation_summary p \<noteq> []
           then validate_tokens ''genome_proposal.mutation_summary'' (gp_mutation_summary p) 1 128 2000
           else reject)
      | _ \<Rightarrow> reject)"

definition genome_proposal_validate :: "genome_proposal \<Rightarrow> unit result" where
  "genome_proposal_validate p = checks [
     require_schema ''genome_proposal.schema'' (gp_schema p) GENOME_PROPOSAL_SCHEMA,
     genome_validate (gp_proposed p),
     validate_token ''genome_proposal.rationale'' (gp_rationale p) 1 4000,
     genome_proposal_base_checks p]"

definition genome_proposal_json :: "genome_proposal \<Rightarrow> (string \<times> json) list" where
  "genome_proposal_json p = [
     (''schema'', JStr (gp_schema p)),
     (''base_revision'', json_option json_word (gp_base_revision p)),
     (''base_genome_digest'', json_option json_bytes32 (gp_base_genome_digest p)),
     (''proposed'', genome_json (gp_proposed p)),
     (''rationale'', JStr (gp_rationale p)),
     (''mutation_summary'', json_strings (gp_mutation_summary p))]"

record genome_acceptance =
  ga_schema :: string
  ga_proposal_action :: bytes32
  ga_revision :: u64
  ga_genome_digest :: bytes32
  ga_accepted_at :: canonical_timestamp

definition genome_acceptance_validate :: "genome_acceptance \<Rightarrow> unit result" where
  "genome_acceptance_validate a = checks [
     require_schema ''genome_acceptance.schema'' (ga_schema a) GENOME_ACCEPTANCE_SCHEMA,
     require_nonzero ''genome_acceptance.proposal_action'' (ga_proposal_action a),
     validate_safe_positive ''genome_acceptance.revision'' (ga_revision a),
     require_nonzero ''genome_acceptance.genome_digest'' (ga_genome_digest a)]"

definition genome_acceptance_json :: "genome_acceptance \<Rightarrow> (string \<times> json) list" where
  "genome_acceptance_json a = [
     (''schema'', JStr (ga_schema a)),
     (''proposal_action'', json_bytes32 (ga_proposal_action a)),
     (''revision'', json_word (ga_revision a)),
     (''genome_digest'', json_bytes32 (ga_genome_digest a)),
     (''accepted_at'', timestamp_json (ga_accepted_at a))]"

end
