(* ===== verification/Expressions.thy ===== *)
theory Expressions
  imports Ontology
begin

text \<open>
  \<open>protocol/src/ontology.rs\<close>, continued: expressions and their Organs, the canonical
  capability graph, versions and verification results, feedback, evolutionary
  intents and evolutions, ownership, token association, parent relations and
  availability observations.
\<close>

section \<open>Expressions and Organs\<close>

record expression =
  ex_schema :: string
  ex_expression_id :: expression_id
  ex_kind :: string
  ex_name :: string
  ex_platforms :: "string list"
  ex_genome_revision :: u64
  ex_genome_digest :: bytes32
  ex_definition :: artifact_availability

definition expression_validate :: "expression \<Rightarrow> unit result" where
  "expression_validate e = checks [
     require_schema ''expression.schema'' (ex_schema e) EXPRESSION_SCHEMA,
     err_if (is_zero (ex_expression_id e)) (invalid ''expression.expression_id'' ''must not be zero''),
     validate_token ''expression.kind'' (ex_kind e) 1 100,
     validate_token ''expression.name'' (ex_name e) 1 255,
     validate_tokens ''expression.platforms'' (ex_platforms e) 1 32 100,
     validate_safe_positive ''expression.genome_revision'' (ex_genome_revision e),
     require_nonzero ''expression.genome_digest'' (ex_genome_digest e),
     artifact_availability_validate (ex_definition e)]"

definition expression_json :: "expression \<Rightarrow> (string \<times> json) list" where
  "expression_json e = [
     (''schema'', JStr (ex_schema e)),
     (''expression_id'', json_bytes32 (ex_expression_id e)),
     (''kind'', JStr (ex_kind e)),
     (''name'', JStr (ex_name e)),
     (''platforms'', json_strings (ex_platforms e)),
     (''genome_revision'', json_word (ex_genome_revision e)),
     (''genome_digest'', json_bytes32 (ex_genome_digest e)),
     (''definition'', artifact_availability_json (ex_definition e))]"

record organ =
  or_schema :: string
  or_expression_id :: expression_id
  or_organ_id :: string
  or_provides :: "string list"
  or_owns_state :: "string list"
  or_permissions :: "string list"
  or_dependencies :: "string list"
  or_emits :: "string list"
  or_consumes :: "string list"
  or_satisfies_genome_constraints :: "string list"
  or_acceptance_tests :: "string list"
  or_platforms :: "string list"

definition organ_validate :: "organ \<Rightarrow> unit result" where
  "organ_validate r = checks [
     require_schema ''organ.schema'' (or_schema r) ORGAN_SCHEMA,
     err_if (is_zero (or_expression_id r)) (invalid ''organ.expression_id'' ''must not be zero''),
     validate_token ''organ.organ_id'' (or_organ_id r) 1 128,
     validate_tokens ''organ.provides'' (or_provides r) 1 128 500,
     validate_tokens ''organ.owns_state'' (or_owns_state r) 0 128 500,
     validate_tokens ''organ.permissions'' (or_permissions r) 0 128 500,
     validate_tokens ''organ.dependencies'' (or_dependencies r) 0 128 128,
     validate_tokens ''organ.emits'' (or_emits r) 0 128 500,
     validate_tokens ''organ.consumes'' (or_consumes r) 0 128 500,
     validate_tokens ''organ.satisfies_genome_constraints''
       (or_satisfies_genome_constraints r) 1 128 2000,
     validate_tokens ''organ.acceptance_tests'' (or_acceptance_tests r) 1 256 1000,
     validate_tokens ''organ.platforms'' (or_platforms r) 1 32 100]"

definition organ_json :: "organ \<Rightarrow> (string \<times> json) list" where
  "organ_json r = [
     (''schema'', JStr (or_schema r)),
     (''expression_id'', json_bytes32 (or_expression_id r)),
     (''organ_id'', JStr (or_organ_id r)),
     (''provides'', json_strings (or_provides r)),
     (''owns_state'', json_strings (or_owns_state r)),
     (''permissions'', json_strings (or_permissions r)),
     (''dependencies'', json_strings (or_dependencies r)),
     (''emits'', json_strings (or_emits r)),
     (''consumes'', json_strings (or_consumes r)),
     (''satisfies_genome_constraints'', json_strings (or_satisfies_genome_constraints r)),
     (''acceptance_tests'', json_strings (or_acceptance_tests r)),
     (''platforms'', json_strings (or_platforms r))]"

definition capability_graph_checks :: "organ list \<Rightarrow> unit result" where
  "capability_graph_checks graph =
     (case graph of
        [] \<Rightarrow> Inr ()
      | first # _ \<Rightarrow> checks [
          each_unique
            (\<lambda>r. err_if (or_expression_id r \<noteq> or_expression_id first)
               (invalid ''capability_graph.expression_id'' ''all organs must belong to one expression''))
            or_organ_id
            (invalid ''capability_graph.organ_id'' ''must not contain duplicate organ IDs'')
            [] graph,
          each
            (\<lambda>r. err_if (list_ex (\<lambda>dependency. \<not> List.member (map or_organ_id graph) dependency)
                 (or_dependencies r))
               (invalid ''capability_graph.dependencies''
                 ''every dependency must name an organ in the same graph''))
            graph])"

definition canonical_capability_graph_bytes :: "externals \<Rightarrow> organ list \<Rightarrow> byte list result" where
  "canonical_capability_graph_bytes E organs =
     bind_result (each organ_validate organs) (\<lambda>_.
     let graph = sort_key or_organ_id organs in
     bind_result (capability_graph_checks graph) (\<lambda>_.
       canonical_to_vec E (JArr (map (\<lambda>r. JObj (organ_json r)) graph))))"

definition capability_graph_digest :: "externals \<Rightarrow> organ list \<Rightarrow> bytes32 result" where
  "capability_graph_digest E organs =
     bind_result (canonical_capability_graph_bytes E organs) (\<lambda>bytes. Inr (sha256 E bytes))"

definition gate_name :: "externals \<Rightarrow> string \<Rightarrow> nat \<Rightarrow> string \<Rightarrow> string" where
  "gate_name E organ_id ordinal test =
     ''organ.'' @ organ_id @ ''.acceptance.'' @ show_nat ordinal @ ''.''
       @ bytes32_to_hex (sha256 E (str_bytes test))"

definition organ_acceptance_gate_name :: "externals \<Rightarrow> organ \<Rightarrow> nat \<Rightarrow> string result" where
  "organ_acceptance_gate_name E r index =
     bind_result (organ_validate r) (\<lambda>_.
     bind_result (ok_or (invalid ''organ.acceptance_tests''
          ''gate index must name a declared acceptance test'')
        (if index < length (or_acceptance_tests r) then Some (or_acceptance_tests r ! index)
         else None)) (\<lambda>test.
     bind_result (ok_or (invalid ''organ.acceptance_tests''
          ''gate ordinal overflowed the implementation range'')
        (if index + 1 < 2 ^ 64 then Some (index + 1) else None)) (\<lambda>ordinal.
       Inr (gate_name E (or_organ_id r) ordinal test))))"

section \<open>Versions\<close>

record materialization_provenance =
  mp_factory :: string
  mp_factory_version :: string
  mp_factory_source_commit :: "string option"
  mp_template_digest :: bytes32
  mp_input_action :: bytes32
  mp_deterministic :: bool

definition provenance_validate :: "materialization_provenance \<Rightarrow> unit result" where
  "provenance_validate p = checks [
     validate_token ''version.provenance.factory'' (mp_factory p) 1 255,
     validate_token ''version.provenance.factory_version'' (mp_factory_version p) 1 64,
     optional (mp_factory_source_commit p) (\<lambda>commit.
       err_if (\<not> is_git_object_id commit)
         (invalid ''version.provenance.factory_source_commit''
           ''must be a 40-character lowercase Git object ID'')),
     require_nonzero ''version.provenance.template_digest'' (mp_template_digest p),
     require_nonzero ''version.provenance.input_action'' (mp_input_action p)]"

definition provenance_json :: "materialization_provenance \<Rightarrow> json" where
  "provenance_json p = JObj ([
     (''factory'', JStr (mp_factory p)),
     (''factory_version'', JStr (mp_factory_version p))]
     @ member_option ''factory_source_commit'' JStr (mp_factory_source_commit p)
     @ [(''template_digest'', json_bytes32 (mp_template_digest p)),
        (''input_action'', json_bytes32 (mp_input_action p)),
        (''deterministic'', JBool (mp_deterministic p))])"

record version_record =
  vr_schema :: string
  vr_version_id :: version_id
  vr_expression_id :: expression_id
  vr_ordinal :: u64
  vr_genome_revision :: u64
  vr_genome_digest :: bytes32
  vr_source_digest :: bytes32
  vr_provenance :: materialization_provenance
  vr_capability_graph_digest :: bytes32
  vr_verification_action :: bytes32
  vr_known_incompleteness :: "string list"
  vr_build_identity :: "string option"
  vr_build_digest :: "bytes32 option"
  vr_accepted_at :: canonical_timestamp

definition version_expected_id :: "externals \<Rightarrow> version_record \<Rightarrow> shot_id \<Rightarrow> version_id" where
  "version_expected_id E v shot_id =
     version_id_derive E shot_id (vr_expression_id v) (vr_ordinal v) (vr_genome_digest v)
       (vr_source_digest v)"

definition version_validate :: "externals \<Rightarrow> version_record \<Rightarrow> shot_id \<Rightarrow> unit result" where
  "version_validate E v shot_id = checks [
     require_schema ''version.schema'' (vr_schema v) VERSION_SCHEMA,
     err_if (is_zero (vr_expression_id v) \<or> is_zero (vr_version_id v))
       (invalid ''version.identity'' ''expression_id and version_id must not be zero''),
     validate_safe_positive ''version.ordinal'' (vr_ordinal v),
     validate_safe_positive ''version.genome_revision'' (vr_genome_revision v),
     require_nonzero ''version.genome_digest'' (vr_genome_digest v),
     require_nonzero ''version.source_digest'' (vr_source_digest v),
     require_nonzero ''version.capability_graph_digest'' (vr_capability_graph_digest v),
     require_nonzero ''version.verification_action'' (vr_verification_action v),
     provenance_validate (vr_provenance v),
     validate_tokens ''version.known_incompleteness'' (vr_known_incompleteness v) 0 128 2000,
     optional (vr_build_identity v) (\<lambda>identity.
       validate_token ''version.build_identity'' identity 1 500),
     err_if (vr_build_digest v = Some 0) (invalid ''version.build_digest'' ''must not be zero''),
     err_if (vr_version_id v \<noteq> version_expected_id E v shot_id)
       (invalid ''version.version_id'' ''must use the protocol content-bound derivation'')]"

definition version_json :: "version_record \<Rightarrow> (string \<times> json) list" where
  "version_json v = [
     (''schema'', JStr (vr_schema v)),
     (''version_id'', json_bytes32 (vr_version_id v)),
     (''expression_id'', json_bytes32 (vr_expression_id v)),
     (''ordinal'', json_word (vr_ordinal v)),
     (''genome_revision'', json_word (vr_genome_revision v)),
     (''genome_digest'', json_bytes32 (vr_genome_digest v)),
     (''source_digest'', json_bytes32 (vr_source_digest v)),
     (''provenance'', provenance_json (vr_provenance v)),
     (''capability_graph_digest'', json_bytes32 (vr_capability_graph_digest v)),
     (''verification_action'', json_bytes32 (vr_verification_action v)),
     (''known_incompleteness'', json_strings (vr_known_incompleteness v))]
     @ member_option ''build_identity'' JStr (vr_build_identity v)
     @ member_option ''build_digest'' json_bytes32 (vr_build_digest v)
     @ [(''accepted_at'', timestamp_json (vr_accepted_at v))]"

section \<open>Feedback\<close>

datatype visibility = Private | Public

fun visibility_name :: "visibility \<Rightarrow> string" where
  "visibility_name Private = ''private''"
| "visibility_name Public = ''public''"

record feedback_author =
  fa_identity :: string
  fa_display_name :: "string option"

definition feedback_author_validate :: "feedback_author \<Rightarrow> unit result" where
  "feedback_author_validate a = checks [
     validate_token ''feedback.author.identity'' (fa_identity a) 1 500,
     optional (fa_display_name a) (\<lambda>name. validate_token ''feedback.author.display_name'' name 1 255)]"

definition feedback_author_json :: "feedback_author \<Rightarrow> json" where
  "feedback_author_json a = JObj ([(''identity'', JStr (fa_identity a))]
     @ member_option ''display_name'' JStr (fa_display_name a))"

record structured_observation =
  so_kind :: string
  so_subject :: string
  so_value :: string

definition observation_validate :: "structured_observation \<Rightarrow> unit result" where
  "observation_validate s = checks [
     validate_token ''feedback.observation.kind'' (so_kind s) 1 100,
     validate_token ''feedback.observation.subject'' (so_subject s) 1 500,
     validate_token ''feedback.observation.value'' (so_value s) 1 4000]"

definition observation_json :: "structured_observation \<Rightarrow> json" where
  "observation_json s = JObj [
     (''kind'', JStr (so_kind s)),
     (''subject'', JStr (so_subject s)),
     (''value'', JStr (so_value s))]"

record feedback =
  fb_schema :: string
  fb_expression_id :: expression_id
  fb_version_id :: version_id
  fb_build_identity :: "string option"
  fb_author :: "feedback_author option"
  fb_visibility :: visibility
  fb_text :: "string option"
  fb_observations :: "structured_observation list"
  fb_attachments :: "artifact_availability list"
  fb_observed_at :: canonical_timestamp

definition feedback_validate :: "feedback \<Rightarrow> unit result" where
  "feedback_validate f = checks [
     require_schema ''feedback.schema'' (fb_schema f) FEEDBACK_SCHEMA,
     err_if (is_zero (fb_expression_id f) \<or> is_zero (fb_version_id f))
       (invalid ''feedback.identity'' ''expression_id and version_id must not be zero''),
     optional (fb_build_identity f) (\<lambda>build. validate_token ''feedback.build_identity'' build 1 500),
     optional (fb_author f) feedback_author_validate,
     optional (fb_text f) (\<lambda>text. validate_token ''feedback.text'' text 1 100000),
     err_if (length (fb_observations f) > 256 \<or> length (fb_attachments f) > 64)
       (invalid ''feedback'' ''must contain at most 256 observations and 64 attachments''),
     each observation_validate (fb_observations f),
     each artifact_availability_validate (fb_attachments f),
     err_if (fb_text f = None \<and> fb_observations f = [] \<and> fb_attachments f = [])
       (invalid ''feedback'' ''must contain text, a structured observation, or an attachment'')]"

definition feedback_json :: "feedback \<Rightarrow> (string \<times> json) list" where
  "feedback_json f = [
     (''schema'', JStr (fb_schema f)),
     (''expression_id'', json_bytes32 (fb_expression_id f)),
     (''version_id'', json_bytes32 (fb_version_id f))]
     @ member_option ''build_identity'' JStr (fb_build_identity f)
     @ member_option ''author'' feedback_author_json (fb_author f)
     @ [(''visibility'', JStr (visibility_name (fb_visibility f)))]
     @ member_option ''text'' JStr (fb_text f)
     @ [(''observations'', JArr (map observation_json (fb_observations f))),
        (''attachments'', JArr (map artifact_availability_json (fb_attachments f))),
        (''observed_at'', timestamp_json (fb_observed_at f))]"

section \<open>Evolutionary intents and evolutions\<close>

datatype change_scope = Implementation | ExpressionScope | OrganScope | GenomeScope

fun change_scope_name :: "change_scope \<Rightarrow> string" where
  "change_scope_name Implementation = ''implementation''"
| "change_scope_name ExpressionScope = ''expression''"
| "change_scope_name OrganScope = ''organ''"
| "change_scope_name GenomeScope = ''genome''"

record desired_change =
  dc_scope :: change_scope
  dc_description :: string

definition desired_change_validate :: "desired_change \<Rightarrow> unit result" where
  "desired_change_validate c =
     validate_token ''evolutionary_intent.change.description'' (dc_description c) 1 4000"

definition desired_change_json :: "desired_change \<Rightarrow> json" where
  "desired_change_json c = JObj [
     (''scope'', JStr (change_scope_name (dc_scope c))),
     (''description'', JStr (dc_description c))]"

record evolutionary_intent =
  ei_schema :: string
  ei_expression_id :: expression_id
  ei_from_version_id :: version_id
  ei_preserved_invariants :: "string list"
  ei_desired_changes :: "desired_change list"
  ei_feedback_actions :: "bytes32 list"
  ei_references :: "artifact_availability list"
  ei_proposed_genome_action :: "bytes32 option"

definition declares_scope :: "change_scope \<Rightarrow> evolutionary_intent \<Rightarrow> bool" where
  "declares_scope scope i = list_ex (\<lambda>change. dc_scope change = scope) (ei_desired_changes i)"

definition evolutionary_intent_validate :: "evolutionary_intent \<Rightarrow> unit result" where
  "evolutionary_intent_validate i = checks [
     require_schema ''evolutionary_intent.schema'' (ei_schema i) EVOLUTIONARY_INTENT_SCHEMA,
     err_if (is_zero (ei_expression_id i) \<or> is_zero (ei_from_version_id i))
       (invalid ''evolutionary_intent.identity''
         ''expression_id and from_version_id must not be zero''),
     validate_tokens ''evolutionary_intent.preserved_invariants''
       (ei_preserved_invariants i) 1 128 2000,
     err_if (ei_desired_changes i = [] \<or> length (ei_desired_changes i) > 128)
       (invalid ''evolutionary_intent.desired_changes'' ''must contain 1..=128 changes''),
     each desired_change_validate (ei_desired_changes i),
     err_if (length (ei_feedback_actions i) > 256 \<or> length (ei_references i) > 64)
       (invalid ''evolutionary_intent'' ''contains too many feedback references or artifacts''),
     err_if (List.member (ei_feedback_actions i) 0 \<or> ei_proposed_genome_action i = Some 0)
       (invalid ''evolutionary_intent.action_reference'' ''must not be zero''),
     each_unique artifact_availability_validate (\<lambda>a. ad_digest (av_artifact a))
       (invalid ''evolutionary_intent.references'' ''must not repeat artifact content'')
       [] (ei_references i),
     err_if (declares_scope GenomeScope i \<noteq> (ei_proposed_genome_action i \<noteq> None))
       (invalid ''evolutionary_intent.proposed_genome_action''
         ''must be present exactly when a genome-scoped change is proposed'')]"

definition evolutionary_intent_json :: "evolutionary_intent \<Rightarrow> (string \<times> json) list" where
  "evolutionary_intent_json i = [
     (''schema'', JStr (ei_schema i)),
     (''expression_id'', json_bytes32 (ei_expression_id i)),
     (''from_version_id'', json_bytes32 (ei_from_version_id i)),
     (''preserved_invariants'', json_strings (ei_preserved_invariants i)),
     (''desired_changes'', JArr (map desired_change_json (ei_desired_changes i))),
     (''feedback_actions'', JArr (map json_bytes32 (ei_feedback_actions i))),
     (''references'', JArr (map artifact_availability_json (ei_references i)))]
     @ member_option ''proposed_genome_action'' json_bytes32 (ei_proposed_genome_action i)"

record evolution =
  ev_schema :: string
  ev_evolutionary_intent_action :: bytes32
  ev_expression_id :: expression_id
  ev_from_version_id :: version_id
  ev_to_version_id :: version_id
  ev_from_genome_digest :: bytes32
  ev_to_genome_digest :: bytes32
  ev_genome_acceptance_action :: "bytes32 option"
  ev_preserved_invariants :: "string list"
  ev_completed_at :: canonical_timestamp

definition evolution_validate :: "evolution \<Rightarrow> unit result" where
  "evolution_validate v = checks [
     require_schema ''evolution.schema'' (ev_schema v) EVOLUTION_SCHEMA,
     require_nonzero ''evolution.evolutionary_intent_action'' (ev_evolutionary_intent_action v),
     err_if (is_zero (ev_expression_id v) \<or> is_zero (ev_from_version_id v)
         \<or> is_zero (ev_to_version_id v) \<or> ev_from_version_id v = ev_to_version_id v)
       (invalid ''evolution.identity''
         ''must connect two distinct versions of a nonzero expression''),
     require_nonzero ''evolution.from_genome_digest'' (ev_from_genome_digest v),
     require_nonzero ''evolution.to_genome_digest'' (ev_to_genome_digest v),
     validate_tokens ''evolution.preserved_invariants'' (ev_preserved_invariants v) 1 128 2000,
     err_if ((ev_from_genome_digest v \<noteq> ev_to_genome_digest v)
           \<noteq> (ev_genome_acceptance_action v \<noteq> None)
         \<or> ev_genome_acceptance_action v = Some 0)
       (invalid ''evolution.genome_acceptance_action''
         ''must be present and nonzero exactly when the accepted genome changes'')]"

definition evolution_json :: "evolution \<Rightarrow> (string \<times> json) list" where
  "evolution_json v = [
     (''schema'', JStr (ev_schema v)),
     (''evolutionary_intent_action'', json_bytes32 (ev_evolutionary_intent_action v)),
     (''expression_id'', json_bytes32 (ev_expression_id v)),
     (''from_version_id'', json_bytes32 (ev_from_version_id v)),
     (''to_version_id'', json_bytes32 (ev_to_version_id v)),
     (''from_genome_digest'', json_bytes32 (ev_from_genome_digest v)),
     (''to_genome_digest'', json_bytes32 (ev_to_genome_digest v))]
     @ member_option ''genome_acceptance_action'' json_bytes32 (ev_genome_acceptance_action v)
     @ [(''preserved_invariants'', json_strings (ev_preserved_invariants v)),
        (''completed_at'', timestamp_json (ev_completed_at v))]"

section \<open>Ownership and token association\<close>

record ownership =
  ow_schema :: string
  ow_previous_controller :: builder_id
  ow_new_controller :: builder_id
  ow_new_controller_key :: p256_public_key
  ow_reason :: string
  ow_effective_at :: canonical_timestamp

definition ownership_validate :: "externals \<Rightarrow> ownership \<Rightarrow> unit result" where
  "ownership_validate E w = checks [
     require_schema ''ownership.schema'' (ow_schema w) OWNERSHIP_SCHEMA,
     builder_id_validate (ow_previous_controller w),
     builder_id_validate (ow_new_controller w),
     err_if (ow_previous_controller w = ow_new_controller w)
       (invalid ''ownership.new_controller'' ''must differ from the previous controller''),
     public_key_validate E (ow_new_controller_key w),
     validate_token ''ownership.reason'' (ow_reason w) 1 2000]"

definition ownership_json :: "ownership \<Rightarrow> (string \<times> json) list" where
  "ownership_json w = [
     (''schema'', JStr (ow_schema w)),
     (''previous_controller'', builder_id_json (ow_previous_controller w)),
     (''new_controller'', builder_id_json (ow_new_controller w)),
     (''new_controller_key'', public_key_json (ow_new_controller_key w)),
     (''reason'', JStr (ow_reason w)),
     (''effective_at'', timestamp_json (ow_effective_at w))]"

datatype token_association_operation = Associate | Remove

fun token_operation_name :: "token_association_operation \<Rightarrow> string" where
  "token_operation_name Associate = ''associate''"
| "token_operation_name Remove = ''remove''"

record chain_anchor =
  ca_chain_id :: u64
  ca_contract :: address20
  ca_transaction :: bytes32

definition chain_anchor_validate :: "chain_anchor \<Rightarrow> unit result" where
  "chain_anchor_validate a = checks [
     validate_safe_positive ''chain_anchor.chain_id'' (ca_chain_id a),
     err_if (address_is_zero (ca_contract a)) (invalid ''chain_anchor.contract'' ''must not be zero''),
     require_nonzero ''chain_anchor.transaction'' (ca_transaction a)]"

definition chain_anchor_json :: "chain_anchor \<Rightarrow> json" where
  "chain_anchor_json a = JObj [
     (''chain_id'', json_word (ca_chain_id a)),
     (''contract'', json_address20 (ca_contract a)),
     (''transaction'', json_bytes32 (ca_transaction a))]"

record token_association =
  ta_schema :: string
  ta_operation :: token_association_operation
  ta_chain_id :: u64
  ta_token :: address20
  ta_symbol :: "string option"
  ta_anchor :: "chain_anchor option"

definition token_association_validate :: "token_association \<Rightarrow> unit result" where
  "token_association_validate t = checks [
     require_schema ''token_association.schema'' (ta_schema t) TOKEN_ASSOCIATION_SCHEMA,
     validate_safe_positive ''token_association.chain_id'' (ta_chain_id t),
     err_if (address_is_zero (ta_token t)) (invalid ''token_association.token'' ''must not be zero''),
     optional (ta_symbol t) (\<lambda>symbol. validate_token ''token_association.symbol'' symbol 1 32),
     optional (ta_anchor t) chain_anchor_validate]"

definition token_association_json :: "token_association \<Rightarrow> (string \<times> json) list" where
  "token_association_json t = [
     (''schema'', JStr (ta_schema t)),
     (''operation'', JStr (token_operation_name (ta_operation t))),
     (''chain_id'', json_word (ta_chain_id t)),
     (''token'', json_address20 (ta_token t))]
     @ member_option ''symbol'' JStr (ta_symbol t)
     @ member_option ''anchor'' chain_anchor_json (ta_anchor t)"

section \<open>Verification results\<close>

record verification_gate =
  vg_name :: string
  vg_passed :: bool
  vg_deterministic :: bool
  vg_evidence :: "artifact_availability option"

definition verification_gate_validate :: "verification_gate \<Rightarrow> unit result" where
  "verification_gate_validate g = checks [
     validate_token ''verification.gate.name'' (vg_name g) 1 255,
     optional (vg_evidence g) artifact_availability_validate]"

definition verification_gate_json :: "verification_gate \<Rightarrow> json" where
  "verification_gate_json g = JObj ([
     (''name'', JStr (vg_name g)),
     (''passed'', JBool (vg_passed g)),
     (''deterministic'', JBool (vg_deterministic g))]
     @ member_option ''evidence'' artifact_availability_json (vg_evidence g))"

record verification_result =
  vf_schema :: string
  vf_expression_id :: expression_id
  vf_candidate_version_id :: version_id
  vf_genome_revision :: u64
  vf_genome_digest :: bytes32
  vf_source_digest :: bytes32
  vf_capability_graph_digest :: bytes32
  vf_gates :: "verification_gate list"
  vf_passed :: bool
  vf_known_incompleteness :: "string list"
  vf_verified_at :: canonical_timestamp

definition verification_result_validate :: "verification_result \<Rightarrow> unit result" where
  "verification_result_validate v = checks [
     require_schema ''verification_result.schema'' (vf_schema v) VERIFICATION_RESULT_SCHEMA,
     err_if (is_zero (vf_expression_id v) \<or> is_zero (vf_candidate_version_id v))
       (invalid ''verification_result.identity''
         ''expression and candidate version IDs must not be zero''),
     validate_safe_positive ''verification_result.genome_revision'' (vf_genome_revision v),
     require_nonzero ''verification_result.genome_digest'' (vf_genome_digest v),
     require_nonzero ''verification_result.source_digest'' (vf_source_digest v),
     require_nonzero ''verification_result.capability_graph_digest'' (vf_capability_graph_digest v),
     err_if (vf_gates v = [] \<or> length (vf_gates v) > 256)
       (invalid ''verification_result.gates'' ''must contain 1..=256 gates''),
     each_unique verification_gate_validate vg_name
       (invalid ''verification_result.gates'' ''must not repeat a gate name'') [] (vf_gates v),
     err_if (vf_passed v \<noteq> list_all vg_passed (vf_gates v))
       (invalid ''verification_result.passed''
         ''must equal the conjunction of all gate results''),
     validate_tokens ''verification_result.known_incompleteness''
       (vf_known_incompleteness v) 0 128 2000]"

definition verification_result_json :: "verification_result \<Rightarrow> (string \<times> json) list" where
  "verification_result_json v = [
     (''schema'', JStr (vf_schema v)),
     (''expression_id'', json_bytes32 (vf_expression_id v)),
     (''candidate_version_id'', json_bytes32 (vf_candidate_version_id v)),
     (''genome_revision'', json_word (vf_genome_revision v)),
     (''genome_digest'', json_bytes32 (vf_genome_digest v)),
     (''source_digest'', json_bytes32 (vf_source_digest v)),
     (''capability_graph_digest'', json_bytes32 (vf_capability_graph_digest v)),
     (''gates'', JArr (map verification_gate_json (vf_gates v))),
     (''passed'', JBool (vf_passed v)),
     (''known_incompleteness'', json_strings (vf_known_incompleteness v)),
     (''verified_at'', timestamp_json (vf_verified_at v))]"

section \<open>Parent relations and availability observations\<close>

datatype parent_relation_kind = Fork | DescendantOf | InspiredBy

fun parent_relation_kind_name :: "parent_relation_kind \<Rightarrow> string" where
  "parent_relation_kind_name Fork = ''fork''"
| "parent_relation_kind_name DescendantOf = ''descendant''"
| "parent_relation_kind_name InspiredBy = ''inspired_by''"

record parent_authorization_statement =
  ps_schema :: string
  ps_parent_shot_id :: shot_id
  ps_parent_head :: bytes32
  ps_child_shot_id :: shot_id
  ps_relation :: parent_relation_kind

definition parent_statement_validate :: "parent_authorization_statement \<Rightarrow> unit result" where
  "parent_statement_validate s = checks [
     require_schema ''parent_authorization.schema'' (ps_schema s) PARENT_AUTHORIZATION_SCHEMA,
     err_if (is_zero (ps_parent_shot_id s) \<or> is_zero (ps_child_shot_id s)
         \<or> ps_parent_shot_id s = ps_child_shot_id s)
       (invalid ''parent_authorization.identity''
         ''parent and child must be distinct nonzero Shot IDs''),
     require_nonzero ''parent_authorization.parent_head'' (ps_parent_head s)]"

definition parent_statement_json :: "parent_authorization_statement \<Rightarrow> json" where
  "parent_statement_json s = JObj [
     (''schema'', JStr (ps_schema s)),
     (''parent_shot_id'', json_bytes32 (ps_parent_shot_id s)),
     (''parent_head'', json_bytes32 (ps_parent_head s)),
     (''child_shot_id'', json_bytes32 (ps_child_shot_id s)),
     (''relation'', JStr (parent_relation_kind_name (ps_relation s)))]"

record parent_relation =
  pl_schema :: string
  pl_parent_shot_id :: shot_id
  pl_parent_head :: bytes32
  pl_child_shot_id :: shot_id
  pl_relation :: parent_relation_kind
  pl_parent_authorization :: "signature_sidecar option"

definition parent_relation_statement :: "parent_relation \<Rightarrow> parent_authorization_statement" where
  "parent_relation_statement p =
     \<lparr>ps_schema = PARENT_AUTHORIZATION_SCHEMA, ps_parent_shot_id = pl_parent_shot_id p,
      ps_parent_head = pl_parent_head p, ps_child_shot_id = pl_child_shot_id p,
      ps_relation = pl_relation p\<rparr>"

definition parent_relation_validate :: "externals \<Rightarrow> parent_relation \<Rightarrow> unit result" where
  "parent_relation_validate E p =
     (let statement = parent_relation_statement p in checks [
       require_schema ''parent_relation.schema'' (pl_schema p) PARENT_RELATION_SCHEMA,
       parent_statement_validate statement,
       optional (pl_parent_authorization p) (\<lambda>signature.
         sidecar_verify E signature (parent_statement_json statement))])"

definition parent_relation_json :: "parent_relation \<Rightarrow> (string \<times> json) list" where
  "parent_relation_json p = [
     (''schema'', JStr (pl_schema p)),
     (''parent_shot_id'', json_bytes32 (pl_parent_shot_id p)),
     (''parent_head'', json_bytes32 (pl_parent_head p)),
     (''child_shot_id'', json_bytes32 (pl_child_shot_id p)),
     (''relation'', JStr (parent_relation_kind_name (pl_relation p)))]
     @ member_option ''parent_authorization'' sidecar_json (pl_parent_authorization p)"

record artifact_availability_record =
  aa_target_role :: string
  aa_availability :: artifact_availability
  aa_observed_at :: canonical_timestamp

definition availability_record_validate :: "artifact_availability_record \<Rightarrow> unit result" where
  "availability_record_validate r = checks [
     validate_token ''artifact_availability_record.target_role'' (aa_target_role r) 1 255,
     artifact_availability_validate (aa_availability r)]"

definition availability_record_json :: "artifact_availability_record \<Rightarrow> (string \<times> json) list" where
  "availability_record_json r = [
     (''target_role'', JStr (aa_target_role r)),
     (''availability'', artifact_availability_json (aa_availability r)),
     (''observed_at'', timestamp_json (aa_observed_at r))]"

end
