(* ===== verification/Lineage.thy ===== *)
theory Lineage
  imports Expressions
begin

text \<open>
  \<open>protocol/src/lineage.rs\<close>: signed lineage actions, verification of a contiguous
  segment, and the deterministic reduction of a lineage to the state of a Shot.
\<close>

definition LINEAGE_PROTOCOL :: string where "LINEAGE_PROTOCOL = ''tohseno''"
definition LINEAGE_PROTOCOL_VERSION :: string where "LINEAGE_PROTOCOL_VERSION = ''2''"
definition LINEAGE_ACTION_SCHEMA :: string where
  "LINEAGE_ACTION_SCHEMA = ''tohseno.lineage-action/2''"
definition LINEAGE_SCHEMA_VERSION :: u32 where "LINEAGE_SCHEMA_VERSION = 2"

section \<open>Actions\<close>

datatype lineage_payload =
    CommitmentPayload shot_commitment
  | IntentionPayload intention_record
  | GenomeProposalPayload genome_proposal
  | GenomeAcceptancePayload genome_acceptance
  | ExpressionPayload expression
  | OrganPayload organ
  | VerificationResultPayload verification_result
  | VersionPayload version_record
  | FeedbackPayload feedback
  | EvolutionaryIntentPayload evolutionary_intent
  | EvolutionPayload evolution
  | OwnershipPayload ownership
  | TokenAssociationPayload token_association
  | ArtifactAvailabilityPayload artifact_availability_record
  | ParentRelationPayload parent_relation

fun payload_validate :: "externals \<Rightarrow> lineage_payload \<Rightarrow> shot_id \<Rightarrow> unit result" where
  "payload_validate E (CommitmentPayload r) shot_id = shot_commitment_validate E r"
| "payload_validate E (IntentionPayload r) shot_id = intention_validate E r"
| "payload_validate E (GenomeProposalPayload r) shot_id = genome_proposal_validate r"
| "payload_validate E (GenomeAcceptancePayload r) shot_id = genome_acceptance_validate r"
| "payload_validate E (ExpressionPayload r) shot_id = expression_validate r"
| "payload_validate E (OrganPayload r) shot_id = organ_validate r"
| "payload_validate E (VerificationResultPayload r) shot_id = verification_result_validate r"
| "payload_validate E (VersionPayload r) shot_id = version_validate E r shot_id"
| "payload_validate E (FeedbackPayload r) shot_id = feedback_validate r"
| "payload_validate E (EvolutionaryIntentPayload r) shot_id = evolutionary_intent_validate r"
| "payload_validate E (EvolutionPayload r) shot_id = evolution_validate r"
| "payload_validate E (OwnershipPayload r) shot_id = ownership_validate E r"
| "payload_validate E (TokenAssociationPayload r) shot_id = token_association_validate r"
| "payload_validate E (ArtifactAvailabilityPayload r) shot_id = availability_record_validate r"
| "payload_validate E (ParentRelationPayload r) shot_id = parent_relation_validate E r"

fun action_type :: "lineage_payload \<Rightarrow> string" where
  "action_type (CommitmentPayload _) = ''commitment''"
| "action_type (IntentionPayload _) = ''intention''"
| "action_type (GenomeProposalPayload _) = ''genome_proposal''"
| "action_type (GenomeAcceptancePayload _) = ''genome_acceptance''"
| "action_type (ExpressionPayload _) = ''expression''"
| "action_type (OrganPayload _) = ''organ''"
| "action_type (VerificationResultPayload _) = ''verification_result''"
| "action_type (VersionPayload _) = ''version''"
| "action_type (FeedbackPayload _) = ''feedback''"
| "action_type (EvolutionaryIntentPayload _) = ''evolutionary_intent''"
| "action_type (EvolutionPayload _) = ''evolution''"
| "action_type (OwnershipPayload _) = ''ownership''"
| "action_type (TokenAssociationPayload _) = ''token_association''"
| "action_type (ArtifactAvailabilityPayload _) = ''artifact_availability''"
| "action_type (ParentRelationPayload _) = ''parent_relation''"

fun payload_fields :: "lineage_payload \<Rightarrow> (string \<times> json) list" where
  "payload_fields (CommitmentPayload r) = shot_commitment_json r"
| "payload_fields (IntentionPayload r) = intention_json r"
| "payload_fields (GenomeProposalPayload r) = genome_proposal_json r"
| "payload_fields (GenomeAcceptancePayload r) = genome_acceptance_json r"
| "payload_fields (ExpressionPayload r) = expression_json r"
| "payload_fields (OrganPayload r) = organ_json r"
| "payload_fields (VerificationResultPayload r) = verification_result_json r"
| "payload_fields (VersionPayload r) = version_json r"
| "payload_fields (FeedbackPayload r) = feedback_json r"
| "payload_fields (EvolutionaryIntentPayload r) = evolutionary_intent_json r"
| "payload_fields (EvolutionPayload r) = evolution_json r"
| "payload_fields (OwnershipPayload r) = ownership_json r"
| "payload_fields (TokenAssociationPayload r) = token_association_json r"
| "payload_fields (ArtifactAvailabilityPayload r) = availability_record_json r"
| "payload_fields (ParentRelationPayload r) = parent_relation_json r"

text \<open>\<open>#[serde(tag = "type")]\<close>: the discriminator is a member of the record itself.\<close>

definition payload_json :: "lineage_payload \<Rightarrow> json" where
  "payload_json p = JObj ((''type'', JStr (action_type p)) # payload_fields p)"

definition payload_digest_of :: "externals \<Rightarrow> lineage_payload \<Rightarrow> bytes32 result" where
  "payload_digest_of E p = sha256_commitment E (payload_json p)"

record lineage_action =
  protocol :: string
  protocol_version :: string
  schema :: string
  schema_version :: u32
  sequence :: u64
  previous :: "bytes32 option"
  action_shot_id :: shot_id
  actor :: builder_id
  timestamp :: canonical_timestamp
  availability :: availability_status
  payload :: lineage_payload
  payload_digest :: bytes32

definition action_json :: "lineage_action \<Rightarrow> json" where
  "action_json a = JObj [
     (''protocol'', JStr (protocol a)),
     (''protocol_version'', JStr (protocol_version a)),
     (''schema'', JStr (schema a)),
     (''schema_version'', json_word (schema_version a)),
     (''sequence'', json_word (sequence a)),
     (''previous'', json_option json_bytes32 (previous a)),
     (''shot_id'', json_bytes32 (action_shot_id a)),
     (''actor'', builder_id_json (actor a)),
     (''timestamp'', timestamp_json (timestamp a)),
     (''availability'', JStr (availability_status_name (availability a))),
     (''payload'', payload_json (payload a)),
     (''payload_digest'', json_bytes32 (payload_digest a))]"

definition verify_payload_digest :: "externals \<Rightarrow> lineage_action \<Rightarrow> unit result" where
  "verify_payload_digest E a =
     bind_result (payload_digest_of E (payload a)) (\<lambda>d. err_if (payload_digest a \<noteq> d) DigestMismatch)"

fun feedback_availability_checks :: "lineage_payload \<Rightarrow> availability_status \<Rightarrow> unit result" where
  "feedback_availability_checks (FeedbackPayload f) status =
     (let expected = (case fb_visibility f of
        Private \<Rightarrow> IntentionallyPrivate | Public \<Rightarrow> PubliclyAvailable)
      in err_if (status \<noteq> expected)
        (invalid ''lineage_action.availability''
          ''must exactly match feedback visibility: private feedback is intentionally_private and public feedback is publicly_available''))"
| "feedback_availability_checks _ status = Inr ()"

definition action_validate :: "externals \<Rightarrow> lineage_action \<Rightarrow> unit result" where
  "action_validate E a = checks [
     err_if (protocol a \<noteq> LINEAGE_PROTOCOL)
       (invalid ''lineage_action.protocol'' (''must be '' @ LINEAGE_PROTOCOL)),
     err_if (protocol_version a \<noteq> LINEAGE_PROTOCOL_VERSION)
       (invalid ''lineage_action.protocol_version'' (''must be '' @ LINEAGE_PROTOCOL_VERSION)),
     err_if (schema a \<noteq> LINEAGE_ACTION_SCHEMA)
       (invalid ''lineage_action.schema'' (''must be '' @ LINEAGE_ACTION_SCHEMA)),
     err_if (schema_version a \<noteq> LINEAGE_SCHEMA_VERSION)
       (invalid ''lineage_action.schema_version''
         (''must be '' @ show_nat (unat LINEAGE_SCHEMA_VERSION))),
     err_if (sequence a = 0 \<or> sequence a > MAX_SAFE_JSON_INTEGER)
       (invalid ''lineage_action.sequence'' ''must be a positive JSON-safe integer''),
     err_if (is_zero (action_shot_id a)) (invalid ''lineage_action.shot_id'' ''must not be zero''),
     builder_id_validate (actor a),
     err_if (availability a \<noteq> IntentionallyPrivate \<and> availability a \<noteq> PubliclyAvailable)
       (invalid ''lineage_action.availability''
         ''signed actions declare intentionally_private or publicly_available handling; mutable observations use artifact-availability actions''),
     payload_validate E (payload a) (action_shot_id a),
     feedback_availability_checks (payload a) (availability a),
     verify_payload_digest E a]"

definition action_new ::
  "externals \<Rightarrow> u64 \<Rightarrow> bytes32 option \<Rightarrow> shot_id \<Rightarrow> builder_id \<Rightarrow> canonical_timestamp
     \<Rightarrow> availability_status \<Rightarrow> lineage_payload \<Rightarrow> lineage_action result" where
  "action_new E seq prev shot act time avail pl =
     bind_result (payload_digest_of E pl) (\<lambda>digest.
     let action = \<lparr>protocol = LINEAGE_PROTOCOL, protocol_version = LINEAGE_PROTOCOL_VERSION,
       schema = LINEAGE_ACTION_SCHEMA, schema_version = LINEAGE_SCHEMA_VERSION,
       sequence = seq, previous = prev, action_shot_id = shot, actor = act, timestamp = time,
       availability = avail, payload = pl, payload_digest = digest\<rparr>
     in bind_result (action_validate E action) (\<lambda>_. Inr action))"

definition action_commitment :: "externals \<Rightarrow> lineage_action \<Rightarrow> bytes32 result" where
  "action_commitment E a =
     bind_result (action_validate E a) (\<lambda>_. sha256_commitment E (action_json a))"

record signed_lineage_action =
  action :: lineage_action
  signature :: signature_sidecar

definition signed_verify :: "externals \<Rightarrow> signed_lineage_action \<Rightarrow> unit result" where
  "signed_verify E s = checks [
     action_validate E (action s),
     sidecar_verify E (signature s) (action_json (action s))]"

definition signed_new ::
  "externals \<Rightarrow> lineage_action \<Rightarrow> signature_sidecar \<Rightarrow> signed_lineage_action result" where
  "signed_new E a sc =
     (let signed = \<lparr>action = a, signature = sc\<rparr>
      in bind_result (signed_verify E signed) (\<lambda>_. Inr signed))"

definition signed_commitment :: "externals \<Rightarrow> signed_lineage_action \<Rightarrow> bytes32 result" where
  "signed_commitment E s =
     bind_result (signed_verify E s) (\<lambda>_. action_commitment E (action s))"

definition attach_signature ::
  "externals \<Rightarrow> lineage_action \<Rightarrow> p256_public_key \<Rightarrow> p256_signature
     \<Rightarrow> signed_lineage_action result" where
  "attach_signature E a key sg =
     bind_result (public_key_validate E key) (\<lambda>_.
     bind_result (validate_low_s E sg) (\<lambda>_.
     bind_result (action_commitment E a) (\<lambda>digest.
     let signed = \<lparr>action = a, signature = \<lparr>ss_schema = SIDECAR_SCHEMA, ss_algorithm = P256,
       ss_digest = digest, ss_public_key = key, ss_signature = sg, ss_low_s = True\<rparr>\<rparr>
     in bind_result (signed_verify E signed) (\<lambda>_. Inr signed))))"

section \<open>Segments\<close>

record lineage_segment_anchor =
  an_shot_id :: shot_id
  an_sequence :: u64
  an_head :: bytes32
  an_timestamp :: canonical_timestamp

record verified_lineage_segment =
  vs_shot_id :: shot_id
  vs_first_sequence :: u64
  vs_last_sequence :: u64
  vs_head :: bytes32
  vs_complete_from_commitment :: bool
  vs_authority_context_available :: bool

definition action_error :: "u64 \<Rightarrow> string \<Rightarrow> protocol_error" where
  "action_error seq reason = LineageActionError seq reason"

definition segment_time_checks ::
  "externals \<Rightarrow> lineage_action \<Rightarrow> int option \<Rightarrow> unit result" where
  "segment_time_checks E a prior_time =
     (case prior_time of None \<Rightarrow> Inr ()
      | Some value \<Rightarrow> bind_result (unix_timestamp E (timestamp a)) (\<lambda>t.
          err_if (t < value) (action_error (sequence a) ''timestamp moved backwards'')))"

text \<open>The loop body: its state is \<open>expected_sequence\<close>, \<open>previous\<close> and
  \<open>prior_time\<close>.\<close>

record segment_cursor =
  cu_expected_sequence :: u64
  cu_previous :: "bytes32 option"
  cu_prior_time :: "int option"

definition segment_step ::
  "externals \<Rightarrow> bool \<Rightarrow> shot_id \<Rightarrow> u64 \<Rightarrow> segment_cursor \<Rightarrow> signed_lineage_action
     \<Rightarrow> segment_cursor result" where
  "segment_step E anchored shot_id first_sequence cursor sla =
     (let a = action sla; fail = action_error (sequence a) in
      bind_result (checks [
        map_err (\<lambda>e. fail (''action verification failed: '' @ display_error e))
          (signed_verify E sla),
        err_if (action_shot_id a \<noteq> shot_id) (fail ''ShotID changed within the segment''),
        err_if (sequence a \<noteq> cu_expected_sequence cursor) (fail ''sequence is not contiguous''),
        err_if ((anchored \<or> sequence a > first_sequence) \<and> previous a \<noteq> cu_previous cursor)
          (fail ''previous commitment does not match''),
        segment_time_checks E a (cu_prior_time cursor)]) (\<lambda>_.
      bind_result (action_commitment E a) (\<lambda>commitment.
      bind_result (unix_timestamp E (timestamp a)) (\<lambda>time.
      bind_result (ok_or (fail ''sequence overflowed'')
        (checked_add (cu_expected_sequence cursor) 1)) (\<lambda>next_sequence.
        Inr \<lparr>cu_expected_sequence = next_sequence, cu_previous = Some commitment,
             cu_prior_time = Some time\<rparr>)))))"

fun is_commitment :: "lineage_payload \<Rightarrow> bool" where
  "is_commitment (CommitmentPayload _) = True"
| "is_commitment _ = False"

definition segment_cursor_init ::
  "externals \<Rightarrow> lineage_action \<Rightarrow> lineage_segment_anchor option \<Rightarrow> segment_cursor result" where
  "segment_cursor_init E first anchor =
     (case anchor of
        None \<Rightarrow> Inr \<lparr>cu_expected_sequence = sequence first, cu_previous = None,
                      cu_prior_time = None\<rparr>
      | Some value \<Rightarrow>
          bind_result (ok_or (action_error (an_sequence value) ''anchor sequence overflowed'')
            (checked_add (an_sequence value) 1)) (\<lambda>expected.
          bind_result (unix_timestamp E (an_timestamp value)) (\<lambda>time.
          bind_result (err_if (an_shot_id value \<noteq> action_shot_id first)
            (action_error (sequence first) ''segment ShotID does not match its anchor'')) (\<lambda>_.
            Inr \<lparr>cu_expected_sequence = expected, cu_previous = Some (an_head value),
                 cu_prior_time = Some time\<rparr>))))"

definition verify_lineage_segment ::
  "externals \<Rightarrow> signed_lineage_action list \<Rightarrow> lineage_segment_anchor option
     \<Rightarrow> verified_lineage_segment result" where
  "verify_lineage_segment E actions anchor =
     (case actions of
        [] \<Rightarrow> Inl (LineageActionError 0 ''segment is empty'')
      | sla # _ \<Rightarrow>
          let first = action sla in
          bind_result (segment_cursor_init E first anchor) (\<lambda>cursor.
          bind_result (run_log (segment_step E (anchor \<noteq> None) (action_shot_id first) (sequence first))
            cursor actions) (\<lambda>final.
          bind_result (ok_or (Panic ''a verified action supplied a commitment'')
            (cu_previous final)) (\<lambda>head.
          let complete = anchor = None \<and> sequence first = 1 \<and> previous first = None
            \<and> is_commitment (payload first)
          in Inr \<lparr>vs_shot_id = action_shot_id first, vs_first_sequence = sequence first,
             vs_last_sequence = sequence (action (last actions)), vs_head = head,
             vs_complete_from_commitment = complete,
             vs_authority_context_available = (anchor \<noteq> None \<or> complete)\<rparr>))))"

section \<open>State\<close>

record accepted_genome =
  ag_genome :: genome
  ag_proposal_action :: bytes32
  ag_acceptance_action :: bytes32

record expression_state =
  es_expression :: expression
  es_organs :: "(string, organ) btree"
  es_versions :: "version_record list"
  es_current_version :: "version_id option"

type_synonym 'a action_record = "bytes32 \<times> 'a"

record shot_state =
  st_shot_id :: shot_id
  st_commitment :: shot_commitment
  st_intention :: "intention_record option"
  st_controller :: builder_id
  st_controller_key :: p256_public_key
  st_accepted_genome :: "accepted_genome option"
  st_expressions :: "(expression_id, expression_state) btree"
  st_genome_proposals :: "(bytes32, genome_proposal) btree"
  st_genome_acceptances :: "(bytes32, genome_acceptance) btree"
  st_verification_results :: "(bytes32, verification_result) btree"
  st_feedback :: "(bytes32, feedback) btree"
  st_evolutionary_intents :: "(bytes32, evolutionary_intent) btree"
  st_evolutions :: "evolution action_record list"
  st_ownership_history :: "ownership action_record list"
  st_token_association :: "token_association option"
  st_token_history :: "token_association action_record list"
  st_availability :: "(bytes32, artifact_availability_record) btree"
  st_parent_relations :: "parent_relation action_record list"
  st_sequence :: u64
  st_head :: bytes32
  st_last_timestamp :: canonical_timestamp

section \<open>One authorized action\<close>

text \<open>
  Each handler is one arm of the \<open>match\<close> in \<open>apply_one\<close>; \<open>fail\<close> is its error
  closure and \<open>c\<close> the commitment of the action. A handler returns the updated
  candidate state; the caller discards the candidate on an error.
\<close>

type_synonym fail = "string \<Rightarrow> protocol_error"

definition genome_binds :: "externals \<Rightarrow> genome \<Rightarrow> u64 \<Rightarrow> bytes32 \<Rightarrow> protocol_error \<Rightarrow> unit result" where
  "genome_binds E g revision digest e =
     (if g_revision g \<noteq> revision then Inl e
      else bind_result (genome_digest E g) (\<lambda>d. err_if (d \<noteq> digest) e))"

definition apply_intention ::
  "externals \<Rightarrow> fail \<Rightarrow> lineage_action \<Rightarrow> intention_record \<Rightarrow> shot_state \<Rightarrow> shot_state result" where
  "apply_intention E fail a r st =
     bind_result (err_if (st_intention st \<noteq> None) (fail ''the original intention is immutable'')) (\<lambda>_.
     bind_result (intention_commitment E r) (\<lambda>observed.
     bind_result (err_if (observed \<noteq> sc_intention_commitment (st_commitment st))
       (fail ''intention does not match the commitment made at Shot origin'')) (\<lambda>_.
     bind_result (unix_timestamp E (in_captured_at r)) (\<lambda>captured.
     bind_result (unix_timestamp E (timestamp a)) (\<lambda>issued.
     bind_result (err_if (captured > issued)
       (fail ''intention capture cannot occur after its action'')) (\<lambda>_.
       Inr (st\<lparr>st_intention := Some r\<rparr>)))))))"

definition apply_genome_proposal ::
  "externals \<Rightarrow> fail \<Rightarrow> bytes32 \<Rightarrow> genome_proposal \<Rightarrow> shot_state \<Rightarrow> shot_state result" where
  "apply_genome_proposal E fail c r st =
     (let reject = fail ''genome proposal base does not match the currently accepted genome'' in
      bind_result
        (case (st_accepted_genome st, gp_base_revision r, gp_base_genome_digest r) of
           (None, None, None) \<Rightarrow> Inr ()
         | (Some current, Some revision, Some digest) \<Rightarrow>
             genome_binds E (ag_genome current) revision digest reject
         | _ \<Rightarrow> Inl reject) (\<lambda>_.
        Inr (st\<lparr>st_genome_proposals := bt_insert c r (st_genome_proposals st)\<rparr>)))"

definition apply_genome_acceptance ::
  "externals \<Rightarrow> fail \<Rightarrow> bytes32 \<Rightarrow> lineage_action \<Rightarrow> genome_acceptance \<Rightarrow> shot_state
     \<Rightarrow> shot_state result" where
  "apply_genome_acceptance E fail c a r st =
     bind_result (err_if (ga_accepted_at r \<noteq> timestamp a)
       (fail ''genome acceptance timestamp must equal action timestamp'')) (\<lambda>_.
     bind_result (ok_or (fail ''genome proposal action is unavailable'')
       (bt_get (st_genome_proposals st) (ga_proposal_action r))) (\<lambda>proposal.
     bind_result (genome_binds E (gp_proposed proposal) (ga_revision r) (ga_genome_digest r)
       (fail ''accepted revision or digest does not match the proposal'')) (\<lambda>_.
     let expected_revision = (case st_accepted_genome st of
         None \<Rightarrow> 1 | Some current \<Rightarrow> saturating_add (g_revision (ag_genome current)) 1) in
     bind_result (err_if (ga_revision r \<noteq> expected_revision)
       (fail ''accepted genome revision is not contiguous'')) (\<lambda>_.
       Inr (st\<lparr>st_accepted_genome := Some \<lparr>ag_genome = gp_proposed proposal,
                 ag_proposal_action = ga_proposal_action r, ag_acceptance_action = c\<rparr>,
               st_genome_acceptances := bt_insert c r (st_genome_acceptances st)\<rparr>)))))"

definition apply_expression ::
  "externals \<Rightarrow> fail \<Rightarrow> expression \<Rightarrow> shot_state \<Rightarrow> shot_state result" where
  "apply_expression E fail r st =
     bind_result (ok_or (fail ''an expression requires an accepted genome'')
       (st_accepted_genome st)) (\<lambda>genome.
     bind_result (genome_binds E (ag_genome genome) (ex_genome_revision r) (ex_genome_digest r)
       (fail ''expression does not bind the accepted genome'')) (\<lambda>_.
     bind_result (err_if (bt_contains_key (st_expressions st) (ex_expression_id r))
       (fail ''expression ID already exists'')) (\<lambda>_.
       Inr (st\<lparr>st_expressions := bt_insert (ex_expression_id r)
         \<lparr>es_expression = r, es_organs = [], es_versions = [], es_current_version = None\<rparr>
         (st_expressions st)\<rparr>))))"

definition apply_organ :: "fail \<Rightarrow> organ \<Rightarrow> shot_state \<Rightarrow> shot_state result" where
  "apply_organ fail r st =
     bind_result (ok_or (fail ''organ names an unknown expression'')
       (bt_get (st_expressions st) (or_expression_id r))) (\<lambda>expression.
     bind_result (err_if (bt_contains_key (es_organs expression) (or_organ_id r))
       (fail ''organ ID is already declared for this expression'')) (\<lambda>_.
     bind_result (each (\<lambda>dependency. checks [
         err_if (dependency = or_organ_id r) (fail ''organ cannot depend on itself''),
         err_if (\<not> bt_contains_key (es_organs expression) dependency)
           (fail ''organ dependency has not been declared'')]) (or_dependencies r)) (\<lambda>_.
       Inr (st\<lparr>st_expressions := bt_insert (or_expression_id r)
         (expression\<lparr>es_organs := bt_insert (or_organ_id r) r (es_organs expression)\<rparr>)
         (st_expressions st)\<rparr>))))"

definition next_ordinal :: "fail \<Rightarrow> expression_state \<Rightarrow> u64 result" where
  "next_ordinal fail expression =
     ok_or (fail ''expression version sequence overflowed'')
       (Option.bind (u64_try_from (length (es_versions expression))) (\<lambda>n. checked_add n 1))"

definition acceptance_gates_checks ::
  "externals \<Rightarrow> fail \<Rightarrow> string list \<Rightarrow> organ list \<Rightarrow> unit result" where
  "acceptance_gates_checks E fail gate_names graph =
     each (\<lambda>r. each (\<lambda>index.
         bind_result (organ_acceptance_gate_name E r index) (\<lambda>expected.
           err_if (\<not> List.member gate_names expected)
             (fail ''verification omits a declared Organ acceptance test gate'')))
       [0..<length (or_acceptance_tests r)]) graph"

definition apply_verification_result ::
  "externals \<Rightarrow> fail \<Rightarrow> bytes32 \<Rightarrow> verification_result \<Rightarrow> shot_state \<Rightarrow> shot_state result" where
  "apply_verification_result E fail c r st =
     bind_result (ok_or (fail ''verification requires an accepted genome'')
       (st_accepted_genome st)) (\<lambda>genome.
     bind_result (ok_or (fail ''verification names an unknown expression'')
       (bt_get (st_expressions st) (vf_expression_id r))) (\<lambda>expression.
     bind_result (genome_binds E (ag_genome genome) (vf_genome_revision r) (vf_genome_digest r)
       (fail ''verification does not bind the accepted genome'')) (\<lambda>_.
     let capability_graph = bt_values (es_organs expression) in
     bind_result (capability_graph_digest E capability_graph) (\<lambda>graph_digest.
     bind_result (checks [
       err_if (vf_capability_graph_digest r \<noteq> graph_digest)
         (fail ''verification does not bind the exact current Organ graph''),
       acceptance_gates_checks E fail (map vg_name (vf_gates r)) capability_graph]) (\<lambda>_.
     bind_result (next_ordinal fail expression) (\<lambda>ordinal.
     bind_result (err_if (vf_candidate_version_id r \<noteq> version_id_derive E (st_shot_id st)
         (vf_expression_id r) ordinal (vf_genome_digest r) (vf_source_digest r))
       (fail ''verification candidate does not use the next content-bound VersionID'')) (\<lambda>_.
       Inr (st\<lparr>st_verification_results := bt_insert c r (st_verification_results st)\<rparr>))))))))"

definition version_matches_verification :: "version_record \<Rightarrow> verification_result \<Rightarrow> bool" where
  "version_matches_verification r v \<longleftrightarrow>
     vf_expression_id v = vr_expression_id r \<and> vf_candidate_version_id v = vr_version_id r
     \<and> vf_genome_revision v = vr_genome_revision r \<and> vf_genome_digest v = vr_genome_digest r
     \<and> vf_source_digest v = vr_source_digest r
     \<and> vf_capability_graph_digest v = vr_capability_graph_digest r
     \<and> vf_known_incompleteness v = vr_known_incompleteness r"

definition version_id_known :: "shot_state \<Rightarrow> version_id \<Rightarrow> bool" where
  "version_id_known st v = list_ex (\<lambda>r. vr_version_id r = v)
     (concat (map es_versions (bt_values (st_expressions st))))"

definition apply_version ::
  "externals \<Rightarrow> fail \<Rightarrow> version_record \<Rightarrow> shot_state \<Rightarrow> shot_state result" where
  "apply_version E fail r st =
     bind_result (ok_or (fail ''accepted version references an unknown verification'')
       (bt_get (st_verification_results st) (vr_verification_action r))) (\<lambda>verification.
     bind_result (checks [
       err_if (\<not> vf_passed verification)
         (fail ''failed verification cannot produce an accepted version''),
       err_if (\<not> version_matches_verification r verification)
         (fail ''version facts do not exactly match the referenced verification'')]) (\<lambda>_.
     bind_result (ok_or (fail ''version requires an accepted genome'')
       (st_accepted_genome st)) (\<lambda>genome.
     bind_result (genome_binds E (ag_genome genome) (vr_genome_revision r) (vr_genome_digest r)
       (fail ''version does not bind the accepted genome'')) (\<lambda>_.
     bind_result (err_if (version_id_known st (vr_version_id r))
       (fail ''VersionID already exists'')) (\<lambda>_.
     bind_result (ok_or (fail ''version names an unknown expression'')
       (bt_get (st_expressions st) (vr_expression_id r))) (\<lambda>expression.
     bind_result (capability_graph_digest E (bt_values (es_organs expression))) (\<lambda>graph_digest.
     bind_result (err_if (vr_capability_graph_digest r \<noteq> graph_digest)
       (fail ''version does not bind the exact current Organ graph'')) (\<lambda>_.
     bind_result (next_ordinal fail expression) (\<lambda>expected_ordinal.
     bind_result (err_if (vr_ordinal r \<noteq> expected_ordinal)
       (fail ''expression version ordinal is not contiguous'')) (\<lambda>_.
       Inr (st\<lparr>st_expressions := bt_insert (vr_expression_id r)
         (expression\<lparr>es_versions := es_versions expression @ [r],
            es_current_version := Some (vr_version_id r)\<rparr>)
         (st_expressions st)\<rparr>)))))))))))"

definition apply_feedback :: "fail \<Rightarrow> bytes32 \<Rightarrow> feedback \<Rightarrow> shot_state \<Rightarrow> shot_state result" where
  "apply_feedback fail c r st =
     bind_result (ok_or (fail ''feedback names an unknown expression'')
       (bt_get (st_expressions st) (fb_expression_id r))) (\<lambda>expression.
     bind_result (ok_or (fail ''feedback names an unknown exact version'')
       (List.find (\<lambda>v. vr_version_id v = fb_version_id r) (es_versions expression))) (\<lambda>version.
     bind_result (err_if (fb_build_identity r \<noteq> None
         \<and> vr_build_identity version \<noteq> fb_build_identity r)
       (fail ''feedback build identity does not match the exact version'')) (\<lambda>_.
       Inr (st\<lparr>st_feedback := bt_insert c r (st_feedback st)\<rparr>))))"

definition apply_evolutionary_intent ::
  "fail \<Rightarrow> bytes32 \<Rightarrow> evolutionary_intent \<Rightarrow> shot_state \<Rightarrow> shot_state result" where
  "apply_evolutionary_intent fail c r st =
     bind_result (ok_or (fail ''evolutionary intent names an unknown expression'')
       (bt_get (st_expressions st) (ei_expression_id r))) (\<lambda>expression.
     bind_result (checks [
       err_if (es_current_version expression \<noteq> Some (ei_from_version_id r))
         (fail ''evolutionary intent must begin from the current expression version''),
       each (\<lambda>reference.
         bind_result (ok_or (fail ''evolutionary intent references unknown feedback'')
           (bt_get (st_feedback st) reference)) (\<lambda>fb.
         err_if (fb_expression_id fb \<noteq> ei_expression_id r \<or> fb_version_id fb \<noteq> ei_from_version_id r)
           (fail ''selected feedback must bind the same exact expression version'')))
         (ei_feedback_actions r),
       optional (ei_proposed_genome_action r) (\<lambda>proposal.
         err_if (\<not> bt_contains_key (st_genome_proposals st) proposal)
           (fail ''proposed genome action is unavailable''))]) (\<lambda>_.
       Inr (st\<lparr>st_evolutionary_intents := bt_insert c r (st_evolutionary_intents st)\<rparr>)))"

fun position :: "('a \<Rightarrow> bool) \<Rightarrow> 'a list \<Rightarrow> nat option" where
  "position p [] = None"
| "position p (x # xs) = (if p x then Some 0 else map_option Suc (position p xs))"

definition usize_saturating_inc :: "nat \<Rightarrow> nat" where
  "usize_saturating_inc n = min (n + 1) (2 ^ 64 - 1)"

definition evolution_genome_checks ::
  "fail \<Rightarrow> shot_state \<Rightarrow> evolutionary_intent \<Rightarrow> version_record \<Rightarrow> evolution \<Rightarrow> unit result" where
  "evolution_genome_checks fail st intent to r =
     (if ev_from_genome_digest r \<noteq> ev_to_genome_digest r then
        bind_result (ok_or (fail ''genome mutation was not proposed by its evolutionary intent'')
          (ei_proposed_genome_action intent)) (\<lambda>proposal_action.
        bind_result (ok_or (fail ''genome mutation lacks the exact accepted genome action'')
          (ev_genome_acceptance_action r)) (\<lambda>acceptance_action.
        bind_result (ok_or (fail ''genome acceptance action is unavailable'')
          (bt_get (st_genome_acceptances st) acceptance_action)) (\<lambda>acceptance.
        checks [
          err_if (ga_proposal_action acceptance \<noteq> proposal_action)
            (fail ''genome acceptance does not accept the intent's exact proposal''),
          err_if (ga_genome_digest acceptance \<noteq> ev_to_genome_digest r
              \<or> ga_revision acceptance \<noteq> vr_genome_revision to)
            (fail ''genome acceptance does not bind the evolution target version'')])))
      else if ei_proposed_genome_action intent \<noteq> None \<or> declares_scope GenomeScope intent then
        Inl (fail ''genome-scoped evolutionary intent cannot complete without its genome mutation'')
      else err_if (ev_genome_acceptance_action r \<noteq> None)
        (fail ''unchanged genome must not name a genome acceptance action''))"

definition apply_evolution ::
  "fail \<Rightarrow> bytes32 \<Rightarrow> lineage_action \<Rightarrow> evolution \<Rightarrow> shot_state \<Rightarrow> shot_state result" where
  "apply_evolution fail c a r st =
     bind_result (err_if (ev_completed_at r \<noteq> timestamp a)
       (fail ''evolution completion timestamp must equal action timestamp'')) (\<lambda>_.
     bind_result (ok_or (fail ''evolution references unknown evolutionary intent'')
       (bt_get (st_evolutionary_intents st) (ev_evolutionary_intent_action r))) (\<lambda>intent.
     bind_result (err_if (ei_expression_id intent \<noteq> ev_expression_id r
         \<or> ei_from_version_id intent \<noteq> ev_from_version_id r)
       (fail ''evolution does not match its accepted intent'')) (\<lambda>_.
     bind_result (ok_or (fail ''evolution names an unknown expression'')
       (bt_get (st_expressions st) (ev_expression_id r))) (\<lambda>expression.
     bind_result (ok_or (fail ''evolution source version is unknown'')
       (position (\<lambda>v. vr_version_id v = ev_from_version_id r) (es_versions expression)))
       (\<lambda>from_index.
     bind_result (ok_or (fail ''evolution target version is not accepted'')
       (position (\<lambda>v. vr_version_id v = ev_to_version_id r) (es_versions expression)))
       (\<lambda>to_index.
     let from = es_versions expression ! from_index; to = es_versions expression ! to_index;
         organ_graph_changed = vr_capability_graph_digest from \<noteq> vr_capability_graph_digest to;
         organ_change_declared = declares_scope OrganScope intent in
     bind_result (checks [
       err_if (to_index \<noteq> usize_saturating_inc from_index
           \<or> es_current_version expression \<noteq> Some (ev_to_version_id r))
         (fail ''evolution must connect adjacent accepted versions and end at the current version''),
       err_if (vr_genome_digest from \<noteq> ev_from_genome_digest r
           \<or> vr_genome_digest to \<noteq> ev_to_genome_digest r)
         (fail ''evolution genome facts do not match its versions''),
       err_if (organ_graph_changed \<and> \<not> organ_change_declared)
         (fail ''Organ graph transition was not declared by its evolutionary intent''),
       err_if (\<not> organ_graph_changed \<and> organ_change_declared)
         (fail ''Organ-scoped evolutionary intent cannot complete without an Organ graph transition''),
       evolution_genome_checks fail st intent to r]) (\<lambda>_.
       Inr (st\<lparr>st_evolutions := st_evolutions st @ [(c, r)]\<rparr>))))))))"

definition apply_ownership ::
  "fail \<Rightarrow> bytes32 \<Rightarrow> lineage_action \<Rightarrow> ownership \<Rightarrow> shot_state \<Rightarrow> shot_state result" where
  "apply_ownership fail c a r st =
     bind_result (checks [
       err_if (ow_effective_at r \<noteq> timestamp a)
         (fail ''ownership timestamp must equal action timestamp''),
       err_if (ow_previous_controller r \<noteq> st_controller st)
         (fail ''ownership action names the wrong current controller'')]) (\<lambda>_.
       Inr (st\<lparr>st_ownership_history := st_ownership_history st @ [(c, r)],
               st_controller := ow_new_controller r,
               st_controller_key := ow_new_controller_key r\<rparr>))"

definition apply_token_association ::
  "fail \<Rightarrow> bytes32 \<Rightarrow> token_association \<Rightarrow> shot_state \<Rightarrow> shot_state result" where
  "apply_token_association fail c r st =
     bind_result
       (case ta_operation r of
          Associate \<Rightarrow> Inr (Some r)
        | Remove \<Rightarrow>
            (case st_token_association st of
               None \<Rightarrow> Inl (fail ''cannot remove a missing token association'')
             | Some current \<Rightarrow>
                 if ta_chain_id current \<noteq> ta_chain_id r \<or> ta_token current \<noteq> ta_token r
                 then Inl (fail ''token removal must exactly match the current association'')
                 else Inr None)) (\<lambda>association.
       Inr (st\<lparr>st_token_association := association,
               st_token_history := st_token_history st @ [(c, r)]\<rparr>))"

definition apply_artifact_availability ::
  "artifact_availability_record \<Rightarrow> shot_state \<Rightarrow> shot_state result" where
  "apply_artifact_availability r st =
     Inr (st\<lparr>st_availability :=
       bt_insert (ad_digest (av_artifact (aa_availability r))) r (st_availability st)\<rparr>)"

definition apply_parent_relation ::
  "fail \<Rightarrow> bytes32 \<Rightarrow> parent_relation \<Rightarrow> shot_state \<Rightarrow> shot_state result" where
  "apply_parent_relation fail c r st =
     bind_result (checks [
       err_if (pl_child_shot_id r \<noteq> st_shot_id st) (fail ''parent relation child is not this Shot''),
       err_if (list_ex (\<lambda>existing. pl_parent_shot_id (snd existing) = pl_parent_shot_id r)
           (st_parent_relations st))
         (fail ''parent relationship is already recorded'')]) (\<lambda>_.
       Inr (st\<lparr>st_parent_relations := st_parent_relations st @ [(c, r)]\<rparr>))"

fun apply_payload ::
  "externals \<Rightarrow> fail \<Rightarrow> bytes32 \<Rightarrow> lineage_action \<Rightarrow> lineage_payload \<Rightarrow> shot_state
     \<Rightarrow> shot_state result" where
  "apply_payload E fail c a (CommitmentPayload r) st =
     Inl (fail ''a Shot may contain only one commitment action'')"
| "apply_payload E fail c a (IntentionPayload r) st = apply_intention E fail a r st"
| "apply_payload E fail c a (GenomeProposalPayload r) st = apply_genome_proposal E fail c r st"
| "apply_payload E fail c a (GenomeAcceptancePayload r) st =
     apply_genome_acceptance E fail c a r st"
| "apply_payload E fail c a (ExpressionPayload r) st = apply_expression E fail r st"
| "apply_payload E fail c a (OrganPayload r) st = apply_organ fail r st"
| "apply_payload E fail c a (VerificationResultPayload r) st =
     apply_verification_result E fail c r st"
| "apply_payload E fail c a (VersionPayload r) st = apply_version E fail r st"
| "apply_payload E fail c a (FeedbackPayload r) st = apply_feedback fail c r st"
| "apply_payload E fail c a (EvolutionaryIntentPayload r) st =
     apply_evolutionary_intent fail c r st"
| "apply_payload E fail c a (EvolutionPayload r) st = apply_evolution fail c a r st"
| "apply_payload E fail c a (OwnershipPayload r) st = apply_ownership fail c a r st"
| "apply_payload E fail c a (TokenAssociationPayload r) st = apply_token_association fail c r st"
| "apply_payload E fail c a (ArtifactAvailabilityPayload r) st = apply_artifact_availability r st"
| "apply_payload E fail c a (ParentRelationPayload r) st = apply_parent_relation fail c r st"

definition apply_one ::
  "externals \<Rightarrow> shot_state \<Rightarrow> signed_lineage_action \<Rightarrow> shot_state result" where
  "apply_one E st sla =
     (let a = action sla; fail = action_error (sequence a) in
      bind_result (action_commitment E a) (\<lambda>c.
      bind_result (err_if (actor a \<noteq> st_controller st
          \<or> ss_public_key (signature sla) \<noteq> st_controller_key st)
        (fail ''action is not signed by the current Shot controller key'')) (\<lambda>_.
      bind_result (apply_payload E fail c a (payload a) st) (\<lambda>st'.
        Inr (st'\<lparr>st_sequence := sequence a, st_head := c, st_last_timestamp := timestamp a\<rparr>)))))"

section \<open>Reduction\<close>

definition state_anchor :: "shot_state \<Rightarrow> lineage_segment_anchor" where
  "state_anchor st = \<lparr>an_shot_id = st_shot_id st, an_sequence = st_sequence st,
     an_head = st_head st, an_timestamp = st_last_timestamp st\<rparr>"

text \<open>\<open>&mut ShotState\<close>: the result and the state the caller is left with.\<close>

definition apply_lineage_actions ::
  "externals \<Rightarrow> shot_state \<Rightarrow> signed_lineage_action list \<Rightarrow> unit result \<times> shot_state" where
  "apply_lineage_actions E st actions =
     (if actions = [] then (Inr (), st)
      else case verify_lineage_segment E actions (Some (state_anchor st)) of
          Inl e \<Rightarrow> (Inl e, st)
        | Inr _ \<Rightarrow>
            (case run_log (apply_one E) st actions of
               Inl e \<Rightarrow> (Inl e, st)
             | Inr candidate \<Rightarrow> (Inr (), candidate)))"

definition initial_state :: "lineage_action \<Rightarrow> shot_commitment \<Rightarrow> bytes32 \<Rightarrow> shot_state" where
  "initial_state first commitment head =
     \<lparr>st_shot_id = action_shot_id first, st_commitment = commitment, st_intention = None,
      st_controller = sc_initial_controller commitment,
      st_controller_key = sc_initial_controller_key commitment,
      st_accepted_genome = None, st_expressions = [], st_genome_proposals = [],
      st_genome_acceptances = [], st_verification_results = [], st_feedback = [],
      st_evolutionary_intents = [], st_evolutions = [], st_ownership_history = [],
      st_token_association = None, st_token_history = [], st_availability = [],
      st_parent_relations = [], st_sequence = 1, st_head = head,
      st_last_timestamp = timestamp first\<rparr>"

definition commitment_of :: "lineage_action \<Rightarrow> shot_commitment result" where
  "commitment_of first =
     (case payload first of
        CommitmentPayload commitment \<Rightarrow> Inr commitment
      | _ \<Rightarrow> Inl (action_error (sequence first) ''the first action must be the Shot commitment''))"

definition reduce_first :: "externals \<Rightarrow> signed_lineage_action \<Rightarrow> shot_state result" where
  "reduce_first E sla =
     (let first = action sla in
      bind_result (err_if (sequence first \<noteq> 1 \<or> previous first \<noteq> None)
        (action_error (sequence first)
          ''full lineage must begin at sequence 1 with no previous action'')) (\<lambda>_.
      bind_result (commitment_of first) (\<lambda>commitment.
      bind_result (err_if (actor first \<noteq> sc_initial_controller commitment
          \<or> ss_public_key (signature sla) \<noteq> sc_initial_controller_key commitment
          \<or> timestamp first \<noteq> sc_committed_at commitment)
        (action_error (sequence first)
          ''commitment actor, signer, controller, and timestamp must agree'')) (\<lambda>_.
      bind_result (action_commitment E first) (\<lambda>head.
        Inr (initial_state first commitment head))))))"

definition reduce_lineage ::
  "externals \<Rightarrow> signed_lineage_action list \<Rightarrow> shot_state result" where
  "reduce_lineage E actions =
     bind_result (verify_lineage_segment E actions None) (\<lambda>_.
     case actions of
       [] \<Rightarrow> Inl (action_error 0 ''lineage is empty'')
     | sla # rest \<Rightarrow>
         bind_result (reduce_first E sla) (\<lambda>st.
         case apply_lineage_actions E st rest of
           (Inl e, _) \<Rightarrow> Inl e
         | (Inr _, st') \<Rightarrow> Inr st'))"

section \<open>The frozen first generation, projected\<close>

record legacy_v1_entry =
  lv_record :: shot_record
  lv_signature :: signature_sidecar
  lv_record_commitment :: bytes32
  lv_version_id :: version_id

record adapted_v1_lineage =
  ad1_shot_id :: shot_id
  ad1_controller :: builder_id
  ad1_expression_id :: expression_id
  ad1_intention_commitment :: "bytes32 option"
  ad1_intention_availability :: availability_status
  ad1_genome_availability :: availability_status
  ad1_entries :: "legacy_v1_entry list"
  ad1_head :: bytes32

fun project_v1_entries ::
  "externals \<Rightarrow> expression_id \<Rightarrow> v1_entry list \<Rightarrow> legacy_v1_entry list result" where
  "project_v1_entries E expression_id [] = Inr []"
| "project_v1_entries E expression_id ((r, sc) # entries) =
     bind_result (shot_record_commitment E r) (\<lambda>record_commitment.
     bind_result (project_v1_entries E expression_id entries) (\<lambda>projected.
       Inr (\<lparr>lv_record = r, lv_signature = sc, lv_record_commitment = record_commitment,
              lv_version_id = version_id_for_legacy_v1 E (sr_shot_id r) expression_id
                (sr_sequence r) record_commitment\<rparr> # projected)))"

definition adapt_v1_lineage :: "externals \<Rightarrow> v1_entry list \<Rightarrow> adapted_v1_lineage result" where
  "adapt_v1_lineage E entries =
     bind_result (verify_lineage E entries) (\<lambda>verified.
     case entries of
       [] \<Rightarrow> Inl (Panic ''verify_lineage rejects an empty lineage'')
     | (first, _) # _ \<Rightarrow>
         let expression_id = expression_id_for_legacy_v1 E (sr_shot_id first) (sr_bundle_id first);
             intention_digests = remdups (map (\<lambda>(r, _). sr_genesis_input_sha256 r) entries);
             intention = (case intention_digests of [d] \<Rightarrow> Some d | _ \<Rightarrow> None) in
         bind_result (project_v1_entries E expression_id entries) (\<lambda>projected.
         bind_result (ok_or (action_error 0 ''verified v1 lineage has no head'')
           (verified_lineage_head verified)) (\<lambda>head.
           Inr \<lparr>ad1_shot_id = vl_shot_id verified, ad1_controller = vl_builder_id verified,
                ad1_expression_id = expression_id, ad1_intention_commitment = intention,
                ad1_intention_availability = Unknown, ad1_genome_availability = Unknown,
                ad1_entries = projected, ad1_head = ve_commitment head\<rparr>)))"

end
