(* ===== verification/Node_Store.thy ===== *)
theory Node_Store
  imports Lineage "HOL-Library.Product_Lexorder"
begin

text \<open>
  The lineage node's store: \<open>node/src/error.rs\<close>, \<open>model.rs\<close>, \<open>protocol_adapter.rs\<close>, the
  storage primitives of \<open>fs.rs\<close> and \<open>store.rs\<close>. The node keeps signed public actions in
  content-addressed files and derives every index from them. The mutex around every
  mutation makes the operations sequential; lock poisoning is not modelled. The
  directory of action files is a two-level tree, and the I/O errors of a file creation
  and the JSON parser are parameters.
\<close>

section \<open>Errors\<close>

text \<open>\<open>NodePanic\<close> is not a variant of the enum but the outcome of an \<open>expect\<close> that fails.\<close>

datatype node_error =
    NodeIo string
  | NodeJson string
  | NodeProtocol string
  | UnsafeStorage string
  | ActionTooLarge nat
  | ActionLimit nat
  | NotPublic
  | ContentCollision
  | ActionMissing string
  | ShotMissing string
  | Causal string
  | InvalidPeer string
  | PeerResponseTooLarge nat
  | PeerResponse string
  | PeerRequest string
  | PeerLimit nat
  | SyncInProgress
  | LockPoisoned
  | NodePanic string

type_synonym 'a node_result = "node_error + 'a"

fun display_node_error :: "node_error \<Rightarrow> string" where
  "display_node_error (NodeIo e) = ''I/O error: '' @ e"
| "display_node_error (NodeJson e) = ''JSON error: '' @ e"
| "display_node_error (NodeProtocol e) = ''protocol error: '' @ e"
| "display_node_error (UnsafeStorage p) = ''unsafe storage path: '' @ p"
| "display_node_error (ActionTooLarge n) = ''action exceeds the '' @ show_nat n @ ''-byte limit''"
| "display_node_error (ActionLimit n) = ''node action limit of '' @ show_nat n @ '' reached''"
| "display_node_error NotPublic = ''private or local-only actions are not accepted for replication''"
| "display_node_error ContentCollision = ''lineage action already exists with different bytes''"
| "display_node_error (ActionMissing d) = ''lineage action '' @ d @ '' is not available''"
| "display_node_error (ShotMissing s) = ''Shot '' @ s @ '' is not available''"
| "display_node_error (Causal d) = ''invalid causal lineage: '' @ d"
| "display_node_error (InvalidPeer p) = ''invalid peer URL: '' @ p"
| "display_node_error (PeerResponseTooLarge n) =
     ''peer response exceeds the '' @ show_nat n @ ''-byte limit''"
| "display_node_error (PeerResponse e) = ''peer returned an invalid response: '' @ e"
| "display_node_error (PeerRequest e) = ''peer request failed: '' @ e"
| "display_node_error (PeerLimit n) = ''configured peer limit of '' @ show_nat n @ '' exceeded''"
| "display_node_error SyncInProgress = ''a sync is already in progress''"
| "display_node_error LockPoisoned = ''internal state lock is poisoned''"
| "display_node_error (NodePanic e) = e"

definition of_protocol :: "'a result \<Rightarrow> 'a node_result" where
  "of_protocol r = map_err (\<lambda>e. NodeProtocol (display_error e)) r"

section \<open>Limits\<close>

definition MAX_ACTION_BYTES :: nat where "MAX_ACTION_BYTES = 256 * 1024"
definition MAX_ACTIONS_PER_NODE :: nat where "MAX_ACTIONS_PER_NODE = 100000"
definition MAX_ACTIONS_PER_SHOT :: nat where "MAX_ACTIONS_PER_SHOT = 10000"
definition MAX_INTEGRITY_PARENT_FINDINGS :: nat where "MAX_INTEGRITY_PARENT_FINDINGS = 1024"

section \<open>Model\<close>

datatype segment_status = SegmentVerified | SegmentRejected

datatype authority_status = AuthorityVerified | AuthorityUnresolved | AuthorityRejected

text \<open>\<open>SignedRecordStatus\<close> has the one variant \<open>Verified\<close>.\<close>

datatype signed_record_status = RecordVerified

record action_validation =
  val_signed_record :: signed_record_status
  val_segment :: segment_status
  val_neutral_authority :: authority_status
  val_candidate_authority :: authority_status
  val_authority_context_available :: bool
  val_missing_parent :: "bytes32 option"
  val_detail :: "string option"

record action_reference =
  ref_digest :: bytes32
  ref_shot_id :: shot_id
  ref_sequence :: u64
  ref_previous :: "bytes32 option"
  ref_validation :: action_validation

record missing_artifact =
  ma_digest :: bytes32
  ma_declared_status :: string
  ma_reason :: string
  ma_observed_in_action :: bytes32
  ma_candidate_authority :: authority_status

record ingest_outcome =
  io_digest :: bytes32
  io_stored :: bool
  io_shot_id :: shot_id
  io_sequence :: u64
  io_validation :: action_validation

record integrity_issue =
  is_path :: string
  is_detail :: string

record node_identity =
  ni_schema :: string
  ni_node_id :: bytes32
  ni_created_at_unix :: u64

section \<open>The boundary to the protocol\<close>

record validated_action =
  va_signed :: signed_lineage_action
  va_digest :: bytes32
  va_shot_id :: shot_id
  va_sequence :: u64
  va_previous :: "bytes32 option"
  va_canonical_bytes :: "byte list"
  va_missing_artifacts :: "missing_artifact list"

text \<open>
  What the node takes from its surroundings: the crates of the protocol, the typed JSON
  parsers behind \<open>canonical::from_slice\<close>, the I/O error a file creation meets, if any,
  with whether the file was already linked to its name, and for the identity file the
  random bytes, the clock and what another process created in the meantime.
\<close>

record node_env =
  ne_protocol :: externals
  ne_from_slice :: "byte list \<Rightarrow> string + signed_lineage_action"
  ne_write_fault :: "string \<times> string \<Rightarrow> (bool \<times> string) option"
  ne_identity_from_slice :: "byte list \<Rightarrow> string + node_identity"
  ne_identity_fault :: "(bool \<times> string) option"
  ne_identity_race :: "byte list option"
  ne_random :: bytes32
  ne_now :: u64

definition signed_json :: "signed_lineage_action \<Rightarrow> json" where
  "signed_json s = JObj [
     (''action'', action_json (action s)),
     (''signature'', sidecar_json (signature s))]"

definition availability_reason :: "availability_status \<Rightarrow> string" where
  "availability_reason status =
     (case status of
        Absent \<Rightarrow> ''publisher reports that the artifact is absent''
      | Unknown \<Rightarrow> ''artifact availability is unknown''
      | IntentionallyPrivate \<Rightarrow> ''artifact is intentionally private''
      | LocallyAvailable \<Rightarrow> ''artifact is local to another holder and is not stored by this node''
      | PubliclyAvailable \<Rightarrow> ''artifact is publicly advertised but is not stored by this node''
      | Replicated \<Rightarrow> ''replication was observed elsewhere; this node stores only the action''
      | CryptographicallyVerified \<Rightarrow>
          ''artifact was verified elsewhere; this node stores only the action''
      | OnChainAnchored \<Rightarrow>
          ''an anchor does not imply that artifact bytes are held by this node'')"

definition availability_observations ::
  "signed_lineage_action \<Rightarrow> bytes32 \<Rightarrow> missing_artifact list" where
  "availability_observations s action_digest =
     (case payload (action s) of
        ArtifactAvailabilityPayload r \<Rightarrow>
          (let status = av_status (aa_availability r) in
           [\<lparr>ma_digest = ad_digest (av_artifact (aa_availability r)),
             ma_declared_status = availability_status_name status,
             ma_reason = aa_target_role r @ '': '' @ availability_reason status,
             ma_observed_in_action = action_digest,
             ma_candidate_authority = AuthorityUnresolved\<rparr>])
      | _ \<Rightarrow> [])"

definition parse_public :: "node_env \<Rightarrow> byte list \<Rightarrow> validated_action node_result" where
  "parse_public N bytes =
     (let E = ne_protocol N in
      bind_result (err_if (length bytes > MAX_ACTION_BYTES) (ActionTooLarge MAX_ACTION_BYTES)) (\<lambda>_.
      bind_result (of_protocol (map_err Json (ne_from_slice N bytes))) (\<lambda>s.
      bind_result (of_protocol (signed_verify E s)) (\<lambda>_.
      bind_result (err_if (availability (action s) \<noteq> PubliclyAvailable) NotPublic) (\<lambda>_.
      bind_result (of_protocol (signed_commitment E s)) (\<lambda>digest.
      bind_result (of_protocol (canonical_to_vec E (signed_json s))) (\<lambda>canonical_bytes.
      bind_result (err_if (length canonical_bytes > MAX_ACTION_BYTES)
        (ActionTooLarge MAX_ACTION_BYTES)) (\<lambda>_.
        Inr \<lparr>va_signed = s, va_digest = digest, va_shot_id = action_shot_id (action s),
             va_sequence = sequence (action s), va_previous = previous (action s),
             va_canonical_bytes = canonical_bytes,
             va_missing_artifacts = availability_observations s digest\<rparr>))))))))"

section \<open>Action files\<close>

text \<open>
  A path below the action directory is a bucket name and a file name. What is not a
  regular file or not a directory where one is expected is kept apart.
\<close>

type_synonym action_path = "string \<times> string"

datatype store_entry = RegularFile "byte list" | OtherEntry
datatype store_bucket = Bucket "(string, store_entry) btree" | OtherBucket

type_synonym action_dir = "(string, store_bucket) btree"

definition action_path :: "bytes32 \<Rightarrow> action_path" where
  "action_path digest =
     (let hex = bytes32_to_hex digest in (take 2 (drop 2 hex), drop 2 hex @ ''.json''))"

definition display_path :: "string \<Rightarrow> action_path \<Rightarrow> string" where
  "display_path root p = root @ ''/'' @ fst p @ ''/'' @ snd p"

definition dir_entry :: "action_dir \<Rightarrow> action_path \<Rightarrow> store_entry option" where
  "dir_entry dir p =
     (case bt_get dir (fst p) of
        Some (Bucket files) \<Rightarrow> bt_get files (snd p)
      | _ \<Rightarrow> None)"

definition read_entry :: "string \<Rightarrow> store_entry option \<Rightarrow> nat \<Rightarrow> byte list node_result" where
  "read_entry path entry limit =
     (case entry of
        None \<Rightarrow> Inl (NodeIo ''No such file or directory (os error 2)'')
      | Some OtherEntry \<Rightarrow> Inl (UnsafeStorage path)
      | Some (RegularFile bytes) \<Rightarrow>
          (if length bytes > limit then Inl (ActionTooLarge limit) else Inr bytes))"

definition read_regular_limited ::
  "string \<Rightarrow> action_dir \<Rightarrow> action_path \<Rightarrow> nat \<Rightarrow> byte list node_result" where
  "read_regular_limited root dir p limit = read_entry (display_path root p) (dir_entry dir p) limit"

text \<open>
  The bucket directory is created on the way and stays if the file is not written. The
  temporary file is removed again; the directory is synchronized after the link, so an
  error there leaves the file in place.
\<close>

definition create_new_atomic ::
  "node_env \<Rightarrow> string \<Rightarrow> action_dir \<Rightarrow> action_path \<Rightarrow> byte list \<Rightarrow> bool node_result \<times> action_dir" where
  "create_new_atomic N root dir target bytes =
     (case bt_get dir (fst target) of
        Some OtherBucket \<Rightarrow> (Inl (UnsafeStorage (root @ ''/'' @ fst target)), dir)
      | bucket \<Rightarrow>
          (let files = (case bucket of Some (Bucket files) \<Rightarrow> files | _ \<Rightarrow> []);
               ensured = bt_insert (fst target) (Bucket files) dir in
           case bt_get files (snd target) of
             Some OtherEntry \<Rightarrow> (Inl (UnsafeStorage (display_path root target)), ensured)
           | Some (RegularFile _) \<Rightarrow> (Inr False, ensured)
           | None \<Rightarrow>
               (let linked = bt_insert (fst target)
                  (Bucket (bt_insert (snd target) (RegularFile bytes) files)) dir in
                case ne_write_fault N target of
                  Some (after_link, e) \<Rightarrow> (Inl (NodeIo e), if after_link then linked else ensured)
                | None \<Rightarrow> (Inr True, linked))))"

section \<open>The index\<close>

record action_meta =
  am_reference :: action_reference
  am_path :: action_path
  am_signed :: signed_lineage_action
  am_missing_artifacts :: "missing_artifact list"

text \<open>\<open>ShotIndex\<close> has the one field \<open>actions\<close>; a \<open>BTreeSet\<close> is a map into \<open>unit\<close>.\<close>

type_synonym shot_index = "(u64 \<times> bytes32, action_meta) btree"

type_synonym digest_set = "(bytes32, unit) btree"

record node_index =
  ix_actions :: "(bytes32, action_meta) btree"
  ix_shots :: "(shot_id, shot_index) btree"
  ix_children :: "(bytes32, digest_set) btree"
  ix_issues :: "integrity_issue list"
  ix_checked_files :: nat

definition empty_index :: node_index where
  "empty_index = \<lparr>ix_actions = [], ix_shots = [], ix_children = [], ix_issues = [],
     ix_checked_files = 0\<rparr>"

text \<open>\<open>ns_root\<close> is the path of the action directory, \<open>ns_dir\<close> its contents.\<close>

record node_store =
  ns_root :: string
  ns_identity_file :: "store_entry option"
  ns_identity :: node_identity
  ns_dir :: action_dir
  ns_index :: node_index

definition unresolved_public_authority_validation :: "bool \<Rightarrow> action_validation" where
  "unresolved_public_authority_validation context =
     \<lparr>val_signed_record = RecordVerified, val_segment = SegmentVerified,
      val_neutral_authority = AuthorityVerified, val_candidate_authority = AuthorityUnresolved,
      val_authority_context_available = context, val_missing_parent = None,
      val_detail = Some (''complete lineage is neutrally valid, but candidate authority is unresolved because this node does not resolve live generation 0.8.0 controller or registry evidence; retired v0.7 CREATE2 predictions are offline evidence only'')\<rparr>"

definition unresolved_validation :: "bytes32 option \<Rightarrow> string \<Rightarrow> action_validation" where
  "unresolved_validation missing_parent detail =
     \<lparr>val_signed_record = RecordVerified, val_segment = SegmentVerified,
      val_neutral_authority = AuthorityUnresolved, val_candidate_authority = AuthorityUnresolved,
      val_authority_context_available = False, val_missing_parent = missing_parent,
      val_detail = Some detail\<rparr>"

definition rejected_validation :: "bool \<Rightarrow> bytes32 option \<Rightarrow> string \<Rightarrow> action_validation" where
  "rejected_validation context missing_parent detail =
     \<lparr>val_signed_record = RecordVerified, val_segment = SegmentRejected,
      val_neutral_authority = AuthorityRejected, val_candidate_authority = AuthorityRejected,
      val_authority_context_available = context, val_missing_parent = missing_parent,
      val_detail = Some detail\<rparr>"

definition complete_commitment_shape :: "signed_lineage_action \<Rightarrow> bool" where
  "complete_commitment_shape s \<longleftrightarrow>
     sequence (action s) = 1 \<and> previous (action s) = None \<and> is_commitment (payload (action s))"

definition reject_known_invalid :: "action_validation \<Rightarrow> unit node_result" where
  "reject_known_invalid v =
     err_if (val_segment v = SegmentRejected \<or> val_candidate_authority v = AuthorityRejected)
       (Causal (case val_detail v of Some d \<Rightarrow> d | None \<Rightarrow> ''lineage candidate was rejected''))"

subsection \<open>Classification\<close>

text \<open>The walk towards the origin. The branch is kept in the order it is pushed, newest
  first; a cycle and an overlong branch end the walk.\<close>

datatype walk_result =
    WalkRejected string
  | WalkDone "signed_lineage_action list" "bytes32 option"

function walk_branch ::
  "(bytes32, action_meta) btree \<Rightarrow> bytes32 list \<Rightarrow> signed_lineage_action list \<Rightarrow> bytes32 option
     \<Rightarrow> walk_result" where
  "walk_branch actions seen branch None = WalkDone branch None"
| "walk_branch actions seen branch (Some digest) =
     (if digest \<in> set seen then WalkRejected ''cycle in previous-action links''
      else if length branch \<ge> MAX_ACTIONS_PER_SHOT then
        WalkRejected ''available lineage segment exceeds the per-Shot action limit''
      else case bt_get actions digest of
          None \<Rightarrow> WalkDone branch (Some digest)
        | Some parent \<Rightarrow>
            walk_branch actions (digest # seen) (branch @ [am_signed parent])
              (ref_previous (am_reference parent)))"
  by pat_completeness auto
termination
  by (relation "measure (\<lambda>(_, _, branch, _). MAX_ACTIONS_PER_SHOT - length branch)") auto

definition classify_branch ::
  "externals \<Rightarrow> signed_lineage_action list \<Rightarrow> bytes32 option \<Rightarrow> action_validation" where
  "classify_branch E branch missing_parent =
     (case verify_lineage_segment E branch None of
        Inl e \<Rightarrow> rejected_validation (missing_parent = None \<and> complete_commitment_shape (hd branch))
          missing_parent (''available segment is invalid: '' @ display_error e)
      | Inr segment \<Rightarrow>
          (case missing_parent of
             Some parent \<Rightarrow>
               (if sequence (action (hd branch)) = 1 then
                  rejected_validation False (Some parent)
                    ''sequence 1 cannot have an unavailable predecessor''
                else unresolved_validation (Some parent)
                  (''signed record and available segment verify, but authority is unresolved until parent ''
                     @ bytes32_to_hex parent @ '' is available''))
           | None \<Rightarrow>
               (case reduce_lineage E branch of
                  Inr _ \<Rightarrow> unresolved_public_authority_validation (vs_authority_context_available segment)
                | Inl e \<Rightarrow>
                    \<lparr>val_signed_record = RecordVerified, val_segment = SegmentVerified,
                     val_neutral_authority = AuthorityRejected,
                     val_candidate_authority = AuthorityRejected,
                     val_authority_context_available = vs_authority_context_available segment,
                     val_missing_parent = None,
                     val_detail = Some (''complete prefix fails neutral reduction: '' @ display_error e)\<rparr>)))"

definition classify ::
  "externals \<Rightarrow> node_index \<Rightarrow> bytes32 \<Rightarrow> signed_lineage_action \<Rightarrow> bytes32 option
     \<Rightarrow> action_validation" where
  "classify E index candidate_digest candidate candidate_previous =
     (case walk_branch (ix_actions index) [candidate_digest] [candidate] candidate_previous of
        WalkRejected detail \<Rightarrow> rejected_validation False None detail
      | WalkDone branch missing_parent \<Rightarrow> classify_branch E (rev branch) missing_parent)"

definition classify_candidate ::
  "externals \<Rightarrow> node_index \<Rightarrow> validated_action \<Rightarrow> action_validation" where
  "classify_candidate E index v = classify E index (va_digest v) (va_signed v) (va_previous v)"

definition classify_stored :: "externals \<Rightarrow> node_index \<Rightarrow> bytes32 \<Rightarrow> action_validation" where
  "classify_stored E index digest =
     (case bt_get (ix_actions index) digest of
        None \<Rightarrow> rejected_validation False None
          ''action disappeared while its derived index was rebuilt''
      | Some candidate \<Rightarrow>
          classify E index digest (am_signed candidate) (ref_previous (am_reference candidate)))"

subsection \<open>Updates\<close>

definition stored_reference :: "validated_action \<Rightarrow> action_validation \<Rightarrow> action_reference" where
  "stored_reference v validation =
     \<lparr>ref_digest = va_digest v, ref_shot_id = va_shot_id v, ref_sequence = va_sequence v,
      ref_previous = va_previous v, ref_validation = validation\<rparr>"

definition stored_meta ::
  "validated_action \<Rightarrow> action_path \<Rightarrow> action_validation \<Rightarrow> action_meta" where
  "stored_meta v path validation =
     \<lparr>am_reference = stored_reference v validation, am_path = path, am_signed = va_signed v,
      am_missing_artifacts = va_missing_artifacts v\<rparr>"

definition get_or :: "'v \<Rightarrow> 'v option \<Rightarrow> 'v" where
  "get_or d x = (case x of None \<Rightarrow> d | Some v \<Rightarrow> v)"

definition add_child :: "bytes32 option \<Rightarrow> bytes32 \<Rightarrow> (bytes32, digest_set) btree
     \<Rightarrow> (bytes32, digest_set) btree" where
  "add_child parent digest children =
     (case parent of None \<Rightarrow> children
      | Some p \<Rightarrow> bt_insert p (bt_insert digest () (get_or [] (bt_get children p))) children)"

definition add_stored ::
  "node_index \<Rightarrow> validated_action \<Rightarrow> action_path \<Rightarrow> action_validation \<Rightarrow> node_index" where
  "add_stored index v path validation =
     (let meta = stored_meta v path validation;
          shot = get_or [] (bt_get (ix_shots index) (va_shot_id v)) in
      index\<lparr>ix_children := add_child (va_previous v) (va_digest v) (ix_children index),
            ix_shots := bt_insert (va_shot_id v)
              (bt_insert (va_sequence v, va_digest v) meta shot) (ix_shots index),
            ix_actions := bt_insert (va_digest v) meta (ix_actions index)\<rparr>)"

definition set_validation :: "action_validation \<Rightarrow> action_meta \<Rightarrow> action_meta" where
  "set_validation validation meta =
     meta\<lparr>am_reference := (am_reference meta)\<lparr>ref_validation := validation\<rparr>\<rparr>"

definition bt_adjust :: "'k::linorder \<Rightarrow> ('v \<Rightarrow> 'v) \<Rightarrow> ('k, 'v) btree \<Rightarrow> ('k, 'v) btree" where
  "bt_adjust k f m = (case bt_get m k of None \<Rightarrow> m | Some v \<Rightarrow> bt_insert k (f v) m)"

definition update_validation ::
  "node_index \<Rightarrow> shot_id \<Rightarrow> bytes32 \<Rightarrow> action_validation \<Rightarrow> node_index" where
  "update_validation index shot_id digest validation =
     (case bt_get (ix_actions index) digest of
        None \<Rightarrow> index
      | Some meta \<Rightarrow>
          index\<lparr>ix_actions := bt_insert digest (set_validation validation meta) (ix_actions index),
                ix_shots := bt_adjust shot_id
                  (bt_adjust (ref_sequence (am_reference meta), digest) (set_validation validation))
                  (ix_shots index)\<rparr>)"

text \<open>The work list of \<open>reclassify_descendants\<close>; it does not end if the links form a cycle.\<close>

definition bt_extend :: "digest_set \<Rightarrow> digest_set \<Rightarrow> digest_set" where
  "bt_extend pending digests = fold (\<lambda>d. bt_insert (fst d) ()) digests pending"

partial_function (option) reclassify_descendants ::
  "externals \<Rightarrow> node_index \<Rightarrow> digest_set \<Rightarrow> node_index option" where
  "reclassify_descendants E index pending =
     (case pending of
        [] \<Rightarrow> Some index
      | (digest, _) # rest \<Rightarrow>
          (case bt_get (ix_actions index) digest of
             None \<Rightarrow> reclassify_descendants E index rest
           | Some meta \<Rightarrow>
               reclassify_descendants E
                 (update_validation index (ref_shot_id (am_reference meta)) digest
                   (classify_stored E index digest))
                 (bt_extend rest (get_or [] (bt_get (ix_children index) digest)))))"

section \<open>Ingestion\<close>

definition shot_count :: "node_index \<Rightarrow> shot_id \<Rightarrow> nat" where
  "shot_count index shot_id =
     (case bt_get (ix_shots index) shot_id of None \<Rightarrow> 0 | Some shot \<Rightarrow> length shot)"

definition ingest_limits :: "node_index \<Rightarrow> validated_action \<Rightarrow> unit node_result" where
  "ingest_limits index v = checks [
     err_if (length (ix_actions index) \<ge> MAX_ACTIONS_PER_NODE
         \<and> \<not> bt_contains_key (ix_actions index) (va_digest v)) (ActionLimit MAX_ACTIONS_PER_NODE),
     err_if (shot_count index (va_shot_id v) \<ge> MAX_ACTIONS_PER_SHOT
         \<and> \<not> bt_contains_key (ix_actions index) (va_digest v)) (ActionLimit MAX_ACTIONS_PER_SHOT)]"

definition outcome_of :: "validated_action \<Rightarrow> bool \<Rightarrow> action_validation \<Rightarrow> ingest_outcome" where
  "outcome_of v stored validation =
     \<lparr>io_digest = va_digest v, io_stored = stored, io_shot_id = va_shot_id v,
      io_sequence = va_sequence v, io_validation = validation\<rparr>"

text \<open>The branch for a digest that is already indexed.\<close>

definition ingest_existing ::
  "node_store \<Rightarrow> validated_action \<Rightarrow> action_meta \<Rightarrow> ingest_outcome node_result" where
  "ingest_existing st v existing =
     bind_result (read_regular_limited (ns_root st) (ns_dir st) (am_path existing) MAX_ACTION_BYTES)
       (\<lambda>stored.
     bind_result (err_if (stored \<noteq> va_canonical_bytes v) ContentCollision) (\<lambda>_.
       Inr (outcome_of v False (ref_validation (am_reference existing)))))"

text \<open>The file is in place; an entry found there must hold the same bytes.\<close>

definition ingest_created ::
  "node_store \<Rightarrow> validated_action \<Rightarrow> bool node_result \<Rightarrow> action_dir \<Rightarrow> bool node_result" where
  "ingest_created st v created dir =
     bind_result created (\<lambda>c.
       if c then Inr True
       else bind_result (read_regular_limited (ns_root st) dir (action_path (va_digest v))
           MAX_ACTION_BYTES) (\<lambda>existing.
         bind_result (err_if (existing \<noteq> va_canonical_bytes v) ContentCollision) (\<lambda>_. Inr False)))"

definition ingest_new ::
  "node_env \<Rightarrow> node_store \<Rightarrow> validated_action
     \<Rightarrow> (ingest_outcome node_result \<times> node_store) option" where
  "ingest_new N st v =
     (let E = ne_protocol N; index = ns_index st;
          validation = classify_candidate E index v in
      case bind_result (ingest_limits index v) (\<lambda>_. reject_known_invalid validation) of
        Inl e \<Rightarrow> Some (Inl e, st)
      | Inr _ \<Rightarrow>
          (case create_new_atomic N (ns_root st) (ns_dir st) (action_path (va_digest v))
               (va_canonical_bytes v) of
             (created, dir) \<Rightarrow>
               (case ingest_created st v created dir of
                  Inl e \<Rightarrow> Some (Inl e, st\<lparr>ns_dir := dir\<rparr>)
                | Inr stored \<Rightarrow>
                    map_option (\<lambda>index'.
                        (case bt_get (ix_actions index') (va_digest v) of
                           None \<Rightarrow> Inl (NodePanic ''newly added action is indexed'')
                         | Some meta \<Rightarrow>
                             Inr (outcome_of v stored (ref_validation (am_reference meta))),
                         st\<lparr>ns_dir := dir, ns_index := index'\<rparr>))
                      (reclassify_descendants E
                        (add_stored index v (action_path (va_digest v)) validation)
                        [(va_digest v, ())]))))"

definition ingest ::
  "node_env \<Rightarrow> node_store \<Rightarrow> byte list \<Rightarrow> (ingest_outcome node_result \<times> node_store) option" where
  "ingest N st bytes =
     (case parse_public N bytes of
        Inl e \<Rightarrow> Some (Inl e, st)
      | Inr v \<Rightarrow>
          (case bt_get (ix_actions (ns_index st)) (va_digest v) of
             Some existing \<Rightarrow> Some (ingest_existing st v existing, st)
           | None \<Rightarrow> ingest_new N st v))"

text \<open>A file named by the operator must hold the canonical form exactly.\<close>

definition ingest_file ::
  "node_env \<Rightarrow> node_store \<Rightarrow> string \<Rightarrow> store_entry option
     \<Rightarrow> (ingest_outcome node_result \<times> node_store) option" where
  "ingest_file N st path entry =
     (case bind_result (read_entry path entry MAX_ACTION_BYTES) (\<lambda>bytes.
             bind_result (parse_public N bytes) (\<lambda>parsed.
             bind_result (err_if (va_canonical_bytes parsed \<noteq> bytes)
               (NodeProtocol ''signed action file must contain canonical JSON bytes exactly'')) (\<lambda>_.
               Inr bytes))) of
        Inl e \<Rightarrow> Some (Inl e, st)
      | Inr bytes \<Rightarrow> ingest N st bytes)"

definition contains :: "node_store \<Rightarrow> bytes32 \<Rightarrow> bool" where
  "contains st digest = bt_contains_key (ix_actions (ns_index st)) digest"

definition action_bytes :: "node_env \<Rightarrow> node_store \<Rightarrow> bytes32 \<Rightarrow> byte list node_result" where
  "action_bytes N st digest =
     bind_result (ok_or (ActionMissing (bytes32_to_hex digest))
       (map_option am_path (bt_get (ix_actions (ns_index st)) digest))) (\<lambda>path.
     bind_result (read_regular_limited (ns_root st) (ns_dir st) path MAX_ACTION_BYTES) (\<lambda>bytes.
     bind_result (parse_public N bytes) (\<lambda>v.
     bind_result (err_if (va_digest v \<noteq> digest \<or> va_canonical_bytes v \<noteq> bytes) ContentCollision)
       (\<lambda>_. Inr bytes))))"

end
