(* ===== verification/Node_Scan.thy ===== *)
theory Node_Scan
  imports Node_Store
begin

text \<open>
  The other half of \<open>node/src/store.rs\<close>: rebuilding the index from the action files, the
  integrity report, and the views a node serves (\<open>ShotSummary\<close>, \<open>ShotView\<close>, \<open>Health\<close>).
\<close>

section \<open>Rebuilding the index\<close>

definition is_bucket_name :: "string \<Rightarrow> bool" where
  "is_bucket_name name \<longleftrightarrow> length name = 2 \<and> list_all is_lower_hex_char name"

definition issue :: "string \<Rightarrow> string \<Rightarrow> integrity_issue" where
  "issue path detail = \<lparr>is_path = path, is_detail = detail\<rparr>"

text \<open>One bucket: its regular files, and the entries that are something else.\<close>

definition bucket_paths ::
  "string \<Rightarrow> string \<Rightarrow> (string, store_entry) btree \<Rightarrow> action_path list \<times> integrity_issue list" where
  "bucket_paths root name files =
     (map (\<lambda>e. (name, fst e)) (filter (\<lambda>e. snd e \<noteq> OtherEntry) files),
      map (\<lambda>e. issue (display_path root (name, fst e)) ''action-store entries must be regular files'')
        (filter (\<lambda>e. snd e = OtherEntry) files))"

definition collect_bucket ::
  "string \<Rightarrow> string \<times> store_bucket \<Rightarrow> action_path list \<times> integrity_issue list" where
  "collect_bucket root b =
     (case snd b of
        Bucket files \<Rightarrow>
          (if is_bucket_name (fst b) then bucket_paths root (fst b) files
           else ([], [issue (root @ ''/'' @ fst b) ''unexpected non-bucket entry in action store'']))
      | OtherBucket \<Rightarrow>
          ([], [issue (root @ ''/'' @ fst b) ''unexpected non-bucket entry in action store'']))"

definition collect_action_paths ::
  "string \<Rightarrow> action_dir \<Rightarrow> action_path list \<times> integrity_issue list" where
  "collect_action_paths root dir =
     (concat (map (\<lambda>b. fst (collect_bucket root b)) dir),
      concat (map (\<lambda>b. snd (collect_bucket root b)) dir))"

text \<open>The first loop of \<open>scan_index\<close>: a file is a candidate or an issue.\<close>

definition scan_file ::
  "node_env \<Rightarrow> string \<Rightarrow> action_dir \<Rightarrow> action_path \<Rightarrow> integrity_issue + validated_action" where
  "scan_file N root dir path =
     (case bind_result (read_regular_limited root dir path MAX_ACTION_BYTES) (\<lambda>bytes.
             bind_result (parse_public N bytes) (\<lambda>v. Inr (bytes, v))) of
        Inl e \<Rightarrow> Inl (issue (display_path root path) (display_node_error e))
      | Inr (bytes, v) \<Rightarrow>
          (if action_path (va_digest v) \<noteq> path then
             Inl (issue (display_path root path)
               ''content address does not match the action commitment'')
           else if bytes \<noteq> va_canonical_bytes v then
             Inl (issue (display_path root path) ''stored action is not canonical JSON'')
           else Inr v))"

fun lefts :: "('a + 'b) list \<Rightarrow> 'a list" where
  "lefts [] = []"
| "lefts (Inl x # xs) = x # lefts xs"
| "lefts (Inr y # xs) = lefts xs"

fun rights :: "('a + 'b) list \<Rightarrow> 'b list" where
  "rights [] = []"
| "rights (Inl x # xs) = rights xs"
| "rights (Inr y # xs) = y # rights xs"

text \<open>The second loop: candidates enter the index in the order of sequence and digest.\<close>

definition scan_add :: "string \<Rightarrow> validated_action \<Rightarrow> node_index \<Rightarrow> node_index" where
  "scan_add root v index =
     (let path = action_path (va_digest v) in
      if bt_contains_key (ix_actions index) (va_digest v) then
        index\<lparr>ix_issues := ix_issues index
          @ [issue (display_path root path) ''duplicate content-addressed action'']\<rparr>
      else if shot_count index (va_shot_id v) \<ge> MAX_ACTIONS_PER_SHOT then
        index\<lparr>ix_issues := ix_issues index
          @ [issue (display_path root path)
               (''Shot exceeds the '' @ show_nat MAX_ACTIONS_PER_SHOT @ ''-action limit'')]\<rparr>
      else add_stored index v path (unresolved_validation (va_previous v)
        ''authority context has not yet been derived from stored lineage''))"

text \<open>The third loop: every stored action is classified against the whole index.\<close>

definition scan_classify :: "externals \<Rightarrow> bytes32 \<times> shot_id \<Rightarrow> node_index \<Rightarrow> node_index" where
  "scan_classify E entry index =
     update_validation index (snd entry) (fst entry) (classify_stored E index (fst entry))"

definition scan_index :: "node_env \<Rightarrow> string \<Rightarrow> action_dir \<Rightarrow> node_index node_result" where
  "scan_index N root dir =
     (case collect_action_paths root dir of
        (paths, issues) \<Rightarrow>
          bind_result (err_if (length paths > MAX_ACTIONS_PER_NODE) (ActionLimit MAX_ACTIONS_PER_NODE))
          (\<lambda>_.
          let scanned = map (scan_file N root dir) paths;
              candidates = sort_key (\<lambda>v. (va_sequence v, va_digest v)) (rights scanned);
              start = empty_index\<lparr>ix_checked_files := length paths, ix_issues := issues @ lefts scanned\<rparr>;
              index = fold (scan_add root) candidates start;
              ordered = map (\<lambda>m. (ref_digest (am_reference m), ref_shot_id (am_reference m)))
                (bt_values (ix_actions index))
          in Inr (fold (scan_classify (ne_protocol N)) ordered index)))"

section \<open>Opening a store\<close>

definition MAX_IDENTITY_BYTES :: nat where "MAX_IDENTITY_BYTES = 4096"
definition IDENTITY_SCHEMA :: string where "IDENTITY_SCHEMA = ''tohseno.node-identity/1''"

definition identity_json :: "node_identity \<Rightarrow> json" where
  "identity_json i = JObj [
     (''schema'', JStr (ni_schema i)),
     (''node_id'', json_bytes32 (ni_node_id i)),
     (''created_at_unix'', json_word (ni_created_at_unix i))]"

definition validate_identity :: "node_identity \<Rightarrow> unit node_result" where
  "validate_identity i =
     err_if (ni_schema i \<noteq> IDENTITY_SCHEMA \<or> ni_node_id i = 0 \<or> ni_created_at_unix i = 0)
       (NodeProtocol ''invalid node identity'')"

definition read_identity :: "node_env \<Rightarrow> string \<Rightarrow> store_entry option \<Rightarrow> (byte list \<times> node_identity) node_result" where
  "read_identity N path entry =
     bind_result (read_entry path entry MAX_IDENTITY_BYTES) (\<lambda>bytes.
     bind_result (of_protocol (map_err Json (ne_identity_from_slice N bytes))) (\<lambda>identity.
     bind_result (validate_identity identity) (\<lambda>_. Inr (bytes, identity))))"

definition new_identity :: "node_env \<Rightarrow> node_identity" where
  "new_identity N = \<lparr>ni_schema = IDENTITY_SCHEMA, ni_node_id = ne_random N,
     ni_created_at_unix = max (ne_now N) 1\<rparr>"

text \<open>The result, and the identity file afterwards.\<close>

definition load_or_create_identity ::
  "node_env \<Rightarrow> string \<Rightarrow> store_entry option \<Rightarrow> node_identity node_result \<times> store_entry option" where
  "load_or_create_identity N root file =
     (let path = root @ ''/node.json''; E = ne_protocol N in
      case file of
        Some entry \<Rightarrow>
          (bind_result (read_identity N path file) (\<lambda>(bytes, identity).
           bind_result (of_protocol (canonical_to_vec E (identity_json identity))) (\<lambda>canonical.
           bind_result (err_if (canonical \<noteq> bytes) (UnsafeStorage path)) (\<lambda>_. Inr identity))), file)
      | None \<Rightarrow>
          (case bind_result (validate_identity (new_identity N)) (\<lambda>_.
                  of_protocol (canonical_to_vec E (identity_json (new_identity N)))) of
             Inl e \<Rightarrow> (Inl e, None)
           | Inr bytes \<Rightarrow>
               (case (ne_identity_fault N, ne_identity_race N) of
                  (Some (linked, e), _) \<Rightarrow>
                    (Inl (NodeIo e), if linked then Some (RegularFile bytes) else None)
                | (None, Some other) \<Rightarrow>
                    (bind_result (read_identity N path (Some (RegularFile other))) (\<lambda>(_, identity). Inr identity),
                     Some (RegularFile other))
                | (None, None) \<Rightarrow> (Inr (new_identity N), Some (RegularFile bytes)))))"

definition open_store ::
  "node_env \<Rightarrow> string \<Rightarrow> store_entry option \<Rightarrow> action_dir \<Rightarrow> node_store node_result" where
  "open_store N root file dir =
     (case load_or_create_identity N root file of
        (Inl e, _) \<Rightarrow> Inl e
      | (Inr identity, file') \<Rightarrow>
          bind_result (scan_index N (root @ ''/actions'') dir) (\<lambda>index.
            Inr \<lparr>ns_root = root @ ''/actions'', ns_identity_file = file', ns_identity = identity,
                 ns_dir = dir, ns_index = index\<rparr>))"

section \<open>Reports\<close>

record validation_counts =
  vc_signed_records_verified :: nat
  vc_segments_verified :: nat
  vc_segments_rejected :: nat
  vc_neutral_authority_verified :: nat
  vc_neutral_authority_unresolved :: nat
  vc_neutral_authority_rejected :: nat
  vc_candidate_authority_verified :: nat
  vc_candidate_authority_unresolved :: nat
  vc_candidate_authority_rejected :: nat

definition count_one :: "action_reference \<Rightarrow> validation_counts \<Rightarrow> validation_counts" where
  "count_one r c =
     (let v = ref_validation r;
          c = c\<lparr>vc_signed_records_verified := vc_signed_records_verified c
                + of_bool (val_signed_record v = RecordVerified)\<rparr>;
          c = (case val_segment v of
                 SegmentVerified \<Rightarrow> c\<lparr>vc_segments_verified := vc_segments_verified c + 1\<rparr>
               | SegmentRejected \<Rightarrow> c\<lparr>vc_segments_rejected := vc_segments_rejected c + 1\<rparr>);
          c = (case val_neutral_authority v of
                 AuthorityVerified \<Rightarrow>
                   c\<lparr>vc_neutral_authority_verified := vc_neutral_authority_verified c + 1\<rparr>
               | AuthorityUnresolved \<Rightarrow>
                   c\<lparr>vc_neutral_authority_unresolved := vc_neutral_authority_unresolved c + 1\<rparr>
               | AuthorityRejected \<Rightarrow>
                   c\<lparr>vc_neutral_authority_rejected := vc_neutral_authority_rejected c + 1\<rparr>)
      in (case val_candidate_authority v of
            AuthorityVerified \<Rightarrow>
              c\<lparr>vc_candidate_authority_verified := vc_candidate_authority_verified c + 1\<rparr>
          | AuthorityUnresolved \<Rightarrow>
              c\<lparr>vc_candidate_authority_unresolved := vc_candidate_authority_unresolved c + 1\<rparr>
          | AuthorityRejected \<Rightarrow>
              c\<lparr>vc_candidate_authority_rejected := vc_candidate_authority_rejected c + 1\<rparr>))"

definition validation_counts :: "action_reference list \<Rightarrow> validation_counts" where
  "validation_counts references = fold count_one references
     \<lparr>vc_signed_records_verified = 0, vc_segments_verified = 0, vc_segments_rejected = 0,
      vc_neutral_authority_verified = 0, vc_neutral_authority_unresolved = 0,
      vc_neutral_authority_rejected = 0, vc_candidate_authority_verified = 0,
      vc_candidate_authority_unresolved = 0, vc_candidate_authority_rejected = 0\<rparr>"

record missing_parent_reference =
  mp_shot_id :: shot_id
  mp_action_digest :: bytes32
  mp_missing_parent :: bytes32

record integrity_report =
  rep_ok :: bool
  rep_checked_actions :: nat
  rep_valid_actions :: nat
  rep_indexed_actions :: nat
  rep_indexed_shots :: nat
  rep_validation :: validation_counts
  rep_missing_parent_count :: nat
  rep_missing_parents :: "missing_parent_reference list"
  rep_findings_truncated :: bool
  rep_memory_matches_disk :: bool
  rep_issues :: "integrity_issue list"

definition missing_parent_of :: "action_meta \<Rightarrow> missing_parent_reference option" where
  "missing_parent_of meta =
     map_option (\<lambda>p. \<lparr>mp_shot_id = ref_shot_id (am_reference meta),
         mp_action_digest = ref_digest (am_reference meta), mp_missing_parent = p\<rparr>)
       (val_missing_parent (ref_validation (am_reference meta)))"

definition report_for :: "node_index \<Rightarrow> bool \<Rightarrow> integrity_report" where
  "report_for index memory_matches_disk =
     (let validation = validation_counts (map am_reference (bt_values (ix_actions index)));
          missing = sort_key (\<lambda>m. (mp_shot_id m, mp_action_digest m, mp_missing_parent m))
            (List.map_filter missing_parent_of (bt_values (ix_actions index)))
      in \<lparr>rep_ok = (ix_issues index = [] \<and> memory_matches_disk),
          rep_checked_actions = ix_checked_files index,
          rep_valid_actions = vc_segments_verified validation,
          rep_indexed_actions = length (ix_actions index),
          rep_indexed_shots = length (ix_shots index),
          rep_validation = validation,
          rep_missing_parent_count = length missing,
          rep_missing_parents = take MAX_INTEGRITY_PARENT_FINDINGS missing,
          rep_findings_truncated = (length missing > MAX_INTEGRITY_PARENT_FINDINGS),
          rep_memory_matches_disk = memory_matches_disk,
          rep_issues = ix_issues index\<rparr>)"

definition rebuild :: "node_env \<Rightarrow> node_store \<Rightarrow> integrity_report node_result \<times> node_store" where
  "rebuild N st =
     (case scan_index N (ns_root st) (ns_dir st) of
        Inl e \<Rightarrow> (Inl e, st)
      | Inr scanned \<Rightarrow> (Inr (report_for scanned True), st\<lparr>ns_index := scanned\<rparr>))"

definition integrity :: "node_env \<Rightarrow> node_store \<Rightarrow> integrity_report node_result" where
  "integrity N st =
     bind_result (scan_index N (ns_root st) (ns_dir st)) (\<lambda>scanned.
       let current = ns_index st;
           matches = ix_actions current = ix_actions scanned \<and> ix_shots current = ix_shots scanned
             \<and> ix_children current = ix_children scanned
       in Inr (report_for scanned matches))"

section \<open>Views\<close>

record shot_summary =
  sum_shot_id :: shot_id
  sum_action_count :: nat
  sum_roots :: "bytes32 list"
  sum_observed_heads :: "bytes32 list"
  sum_authority_verified_heads :: "bytes32 list"
  sum_authority_unresolved_heads :: "bytes32 list"
  sum_authority_rejected_heads :: "bytes32 list"
  sum_validation :: validation_counts
  sum_missing_parents :: "bytes32 list"
  sum_missing_artifacts :: "missing_artifact list"

record shot_view =
  sv_shot :: shot_summary
  sv_actions :: "action_reference list"

text \<open>A collection into a \<open>BTreeSet\<close>, read back in order.\<close>

definition btree_set :: "'a::linorder list \<Rightarrow> 'a list" where
  "btree_set xs = map fst (fold (\<lambda>x. bt_insert x ()) xs [])"

definition heads_for :: "shot_index \<Rightarrow> (action_reference \<Rightarrow> bool) \<Rightarrow> bytes32 list" where
  "heads_for shot include =
     (let references = filter include (map am_reference (bt_values shot));
          included = btree_set (map ref_digest references);
          parents = btree_set (filter (\<lambda>p. p \<in> set included) (List.map_filter ref_previous references))
      in filter (\<lambda>d. d \<notin> set parents) included)"

definition shot_missing_artifacts :: "shot_index \<Rightarrow> missing_artifact list" where
  "shot_missing_artifacts shot =
     concat (map (\<lambda>meta. map (\<lambda>m. m\<lparr>ma_candidate_authority :=
         val_candidate_authority (ref_validation (am_reference meta))\<rparr>) (am_missing_artifacts meta))
       (bt_values shot))"

definition summarize :: "shot_id \<Rightarrow> shot_index \<Rightarrow> shot_summary" where
  "summarize shot_id shot =
     (let references = map am_reference (bt_values shot) in
      \<lparr>sum_shot_id = shot_id,
       sum_action_count = length shot,
       sum_roots = map ref_digest
         (filter (\<lambda>r. ref_sequence r = 1 \<and> ref_previous r = None) references),
       sum_observed_heads = heads_for shot (\<lambda>_. True),
       sum_authority_verified_heads = heads_for shot
         (\<lambda>r. val_candidate_authority (ref_validation r) = AuthorityVerified),
       sum_authority_unresolved_heads = heads_for shot
         (\<lambda>r. val_candidate_authority (ref_validation r) = AuthorityUnresolved),
       sum_authority_rejected_heads = heads_for shot
         (\<lambda>r. val_candidate_authority (ref_validation r) = AuthorityRejected),
       sum_validation = validation_counts references,
       sum_missing_parents = btree_set
         (List.map_filter (\<lambda>r. val_missing_parent (ref_validation r)) references),
       sum_missing_artifacts = remdups_adj (sort_key
         (\<lambda>m. (ma_digest m, ma_declared_status m, ma_reason m, ma_observed_in_action m))
         (shot_missing_artifacts shot))\<rparr>)"

definition shots :: "node_store \<Rightarrow> shot_summary list" where
  "shots st = map (\<lambda>(shot_id, shot). summarize shot_id shot) (ix_shots (ns_index st))"

definition shot :: "node_store \<Rightarrow> shot_id \<Rightarrow> shot_view node_result" where
  "shot st shot_id =
     bind_result (ok_or (ShotMissing (bytes32_to_hex shot_id)) (bt_get (ix_shots (ns_index st)) shot_id))
       (\<lambda>ix. Inr \<lparr>sv_shot = summarize shot_id ix,
                    sv_actions = map am_reference (bt_values ix)\<rparr>)"

record node_health =
  he_status :: string
  he_node_id :: bytes32
  he_stored_actions :: nat
  he_indexed_shots :: nat
  he_integrity_ok :: bool

definition health :: "node_store \<Rightarrow> node_health" where
  "health st =
     (let index = ns_index st in
      \<lparr>he_status = (if ix_issues index = [] then ''ok'' else ''degraded''),
       he_node_id = ni_node_id (ns_identity st),
       he_stored_actions = length (ix_actions index),
       he_indexed_shots = length (ix_shots index),
       he_integrity_ok = (ix_issues index = [])\<rparr>)"

record node_info =
  in_schema :: string
  in_node_id :: bytes32
  in_created_at_unix :: u64
  in_lineage_protocol :: string
  in_lineage_protocol_version :: string
  in_supported_schema_versions :: "u32 list"
  in_stored_actions :: nat
  in_indexed_shots :: nat
  in_active_generation :: "string option"
  in_generation_policy :: string
  in_legacy_policy :: string
  in_agreement :: string
  in_non_agreement :: string

definition NODE_PROTOCOL :: string where "NODE_PROTOCOL = ''tohseno.node/2''"
definition ACTIVE_GENERATION :: string where "ACTIVE_GENERATION = ''0.8.0''"
definition GENERATION_POLICY :: string where
  "GENERATION_POLICY = ''generation 0.8.0 is release-authorized and active, but this node revision has no live controller/registry evidence resolver, so ordinary-lineage candidate authority remains unresolved''"
definition LEGACY_POLICY :: string where
  "LEGACY_POLICY = ''v0.7 CREATE2 prediction is a retired offline-verification helper only; generic signed lineage remains neutral legacy evidence and can never establish active public candidate authority''"

definition info :: "node_store \<Rightarrow> node_info" where
  "info st =
     \<lparr>in_schema = NODE_PROTOCOL,
      in_node_id = ni_node_id (ns_identity st),
      in_created_at_unix = ni_created_at_unix (ns_identity st),
      in_lineage_protocol = LINEAGE_PROTOCOL,
      in_lineage_protocol_version = LINEAGE_PROTOCOL_VERSION,
      in_supported_schema_versions = [LINEAGE_SCHEMA_VERSION],
      in_stored_actions = length (ix_actions (ns_index st)),
      in_indexed_shots = length (ix_shots (ns_index st)),
      in_active_generation = Some ACTIVE_GENERATION,
      in_generation_policy = GENERATION_POLICY,
      in_legacy_policy = LEGACY_POLICY,
      in_agreement = ''deterministic signed-record, available-segment, and neutral reducer validity for locally possessed ordinary lineage'',
      in_non_agreement = ''no resolved public candidate authority, registry receipt or public-checkpoint inventory, universal head, artifact completeness, subjective coherence, or global consensus''\<rparr>"

end
