(* ===== verification/Node_Index.thy ===== *)
theory Node_Index
  imports Node_Scan "HOL-Library.Multiset"
begin

text \<open>
  What the node's index stands for. Abstractly it is a map from digests to stored actions
  with their validation; \<open>index_repr\<close> says that the three maps of \<open>Index\<close> are derived from
  it, and each update of the index is an update of the abstract map. The validations are
  current when each is what classification against the whole index gives.
\<close>

section \<open>Sorted maps are extensional\<close>

lemma bt_keys_get: "bt_get m k = None \<longleftrightarrow> k \<notin> set (map fst m)"
  by (simp add: bt_get_def map_of_eq_None_iff)

lemma bt_invar_keys: "bt_invar m \<Longrightarrow> distinct (map fst m) \<and> sorted (map fst m)"
  by (simp add: bt_invar_def strict_sorted_iff)

lemma bt_rebuild: "bt_invar m \<Longrightarrow> m = map (\<lambda>k. (k, the (bt_get m k))) (map fst m)"
  using bt_get_entries [of m] by (force intro!: map_idI [symmetric])

lemma bt_ext:
  assumes "bt_invar m" "bt_invar n" "\<And>k. bt_get m k = bt_get n k"
  shows "m = n"
proof -
  have "set (map fst m) = set (map fst n)" using assms(3) bt_keys_get by (metis subsetI subset_antisym)
  then have "map fst m = map fst n"
    using bt_invar_keys [OF assms(1)] bt_invar_keys [OF assms(2)] sorted_distinct_set_unique by blast
  with bt_rebuild [OF assms(1)] have "m = map (\<lambda>k. (k, the (bt_get n k))) (map fst n)"
    unfolding assms(3) by (simp only:)
  also have "\<dots> = n" by (rule bt_rebuild [OF assms(2), symmetric])
  finally show ?thesis .
qed

lemma bt_length_card: "bt_invar m \<Longrightarrow> length m = card {k. bt_get m k \<noteq> None}"
proof -
  assume "bt_invar m"
  then have "length m = card (set (map fst m))" using bt_invar_keys distinct_card by fastforce
  also have "set (map fst m) = {k. bt_get m k \<noteq> None}" using bt_keys_get [of m] by auto
  finally show ?thesis .
qed

lemma bt_finite: "finite {k. bt_get m k \<noteq> None}"
proof -
  have "{k. bt_get m k \<noteq> None} = set (map fst m)" using bt_keys_get [of m] by auto
  then show ?thesis by simp
qed

lemma bt_get_nonempty: "bt_invar m \<Longrightarrow> m \<noteq> [] \<longleftrightarrow> (\<exists>k. bt_get m k \<noteq> None)"
  by (cases m) (auto simp: bt_get_def)

lemma bt_get_adjust: "bt_get (bt_adjust k f m) j = (if j = k then map_option f (bt_get m k) else bt_get m j)"
  by (auto simp: bt_adjust_def bt_get_insert split: option.split)

lemma bt_adjust_invar: "bt_invar m \<Longrightarrow> bt_invar (bt_adjust k f m)"
  by (simp add: bt_adjust_def bt_insert_invar split: option.split)

section \<open>The abstract index\<close>

type_synonym abs_index = "bytes32 \<Rightarrow> (validated_action \<times> action_validation) option"

definition meta_of :: "bytes32 \<Rightarrow> validated_action \<times> action_validation \<Rightarrow> action_meta" where
  "meta_of d e = stored_meta (fst e) (action_path d) (snd e)"

definition actions_repr :: "abs_index \<Rightarrow> (bytes32, action_meta) btree \<Rightarrow> bool" where
  "actions_repr A m \<longleftrightarrow> bt_invar m \<and> (\<forall>d. bt_get m d = map_option (meta_of d) (A d))"

definition shot_repr :: "abs_index \<Rightarrow> shot_id \<Rightarrow> shot_index \<Rightarrow> bool" where
  "shot_repr A s sh \<longleftrightarrow> bt_invar sh \<and> (\<forall>n d e. bt_get sh (n, d) = Some e \<longleftrightarrow>
     (\<exists>v w. A d = Some (v, w) \<and> va_shot_id v = s \<and> va_sequence v = n \<and> e = meta_of d (v, w)))"

definition shots_repr :: "abs_index \<Rightarrow> (shot_id, shot_index) btree \<Rightarrow> bool" where
  "shots_repr A m \<longleftrightarrow> bt_invar m
     \<and> (\<forall>s. shot_repr A s (get_or [] (bt_get m s))) \<and> (\<forall>s. bt_get m s \<noteq> Some [])"

definition child_of :: "abs_index \<Rightarrow> bytes32 \<Rightarrow> bytes32 \<Rightarrow> bool" where
  "child_of A p c \<longleftrightarrow> (\<exists>v w. A c = Some (v, w) \<and> va_previous v = Some p)"

definition child_repr :: "abs_index \<Rightarrow> bytes32 \<Rightarrow> digest_set \<Rightarrow> bool" where
  "child_repr A p cs \<longleftrightarrow> bt_invar cs \<and> (\<forall>c. bt_get cs c \<noteq> None \<longleftrightarrow> child_of A p c)"

definition children_repr :: "abs_index \<Rightarrow> (bytes32, digest_set) btree \<Rightarrow> bool" where
  "children_repr A m \<longleftrightarrow> bt_invar m
     \<and> (\<forall>p. child_repr A p (get_or [] (bt_get m p))) \<and> (\<forall>p. bt_get m p \<noteq> Some [])"

definition digests_ok :: "abs_index \<Rightarrow> bool" where
  "digests_ok A \<longleftrightarrow> (\<forall>d v w. A d = Some (v, w) \<longrightarrow> va_digest v = d)"

definition index_repr :: "abs_index \<Rightarrow> node_index \<Rightarrow> bool" where
  "index_repr A ix \<longleftrightarrow> digests_ok A \<and> actions_repr A (ix_actions ix)
     \<and> shots_repr A (ix_shots ix) \<and> children_repr A (ix_children ix)"

subsection \<open>It determines the index\<close>

lemma option_eqI: "(\<And>v. x = Some v \<longleftrightarrow> y = Some v) \<Longrightarrow> x = y"
  by (cases x; cases y) auto

lemma shot_repr_unique:
  assumes "shot_repr A s sh" "shot_repr A s sh'"
  shows "sh = sh'"
proof (rule bt_ext)
  fix k
  show "bt_get sh k = bt_get sh' k"
    using assms by (intro option_eqI, cases k) (simp add: shot_repr_def)
qed (use assms in \<open>simp_all add: shot_repr_def\<close>)

lemma child_repr_unique:
  assumes "child_repr A p cs" "child_repr A p cs'"
  shows "cs = cs'"
proof (rule bt_ext)
  fix k
  show "bt_get cs k = bt_get cs' k"
    using assms by (intro option_eqI) (simp add: child_repr_def)
qed (use assms in \<open>simp_all add: child_repr_def\<close>)

lemma get_or_unique:
  "get_or [] x = get_or [] y \<Longrightarrow> x \<noteq> Some [] \<Longrightarrow> y \<noteq> Some [] \<Longrightarrow> x = y"
  by (auto simp: get_or_def split: option.splits)

lemma index_repr_unique:
  assumes "index_repr A ix" "index_repr A ix'"
  shows "ix_actions ix = ix_actions ix' \<and> ix_shots ix = ix_shots ix' \<and> ix_children ix = ix_children ix'"
proof (intro conjI)
  show "ix_actions ix = ix_actions ix'"
    using assms by (auto simp: index_repr_def actions_repr_def intro: bt_ext)
  show "ix_shots ix = ix_shots ix'"
    using assms unfolding index_repr_def shots_repr_def
    by (intro bt_ext) (blast intro: get_or_unique shot_repr_unique)+
  show "ix_children ix = ix_children ix'"
    using assms unfolding index_repr_def children_repr_def
    by (intro bt_ext) (blast intro: get_or_unique child_repr_unique)+
qed

lemma empty_index_repr: "index_repr (\<lambda>_. None) (empty_index\<lparr>ix_checked_files := n, ix_issues := is\<rparr>)"
  by (auto simp: index_repr_def digests_ok_def actions_repr_def shots_repr_def children_repr_def
      shot_repr_def child_repr_def child_of_def empty_index_def bt_invar_def bt_get_def get_or_def)

subsection \<open>Updates\<close>

lemma bt_insert_not_Nil [simp]: "bt_insert k v m \<noteq> []"
  by (cases m) auto

lemma get_or_simps [simp]: "get_or x None = x" "get_or x (Some y) = y"
  by (simp_all add: get_or_def)

lemma get_or_insert:
  "get_or x (bt_get (bt_insert k v m) j) = (if j = k then v else get_or x (bt_get m j))"
  by (simp add: bt_get_insert)

lemma shot_repr_add:
  assumes "shot_repr A s sh" "A d = None"
  shows "shot_repr (A(d \<mapsto> (v, w))) s
    (if s = va_shot_id v then bt_insert (va_sequence v, d) (meta_of d (v, w)) sh else sh)"
  using assms by (auto simp: shot_repr_def bt_get_insert bt_insert_invar)

lemma child_repr_add:
  assumes "child_repr A p cs" "A d = None"
  shows "child_repr (A(d \<mapsto> (v, w))) p (if va_previous v = Some p then bt_insert d () cs else cs)"
  using assms by (auto simp: child_repr_def child_of_def bt_get_insert bt_insert_invar)

lemma shots_repr_add:
  assumes "shots_repr A m" "A d = None"
  shows "shots_repr (A(d \<mapsto> (v, w))) (bt_insert (va_shot_id v)
    (bt_insert (va_sequence v, d) (meta_of d (v, w)) (get_or [] (bt_get m (va_shot_id v)))) m)"
proof -
  have "shot_repr (A(d \<mapsto> (v, w))) s (get_or [] (bt_get (bt_insert (va_shot_id v)
    (bt_insert (va_sequence v, d) (meta_of d (v, w)) (get_or [] (bt_get m (va_shot_id v)))) m) s))" for s
    using shot_repr_add [of A s "get_or [] (bt_get m s)" d v w] assms
    by (auto simp: get_or_insert shots_repr_def)
  with assms(1) show ?thesis by (simp add: shots_repr_def bt_insert_invar bt_get_insert)
qed

lemma children_repr_add:
  assumes "children_repr A m" "A d = None"
  shows "children_repr (A(d \<mapsto> (v, w))) (add_child (va_previous v) d m)"
proof -
  have "child_repr (A(d \<mapsto> (v, w))) p (get_or [] (bt_get (add_child (va_previous v) d m) p))" for p
    using child_repr_add [of A p "get_or [] (bt_get m p)" d v w] assms
    by (auto simp: add_child_def get_or_insert children_repr_def split: option.splits if_splits)
  with assms(1) show ?thesis
    by (auto simp: children_repr_def add_child_def bt_insert_invar bt_get_insert split: option.split)
qed

lemma add_stored_repr:
  assumes "index_repr A ix" "A d = None" "va_digest v = d"
  shows "index_repr (A(d \<mapsto> (v, w))) (add_stored ix v (action_path d) w)"
proof -
  have "actions_repr (A(d \<mapsto> (v, w))) (bt_insert d (meta_of d (v, w)) (ix_actions ix))"
    using assms(1) by (simp add: index_repr_def actions_repr_def bt_get_insert bt_insert_invar)
  moreover have "digests_ok (A(d \<mapsto> (v, w)))"
    using assms by (auto simp: index_repr_def digests_ok_def)
  ultimately show ?thesis
    using assms shots_repr_add [of A _ d v w] children_repr_add [of A _ d v w]
    by (auto simp: index_repr_def add_stored_def Let_def meta_of_def)
qed

lemma meta_of_simps [simp]:
  "set_validation w' (meta_of d (v, w)) = meta_of d (v, w')"
  "ref_sequence (am_reference (meta_of d e)) = va_sequence (fst e)"
  "ref_shot_id (am_reference (meta_of d e)) = va_shot_id (fst e)"
  "ref_previous (am_reference (meta_of d e)) = va_previous (fst e)"
  "ref_digest (am_reference (meta_of d e)) = va_digest (fst e)"
  "ref_validation (am_reference (meta_of d e)) = snd e"
  "am_signed (meta_of d e) = va_signed (fst e)"
  "am_path (meta_of d e) = action_path d"
  by (simp_all add: meta_of_def set_validation_def stored_meta_def stored_reference_def)

lemma shot_repr_update:
  assumes "shot_repr A s sh" "A d = Some (v, w)"
  shows "shot_repr (A(d \<mapsto> (v, w'))) s (if s = va_shot_id v
    then bt_adjust (va_sequence v, d) (set_validation w') sh else sh)"
proof -
  have inv: "bt_invar sh" and get: "\<And>n c e. bt_get sh (n, c) = Some e \<longleftrightarrow>
      (\<exists>v w. A c = Some (v, w) \<and> va_shot_id v = s \<and> va_sequence v = n \<and> e = meta_of c (v, w))"
    using assms(1) by (auto simp: shot_repr_def)
  have here: "s = va_shot_id v \<Longrightarrow> bt_get sh (va_sequence v, d) = Some (meta_of d (v, w))"
    using assms(2) by (simp add: get)
  show ?thesis
  proof (cases "s = va_shot_id v")
    case True
    have "bt_get (bt_adjust (va_sequence v, d) (set_validation w') sh) (n, c) = Some e \<longleftrightarrow>
      (\<exists>u x. (A(d \<mapsto> (v, w'))) c = Some (u, x) \<and> va_shot_id u = s \<and> va_sequence u = n
         \<and> e = meta_of c (u, x))" for n c e
      using True here assms(2) by (auto simp: bt_get_adjust get)
    then show ?thesis using True inv by (simp add: shot_repr_def bt_adjust_invar)
  next
    case False
    then show ?thesis using inv get assms(2) by (auto simp: shot_repr_def)
  qed
qed

lemma bt_adjust_not_Nil: "m \<noteq> [] \<Longrightarrow> bt_adjust k f m \<noteq> []"
  by (simp add: bt_adjust_def split: option.split)

lemma update_validation_repr:
  assumes "index_repr A ix" "A d = Some (v, w)"
  shows "index_repr (A(d \<mapsto> (v, w'))) (update_validation ix (va_shot_id v) d w')"
proof -
  let ?B = "A(d \<mapsto> (v, w'))"
  let ?shots = "bt_adjust (va_shot_id v) (bt_adjust (va_sequence v, d) (set_validation w')) (ix_shots ix)"
  have A: "actions_repr A (ix_actions ix)" "shots_repr A (ix_shots ix)" "children_repr A (ix_children ix)"
    "digests_ok A" using assms(1) by (auto simp: index_repr_def)
  have get: "bt_get (ix_actions ix) d = Some (meta_of d (v, w))" using A(1) assms(2) by (simp add: actions_repr_def)
  have "shot_repr A (va_shot_id v) (get_or [] (bt_get (ix_shots ix) (va_shot_id v)))"
    using A(2) by (simp add: shots_repr_def)
  then obtain sh where sh: "bt_get (ix_shots ix) (va_shot_id v) = Some sh"
    using assms(2) by (cases "bt_get (ix_shots ix) (va_shot_id v)")
      (auto simp: shot_repr_def bt_get_def)
  then have nonempty: "bt_adjust (va_sequence v, d) (set_validation w') sh \<noteq> []"
    using A(2) bt_adjust_not_Nil [of sh] by (fastforce simp: shots_repr_def)
  have "shot_repr ?B s (get_or [] (bt_get ?shots s))" for s
    using shot_repr_update [of A s "get_or [] (bt_get (ix_shots ix) s)" d v w w'] A(2) assms(2) sh
    by (auto simp: shots_repr_def bt_get_adjust)
  then have "shots_repr ?B ?shots"
    using A(2) sh nonempty by (auto simp: shots_repr_def bt_adjust_invar bt_get_adjust)
  moreover have "actions_repr ?B (bt_insert d (meta_of d (v, w')) (ix_actions ix))"
    using A(1) by (simp add: actions_repr_def bt_insert_invar bt_get_insert)
  moreover have "child_of ?B = child_of A" using assms(2) by (auto simp: child_of_def fun_eq_iff)
  then have "children_repr ?B (ix_children ix)"
    using A(3) by (simp add: children_repr_def child_repr_def)
  moreover have "digests_ok ?B" using A(4) assms(2) by (auto simp: digests_ok_def)
  ultimately show ?thesis by (simp add: index_repr_def update_validation_def get)
qed

section \<open>Classification depends on the stored actions only\<close>

text \<open>The skeleton of an index: its actions without their validations.\<close>

definition skeleton :: "abs_index \<Rightarrow> bytes32 \<Rightarrow> validated_action option" where
  "skeleton A d = map_option fst (A d)"

declare walk_branch.simps(2) [simp del]

lemma walk_branch_cong:
  assumes "actions_repr A m" "actions_repr B n" "skeleton A = skeleton B"
  shows "walk_branch m seen branch cursor = walk_branch n seen branch cursor"
  using assms(1)
proof (induction m seen branch cursor rule: walk_branch.induct)
  case (2 m seen branch digest)
  have "skeleton A digest = skeleton B digest" using assms(3) by simp
  moreover have "bt_get m digest = map_option (meta_of digest) (A digest)"
    "bt_get n digest = map_option (meta_of digest) (B digest)"
    using 2(2) assms(2) by (simp_all add: actions_repr_def)
  ultimately show ?case using 2
    by (cases "A digest"; cases "B digest")
      (auto simp: skeleton_def walk_branch.simps(2) [of _ _ _ digest])
qed simp

lemma classify_cong:
  assumes "index_repr A ix" "index_repr B ix'" "skeleton A = skeleton B"
  shows "classify E ix = classify E ix'"
  using walk_branch_cong [OF _ _ assms(3)] assms(1,2)
  by (auto simp: classify_def index_repr_def fun_eq_iff)

lemma classify_stored_repr:
  "index_repr A ix \<Longrightarrow> A d = Some (v, w) \<Longrightarrow>
     classify_stored E ix d = classify E ix d (va_signed v) (va_previous v)"
  by (simp add: classify_stored_def index_repr_def actions_repr_def)

definition current :: "externals \<Rightarrow> abs_index \<Rightarrow> node_index \<Rightarrow> bool" where
  "current E A ix \<longleftrightarrow> (\<forall>d v w. A d = Some (v, w) \<longrightarrow> w = classify E ix d (va_signed v) (va_previous v))"

text \<open>So the skeleton determines an index whose validations are current.\<close>

lemma current_unique:
  assumes "index_repr A ix" "index_repr B ix'" "current E A ix" "current E B ix'"
    and "skeleton A = skeleton B"
  shows "A = B"
proof
  fix d
  have "map_option fst (A d) = map_option fst (B d)"
    using assms(5) by (simp add: skeleton_def fun_eq_iff)
  moreover have "classify E ix = classify E ix'" by (rule classify_cong [OF assms(1,2,5)])
  ultimately show "A d = B d"
    using assms(3,4) unfolding current_def by (cases "A d"; cases "B d") (auto, metis)
qed

section \<open>The graph of previous-action links\<close>

definition links :: "(bytes32 \<Rightarrow> validated_action option) \<Rightarrow> (bytes32 \<times> bytes32) set" where
  "links V = {(p, c). \<exists>v. V c = Some v \<and> va_previous v = Some p}"

lemma links_child: "(p, c) \<in> links (skeleton A) \<longleftrightarrow> child_of A p c"
  by (auto simp: links_def skeleton_def child_of_def)

lemma links_insert:
  assumes "V d = None"
  shows "links (V(d \<mapsto> v)) = links V \<union> {(p, d) |p. va_previous v = Some p}"
  using assms by (auto simp: links_def)

lemma links_finite: "finite (dom V) \<Longrightarrow> finite (links V)"
proof -
  assume fin: "finite (dom V)"
  have "links V \<subseteq> (\<lambda>c. (the (va_previous (the (V c))), c)) ` dom V"
    by (force simp: links_def)
  then show ?thesis using fin finite_surj by blast
qed

text \<open>A walk that can reach a digest it has seen is rejected.\<close>

lemma walk_branch_cycle:
  assumes "actions_repr A m" "d \<in> set seen" "(d, c) \<in> (links (skeleton A))\<^sup>*"
  shows "\<exists>detail. walk_branch m seen branch (Some c) = WalkRejected detail"
  using assms
proof (induction m seen branch "Some c" arbitrary: c rule: walk_branch.induct)
  case (2 m seen branch c)
  show ?case
  proof (cases "c \<in> set seen \<or> length branch \<ge> MAX_ACTIONS_PER_SHOT")
    case False
    with 2(3) have "c \<noteq> d" by auto
    with 2(4) obtain p where p: "(d, p) \<in> (links (skeleton A))\<^sup>*" "(p, c) \<in> links (skeleton A)"
      by (auto elim: rtranclE)
    then obtain v w where "A c = Some (v, w)" "va_previous v = Some p"
      by (auto simp: links_child child_of_def)
    moreover from this have "bt_get m c = Some (meta_of c (v, w))"
      using 2(2) by (simp add: actions_repr_def)
    ultimately show ?thesis
      using 2(1) [of "meta_of c (v, w)" p] 2(2,3) False p(1) by (simp add: walk_branch.simps(2) [of _ _ _ c])
  qed (auto simp: walk_branch.simps(2))
qed

text \<open>A walk that cannot reach a new digest does not notice that it is added.\<close>

lemma walk_branch_insert:
  assumes "actions_repr A m" "actions_repr (A(d \<mapsto> e)) n"
    and "\<And>c. cursor = Some c \<Longrightarrow> (d, c) \<notin> (links (skeleton A))\<^sup>*"
  shows "walk_branch n seen branch cursor = walk_branch m seen branch cursor"
  using assms(2,3)
proof (induction n seen branch cursor rule: walk_branch.induct)
  case (2 n seen branch c)
  then have "c \<noteq> d" by auto
  then have same: "bt_get n c = bt_get m c" using assms(1) 2(2) by (simp add: actions_repr_def)
  have step: "(d, p) \<notin> (links (skeleton A))\<^sup>*"
    if "A c = Some (v, w)" "va_previous v = Some p" for v w p
  proof -
    have "(p, c) \<in> links (skeleton A)" using that by (auto simp: links_child child_of_def)
    then show ?thesis using 2(3) [OF refl] by (auto intro: rtrancl_into_rtrancl)
  qed
  show ?case
  proof (cases "A c")
    case None
    then have "bt_get m c = None" using assms(1) by (simp add: actions_repr_def)
    then show ?thesis using same by (simp add: walk_branch.simps(2))
  next
    case (Some e')
    then obtain v w where vw: "A c = Some (v, w)" by (cases e') auto
    then have "bt_get m c = Some (meta_of c (v, w))" using assms(1) by (simp add: actions_repr_def)
    then show ?thesis
      using same 2(1) [of "meta_of c (v, w)"] 2(2) step [OF vw]
      by (simp add: walk_branch.simps(2) [of _ _ _ c])
  qed
qed simp

section \<open>Reclassification\<close>

lemma bt_get_Cons: "bt_get (e # m) k = (if k = fst e then Some (snd e) else bt_get m k)"
  by (cases e) (simp add: bt_get_def)

lemma bt_extend_simps:
  "bt_extend pending [] = pending"
  "bt_extend pending (e # ds) = bt_extend (bt_insert (fst e) () pending) ds"
  by (simp_all add: bt_extend_def)

lemma bt_extend_keys:
  "bt_get (bt_extend pending ds) k = None \<longleftrightarrow> bt_get pending k = None \<and> bt_get ds k = None"
  by (induction ds arbitrary: pending)
    (auto simp: bt_extend_simps bt_get_insert bt_get_Cons bt.get_empty split: if_splits)

lemma bt_extend_invar: "bt_invar pending \<Longrightarrow> bt_invar (bt_extend pending ds)"
  by (induction ds arbitrary: pending) (auto simp: bt_extend_simps bt_insert_invar)

definition keys :: "('k, 'v) btree \<Rightarrow> 'k set" where
  "keys m = {k. bt_get m k \<noteq> None}"

lemma keys_finite: "finite (keys m)"
  unfolding keys_def by (rule bt_finite)

lemma keys_extend: "keys (bt_extend pending ds) = keys pending \<union> keys ds"
  by (simp add: keys_def bt_extend_keys set_eq_iff del: not_None_eq)

lemma child_repr_keys: "child_repr A p cs \<Longrightarrow> keys cs = {c. (p, c) \<in> links (skeleton A)}"
  unfolding keys_def child_repr_def links_child by blast

lemma keys_Cons:
  assumes "bt_invar ((k, v) # m)"
  shows "keys ((k, v) # m) = insert k (keys m)" "k \<notin> keys m" "bt_invar m"
  using assms bt_keys_get [of m k]
  by (auto simp: keys_def bt_get_def bt_invar_def split: if_splits)

text \<open>
  On an acyclic graph the work list ends, and it leaves the validations current for every
  digest that descends from the list and unchanged for all others. The work list shrinks
  in the multiset order of the graph: a digest is replaced by its children.
\<close>

definition reclassified ::
  "externals \<Rightarrow> abs_index \<Rightarrow> node_index \<Rightarrow> bytes32 set \<Rightarrow> abs_index" where
  "reclassified E A ix S d =
     map_option (\<lambda>(v, w). (v, if d \<in> S then classify E ix d (va_signed v) (va_previous v) else w)) (A d)"

lemma skeleton_update: "A d = Some (v, w) \<Longrightarrow> skeleton (A(d \<mapsto> (v, w'))) = skeleton A"
  by (auto simp: skeleton_def)

lemma skeleton_reclassified [simp]: "skeleton (reclassified E A ix S) = skeleton A"
proof
  fix d
  show "skeleton (reclassified E A ix S) d = skeleton A d"
    by (cases "A d") (auto simp: skeleton_def reclassified_def)
qed

lemma mult_step:
  assumes "finite R" "d \<notin> R" "finite C" "\<And>c. c \<in> C \<Longrightarrow> (c, d) \<in> r"
  shows "(mset_set (R \<union> C), mset_set (insert d R)) \<in> mult r"
proof -
  have "mset_set (R \<union> C) = mset_set R + mset_set (C - R)"
    using assms(1,3) mset_set_Union [of R "C - R"] by auto
  moreover have "mset_set (insert d R) = mset_set R + {#d#}" using assms(1,2) by simp
  ultimately show ?thesis
    using assms(3,4) one_step_implies_mult [of "{#d#}" "mset_set (C - R)" r "mset_set R"] by simp
qed

lemma descendants_step:
  "L\<^sup>* `` insert d R = insert d (L\<^sup>* `` (R \<union> {c. (d, c) \<in> L}))"
  by (auto elim: converse_rtranclE intro: converse_rtrancl_into_rtrancl)

lemma reclassified_step:
  assumes "A d = Some (v, w)" "index_repr A ix" "index_repr B ix1"
    and B: "B = A(d \<mapsto> (v, classify E ix d (va_signed v) (va_previous v)))"
  shows "reclassified E B ix1 S = reclassified E A ix (insert d S)"
proof
  fix x
  have "classify E ix1 = classify E ix"
    using classify_cong [OF assms(3,2)] skeleton_update [of A d v w] assms(1) B by simp
  then show "reclassified E B ix1 S x = reclassified E A ix (insert d S) x"
    using assms(1) by (cases "A x") (auto simp: B reclassified_def)
qed

lemma reclassified_unknown:
  "A d = None \<Longrightarrow> reclassified E A ix (insert d S) = reclassified E A ix S"
proof
  fix x
  assume "A d = None"
  then show "reclassified E A ix (insert d S) x = reclassified E A ix S x"
    by (cases "A x") (auto simp: reclassified_def)
qed

lemma reclassified_empty: "reclassified E A ix {} = A"
  by (simp add: reclassified_def fun_eq_iff option.map_id id_def [symmetric])

lemma update_validation_other [simp]:
  "ix_children (update_validation ix s d w) = ix_children ix"
  "ix_issues (update_validation ix s d w) = ix_issues ix"
  "ix_checked_files (update_validation ix s d w) = ix_checked_files ix"
  by (simp_all add: update_validation_def split: option.split)

text \<open>One round of the loop.\<close>

lemma reclassify_descendants_step:
  assumes "index_repr A ix" "A d = Some (v, w)"
  shows "reclassify_descendants E ix ((d, u) # rest) = reclassify_descendants E
    (update_validation ix (va_shot_id v) d (classify E ix d (va_signed v) (va_previous v)))
    (bt_extend rest (get_or [] (bt_get (ix_children ix) d)))"
proof -
  have "bt_get (ix_actions ix) d = Some (meta_of d (v, w))"
    using assms by (simp add: index_repr_def actions_repr_def)
  then show ?thesis
    using classify_stored_repr [OF assms] by (subst reclassify_descendants.simps) simp
qed

lemma reclassify_descendants_skip:
  "index_repr A ix \<Longrightarrow> A d = None \<Longrightarrow>
     reclassify_descendants E ix ((d, u) # rest) = reclassify_descendants E ix rest"
  by (subst reclassify_descendants.simps) (simp add: index_repr_def actions_repr_def)

lemma reclassify_descendants_ok:
  assumes "acyclic (links V)" "finite (dom V)"
    and "index_repr A ix" "bt_invar pending" "skeleton A = V" "keys pending \<subseteq> dom V"
  shows "\<exists>ix'. reclassify_descendants E ix pending = Some ix'
    \<and> index_repr (reclassified E A ix ((links V)\<^sup>* `` keys pending)) ix'
    \<and> ix_issues ix' = ix_issues ix \<and> ix_checked_files ix' = ix_checked_files ix"
proof -
  have "wf (mult ((links V)\<inverse>))"
    using assms(1,2) links_finite finite_acyclic_wf_converse wf_mult by blast
  then show ?thesis
    using assms(3-6)
  proof (induction "mset_set (keys pending)" arbitrary: A ix pending rule: wf_induct_rule)
    case less
    show ?case
    proof (cases pending)
      case Nil
      then have "keys pending = {}" by (simp add: keys_def bt_get_def)
      with Nil less.prems show ?thesis
        by (subst reclassify_descendants.simps) (simp add: reclassified_empty)
    next
      case (Cons e rest)
      obtain d u where e: "e = (d, u)" by (cases e)
      note ks = keys_Cons [of d u rest, folded e Cons, OF less.prems(2)]
      have "d \<in> dom V" using less.prems(4) ks(1) by auto
      then obtain v w where vw: "A d = Some (v, w)"
        using less.prems(3) by (auto simp: skeleton_def)
      define ix1 where "ix1 = update_validation ix (va_shot_id v) d
        (classify E ix d (va_signed v) (va_previous v))"
      define next_pending where
        "next_pending = bt_extend rest (get_or [] (bt_get (ix_children ix) d))"
      define B where "B = A(d \<mapsto> (v, classify E ix d (va_signed v) (va_previous v)))"
      have B: "index_repr B ix1"
        unfolding B_def ix1_def by (rule update_validation_repr [OF less.prems(1) vw])
      have "child_repr A d (get_or [] (bt_get (ix_children ix) d))"
        using less.prems(1) by (simp add: index_repr_def children_repr_def)
      then have keys: "keys next_pending = keys rest \<union> {c. (d, c) \<in> links V}"
        using less.prems(3) by (simp add: next_pending_def keys_extend child_repr_keys)
      have smaller: "(mset_set (keys next_pending), mset_set (keys pending)) \<in> mult ((links V)\<inverse>)"
        unfolding keys ks(1) using keys_finite [of next_pending]
        by (intro mult_step) (auto simp: keys_finite ks(2) keys)
      have "bt_invar next_pending" unfolding next_pending_def by (rule bt_extend_invar [OF ks(3)])
      moreover have "skeleton B = V" using skeleton_update [of A d v w] vw less.prems(3) by (simp add: B_def)
      moreover have "keys next_pending \<subseteq> dom V"
        using less.prems(4) ks(1) by (auto simp: keys links_def)
      ultimately obtain ix' where ix': "reclassify_descendants E ix1 next_pending = Some ix'"
        "index_repr (reclassified E B ix1 ((links V)\<^sup>* `` keys next_pending)) ix'"
        "ix_issues ix' = ix_issues ix1" "ix_checked_files ix' = ix_checked_files ix1"
        using less.hyps [OF smaller B] by blast
      have "(links V)\<^sup>* `` keys pending = insert d ((links V)\<^sup>* `` keys next_pending)"
        unfolding keys ks(1) by (rule descendants_step)
      then have "reclassified E B ix1 ((links V)\<^sup>* `` keys next_pending)
          = reclassified E A ix ((links V)\<^sup>* `` keys pending)"
        using reclassified_step [OF vw less.prems(1) B B_def] by simp
      moreover have "reclassify_descendants E ix pending = Some ix'"
        using ix'(1) reclassify_descendants_step [OF less.prems(1) vw]
        unfolding Cons e ix1_def next_pending_def by simp
      ultimately show ?thesis using ix' by (simp add: ix1_def)
    qed
  qed
qed

end
