(* ===== verification/Node_Disk.thy ===== *)
theory Node_Disk
  imports Node_Index
begin

text \<open>
  The action files and the index rebuilt from them: whatever the directory holds, the
  scan gives the index whose skeleton is the set of well-formed action files, with
  validations that are current.
\<close>

section \<open>Paths\<close>

lemma bytes32_to_hex_split: "bytes32_to_hex d = ''0x'' @ drop 2 (bytes32_to_hex d)"
  by (simp add: bytes32_to_hex_def encode_prefixed_pairs)

lemma bytes32_to_hex_inj: "bytes32_to_hex a = bytes32_to_hex b \<Longrightarrow> a = b"
  using encode_prefixed_inject [of "to_be_bytes a" "to_be_bytes b"] by (simp add: bytes32_to_hex_def)

lemma action_path_inj: "action_path a = action_path b \<longleftrightarrow> a = b"
proof
  assume "action_path a = action_path b"
  then have "drop 2 (bytes32_to_hex a) = drop 2 (bytes32_to_hex b)" by (simp add: action_path_def Let_def)
  then show "a = b" using bytes32_to_hex_split [of a] bytes32_to_hex_split [of b] bytes32_to_hex_inj by metis
qed simp

lemma action_path_bucket: "is_bucket_name (fst (action_path d))"
proof -
  have "list_all is_lower_hex_char (drop 2 (bytes32_to_hex d))"
    using hex_pairs_lower [of "to_be_bytes d"] by (simp add: bytes32_to_hex_def encode_prefixed_pairs)
  moreover have "length (drop 2 (bytes32_to_hex d)) = 64"
    by (simp add: bytes32_to_hex_def encode_prefixed_pairs length_hex_pairs)
  ultimately show ?thesis
    by (auto simp: is_bucket_name_def action_path_def Let_def list_all_iff dest: in_set_takeD)
qed

section \<open>Directories\<close>

definition dir_wf :: "action_dir \<Rightarrow> bool" where
  "dir_wf dir \<longleftrightarrow> bt_invar dir \<and> (\<forall>name files. bt_get dir name = Some (Bucket files) \<longrightarrow> bt_invar files)"

lemma bt_invar_single: "bt_invar []" "bt_invar [e]"
  by (simp_all add: bt_invar_def)

text \<open>No error is met once a file is linked: the directory can be synchronized.\<close>

definition links_durable :: "node_env \<Rightarrow> bool" where
  "links_durable N \<longleftrightarrow> (\<forall>p linked e. ne_write_fault N p = Some (linked, e) \<longrightarrow> \<not> linked)"

lemma create_new_atomic_cases:
  assumes "create_new_atomic N root dir p bytes = (r, dir')" "dir_wf dir" "links_durable N"
  shows "dir_wf dir'"
    and "r = Inr True \<Longrightarrow> dir_entry dir p = None
      \<and> dir_entry dir' = (dir_entry dir)(p \<mapsto> RegularFile bytes)"
    and "r \<noteq> Inr True \<Longrightarrow> dir_entry dir' = dir_entry dir"
    and "r = Inr False \<Longrightarrow> \<exists>old. dir_entry dir p = Some (RegularFile old)"
proof -
  have "ne_write_fault N p = None \<or> (\<exists>e. ne_write_fault N p = Some (False, e))"
    using assms(3) unfolding links_durable_def by (metis (full_types) option.exhaust surj_pair)
  with assms(1,2) show "dir_wf dir'"
    and "r = Inr True \<Longrightarrow> dir_entry dir p = None
      \<and> dir_entry dir' = (dir_entry dir)(p \<mapsto> RegularFile bytes)"
    and "r \<noteq> Inr True \<Longrightarrow> dir_entry dir' = dir_entry dir"
    and "r = Inr False \<Longrightarrow> \<exists>old. dir_entry dir p = Some (RegularFile old)"
    by (auto simp: create_new_atomic_def Let_def dir_wf_def bt_insert_invar bt_get_insert dir_entry_def
        fun_eq_iff bt_get_Cons bt.get_empty bt_invar_single
        split: option.splits store_bucket.splits store_entry.splits if_splits)
qed

section \<open>Action files\<close>

text \<open>The action a file holds, if it is well-formed and at the path of its own digest.\<close>

definition disk_action :: "node_env \<Rightarrow> string \<Rightarrow> action_dir \<Rightarrow> bytes32 \<Rightarrow> validated_action option" where
  "disk_action N root dir d =
     (case scan_file N root dir (action_path d) of Inr v \<Rightarrow> Some v | Inl _ \<Rightarrow> None)"

lemma scan_file_ok:
  "scan_file N root dir p = Inr v \<longleftrightarrow>
     (\<exists>bytes. read_regular_limited root dir p MAX_ACTION_BYTES = Inr bytes \<and> parse_public N bytes = Inr v
        \<and> action_path (va_digest v) = p \<and> bytes = va_canonical_bytes v)"
  unfolding scan_file_def
  by (cases "read_regular_limited root dir p MAX_ACTION_BYTES";
      cases "parse_public N (projr (read_regular_limited root dir p MAX_ACTION_BYTES))") auto

lemma read_regular_limited_ok:
  "read_regular_limited root dir p limit = Inr bytes \<longleftrightarrow>
     dir_entry dir p = Some (RegularFile bytes) \<and> length bytes \<le> limit"
  by (auto simp: read_regular_limited_def read_entry_def split: option.split store_entry.split)

lemma disk_action_iff:
  "disk_action N root dir d = Some v \<longleftrightarrow>
     dir_entry dir (action_path d) = Some (RegularFile (va_canonical_bytes v))
     \<and> length (va_canonical_bytes v) \<le> MAX_ACTION_BYTES
     \<and> parse_public N (va_canonical_bytes v) = Inr v \<and> va_digest v = d"
proof -
  have "disk_action N root dir d = Some v \<longleftrightarrow> scan_file N root dir (action_path d) = Inr v"
    by (simp add: disk_action_def split: sum.split)
  then show ?thesis by (auto simp: scan_file_ok read_regular_limited_ok action_path_inj)
qed

lemma disk_action_digest: "disk_action N root dir d = Some v \<Longrightarrow> va_digest v = d"
  by (simp add: disk_action_iff)

lemma disk_action_cong:
  "dir_entry dir' (action_path d) = dir_entry dir (action_path d) \<Longrightarrow>
     disk_action N root dir' d = disk_action N root dir d"
  by (rule option_eqI) (simp add: disk_action_iff)

section \<open>What the scan collects\<close>

lemma collect_bucket_fst: "p \<in> set (fst (collect_bucket root b)) \<Longrightarrow> fst p = fst b"
  by (auto simp: collect_bucket_def bucket_paths_def split: store_bucket.splits if_splits)

lemma collect_bucket_distinct:
  assumes "\<And>files. snd b = Bucket files \<Longrightarrow> bt_invar files"
  shows "distinct (fst (collect_bucket root b))"
proof -
  have "distinct (map (\<lambda>e. (n, fst e)) (filter P files))" if "bt_invar files" for n P and files :: "(string, store_entry) btree"
  proof -
    have "distinct (map fst (filter P files))"
      using bt_invar_keys [OF that] distinct_map_filter by blast
    then show ?thesis by (simp add: distinct_map inj_on_def)
  qed
  with assms show ?thesis
    by (auto simp: collect_bucket_def bucket_paths_def split: store_bucket.split)
qed

lemma collect_paths_distinct:
  assumes "dir_wf dir"
  shows "distinct (fst (collect_action_paths root dir))"
proof -
  have "bt_invar dir" and "\<forall>b \<in> set dir. \<forall>files. snd b = Bucket files \<longrightarrow> bt_invar files"
    using assms by (auto simp: dir_wf_def bt_get_entries)
  then show ?thesis
  proof (induction dir)
    case (Cons b dir)
    have "set (fst (collect_bucket root b)) \<inter> set (concat (map (\<lambda>b. fst (collect_bucket root b)) dir)) = {}"
    proof (rule equals0I)
      fix p
      assume "p \<in> set (fst (collect_bucket root b))
        \<inter> set (concat (map (\<lambda>b. fst (collect_bucket root b)) dir))"
      then obtain b' where "b' \<in> set dir" "p \<in> set (fst (collect_bucket root b))"
        "p \<in> set (fst (collect_bucket root b'))" by auto
      then have "b' \<in> set dir" "fst b' = fst b" using collect_bucket_fst [of p root] by metis+
      then show False using Cons.prems(1) by (auto simp: bt_invar_def)
    qed
    moreover have "distinct (fst (collect_action_paths root dir))"
      using Cons by (auto simp: bt_invar_def)
    ultimately show ?case
      using Cons.prems(2) collect_bucket_distinct [of b root] by (auto simp: collect_action_paths_def)
  qed (simp add: collect_action_paths_def)
qed

lemma collect_paths_action:
  assumes "dir_wf dir" "dir_entry dir (action_path d) = Some (RegularFile bytes)"
  shows "action_path d \<in> set (fst (collect_action_paths root dir))"
proof -
  obtain files where files: "bt_get dir (fst (action_path d)) = Some (Bucket files)"
    "bt_get files (snd (action_path d)) = Some (RegularFile bytes)"
    using assms(2) by (auto simp: dir_entry_def split: option.splits store_bucket.splits)
  then have "(fst (action_path d), Bucket files) \<in> set dir"
    "(snd (action_path d), RegularFile bytes) \<in> set files"
    using assms(1) bt_get_entries [of dir] bt_get_entries [of files] unfolding dir_wf_def by blast+
  then show ?thesis
    using action_path_bucket [of d]
    by (force simp: collect_action_paths_def collect_bucket_def bucket_paths_def)
qed

lemma rights_set: "v \<in> set (rights xs) \<longleftrightarrow> Inr v \<in> set xs"
  by (induction xs rule: rights.induct) auto

lemma rights_paths:
  "map (\<lambda>v. action_path (va_digest v)) (rights (map (scan_file N root dir) ps))
     = filter (\<lambda>p. is_ok (scan_file N root dir p)) ps"
proof (induction ps)
  case (Cons p ps)
  then show ?case
    using scan_file_ok [of N root dir p] by (cases "scan_file N root dir p") auto
qed simp

lemma scan_candidates:
  assumes "dir_wf dir"
    and vs_def: "vs = rights (map (scan_file N root dir) (fst (collect_action_paths root dir)))"
  shows "distinct (map va_digest vs)" and "map_of (map (\<lambda>v. (va_digest v, v)) vs) = disk_action N root dir"
proof -
  have "distinct (map (\<lambda>v. action_path (va_digest v)) vs)"
    unfolding vs_def rights_paths using collect_paths_distinct [OF assms(1)] by simp
  then show distinct: "distinct (map va_digest vs)" by (auto simp: distinct_map inj_on_def action_path_inj)
  have "v \<in> set vs \<longleftrightarrow> disk_action N root dir (va_digest v) = Some v" for v
  proof
    assume "v \<in> set vs"
    then obtain p where "scan_file N root dir p = Inr v" by (auto simp: vs_def rights_set)
    then show "disk_action N root dir (va_digest v) = Some v"
      by (auto simp: disk_action_iff scan_file_ok read_regular_limited_ok)
  next
    assume v: "disk_action N root dir (va_digest v) = Some v"
    then have "action_path (va_digest v) \<in> set (fst (collect_action_paths root dir))"
      using collect_paths_action [OF assms(1)] by (auto simp: disk_action_iff)
    moreover have "scan_file N root dir (action_path (va_digest v)) = Inr v"
      using v by (auto simp: disk_action_def split: sum.splits)
    ultimately show "v \<in> set vs" by (force simp: vs_def rights_set)
  qed
  note member = this
  have keys: "distinct (map fst (map (\<lambda>v. (va_digest v, v)) vs))" using distinct by (simp add: comp_def)
  show "map_of (map (\<lambda>v. (va_digest v, v)) vs) = disk_action N root dir"
  proof (intro ext option_eqI)
    fix d v
    have "map_of (map (\<lambda>v. (va_digest v, v)) vs) d = Some v \<longleftrightarrow> va_digest v = d \<and> v \<in> set vs"
      unfolding map_of_eq_Some_iff [OF keys] by auto
    then show "map_of (map (\<lambda>v. (va_digest v, v)) vs) d = Some v \<longleftrightarrow> disk_action N root dir d = Some v"
      using member disk_action_digest by blast
  qed
qed

section \<open>Rebuilding\<close>

definition shot_members :: "(bytes32 \<Rightarrow> validated_action option) \<Rightarrow> shot_id \<Rightarrow> bytes32 set" where
  "shot_members V s = {d. \<exists>v. V d = Some v \<and> va_shot_id v = s}"

lemma skeleton_finite: "index_repr A ix \<Longrightarrow> finite (dom (skeleton A))"
proof -
  assume "index_repr A ix"
  then have "dom (skeleton A) = {d. bt_get (ix_actions ix) d \<noteq> None}"
    by (auto simp: index_repr_def actions_repr_def skeleton_def)
  then show ?thesis using bt_finite by metis
qed

lemma index_size: "index_repr A ix \<Longrightarrow> length (ix_actions ix) = card (dom (skeleton A))"
proof -
  assume r: "index_repr A ix"
  then have "length (ix_actions ix) = card {d. bt_get (ix_actions ix) d \<noteq> None}"
    by (intro bt_length_card) (simp add: index_repr_def actions_repr_def)
  also have "{d. bt_get (ix_actions ix) d \<noteq> None} = dom (skeleton A)"
    using r by (auto simp: index_repr_def actions_repr_def skeleton_def)
  finally show ?thesis .
qed

lemma shot_count_card:
  assumes "index_repr A ix"
  shows "shot_count ix s = card (shot_members (skeleton A) s)"
proof -
  define sh where "sh = get_or [] (bt_get (ix_shots ix) s)"
  have repr: "shot_repr A s sh" using assms by (simp add: sh_def index_repr_def shots_repr_def)
  have "shot_count ix s = length sh" by (simp add: shot_count_def sh_def split: option.split)
  also have "\<dots> = card {k. bt_get sh k \<noteq> None}"
    using repr by (intro bt_length_card) (simp add: shot_repr_def)
  also have "\<dots> = card (shot_members (skeleton A) s)"
  proof (rule bij_betw_same_card [of snd])
    have "{k. bt_get sh k \<noteq> None} = {(n, d). \<exists>v w. A d = Some (v, w) \<and> va_shot_id v = s \<and> va_sequence v = n}"
      using repr unfolding shot_repr_def by fastforce
    then show "bij_betw snd {k. bt_get sh k \<noteq> None} (shot_members (skeleton A) s)"
      by (force simp: bij_betw_def inj_on_def shot_members_def skeleton_def)
  qed
  finally show ?thesis .
qed

lemma fold_scan_add:
  assumes "index_repr A ix" "distinct (map va_digest vs)" "\<forall>v \<in> set vs. A (va_digest v) = None"
    and "\<And>s. card (shot_members (skeleton A ++ map_of (map (\<lambda>v. (va_digest v, v)) vs)) s) \<le> MAX_ACTIONS_PER_SHOT"
  shows "\<exists>B. index_repr B (fold (scan_add root) vs ix)
    \<and> skeleton B = skeleton A ++ map_of (map (\<lambda>v. (va_digest v, v)) vs)
    \<and> ix_issues (fold (scan_add root) vs ix) = ix_issues ix
    \<and> ix_checked_files (fold (scan_add root) vs ix) = ix_checked_files ix"
  using assms
proof (induction vs arbitrary: A ix)
  case (Cons v vs)
  let ?d = "va_digest v" and ?m = "map_of (map (\<lambda>v. (va_digest v, v)) vs)"
  let ?w = "unresolved_validation (va_previous v)
    ''authority context has not yet been derived from stored lineage''"
  have fresh: "A ?d = None" "skeleton A ?d = None" using Cons.prems(3) by (auto simp: skeleton_def)
  have "?d \<notin> dom ?m" using Cons.prems(2) by (auto simp: dom_map_of_conv_image_fst)
  then have total: "skeleton A ++ map_of (map (\<lambda>v. (va_digest v, v)) (v # vs))
      = skeleton (A(?d \<mapsto> (v, ?w))) ++ ?m"
    by (auto simp: skeleton_def map_add_def fun_eq_iff split: option.split)
  have "shot_members (skeleton A) (va_shot_id v)
      \<subset> shot_members (skeleton A ++ map_of (map (\<lambda>v. (va_digest v, v)) (v # vs))) (va_shot_id v)"
  proof
    show "shot_members (skeleton A) (va_shot_id v)
        \<subseteq> shot_members (skeleton A ++ map_of (map (\<lambda>v. (va_digest v, v)) (v # vs))) (va_shot_id v)"
    proof
      fix x
      assume "x \<in> shot_members (skeleton A) (va_shot_id v)"
      then obtain u where u: "skeleton A x = Some u" "va_shot_id u = va_shot_id v" by (auto simp: shot_members_def)
      then have "A x \<noteq> None" by (auto simp: skeleton_def)
      then have "x \<notin> dom (map_of (map (\<lambda>v. (va_digest v, v)) (v # vs)))"
        using Cons.prems(3) by (auto simp: dom_map_of_conv_image_fst)
      with u show "x \<in> shot_members (skeleton A ++ map_of (map (\<lambda>v. (va_digest v, v)) (v # vs))) (va_shot_id v)"
        by (auto simp: shot_members_def map_add_dom_app_simps)
    qed
    show "shot_members (skeleton A) (va_shot_id v)
        \<noteq> shot_members (skeleton A ++ map_of (map (\<lambda>v. (va_digest v, v)) (v # vs))) (va_shot_id v)"
      using fresh(2) by (force simp: shot_members_def)
  qed
  moreover have "finite (dom (skeleton A ++ map_of (map (\<lambda>v. (va_digest v, v)) (v # vs))))"
    using skeleton_finite [OF Cons.prems(1)] by simp
  then have "finite (shot_members (skeleton A ++ map_of (map (\<lambda>v. (va_digest v, v)) (v # vs))) (va_shot_id v))"
    by (rule rev_finite_subset) (auto simp: shot_members_def)
  ultimately have "shot_count ix (va_shot_id v) < MAX_ACTIONS_PER_SHOT"
    unfolding shot_count_card [OF Cons.prems(1)]
    using psubset_card_mono Cons.prems(4) by (meson less_le_trans)
  moreover have "bt_get (ix_actions ix) ?d = None"
    using Cons.prems(1) fresh(1) by (simp add: index_repr_def actions_repr_def)
  ultimately have step: "scan_add root v ix = add_stored ix v (action_path ?d) ?w"
    by (simp add: scan_add_def Let_def bt_contains_key_def not_le)
  have "\<exists>B. index_repr B (fold (scan_add root) vs (add_stored ix v (action_path ?d) ?w))
    \<and> skeleton B = skeleton (A(?d \<mapsto> (v, ?w))) ++ ?m
    \<and> ix_issues (fold (scan_add root) vs (add_stored ix v (action_path ?d) ?w))
        = ix_issues (add_stored ix v (action_path ?d) ?w)
    \<and> ix_checked_files (fold (scan_add root) vs (add_stored ix v (action_path ?d) ?w))
        = ix_checked_files (add_stored ix v (action_path ?d) ?w)"
  proof (rule Cons.IH [OF add_stored_repr [OF Cons.prems(1) fresh(1) refl]])
    show "distinct (map va_digest vs)" using Cons.prems(2) by simp
    show "\<forall>u \<in> set vs. (A(?d \<mapsto> (v, ?w))) (va_digest u) = None"
      using Cons.prems(2,3) by (auto simp: image_iff)
    show "card (shot_members (skeleton (A(?d \<mapsto> (v, ?w))) ++ ?m) s) \<le> MAX_ACTIONS_PER_SHOT" for s
      using Cons.prems(4) [of s] unfolding total .
  qed
  then show ?case unfolding total by (simp add: step) (simp add: add_stored_def Let_def)
qed auto

lemma fold_scan_classify:
  assumes "index_repr A ix" "\<forall>e \<in> set ds. \<exists>v w. A (fst e) = Some (v, w) \<and> snd e = va_shot_id v"
  shows "index_repr (reclassified E A ix (fst ` set ds)) (fold (scan_classify E) ds ix)
    \<and> ix_issues (fold (scan_classify E) ds ix) = ix_issues ix
    \<and> ix_checked_files (fold (scan_classify E) ds ix) = ix_checked_files ix"
  using assms
proof (induction ds arbitrary: A ix)
  case (Cons e ds)
  then obtain v w where v: "A (fst e) = Some (v, w)" "snd e = va_shot_id v" by auto
  let ?w = "classify E ix (fst e) (va_signed v) (va_previous v)"
  have step: "scan_classify E e ix = update_validation ix (va_shot_id v) (fst e) ?w"
    by (simp add: scan_classify_def v(2) classify_stored_repr [OF Cons.prems(1) v(1)])
  have B: "index_repr (A(fst e \<mapsto> (v, ?w))) (update_validation ix (va_shot_id v) (fst e) ?w)"
    by (rule update_validation_repr [OF Cons.prems(1) v(1)])
  have "\<forall>e' \<in> set ds. \<exists>u x. (A(fst e \<mapsto> (v, ?w))) (fst e') = Some (u, x) \<and> snd e' = va_shot_id u"
    using Cons.prems(2) v(1) by auto
  from Cons.IH [OF B this] show ?case
    unfolding reclassified_step [OF v(1) Cons.prems(1) B refl] by (simp add: step)
qed (simp add: reclassified_empty)

lemma reclassified_current:
  assumes "index_repr A ix" "dom (skeleton A) \<subseteq> S" "index_repr (reclassified E A ix S) ix'"
  shows "current E (reclassified E A ix S) ix'"
proof -
  have same: "classify E ix' = classify E ix" using classify_cong [OF assms(3,1)] by simp
  show ?thesis unfolding current_def
  proof (intro allI impI)
    fix d v w
    assume d: "reclassified E A ix S d = Some (v, w)"
    then have "d \<in> dom (skeleton A)" by (cases "A d") (auto simp: reclassified_def skeleton_def)
    with assms(2) d show "w = classify E ix' d (va_signed v) (va_previous v)"
      unfolding same by (cases "A d") (auto simp: reclassified_def)
  qed
qed

definition disk_sound :: "node_env \<Rightarrow> string \<Rightarrow> action_dir \<Rightarrow> bool" where
  "disk_sound N root dir \<longleftrightarrow> dir_wf dir
     \<and> (\<forall>s. card (shot_members (disk_action N root dir) s) \<le> MAX_ACTIONS_PER_SHOT)"

lemma index_values:
  assumes "index_repr A ix"
  shows "m \<in> set (bt_values (ix_actions ix)) \<longleftrightarrow> (\<exists>d e. A d = Some e \<and> m = meta_of d e)"
proof -
  have "(d, m) \<in> set (ix_actions ix) \<longleftrightarrow> (\<exists>e. A d = Some e \<and> m = meta_of d e)" for d
  proof -
    have "(d, m) \<in> set (ix_actions ix) \<longleftrightarrow> bt_get (ix_actions ix) d = Some m"
      using assms by (intro bt_get_entries [symmetric]) (simp add: index_repr_def actions_repr_def)
    then show ?thesis using assms by (auto simp: index_repr_def actions_repr_def)
  qed
  then show ?thesis unfolding bt_values_def by force
qed

lemma map_of_perm:
  assumes "distinct (map f xs)" "mset xs = mset ys"
  shows "map_of (map (\<lambda>v. (f v, v)) xs) = map_of (map (\<lambda>v. (f v, v)) ys)"
proof -
  have "mset (map f xs) = mset (map f ys)" using assms(2) by simp
  then have "distinct (map f ys)" using assms(1) mset_eq_imp_distinct_iff by blast
  moreover have "set xs = set ys" using assms(2) by (rule mset_eq_setD)
  ultimately show ?thesis using assms(1) by (subst map_of_inject_set) (auto simp: comp_def)
qed

lemma scan_index_limit:
  "length (fst (collect_action_paths root dir)) > MAX_ACTIONS_PER_NODE \<Longrightarrow>
     scan_index N root dir = Inl (ActionLimit MAX_ACTIONS_PER_NODE)"
  by (auto simp: scan_index_def err_if_def split: prod.split)

lemma scan_index_ok:
  assumes "disk_sound N root dir"
    and bound: "length (fst (collect_action_paths root dir)) \<le> MAX_ACTIONS_PER_NODE"
  shows "\<exists>A ix. scan_index N root dir = Inr ix \<and> index_repr A ix
    \<and> current (ne_protocol N) A ix \<and> skeleton A = disk_action N root dir
    \<and> ix_checked_files ix = length (fst (collect_action_paths root dir))
    \<and> ix_issues ix = snd (collect_action_paths root dir)
        @ lefts (map (scan_file N root dir) (fst (collect_action_paths root dir)))"
proof -
  define paths where "paths = fst (collect_action_paths root dir)"
  define issues where "issues = snd (collect_action_paths root dir)"
  define scanned where "scanned = map (scan_file N root dir) paths"
  define vs where "vs = sort_key (\<lambda>v. (va_sequence v, va_digest v)) (rights scanned)"
  define start where "start = empty_index\<lparr>ix_checked_files := length paths, ix_issues := issues @ lefts scanned\<rparr>"
  define index where "index = fold (scan_add root) vs start"
  define ordered where "ordered = map (\<lambda>m. (ref_digest (am_reference m), ref_shot_id (am_reference m)))
    (bt_values (ix_actions index))"
  have result: "scan_index N root dir = Inr (fold (scan_classify (ne_protocol N)) ordered index)"
    using bound
    by (cases "collect_action_paths root dir") (simp add: scan_index_def paths_def issues_def
        scanned_def vs_def start_def index_def ordered_def Let_def err_if_def)
  note cand = scan_candidates [of dir "rights scanned" N root]
  have wf: "dir_wf dir" using assms by (simp add: disk_sound_def)
  have perm: "mset vs = mset (rights scanned)" by (simp add: vs_def)
  have cand1: "distinct (map va_digest (rights scanned))"
    using cand(1) [OF wf] by (simp add: scanned_def paths_def)
  have "mset (map va_digest vs) = mset (map va_digest (rights scanned))" using perm by simp
  then have distinct: "distinct (map va_digest vs)"
    using cand1 mset_eq_imp_distinct_iff by blast
  have "map_of (map (\<lambda>v. (va_digest v, v)) vs) = map_of (map (\<lambda>v. (va_digest v, v)) (rights scanned))"
    by (rule map_of_perm [OF distinct perm])
  then have map: "map_of (map (\<lambda>v. (va_digest v, v)) vs) = disk_action N root dir"
    using cand(2) [OF wf] by (simp add: scanned_def paths_def)
  have empty: "index_repr (\<lambda>_. None) start" unfolding start_def by (rule empty_index_repr)
  have skeleton_empty: "skeleton (\<lambda>_. None) ++ map_of (map (\<lambda>v. (va_digest v, v)) vs) = disk_action N root dir"
    unfolding map by (simp add: skeleton_def map_add_def fun_eq_iff split: option.split)
  obtain A where A: "index_repr A index" "skeleton A = disk_action N root dir"
    "ix_issues index = issues @ lefts scanned" "ix_checked_files index = length paths"
    using fold_scan_add [OF empty distinct] assms unfolding skeleton_empty index_def
    by (auto simp: disk_sound_def start_def)
  have stored: "m \<in> set (bt_values (ix_actions index)) \<longleftrightarrow> (\<exists>d e. A d = Some e \<and> m = meta_of d e)" for m
    by (rule index_values [OF A(1)])
  have ids: "A d = Some (v, w) \<Longrightarrow> va_digest v = d" for d v w
    using A(1) by (auto simp: index_repr_def digests_ok_def)
  have "\<forall>e \<in> set ordered. \<exists>v w. A (fst e) = Some (v, w) \<and> snd e = va_shot_id v"
    using ids by (fastforce simp: ordered_def stored)
  from fold_scan_classify [OF A(1) this, of "ne_protocol N"]
  have final: "index_repr (reclassified (ne_protocol N) A index (fst ` set ordered))
      (fold (scan_classify (ne_protocol N)) ordered index)"
    "ix_issues (fold (scan_classify (ne_protocol N)) ordered index) = issues @ lefts scanned"
    "ix_checked_files (fold (scan_classify (ne_protocol N)) ordered index) = length paths"
    using A(3,4) by auto
  have "dom (skeleton A) \<subseteq> fst ` set ordered"
    using ids by (force simp: ordered_def skeleton_def image_image stored image_iff)
  from reclassified_current [OF A(1) this final(1)] final A(2)
  show ?thesis
    unfolding result by (auto simp: paths_def issues_def scanned_def)
qed

end
