(* ===== verification/Node_Integrity.thy ===== *)
theory Node_Integrity
  imports Node_Disk
begin

text \<open>
  The invariant of a running node and the properties that rest on it: ingestion ends,
  the cached index is the one a rebuild from the files gives, it does not depend on the
  order of arrival, and authority is claimed only for complete lineages that reduce.
\<close>

section \<open>Content-addressed stores\<close>

text \<open>Submissions in sequence, with the answer to each.\<close>

fun submit_all :: "('s \<Rightarrow> 'i \<Rightarrow> ('r \<times> 's) option) \<Rightarrow> 's \<Rightarrow> 'i list \<Rightarrow> ('r list \<times> 's) option" where
  "submit_all submit s [] = Some ([], s)"
| "submit_all submit s (i # is) =
     Option.bind (submit s i) (\<lambda>(r, s').
       map_option (\<lambda>(rs, s''). (r # rs, s'')) (submit_all submit s' is))"

text \<open>
  What a store that only grows promises: a submission is answered, and an accepted one
  adds what it holds under its own key, where nothing else was before.
\<close>

locale content_store =
  fixes ok :: "'s \<Rightarrow> bool"
    and submit :: "'s \<Rightarrow> 'i \<Rightarrow> ('r \<times> 's) option"
    and accepted :: "'r \<Rightarrow> bool"
    and content :: "'i \<Rightarrow> 'v option"
    and key :: "'v \<Rightarrow> 'k"
    and held :: "'s \<Rightarrow> 'k \<Rightarrow> 'v option"
  assumes submit_ends: "ok s \<Longrightarrow> \<exists>r s'. submit s i = Some (r, s')"
    and submit_ok: "ok s \<Longrightarrow> submit s i = Some (r, s') \<Longrightarrow> ok s'"
    and submit_accepted: "ok s \<Longrightarrow> submit s i = Some (r, s') \<Longrightarrow> accepted r \<Longrightarrow>
      \<exists>v. content i = Some v \<and> held s (key v) \<in> {None, Some v} \<and> held s' = (held s)(key v \<mapsto> v)"
    and submit_refused: "ok s \<Longrightarrow> submit s i = Some (r, s') \<Longrightarrow> \<not> accepted r \<Longrightarrow> held s' = held s"
begin

lemma submit_keeps: "ok s \<Longrightarrow> submit s i = Some (r, s') \<Longrightarrow> held s \<subseteq>\<^sub>m held s'"
proof (cases "accepted r")
  case True
  assume "ok s" "submit s i = Some (r, s')"
  from submit_accepted [OF this True] show ?thesis by (auto simp: map_le_def)
qed (simp add: submit_refused)

lemma run_ends: "ok s \<Longrightarrow> \<exists>rs s'. submit_all submit s is = Some (rs, s') \<and> length rs = length is"
proof (induction "is" arbitrary: s)
  case (Cons i "is")
  obtain r s' where step: "submit s i = Some (r, s')" using submit_ends [OF Cons.prems] by blast
  obtain rs s'' where "submit_all submit s' is = Some (rs, s'')" "length rs = length is"
    using Cons.IH [OF submit_ok [OF Cons.prems step]] by blast
  with step show ?case by simp
qed simp

lemma submit_all_Cons:
  assumes "submit_all submit s (i # is) = Some (rs, s'')"
  obtains r rs' s' where "submit s i = Some (r, s')" "submit_all submit s' is = Some (rs', s'')"
    "rs = r # rs'"
  using assms by (auto simp: bind_eq_Some_conv)

lemma run_ok: "ok s \<Longrightarrow> submit_all submit s is = Some (rs, s') \<Longrightarrow> ok s'"
  by (induction "is" arbitrary: s rs) (auto elim!: submit_all_Cons intro: submit_ok simp del: submit_all.simps(2))

lemma run_keeps: "ok s \<Longrightarrow> submit_all submit s is = Some (rs, s') \<Longrightarrow> held s \<subseteq>\<^sub>m held s'"
proof (induction "is" arbitrary: s rs)
  case (Cons i "is")
  from Cons.prems(2) obtain r rs' m where step: "submit s i = Some (r, m)"
    and rest: "submit_all submit m is = Some (rs', s')" by (rule submit_all_Cons)
  show ?case
    using submit_keeps [OF Cons.prems(1) step] Cons.IH [OF submit_ok [OF Cons.prems(1) step] rest]
    by (rule map_le_trans)
qed simp

lemma run_held:
  assumes "ok s" "submit_all submit s is = Some (rs, s')" "list_all accepted rs"
  shows "held s' k = Some v \<longleftrightarrow> held s k = Some v \<or> (\<exists>i \<in> set is. content i = Some v \<and> key v = k)"
  using assms
proof (induction "is" arbitrary: s rs)
  case (Cons i "is")
  from Cons.prems(2) obtain r rs' m where step: "submit s i = Some (r, m)"
    and rest: "submit_all submit m is = Some (rs', s')" and rs: "rs = r # rs'" by (rule submit_all_Cons)
  have "accepted r" using Cons.prems(3) rs by simp
  with submit_accepted [OF Cons.prems(1) step] obtain u where
    u: "content i = Some u" "held s (key u) \<in> {None, Some u}" "held m = (held s)(key u \<mapsto> u)" by blast
  have "held m k = Some v \<longleftrightarrow> held s k = Some v \<or> (v = u \<and> key u = k)"
    using u(2,3) by auto
  moreover have "held s' k = Some v \<longleftrightarrow> held m k = Some v \<or> (\<exists>i \<in> set is. content i = Some v \<and> key v = k)"
    using Cons.IH [OF submit_ok [OF Cons.prems(1) step] rest] Cons.prems(3) rs by simp
  ultimately show ?case using u(1) by auto
qed simp

lemma run_order:
  assumes "ok s" "set is = set js"
    and "submit_all submit s is = Some (rs, s1)" "list_all accepted rs"
    and "submit_all submit s js = Some (rs', s2)" "list_all accepted rs'"
  shows "held s1 = held s2"
proof (intro ext option_eqI)
  fix k v
  show "held s1 k = Some v \<longleftrightarrow> held s2 k = Some v"
    unfolding run_held [OF assms(1,3,4)] run_held [OF assms(1,5,6)] assms(2) ..
qed

end

section \<open>The invariant\<close>

text \<open>
  The parser reads back what the canonical serializer writes: if a text parses to a signed
  action, then so does the canonical form of that action (\<open>serde\<close>, RFC 8785).
\<close>

definition canonical_reparses :: "node_env \<Rightarrow> bool" where
  "canonical_reparses N \<longleftrightarrow> (\<forall>bytes s canonical. ne_from_slice N bytes = Inr s \<longrightarrow>
     canonical_to_vec (ne_protocol N) (signed_json s) = Inr canonical \<longrightarrow>
     ne_from_slice N canonical = Inr s)"

definition environment_ok :: "node_env \<Rightarrow> bool" where
  "environment_ok N \<longleftrightarrow> canonical_reparses N \<and> links_durable N"

definition index_ok :: "node_env \<Rightarrow> string \<Rightarrow> action_dir \<Rightarrow> node_index \<Rightarrow> bool" where
  "index_ok N root dir ix \<longleftrightarrow> (\<exists>A. index_repr A ix \<and> current (ne_protocol N) A ix
     \<and> skeleton A = disk_action N root dir)"

definition store_ok :: "node_env \<Rightarrow> node_store \<Rightarrow> bool" where
  "store_ok N st \<longleftrightarrow> index_ok N (ns_root st) (ns_dir st) (ns_index st)
     \<and> disk_sound N (ns_root st) (ns_dir st)
     \<and> acyclic (links (disk_action N (ns_root st) (ns_dir st)))
     \<and> card (dom (disk_action N (ns_root st) (ns_dir st))) \<le> MAX_ACTIONS_PER_NODE"

lemma parse_public_iff:
  "parse_public N bytes = Inr v \<longleftrightarrow> length bytes \<le> MAX_ACTION_BYTES
     \<and> ne_from_slice N bytes = Inr (va_signed v)
     \<and> signed_verify (ne_protocol N) (va_signed v) = Inr ()
     \<and> availability (action (va_signed v)) = PubliclyAvailable
     \<and> signed_commitment (ne_protocol N) (va_signed v) = Inr (va_digest v)
     \<and> canonical_to_vec (ne_protocol N) (signed_json (va_signed v)) = Inr (va_canonical_bytes v)
     \<and> length (va_canonical_bytes v) \<le> MAX_ACTION_BYTES
     \<and> va_shot_id v = action_shot_id (action (va_signed v))
     \<and> va_sequence v = sequence (action (va_signed v))
     \<and> va_previous v = previous (action (va_signed v))
     \<and> va_missing_artifacts v = availability_observations (va_signed v) (va_digest v)"
  by (cases v) (auto simp: parse_public_def Let_def of_protocol_def not_less)

lemma parse_public_again:
  assumes "environment_ok N" "parse_public N bytes = Inr v"
  shows "parse_public N (va_canonical_bytes v) = Inr v"
proof -
  have "ne_from_slice N (va_canonical_bytes v) = Inr (va_signed v)"
    using assms unfolding parse_public_iff environment_ok_def canonical_reparses_def by blast
  then show ?thesis using assms(2) by (simp add: parse_public_iff)
qed

lemma store_ok_dir:
  assumes "store_ok N st" "dir_entry dir = dir_entry (ns_dir st)" "dir_wf dir"
  shows "store_ok N (st\<lparr>ns_dir := dir\<rparr>)"
proof -
  have "disk_action N (ns_root st) dir = disk_action N (ns_root st) (ns_dir st)"
    using assms(2) by (intro ext disk_action_cong) simp
  with assms(1,3) show ?thesis by (simp add: store_ok_def index_ok_def disk_sound_def)
qed

section \<open>Ingestion\<close>

text \<open>An accepted candidate closes no cycle.\<close>

lemma accepted_acyclic:
  assumes "index_repr A ix" "acyclic (links (skeleton A))" "A (va_digest v) = None"
    and "reject_known_invalid (classify_candidate E ix v) = Inr ()"
  shows "acyclic (links ((skeleton A)(va_digest v \<mapsto> v)))"
proof (cases "va_previous v")
  case None
  then have "links ((skeleton A)(va_digest v \<mapsto> v)) = links (skeleton A)"
    using assms(3) by (auto simp: links_def skeleton_def)
  then show ?thesis using assms(2) by simp
next
  case (Some p)
  have "(va_digest v, p) \<notin> (links (skeleton A))\<^sup>*"
  proof
    assume "(va_digest v, p) \<in> (links (skeleton A))\<^sup>*"
    then obtain detail where "walk_branch (ix_actions ix) [va_digest v] [va_signed v] (Some p)
        = WalkRejected detail"
      using walk_branch_cycle [of A "ix_actions ix" "va_digest v" "[va_digest v]"] assms(1)
      by (auto simp: index_repr_def)
    then show False
      using assms(4) Some
      by (simp add: classify_candidate_def classify_def reject_known_invalid_def rejected_validation_def)
  qed
  moreover have "links ((skeleton A)(va_digest v \<mapsto> v)) = insert (p, va_digest v) (links (skeleton A))"
    using assms(3) Some by (auto simp: links_insert skeleton_def)
  ultimately show ?thesis using assms(2) by (simp add: acyclic_insert)
qed

text \<open>Adding an action and reclassifying its descendants keeps every validation current.\<close>

lemma add_and_reclassify:
  assumes repr: "index_repr A ix" and cur: "current E A ix"
    and fresh: "A (va_digest v) = None"
    and acyclic: "acyclic (links ((skeleton A)(va_digest v \<mapsto> v)))"
  shows "\<exists>ix' B. reclassify_descendants E (add_stored ix v (action_path (va_digest v)) w) [(va_digest v, ())]
      = Some ix' \<and> index_repr B ix' \<and> current E B ix'
    \<and> skeleton B = (skeleton A)(va_digest v \<mapsto> v)"
proof -
  let ?d = "va_digest v" and ?ix = "add_stored ix v (action_path (va_digest v)) w"
  let ?A = "A(?d \<mapsto> (v, w))" and ?V = "(skeleton A)(va_digest v \<mapsto> v)"
  let ?S = "(links ?V)\<^sup>* `` {?d}"
  have repr': "index_repr ?A ?ix" by (rule add_stored_repr [OF repr fresh refl])
  have skel: "skeleton ?A = ?V" by (auto simp: skeleton_def)
  have keys: "keys [(?d, ())] = {?d}" by (auto simp: keys_def bt_get_def)
  obtain ix' where ix': "reclassify_descendants E ?ix [(?d, ())] = Some ix'"
    "index_repr (reclassified E ?A ?ix ?S) ix'"
    using reclassify_descendants_ok [OF acyclic _ repr' _ skel, of "[(?d, ())]" E]
      skeleton_finite [OF repr] by (auto simp: keys bt_invar_def)
  have same: "classify E ix' = classify E ?ix" using classify_cong [OF ix'(2) repr'] by simp
  have unchanged: "classify E ?ix x (va_signed u) (va_previous u) = classify E ix x (va_signed u) (va_previous u)"
    if "A x = Some (u, z)" "x \<notin> ?S" for x u z
  proof -
    have "(?d, c) \<notin> (links (skeleton A))\<^sup>*" if "va_previous u = Some c" for c
    proof
      assume "(?d, c) \<in> (links (skeleton A))\<^sup>*"
      moreover have "links (skeleton A) \<subseteq> links ?V" using fresh by (auto simp: links_def skeleton_def)
      ultimately have "(?d, c) \<in> (links ?V)\<^sup>*" using rtrancl_mono by blast
      moreover have "x \<noteq> ?d" using \<open>A x = Some (u, z)\<close> fresh by auto
      then have "(c, x) \<in> links ?V"
        using that \<open>A x = Some (u, z)\<close> by (simp add: links_def skeleton_def)
      ultimately show False using \<open>x \<notin> ?S\<close> by (auto intro: rtrancl_into_rtrancl)
    qed
    then show ?thesis
      using walk_branch_insert [of A "ix_actions ix" ?d "(v, w)" "ix_actions ?ix"] repr repr'
      by (simp add: classify_def index_repr_def)
  qed
  have "current E (reclassified E ?A ?ix ?S) ix'"
    unfolding current_def
  proof (intro allI impI)
    fix x u z
    assume x: "reclassified E ?A ?ix ?S x = Some (u, z)"
    show "z = classify E ix' x (va_signed u) (va_previous u)"
    proof (cases "x \<in> ?S")
      case True
      with x show ?thesis unfolding same by (cases "?A x") (auto simp: reclassified_def)
    next
      case False
      then have "x \<noteq> ?d" by auto
      with x False have "A x = Some (u, z)" by (cases "A x") (auto simp: reclassified_def)
      with unchanged [OF this False] cur show ?thesis unfolding same by (simp add: current_def)
    qed
  qed
  with ix' show ?thesis using skel by (intro exI [of _ ix']) auto
qed

lemma ingest_limits_ok:
  assumes "index_repr A ix" "A (va_digest v) = None" "ingest_limits ix v = Inr ()"
  shows "card (dom (skeleton A)) < MAX_ACTIONS_PER_NODE"
    and "card (shot_members (skeleton A) (va_shot_id v)) < MAX_ACTIONS_PER_SHOT"
proof -
  have "\<not> bt_contains_key (ix_actions ix) (va_digest v)"
    using assms(1,2) by (simp add: bt_contains_key_def index_repr_def actions_repr_def)
  with assms(3) show "card (dom (skeleton A)) < MAX_ACTIONS_PER_NODE"
    and "card (shot_members (skeleton A) (va_shot_id v)) < MAX_ACTIONS_PER_SHOT"
    by (auto simp: ingest_limits_def index_size [OF assms(1)] shot_count_card [OF assms(1)])
qed

lemma shot_members_insert:
  assumes "finite (dom V)" "V d = None" "card (shot_members V (va_shot_id v)) < m"
    and "\<And>s. card (shot_members V s) \<le> m"
  shows "card (shot_members (V(d \<mapsto> v)) s) \<le> m"
proof -
  have "finite (shot_members V s)"
    using assms(1) by (rule rev_finite_subset) (auto simp: shot_members_def)
  moreover have "shot_members (V(d \<mapsto> v)) s =
      (if s = va_shot_id v then insert d (shot_members V s) else shot_members V s)"
    using assms(2) by (auto simp: shot_members_def)
  ultimately show ?thesis
    using assms(3) assms(4) [of s] card_insert_le_m1 [of m "shot_members V s" d] by auto
qed

text \<open>The store after a file for a new action was written.\<close>

lemma store_ok_add:
  assumes ok: "store_ok N st" and again: "parse_public N (va_canonical_bytes v) = Inr v"
    and repr: "index_repr A (ns_index st)" and skel: "skeleton A = disk_action N (ns_root st) (ns_dir st)"
    and fresh: "A (va_digest v) = None"
    and limits: "ingest_limits (ns_index st) v = Inr ()"
    and accepted: "reject_known_invalid (classify_candidate (ne_protocol N) (ns_index st) v) = Inr ()"
    and dir: "dir_wf dir" "dir_entry dir = (dir_entry (ns_dir st))(action_path (va_digest v) \<mapsto>
      RegularFile (va_canonical_bytes v))"
    and new: "index_repr B ix" "current (ne_protocol N) B ix" "skeleton B = (skeleton A)(va_digest v \<mapsto> v)"
  shows "store_ok N (st\<lparr>ns_dir := dir, ns_index := ix\<rparr>)"
    and "disk_action N (ns_root st) dir = (disk_action N (ns_root st) (ns_dir st))(va_digest v \<mapsto> v)"
proof -
  let ?V = "disk_action N (ns_root st) (ns_dir st)"
  show disk: "disk_action N (ns_root st) dir = ?V(va_digest v \<mapsto> v)"
  proof
    fix d
    show "disk_action N (ns_root st) dir d = (?V(va_digest v \<mapsto> v)) d"
    proof (cases "d = va_digest v")
      case True
      have "length (va_canonical_bytes v) \<le> MAX_ACTION_BYTES" 
        using again unfolding parse_public_iff by blast
      with True again dir(2) have "disk_action N (ns_root st) dir (va_digest v) = Some v"
        unfolding disk_action_iff by simp
      with True show ?thesis by simp
    next
      case False
      then have "disk_action N (ns_root st) dir d = ?V d"
        using dir(2) by (intro disk_action_cong) (simp add: action_path_inj)
      with False show ?thesis by simp
    qed
  qed
  have fin: "finite (dom ?V)" using skeleton_finite [OF repr] skel by simp
  have none: "?V (va_digest v) = None" unfolding skel [symmetric] using fresh by (simp add: skeleton_def)
  note bounds = ingest_limits_ok [OF repr fresh limits, unfolded skel]
  have "\<forall>s. card (shot_members ?V s) \<le> MAX_ACTIONS_PER_SHOT" "acyclic (links ?V)"
    using ok by (auto simp: store_ok_def disk_sound_def)
  then have "\<forall>s. card (shot_members (?V(va_digest v \<mapsto> v)) s) \<le> MAX_ACTIONS_PER_SHOT"
    using shot_members_insert [OF fin none bounds(2)] by blast
  moreover have "acyclic (links (?V(va_digest v \<mapsto> v)))"
    using accepted_acyclic [OF repr _ fresh accepted] \<open>acyclic (links ?V)\<close> skel by simp
  moreover have "card (dom (?V(va_digest v \<mapsto> v))) \<le> MAX_ACTIONS_PER_NODE"
    using fin none bounds(1) by (simp add: domIff)
  moreover have "index_ok N (ns_root st) dir ix"
    using new skel disk by (auto simp: index_ok_def)
  ultimately show "store_ok N (st\<lparr>ns_dir := dir, ns_index := ix\<rparr>)"
    using dir(1) by (simp add: store_ok_def disk_sound_def disk)
qed

lemma ingest_new_ok:
  assumes ok: "store_ok N st" and env: "environment_ok N"
    and v: "parse_public N bytes = Inr v"
    and unknown: "bt_get (ix_actions (ns_index st)) (va_digest v) = None"
  shows "\<exists>r st'. ingest_new N st v = Some (r, st') \<and> store_ok N st' \<and> ns_root st' = ns_root st
    \<and> disk_action N (ns_root st) (ns_dir st') = (case r of
        Inl _ \<Rightarrow> disk_action N (ns_root st) (ns_dir st)
      | Inr _ \<Rightarrow> (disk_action N (ns_root st) (ns_dir st))(va_digest v \<mapsto> v))
    \<and> (\<forall>out. r = Inr out \<longrightarrow> io_digest out = va_digest v \<and> io_stored out)"
proof -
  let ?E = "ne_protocol N" and ?ix = "ns_index st" and ?V = "disk_action N (ns_root st) (ns_dir st)"
  obtain A where A: "index_repr A ?ix" "current ?E A ?ix" "skeleton A = ?V"
    using ok by (auto simp: store_ok_def index_ok_def)
  have fresh: "A (va_digest v) = None"
    using unknown A(1) by (simp add: index_repr_def actions_repr_def)
  then have none: "?V (va_digest v) = None" unfolding A(3) [symmetric] by (simp add: skeleton_def)
  have again: "parse_public N (va_canonical_bytes v) = Inr v" by (rule parse_public_again [OF env v])
  have wf: "dir_wf (ns_dir st)" using ok by (simp add: store_ok_def disk_sound_def)
  show ?thesis
  proof (cases "bind_result (ingest_limits ?ix v) (\<lambda>_. reject_known_invalid (classify_candidate ?E ?ix v))")
    case (Inl e)
    then show ?thesis using ok by (simp add: ingest_new_def Let_def)
  next
    case (Inr u)
    then have guards: "ingest_limits ?ix v = Inr ()"
      "reject_known_invalid (classify_candidate ?E ?ix v) = Inr ()" by auto
    obtain created dir where create: "create_new_atomic N (ns_root st) (ns_dir st)
        (action_path (va_digest v)) (va_canonical_bytes v) = (created, dir)" by fastforce
    have "links_durable N" using env by (simp add: environment_ok_def)
    note create_cases = create_new_atomic_cases [OF create wf this]
    show ?thesis
    proof (cases "created = Inr True")
      case True
      have acyclic: "acyclic (links ((skeleton A)(va_digest v \<mapsto> v)))"
        using accepted_acyclic [OF A(1) _ fresh guards(2)] ok A(3) by (simp add: store_ok_def)
      obtain ix' B where ix': "reclassify_descendants ?E (add_stored ?ix v (action_path (va_digest v))
          (classify_candidate ?E ?ix v)) [(va_digest v, ())] = Some ix'"
        "index_repr B ix'" "current ?E B ix'" "skeleton B = (skeleton A)(va_digest v \<mapsto> v)"
        using add_and_reclassify [OF A(1,2) fresh acyclic] by blast
      have "dir_entry dir = (dir_entry (ns_dir st))(action_path (va_digest v) \<mapsto> RegularFile (va_canonical_bytes v))"
        using create_cases(2) [OF True] by simp
      note added = store_ok_add [OF ok again A(1,3) fresh guards create_cases(1) this ix'(2-4)]
      have "B (va_digest v) \<noteq> None"
        using fun_cong [OF ix'(4), of "va_digest v"] by (auto simp: skeleton_def)
      then obtain m where "bt_get (ix_actions ix') (va_digest v) = Some m"
        using ix'(2) by (auto simp: index_repr_def actions_repr_def)
      then show ?thesis
        using added ix'(1) True guards create
        by (simp add: ingest_new_def Let_def ingest_created_def outcome_of_def)
    next
      case False
      then have same: "dir_entry dir = dir_entry (ns_dir st)" using create_cases(3) by simp
      then have disk: "disk_action N (ns_root st) dir = ?V" by (intro ext disk_action_cong) simp
      have "\<exists>e. ingest_created st v created dir = Inl e"
      proof (cases created)
        case (Inr c)
        with False have "created = Inr False" by simp
        moreover have "dir_entry dir (action_path (va_digest v)) \<noteq> Some (RegularFile (va_canonical_bytes v))"
        proof
          assume "dir_entry dir (action_path (va_digest v)) = Some (RegularFile (va_canonical_bytes v))"
          moreover have "length (va_canonical_bytes v) \<le> MAX_ACTION_BYTES"
            using again unfolding parse_public_iff by blast
          ultimately have "?V (va_digest v) = Some v" unfolding disk_action_iff using again same by simp
          with none show False by simp
        qed
        ultimately show ?thesis
          by (cases "read_regular_limited (ns_root st) dir (action_path (va_digest v)) MAX_ACTION_BYTES")
            (auto simp: ingest_created_def err_if_def dest: read_regular_limited_ok [THEN iffD1])
      qed (simp add: ingest_created_def)
      then obtain e where "ingest_created st v created dir = Inl e" by blast
      then have "ingest_new N st v = Some (Inl e, st\<lparr>ns_dir := dir\<rparr>)"
        using guards create by (simp add: ingest_new_def Let_def)
      then show ?thesis
        using store_ok_dir [OF ok same create_cases(1)] disk by simp
    qed
  qed
qed


section \<open>The node as a content-addressed store\<close>

definition holdings :: "node_env \<Rightarrow> node_store \<Rightarrow> bytes32 \<Rightarrow> validated_action option" where
  "holdings N st = disk_action N (ns_root st) (ns_dir st)"

lemma store_ok_index:
  assumes "store_ok N st"
  obtains A where "index_repr A (ns_index st)" "current (ne_protocol N) A (ns_index st)"
    "skeleton A = holdings N st"
  using assms by (auto simp: store_ok_def index_ok_def holdings_def)

lemma store_ok_get:
  assumes "store_ok N st"
  shows "map_option am_path (bt_get (ix_actions (ns_index st)) d) = map_option (\<lambda>v. action_path d) (holdings N st d)"
proof -
  obtain A where A: "index_repr A (ns_index st)" "skeleton A = holdings N st"
    by (rule store_ok_index [OF assms])
  have "holdings N st d = map_option fst (A d)" unfolding A(2) [symmetric] by (simp add: skeleton_def)
  moreover have "bt_get (ix_actions (ns_index st)) d = map_option (meta_of d) (A d)"
    using A(1) by (simp add: index_repr_def actions_repr_def)
  ultimately show ?thesis by (cases "A d") (auto simp: meta_of_def stored_meta_def)
qed

lemma ingest_existing_ok:
  assumes ok: "store_ok N st" and env: "environment_ok N"
    and v: "parse_public N bytes = Inr v"
    and known: "bt_get (ix_actions (ns_index st)) (va_digest v) = Some m"
    and out: "ingest_existing st v m = Inr out"
  shows "holdings N st (va_digest v) = Some v \<and> io_digest out = va_digest v \<and> \<not> io_stored out"
proof -
  obtain u where u: "holdings N st (va_digest v) = Some u" "am_path m = action_path (va_digest v)"
    using store_ok_get [OF ok, of "va_digest v"] known
    by (cases "holdings N st (va_digest v)") auto
  have "read_regular_limited (ns_root st) (ns_dir st) (am_path m) MAX_ACTION_BYTES
      = Inr (va_canonical_bytes u)"
    using u by (simp add: read_regular_limited_ok holdings_def disk_action_iff)
  then have "va_canonical_bytes u = va_canonical_bytes v" and o: "out = outcome_of v False (ref_validation (am_reference m))"
    using out by (auto simp: ingest_existing_def err_if_def split: if_splits)
  moreover have "parse_public N (va_canonical_bytes u) = Inr u"
    using u(1) by (simp add: holdings_def disk_action_iff)
  ultimately have "u = v" using parse_public_again [OF env v] by (metis sum.inject(2))
  with u(1) o show ?thesis by (simp add: outcome_of_def)
qed

text \<open>Every submission is answered; the invariant and what was held before are kept.\<close>

lemma ingest_ok:
  assumes ok: "store_ok N st" and env: "environment_ok N"
  shows "\<exists>r st'. ingest N st bytes = Some (r, st') \<and> store_ok N st' \<and> ns_root st' = ns_root st
    \<and> (case r of Inl _ \<Rightarrow> holdings N st' = holdings N st
       | Inr out \<Rightarrow> (\<exists>v. parse_public N bytes = Inr v \<and> io_digest out = va_digest v
           \<and> holdings N st (va_digest v) = (if io_stored out then None else Some v)
           \<and> holdings N st' = (holdings N st)(va_digest v \<mapsto> v)))"
proof (cases "parse_public N bytes")
  case (Inl e)
  then show ?thesis using ok by (simp add: ingest_def)
next
  case (Inr v)
  show ?thesis
  proof (cases "bt_get (ix_actions (ns_index st)) (va_digest v)")
    case None
    then have "holdings N st (va_digest v) = None" using store_ok_get [OF ok, of "va_digest v"] by simp
    moreover obtain r st' where "ingest_new N st v = Some (r, st')" "store_ok N st'" "ns_root st' = ns_root st"
      "holdings N st' = (case r of Inl _ \<Rightarrow> holdings N st | Inr _ \<Rightarrow> (holdings N st)(va_digest v \<mapsto> v))"
      "\<forall>out. r = Inr out \<longrightarrow> io_digest out = va_digest v \<and> io_stored out"
      using ingest_new_ok [OF ok env Inr None] unfolding holdings_def by force
    ultimately show ?thesis using Inr None by (auto simp: ingest_def split: sum.split)
  next
    case (Some m)
    then have "ingest N st bytes = Some (ingest_existing st v m, st)" using Inr by (simp add: ingest_def)
    then show ?thesis
      using ok Inr ingest_existing_ok [OF ok env Inr Some]
      by (cases "ingest_existing st v m") (auto simp: fun_upd_idem)
  qed
qed

interpretation node: content_store
  "\<lambda>st. store_ok N st \<and> environment_ok N" "ingest N" is_ok
  "\<lambda>bytes. case parse_public N bytes of Inl _ \<Rightarrow> None | Inr v \<Rightarrow> Some v" va_digest "holdings N"
  for N
proof
  fix st bytes r st'
  assume ok: "store_ok N st \<and> environment_ok N"
  then show "\<exists>r st'. ingest N st bytes = Some (r, st')" using ingest_ok by blast
  assume step: "ingest N st bytes = Some (r, st')"
  note facts = ingest_ok [OF conjunct1 [OF ok] conjunct2 [OF ok], of bytes]
  show "store_ok N st' \<and> environment_ok N" using facts step ok by auto
  show "\<exists>v. (case parse_public N bytes of Inl _ \<Rightarrow> None | Inr v \<Rightarrow> Some v) = Some v
      \<and> holdings N st (va_digest v) \<in> {None, Some v}
      \<and> holdings N st' = (holdings N st)(va_digest v \<mapsto> v)" if "is_ok r"
    using facts step that by (cases r) auto
  show "holdings N st' = holdings N st" if "\<not> is_ok r"
    using facts step that by (cases r) auto
qed

end
