(* ===== verification/Lineage_Segments.thy ===== *)
theory Lineage_Segments
  imports Lineage
begin

text \<open>
  What \<open>verify_lineage_segment\<close> (\<open>protocol/src/lineage.rs\<close>) accepts, stated without its
  loop: a list of well-signed actions in which each action follows the one before
  it. The loop's cursor is summarised by the last action read.
\<close>

section \<open>A declarative segment\<close>

definition well_signed :: "externals \<Rightarrow> signed_lineage_action \<Rightarrow> bool" where
  "well_signed E x \<longleftrightarrow> signed_verify E x = Inr () \<and> is_ok (action_commitment E (action x))
     \<and> is_ok (unix_timestamp E (timestamp (action x)))"

definition not_before :: "externals \<Rightarrow> canonical_timestamp \<Rightarrow> canonical_timestamp \<Rightarrow> bool" where
  "not_before E earlier later \<longleftrightarrow>
     (\<exists>t u. unix_timestamp E earlier = Inr t \<and> unix_timestamp E later = Inr u \<and> t \<le> u)"

definition anchor_of :: "lineage_action \<Rightarrow> bytes32 \<Rightarrow> lineage_segment_anchor" where
  "anchor_of a head = \<lparr>an_shot_id = action_shot_id a, an_sequence = sequence a, an_head = head,
     an_timestamp = timestamp a\<rparr>"

definition extends_anchor ::
  "externals \<Rightarrow> lineage_segment_anchor \<Rightarrow> signed_lineage_action \<Rightarrow> bool" where
  "extends_anchor E v y \<longleftrightarrow>
     action_shot_id (action y) = an_shot_id v
     \<and> unat (sequence (action y)) = unat (an_sequence v) + 1
     \<and> previous (action y) = Some (an_head v)
     \<and> not_before E (an_timestamp v) (timestamp (action y))"

definition follows ::
  "externals \<Rightarrow> signed_lineage_action \<Rightarrow> signed_lineage_action \<Rightarrow> bool" where
  "follows E x y \<longleftrightarrow> (\<exists>c. action_commitment E (action x) = Inr c
     \<and> extends_anchor E (anchor_of (action x) c) y)"

definition anchored_at ::
  "externals \<Rightarrow> lineage_segment_anchor option \<Rightarrow> signed_lineage_action \<Rightarrow> bool" where
  "anchored_at E anchor x \<longleftrightarrow>
     (case anchor of None \<Rightarrow> True | Some v \<Rightarrow> extends_anchor E v x)"

definition segment_spec ::
  "externals \<Rightarrow> signed_lineage_action list \<Rightarrow> lineage_segment_anchor option \<Rightarrow> bool" where
  "segment_spec E xs anchor \<longleftrightarrow>
     xs \<noteq> [] \<and> list_all (well_signed E) xs \<and> successively (follows E) xs
     \<and> anchored_at E anchor (hd xs)"

section \<open>The loop\<close>

lemma signed_verifyD:
  assumes "signed_verify E x = Inr u"
  shows "action_validate E (action x) = Inr ()"
    and "sidecar_verify E (signature x) (action_json (action x)) = Inr ()"
  using assms by (auto simp: signed_verify_def)

lemma action_validate_sequence:
  assumes "action_validate E a = Inr u"
  shows "0 < unat (sequence a)" and "unat (sequence a) < 2 ^ 53"
  using assms by (auto simp: action_validate_def MAX_SAFE_JSON_INTEGER_def word_le_nat_alt
      word_less_nat_alt unat_gt_0 not_less)

text \<open>Once the signature verified, the commitment is the signed digest.\<close>

lemma signed_verify_commitment:
  "signed_verify E x = Inr u \<Longrightarrow>
     action_commitment E (action x) = Inr (ss_digest (signature x))"
  using signed_verifyD [of E x u] sidecar_verifyD(1)
  by (auto simp: action_commitment_def)

lemma well_signed_iff:
  "well_signed E x \<longleftrightarrow>
     signed_verify E x = Inr () \<and> is_ok (unix_timestamp E (timestamp (action x)))"
  using signed_verify_commitment by (auto simp: well_signed_def)

definition cursor_after :: "externals \<Rightarrow> signed_lineage_action \<Rightarrow> segment_cursor \<Rightarrow> bool" where
  "cursor_after E x cu \<longleftrightarrow> well_signed E x
     \<and> unat (cu_expected_sequence cu) = unat (sequence (action x)) + 1
     \<and> action_commitment E (action x) = Inr (the (cu_previous cu)) \<and> cu_previous cu \<noteq> None
     \<and> unix_timestamp E (timestamp (action x)) = Inr (the (cu_prior_time cu))
     \<and> cu_prior_time cu \<noteq> None"

lemma cursor_after_unique: "cursor_after E x cu \<Longrightarrow> cursor_after E x cu' \<Longrightarrow> cu = cu'"
  by (cases cu; cases cu') (auto simp: cursor_after_def word_unat_eq_iff)

lemma cursor_after_ex:
  assumes "well_signed E y"
  obtains cu where "cursor_after E y cu"
proof -
  from assms obtain c t where "action_commitment E (action y) = Inr c"
    "unix_timestamp E (timestamp (action y)) = Inr t" "unat (sequence (action y)) < 2 ^ 53"
    using signed_verifyD(1) action_validate_sequence(2) by (fastforce simp: well_signed_def)
  then have "cursor_after E y \<lparr>cu_expected_sequence = sequence (action y) + 1,
      cu_previous = Some c, cu_prior_time = Some t\<rparr>"
    using assms by (simp add: cursor_after_def unat_word_ariths)
  with that show thesis .
qed

lemma segment_step_ok:
  "segment_step E anchored sid fs cu x = Inr cu' \<longleftrightarrow>
     well_signed E x \<and> action_shot_id (action x) = sid
     \<and> sequence (action x) = cu_expected_sequence cu
     \<and> (anchored \<or> fs < sequence (action x) \<longrightarrow> previous (action x) = cu_previous cu)
     \<and> segment_time_checks E (action x) (cu_prior_time cu) = Inr ()
     \<and> cursor_after E x cu'"
  (is "?l \<longleftrightarrow> ?r")
proof
  assume ?l
  then obtain c t n where *: "signed_verify E x = Inr ()" "action_commitment E (action x) = Inr c"
    "unix_timestamp E (timestamp (action x)) = Inr t"
    "checked_add (cu_expected_sequence cu) 1 = Some n"
    "cu' = \<lparr>cu_expected_sequence = n, cu_previous = Some c, cu_prior_time = Some t\<rparr>"
    and rest: "action_shot_id (action x) = sid" "sequence (action x) = cu_expected_sequence cu"
      "anchored \<or> fs < sequence (action x) \<longrightarrow> previous (action x) = cu_previous cu"
      "segment_time_checks E (action x) (cu_prior_time cu) = Inr ()"
    by (auto simp: segment_step_def Let_def)
  from *(4) have "unat n = unat (cu_expected_sequence cu) + 1"
    using checked_add_SomeD by fastforce
  with * rest show ?r by (simp add: well_signed_def cursor_after_def)
next
  assume r: ?r
  then obtain c t where c: "action_commitment E (action x) = Inr c" "cu_previous cu' = Some c"
    and t: "unix_timestamp E (timestamp (action x)) = Inr t" "cu_prior_time cu' = Some t"
    by (auto simp: cursor_after_def)
  from r have "checked_add (cu_expected_sequence cu) 1 = Some (cu_expected_sequence cu')"
    by (simp add: checked_add_eq_Some_iff cursor_after_def)
  with r c t show ?l by (cases cu') (auto simp: segment_step_def Let_def well_signed_def)
qed

lemma segment_time_checks_Some:
  "segment_time_checks E a (Some v) = Inr () \<longleftrightarrow>
     (\<exists>u. unix_timestamp E (timestamp a) = Inr u \<and> v \<le> u)"
  by (auto simp: segment_time_checks_def not_less)

text \<open>After an action, the loop body asks exactly that the next one follows.\<close>

lemma segment_step_follows:
  assumes "cursor_after E x cu" and "fs \<le> sequence (action x)"
    and "action_shot_id (action x) = sid"
  shows "segment_step E anchored sid fs cu y = Inr cu' \<longleftrightarrow>
    well_signed E y \<and> follows E x y \<and> cursor_after E y cu'"
proof -
  obtain c t where c: "cu_previous cu = Some c" "action_commitment E (action x) = Inr c"
    and t: "cu_prior_time cu = Some t" "unix_timestamp E (timestamp (action x)) = Inr t"
    and n: "unat (cu_expected_sequence cu) = unat (sequence (action x)) + 1"
    using assms(1) by (auto simp: cursor_after_def)
  have "fs < cu_expected_sequence cu"
    using assms(2) n by (simp add: word_less_nat_alt word_le_nat_alt)
  then have "segment_step E anchored sid fs cu y = Inr cu' \<longleftrightarrow>
      well_signed E y \<and> action_shot_id (action y) = sid
      \<and> unat (sequence (action y)) = unat (sequence (action x)) + 1
      \<and> previous (action y) = Some c
      \<and> (\<exists>u. unix_timestamp E (timestamp (action y)) = Inr u \<and> t \<le> u) \<and> cursor_after E y cu'"
    using c t n by (auto simp: segment_step_ok segment_time_checks_Some word_unat_eq_iff word_less_nat_alt)
  then show ?thesis
    using c t assms(3) by (auto simp: follows_def extends_anchor_def anchor_of_def not_before_def)
qed

lemma segment_run_follows:
  assumes "cursor_after E x cu" "fs \<le> sequence (action x)" "action_shot_id (action x) = sid"
  shows "run_log (segment_step E anchored sid fs) cu ys = Inr cu' \<longleftrightarrow>
    list_all (well_signed E) ys \<and> successively (follows E) (x # ys)
    \<and> (if ys = [] then cu' = cu else cursor_after E (last ys) cu')"
  using assms
proof (induction ys arbitrary: x cu)
  case (Cons y ys)
  show ?case
  proof (cases "\<exists>cu1. segment_step E anchored sid fs cu y = Inr cu1")
    case True
    then obtain cu1 where step: "segment_step E anchored sid fs cu y = Inr cu1" by blast
    with segment_step_follows [OF Cons.prems, of anchored y]
    have y: "well_signed E y" "follows E x y" "cursor_after E y cu1" by auto
    then have "fs \<le> sequence (action y)" "action_shot_id (action y) = sid"
      using Cons.prems
      by (auto simp: follows_def extends_anchor_def anchor_of_def word_le_nat_alt)
    from Cons.IH [OF y(3) this] y step show ?thesis by (auto dest: cursor_after_unique)
  next
    case False
    then have "\<not> (well_signed E y \<and> follows E x y)"
      using segment_step_follows [OF Cons.prems] cursor_after_ex by metis
    with False show ?thesis by (cases "segment_step E anchored sid fs cu y") auto
  qed
qed auto

text \<open>Reading the first action: with no anchor its link is not looked at.\<close>

lemma segment_step_first:
  assumes "segment_cursor_init E (action x) anchor = Inr cu"
  shows "segment_step E (anchor \<noteq> None) (action_shot_id (action x)) (sequence (action x)) cu x = Inr cu'
    \<longleftrightarrow> well_signed E x \<and> cursor_after E x cu'
      \<and> anchored_at E anchor x"
proof (cases anchor)
  case None
  with assms show ?thesis
    by (auto simp: segment_cursor_init_def segment_step_ok segment_time_checks_def anchored_at_def)
next
  case (Some v)
  with assms obtain n t where "unat n = unat (an_sequence v) + 1"
    "unix_timestamp E (an_timestamp v) = Inr t" "an_shot_id v = action_shot_id (action x)"
    "cu = \<lparr>cu_expected_sequence = n, cu_previous = Some (an_head v), cu_prior_time = Some t\<rparr>"
    by (auto simp: segment_cursor_init_def checked_add_eq_Some_iff)
  with Some show ?thesis
    by (auto simp: segment_step_ok segment_time_checks_Some extends_anchor_def not_before_def
        anchored_at_def word_unat_eq_iff)
qed

lemma segment_cursor_init_ok:
  assumes "anchored_at E anchor x"
  shows "is_ok (segment_cursor_init E (action x) anchor)"
  using assms
  by (auto simp: segment_cursor_init_def anchored_at_def extends_anchor_def not_before_def
      checked_add_eq_Some_iff eq_commute [of "Suc _"] split: option.splits)

definition segment_summary ::
  "externals \<Rightarrow> signed_lineage_action list \<Rightarrow> lineage_segment_anchor option \<Rightarrow> bytes32
     \<Rightarrow> verified_lineage_segment" where
  "segment_summary E xs anchor head =
     (let first = action (hd xs);
          complete = anchor = None \<and> sequence first = 1 \<and> previous first = None
            \<and> is_commitment (payload first)
      in \<lparr>vs_shot_id = action_shot_id first, vs_first_sequence = sequence first,
          vs_last_sequence = sequence (action (last xs)), vs_head = head,
          vs_complete_from_commitment = complete,
          vs_authority_context_available = (anchor \<noteq> None \<or> complete)\<rparr>)"

lemma verify_segment_iff:
  "verify_lineage_segment E xs anchor = Inr seg \<longleftrightarrow>
     segment_spec E xs anchor
     \<and> (\<exists>head. action_commitment E (action (last xs)) = Inr head
          \<and> seg = segment_summary E xs anchor head)"
  (is "?l \<longleftrightarrow> ?r")
proof (cases xs)
  case Nil
  then show ?thesis by (simp add: verify_lineage_segment_def segment_spec_def)
next
  case (Cons x ys)
  let ?step = "segment_step E (anchor \<noteq> None) (action_shot_id (action x)) (sequence (action x))"
  let ?anch = "anchored_at E anchor x"
  have run: "run_log ?step cu0 xs = Inr cu \<longleftrightarrow>
      ?anch \<and> list_all (well_signed E) xs \<and> successively (follows E) xs
      \<and> cursor_after E (last xs) cu"
    if init: "segment_cursor_init E (action x) anchor = Inr cu0" for cu0 cu
  proof -
    have "run_log ?step cu0 xs = Inr cu \<longleftrightarrow>
        (\<exists>cu1. well_signed E x \<and> cursor_after E x cu1 \<and> ?anch \<and> run_log ?step cu1 ys = Inr cu)"
      using segment_step_first [OF init] Cons by auto
    also have "\<dots> \<longleftrightarrow> (\<exists>cu1. well_signed E x \<and> cursor_after E x cu1 \<and> ?anch
        \<and> list_all (well_signed E) ys \<and> successively (follows E) xs
        \<and> (if ys = [] then cu = cu1 else cursor_after E (last ys) cu))"
      using segment_run_follows [of E x _ "sequence (action x)"] Cons by auto
    also have "\<dots> \<longleftrightarrow> ?anch \<and> list_all (well_signed E) xs \<and> successively (follows E) xs
        \<and> cursor_after E (last xs) cu"
      using Cons cursor_after_ex [of E x] by (auto split: if_splits)
    finally show ?thesis .
  qed
  have spec: "segment_spec E xs anchor \<longleftrightarrow>
      ?anch \<and> list_all (well_signed E) xs \<and> successively (follows E) xs"
    using Cons by (auto simp: segment_spec_def)
  have "?l \<longleftrightarrow> (\<exists>cu0 cu head. segment_cursor_init E (action x) anchor = Inr cu0
      \<and> run_log ?step cu0 xs = Inr cu \<and> cu_previous cu = Some head
      \<and> seg = segment_summary E xs anchor head)"
    using Cons by (auto simp: verify_lineage_segment_def segment_summary_def Let_def)
  also have "\<dots> \<longleftrightarrow> (\<exists>cu0 cu head. segment_cursor_init E (action x) anchor = Inr cu0
      \<and> segment_spec E xs anchor \<and> cursor_after E (last xs) cu \<and> cu_previous cu = Some head
      \<and> seg = segment_summary E xs anchor head)"
    using run spec by blast
  also have "\<dots> \<longleftrightarrow> ?r"
  proof
    assume r: ?r
    then have "well_signed E (last xs)" by (auto simp: segment_spec_def list_all_iff)
    then obtain cu where "cursor_after E (last xs) cu" by (rule cursor_after_ex)
    moreover obtain cu0 where "segment_cursor_init E (action x) anchor = Inr cu0"
      using r Cons segment_cursor_init_ok [of E anchor x] by (auto simp: segment_spec_def)
    ultimately show "\<exists>cu0 cu head. segment_cursor_init E (action x) anchor = Inr cu0
        \<and> segment_spec E xs anchor \<and> cursor_after E (last xs) cu \<and> cu_previous cu = Some head
        \<and> seg = segment_summary E xs anchor head"
      using r by (auto simp: cursor_after_def)
  qed (auto simp: cursor_after_def)
  finally show ?thesis .
qed

text \<open>A segment splits at any point: the tail is anchored at the last action before it.\<close>

lemma segment_spec_append:
  assumes "xs \<noteq> []" "ys \<noteq> []"
    and "action_commitment E (action (last xs)) = Inr head"
  shows "segment_spec E (xs @ ys) anchor \<longleftrightarrow>
    segment_spec E xs anchor \<and> segment_spec E ys (Some (anchor_of (action (last xs)) head))"
  using assms by (auto simp: segment_spec_def successively_append_iff follows_def anchored_at_def)

lemma segment_spec_last:
  assumes "segment_spec E xs anchor"
  obtains head where "action_commitment E (action (last xs)) = Inr head"
proof -
  have "well_signed E (last xs)" using assms by (auto simp: segment_spec_def list_all_iff)
  with that show thesis by (auto simp: well_signed_def)
qed

end
