(* ===== verification/Node_Views.thy ===== *)
theory Node_Views
  imports Node_Integrity Lineage_Segments
begin

text \<open>
  What a node answers in the states it can reach: the cached index is the one a rebuild
  from the files gives, the answers depend only on the actions held, limits hold, and
  neutral authority is claimed exactly for complete lineages that reduce.
\<close>

section \<open>Reachable stores\<close>

text \<open>
  A node starts with an empty action directory; then actions are submitted, the index
  is rebuilt, and the node is stopped and opened again, in any order.
\<close>

inductive node_reachable :: "node_env \<Rightarrow> string \<Rightarrow> node_store \<Rightarrow> bool" for N root where
  Start: "open_store N root idf [] = Inr st \<Longrightarrow> node_reachable N root st"
| Ingested: "node_reachable N root st \<Longrightarrow> ingest N st bytes = Some (r, st') \<Longrightarrow> node_reachable N root st'"
| Rebuilt: "node_reachable N root st \<Longrightarrow> rebuild N st = (r, st') \<Longrightarrow> node_reachable N root st'"
| Reopened: "node_reachable N root st \<Longrightarrow> open_store N root (ns_identity_file st) (ns_dir st) = Inr st' \<Longrightarrow>
    node_reachable N root st'"

lemma scan_index_index_ok:
  assumes "disk_sound N root dir" "scan_index N root dir = Inr ix"
  shows "index_ok N root dir ix"
proof -
  have "length (fst (collect_action_paths root dir)) \<le> MAX_ACTIONS_PER_NODE"
    using scan_index_limit [of root dir N] assms(2) by (cases rule: leI) auto
  from scan_index_ok [OF assms(1) this] assms(2) show ?thesis by (auto simp: index_ok_def)
qed

lemma index_ok_unique:
  assumes "index_ok N root dir ix" "index_ok N root dir ix'"
  shows "ix_actions ix = ix_actions ix' \<and> ix_shots ix = ix_shots ix' \<and> ix_children ix = ix_children ix'"
proof -
  obtain A B where A: "index_repr A ix" "current (ne_protocol N) A ix"
      "index_repr B ix'" "current (ne_protocol N) B ix'" "skeleton A = skeleton B"
    using assms by (auto simp: index_ok_def)
  then have "A = B" by (blast intro: current_unique)
  with A show ?thesis using index_repr_unique by blast
qed

lemma disk_sound_empty: "disk_sound N root []"
  by (simp add: disk_sound_def dir_wf_def bt_invar_single bt.get_empty shot_members_def
      disk_action_iff dir_entry_def)

lemma disk_action_empty: "disk_action N root [] = Map.empty"
  by (rule ext, rule option_eqI) (simp add: disk_action_iff dir_entry_def bt.get_empty)

lemma reachable_ok:
  assumes "node_reachable N root st" "environment_ok N"
  shows "store_ok N st \<and> ns_root st = root @ ''/actions''"
  using assms(1)
proof induction
  case (Start idf st)
  then obtain ix where ix: "scan_index N (root @ ''/actions'') [] = Inr ix"
      "ns_root st = root @ ''/actions''" "ns_dir st = []" "ns_index st = ix"
    by (auto simp: open_store_def split: prod.splits sum.splits)
  then show ?case
    using scan_index_index_ok [OF disk_sound_empty ix(1)] disk_sound_empty [of N "root @ ''/actions''"]
    by (simp add: store_ok_def disk_action_empty links_def acyclic_def)
next
  case (Ingested st bytes r st')
  then show ?case using ingest_ok [OF _ assms(2), of st bytes] by auto
next
  case (Rebuilt st r st')
  then show ?case
    using scan_index_index_ok [of N "root @ ''/actions''" "ns_dir st"]
    by (auto simp: rebuild_def store_ok_def split: sum.splits)
next
  case (Reopened st st')
  then obtain ix where ix: "scan_index N (root @ ''/actions'') (ns_dir st) = Inr ix"
      "ns_root st' = root @ ''/actions''" "ns_dir st' = ns_dir st" "ns_index st' = ix"
    by (auto simp: open_store_def split: prod.splits sum.splits)
  then show ?case
    using scan_index_index_ok [OF _ ix(1)] Reopened.IH by (auto simp: store_ok_def)
qed

section \<open>What is served\<close>

lemma holdings_served:
  assumes "store_ok N st"
  shows "action_bytes N st d = (case holdings N st d of
      None \<Rightarrow> Inl (ActionMissing (bytes32_to_hex d)) | Some v \<Rightarrow> Inr (va_canonical_bytes v))"
proof (cases "holdings N st d")
  case None
  then show ?thesis using store_ok_get [OF assms, of d] by (simp add: action_bytes_def)
next
  case (Some v)
  then have "bt_get (ix_actions (ns_index st)) d \<noteq> None \<and>
      map_option am_path (bt_get (ix_actions (ns_index st)) d) = Some (action_path d)"
    using store_ok_get [OF assms, of d] by auto
  moreover have "read_regular_limited (ns_root st) (ns_dir st) (action_path d) MAX_ACTION_BYTES
      = Inr (va_canonical_bytes v)" "parse_public N (va_canonical_bytes v) = Inr v" "va_digest v = d"
    using Some unfolding holdings_def disk_action_iff read_regular_limited_ok by simp_all
  ultimately show ?thesis using Some by (cases "action_path d") (auto simp: action_bytes_def)
qed

lemma holdings_served_iff:
  "store_ok N st \<Longrightarrow> action_bytes N st d = Inr b \<longleftrightarrow> (\<exists>v. holdings N st d = Some v \<and> va_canonical_bytes v = b)"
  by (auto simp: holdings_served split: option.splits)

lemma served_determines_holdings:
  assumes "store_ok N st" "store_ok N st'" "\<And>d. action_bytes N st d = action_bytes N st' d"
  shows "holdings N st = holdings N st'"
proof -
  have sub: "holdings N st' d = Some v" if ok: "store_ok N st" and ok': "store_ok N st'"
    and eq: "\<And>d. action_bytes N st d = action_bytes N st' d" and v: "holdings N st d = Some v" for st st' d v
  proof -
    have "action_bytes N st' d = Inr (va_canonical_bytes v)"
      unfolding eq [symmetric] holdings_served_iff [OF ok] using v by blast
    then obtain u where u: "holdings N st' d = Some u" "va_canonical_bytes u = va_canonical_bytes v"
      using holdings_served_iff [OF ok'] by blast
    then have "u = v"
      using v unfolding holdings_def disk_action_iff by (metis sum.inject(2))
    with u(1) show ?thesis by simp
  qed
  show ?thesis using sub [OF assms] sub [OF assms(2,1) assms(3) [symmetric]]
    by (intro ext option_eqI) blast
qed

lemma holdings_determine_index:
  assumes "store_ok N st" "store_ok N st'" "holdings N st = holdings N st'"
  shows "ix_actions (ns_index st) = ix_actions (ns_index st')
    \<and> ix_shots (ns_index st) = ix_shots (ns_index st') \<and> ix_children (ns_index st) = ix_children (ns_index st')"
proof -
  obtain A where A: "index_repr A (ns_index st)" "current (ne_protocol N) A (ns_index st)"
    "skeleton A = holdings N st" by (rule store_ok_index [OF assms(1)])
  obtain B where B: "index_repr B (ns_index st')" "current (ne_protocol N) B (ns_index st')"
    "skeleton B = holdings N st'" by (rule store_ok_index [OF assms(2)])
  have "A = B" using A B assms(3) by (intro current_unique [OF A(1) B(1) A(2) B(2)]) simp
  with A(1) B(1) show ?thesis using index_repr_unique by blast
qed

section \<open>Complete lineages\<close>

text \<open>The stored actions from one digest back to an origin, newest first.\<close>

fun lineage_path :: "(bytes32 \<Rightarrow> validated_action option) \<Rightarrow> bytes32 option \<Rightarrow> validated_action list \<Rightarrow> bool" where
  "lineage_path V None path \<longleftrightarrow> path = []"
| "lineage_path V (Some d) [] \<longleftrightarrow> False"
| "lineage_path V (Some d) (v # path) \<longleftrightarrow> V d = Some v \<and> lineage_path V (va_previous v) path"

lemma lineage_path_Some:
  "lineage_path V (Some d) path \<longleftrightarrow>
     (\<exists>v rest. path = v # rest \<and> V d = Some v \<and> lineage_path V (va_previous v) rest)"
  by (cases path) auto

lemma ex_lineage_path:
  "V d = Some v \<Longrightarrow> (\<exists>path. lineage_path V (Some d) path \<and> P path) \<longleftrightarrow>
     (\<exists>rest. lineage_path V (va_previous v) rest \<and> P (v # rest))"
  by (auto simp: lineage_path_Some)

lemma lineage_path_members:
  assumes "lineage_path V c path" "\<And>d v. V d = Some v \<Longrightarrow> va_digest v = d" "v \<in> set path"
  shows "V (va_digest v) = Some v"
  using assms by (induction V c path rule: lineage_path.induct) auto

lemma lineage_path_below:
  assumes "lineage_path V (Some d) path" "\<And>d v. V d = Some v \<Longrightarrow> va_digest v = d" "v \<in> set path"
  shows "(va_digest v, d) \<in> (links V)\<^sup>*"
  using assms
proof (induction path arbitrary: d)
  case (Cons u path)
  then have u: "V d = Some u" "va_digest u = d" by auto
  show ?case
  proof (cases "v = u")
    case False
    with Cons.prems have v: "v \<in> set path" by simp
    with Cons.prems obtain p where p: "va_previous u = Some p" by (cases "va_previous u") auto
    then have "(p, d) \<in> links V" using u(1) by (auto simp: links_def)
    moreover have "(va_digest v, p) \<in> (links V)\<^sup>*"
      using Cons.IH [of p] Cons.prems(1,2) p v by simp
    ultimately show ?thesis by (rule rtrancl_into_rtrancl [rotated])
  qed (simp add: u)
qed simp

lemma lineage_path_distinct:
  assumes "lineage_path V c path" "\<And>d v. V d = Some v \<Longrightarrow> va_digest v = d" "acyclic (links V)"
  shows "distinct (map va_digest path)"
  using assms
proof (induction path arbitrary: c)
  case (Cons v path)
  then obtain d where c: "c = Some d" "V d = Some v" "va_digest v = d" "lineage_path V (va_previous v) path"
    by (cases c) auto
  have "d \<notin> va_digest ` set path"
  proof
    assume "d \<in> va_digest ` set path"
    then obtain u where u: "u \<in> set path" "va_digest u = d" by auto
    with c obtain p where p: "va_previous v = Some p" by (cases "va_previous v") auto
    then have "(d, p) \<in> (links V)\<^sup>*"
      using lineage_path_below [of V p path u] Cons.prems(2) c(4) u by auto
    moreover have "(p, d) \<in> links V" using p c(2) by (auto simp: links_def)
    ultimately have "(d, d) \<in> (links V)\<^sup>+" by (rule rtrancl_into_trancl1)
    then show False using Cons.prems(3) by (simp add: acyclic_def)
  qed
  moreover have "distinct (map va_digest path)" using Cons.IH [OF c(4)] Cons.prems(2,3) by blast
  ultimately show ?case using c(3) by simp
qed simp

text \<open>The walk ends without a missing parent exactly at such a path.\<close>

lemma walk_branch_path:
  assumes "index_repr A ix"
  shows "walk_branch (ix_actions ix) seen branch cursor = WalkDone branch' None \<longleftrightarrow>
    (\<exists>path. lineage_path (skeleton A) cursor path \<and> branch' = branch @ map va_signed path
      \<and> (path \<noteq> [] \<longrightarrow> length branch + length path \<le> MAX_ACTIONS_PER_SHOT)
      \<and> distinct (map va_digest path) \<and> set seen \<inter> va_digest ` set path = {})"
proof (induction "ix_actions ix" seen branch cursor rule: walk_branch.induct)
  case (2 seen branch d)
  show ?case
  proof (cases "A d")
    case None
    then have "bt_get (ix_actions ix) d = None" "skeleton A d = None"
      using assms by (simp_all add: index_repr_def actions_repr_def skeleton_def)
    moreover from this have "\<not> lineage_path (skeleton A) (Some d) path" for path by (cases path) auto
    ultimately show ?thesis by (simp add: walk_branch.simps(2))
  next
    case (Some e)
    then obtain v w where vw: "A d = Some (v, w)" by (cases e) auto
    have m: "bt_get (ix_actions ix) d = Some (meta_of d (v, w))"
      using assms vw by (simp add: index_repr_def actions_repr_def)
    have v: "skeleton A d = Some v" "va_digest v = d"
      using assms vw by (auto simp: skeleton_def index_repr_def digests_ok_def)
    show ?thesis
    proof (cases "d \<in> set seen \<or> MAX_ACTIONS_PER_SHOT \<le> length branch")
      case True
      then show ?thesis using v by (auto simp: walk_branch.simps(2) lineage_path_Some)
    next
      case False
      then have "walk_branch (ix_actions ix) seen branch (Some d) = WalkDone branch' None \<longleftrightarrow>
          (\<exists>path. lineage_path (skeleton A) (va_previous v) path
            \<and> branch' = branch @ map va_signed (v # path)
            \<and> (path \<noteq> [] \<longrightarrow> length branch + length (v # path) \<le> MAX_ACTIONS_PER_SHOT)
            \<and> distinct (map va_digest path) \<and> set (d # seen) \<inter> va_digest ` set path = {})"
        using 2 [OF _ _ m] m by (simp add: walk_branch.simps(2))
      also have "\<dots> \<longleftrightarrow> (\<exists>path. lineage_path (skeleton A) (va_previous v) path
            \<and> branch' = branch @ map va_signed (v # path)
            \<and> length branch + length (v # path) \<le> MAX_ACTIONS_PER_SHOT
            \<and> distinct (map va_digest (v # path)) \<and> set seen \<inter> va_digest ` set (v # path) = {})"
        using False v(2) by (intro ex_cong1) auto
      finally show ?thesis unfolding ex_lineage_path [of "skeleton A" d v, OF v(1)] by simp
    qed
  qed
qed auto

lemma reduce_segment: "reduce_lineage E xs = Inr st \<Longrightarrow> segment_spec E xs None"
  by (auto simp: reduce_lineage_def verify_segment_iff)

lemma follows_shot: "follows E x y \<Longrightarrow> action_shot_id (action y) = action_shot_id (action x)"
  by (auto simp: follows_def extends_anchor_def anchor_of_def)

lemma successively_one_shot:
  "successively (follows E) (y # ys) \<Longrightarrow> x \<in> set ys \<Longrightarrow>
     action_shot_id (action x) = action_shot_id (action y)"
proof (induction ys arbitrary: y)
  case (Cons z ys)
  from Cons.prems(1) have z: "action_shot_id (action z) = action_shot_id (action y)"
    by (intro follows_shot [of E]) simp
  show ?case
  proof (cases "x = z")
    case False
    with Cons have "action_shot_id (action x) = action_shot_id (action z)" by simp
    with z show ?thesis by simp
  qed (simp add: z)
qed simp

lemma segment_one_shot:
  assumes "segment_spec E xs anchor" "x \<in> set xs"
  shows "action_shot_id (action x) = action_shot_id (action (hd xs))"
  using assms successively_one_shot [of E "hd xs" "tl xs" x]
  by (cases xs) (auto simp: segment_spec_def)

text \<open>A lineage that reduces is within the limit of its Shot.\<close>

lemma reduced_path_length:
  assumes ok: "store_ok N st" and path: "lineage_path (holdings N st) c path"
    and spec: "segment_spec E (map va_signed (rev path)) None"
  shows "length path \<le> MAX_ACTIONS_PER_SHOT"
proof -
  have digest: "va_digest v = d" if "holdings N st d = Some v" for d v
    using that unfolding holdings_def by (rule disk_action_digest)
  have acyclic: "acyclic (links (holdings N st))" using ok by (simp add: store_ok_def holdings_def)
  define s where "s = action_shot_id (action (hd (map va_signed (rev path))))"
  have "va_digest ` set path \<subseteq> shot_members (holdings N st) s"
  proof
    fix d
    assume "d \<in> va_digest ` set path"
    then obtain v where v: "v \<in> set path" "va_digest v = d" by auto
    have held: "holdings N st d = Some v" using lineage_path_members [OF path digest v(1)] v(2) by simp
    then have "va_shot_id v = action_shot_id (action (va_signed v))"
      unfolding holdings_def disk_action_iff parse_public_iff by blast
    then show "d \<in> shot_members (holdings N st) s"
      using held segment_one_shot [OF spec, of "va_signed v"] v(1) by (auto simp: shot_members_def s_def)
  qed
  moreover obtain A where A: "index_repr A (ns_index st)" "skeleton A = holdings N st"
    by (rule store_ok_index [OF ok])
  have "finite (shot_members (holdings N st) s)"
    using skeleton_finite [OF A(1)] unfolding A(2) by (rule rev_finite_subset) (auto simp: shot_members_def)
  ultimately have "card (va_digest ` set path) \<le> card (shot_members (holdings N st) s)"
    by (rule card_mono [rotated])
  moreover have "card (va_digest ` set path) = length path"
    using distinct_card [OF lineage_path_distinct [OF path digest acyclic]] by simp
  ultimately show ?thesis using ok by (auto simp: store_ok_def disk_sound_def holdings_def intro: le_trans)
qed

lemma classify_verified_iff:
  assumes ok: "store_ok N st" and A: "index_repr A (ns_index st)" "skeleton A = holdings N st"
    and v: "holdings N st d = Some v"
  shows "val_neutral_authority (classify E (ns_index st) d (va_signed v) (va_previous v)) = AuthorityVerified
    \<longleftrightarrow> (\<exists>path. lineage_path (holdings N st) (Some d) path
      \<and> is_ok (reduce_lineage E (map va_signed (rev path))))"
proof -
  have digest: "va_digest v = d" if "holdings N st d = Some v" for d v
    using that unfolding holdings_def by (rule disk_action_digest)
  have acyclic: "acyclic (links (holdings N st))" using ok by (simp add: store_ok_def holdings_def)
  have "val_neutral_authority (classify E (ns_index st) d (va_signed v) (va_previous v)) = AuthorityVerified
      \<longleftrightarrow> (\<exists>branch. walk_branch (ix_actions (ns_index st)) [d] [va_signed v] (va_previous v)
        = WalkDone branch None \<and> is_ok (reduce_lineage E (rev branch)))"
    by (auto simp: classify_def classify_branch_def rejected_validation_def unresolved_validation_def
        unresolved_public_authority_validation_def reduce_lineage_def split: walk_result.splits sum.splits option.splits)
  also have "\<dots> \<longleftrightarrow> (\<exists>path. lineage_path (holdings N st) (va_previous v) path
      \<and> (path \<noteq> [] \<longrightarrow> 1 + length path \<le> MAX_ACTIONS_PER_SHOT)
      \<and> distinct (map va_digest (v # path)) \<and> is_ok (reduce_lineage E (map va_signed (rev (v # path)))))"
    unfolding walk_branch_path [OF A(1)] A(2) using digest [OF v] by (auto simp: rev_map)
  also have "\<dots> \<longleftrightarrow> (\<exists>path. lineage_path (holdings N st) (va_previous v) path
      \<and> is_ok (reduce_lineage E (map va_signed (rev (v # path)))))"
  proof (intro ex_cong1 conj_cong refl iffI)
    fix path
    assume path: "lineage_path (holdings N st) (va_previous v) path"
      and red: "is_ok (reduce_lineage E (map va_signed (rev (v # path))))"
    then have whole: "lineage_path (holdings N st) (Some d) (v # path)" using v by simp
    have "segment_spec E (map va_signed (rev (v # path))) None" using red by (auto dest: reduce_segment)
    from reduced_path_length [OF ok whole this] lineage_path_distinct [OF whole digest acyclic] red
    show "(path \<noteq> [] \<longrightarrow> 1 + length path \<le> MAX_ACTIONS_PER_SHOT)
      \<and> distinct (map va_digest (v # path)) \<and> is_ok (reduce_lineage E (map va_signed (rev (v # path))))"
      by simp
  qed blast
  finally show ?thesis unfolding ex_lineage_path [of "holdings N st" d v, OF v] .
qed

section \<open>What a node promises\<close>

lemma shot_references:
  assumes ok: "store_ok N st" and view: "shot st s = Inr view" and r: "r \<in> set (sv_actions view)"
  obtains A v where "index_repr A (ns_index st)" "skeleton A = holdings N st"
    "holdings N st (ref_digest r) = Some v" "va_shot_id v = s"
    "ref_validation r = classify (ne_protocol N) (ns_index st) (ref_digest r) (va_signed v) (va_previous v)"
proof -
  obtain A where A: "index_repr A (ns_index st)" "current (ne_protocol N) A (ns_index st)"
    "skeleton A = holdings N st" by (rule store_ok_index [OF ok])
  obtain ix where ix: "bt_get (ix_shots (ns_index st)) s = Some ix"
    "sv_actions view = map am_reference (bt_values ix)"
    using view by (cases "bt_get (ix_shots (ns_index st)) s") (auto simp: shot_def)
  have repr: "shot_repr A s ix"
    using A(1) ix(1) unfolding index_repr_def shots_repr_def by (metis get_or_simps(2))
  obtain k m where m: "(k, m) \<in> set ix" "r = am_reference m"
    using r ix(2) by (auto simp: bt_values_def)
  then have "bt_get ix (fst k, snd k) = Some m"
    using bt_get_entries repr unfolding shot_repr_def by (metis prod.collapse)
  then obtain v w where v: "A (snd k) = Some (v, w)" "va_shot_id v = s" "m = meta_of (snd k) (v, w)"
    using repr unfolding shot_repr_def by blast
  then have "va_digest v = snd k" using A(1) by (auto simp: index_repr_def digests_ok_def)
  moreover have "holdings N st (snd k) = Some v" unfolding A(3) [symmetric] using v(1) by (simp add: skeleton_def)
  moreover have "w = classify (ne_protocol N) (ns_index st) (snd k) (va_signed v) (va_previous v)"
    using A(2) v(1) by (simp add: current_def)
  ultimately show ?thesis using that [OF A(1,3)] v(2,3) m(2) by simp
qed





lemma classify_candidate_unverified:
  "val_candidate_authority (classify E ix d x p) \<noteq> AuthorityVerified"
  by (auto simp: classify_def classify_branch_def rejected_validation_def unresolved_validation_def
      unresolved_public_authority_validation_def split: walk_result.splits sum.splits option.splits)

lemma count_candidates:
  "vc_candidate_authority_verified (fold count_one rs c) = vc_candidate_authority_verified c
     + length (filter (\<lambda>r. val_candidate_authority (ref_validation r) = AuthorityVerified) rs)"
  by (induction rs arbitrary: c)
    (auto simp: count_one_def Let_def split: segment_status.split authority_status.split)

text \<open>
  A node never claims that a candidate's authority is verified: no action of a Shot is so marked,
  its list of authority-verified heads is empty and its count is zero.
\<close>

lemma candidate_authority_never_claimed:
  assumes "environment_ok N" "node_reachable N root st" "shot st s = Inr view"
  shows "sum_authority_verified_heads (sv_shot view) = []
    \<and> vc_candidate_authority_verified (sum_validation (sv_shot view)) = 0
    \<and> filter (\<lambda>r. val_candidate_authority (ref_validation r) = AuthorityVerified) (sv_actions view) = []"
proof -
  have ok: "store_ok N st" using reachable_ok assms(1,2) by blast
  have none: "val_candidate_authority (ref_validation r) \<noteq> AuthorityVerified"
    if "r \<in> set (sv_actions view)" for r
  proof -
    from ok assms(3) that obtain A v where "index_repr A (ns_index st)" "skeleton A = holdings N st"
      "holdings N st (ref_digest r) = Some v" "va_shot_id v = s" and "ref_validation r =
        classify (ne_protocol N) (ns_index st) (ref_digest r) (va_signed v) (va_previous v)"
      by (rule shot_references)
    then show ?thesis by (simp add: classify_candidate_unverified)
  qed
  then have empty: "filter (\<lambda>r. val_candidate_authority (ref_validation r) = AuthorityVerified)
      (sv_actions view) = []" by (simp add: filter_empty_conv)
  obtain ix where ix: "sv_shot view = summarize s ix" "sv_actions view = map am_reference (bt_values ix)"
    using assms(3) by (cases "bt_get (ix_shots (ns_index st)) s") (auto simp: shot_def)
  show ?thesis
    using empty by (simp add: ix summarize_def Let_def heads_for_def btree_set_def
        validation_counts_def count_candidates)
qed


end
