(* ===== verification/Node_Sync.thy ===== *)
theory Node_Sync
  imports Node_Views
begin

text \<open>
  Synchronization with configured peers: \<open>node/src/sync.rs\<close>. A node pulls the inventory
  of each peer and submits what it lacks to its own store. The peer is not trusted: what
  it answers to each request is a parameter, as are the URL type and the JSON parsers of
  the responses.
\<close>

section \<open>Peers\<close>

definition MAX_PEERS :: nat where "MAX_PEERS = 32"
definition MAX_PEER_NODE_BYTES :: nat where "MAX_PEER_NODE_BYTES = 64 * 1024"
definition MAX_PEER_INDEX_BYTES :: nat where "MAX_PEER_INDEX_BYTES = 4 * 1024 * 1024"
definition MAX_REMOTE_SHOTS :: nat where "MAX_REMOTE_SHOTS = 10000"

text \<open>The parts of a parsed URL the code reads.\<close>

record url =
  url_scheme :: string
  url_username :: string
  url_password :: "string option"
  url_authority :: string
  url_path :: string
  url_query :: "string option"
  url_fragment :: "string option"

record remote_node_info =
  ri_schema :: string
  ri_node_id :: bytes32
  ri_created_at_unix :: u64
  ri_lineage_protocol :: string
  ri_lineage_protocol_version :: string
  ri_supported_schema_versions :: "u32 list"
  ri_stored_actions :: nat
  ri_indexed_shots :: nat
  ri_active_generation :: "string option"
  ri_generation_policy :: "string option"
  ri_legacy_policy :: "string option"
  ri_retired_contract_configuration :: "json option"
  ri_agreement :: string
  ri_non_agreement :: string

text \<open>An answer: its status, the length its header states and its body, chunk by chunk; the
  client's timeout ends every body.\<close>

record http_response =
  hr_success :: bool
  hr_status :: string
  hr_content_length :: "nat option"
  hr_chunks :: "(string + byte list) list"

text \<open>
  The surroundings of a synchronization. The answer to a request may depend on how many
  requests were made before.
\<close>

record sync_env =
  se_url_parse :: "string \<Rightarrow> url option"
  se_url_str :: "url \<Rightarrow> string"
  se_url_join :: "url \<Rightarrow> string \<Rightarrow> url option"
  se_get :: "nat \<Rightarrow> url \<Rightarrow> string + http_response"
  se_parse_info :: "byte list \<Rightarrow> string + remote_node_info"
  se_parse_shots :: "byte list \<Rightarrow> string + shot_summary list"
  se_parse_view :: "byte list \<Rightarrow> string + shot_view"
  se_now :: "nat \<Rightarrow> u64"

record peer =
  peer_base :: url

definition peer_parse :: "sync_env \<Rightarrow> string \<Rightarrow> peer node_result" where
  "peer_parse W text =
     bind_result (ok_or (InvalidPeer text) (se_url_parse W text)) (\<lambda>base.
     bind_result (err_if (url_scheme base \<notin> {''http'', ''https''}
         \<or> url_username base \<noteq> [] \<or> url_password base \<noteq> None
         \<or> url_query base \<noteq> None \<or> url_fragment base \<noteq> None
         \<or> \<not> (url_path base = [] \<or> url_path base = ''/'')) (InvalidPeer text)) (\<lambda>_.
       Inr \<lparr>peer_base = base\<lparr>url_path := ''/''\<rparr>\<rparr>))"

definition peer_as_str :: "sync_env \<Rightarrow> peer \<Rightarrow> string" where
  "peer_as_str W p = se_url_str W (peer_base p)"

definition endpoint :: "sync_env \<Rightarrow> peer \<Rightarrow> string \<Rightarrow> url node_result" where
  "endpoint W p relative = ok_or (InvalidPeer (se_url_str W (peer_base p))) (se_url_join W (peer_base p) relative)"

section \<open>The node\<close>

datatype sync_state = SyncNever | SyncRunning | SyncSucceeded | SyncFailed

record peer_sync_result =
  pr_peer :: string
  pr_fetched :: nat
  pr_already_present :: nat
  pr_rejected :: nat
  pr_error :: "string option"

record sync_report =
  sr_state :: sync_state
  sr_started_at_unix :: "u64 option"
  sr_completed_at_unix :: "u64 option"
  sr_peers :: "peer_sync_result list"

record node =
  nd_store :: node_store
  nd_peers :: "peer list"
  nd_sync_status :: sync_report
  nd_sync_locked :: bool
  nd_requests :: nat

definition initial_sync_report :: sync_report where
  "initial_sync_report = \<lparr>sr_state = SyncNever, sr_started_at_unix = None,
     sr_completed_at_unix = None, sr_peers = []\<rparr>"

text \<open>\<open>dedup_by\<close> keeps the first of neighbours with equal text.\<close>

fun dedup_by_str :: "sync_env \<Rightarrow> peer list \<Rightarrow> peer list" where
  "dedup_by_str W (p # q # ps) =
     (if peer_as_str W p = peer_as_str W q then dedup_by_str W (p # ps)
      else p # dedup_by_str W (q # ps))"
| "dedup_by_str W ps = ps"

definition node_new :: "sync_env \<Rightarrow> node_store \<Rightarrow> peer list \<Rightarrow> node node_result" where
  "node_new W st ps =
     bind_result (err_if (length ps > MAX_PEERS) (PeerLimit MAX_PEERS)) (\<lambda>_.
       Inr \<lparr>nd_store = st, nd_peers = dedup_by_str W (sort_key (peer_as_str W) ps),
            nd_sync_status = initial_sync_report, nd_sync_locked = False, nd_requests = 0\<rparr>)"

section \<open>One peer\<close>

text \<open>Store, request counter and result so far, threaded through fallible steps; the outer
  option is the non-termination of a submission.\<close>

record sync_ctx =
  sc_store :: node_store
  sc_requests :: nat
  sc_result :: peer_sync_result

type_synonym 'a sync = "sync_ctx \<Rightarrow> ('a node_result \<times> sync_ctx) option"

definition sync_return :: "'a node_result \<Rightarrow> 'a sync" where
  "sync_return r c = Some (r, c)"

definition sync_bind :: "'a sync \<Rightarrow> ('a \<Rightarrow> 'b sync) \<Rightarrow> 'b sync" where
  "sync_bind f g c =
     (case f c of
        None \<Rightarrow> None
      | Some (Inl e, c') \<Rightarrow> Some (Inl e, c')
      | Some (Inr x, c') \<Rightarrow> g x c')"

definition count_rejected :: "node_error \<Rightarrow> 'a sync" where
  "count_rejected e c = Some (Inl e, c\<lparr>sc_result := (sc_result c)\<lparr>pr_rejected := pr_rejected (sc_result c) + 1\<rparr>\<rparr>)"

definition count_present :: "unit sync" where
  "count_present c = Some (Inr (), c\<lparr>sc_result := (sc_result c)
     \<lparr>pr_already_present := pr_already_present (sc_result c) + 1\<rparr>\<rparr>)"

definition count_fetched :: "unit sync" where
  "count_fetched c = Some (Inr (), c\<lparr>sc_result := (sc_result c)\<lparr>pr_fetched := pr_fetched (sc_result c) + 1\<rparr>\<rparr>)"

fun read_chunks :: "nat \<Rightarrow> byte list \<Rightarrow> (string + byte list) list \<Rightarrow> byte list node_result" where
  "read_chunks limit bytes [] = Inr bytes"
| "read_chunks limit bytes (Inl e # chunks) = Inl (PeerRequest e)"
| "read_chunks limit bytes (Inr chunk # chunks) =
     (if length bytes + length chunk > limit then Inl (PeerResponseTooLarge limit)
      else read_chunks limit (bytes @ chunk) chunks)"

definition get_limited_response :: "(string + http_response) \<Rightarrow> nat \<Rightarrow> byte list node_result" where
  "get_limited_response answer limit =
     bind_result (map_err PeerRequest answer) (\<lambda>response.
     bind_result (err_if (\<not> hr_success response) (PeerResponse (''HTTP status '' @ hr_status response))) (\<lambda>_.
     bind_result (err_if (case hr_content_length response of None \<Rightarrow> False | Some n \<Rightarrow> n > limit)
       (PeerResponseTooLarge limit)) (\<lambda>_.
       read_chunks limit [] (hr_chunks response))))"

definition get_limited :: "sync_env \<Rightarrow> url \<Rightarrow> nat \<Rightarrow> byte list sync" where
  "get_limited W u limit c =
     Some (get_limited_response (se_get W (sc_requests c) u) limit, c\<lparr>sc_requests := sc_requests c + 1\<rparr>)"

definition fetch :: "sync_env \<Rightarrow> peer \<Rightarrow> string \<Rightarrow> nat \<Rightarrow> byte list sync" where
  "fetch W p relative limit =
     sync_bind (sync_return (endpoint W p relative)) (\<lambda>u. get_limited W u limit)"

definition nonempty_text :: "string option \<Rightarrow> bool" where
  "nonempty_text x \<longleftrightarrow> (case x of None \<Rightarrow> False | Some t \<Rightarrow> t \<noteq> [])"

definition is_json_object :: "json option \<Rightarrow> bool" where
  "is_json_object x \<longleftrightarrow> (case x of Some (JObj _) \<Rightarrow> True | _ \<Rightarrow> False)"

text \<open>The descriptor a peer must present.\<close>

definition descriptor_refused :: "remote_node_info \<Rightarrow> bool" where
  "descriptor_refused descriptor \<longleftrightarrow>
     (let current_generation_descriptor = nonempty_text (ri_generation_policy descriptor)
            \<and> nonempty_text (ri_legacy_policy descriptor);
          retired_v07_descriptor = ri_active_generation descriptor = None \<and> ri_generation_policy descriptor = None
            \<and> ri_legacy_policy descriptor = None \<and> is_json_object (ri_retired_contract_configuration descriptor)
      in ri_schema descriptor \<noteq> NODE_PROTOCOL
       \<or> ri_node_id descriptor = 0
       \<or> ri_created_at_unix descriptor = 0
       \<or> ri_lineage_protocol descriptor \<noteq> LINEAGE_PROTOCOL
       \<or> ri_lineage_protocol_version descriptor \<noteq> LINEAGE_PROTOCOL_VERSION
       \<or> LINEAGE_SCHEMA_VERSION \<notin> set (ri_supported_schema_versions descriptor)
       \<or> ri_stored_actions descriptor > MAX_ACTIONS_PER_NODE
       \<or> ri_indexed_shots descriptor > MAX_REMOTE_SHOTS
       \<or> ri_active_generation descriptor = Some []
       \<or> \<not> (current_generation_descriptor \<or> retired_v07_descriptor)
       \<or> ri_agreement descriptor = []
       \<or> ri_non_agreement descriptor = [])"

definition sync_ingest :: "node_env \<Rightarrow> action_reference \<Rightarrow> byte list \<Rightarrow> unit sync" where
  "sync_ingest N r bytes c =
     (case ingest N (sc_store c) bytes of
        None \<Rightarrow> None
      | Some (answer, st) \<Rightarrow>
          (let c' = c\<lparr>sc_store := st\<rparr> in
           case answer of
             Inl e \<Rightarrow> count_rejected e c'
           | Inr outcome \<Rightarrow>
               (if io_digest outcome = ref_digest r then
                  (if io_stored outcome then count_fetched c' else count_present c')
                else count_rejected (PeerResponse ''stored action commitment changed unexpectedly'') c')))"

text \<open>The body of the inner loop.\<close>

definition sync_reference :: "node_env \<Rightarrow> sync_env \<Rightarrow> peer \<Rightarrow> shot_id \<Rightarrow> action_reference \<Rightarrow> unit sync" where
  "sync_reference N W p shot_id r =
     sync_bind (sync_return (err_if (ref_shot_id r \<noteq> shot_id)
       (PeerResponse ''peer action reference changed ShotID''))) (\<lambda>_ c.
     if contains (sc_store c) (ref_digest r) then count_present c
     else sync_bind (fetch W p (''v1/actions/'' @ bytes32_to_hex (ref_digest r)) MAX_ACTION_BYTES) (\<lambda>bytes.
       sync_bind (sync_return (parse_public N bytes)) (\<lambda>v.
         if va_digest v \<noteq> ref_digest r \<or> va_shot_id v \<noteq> ref_shot_id r
           \<or> va_sequence v \<noteq> ref_sequence r \<or> va_previous v \<noteq> ref_previous r
         then count_rejected (PeerResponse ''peer action bytes do not match the advertised reference'')
         else sync_ingest N r bytes)) c)"

fun sync_each :: "('a \<Rightarrow> unit sync) \<Rightarrow> 'a list \<Rightarrow> unit sync" where
  "sync_each f [] = sync_return (Inr ())"
| "sync_each f (x # xs) = sync_bind (f x) (\<lambda>_. sync_each f xs)"

text \<open>The body of the outer loop.\<close>

definition sync_shot :: "node_env \<Rightarrow> sync_env \<Rightarrow> peer \<Rightarrow> shot_summary \<Rightarrow> unit sync" where
  "sync_shot N W p summary =
     sync_bind (fetch W p (''v1/shots/'' @ bytes32_to_hex (sum_shot_id summary)) MAX_PEER_INDEX_BYTES)
       (\<lambda>view_bytes.
     sync_bind (sync_return (map_err NodeJson (se_parse_view W view_bytes))) (\<lambda>view.
     sync_bind (sync_return (err_if (sum_shot_id (sv_shot view) \<noteq> sum_shot_id summary
         \<or> sum_action_count (sv_shot view) \<noteq> length (sv_actions view)
         \<or> length (sv_actions view) > MAX_ACTIONS_PER_SHOT)
       (PeerResponse ''peer Shot inventory is internally inconsistent''))) (\<lambda>_.
       sync_each (sync_reference N W p (sum_shot_id summary))
         (sort_key (\<lambda>r. (ref_sequence r, ref_digest r)) (sv_actions view)))))"

definition sync_one_inner :: "node_env \<Rightarrow> sync_env \<Rightarrow> peer \<Rightarrow> unit sync" where
  "sync_one_inner N W p =
     sync_bind (fetch W p ''v1/node'' MAX_PEER_NODE_BYTES) (\<lambda>info_bytes.
     sync_bind (sync_return (map_err NodeJson (se_parse_info W info_bytes))) (\<lambda>descriptor.
     sync_bind (sync_return (err_if (descriptor_refused descriptor)
       (PeerResponse ''peer does not advertise the required lineage protocol''))) (\<lambda>_.
     sync_bind (fetch W p ''v1/shots'' MAX_PEER_INDEX_BYTES) (\<lambda>shots_bytes.
     sync_bind (sync_return (map_err NodeJson (se_parse_shots W shots_bytes))) (\<lambda>remote_shots.
     sync_bind (sync_return (err_if (length remote_shots > MAX_REMOTE_SHOTS)
       (PeerResponse (''peer advertises more than '' @ show_nat MAX_REMOTE_SHOTS @ '' Shots'')))) (\<lambda>_.
       sync_each (sync_shot N W p) remote_shots))))))"

definition sync_one ::
  "node_env \<Rightarrow> sync_env \<Rightarrow> peer \<Rightarrow> node_store \<times> nat \<Rightarrow> (peer_sync_result \<times> node_store \<times> nat) option" where
  "sync_one N W p state =
     (let start = \<lparr>pr_peer = peer_as_str W p, pr_fetched = 0, pr_already_present = 0,
          pr_rejected = 0, pr_error = None\<rparr> in
      map_option (\<lambda>(r, c).
          ((case r of
              Inl e \<Rightarrow> (sc_result c)\<lparr>pr_error := Some (display_node_error e)\<rparr>
            | Inr _ \<Rightarrow> sc_result c), sc_store c, sc_requests c))
        (sync_one_inner N W p \<lparr>sc_store = fst state, sc_requests = snd state, sc_result = start\<rparr>))"

section \<open>All peers\<close>

fun sync_peers ::
  "node_env \<Rightarrow> sync_env \<Rightarrow> peer list \<Rightarrow> node_store \<times> nat
     \<Rightarrow> (peer_sync_result list \<times> node_store \<times> nat) option" where
  "sync_peers N W [] state = Some ([], state)"
| "sync_peers N W (p # ps) state =
     Option.bind (sync_one N W p state) (\<lambda>(result, state').
       map_option (\<lambda>(results, state''). (result # results, state'')) (sync_peers N W ps state'))"

text \<open>The lock is released when \<open>sync\<close> returns, so it is held only by another run.\<close>

definition sync :: "node_env \<Rightarrow> sync_env \<Rightarrow> node \<Rightarrow> (sync_report node_result \<times> node) option" where
  "sync N W nd =
     (if nd_sync_locked nd then Some (Inl SyncInProgress, nd)
      else let started = se_now W (nd_requests nd) in
        map_option (\<lambda>(results, st, requests).
            let report = \<lparr>sr_state = (if list_ex (\<lambda>r. pr_error r \<noteq> None) results then SyncFailed
                  else SyncSucceeded),
                sr_started_at_unix = Some started,
                sr_completed_at_unix = Some (se_now W requests),
                sr_peers = results\<rparr>
            in (Inr report, nd\<lparr>nd_store := st, nd_requests := requests, nd_sync_status := report\<rparr>))
          (sync_peers N W (nd_peers nd) (nd_store nd, nd_requests nd)))"

section \<open>Correctness\<close>

text \<open>
  What every step of a synchronization guarantees, whatever the peer answers: it ends, the
  store stays one the node can reach, everything held is kept, and each new action is
  counted as fetched.
\<close>

definition pulled :: "node_env \<Rightarrow> string \<Rightarrow> node_store \<times> nat \<Rightarrow> node_store \<times> nat \<Rightarrow> bool" where
  "pulled N root old new \<longleftrightarrow> node_reachable N root (fst new)
     \<and> holdings N (fst old) \<subseteq>\<^sub>m holdings N (fst new)
     \<and> card (dom (holdings N (fst new))) + snd old = card (dom (holdings N (fst old))) + snd new"

definition fetched_state :: "sync_ctx \<Rightarrow> node_store \<times> nat" where
  "fetched_state c = (sc_store c, pr_fetched (sc_result c))"

definition pulls :: "node_env \<Rightarrow> string \<Rightarrow> 'a sync \<Rightarrow> bool" where
  "pulls N root f \<longleftrightarrow> (\<forall>c. node_reachable N root (sc_store c) \<longrightarrow>
     (\<exists>r c'. f c = Some (r, c') \<and> pulled N root (fetched_state c) (fetched_state c')))"

named_theorems pulls_intro

lemma pulled_refl: "node_reachable N root (fst s) \<Longrightarrow> pulled N root s s"
  by (simp add: pulled_def)

lemma pulled_trans: "pulled N root s t \<Longrightarrow> pulled N root t u \<Longrightarrow> pulled N root s u"
  by (auto simp: pulled_def intro: map_le_trans)

lemma pulls_return [pulls_intro]: "pulls N root (sync_return r)"
  by (simp add: pulls_def sync_return_def pulled_refl fetched_state_def)

lemma pulls_bind [pulls_intro]:
  assumes "pulls N root f" "\<And>x. pulls N root (g x)"
  shows "pulls N root (sync_bind f g)"
  unfolding pulls_def
proof (intro allI impI)
  fix c :: sync_ctx
  assume reach: "node_reachable N root (sc_store c)"
  then obtain r d where f: "f c = Some (r, d)" and d: "pulled N root (fetched_state c) (fetched_state d)"
    using assms(1) unfolding pulls_def by blast
  show "\<exists>r c'. sync_bind f g c = Some (r, c') \<and> pulled N root (fetched_state c) (fetched_state c')"
  proof (cases r)
    case (Inl e)
    with f d show ?thesis by (simp add: sync_bind_def)
  next
    case (Inr x)
    have "node_reachable N root (sc_store d)" using d by (simp add: pulled_def fetched_state_def)
    then obtain r' e where "g x d = Some (r', e)" "pulled N root (fetched_state d) (fetched_state e)"
      using assms(2) [of x] unfolding pulls_def by blast
    with f d Inr show ?thesis by (auto simp: sync_bind_def intro: pulled_trans)
  qed
qed

lemma pulls_counts [pulls_intro]:
  "pulls N root (count_rejected e)" "pulls N root count_present" "pulls N root (get_limited W u limit)"
  by (simp_all add: pulls_def count_rejected_def count_present_def get_limited_def pulled_refl fetched_state_def)

lemma pulls_fetch [pulls_intro]: "pulls N root (fetch W p relative limit)"
  unfolding fetch_def by (intro pulls_intro)

lemma pulls_each [pulls_intro]: "(\<And>x. pulls N root (f x)) \<Longrightarrow> pulls N root (sync_each f xs)"
  by (induction xs) (auto intro: pulls_intro)

lemma pulls_if_ctx [pulls_intro]:
  "pulls N root f \<Longrightarrow> pulls N root g \<Longrightarrow> pulls N root (\<lambda>c. if b c then f c else g c)"
  by (simp add: pulls_def)

lemma holdings_finite: "store_ok N st \<Longrightarrow> finite (dom (holdings N st))"
  by (erule store_ok_index) (metis skeleton_finite)

lemma pulls_check:
  assumes "\<And>x. r = Inr x \<Longrightarrow> pulls N root (g x)"
  shows "pulls N root (sync_bind (sync_return r) g)"
proof (cases r)
  case (Inl e)
  then show ?thesis by (simp add: pulls_def sync_bind_def sync_return_def pulled_refl fetched_state_def)
next
  case (Inr x)
  then have "sync_bind (sync_return r) g = g x" by (simp add: sync_bind_def sync_return_def fun_eq_iff)
  then show ?thesis using assms [OF Inr] by simp
qed

text \<open>The bytes were compared with the reference before they are submitted.\<close>

lemma pulls_ingest:
  assumes env: "environment_ok N" and v: "parse_public N bytes = Inr v" "va_digest v = ref_digest r"
  shows "pulls N root (sync_ingest N r bytes)"
  unfolding pulls_def
proof (intro allI impI)
  fix c :: sync_ctx
  assume reach: "node_reachable N root (sc_store c)"
  then have ok: "store_ok N (sc_store c)" using reachable_ok env by blast
  obtain answer st where step: "ingest N (sc_store c) bytes = Some (answer, st)"
    and out: "case answer of Inl _ \<Rightarrow> holdings N st = holdings N (sc_store c)
       | Inr out \<Rightarrow> (\<exists>v. parse_public N bytes = Inr v \<and> io_digest out = va_digest v
           \<and> holdings N (sc_store c) (va_digest v) = (if io_stored out then None else Some v)
           \<and> holdings N st = (holdings N (sc_store c))(va_digest v \<mapsto> v))"
    using ingest_ok [OF ok env, of bytes] by blast
  have reach': "node_reachable N root st" using reach step by (rule Ingested)
  show "\<exists>r' c'. sync_ingest N r bytes c = Some (r', c') \<and> pulled N root (fetched_state c) (fetched_state c')"
  proof (cases answer)
    case (Inl e)
    with step out reach' show ?thesis
      by (simp add: sync_ingest_def count_rejected_def pulled_def fetched_state_def)
  next
    case (Inr outcome)
    with out v have held: "io_digest outcome = ref_digest r"
      "holdings N (sc_store c) (ref_digest r) = (if io_stored outcome then None else Some v)"
      "holdings N st = (holdings N (sc_store c))(ref_digest r \<mapsto> v)" by auto
    show ?thesis
    proof (cases "io_stored outcome")
      case True
      then have "card (dom (holdings N st)) = Suc (card (dom (holdings N (sc_store c))))"
        using held holdings_finite [OF ok] by (simp add: domIff)
      moreover have "holdings N (sc_store c) \<subseteq>\<^sub>m holdings N st"
        using held(2,3) True by (auto simp: map_le_def)
      ultimately show ?thesis
        using step Inr True held(1) reach'
        by (simp add: sync_ingest_def count_fetched_def pulled_def fetched_state_def)
    next
      case False
      then have "holdings N st = holdings N (sc_store c)" using held(2,3) by (simp add: fun_upd_idem)
      then show ?thesis
        using step Inr False held(1) reach'
        by (simp add: sync_ingest_def count_present_def pulled_def fetched_state_def)
    qed
  qed
qed

lemma pulls_reference:
  assumes "environment_ok N"
  shows "pulls N root (sync_reference N W p s r)"
  unfolding sync_reference_def
  by (intro pulls_intro pulls_check) (auto intro!: pulls_intro pulls_ingest [OF assms])

lemma pulls_one: "environment_ok N \<Longrightarrow> pulls N root (sync_one_inner N W p)"
  unfolding sync_one_inner_def sync_shot_def by (intro pulls_intro pulls_reference)

lemma sync_one_pulls:
  assumes "environment_ok N" "node_reachable N root (fst s)"
  shows "\<exists>result st n. sync_one N W p s = Some (result, st, n)
    \<and> pulled N root (fst s, 0) (st, pr_fetched result)"
proof -
  define c where "c = \<lparr>sc_store = fst s, sc_requests = snd s, sc_result = \<lparr>pr_peer = peer_as_str W p,
    pr_fetched = 0, pr_already_present = 0, pr_rejected = 0, pr_error = None\<rparr>\<rparr>"
  have "node_reachable N root (sc_store c)" using assms(2) by (simp add: c_def)
  then obtain r c' where "sync_one_inner N W p c = Some (r, c')"
    "pulled N root (fetched_state c) (fetched_state c')"
    using pulls_one [OF assms(1)] unfolding pulls_def by blast
  then show ?thesis
    by (simp add: sync_one_def c_def [symmetric] fetched_state_def Let_def split: sum.split)
      (simp add: c_def)
qed

lemma sync_peers_pulls:
  assumes "environment_ok N" "node_reachable N root (fst s)"
  shows "\<exists>results st n. sync_peers N W ps s = Some (results, st, n) \<and> length results = length ps
    \<and> pulled N root (fst s, 0) (st, sum_list (map pr_fetched results))"
  using assms(2)
proof (induction ps arbitrary: s)
  case Nil
  then show ?case by (cases s) (simp add: pulled_refl)
next
  case (Cons p ps)
  obtain result st n where one: "sync_one N W p s = Some (result, st, n)"
    "pulled N root (fst s, 0) (st, pr_fetched result)"
    using sync_one_pulls [OF assms(1) Cons.prems] by blast
  then have "node_reachable N root (fst (st, n))" by (simp add: pulled_def)
  from Cons.IH [OF this] obtain results st' n' where
    rest: "sync_peers N W ps (st, n) = Some (results, st', n')" "length results = length ps"
    "pulled N root (st, 0) (st', sum_list (map pr_fetched results))" by auto
  have "pulled N root (fst s, 0) (st', pr_fetched result + sum_list (map pr_fetched results))"
    using one(2) rest(3) by (auto simp: pulled_def intro: map_le_trans)
  with one rest show ?case by simp
qed


end
