(* ===== verification/Lineage_Reduction.thy ===== *)
theory Lineage_Reduction
  imports Lineage_Segments
begin

text \<open>
  Reduction of a lineage (\<open>protocol/src/lineage.rs\<close>): what \<open>reduce_lineage\<close> computes
  as a run of \<open>apply_one\<close>, the induction principle over reduced lineages, splitting
  at any point, and who may act.
\<close>

section \<open>One step\<close>

lemma apply_one_ok:
  "apply_one E st x = Inr st' \<longleftrightarrow>
     (\<exists>c t. action_commitment E (action x) = Inr c
        \<and> actor (action x) = st_controller st
        \<and> ss_public_key (signature x) = st_controller_key st
        \<and> apply_payload E (action_error (sequence (action x))) c (action x) (payload (action x)) st
            = Inr t
        \<and> st' = t\<lparr>st_sequence := sequence (action x), st_head := c,
                  st_last_timestamp := timestamp (action x)\<rparr>)"
  by (auto simp: apply_one_def Let_def)

lemma action_commitmentD:
  "action_commitment E a = Inr c \<Longrightarrow> action_validate E a = Inr ()"
  "action_commitment E a = Inr c \<Longrightarrow> sha256_commitment E (action_json a) = Inr c"
  by (auto simp: action_commitment_def)

lemma action_validate_payload:
  "action_validate E a = Inr u \<Longrightarrow> payload_validate E (payload a) (action_shot_id a) = Inr ()"
  by (auto simp: action_validate_def)

text \<open>The fields no handler writes.\<close>

lemmas handler_defs = apply_intention_def apply_genome_proposal_def apply_genome_acceptance_def
  apply_expression_def apply_organ_def apply_verification_result_def apply_version_def
  apply_feedback_def apply_evolutionary_intent_def apply_evolution_def apply_ownership_def
  apply_token_association_def apply_artifact_availability_def apply_parent_relation_def

lemma apply_payload_frame:
  assumes "apply_payload E fail c a p st = Inr t"
  shows "st_shot_id t = st_shot_id st" and "st_commitment t = st_commitment st"
  using assms by (cases p; auto simp: handler_defs Let_def)+

lemma apply_one_cursor:
  assumes "apply_one E st x = Inr t"
  shows "st_shot_id t = st_shot_id st" and "st_commitment t = st_commitment st"
    and "st_sequence t = sequence (action x)"
    and "action_commitment E (action x) = Inr (st_head t)"
    and "st_last_timestamp t = timestamp (action x)"
  using assms by (auto simp: apply_one_ok apply_payload_frame)

section \<open>Runs\<close>

lemma apply_lineage_actions_ok:
  "apply_lineage_actions E st xs = (Inr u, t) \<longleftrightarrow>
     (xs = [] \<and> t = st
      \<or> segment_spec E xs (Some (state_anchor st)) \<and> run_log (apply_one E) st xs = Inr t)"
proof (cases "xs = []")
  case False
  have "(\<exists>seg. verify_lineage_segment E xs (Some (state_anchor st)) = Inr seg) \<longleftrightarrow>
      segment_spec E xs (Some (state_anchor st))"
    using segment_spec_last [of E xs "Some (state_anchor st)"] by (auto simp: verify_segment_iff)
  with False show ?thesis
    by (auto simp: apply_lineage_actions_def split: sum.splits)
qed (auto simp: apply_lineage_actions_def segment_spec_def)

lemma case_outcome_ok:
  "(case r of (Inl e, _) \<Rightarrow> Inl e | (Inr _, t) \<Rightarrow> Inr t) = Inr t \<longleftrightarrow> r = (Inr (), t)"
  by (auto split: prod.splits sum.splits)

text \<open>A state sits at an action when its cursor fields describe that action.\<close>

definition at_action :: "externals \<Rightarrow> shot_state \<Rightarrow> signed_lineage_action \<Rightarrow> bool" where
  "at_action E st x \<longleftrightarrow> action_commitment E (action x) = Inr (st_head st)
     \<and> state_anchor st = anchor_of (action x) (st_head st)"

lemma reduce_first_ok:
  "reduce_first E x = Inr st \<longleftrightarrow>
     (\<exists>com head. sequence (action x) = 1 \<and> previous (action x) = None
        \<and> payload (action x) = CommitmentPayload com
        \<and> actor (action x) = sc_initial_controller com
        \<and> ss_public_key (signature x) = sc_initial_controller_key com
        \<and> timestamp (action x) = sc_committed_at com
        \<and> action_commitment E (action x) = Inr head \<and> st = initial_state (action x) com head)"
  by (auto simp: reduce_first_def commitment_of_def Let_def split: lineage_payload.splits)

lemma reduce_first_at: "reduce_first E x = Inr st \<Longrightarrow> at_action E st x"
  by (auto simp: reduce_first_ok at_action_def state_anchor_def anchor_of_def initial_state_def)

lemma apply_one_at:
  "apply_one E st x = Inr t \<Longrightarrow> st_shot_id st = action_shot_id (action x) \<Longrightarrow> at_action E t x"
  by (auto simp: at_action_def state_anchor_def anchor_of_def dest: apply_one_cursor)

lemma segment_spec_ConsD:
  assumes "segment_spec E (x # y # ys) anchor" "at_action E st x"
  shows "segment_spec E (y # ys) (Some (state_anchor st))"
    and "action_shot_id (action y) = st_shot_id st"
proof -
  show "segment_spec E (y # ys) (Some (state_anchor st))"
    using assms segment_spec_append [of "[x]" "y # ys" E "st_head st" anchor]
    by (simp add: at_action_def)
  then show "action_shot_id (action y) = st_shot_id st"
    by (simp add: segment_spec_def anchored_at_def extends_anchor_def state_anchor_def)
qed

text \<open>
  A lineage reduces exactly when it is a segment from a commitment and its actions
  apply one after the other; the second verification inside
  \<open>apply_lineage_actions\<close> never rejects what the first one passed.
\<close>

definition reduces :: "externals \<Rightarrow> signed_lineage_action list \<Rightarrow> shot_state \<Rightarrow> bool" where
  "reduces E xs st \<longleftrightarrow> (\<exists>x ys st0. xs = x # ys \<and> segment_spec E xs None
     \<and> reduce_first E x = Inr st0 \<and> run_log (apply_one E) st0 ys = Inr st)"

lemma reduce_lineage_iff: "reduce_lineage E xs = Inr st \<longleftrightarrow> reduces E xs st"
proof (cases xs)
  case (Cons x ys)
  have seg: "(\<exists>seg. verify_lineage_segment E xs None = Inr seg) \<longleftrightarrow> segment_spec E xs None"
    using segment_spec_last [of E xs None] by (auto simp: verify_segment_iff)
  have inner: "apply_lineage_actions E st0 ys = (Inr (), st) \<longleftrightarrow>
      run_log (apply_one E) st0 ys = Inr st"
    if "segment_spec E xs None" "reduce_first E x = Inr st0" for st0
    using that Cons segment_spec_ConsD(1) [OF _ reduce_first_at]
    by (cases ys) (auto simp: apply_lineage_actions_ok)
  have "reduce_lineage E xs = Inr st \<longleftrightarrow>
      (\<exists>seg. verify_lineage_segment E xs None = Inr seg)
      \<and> (\<exists>st0. reduce_first E x = Inr st0 \<and> apply_lineage_actions E st0 ys = (Inr (), st))"
    using Cons by (auto simp: reduce_lineage_def case_outcome_ok)
  with seg inner Cons show ?thesis by (auto simp: reduces_def)
qed (simp add: reduce_lineage_def verify_lineage_segment_def reduces_def)

lemma run_at_action:
  assumes "segment_spec E (x # ys) anchor" "at_action E st x"
    and "run_log (apply_one E) st ys = Inr t"
  shows "at_action E t (last (x # ys))" and "st_shot_id t = action_shot_id (action x)"
proof -
  have *: "at_action E t (last (x # ys)) \<and> st_shot_id t = action_shot_id (action x)"
    using assms
  proof (induction ys arbitrary: x st anchor)
    case Nil
    then show ?case by (simp add: at_action_def state_anchor_def anchor_of_def)
  next
    case (Cons y ys)
    then obtain st1 where step: "apply_one E st y = Inr st1"
      and run: "run_log (apply_one E) st1 ys = Inr t" by auto
    have y: "segment_spec E (y # ys) (Some (state_anchor st))"
      "action_shot_id (action y) = st_shot_id st"
      using segment_spec_ConsD [OF Cons.prems(1,2)] by auto
    have "at_action E st1 y" using apply_one_at [OF step] y by simp
    moreover have "st_shot_id st = action_shot_id (action x)"
      using Cons.prems(2) by (simp add: at_action_def state_anchor_def anchor_of_def)
    ultimately show ?case using Cons.IH [OF y(1) _ run] y(2) by simp
  qed
  then show "at_action E t (last (x # ys))" "st_shot_id t = action_shot_id (action x)" by auto
qed

lemma reduces_at: "reduces E xs st \<Longrightarrow> at_action E st (last xs)"
  unfolding reduces_def using run_at_action(1) reduce_first_at by blast

lemma reduces_not_Nil: "reduces E xs st \<Longrightarrow> xs \<noteq> []"
  by (auto simp: reduces_def)

lemma reduces_segment: "reduces E xs st \<Longrightarrow> segment_spec E xs None"
  by (auto simp: reduces_def)

lemma reduces_append:
  assumes "xs \<noteq> []"
  shows "reduces E (xs @ ys) t \<longleftrightarrow>
    (\<exists>st. reduces E xs st \<and> apply_lineage_actions E st ys = (Inr (), t))"
proof (cases "ys = []")
  case True
  then show ?thesis by (auto simp: apply_lineage_actions_ok segment_spec_def)
next
  case False
  obtain x xs' where xs: "xs = x # xs'" using assms by (cases xs) auto
  have split: "segment_spec E (xs @ ys) None \<longleftrightarrow>
      segment_spec E xs None \<and> segment_spec E ys (Some (state_anchor st))"
    if "at_action E st (last xs)" for st
    using that segment_spec_append [OF assms False, of E "st_head st" None]
    by (simp add: at_action_def)
  show ?thesis
  proof
    assume "reduces E (xs @ ys) t"
    then obtain st0 st where "segment_spec E (xs @ ys) None" "reduce_first E x = Inr st0"
      "run_log (apply_one E) st0 xs' = Inr st" "run_log (apply_one E) st ys = Inr t"
      by (auto simp: reduces_def xs run_log_append)
    moreover from this have "segment_spec E xs None"
      using segment_spec_last [of E "xs @ ys" None] assms
      by (auto simp: segment_spec_def successively_append_iff)
    ultimately have "reduces E xs st" by (auto simp: reduces_def xs)
    with split [OF reduces_at [OF this]] \<open>segment_spec E (xs @ ys) None\<close>
      \<open>run_log (apply_one E) st ys = Inr t\<close>
    show "\<exists>st. reduces E xs st \<and> apply_lineage_actions E st ys = (Inr (), t)"
      by (auto simp: apply_lineage_actions_ok)
  next
    assume "\<exists>st. reduces E xs st \<and> apply_lineage_actions E st ys = (Inr (), t)"
    then obtain st where st: "reduces E xs st" "segment_spec E ys (Some (state_anchor st))"
      "run_log (apply_one E) st ys = Inr t"
      using False by (auto simp: apply_lineage_actions_ok)
    then have "segment_spec E (xs @ ys) None"
      using split [OF reduces_at] reduces_segment by blast
    with st show "reduces E (xs @ ys) t" by (auto simp: reduces_def xs run_log_append)
  qed
qed

text \<open>Induction over reduced lineages, one action at a time.\<close>

lemma reduces_induct [consumes 1, case_names first step]:
  assumes "reduces E xs st"
    and "\<And>x st. reduces E [x] st \<Longrightarrow> reduce_first E x = Inr st \<Longrightarrow> P [x] st"
    and "\<And>xs st x t. reduces E xs st \<Longrightarrow> P xs st \<Longrightarrow> apply_one E st x = Inr t
      \<Longrightarrow> segment_spec E [x] (Some (state_anchor st)) \<Longrightarrow> reduces E (xs @ [x]) t \<Longrightarrow> P (xs @ [x]) t"
  shows "P xs st"
  using assms(1)
proof (induction xs arbitrary: st rule: rev_induct)
  case Nil
  then show ?case by (simp add: reduces_def)
next
  case (snoc x xs)
  show ?case
  proof (cases "xs = []")
    case True
    with snoc.prems show ?thesis by (auto simp: reduces_def intro!: assms(2))
  next
    case False
    with snoc.prems reduces_append [OF this, of E "[x]" st]
    obtain st0 where "reduces E xs st0" "apply_lineage_actions E st0 [x] = (Inr (), st)" by auto
    with snoc assms(3) [of xs st0 x st] show ?thesis
      by (auto simp: apply_lineage_actions_ok)
  qed
qed

section \<open>Splitting and atomicity\<close>

text \<open>
  C1: reducing a lineage in one call and reducing a prefix, then continuing from the
  derived state with the rest, are the same computation: a node that holds a state
  and receives only the new segment reaches exactly the state a full replay gives,
  and accepts exactly the continuations a full replay accepts.
\<close>

theorem reduction_splits:
  assumes "xs \<noteq> []"
  shows "reduce_lineage E (xs @ ys) = Inr t \<longleftrightarrow>
    (\<exists>st. reduce_lineage E xs = Inr st \<and> apply_lineage_actions E st ys = (Inr (), t))"
  using reduces_append [OF assms] by (simp add: reduce_lineage_iff)

lemma apply_lineage_actions_append:
  assumes "xs \<noteq> []" "ys \<noteq> []" "st_shot_id st = action_shot_id (action (hd xs))"
  shows "apply_lineage_actions E st (xs @ ys) = (Inr u, t) \<longleftrightarrow>
    (\<exists>m. apply_lineage_actions E st xs = (Inr (), m)
       \<and> apply_lineage_actions E m ys = (Inr (), t))"
proof -
  obtain x xs' where xs: "xs = x # xs'" using assms(1) by (cases xs) auto
  have split: "segment_spec E (xs @ ys) (Some (state_anchor st)) \<longleftrightarrow>
      segment_spec E xs (Some (state_anchor st)) \<and> segment_spec E ys (Some (state_anchor m))"
    if "segment_spec E xs (Some (state_anchor st))" "run_log (apply_one E) st xs = Inr m" for m
  proof -
    from that(2) obtain st1 where "apply_one E st x = Inr st1" "run_log (apply_one E) st1 xs' = Inr m"
      by (auto simp: xs)
    with that assms(3) have "at_action E m (last xs)"
      using run_at_action(1) [of E x xs' "Some (state_anchor st)" st1 m] apply_one_at
      by (simp add: xs)
    then show ?thesis
      using segment_spec_append [OF assms(1,2), of E "st_head m" "Some (state_anchor st)"]
      by (simp add: at_action_def)
  qed
  have pre: "segment_spec E xs anchor" if "segment_spec E (xs @ ys) anchor" for anchor
    using that assms(1) by (auto simp: segment_spec_def successively_append_iff)
  show ?thesis
    using assms(1,2) split pre by (auto simp: apply_lineage_actions_ok run_log_append)
qed

section \<open>The position of a state\<close>

lemma segment_spec_nth:
  assumes "segment_spec E xs anchor" "i < length xs"
  shows "unat (sequence (action (xs ! i))) = unat (sequence (action (hd xs))) + i
    \<and> action_shot_id (action (xs ! i)) = action_shot_id (action (hd xs))"
  using assms(2)
proof (induction i)
  case 0
  with assms show ?case by (simp add: segment_spec_def hd_conv_nth)
next
  case (Suc i)
  have "follows E (xs ! i) (xs ! Suc i)"
    using assms(1) Suc.prems by (auto simp: segment_spec_def successively_conv_nth)
  with Suc show ?case by (auto simp: follows_def extends_anchor_def anchor_of_def)
qed

text \<open>
  The state of a reduced lineage names its position exactly: the sequence is the
  number of actions, the head is the commitment the last action was signed over, the
  timestamp is that of the last action, and the Shot identifier is the one every
  action carries.
\<close>

lemma reduced_state_position:
  assumes "reduce_lineage E xs = Inr st"
  shows "unat (st_sequence st) = length xs
    \<and> st_head st = ss_digest (signature (last xs))
    \<and> st_last_timestamp st = timestamp (action (last xs))
    \<and> (\<forall>x \<in> set xs. action_shot_id (action x) = st_shot_id st)"
proof -
  from assms have r: "reduces E xs st" by (simp add: reduce_lineage_iff)
  have seg: "segment_spec E xs None" and ne: "xs \<noteq> []" and at: "at_action E st (last xs)"
    using r reduces_segment reduces_not_Nil reduces_at by auto
  have first: "sequence (action (hd xs)) = 1"
    using r by (auto simp: reduces_def reduce_first_ok)
  have last: "xs ! (length xs - 1) = last xs" using ne by (simp add: last_conv_nth)
  have "unat (st_sequence st) = length xs"
    using at segment_spec_nth [OF seg, of "length xs - 1"] ne first last
    by (simp add: at_action_def state_anchor_def anchor_of_def)
  moreover have "signed_verify E (last xs) = Inr ()"
    using seg ne by (auto simp: segment_spec_def list_all_iff well_signed_def)
  then have "st_head st = ss_digest (signature (last xs))"
    using at signed_verify_commitment by (auto simp: at_action_def)
  moreover have shot: "\<forall>x \<in> set xs. action_shot_id (action x) = action_shot_id (action (hd xs))"
    using segment_spec_nth [OF seg] by (auto simp: in_set_conv_nth)
  moreover have "st_shot_id st = action_shot_id (action (last xs))"
    "st_last_timestamp st = timestamp (action (last xs))"
    using at by (simp_all add: at_action_def state_anchor_def anchor_of_def)
  moreover have "action_shot_id (action (last xs)) = action_shot_id (action (hd xs))"
    using shot last_in_set [OF ne] by blast
  ultimately show ?thesis by simp
qed

section \<open>Authority\<close>

text \<open>
  The abstract machine of authority: one controller with one key; whoever holds both
  may act, and only an ownership action hands them on.
\<close>

type_synonym authority = "builder_id \<times> p256_public_key"

definition authority_step :: "authority \<Rightarrow> signed_lineage_action \<Rightarrow> unit + authority" where
  "authority_step auth x =
     (if actor (action x) = fst auth \<and> ss_public_key (signature x) = snd auth
      then Inr (case payload (action x) of
          OwnershipPayload r \<Rightarrow> (ow_new_controller r, ow_new_controller_key r)
        | _ \<Rightarrow> auth)
      else Inl ())"

definition authority_of :: "shot_state \<Rightarrow> authority" where
  "authority_of st = (st_controller st, st_controller_key st)"

lemma apply_payload_authority:
  assumes "apply_payload E fail c a p st = Inr t"
  shows "authority_of t = (case p of
      OwnershipPayload r \<Rightarrow> (ow_new_controller r, ow_new_controller_key r)
    | _ \<Rightarrow> authority_of st)"
  using assms by (cases p) (auto simp: handler_defs authority_of_def Let_def)

interpretation authority: log_refinement "apply_one E" authority_step authority_of for E
proof unfold_locales
  fix st x t
  assume "apply_one E st x = Inr t"
  then show "authority_step (authority_of st) x = Inr (authority_of t)"
    by (auto simp: apply_one_ok authority_step_def authority_of_def
        dest!: apply_payload_authority split: lineage_payload.splits)
qed

text \<open>
  C2: authority refines the abstract machine. In a lineage that reduces, every action
  carries a verified signature, is issued by the controller and key in force at that
  point, starting from the pair the commitment names, and the controller and key of
  the resulting state are the ones the ownership actions of the log hand on.
\<close>

theorem lineage_authority:
  assumes "reduce_lineage E xs = Inr st"
  shows "\<exists>com. payload (action (hd xs)) = CommitmentPayload com
    \<and> run_log authority_step (sc_initial_controller com, sc_initial_controller_key com) xs
        = Inr (st_controller st, st_controller_key st)
    \<and> (\<forall>x \<in> set xs. signed_verify E x = Inr ())"
proof -
  from assms obtain x ys st0 com where xs: "xs = x # ys" and seg: "segment_spec E xs None"
    and run: "run_log (apply_one E) st0 ys = Inr st"
    and first: "payload (action x) = CommitmentPayload com" "actor (action x) = sc_initial_controller com"
      "ss_public_key (signature x) = sc_initial_controller_key com"
      "authority_of st0 = (sc_initial_controller com, sc_initial_controller_key com)"
    by (auto simp: reduce_lineage_iff reduces_def reduce_first_ok authority_of_def initial_state_def)
  have "authority_step (authority_of st0) x = Inr (authority_of st0)"
    using first by (simp add: authority_step_def)
  with authority.run_refines [OF run] have
    "run_log authority_step (authority_of st0) xs = Inr (authority_of st)"
    by (simp add: xs)
  with first seg show ?thesis
    by (auto simp: xs authority_of_def segment_spec_def list_all_iff well_signed_def)
qed

end
