(* ===== verification/Lineage_State.thy ===== *)
theory Lineage_State
  imports Lineage_Reduction
begin

text \<open>
  The state a lineage reduces to (\<open>ShotState\<close> of \<open>protocol/src/lineage.rs\<close>): it is a
  replay of the log, it only grows, and it keeps its structural invariant.
\<close>

section \<open>The effect of each handler\<close>

text \<open>What an accepted handler writes; everything else is left as it was.\<close>

fun payload_effect ::
  "bytes32 \<Rightarrow> lineage_payload \<Rightarrow> shot_state \<Rightarrow> shot_state \<Rightarrow> bool" where
  "payload_effect c (CommitmentPayload r) st t \<longleftrightarrow> False"
| "payload_effect c (IntentionPayload r) st t \<longleftrightarrow>
     st_intention st = None \<and> t = st\<lparr>st_intention := Some r\<rparr>"
| "payload_effect c (GenomeProposalPayload r) st t \<longleftrightarrow>
     t = st\<lparr>st_genome_proposals := bt_insert c r (st_genome_proposals st)\<rparr>"
| "payload_effect c (GenomeAcceptancePayload r) st t \<longleftrightarrow>
     (\<exists>p. bt_get (st_genome_proposals st) (ga_proposal_action r) = Some p
        \<and> ga_revision r = g_revision (gp_proposed p)
        \<and> g_revision (gp_proposed p) = (case st_accepted_genome st of None \<Rightarrow> 1
             | Some current \<Rightarrow> saturating_add (g_revision (ag_genome current)) 1)
        \<and> t = st\<lparr>st_accepted_genome := Some \<lparr>ag_genome = gp_proposed p,
                     ag_proposal_action = ga_proposal_action r, ag_acceptance_action = c\<rparr>,
                  st_genome_acceptances := bt_insert c r (st_genome_acceptances st)\<rparr>)"
| "payload_effect c (ExpressionPayload r) st t \<longleftrightarrow>
     bt_get (st_expressions st) (ex_expression_id r) = None
     \<and> t = st\<lparr>st_expressions := bt_insert (ex_expression_id r)
           \<lparr>es_expression = r, es_organs = [], es_versions = [], es_current_version = None\<rparr>
           (st_expressions st)\<rparr>"
| "payload_effect c (OrganPayload r) st t \<longleftrightarrow>
     (\<exists>es. bt_get (st_expressions st) (or_expression_id r) = Some es
        \<and> bt_get (es_organs es) (or_organ_id r) = None
        \<and> (\<forall>d \<in> set (or_dependencies r). d \<noteq> or_organ_id r \<and> bt_get (es_organs es) d \<noteq> None)
        \<and> t = st\<lparr>st_expressions := bt_insert (or_expression_id r)
             (es\<lparr>es_organs := bt_insert (or_organ_id r) r (es_organs es)\<rparr>) (st_expressions st)\<rparr>)"
| "payload_effect c (VerificationResultPayload r) st t \<longleftrightarrow>
     t = st\<lparr>st_verification_results := bt_insert c r (st_verification_results st)\<rparr>"
| "payload_effect c (VersionPayload r) st t \<longleftrightarrow>
     (\<exists>es v. bt_get (st_expressions st) (vr_expression_id r) = Some es
        \<and> bt_get (st_verification_results st) (vr_verification_action r) = Some v
        \<and> vf_passed v \<and> version_matches_verification r v
        \<and> \<not> version_id_known st (vr_version_id r)
        \<and> unat (vr_ordinal r) = length (es_versions es) + 1
        \<and> t = st\<lparr>st_expressions := bt_insert (vr_expression_id r)
             (es\<lparr>es_versions := es_versions es @ [r],
                 es_current_version := Some (vr_version_id r)\<rparr>) (st_expressions st)\<rparr>)"
| "payload_effect c (FeedbackPayload r) st t \<longleftrightarrow>
     t = st\<lparr>st_feedback := bt_insert c r (st_feedback st)\<rparr>"
| "payload_effect c (EvolutionaryIntentPayload r) st t \<longleftrightarrow>
     t = st\<lparr>st_evolutionary_intents := bt_insert c r (st_evolutionary_intents st)\<rparr>"
| "payload_effect c (EvolutionPayload r) st t \<longleftrightarrow>
     t = st\<lparr>st_evolutions := st_evolutions st @ [(c, r)]\<rparr>"
| "payload_effect c (OwnershipPayload r) st t \<longleftrightarrow>
     ow_previous_controller r = st_controller st
     \<and> t = st\<lparr>st_ownership_history := st_ownership_history st @ [(c, r)],
              st_controller := ow_new_controller r, st_controller_key := ow_new_controller_key r\<rparr>"
| "payload_effect c (TokenAssociationPayload r) st t \<longleftrightarrow>
     t = st\<lparr>st_token_association := (if ta_operation r = Remove then None else Some r),
           st_token_history := st_token_history st @ [(c, r)]\<rparr>"
| "payload_effect c (ArtifactAvailabilityPayload r) st t \<longleftrightarrow>
     t = st\<lparr>st_availability :=
           bt_insert (ad_digest (av_artifact (aa_availability r))) r (st_availability st)\<rparr>"
| "payload_effect c (ParentRelationPayload r) st t \<longleftrightarrow>
     pl_child_shot_id r = st_shot_id st
     \<and> pl_parent_shot_id r \<notin> set (map (\<lambda>p. pl_parent_shot_id (snd p)) (st_parent_relations st))
     \<and> t = st\<lparr>st_parent_relations := st_parent_relations st @ [(c, r)]\<rparr>"

lemma next_ordinal_ok:
  "next_ordinal fail es = Inr n \<Longrightarrow> unat n = length (es_versions es) + 1"
  by (auto simp: next_ordinal_def u64_try_from_def bind_eq_Some_conv checked_add_eq_Some_iff
      unat_of_nat split: if_splits)

lemma genome_binds_ok:
  "genome_binds E g n d e = Inr u \<longleftrightarrow> g_revision g = n \<and> genome_digest E g = Inr d"
  by (auto simp: genome_binds_def)

lemma apply_version_effect:
  "apply_version E fail r st = Inr t \<Longrightarrow> payload_effect c (VersionPayload r) st t"
  by (fastforce simp: apply_version_def dest: next_ordinal_ok)

lemma apply_organ_effect:
  "apply_organ fail r st = Inr t \<Longrightarrow> payload_effect c (OrganPayload r) st t"
  by (auto simp: apply_organ_def bt_contains_key_def)

lemma apply_genome_acceptance_effect:
  "apply_genome_acceptance E fail c a r st = Inr t \<Longrightarrow>
     payload_effect c (GenomeAcceptancePayload r) st t"
  by (auto simp: apply_genome_acceptance_def genome_binds_ok Let_def)

lemma apply_token_association_effect:
  "apply_token_association fail c r st = Inr t \<Longrightarrow>
     payload_effect c (TokenAssociationPayload r) st t"
  by (auto simp: apply_token_association_def
      split: token_association_operation.splits option.splits if_splits)

lemma apply_evolution_effect:
  "apply_evolution fail c a r st = Inr t \<Longrightarrow> payload_effect c (EvolutionPayload r) st t"
  by (auto simp: apply_evolution_def Let_def)

lemma apply_verification_effect:
  "apply_verification_result E fail c r st = Inr t \<Longrightarrow>
     payload_effect c (VerificationResultPayload r) st t"
  by (auto simp: apply_verification_result_def Let_def)

lemma apply_payload_effect:
  assumes "apply_payload E fail c a p st = Inr t"
  shows "payload_effect c p st t"
proof (cases p)
  case (IntentionPayload r)
  with assms show ?thesis by (auto simp: apply_intention_def)
next
  case (GenomeProposalPayload r)
  with assms show ?thesis by (auto simp: apply_genome_proposal_def Let_def)
next
  case (ExpressionPayload r)
  with assms show ?thesis by (auto simp: apply_expression_def bt_contains_key_def)
next
  case (FeedbackPayload r)
  with assms show ?thesis by (auto simp: apply_feedback_def)
next
  case (EvolutionaryIntentPayload r)
  with assms show ?thesis by (auto simp: apply_evolutionary_intent_def)
next
  case (OwnershipPayload r)
  with assms show ?thesis by (auto simp: apply_ownership_def)
next
  case (ArtifactAvailabilityPayload r)
  with assms show ?thesis by (auto simp: apply_artifact_availability_def)
next
  case (ParentRelationPayload r)
  with assms show ?thesis by (auto simp: apply_parent_relation_def list_ex_iff)
qed (use assms in \<open>auto simp del: payload_effect.simps intro: apply_version_effect
    apply_organ_effect apply_genome_acceptance_effect apply_token_association_effect
    apply_evolution_effect apply_verification_effect\<close>)

lemma apply_one_effect:
  assumes "apply_one E st x = Inr t"
  obtains c t0 where "action_commitment E (action x) = Inr c"
    and "payload_effect c (payload (action x)) st t0"
    and "t = t0\<lparr>st_sequence := sequence (action x), st_head := c,
               st_last_timestamp := timestamp (action x)\<rparr>"
  using assms apply_payload_effect by (fastforce simp: apply_one_ok)

section \<open>The records of a log\<close>

fun proposal_of :: "lineage_payload \<Rightarrow> genome_proposal option" where
  "proposal_of (GenomeProposalPayload r) = Some r" | "proposal_of _ = None"
fun acceptance_of :: "lineage_payload \<Rightarrow> genome_acceptance option" where
  "acceptance_of (GenomeAcceptancePayload r) = Some r" | "acceptance_of _ = None"
fun verification_of :: "lineage_payload \<Rightarrow> verification_result option" where
  "verification_of (VerificationResultPayload r) = Some r" | "verification_of _ = None"
fun feedback_of :: "lineage_payload \<Rightarrow> feedback option" where
  "feedback_of (FeedbackPayload r) = Some r" | "feedback_of _ = None"
fun intent_of :: "lineage_payload \<Rightarrow> evolutionary_intent option" where
  "intent_of (EvolutionaryIntentPayload r) = Some r" | "intent_of _ = None"
fun evolution_of :: "lineage_payload \<Rightarrow> evolution option" where
  "evolution_of (EvolutionPayload r) = Some r" | "evolution_of _ = None"
fun ownership_of :: "lineage_payload \<Rightarrow> ownership option" where
  "ownership_of (OwnershipPayload r) = Some r" | "ownership_of _ = None"
fun token_of :: "lineage_payload \<Rightarrow> token_association option" where
  "token_of (TokenAssociationPayload r) = Some r" | "token_of _ = None"
fun availability_of :: "lineage_payload \<Rightarrow> artifact_availability_record option" where
  "availability_of (ArtifactAvailabilityPayload r) = Some r" | "availability_of _ = None"
fun parent_of :: "lineage_payload \<Rightarrow> parent_relation option" where
  "parent_of (ParentRelationPayload r) = Some r" | "parent_of _ = None"

text \<open>The records of one kind in a log, each under the commitment its action was
  signed over, and the map a \<open>BTreeMap\<close> holds after inserting them in order.\<close>

definition records_of ::
  "(lineage_payload \<Rightarrow> 'a option) \<Rightarrow> signed_lineage_action list \<Rightarrow> (bytes32 \<times> 'a) list" where
  "records_of f xs =
     concat (map (\<lambda>x. case f (payload (action x)) of
        None \<Rightarrow> [] | Some r \<Rightarrow> [(ss_digest (signature x), r)]) xs)"

definition index_records :: "('k::linorder \<times> 'v) list \<Rightarrow> ('k, 'v) btree" where
  "index_records rs = foldl (\<lambda>m r. bt_insert (fst r) (snd r) m) [] rs"

definition availability_key :: "bytes32 \<times> artifact_availability_record
    \<Rightarrow> bytes32 \<times> artifact_availability_record" where
  "availability_key r = (ad_digest (av_artifact (aa_availability (snd r))), snd r)"

text \<open>The association in force after a sequence of token actions.\<close>

definition token_replay :: "token_association list \<Rightarrow> token_association option" where
  "token_replay rs =
     (if rs = [] \<or> ta_operation (last rs) = Remove then None else Some (last rs))"

lemma records_of_snoc:
  "records_of f (xs @ [x]) = records_of f xs @
     (case f (payload (action x)) of None \<Rightarrow> [] | Some r \<Rightarrow> [(ss_digest (signature x), r)])"
  by (simp add: records_of_def)

lemma records_of_append: "records_of f (xs @ ys) = records_of f xs @ records_of f ys"
  by (simp add: records_of_def)

lemma index_records_snoc: "index_records (rs @ [r]) = bt_insert (fst r) (snd r) (index_records rs)"
  by (simp add: index_records_def)

lemma index_records_invar: "bt_invar (index_records rs)"
  by (induction rs rule: rev_induct)
    (auto simp: index_records_snoc bt_insert_invar, simp add: index_records_def bt_invar_def)

lemma index_records_get: "bt_get (index_records rs) k = Some v \<Longrightarrow> (k, v) \<in> set rs"
  by (induction rs rule: rev_induct)
    (auto simp: index_records_snoc bt_get_insert split: if_splits, simp add: index_records_def bt_get_def)

definition replays :: "signed_lineage_action list \<Rightarrow> shot_state \<Rightarrow> bool" where
  "replays xs st \<longleftrightarrow>
     st_genome_proposals st = index_records (records_of proposal_of xs)
     \<and> st_genome_acceptances st = index_records (records_of acceptance_of xs)
     \<and> st_verification_results st = index_records (records_of verification_of xs)
     \<and> st_feedback st = index_records (records_of feedback_of xs)
     \<and> st_evolutionary_intents st = index_records (records_of intent_of xs)
     \<and> st_availability st =
         index_records (map availability_key (records_of availability_of xs))
     \<and> st_evolutions st = records_of evolution_of xs
     \<and> st_ownership_history st = records_of ownership_of xs
     \<and> st_token_history st = records_of token_of xs
     \<and> st_parent_relations st = records_of parent_of xs
     \<and> st_token_association st = token_replay (map snd (records_of token_of xs))"

lemma replays_payload:
  assumes "payload_effect (ss_digest (signature x)) (payload (action x)) st t" and "replays xs st"
  shows "replays (xs @ [x]) t"
  using assms
  by (cases "payload (action x)")
    (auto simp: replays_def records_of_snoc index_records_snoc availability_key_def token_replay_def)

lemma replays_cursor [simp]:
  "replays xs (st\<lparr>st_sequence := s, st_head := h, st_last_timestamp := t\<rparr>) = replays xs st"
  by (simp add: replays_def)

lemma segment_single_digest:
  assumes "segment_spec E [x] anchor" "action_commitment E (action x) = Inr c"
  shows "c = ss_digest (signature x)"
  using assms signed_verify_commitment [of E x]
  by (auto simp: segment_spec_def well_signed_def)

lemma reduces_replays: "reduces E xs st \<Longrightarrow> replays xs st"
proof (induction rule: reduces_induct)
  case (first x st)
  then show ?case
    by (auto simp: reduce_first_ok initial_state_def replays_def records_of_def index_records_def
        token_replay_def)
next
  case (step xs st x t)
  from step.hyps(2) show ?case
  proof (rule apply_one_effect)
    fix c t0
    assume "action_commitment E (action x) = Inr c" "payload_effect c (payload (action x)) st t0"
      and t: "t = t0\<lparr>st_sequence := sequence (action x), st_head := c,
               st_last_timestamp := timestamp (action x)\<rparr>"
    with segment_single_digest [OF step.hyps(3)] replays_payload [OF _ step.IH]
    show ?thesis by simp
  qed
qed


section \<open>Append-only\<close>

definition expression_extends :: "expression_state \<Rightarrow> expression_state \<Rightarrow> bool" where
  "expression_extends es fs \<longleftrightarrow> es_expression fs = es_expression es
     \<and> bt.submap (es_organs es) (es_organs fs) \<and> prefix (es_versions es) (es_versions fs)"

definition state_extends :: "shot_state \<Rightarrow> shot_state \<Rightarrow> bool" where
  "state_extends st t \<longleftrightarrow>
     st_shot_id t = st_shot_id st \<and> st_commitment t = st_commitment st
     \<and> (\<forall>r. st_intention st = Some r \<longrightarrow> st_intention t = Some r)
     \<and> (\<forall>k es. bt_get (st_expressions st) k = Some es \<longrightarrow>
          (\<exists>fs. bt_get (st_expressions t) k = Some fs \<and> expression_extends es fs))
     \<and> prefix (st_evolutions st) (st_evolutions t)
     \<and> prefix (st_ownership_history st) (st_ownership_history t)
     \<and> prefix (st_token_history st) (st_token_history t)
     \<and> prefix (st_parent_relations st) (st_parent_relations t)"

lemma expression_extends_refl [simp]: "expression_extends es es"
  by (simp add: expression_extends_def bt.submap_refl)

lemma expression_extends_trans:
  "expression_extends es fs \<Longrightarrow> expression_extends fs gs \<Longrightarrow> expression_extends es gs"
  by (auto simp: expression_extends_def intro: bt.submap_trans prefix_order.trans)

lemma state_extends_trans:
  assumes "state_extends s t" "state_extends t u"
  shows "state_extends s u"
proof -
  have "\<exists>gs. bt_get (st_expressions u) k = Some gs \<and> expression_extends es gs"
    if "bt_get (st_expressions s) k = Some es" for k es
    using assms that unfolding state_extends_def by (meson expression_extends_trans)
  with assms show ?thesis
    unfolding state_extends_def by (auto intro: prefix_order.trans)
qed

lemma payload_effect_extends: "payload_effect c p st t \<Longrightarrow> state_extends st t"
  by (cases p)
    (auto simp: state_extends_def bt_get_insert expression_extends_def
      bt.insert_fresh_submap bt.submap_refl)

interpretation lineage: log_preorder "apply_one E" state_extends for E
proof unfold_locales
  show "state_extends s s" for s by (simp add: state_extends_def)
  show "state_extends s u" if "state_extends s t" "state_extends t u" for s t u
    using that by (rule state_extends_trans)
  show "state_extends s t" if "apply_one E s x = Inr t" for s x t
    using that
  proof (rule apply_one_effect)
    fix c t0
    assume "payload_effect c (payload (action x)) s t0"
      "t = t0\<lparr>st_sequence := sequence (action x), st_head := c,
               st_last_timestamp := timestamp (action x)\<rparr>"
    then show ?thesis using payload_effect_extends [of c _ s t0] by (simp add: state_extends_def)
  qed
qed


section \<open>The structural invariant\<close>

definition organ_depends :: "(string, organ) btree \<Rightarrow> (string \<times> string) set" where
  "organ_depends m = {(i, d). \<exists>r. bt_get m i = Some r \<and> d \<in> set (or_dependencies r)}"

definition organs_wf :: "expression_id \<Rightarrow> (string, organ) btree \<Rightarrow> bool" where
  "organs_wf k m \<longleftrightarrow> bt_invar m
     \<and> (\<forall>i r. bt_get m i = Some r \<longrightarrow> or_organ_id r = i \<and> or_expression_id r = k)
     \<and> (\<forall>(i, d) \<in> organ_depends m. bt_get m d \<noteq> None) \<and> acyclic (organ_depends m)"

definition versions_wf :: "expression_id \<Rightarrow> version_record list \<Rightarrow> bool" where
  "versions_wf k vs \<longleftrightarrow>
     (\<forall>i < length vs. vr_expression_id (vs ! i) = k \<and> unat (vr_ordinal (vs ! i)) = i + 1)"

definition expression_wf :: "expression_id \<Rightarrow> expression_state \<Rightarrow> bool" where
  "expression_wf k es \<longleftrightarrow> ex_expression_id (es_expression es) = k
     \<and> organs_wf k (es_organs es) \<and> versions_wf k (es_versions es)
     \<and> es_current_version es =
         (if es_versions es = [] then None else Some (vr_version_id (last (es_versions es))))"

text \<open>Which expression and position a version identifier names is unambiguous.\<close>

definition version_ids_unique :: "(expression_id, expression_state) btree \<Rightarrow> bool" where
  "version_ids_unique m \<longleftrightarrow>
     (\<forall>j k es fs i n. bt_get m j = Some es \<longrightarrow> bt_get m k = Some fs \<longrightarrow>
        i < length (es_versions es) \<longrightarrow> n < length (es_versions fs) \<longrightarrow>
        vr_version_id (es_versions es ! i) = vr_version_id (es_versions fs ! n) \<longrightarrow>
        j = k \<and> i = n)"

definition expressions_wf :: "(expression_id, expression_state) btree \<Rightarrow> bool" where
  "expressions_wf m \<longleftrightarrow> bt_invar m
     \<and> (\<forall>k es. bt_get m k = Some es \<longrightarrow> expression_wf k es) \<and> version_ids_unique m"

fun ownership_chain :: "builder_id \<Rightarrow> ownership list \<Rightarrow> builder_id \<Rightarrow> bool" where
  "ownership_chain b [] b' \<longleftrightarrow> b = b'"
| "ownership_chain b (r # rs) b' \<longleftrightarrow>
     ow_previous_controller r = b \<and> ownership_chain (ow_new_controller r) rs b'"

definition state_wf :: "shot_state \<Rightarrow> bool" where
  "state_wf st \<longleftrightarrow> expressions_wf (st_expressions st)
     \<and> (\<forall>g. st_accepted_genome st = Some g \<longrightarrow>
          bt_get (st_genome_acceptances st) (ag_acceptance_action g) \<noteq> None)
     \<and> distinct (map (\<lambda>p. pl_parent_shot_id (snd p)) (st_parent_relations st))
     \<and> list_all (\<lambda>p. pl_child_shot_id (snd p) = st_shot_id st) (st_parent_relations st)
     \<and> ownership_chain (sc_initial_controller (st_commitment st))
         (map snd (st_ownership_history st)) (st_controller st)"

lemma organ_depends_insert:
  "bt_get m (or_organ_id r) = None \<Longrightarrow> organ_depends (bt_insert (or_organ_id r) r m)
     = organ_depends m \<union> {or_organ_id r} \<times> set (or_dependencies r)"
  by (auto simp: organ_depends_def bt_get_insert split: if_splits)

text \<open>A new node with edges only to older nodes closes no cycle.\<close>

lemma acyclic_add_source:
  assumes "acyclic r" "i \<notin> Range r" "i \<notin> D"
  shows "acyclic (r \<union> {i} \<times> D)"
proof -
  have "(a, b) \<in> r\<^sup>+" if "(a, b) \<in> (r \<union> {i} \<times> D)\<^sup>+" "a \<noteq> i" for a b
    using that
  proof (induction rule: converse_trancl_induct)
    case (step a c)
    then have "(a, c) \<in> r" by auto
    with assms(2) step.IH show ?case by (metis RangeI trancl_into_trancl2)
  qed auto
  moreover have "(i, i) \<notin> (r \<union> {i} \<times> D)\<^sup>+"
    using assms(2,3) by (metis RangeI Range_Un_eq Un_iff tranclD2 Range.cases mem_Sigma_iff)
  ultimately show ?thesis using assms(1) unfolding acyclic_def by metis
qed

lemma organs_wf_insert:
  assumes "organs_wf k m" "or_expression_id r = k" "bt_get m (or_organ_id r) = None"
    and "\<forall>d \<in> set (or_dependencies r). d \<noteq> or_organ_id r \<and> bt_get m d \<noteq> None"
  shows "organs_wf k (bt_insert (or_organ_id r) r m)"
proof -
  have "or_organ_id r \<notin> Range (organ_depends m)"
    using assms(1,3) by (auto simp: organs_wf_def)
  then have "acyclic (organ_depends (bt_insert (or_organ_id r) r m))"
    using assms by (auto simp: organ_depends_insert organs_wf_def intro: acyclic_add_source)
  with assms show ?thesis
    by (auto simp: organs_wf_def organ_depends_insert bt_insert_invar bt_get_insert)
qed

lemma versions_wf_snoc:
  "versions_wf k vs \<Longrightarrow> vr_expression_id r = k \<Longrightarrow> unat (vr_ordinal r) = length vs + 1 \<Longrightarrow>
     versions_wf k (vs @ [r])"
  by (auto simp: versions_wf_def nth_append less_Suc_eq)

lemma version_id_known_iff:
  assumes "bt_invar (st_expressions st)"
  shows "version_id_known st v \<longleftrightarrow> (\<exists>k es i. bt_get (st_expressions st) k = Some es
    \<and> i < length (es_versions es) \<and> vr_version_id (es_versions es ! i) = v)"
proof -
  have "version_id_known st v \<longleftrightarrow> (\<exists>k es. (k, es) \<in> set (st_expressions st)
      \<and> (\<exists>r \<in> set (es_versions es). vr_version_id r = v))"
    by (force simp: version_id_known_def list_ex_iff bt_values_def)
  then show ?thesis
    unfolding bt_get_entries [OF assms, symmetric] by (metis in_set_conv_nth)
qed

lemma expressions_wf_insert:
  assumes "expressions_wf m" "bt_get m k = Some es" "expression_wf k fs"
    and "es_versions fs = es_versions es"
  shows "expressions_wf (bt_insert k fs m)"
  using assms unfolding expressions_wf_def version_ids_unique_def
  by (auto simp: bt_insert_invar bt_get_insert split: if_splits)

lemma expressions_wf_fresh:
  assumes "expressions_wf m" "bt_get m k = None" "expression_wf k fs" "es_versions fs = []"
  shows "expressions_wf (bt_insert k fs m)"
  using assms unfolding expressions_wf_def version_ids_unique_def
  by (auto simp: bt_insert_invar bt_get_insert split: if_splits)

lemma version_ids_unique_snoc:
  assumes "version_ids_unique m" "bt_get m k = Some es" "es_versions fs = es_versions es @ [r]"
    and fresh: "\<And>j gs i. bt_get m j = Some gs \<Longrightarrow> i < length (es_versions gs) \<Longrightarrow>
      vr_version_id (es_versions gs ! i) \<noteq> vr_version_id r"
  shows "version_ids_unique (bt_insert k fs m)"
proof -
  define at where "at n j i v \<longleftrightarrow> (\<exists>gs. bt_get n j = Some gs \<and> i < length (es_versions gs)
    \<and> vr_version_id (es_versions gs ! i) = v)"
    for n :: "(expression_id, expression_state) btree" and j i v
  have unique: "version_ids_unique n \<longleftrightarrow> (\<forall>j k i l v. at n j i v \<longrightarrow> at n k l v \<longrightarrow> j = k \<and> i = l)" for n
    unfolding version_ids_unique_def at_def by blast
  have "at (bt_insert k fs m) j i v \<longleftrightarrow>
      at m j i v \<or> j = k \<and> i = length (es_versions es) \<and> v = vr_version_id r" for j i v
    using assms(2,3) by (auto simp: at_def bt_get_insert nth_append less_Suc_eq split: if_splits)
  moreover have "\<not> at m j i (vr_version_id r)" for j i using fresh by (auto simp: at_def)
  ultimately show ?thesis using assms(1) unfolding unique by metis
qed

lemma ownership_chain_snoc:
  "ownership_chain b (rs @ [r]) b' \<longleftrightarrow>
     ownership_chain b rs (ow_previous_controller r) \<and> b' = ow_new_controller r"
  by (induction rs arbitrary: b) auto

lemma expression_wf_version:
  assumes "expression_wf k es" "vr_expression_id r = k" "unat (vr_ordinal r) = length (es_versions es) + 1"
  shows "expression_wf k (es\<lparr>es_versions := es_versions es @ [r],
    es_current_version := Some (vr_version_id r)\<rparr>)"
  using assms by (auto simp: expression_wf_def intro: versions_wf_snoc)

lemma payload_effect_expressions_wf:
  assumes "payload_effect c p st t" "expressions_wf (st_expressions st)"
  shows "expressions_wf (st_expressions t)"
proof (cases p)
  case (ExpressionPayload r)
  have "expression_wf (ex_expression_id r)
      \<lparr>es_expression = r, es_organs = [], es_versions = [], es_current_version = None\<rparr>"
    by (simp add: expression_wf_def organs_wf_def organ_depends_def bt.get_empty bt.empty_invar
        acyclic_def versions_wf_def)
  with ExpressionPayload assms show ?thesis by (auto intro: expressions_wf_fresh)
next
  case (OrganPayload r)
  with assms obtain es where es: "bt_get (st_expressions st) (or_expression_id r) = Some es"
    "bt_get (es_organs es) (or_organ_id r) = None"
    "\<forall>d \<in> set (or_dependencies r). d \<noteq> or_organ_id r \<and> bt_get (es_organs es) d \<noteq> None"
    "t = st\<lparr>st_expressions := bt_insert (or_expression_id r)
       (es\<lparr>es_organs := bt_insert (or_organ_id r) r (es_organs es)\<rparr>) (st_expressions st)\<rparr>"
    by auto
  moreover have "expression_wf (or_expression_id r) es"
    using assms(2) es(1) by (simp add: expressions_wf_def)
  ultimately show ?thesis
    using assms(2)
    by (auto simp: expression_wf_def intro!: expressions_wf_insert organs_wf_insert)
next
  case (VersionPayload r)
  with assms obtain es where es: "bt_get (st_expressions st) (vr_expression_id r) = Some es"
    "\<not> version_id_known st (vr_version_id r)" "unat (vr_ordinal r) = length (es_versions es) + 1"
    and t: "st_expressions t = bt_insert (vr_expression_id r) (es\<lparr>es_versions := es_versions es @ [r],
                 es_current_version := Some (vr_version_id r)\<rparr>) (st_expressions st)"
    by auto
  have wf: "bt_invar (st_expressions st)" "version_ids_unique (st_expressions st)"
    "\<And>k fs. bt_get (st_expressions st) k = Some fs \<Longrightarrow> expression_wf k fs"
    using assms(2) by (auto simp: expressions_wf_def)
  have "version_ids_unique (st_expressions t)"
    using es(2) unfolding t version_id_known_iff [OF wf(1)]
    by (intro version_ids_unique_snoc [OF wf(2) es(1)]) auto
  with es wf expression_wf_version [OF wf(3) [OF es(1)] _ es(3)] show ?thesis
    by (auto simp: expressions_wf_def t bt_insert_invar bt_get_insert)
qed (use assms in auto)

lemma payload_effect_wf:
  assumes "payload_effect c p st t" "state_wf st"
  shows "state_wf t"
proof -
  have "expressions_wf (st_expressions t)"
    using payload_effect_expressions_wf assms by (auto simp: state_wf_def)
  with assms show ?thesis
    by (cases p) (auto simp: state_wf_def bt_get_insert ownership_chain_snoc)
qed

interpretation lineage: log_invariant "apply_one E" state_wf for E
proof unfold_locales
  fix st x t
  assume wf: "state_wf st" and "apply_one E st x = Inr t"
  from this(2) show "state_wf t"
  proof (rule apply_one_effect)
    fix c t0
    assume "payload_effect c (payload (action x)) st t0"
      "t = t0\<lparr>st_sequence := sequence (action x), st_head := c,
               st_last_timestamp := timestamp (action x)\<rparr>"
    then show ?thesis using payload_effect_wf [of c _ st t0] wf by (simp add: state_wf_def)
  qed
qed

lemma initial_state_wf: "reduce_first E x = Inr st \<Longrightarrow> state_wf st"
  by (auto simp: reduce_first_ok initial_state_def state_wf_def expressions_wf_def
      version_ids_unique_def bt.empty_invar bt.get_empty)

lemma reduces_wf: "reduces E xs st \<Longrightarrow> state_wf st"
  by (auto simp: reduces_def intro: lineage.run_inv initial_state_wf)

end
