(* ===== verification/Lineage_Versions.thy ===== *)
theory Lineage_Versions
  imports Lineage_State
begin

text \<open>
  Where the versions of an expression come from (\<open>protocol/src/lineage.rs\<close>): the
  invariant of a reduced state, the verification behind every accepted version, and
  what the genome and evolution records of a state refer to.
\<close>

section \<open>Every action of a reduced lineage was applied\<close>

lemma reduces_applied:
  assumes "reduces E (ys @ x # zs) st" "ys \<noteq> []"
  obtains s t where "reduces E ys s" "apply_one E s x = Inr t" "reduces E (ys @ [x]) t"
    and "segment_spec E [x] (Some (state_anchor s))"
proof -
  have "reduces E ((ys @ [x]) @ zs) st" using assms(1) by simp
  then obtain t where t: "reduces E (ys @ [x]) t"
    using reduces_append [of "ys @ [x]" E zs st] by auto
  then obtain s where "reduces E ys s" "apply_lineage_actions E s [x] = (Inr (), t)"
    using reduces_append [OF assms(2), of E "[x]" t] by auto
  with that t show thesis by (auto simp: apply_lineage_actions_ok)
qed

lemma reduces_first_payload: "reduces E (x # xs) st \<Longrightarrow> is_commitment (payload (action x))"
  by (auto simp: reduces_def reduce_first_ok)

lemma reduces_signed: "reduces E xs st \<Longrightarrow> x \<in> set xs \<Longrightarrow> signed_verify E x = Inr ()"
  by (auto simp: reduces_def segment_spec_def list_all_iff well_signed_def)

lemma records_of_mem:
  assumes "(c, r) \<in> set (records_of f xs)"
  obtains ys x zs where "xs = ys @ x # zs" "f (payload (action x)) = Some r"
    and "c = ss_digest (signature x)"
  using assms by (auto simp: records_of_def split: option.splits dest!: split_list)

lemma verification_recorded:
  assumes "reduces E xs st" "bt_get (st_verification_results st) c = Some r"
  obtains ys x zs where "xs = ys @ x # zs" "ys \<noteq> []"
    and "payload (action x) = VerificationResultPayload r" "ss_digest (signature x) = c"
proof -
  have "(c, r) \<in> set (records_of verification_of xs)"
    using assms reduces_replays index_records_get by (fastforce simp: replays_def)
  then obtain ys x zs where *: "xs = ys @ x # zs" "verification_of (payload (action x)) = Some r"
    "c = ss_digest (signature x)" by (rule records_of_mem)
  then have "payload (action x) = VerificationResultPayload r" by (cases "payload (action x)") auto
  moreover from this * assms(1) have "ys \<noteq> []" using reduces_first_payload [of E x zs st] by auto
  ultimately show thesis using that * by blast
qed

text \<open>An accepted version was put there by an action that referred to a verification
  already recorded.\<close>

lemma version_recorded:
  assumes "reduces E xs st" "bt_get (st_expressions st) k = Some es" "v \<in> set (es_versions es)"
  shows "\<exists>ys x zs s. xs = ys @ x # zs \<and> reduces E ys s
    \<and> payload (action x) = VersionPayload v
    \<and> (\<exists>t. payload_effect (ss_digest (signature x)) (VersionPayload v) s t)"
  using assms
proof (induction arbitrary: es rule: reduces_induct)
  case (first x st)
  then show ?case by (auto simp: reduce_first_ok initial_state_def bt.get_empty)
next
  case (step xs st x t)
  show ?case
  proof (cases "\<exists>fs. bt_get (st_expressions st) k = Some fs \<and> v \<in> set (es_versions fs)")
    case True
    then obtain ys y zs s where "xs = ys @ y # zs" "reduces E ys s"
      "payload (action y) = VersionPayload v"
      "\<exists>t. payload_effect (ss_digest (signature y)) (VersionPayload v) s t"
      using step.IH by blast
    then show ?thesis by (intro exI [of _ ys] exI [of _ y] exI [of _ "zs @ [x]"]) auto
  next
    case False
    from step.hyps(2) obtain c t0 where c: "action_commitment E (action x) = Inr c"
      and eff: "payload_effect c (payload (action x)) st t0"
      and t: "st_expressions t = st_expressions t0" by (rule apply_one_effect) simp
    have "payload (action x) = VersionPayload v"
      using eff step.prems False unfolding t
      by (cases "payload (action x)") (auto simp: bt_get_insert split: if_splits)
    moreover have "c = ss_digest (signature x)"
      by (rule segment_single_digest [OF step.hyps(3) c])
    ultimately show ?thesis
      using eff step.hyps(1) by (intro exI [of _ xs] exI [of _ x] exI [of _ "[]"]) auto
  qed
qed

section \<open>What a verification covers\<close>

definition gates_cover :: "externals \<Rightarrow> verification_result \<Rightarrow> organ list \<Rightarrow> bool" where
  "gates_cover E r graph \<longleftrightarrow>
     (\<forall>o' \<in> set graph. \<forall>i < length (or_acceptance_tests o').
        \<exists>g \<in> set (vf_gates r).
          vg_name g = gate_name E (or_organ_id o') (i + 1) (or_acceptance_tests o' ! i))"

lemma acceptance_gates_checks_ok:
  assumes "acceptance_gates_checks E fail (map vg_name (vf_gates r)) graph = Inr u"
  shows "gates_cover E r graph"
proof -
  have "\<exists>name. organ_acceptance_gate_name E o' i = Inr name \<and> name \<in> set (map vg_name (vf_gates r))"
    if "o' \<in> set graph" "i < length (or_acceptance_tests o')" for o' i
    using assms that by (auto simp: acceptance_gates_checks_def)
  moreover have "name = gate_name E (or_organ_id o') (i + 1) (or_acceptance_tests o' ! i)"
    if "organ_acceptance_gate_name E o' i = Inr name" for o' i name
    using that by (auto simp: organ_acceptance_gate_name_def split: if_splits)
  ultimately show ?thesis unfolding gates_cover_def by (metis (no_types, lifting) image_iff set_map)
qed

lemma apply_verification_covers:
  assumes "apply_verification_result E fail c r st = Inr t"
  obtains es where "bt_get (st_expressions st) (vf_expression_id r) = Some es"
    and "capability_graph_digest E (bt_values (es_organs es)) = Inr (vf_capability_graph_digest r)"
    and "gates_cover E r (bt_values (es_organs es))"
  using assms acceptance_gates_checks_ok [of E fail r]
  by (auto simp: apply_verification_result_def Let_def)

lemma verification_validate_passed:
  "verification_result_validate r = Inr u \<Longrightarrow> vf_passed r = list_all vg_passed (vf_gates r)"
  by (auto simp: verification_result_validate_def)

lemma signed_payload_validate:
  "signed_verify E x = Inr u \<Longrightarrow>
     payload_validate E (payload (action x)) (action_shot_id (action x)) = Inr ()"
  using signed_verifyD(1) action_validate_payload by blast

text \<open>
  C5: no version without its verification. For every version of a reduced state the
  log holds, before the action that accepted the version, a verification action whose
  commitment the version names and whose facts it repeats; all gates of that
  verification passed; and at that moment the verification covered, by name, every
  acceptance test of every Organ of the expression, under the graph digest the version
  carries.
\<close>

theorem accepted_version_verified:
  assumes "reduce_lineage E xs = Inr st" and "bt_get (st_expressions st) k = Some es"
    and "v \<in> set (es_versions es)"
  shows "\<exists>ys x zs s r fs. xs = ys @ x # zs \<and> reduce_lineage E ys = Inr s
    \<and> payload (action x) = VerificationResultPayload r
    \<and> ss_digest (signature x) = vr_verification_action v
    \<and> (\<exists>y \<in> set zs. payload (action y) = VersionPayload v)
    \<and> version_matches_verification v r \<and> list_all vg_passed (vf_gates r)
    \<and> bt_get (st_expressions s) k = Some fs
    \<and> capability_graph_digest E (bt_values (es_organs fs)) = Inr (vr_capability_graph_digest v)
    \<and> gates_cover E r (bt_values (es_organs fs))"
proof -
  from assms(1) have red: "reduces E xs st" by (simp add: reduce_lineage_iff)
  from version_recorded [OF this assms(2,3)] obtain ws y zs s0 where
    xs: "xs = ws @ y # zs" and s0: "reduces E ws s0" and y: "payload (action y) = VersionPayload v"
    and eff: "\<exists>t. payload_effect (ss_digest (signature y)) (VersionPayload v) s0 t" by blast
  then obtain r where r: "bt_get (st_verification_results s0) (vr_verification_action v) = Some r"
    "vf_passed r" "version_matches_verification v r" by auto
  from verification_recorded [OF s0 r(1)] obtain ys x us where
    ws: "ws = ys @ x # us" "ys \<noteq> []" and x: "payload (action x) = VerificationResultPayload r"
    "ss_digest (signature x) = vr_verification_action v" by blast
  from reduces_applied [OF s0 [unfolded ws(1)] ws(2)] obtain s t where
    s: "reduces E ys s" "apply_one E s x = Inr t" by blast
  then obtain c t' where "apply_verification_result E (action_error (sequence (action x))) c r s = Inr t'"
    by (auto simp: apply_one_ok x)
  then obtain fs where fs: "bt_get (st_expressions s) (vf_expression_id r) = Some fs"
    "capability_graph_digest E (bt_values (es_organs fs)) = Inr (vf_capability_graph_digest r)"
    "gates_cover E r (bt_values (es_organs fs))" by (rule apply_verification_covers)
  have "verification_result_validate r = Inr ()"
    using signed_payload_validate [of E x] reduces_signed [OF red, of x] xs ws(1) x by auto
  with r(2) have "list_all vg_passed (vf_gates r)" by (simp add: verification_validate_passed)
  moreover have "vr_expression_id v = k"
    using reduces_wf [OF red] assms(2,3)
    by (auto simp: state_wf_def expressions_wf_def expression_wf_def versions_wf_def in_set_conv_nth)
  ultimately show ?thesis
    using fs r(3) s(1) x ws(1) xs y
    by (intro exI [of _ ys] exI [of _ x] exI [of _ "us @ y # zs"] exI [of _ s] exI [of _ r]
        exI [of _ fs])
      (auto simp: version_matches_verification_def reduce_lineage_iff)
qed

section \<open>The invariant of reduced states\<close>

text \<open>
  C6: the structure of a reduced state. In every expression the Organs are keyed by
  their own identifier, depend only on declared Organs and form no cycle; the versions
  carry the ordinals 1 to n without gap, the current version is the last one, and each
  version identifier is the content-bound derivation for this Shot; a version
  identifier names one version of one expression only.
\<close>

theorem reduced_state_structure:
  assumes "reduce_lineage E xs = Inr st" and "bt_get (st_expressions st) k = Some es"
  shows "organs_wf k (es_organs es)
    \<and> map (\<lambda>v. unat (vr_ordinal v)) (es_versions es) = [1..<Suc (length (es_versions es))]
    \<and> es_current_version es =
      (if es_versions es = [] then None else Some (vr_version_id (last (es_versions es))))
    \<and> (\<forall>v \<in> set (es_versions es). vr_version_id v = version_id_derive E (st_shot_id st) k
      (vr_ordinal v) (vr_genome_digest v) (vr_source_digest v))
    \<and> version_ids_unique (st_expressions st)"
proof -
  from assms(1) have red: "reduces E xs st" by (simp add: reduce_lineage_iff)
  have wf: "expression_wf k es" "version_ids_unique (st_expressions st)"
    using reduces_wf [OF red] assms(2) by (auto simp: state_wf_def expressions_wf_def)
  then have shape: "organs_wf k (es_organs es)" "version_ids_unique (st_expressions st)"
    "es_current_version es =
      (if es_versions es = [] then None else Some (vr_version_id (last (es_versions es))))"
    by (auto simp: expression_wf_def)
  have vs: "versions_wf k (es_versions es)" using wf by (simp add: expression_wf_def)
  then have ordinals: "map (\<lambda>v. unat (vr_ordinal v)) (es_versions es) = [1..<Suc (length (es_versions es))]"
    by (intro nth_equalityI) (auto simp: versions_wf_def nth_append simp del: upt_Suc)
  have "\<forall>v \<in> set (es_versions es). vr_version_id v = version_id_derive E (st_shot_id st) k
      (vr_ordinal v) (vr_genome_digest v) (vr_source_digest v)"
  proof
    fix v assume v: "v \<in> set (es_versions es)"
    from version_recorded [OF red assms(2) v] obtain ys x zs where
      x: "xs = ys @ x # zs" "payload (action x) = VersionPayload v" by blast
    have "segment_spec E xs None" using red by (rule reduces_segment)
    then have shot: "action_shot_id (action x) = st_shot_id st"
      using segment_spec_nth [of E xs None "length ys"] segment_spec_nth [of E xs None "length xs - 1"]
        reduces_at [OF red] x(1)
      by (auto simp: at_action_def state_anchor_def anchor_of_def last_conv_nth nth_append)
    have "version_validate E v (action_shot_id (action x)) = Inr ()"
      using signed_payload_validate [of E x] reduces_signed [OF red, of x] x by auto
    moreover have "vr_expression_id v = k" using vs v by (auto simp: versions_wf_def in_set_conv_nth)
    ultimately show "vr_version_id v = version_id_derive E (st_shot_id st) k
        (vr_ordinal v) (vr_genome_digest v) (vr_source_digest v)"
      by (auto simp: version_validate_def version_expected_id_def shot)
  qed
  with shape ordinals show ?thesis by blast
qed

end
