(* ===== verification/Commitments.thy ===== *)
theory Commitments
  imports Lineage
begin

text \<open>
  A commitment is the SHA-256 digest of the canonical JSON form of a record
  (\<open>protocol/src/canonical.rs\<close>). The JSON form of every record of
  \<open>protocol/src/ontology.rs\<close>, \<open>record.rs\<close> and \<open>lineage.rs\<close> determines the record: no
  field is left out and no two values share a form.
\<close>

section \<open>Injective JSON forms\<close>

named_theorems json_inject \<open>equality of JSON forms is equality of the values\<close>

lemma json_bytes32_inject [json_inject]: "json_bytes32 a = json_bytes32 b \<longleftrightarrow> a = b"
  by (simp add: json_bytes32_def bytes32_to_hex_def encode_prefixed_inject)

lemma address20_display_inject: "address20_display a = address20_display b \<longleftrightarrow> a = b"
  by (simp add: address20_display_def encode_prefixed_inject)

lemma json_address20_inject [json_inject]: "json_address20 a = json_address20 b \<longleftrightarrow> a = b"
  by (simp add: json_address20_def address20_display_inject)

lemma json_word_inject [json_inject]: "json_word a = json_word b \<longleftrightarrow> a = b"
  by (simp add: json_word_def word_unat_eq_iff)

lemma json_strings_inject [json_inject]: "json_strings a = json_strings b \<longleftrightarrow> a = b"
  by (simp add: json_strings_def inj_map_eq_map inj_def)

lemma json_map_inject:
  "(\<And>x y. f x = f y \<longleftrightarrow> x = y) \<Longrightarrow> map f xs = map f ys \<longleftrightarrow> xs = ys"
  by (simp add: inj_map_eq_map inj_def)

lemma json_option_inject:
  "(\<And>x y. f x = f y \<longleftrightarrow> x = y) \<Longrightarrow> (\<And>x. f x \<noteq> JNull) \<Longrightarrow>
     json_option f a = json_option f b \<longleftrightarrow> a = b"
  by (cases a; cases b) (auto, metis)

lemma json_form_not_null [simp]: "json_bytes32 a \<noteq> JNull" "json_word w \<noteq> JNull"
  by (simp_all add: json_bytes32_def json_word_def)

lemmas json_option_injects [json_inject] =
  json_option_inject [of json_bytes32, OF json_bytes32_inject json_form_not_null(1)]
  json_option_inject [of json_word, OF json_word_inject json_form_not_null(2)]

lemma member_option_case:
  "member_option name f a = (case a of None \<Rightarrow> [] | Some v \<Rightarrow> [(name, f v)])"
  by (cases a) auto

lemma builder_id_json_inject [json_inject]: "builder_id_json a = builder_id_json b \<longleftrightarrow> a = b"
  by (cases a; cases b)
    (simp add: builder_id_json_def builder_id_display_def address20_display_inject)

lemma timestamp_json_inject [json_inject]: "timestamp_json a = timestamp_json b \<longleftrightarrow> a = b"
  by (cases a; cases b) (simp add: timestamp_json_def)

lemma availability_status_name_inject [json_inject]:
  "availability_status_name a = availability_status_name b \<longleftrightarrow> a = b"
  by (cases a; cases b; simp)

lemma location_kind_name_inject [json_inject]:
  "location_kind_name a = location_kind_name b \<longleftrightarrow> a = b"
  by (cases a; cases b; simp)

lemma visibility_name_inject [json_inject]: "visibility_name a = visibility_name b \<longleftrightarrow> a = b"
  by (cases a; cases b; simp)

lemma change_scope_name_inject [json_inject]:
  "change_scope_name a = change_scope_name b \<longleftrightarrow> a = b"
  by (cases a; cases b; simp)

lemma token_operation_name_inject [json_inject]:
  "token_operation_name a = token_operation_name b \<longleftrightarrow> a = b"
  by (cases a; cases b; simp)

lemma parent_relation_kind_name_inject [json_inject]:
  "parent_relation_kind_name a = parent_relation_kind_name b \<longleftrightarrow> a = b"
  by (cases a; cases b; simp)

section \<open>Keys and sidecars\<close>

lemma public_key_json_inject [json_inject]: "public_key_json a = public_key_json b \<longleftrightarrow> a = b"
  by (cases a; cases b) (auto simp: public_key_json_def json_inject)

lemma signature_json_inject [json_inject]: "signature_json a = signature_json b \<longleftrightarrow> a = b"
  by (cases a; cases b) (auto simp: signature_json_def json_inject)

lemma sidecar_json_inject [json_inject]: "sidecar_json a = sidecar_json b \<longleftrightarrow> a = b"
  by (cases a; cases b; cases "ss_algorithm a"; cases "ss_algorithm b")
    (auto simp: sidecar_json_def json_inject)

section \<open>Records\<close>

lemma artifact_location_json_inject [json_inject]: "artifact_location_json a = artifact_location_json b \<longleftrightarrow> a = b"
  by (cases a; cases b) (auto simp: artifact_location_json_def json_inject)

lemma artifact_descriptor_json_inject [json_inject]: "artifact_descriptor_json a = artifact_descriptor_json b \<longleftrightarrow> a = b"
  by (cases a; cases b) (auto simp: artifact_descriptor_json_def json_inject member_option_case split: option.splits)

lemmas json_lists_inject [json_inject] =
  json_map_inject [of artifact_location_json, OF artifact_location_json_inject]
  json_map_inject [of json_bytes32, OF json_bytes32_inject]

lemma artifact_availability_json_inject [json_inject]: "artifact_availability_json a = artifact_availability_json b \<longleftrightarrow> a = b"
  by (cases a; cases b) (auto simp: artifact_availability_json_def json_inject)

lemma original_material_json_inject [json_inject]: "original_material_json a = original_material_json b \<longleftrightarrow> a = b"
  by (cases a; cases b) (auto simp: original_material_json_def json_inject member_option_case split: option.splits)

lemmas json_lists_inject' [json_inject] =
  json_map_inject [of artifact_availability_json, OF artifact_availability_json_inject]
  json_map_inject [of original_material_json, OF original_material_json_inject]

lemma intention_json_inject [json_inject]: "intention_json a = intention_json b \<longleftrightarrow> a = b"
  by (cases a; cases b) (auto simp: intention_json_def json_inject member_option_case split: option.splits)

lemma commitment_origin_json_inject [json_inject]:
  "commitment_origin_json a = commitment_origin_json b \<longleftrightarrow> a = b"
  by (cases a; cases b) (auto simp: json_inject)

lemma shot_commitment_json_inject [json_inject]: "shot_commitment_json a = shot_commitment_json b \<longleftrightarrow> a = b"
  by (cases a; cases b) (auto simp: shot_commitment_json_def json_inject)

lemma genome_json_inject [json_inject]: "genome_json a = genome_json b \<longleftrightarrow> a = b"
  by (cases a; cases b) (auto simp: genome_json_def json_inject)

lemma genome_proposal_json_inject [json_inject]: "genome_proposal_json a = genome_proposal_json b \<longleftrightarrow> a = b"
  by (cases a; cases b) (auto simp: genome_proposal_json_def json_inject)

lemma genome_acceptance_json_inject [json_inject]: "genome_acceptance_json a = genome_acceptance_json b \<longleftrightarrow> a = b"
  by (cases a; cases b) (auto simp: genome_acceptance_json_def json_inject)

lemma expression_json_inject [json_inject]: "expression_json a = expression_json b \<longleftrightarrow> a = b"
  by (cases a; cases b) (auto simp: expression_json_def json_inject)

lemma organ_json_inject [json_inject]: "organ_json a = organ_json b \<longleftrightarrow> a = b"
  by (cases a; cases b) (auto simp: organ_json_def json_inject)

lemma provenance_json_inject [json_inject]: "provenance_json a = provenance_json b \<longleftrightarrow> a = b"
  by (cases a; cases b) (auto simp: provenance_json_def json_inject member_option_case split: option.splits)

lemma version_json_inject [json_inject]: "version_json a = version_json b \<longleftrightarrow> a = b"
  by (cases a; cases b) (auto simp: version_json_def json_inject member_option_case split: option.splits)

lemma feedback_author_json_inject [json_inject]: "feedback_author_json a = feedback_author_json b \<longleftrightarrow> a = b"
  by (cases a; cases b) (auto simp: feedback_author_json_def json_inject member_option_case split: option.splits)

lemma observation_json_inject [json_inject]: "observation_json a = observation_json b \<longleftrightarrow> a = b"
  by (cases a; cases b) (auto simp: observation_json_def json_inject)

lemmas json_feedback_lists_inject [json_inject] =
  json_map_inject [of observation_json, OF observation_json_inject]

lemma feedback_json_inject [json_inject]: "feedback_json a = feedback_json b \<longleftrightarrow> a = b"
  by (cases a; cases b) (auto simp: feedback_json_def json_inject member_option_case split: option.splits)

lemma desired_change_json_inject [json_inject]: "desired_change_json a = desired_change_json b \<longleftrightarrow> a = b"
  by (cases a; cases b) (auto simp: desired_change_json_def json_inject)

lemmas json_intent_lists_inject [json_inject] =
  json_map_inject [of desired_change_json, OF desired_change_json_inject]

lemma evolutionary_intent_json_inject [json_inject]: "evolutionary_intent_json a = evolutionary_intent_json b \<longleftrightarrow> a = b"
  by (cases a; cases b) (auto simp: evolutionary_intent_json_def json_inject member_option_case split: option.splits)

lemma evolution_json_inject [json_inject]: "evolution_json a = evolution_json b \<longleftrightarrow> a = b"
  by (cases a; cases b) (auto simp: evolution_json_def json_inject member_option_case split: option.splits)

lemma ownership_json_inject [json_inject]: "ownership_json a = ownership_json b \<longleftrightarrow> a = b"
  by (cases a; cases b) (auto simp: ownership_json_def json_inject)

lemma chain_anchor_json_inject [json_inject]: "chain_anchor_json a = chain_anchor_json b \<longleftrightarrow> a = b"
  by (cases a; cases b) (auto simp: chain_anchor_json_def json_inject)

lemma token_association_json_inject [json_inject]: "token_association_json a = token_association_json b \<longleftrightarrow> a = b"
  by (cases a; cases b) (auto simp: token_association_json_def json_inject member_option_case split: option.splits)

lemma verification_gate_json_inject [json_inject]: "verification_gate_json a = verification_gate_json b \<longleftrightarrow> a = b"
  by (cases a; cases b) (auto simp: verification_gate_json_def json_inject member_option_case split: option.splits)

lemmas json_gate_lists_inject [json_inject] =
  json_map_inject [of verification_gate_json, OF verification_gate_json_inject]

lemma verification_result_json_inject [json_inject]: "verification_result_json a = verification_result_json b \<longleftrightarrow> a = b"
  by (cases a; cases b) (auto simp: verification_result_json_def json_inject)

lemma parent_statement_json_inject [json_inject]: "parent_statement_json a = parent_statement_json b \<longleftrightarrow> a = b"
  by (cases a; cases b) (auto simp: parent_statement_json_def json_inject)

lemma parent_relation_json_inject [json_inject]: "parent_relation_json a = parent_relation_json b \<longleftrightarrow> a = b"
  by (cases a; cases b) (auto simp: parent_relation_json_def json_inject member_option_case split: option.splits)

lemma availability_record_json_inject [json_inject]: "availability_record_json a = availability_record_json b \<longleftrightarrow> a = b"
  by (cases a; cases b) (auto simp: availability_record_json_def json_inject)

section \<open>Payloads, actions and first-generation records\<close>

lemma payload_json_inject [json_inject]: "payload_json a = payload_json b \<longleftrightarrow> a = b"
  by (cases a; cases b) (simp_all add: payload_json_def json_inject)

lemma action_json_inject [json_inject]: "action_json a = action_json b \<longleftrightarrow> a = b"
  by (cases a; cases b) (auto simp: action_json_def json_inject)

lemma factory_json_inject [json_inject]: "factory_json a = factory_json b \<longleftrightarrow> a = b"
  by (cases a; cases b) (auto simp: factory_json_def)

lemma shot_origin_json_inject [json_inject]: "shot_origin_json a = shot_origin_json b \<longleftrightarrow> a = b"
  by (cases a; cases b) (auto simp: json_inject)

lemma shot_record_json_inject [json_inject]: "shot_record_json a = shot_record_json b \<longleftrightarrow> a = b"
  by (cases a; cases b)
    (auto simp: shot_record_json_def json_inject member_option_case split: option.splits)

section \<open>Commitments bind\<close>

text \<open>
  The only way two different documents can share a commitment: SHA-256 maps two
  canonical forms to one digest, or the canonicalizer maps the two documents to one
  byte string.
\<close>

definition commitment_collision :: "externals \<Rightarrow> json \<Rightarrow> json \<Rightarrow> bool" where
  "commitment_collision E j k \<longleftrightarrow> j \<noteq> k \<and>
     (\<exists>p q. ext_canonicalize E j = Inr p \<and> ext_canonicalize E k = Inr q
        \<and> (p = q \<or> ext_sha256 E p = ext_sha256 E q))"

lemma sha256_commitment_binds:
  assumes "sha256_commitment E j = Inr c" "sha256_commitment E k = Inr c"
  shows "j = k \<or> commitment_collision E j k"
  using assms by (auto simp: sha256_commitment_ok commitment_collision_def sha256_def)

lemma action_commitment_binds:
  assumes "action_commitment E a = Inr c" "action_commitment E b = Inr c"
  shows "a = b \<or> commitment_collision E (action_json a) (action_json b)"
  using assms sha256_commitment_binds [of E "action_json a" c "action_json b"]
  by (auto simp: action_commitment_def action_json_inject)

lemma shot_record_commitment_binds:
  assumes "shot_record_commitment E a = Inr c" "shot_record_commitment E b = Inr c"
  shows "a = b \<or> commitment_collision E (shot_record_json a) (shot_record_json b)"
  using assms sha256_commitment_binds [of E "shot_record_json a" c "shot_record_json b"]
  by (auto simp: shot_record_commitment_def shot_record_json_inject)

section \<open>Hash chains\<close>

text \<open>
  The contract of a hash chain: entries with an optional link to the digest of the
  entry before, and a digest that binds the entry. Two chains from an unlinked root
  with the same last digest are equal.
\<close>

locale hash_chain =
  fixes link :: "'a \<Rightarrow> 'h option"
    and digest :: "'a \<Rightarrow> 'e + 'h"
    and collision :: "'a \<Rightarrow> 'a \<Rightarrow> bool"
  assumes digest_binds: "digest a = Inr h \<Longrightarrow> digest b = Inr h \<Longrightarrow> a = b \<or> collision a b"
begin

definition linked :: "'a \<Rightarrow> 'a \<Rightarrow> bool" where
  "linked a b \<longleftrightarrow> (\<exists>h. digest a = Inr h \<and> link b = Some h)"

definition chain :: "'a list \<Rightarrow> bool" where
  "chain as \<longleftrightarrow> as \<noteq> [] \<and> link (hd as) = None \<and> successively linked as"

lemma chain_snoc:
  "as \<noteq> [] \<Longrightarrow> chain (as @ [a]) \<longleftrightarrow> chain as \<and> linked (last as) a"
  by (auto simp: chain_def successively_append_iff)

lemma chain_determined:
  assumes "chain as" "chain bs" "digest (last as) = Inr h" "digest (last bs) = Inr h"
  shows "as = bs \<or> (\<exists>a \<in> set as. \<exists>b \<in> set bs. collision a b)"
  using assms
proof (induction as arbitrary: bs h rule: rev_induct)
  case Nil
  then show ?case by (simp add: chain_def)
next
  case (snoc a as)
  from snoc.prems(2) obtain bs' b where bs: "bs = bs' @ [b]"
    by (metis chain_def rev_exhaust)
  show ?case
  proof (cases "a = b")
    case False
    with snoc.prems bs digest_binds [of a h b] show ?thesis by auto
  next
    case True
    have none: "link c = None" if "chain [c]" for c using that by (simp add: chain_def)
    show ?thesis
    proof (cases "as = []")
      case True
      with snoc.prems bs \<open>a = b\<close> none [of a] chain_snoc [of bs' b] have "bs' = []"
        by (auto simp: linked_def)
      with True bs \<open>a = b\<close> show ?thesis by simp
    next
      case False
      with snoc.prems(1) have as: "chain as" "linked (last as) a" by (auto simp: chain_snoc)
      with snoc.prems(2) bs \<open>a = b\<close> none [of b] have "bs' \<noteq> []"
        by (auto simp: linked_def)
      with snoc.prems(2) bs have bs': "chain bs'" "linked (last bs') b" by (auto simp: chain_snoc)
      from as bs' \<open>a = b\<close> obtain h' where "digest (last as) = Inr h'" "digest (last bs') = Inr h'"
        by (auto simp: linked_def)
      from snoc.IH [OF as(1) bs'(1) this] bs \<open>a = b\<close> show ?thesis by auto
    qed
  qed
qed

end

interpretation action_chain: hash_chain previous "action_commitment E"
  "\<lambda>a b. commitment_collision E (action_json a) (action_json b)" for E
  by unfold_locales (rule action_commitment_binds)

interpretation record_chain: hash_chain sr_previous "shot_record_commitment E"
  "\<lambda>a b. commitment_collision E (shot_record_json a) (shot_record_json b)" for E
  by unfold_locales (rule shot_record_commitment_binds)

end
