(* ===== verification/Acceptance_Gates.thy ===== *)
theory Acceptance_Gates
  imports Lineage_Versions Commitments "HOL-Library.Multiset"
begin

text \<open>
  The Organ graph and its acceptance gates (\<open>protocol/src/ontology.rs\<close>): gate names
  identify one test of one Organ, the graph digest does not depend on the order Organs
  are listed in, and what the limit of 256 gates means for a graph.
\<close>

section \<open>Decimal numerals\<close>

definition read_nat :: "string \<Rightarrow> nat" where
  "read_nat s = foldl (\<lambda>n c. 10 * n + (of_char c - 48)) 0 s"

lemma of_digit_char [simp]: "d < 10 \<Longrightarrow> of_char (digit_char d) = (48 + d :: nat)"
  by (simp add: digit_char_def)

lemma read_show_nat: "read_nat (show_nat n) = n"
proof (induction n rule: show_nat.induct)
  case (1 n)
  then show ?case
    by (cases "n < 10") (simp_all add: show_nat.simps [of n] read_nat_def)
qed

lemma show_nat_inject [simp]: "show_nat m = show_nat n \<longleftrightarrow> m = n"
  by (metis read_show_nat)

lemma show_nat_digits: "list_all is_ascii_digit (show_nat n)"
proof (induction n rule: show_nat.induct)
  case (1 n)
  then show ?case
    by (cases "n < 10") (simp_all add: show_nat.simps [of n] is_ascii_digit_def)
qed

lemma show_nat_no_dot: "CHR ''.'' \<notin> set (show_nat n)"
  using show_nat_digits [of n] by (auto simp: list_all_iff is_ascii_digit_def)

lemma length_show_nat: "n < 10 ^ Suc k \<Longrightarrow> length (show_nat n) \<le> Suc k"
proof (induction k arbitrary: n)
  case 0
  then show ?case by (simp add: show_nat.simps [of n])
next
  case (Suc k)
  then have "n div 10 < 10 ^ Suc k" by (simp add: less_mult_imp_div_less)
  with Suc.IH [of "n div 10"] show ?case by (simp add: show_nat.simps [of n])
qed

section \<open>Gate names\<close>

lemma last_separator:
  assumes "xs @ c # ds = ys @ c # es" "c \<notin> set ds" "c \<notin> set es"
  shows "xs = ys \<and> ds = es"
proof -
  have rest: "takeWhile (\<lambda>x. x \<noteq> c) (rev (us @ c # vs)) = rev vs" if "c \<notin> set vs" for us vs
  proof -
    have "takeWhile (\<lambda>x. x \<noteq> c) (rev vs @ c # rev us) = rev vs"
      using that by (subst takeWhile_append2) auto
    then show ?thesis by simp
  qed
  have "ds = es" using rest [OF assms(2), of xs] rest [OF assms(3), of ys] assms(1) by simp
  with assms(1) show ?thesis by simp
qed

lemma length_bytes32_to_hex: "length (bytes32_to_hex b) = 66"
  by (simp add: bytes32_to_hex_def encode_prefixed_pairs)

lemma gate_name_shape:
  "gate_name E i n t = (''organ.'' @ i @ ''.acceptance'') @ CHR ''.'' # show_nat n
     @ CHR ''.'' # bytes32_to_hex (sha256 E (str_bytes t))"
  by (simp add: gate_name_def)

lemma gate_name_parts:
  assumes "gate_name E i n t = gate_name E j m u"
  shows "i = j" and "n = m" and "bytes32_to_hex (sha256 E (str_bytes t)) = bytes32_to_hex (sha256 E (str_bytes u))"
proof -
  let ?p = "\<lambda>i n. (''organ.'' @ i @ ''.acceptance'') @ CHR ''.'' # show_nat n"
  let ?h = "\<lambda>t. CHR ''.'' # bytes32_to_hex (sha256 E (str_bytes t))"
  have "?p i n @ ?h t = ?p j m @ ?h u"
    using assms unfolding gate_name_shape by simp
  then have "?p i n = ?p j m \<and> ?h t = ?h u"
    by (subst (asm) append_eq_append_conv) (simp_all add: length_bytes32_to_hex)
  then have p: "?p i n = ?p j m" and h: "?h t = ?h u" by blast+
  from last_separator [OF p show_nat_no_dot show_nat_no_dot] show "i = j" "n = m" by simp_all
  from h show "bytes32_to_hex (sha256 E (str_bytes t)) = bytes32_to_hex (sha256 E (str_bytes u))"
    by simp
qed

text \<open>
  A gate name identifies its test. Two acceptance tests get the same gate name
  only if they are the same position of the same Organ and their texts have the same
  SHA-256 digest: neither an Organ identifier with dots or digits nor an edited test
  can take over the result of another gate.
\<close>

lemma gate_name_identifies_test:
  assumes "organ_acceptance_gate_name E r i = Inr name"
    and "organ_acceptance_gate_name E s j = Inr name"
  shows "or_organ_id r = or_organ_id s \<and> i = j
    \<and> sha256 E (str_bytes (or_acceptance_tests r ! i)) = sha256 E (str_bytes (or_acceptance_tests s ! j))"
proof -
  from assms have "gate_name E (or_organ_id r) (i + 1) (or_acceptance_tests r ! i)
      = gate_name E (or_organ_id s) (j + 1) (or_acceptance_tests s ! j)"
    by (auto simp: organ_acceptance_gate_name_def split: if_splits)
  from gate_name_parts [OF this] show ?thesis
    by (simp add: bytes32_to_hex_def encode_prefixed_inject)
qed

text \<open>
  a required gate name is never too long for a gate: for a valid Organ it has at
  most 216 of the 255 bytes \<open>VerificationGate\<close> allows.
\<close>

lemma gate_name_fits:
  assumes "organ_acceptance_gate_name E r i = Inr name"
  shows "length name \<le> 216"
proof -
  from assms have name: "name = gate_name E (or_organ_id r) (i + 1) (or_acceptance_tests r ! i)"
    and i: "i < length (or_acceptance_tests r)" and v: "organ_validate r = Inr ()"
    by (auto simp: organ_acceptance_gate_name_def split: if_splits)
  from v have "length (or_organ_id r) \<le> 128" "length (or_acceptance_tests r) \<le> 256"
    by (auto simp: organ_validate_def validate_token_def validate_tokens_def not_less)
  moreover from this i have "length (show_nat (i + 1)) \<le> 3"
    using length_show_nat [of "i + 1" 2] by simp
  ultimately show ?thesis
    by (simp add: name gate_name_def length_bytes32_to_hex)
qed

section \<open>The graph digest\<close>

lemma capability_graph_checks_distinct:
  assumes "capability_graph_checks graph = Inr u"
  shows "distinct (map or_organ_id graph)"
  using assms by (cases graph) (auto simp: capability_graph_checks_def each_unique_eq_Inr)

lemma sort_key_unique:
  fixes f :: "'a \<Rightarrow> 'k::linorder"
  assumes "mset xs = mset ys" "distinct (map f xs)"
  shows "sort_key f xs = sort_key f ys"
proof (rule properties_for_sort_key)
  have "inj_on f (set xs)" using assms(2) by (simp add: distinct_map)
  moreover have "set xs = set ys" "distinct ys"
    using assms by (auto simp: distinct_map dest: mset_eq_setD mset_eq_imp_distinct_iff)
  ultimately have "filter (\<lambda>x. f k = f x) zs = filter (\<lambda>x. k = x) zs"
    if "k \<in> set ys" "set zs = set ys" for k zs
    using that by (intro filter_cong) (auto dest: inj_onD)
  moreover have "filter (\<lambda>x. k = x) zs = [k]" if "k \<in> set zs" "distinct zs" for k zs
    using that by (induction zs) (auto simp: filter_empty_conv)
  moreover have "distinct xs" "distinct (sort_key f ys)" "set (sort_key f ys) = set ys"
    using assms(2) \<open>distinct ys\<close> by (simp_all add: distinct_map)
  ultimately show "filter (\<lambda>x. f k = f x) (sort_key f ys) = filter (\<lambda>x. f k = f x) xs"
    if "k \<in> set (sort_key f ys)" for k
    using that \<open>set xs = set ys\<close> by metis
qed (use assms in simp_all)

lemma canonical_graph_permuted:
  assumes "mset xs = mset ys" "canonical_capability_graph_bytes E xs = Inr bytes"
  shows "canonical_capability_graph_bytes E ys = Inr bytes"
proof -
  from assms(2) have "distinct (map or_organ_id (sort_key or_organ_id xs))"
    by (auto simp: canonical_capability_graph_bytes_def Let_def dest: capability_graph_checks_distinct)
  then have "distinct (map or_organ_id xs)" by (simp add: distinct_map)
  from sort_key_unique [OF assms(1) this] assms show ?thesis
    by (auto simp: canonical_capability_graph_bytes_def Let_def dest: mset_eq_setD)
qed

text \<open>
  the digest of an Organ graph does not depend on the order the Organs are listed
  in: two listings of the same Organs are accepted with the same digest or both
  refused.
\<close>

lemma graph_digest_order_free:
  assumes "mset xs = mset ys"
  shows "capability_graph_digest E xs = Inr d \<longleftrightarrow> capability_graph_digest E ys = Inr d"
  unfolding capability_graph_digest_def bind_result_eq_Inr
  using canonical_graph_permuted [OF assms] canonical_graph_permuted [OF assms [symmetric]] by blast

section \<open>How many tests a graph can have\<close>

definition graph_tests :: "organ list \<Rightarrow> (string \<times> nat) list" where
  "graph_tests graph =
     concat (map (\<lambda>r. map (Pair (or_organ_id r)) [0..<length (or_acceptance_tests r)]) graph)"

lemma distinct_graph_tests:
  "distinct (map or_organ_id graph) \<Longrightarrow> distinct (graph_tests graph)"
  by (induction graph) (auto simp: graph_tests_def distinct_map inj_on_def)

lemma length_graph_tests:
  "length (graph_tests graph) = sum_list (map (\<lambda>r. length (or_acceptance_tests r)) graph)"
  by (induction graph) (auto simp: graph_tests_def)

lemma covering_gates_many:
  assumes "gates_cover E r graph" "distinct (map or_organ_id graph)"
  shows "sum_list (map (\<lambda>r. length (or_acceptance_tests r)) graph) \<le> length (vf_gates r)"
proof -
  have "\<forall>t \<in> set (graph_tests graph). \<exists>g \<in> set (vf_gates r). \<exists>text. vg_name g = gate_name E (fst t) (snd t + 1) text"
    using assms(1) by (fastforce simp: gates_cover_def graph_tests_def)
  then obtain pick where pick: "\<forall>t \<in> set (graph_tests graph). pick t \<in> set (vf_gates r)
      \<and> (\<exists>text. vg_name (pick t) = gate_name E (fst t) (snd t + 1) text)" by metis
  have "inj_on pick (set (graph_tests graph))"
  proof (rule inj_onI)
    fix t u assume tu: "t \<in> set (graph_tests graph)" "u \<in> set (graph_tests graph)" "pick t = pick u"
    then obtain a b where "gate_name E (fst t) (snd t + 1) a = gate_name E (fst u) (snd u + 1) b"
      using pick by metis
    from gate_name_parts(1,2) [OF this] show "t = u" by (auto simp: prod_eq_iff)
  qed
  then have "card (set (graph_tests graph)) \<le> card (set (vf_gates r))"
    by (rule card_inj_on_le) (use pick in auto)
  also have "\<dots> \<le> length (vf_gates r)" by (rule card_length)
  finally show ?thesis
    using distinct_graph_tests [OF assms(2)] by (simp add: distinct_card length_graph_tests)
qed

text \<open>
  C33: an expression with more than 256 acceptance tests can never be verified. Each
  test needs a gate of its own and a verification result holds at most 256 gates, so
  every verification action for such a graph is refused, although each of its Organs
  (up to 256 tests each) was accepted when it was declared.
\<close>

theorem too_many_tests_unverifiable:
  assumes "bt_get (st_expressions st) (vf_expression_id r) = Some es"
    and "256 < sum_list (map (\<lambda>q. length (or_acceptance_tests q)) (bt_values (es_organs es)))"
    and "verification_result_validate r = Inr ()"
  shows "\<exists>e. apply_verification_result E fail c r st = Inl e"
proof (cases "apply_verification_result E fail c r st")
  case (Inr t)
  then obtain fs where fs: "bt_get (st_expressions st) (vf_expression_id r) = Some fs"
    "capability_graph_digest E (bt_values (es_organs fs)) = Inr (vf_capability_graph_digest r)"
    "gates_cover E r (bt_values (es_organs fs))" by (rule apply_verification_covers)
  have "distinct (map or_organ_id (sort_key or_organ_id (bt_values (es_organs fs))))"
    using fs(2) by (auto simp: capability_graph_digest_def canonical_capability_graph_bytes_def
        Let_def dest: capability_graph_checks_distinct)
  then have "distinct (map or_organ_id (bt_values (es_organs fs)))" by (simp add: distinct_map)
  from covering_gates_many [OF fs(3) this] fs(1) assms(1,2) have "256 < length (vf_gates r)" by simp
  with assms(3) show ?thesis by (auto simp: verification_result_validate_def)
qed simp

end
