(* ===== verification/Lineage_Integrity.thy ===== *)
theory Lineage_Integrity
  imports Lineage_Versions Commitments
begin

text \<open>
  Integrity of a lineage (\<open>protocol/src/lineage.rs\<close>): what a segment is, that its head
  commitment determines every action and the whole reduced state, and how the origin,
  the genome and the evolutions of a Shot progress.
\<close>

section \<open>Segments\<close>

text \<open>
  C7: verification of a segment, in one pass with a cursor, accepts exactly the
  non-empty lists of well-signed actions in which each action carries the same Shot,
  the next sequence number, the commitment of the action before it and a timestamp not
  earlier; with an anchor, the first action continues the anchor in the same way. The
  reported head is the commitment of the last action, and the reported authority
  context is exactly an anchor or a complete history from the commitment.
\<close>

theorem segment_verification_exact:
  "verify_lineage_segment E xs anchor = Inr seg \<longleftrightarrow>
     segment_spec E xs anchor
     \<and> (\<exists>head. action_commitment E (action (last xs)) = Inr head
          \<and> seg = segment_summary E xs anchor head)"
  by (rule verify_segment_iff)

section \<open>The head determines the lineage\<close>

lemma successively_map_mono:
  assumes "successively P xs" and "\<And>x y. P x y \<Longrightarrow> Q (f x) (f y)"
  shows "successively Q (map f xs)"
  using assms(1) unfolding successively_map by (rule successively_mono) (auto intro: assms(2))

lemma reduces_chain:
  assumes "reduces E xs st"
  shows "action_chain.chain E (map action xs)"
proof -
  have "successively (follows E) xs" and "xs \<noteq> []" and "previous (action (hd xs)) = None"
    using assms by (auto simp: reduces_def segment_spec_def reduce_first_ok)
  moreover have "action_chain.linked E (action x) (action y)" if "follows E x y" for x y
    using that by (auto simp: follows_def action_chain.linked_def extends_anchor_def anchor_of_def)
  ultimately show ?thesis
    by (auto simp: action_chain.chain_def hd_map intro: successively_map_mono)
qed

text \<open>The state depends on the actions and the signing keys only, and the keys are the
  controller's.\<close>

lemma apply_one_determined:
  "apply_one E st x = Inr t \<Longrightarrow> apply_one E st y = Inr u \<Longrightarrow> action x = action y \<Longrightarrow> t = u"
  by (auto simp: apply_one_ok)

lemma run_determined:
  assumes "map action xs = map action ys" "run_log (apply_one E) st xs = Inr t"
    and "run_log (apply_one E) st ys = Inr u"
  shows "t = u"
  using assms
proof (induction xs arbitrary: st ys)
  case (Cons x xs)
  then obtain y ys' where y: "ys = y # ys'" "action x = action y" "map action xs = map action ys'"
    by (cases ys) auto
  with Cons.prems obtain s1 s2 where "apply_one E st x = Inr s1" "apply_one E st y = Inr s2"
    and run: "run_log (apply_one E) s1 xs = Inr t" "run_log (apply_one E) s2 ys' = Inr u" by auto
  then have "s1 = s2" using y(2) by (metis apply_one_determined)
  with Cons.IH [OF y(3) run(1)] run(2) show ?case by simp
qed auto

lemma reduces_determined:
  assumes "reduces E xs st" "reduces E ys t" "map action xs = map action ys"
  shows "st = t"
proof -
  from assms(1) obtain x xs' s where x: "xs = x # xs'" "reduce_first E x = Inr s"
    "run_log (apply_one E) s xs' = Inr st" by (auto simp: reduces_def)
  from assms(2) obtain y ys' u where y: "ys = y # ys'" "reduce_first E y = Inr u"
    "run_log (apply_one E) u ys' = Inr t" by (auto simp: reduces_def)
  have "action x = action y" "map action xs' = map action ys'" using assms(3) x y by auto
  moreover from this x(2) y(2) have "s = u" by (auto simp: reduce_first_ok)
  ultimately show ?thesis using x(3) y(3) run_determined by metis
qed

text \<open>
  C8: the head commitment determines the history. Two lineages that reduce to states
  with the same head consist of the same actions and give the same state, or two of
  their actions are different documents with one commitment. A node that compares
  heads compares whole histories.
\<close>

theorem head_determines_history:
  assumes "reduce_lineage E xs = Inr st" and "reduce_lineage E ys = Inr t"
    and "st_head st = st_head t"
  shows "map action xs = map action ys \<and> st = t
    \<or> (\<exists>x \<in> set xs. \<exists>y \<in> set ys.
         commitment_collision E (action_json (action x)) (action_json (action y)))"
proof -
  from assms have red: "reduces E xs st" "reduces E ys t" by (simp_all add: reduce_lineage_iff)
  have ne: "xs \<noteq> []" "ys \<noteq> []" using red by (auto dest: reduces_not_Nil)
  have "action_commitment E (last (map action xs)) = Inr (st_head st)"
    "action_commitment E (last (map action ys)) = Inr (st_head st)"
    using reduces_at [OF red(1)] reduces_at [OF red(2)] ne assms(3)
    by (auto simp: at_action_def last_map)
  from action_chain.chain_determined [OF reduces_chain [OF red(1)] reduces_chain [OF red(2)] this]
  show ?thesis using reduces_determined [OF red] by auto
qed

section \<open>Origin\<close>

lemma reduces_origin:
  assumes "reduces E xs st"
  shows "list_all (\<lambda>x. \<not> is_commitment (payload (action x))) (tl xs)
    \<and> [r. x \<leftarrow> xs, IntentionPayload r \<leftarrow> [payload (action x)]]
        = (case st_intention st of None \<Rightarrow> [] | Some r \<Rightarrow> [r])"
  using assms
proof (induction rule: reduces_induct)
  case (first x st)
  then show ?case by (auto simp: reduce_first_ok initial_state_def)
next
  case (step xs st x t)
  have ne: "xs \<noteq> []" using step.hyps(1) by (rule reduces_not_Nil)
  from step.hyps(2) obtain c t0 where
    "payload_effect c (payload (action x)) st t0" "st_intention t = st_intention t0"
    by (rule apply_one_effect) simp
  with step.IH ne show ?case by (cases "payload (action x)") auto
qed

lemma reduces_intention_matches:
  assumes "reduces E xs st" "st_intention st = Some r"
  shows "intention_commitment E r = Inr (sc_intention_commitment (st_commitment st))"
  using assms
proof (induction rule: reduces_induct)
  case (first x st)
  then show ?case by (auto simp: reduce_first_ok initial_state_def)
next
  case (step xs st x t)
  show ?case
  proof (cases "st_intention st")
    case None
    from step.hyps(2) obtain c t0 where
      app: "apply_payload E (action_error (sequence (action x))) c (action x) (payload (action x)) st
        = Inr t0" and t: "st_intention t = st_intention t0" "st_commitment t = st_commitment t0"
      by (auto simp: apply_one_ok)
    have "payload (action x) = IntentionPayload r"
      using apply_payload_effect [OF app] None step.prems t(1) by (cases "payload (action x)") auto
    with app t show ?thesis by (auto simp: apply_intention_def)
  next
    case (Some q)
    then have "st_intention t = Some q" "st_commitment t = st_commitment st"
      using lineage.step_le [OF step.hyps(2)] by (auto simp: state_extends_def)
    with step Some show ?thesis by simp
  qed
qed

text \<open>
  C9: a Shot has one origin. In a reduced lineage the commitment is the first action
  and the only commitment; an intention is revealed at most once, it is the intention
  of the state, and it matches the digest committed at the origin.
\<close>

theorem single_origin:
  assumes "reduce_lineage E xs = Inr st"
  shows "payload (action (hd xs)) = CommitmentPayload (st_commitment st)
    \<and> (\<forall>x \<in> set (tl xs). \<not> is_commitment (payload (action x)))
    \<and> [r. x \<leftarrow> xs, IntentionPayload r \<leftarrow> [payload (action x)]]
      = (case st_intention st of None \<Rightarrow> [] | Some r \<Rightarrow> [r])
    \<and> (\<forall>r. st_intention st = Some r \<longrightarrow>
      intention_commitment E r = Inr (sc_intention_commitment (st_commitment st)))"
proof -
  from assms have red: "reduces E xs st" by (simp add: reduce_lineage_iff)
  then obtain x ys s where "xs = x # ys" and s: "reduce_first E x = Inr s"
    "run_log (apply_one E) s ys = Inr st" by (auto simp: reduces_def)
  moreover from s(1) obtain com where "payload (action x) = CommitmentPayload com"
    "st_commitment s = com" by (auto simp: reduce_first_ok initial_state_def)
  moreover from this s(2) have "st_commitment st = com"
    using lineage.run_le by (fastforce simp: state_extends_def)
  ultimately have "payload (action (hd xs)) = CommitmentPayload (st_commitment st)" by simp
  moreover have "\<forall>x \<in> set (tl xs). \<not> is_commitment (payload (action x))"
    and "[r. x \<leftarrow> xs, IntentionPayload r \<leftarrow> [payload (action x)]]
      = (case st_intention st of None \<Rightarrow> [] | Some r \<Rightarrow> [r])"
    using reduces_origin [OF red] by (auto simp: list_all_iff)
  moreover have "\<forall>r. st_intention st = Some r \<longrightarrow>
      intention_commitment E r = Inr (sc_intention_commitment (st_commitment st))"
    using reduces_intention_matches [OF red] by blast
  ultimately show ?thesis by blast
qed

end
