(* ===== verification/Lineage_Progress.thy ===== *)
theory Lineage_Progress
  imports Lineage_Versions
begin

text \<open>
  How a Shot progresses (\<open>protocol/src/lineage.rs\<close>): genome revisions are accepted one
  by one, and an evolution connects two neighbouring versions under the genome and
  Organ rules of its intent.
\<close>

section \<open>Genome revisions\<close>

lemma saturating_revision:
  assumes "genome_acceptance_validate r = Inr u" "ga_revision r = saturating_add n 1"
  shows "unat (ga_revision r) = unat n + 1"
proof (rule ccontr)
  assume "unat (ga_revision r) \<noteq> unat n + 1"
  then have "ga_revision r = - 1"
    using assms(2) by (auto simp: saturating_add_def unat_word_ariths split: if_splits)
  moreover have "ga_revision r \<le> MAX_SAFE_JSON_INTEGER"
    using assms(1) by (auto simp: genome_acceptance_validate_def validate_safe_positive_def)
  moreover have "\<not> (- 1 :: u64) \<le> 9007199254740991"
    by (simp add: word_le_nat_alt unsigned_minus_1_eq_mask mask_eq_exp_minus_1)
  ultimately show False by (simp add: MAX_SAFE_JSON_INTEGER_def)
qed

definition accepted_revisions :: "signed_lineage_action list \<Rightarrow> nat list" where
  "accepted_revisions xs = map (\<lambda>p. unat (ga_revision (snd p))) (records_of acceptance_of xs)"

definition genome_in_force :: "signed_lineage_action list \<Rightarrow> accepted_genome \<Rightarrow> bool" where
  "genome_in_force xs g \<longleftrightarrow> records_of acceptance_of xs \<noteq> []
     \<and> unat (g_revision (ag_genome g)) = length (records_of acceptance_of xs)
     \<and> (\<exists>p. (ag_proposal_action g, p) \<in> set (records_of proposal_of xs)
          \<and> gp_proposed p = ag_genome g)
     \<and> (\<exists>r. last (records_of acceptance_of xs) = (ag_acceptance_action g, r)
          \<and> ga_proposal_action r = ag_proposal_action g)"

lemma genome_in_force_mono:
  "genome_in_force xs g \<Longrightarrow> acceptance_of (payload (action x)) = None \<Longrightarrow> genome_in_force (xs @ [x]) g"
  by (auto simp: genome_in_force_def records_of_snoc split: option.splits)

lemma reduces_genome:
  assumes "reduces E xs st"
  shows "accepted_revisions xs = [1..<Suc (length (records_of acceptance_of xs))]
    \<and> (case st_accepted_genome st of None \<Rightarrow> records_of acceptance_of xs = []
       | Some g \<Rightarrow> genome_in_force xs g)"
  using assms
proof (induction rule: reduces_induct)
  case (first x st)
  then show ?case
    by (auto simp: reduce_first_ok initial_state_def accepted_revisions_def records_of_def)
next
  case (step xs st x t)
  from step.hyps(2) obtain c t0 where c: "action_commitment E (action x) = Inr c"
    and eff: "payload_effect c (payload (action x)) st t0"
    and t: "st_accepted_genome t = st_accepted_genome t0" by (rule apply_one_effect) simp
  show ?case
  proof (cases "acceptance_of (payload (action x))")
    case None
    then have "st_accepted_genome t = st_accepted_genome st"
      using eff t by (cases "payload (action x)") auto
    with step.IH None show ?thesis
      by (auto simp: accepted_revisions_def records_of_snoc genome_in_force_mono split: option.splits)
  next
    case (Some r)
    then have x: "payload (action x) = GenomeAcceptancePayload r"
      by (cases "payload (action x)") auto
    have digest: "c = ss_digest (signature x)"
      by (rule segment_single_digest [OF step.hyps(3) c])
    from eff x obtain p where
      p: "bt_get (st_genome_proposals st) (ga_proposal_action r) = Some p"
      and rev: "ga_revision r = g_revision (gp_proposed p)"
        "g_revision (gp_proposed p) = (case st_accepted_genome st of None \<Rightarrow> 1
           | Some current \<Rightarrow> saturating_add (g_revision (ag_genome current)) 1)"
      and g: "st_accepted_genome t = Some \<lparr>ag_genome = gp_proposed p,
         ag_proposal_action = ga_proposal_action r, ag_acceptance_action = c\<rparr>"
      using t by auto
    have "(ga_proposal_action r, p) \<in> set (records_of proposal_of xs)"
      using p reduces_replays [OF step.hyps(1)] index_records_get by (auto simp: replays_def)
    moreover have "genome_acceptance_validate r = Inr ()"
      using signed_payload_validate [of E x] reduces_signed [OF step.hyps(4), of x] x by auto
    then have "unat (ga_revision r) = length (records_of acceptance_of xs) + 1"
      using rev step.IH saturating_revision
      by (auto simp: genome_in_force_def split: option.splits)
    ultimately show ?thesis
      using step.IH Some g rev(1) digest
      by (auto simp: accepted_revisions_def records_of_snoc genome_in_force_def)
  qed
qed

text \<open>
  C10: genome revisions are contiguous. The acceptances of a reduced lineage carry the
  revisions 1, 2, \<open>\<dots>\<close> in order, no revision twice and none skipped; the accepted genome
  of the state is the one the last acceptance accepted, its revision is the number of
  acceptances, and it is the genome of a proposal recorded earlier under the commitment
  that acceptance names.
\<close>

theorem genome_revisions_contiguous:
  assumes "reduce_lineage E xs = Inr st"
  shows "accepted_revisions xs = [1..<Suc (length (records_of acceptance_of xs))]
    \<and> (st_accepted_genome st = None \<longleftrightarrow> records_of acceptance_of xs = [])
    \<and> (\<forall>g. st_accepted_genome st = Some g \<longrightarrow> genome_in_force xs g)"
  using reduces_genome [of E xs st] assms
  by (auto simp: reduce_lineage_iff genome_in_force_def split: option.splits)

section \<open>Evolutions\<close>

lemma position_Some:
  "position p xs = Some i \<Longrightarrow> i < length xs \<and> p (xs ! i)"
  by (induction xs arbitrary: i) (auto split: if_splits)

text \<open>
  What an evolution promises: it connects two neighbouring versions of its expression
  under an intent recorded before it; the Organ graph changed exactly if the intent
  declared an Organ change; the genome changed exactly if the intent declared a genome
  change, and then the acceptance it names, of the proposal the intent names, accepted
  the genome of the later version.
\<close>

definition connects :: "evolution \<Rightarrow> evolutionary_intent \<Rightarrow> version_record \<Rightarrow> version_record \<Rightarrow> bool" where
  "connects r intent from to \<longleftrightarrow>
     vr_version_id from = ev_from_version_id r \<and> vr_version_id to = ev_to_version_id r
     \<and> ei_expression_id intent = ev_expression_id r
     \<and> ei_from_version_id intent = ev_from_version_id r
     \<and> (vr_capability_graph_digest from \<noteq> vr_capability_graph_digest to
          \<longleftrightarrow> declares_scope OrganScope intent)
     \<and> (vr_genome_digest from \<noteq> vr_genome_digest to \<longleftrightarrow> declares_scope GenomeScope intent)"

definition genome_change_accepted ::
  "(bytes32 \<times> genome_acceptance) set \<Rightarrow> evolution \<Rightarrow> evolutionary_intent \<Rightarrow> version_record \<Rightarrow> bool" where
  "genome_change_accepted accs r intent to \<longleftrightarrow>
     (declares_scope GenomeScope intent \<longrightarrow>
        (\<exists>k acc. ev_genome_acceptance_action r = Some k \<and> (k, acc) \<in> accs
           \<and> ei_proposed_genome_action intent = Some (ga_proposal_action acc)
           \<and> ga_genome_digest acc = vr_genome_digest to \<and> ga_revision acc = vr_genome_revision to))"

definition evolution_lawful ::
  "signed_lineage_action list \<Rightarrow> shot_state \<Rightarrow> evolution \<Rightarrow> bool" where
  "evolution_lawful xs st r \<longleftrightarrow>
     (\<exists>es i intent. bt_get (st_expressions st) (ev_expression_id r) = Some es
        \<and> Suc i < length (es_versions es)
        \<and> (ev_evolutionary_intent_action r, intent) \<in> set (records_of intent_of xs)
        \<and> connects r intent (es_versions es ! i) (es_versions es ! Suc i)
        \<and> genome_change_accepted (set (records_of acceptance_of xs)) r intent (es_versions es ! Suc i))"

lemma evolution_lawful_mono:
  assumes "evolution_lawful xs st r" "state_extends st t"
  shows "evolution_lawful (xs @ ys) t r"
proof -
  from assms(1) obtain es i intent where
    es: "bt_get (st_expressions st) (ev_expression_id r) = Some es" "Suc i < length (es_versions es)"
    "(ev_evolutionary_intent_action r, intent) \<in> set (records_of intent_of xs)"
    "connects r intent (es_versions es ! i) (es_versions es ! Suc i)"
    "genome_change_accepted (set (records_of acceptance_of xs)) r intent (es_versions es ! Suc i)"
    by (auto simp: evolution_lawful_def)
  from assms(2) es(1) obtain fs where fs: "bt_get (st_expressions t) (ev_expression_id r) = Some fs"
    "expression_extends es fs" unfolding state_extends_def by blast
  then obtain zs where zs: "es_versions fs = es_versions es @ zs"
    by (auto simp: expression_extends_def prefix_def)
  have "genome_change_accepted (set (records_of acceptance_of (xs @ ys))) r intent (es_versions es ! Suc i)"
    using es(5) by (auto simp: genome_change_accepted_def records_of_append)
  with es fs(1) zs show ?thesis
    unfolding evolution_lawful_def
    by (intro exI [of _ fs] exI [of _ i] exI [of _ intent]) (auto simp: nth_append records_of_append)
qed

lemma evolution_genome_checks_ok:
  assumes "evolution_genome_checks fail st intent to r = Inr u"
    and "evolutionary_intent_validate intent = Inr ()"
  shows "ev_from_genome_digest r \<noteq> ev_to_genome_digest r \<longleftrightarrow> declares_scope GenomeScope intent"
    and "ev_from_genome_digest r \<noteq> ev_to_genome_digest r \<Longrightarrow>
      \<exists>k acc. ev_genome_acceptance_action r = Some k \<and> bt_get (st_genome_acceptances st) k = Some acc
        \<and> ei_proposed_genome_action intent = Some (ga_proposal_action acc)
        \<and> ga_genome_digest acc = ev_to_genome_digest r \<and> ga_revision acc = vr_genome_revision to"
  using assms
  by (auto simp: evolution_genome_checks_def evolutionary_intent_validate_def split: if_splits)

lemma versions_below_2_64:
  assumes "versions_wf k vs" "i < length vs"
  shows "i + 1 < 2 ^ 64"
proof -
  have "unat (vr_ordinal (vs ! i)) < 2 ^ 64" using unsigned_less [of "vr_ordinal (vs ! i)"] by simp
  with assms show ?thesis by (simp add: versions_wf_def)
qed

lemma apply_evolution_lawful:
  assumes "apply_evolution fail c a r st = Inr t" and "reduces E xs st"
  shows "evolution_lawful xs st r"
proof -
  from assms(1) obtain intent es i j where
    intent: "bt_get (st_evolutionary_intents st) (ev_evolutionary_intent_action r) = Some intent"
    and match: "ei_expression_id intent = ev_expression_id r" "ei_from_version_id intent = ev_from_version_id r"
    and es: "bt_get (st_expressions st) (ev_expression_id r) = Some es"
    and i: "position (\<lambda>v. vr_version_id v = ev_from_version_id r) (es_versions es) = Some i"
    and j: "position (\<lambda>v. vr_version_id v = ev_to_version_id r) (es_versions es) = Some j"
    and ij: "j = usize_saturating_inc i"
    and genome: "vr_genome_digest (es_versions es ! i) = ev_from_genome_digest r"
      "vr_genome_digest (es_versions es ! j) = ev_to_genome_digest r"
    and organ: "vr_capability_graph_digest (es_versions es ! i) \<noteq> vr_capability_graph_digest (es_versions es ! j)
      \<longleftrightarrow> declares_scope OrganScope intent"
    and checks: "evolution_genome_checks fail st intent (es_versions es ! j) r = Inr ()"
    by (auto simp: apply_evolution_def Let_def)
  have "versions_wf (ev_expression_id r) (es_versions es)"
    using reduces_wf [OF assms(2)] es by (auto simp: state_wf_def expressions_wf_def expression_wf_def)
  from versions_below_2_64 [OF this] have "i + 1 < 2 ^ 64" using position_Some [OF i] by blast
  then have "j = Suc i" using ij by (simp add: usize_saturating_inc_def)
  have recs: "(ev_evolutionary_intent_action r, intent) \<in> set (records_of intent_of xs)"
    "\<And>k acc. bt_get (st_genome_acceptances st) k = Some acc \<Longrightarrow> (k, acc) \<in> set (records_of acceptance_of xs)"
    using reduces_replays [OF assms(2)] intent index_records_get by (auto simp: replays_def)
  from recs(1) obtain y where "y \<in> set xs" "intent_of (payload (action y)) = Some intent"
    by (elim records_of_mem) auto
  then have valid: "evolutionary_intent_validate intent = Inr ()"
    using signed_payload_validate [of E y] reduces_signed [OF assms(2), of y]
    by (cases "payload (action y)") auto
  have "genome_change_accepted (set (records_of acceptance_of xs)) r intent (es_versions es ! j)"
    using evolution_genome_checks_ok [OF checks valid] recs(2) genome
    unfolding genome_change_accepted_def by metis
  moreover have "connects r intent (es_versions es ! i) (es_versions es ! j)"
    using position_Some [OF i] position_Some [OF j] match organ genome
      evolution_genome_checks_ok(1) [OF checks valid] by (simp add: connects_def)
  ultimately show ?thesis
    using es recs(1) position_Some [OF j] \<open>j = Suc i\<close>
    unfolding evolution_lawful_def by blast
qed

text \<open>
  C11: evolutions are lawful. Every evolution recorded in a reduced state satisfies, in
  that state and for good, the rule above.
\<close>

theorem evolutions_lawful:
  assumes "reduce_lineage E xs = Inr st" and "(c, r) \<in> set (st_evolutions st)"
  shows "evolution_lawful xs st r"
proof -
  from assms(1) have "reduces E xs st" by (simp add: reduce_lineage_iff)
  then show ?thesis using assms(2)
  proof (induction rule: reduces_induct)
    case (first x st)
    then show ?case by (auto simp: reduce_first_ok initial_state_def)
  next
    case (step xs st x t)
    have ext: "state_extends st t" using step.hyps(2) by (rule lineage.step_le)
    show ?case
    proof (cases "(c, r) \<in> set (st_evolutions st)")
      case True
      with step.IH ext show ?thesis by (blast intro: evolution_lawful_mono)
    next
      case False
      from step.hyps(2) obtain c' t0 where
        app: "apply_payload E (action_error (sequence (action x))) c' (action x) (payload (action x)) st
          = Inr t0" and t: "st_evolutions t = st_evolutions t0" by (auto simp: apply_one_ok)
      have "payload (action x) = EvolutionPayload r"
        using apply_payload_effect [OF app] step.prems False t by (cases "payload (action x)") auto
      with app have "evolution_lawful xs st r"
        using apply_evolution_lawful [OF _ step.hyps(1)] by simp
      with ext show ?thesis by (blast intro: evolution_lawful_mono)
    qed
  qed
qed

end
