(* ===== verification/Legacy_Lineage.thy ===== *)
theory Legacy_Lineage
  imports Commitments
begin

text \<open>
  The frozen first generation: what \<open>verify_lineage\<close> (\<open>protocol/src/evolution.rs\<close>)
  accepts, and that \<open>adapt_v1_lineage\<close> (\<open>protocol/src/lineage.rs\<close>) projects it without
  rewriting history.
\<close>

section \<open>The verified chain\<close>

lemma record_verify_signatureD:
  assumes "record_verify_signature E r sc = Inr u"
  shows "shot_record_commitment E r = Inr (ss_digest sc)"
  using assms sidecar_verifyD(1) [of E sc "shot_record_json r"]
  by (auto simp: record_verify_signature_def shot_record_commitment_def)

definition evolution_of_entry :: "v1_entry \<Rightarrow> verified_evolution" where
  "evolution_of_entry e = \<lparr>ve_sequence = sr_sequence (fst e), ve_commitment = ss_digest (snd e),
     ve_signer = ss_public_key (snd e)\<rparr>"

text \<open>What an entry shares with the root, whatever its position.\<close>

definition same_shot :: "shot_record \<Rightarrow> shot_record \<Rightarrow> bool" where
  "same_shot root r \<longleftrightarrow> sr_shot_id r = sr_shot_id root \<and> sr_builder_id r = sr_builder_id root
     \<and> sr_bundle_id r = sr_bundle_id root \<and> sr_fascia r = sr_fascia root"

definition v1_entry_spec :: "externals \<Rightarrow> shot_record \<Rightarrow> v1_entry \<Rightarrow> bool" where
  "v1_entry_spec E root e \<longleftrightarrow> record_verify_signature E (fst e) (snd e) = Inr ()
     \<and> same_shot root (fst e) \<and> is_ok (unix_timestamp E (sr_created_at (fst e)))"

definition v1_follows :: "externals \<Rightarrow> v1_entry \<Rightarrow> v1_entry \<Rightarrow> bool" where
  "v1_follows E d e \<longleftrightarrow> unat (sr_sequence (fst e)) = unat (sr_sequence (fst d)) + 1
     \<and> sr_origin (fst e) = None \<and> sr_previous (fst e) = Some (ss_digest (snd d))
     \<and> (\<exists>t u. unix_timestamp E (sr_created_at (fst d)) = Inr t
          \<and> unix_timestamp E (sr_created_at (fst e)) = Inr u \<and> t \<le> u)"

definition v1_spec :: "externals \<Rightarrow> v1_entry list \<Rightarrow> bool" where
  "v1_spec E xs \<longleftrightarrow> xs \<noteq> [] \<and> list_all (v1_entry_spec E (fst (hd xs))) xs
     \<and> successively (v1_follows E) xs \<and> sr_previous (fst (hd xs)) = None"

lemma v1_entry_checks_ok:
  "v1_entry_checks E root n i pc pt e = Inr u \<longleftrightarrow>
     unat (sr_sequence (fst e)) = unat n + i
     \<and> (0 < i \<longrightarrow> sr_origin (fst e) = None) \<and> same_shot root (fst e)
     \<and> sr_previous (fst e) = pc \<and> v1_time_checks E (fst e) pt = Inr ()
     \<and> record_verify_signature E (fst e) (snd e) = Inr ()"
proof (cases "i < 2 ^ 32")
  case True
  then have "unat (of_nat i :: u32) = i" by (simp add: unat_of_nat)
  then have "(\<exists>m. checked_add n (of_nat i) = Some m \<and> sr_sequence (fst e) = m) \<longleftrightarrow>
      unat (sr_sequence (fst e)) = unat n + i"
    by (auto simp: checked_add_eq_Some_iff)
  with True show ?thesis
    by (auto simp: v1_entry_checks_def Let_def same_shot_def)
next
  case False
  have "unat (sr_sequence (fst e)) < 2 ^ 32" using unsigned_less [of "sr_sequence (fst e)"] by simp
  with False show ?thesis by (auto simp: v1_entry_checks_def Let_def)
qed

lemma v1_time_checks_Some:
  "v1_time_checks E r (Some t) = Inr () \<longleftrightarrow>
     (\<exists>u. unix_timestamp E (sr_created_at r) = Inr u \<and> t \<le> u)"
  by (auto simp: v1_time_checks_def not_less)

text \<open>The loop, entered after an entry was read.\<close>

lemma v1_loop_Cons:
  "v1_loop E root n i pc pt (e # es) = Inr evs \<longleftrightarrow>
     v1_entry_checks E root n i pc pt e = Inr ()
     \<and> (\<exists>u evs'. unix_timestamp E (sr_created_at (fst e)) = Inr u
          \<and> v1_loop E root n (Suc i) (Some (ss_digest (snd e))) (Some u) es = Inr evs'
          \<and> evs = evolution_of_entry e # evs')"
proof -
  have "shot_record_commitment E (fst e) = Inr (ss_digest (snd e))"
    if "v1_entry_checks E root n i pc pt e = Inr ()"
    using that by (auto simp: v1_entry_checks_ok dest: record_verify_signatureD)
  then show ?thesis by (auto simp: Let_def evolution_of_entry_def)
qed

lemma v1_loop_follows:
  assumes "unat (sr_sequence (fst d)) + 1 = unat n + i" "0 < i"
    and "unix_timestamp E (sr_created_at (fst d)) = Inr t"
  shows "v1_loop E root n i (Some (ss_digest (snd d))) (Some t) es = Inr evs \<longleftrightarrow>
    list_all (v1_entry_spec E root) es \<and> successively (v1_follows E) (d # es)
    \<and> evs = map evolution_of_entry es"
  using assms
proof (induction es arbitrary: d i t evs)
  case (Cons e es)
  have step: "v1_entry_checks E root n i (Some (ss_digest (snd d))) (Some t) e = Inr ()
      \<and> unix_timestamp E (sr_created_at (fst e)) = Inr u \<longleftrightarrow>
      v1_entry_spec E root e \<and> v1_follows E d e \<and> unix_timestamp E (sr_created_at (fst e)) = Inr u" for u
    using Cons.prems
    by (auto simp: v1_entry_checks_ok v1_entry_spec_def v1_follows_def v1_time_checks_Some)
  have rest: "v1_loop E root n (Suc i) (Some (ss_digest (snd e))) (Some u) es = Inr evs' \<longleftrightarrow>
      list_all (v1_entry_spec E root) es \<and> successively (v1_follows E) (e # es)
      \<and> evs' = map evolution_of_entry es"
    if "v1_follows E d e" "unix_timestamp E (sr_created_at (fst e)) = Inr u" for u evs'
    using that Cons.prems by (intro Cons.IH) (auto simp: v1_follows_def)
  have "v1_loop E root n i (Some (ss_digest (snd d))) (Some t) (e # es) = Inr evs \<longleftrightarrow>
      (\<exists>u evs'. (v1_entry_spec E root e \<and> v1_follows E d e \<and> unix_timestamp E (sr_created_at (fst e)) = Inr u)
        \<and> v1_loop E root n (Suc i) (Some (ss_digest (snd e))) (Some u) es = Inr evs'
        \<and> evs = evolution_of_entry e # evs')"
    unfolding v1_loop_Cons using step by blast
  also have "\<dots> \<longleftrightarrow> (\<exists>u. v1_entry_spec E root e \<and> v1_follows E d e
        \<and> unix_timestamp E (sr_created_at (fst e)) = Inr u
        \<and> list_all (v1_entry_spec E root) es \<and> successively (v1_follows E) (e # es)
        \<and> evs = evolution_of_entry e # map evolution_of_entry es)"
    using rest by blast
  also have "\<dots> \<longleftrightarrow> list_all (v1_entry_spec E root) (e # es) \<and> successively (v1_follows E) (d # e # es)
      \<and> evs = map evolution_of_entry (e # es)"
    by (auto simp: v1_entry_spec_def)
  finally show ?case .
qed auto

lemma v1_loop_root:
  "v1_loop E root (sr_sequence root) 0 None None ((root, sc) # es) = Inr evs \<longleftrightarrow>
     list_all (v1_entry_spec E root) ((root, sc) # es) \<and> successively (v1_follows E) ((root, sc) # es)
     \<and> sr_previous root = None \<and> evs = map evolution_of_entry ((root, sc) # es)"
proof -
  have rest: "v1_loop E root (sr_sequence root) (Suc 0) (Some (ss_digest sc)) (Some u) es = Inr evs' \<longleftrightarrow>
      list_all (v1_entry_spec E root) es \<and> successively (v1_follows E) ((root, sc) # es)
      \<and> evs' = map evolution_of_entry es"
    if "unix_timestamp E (sr_created_at root) = Inr u" for u evs'
    using that v1_loop_follows [of "(root, sc)" "sr_sequence root" 1 E u root es evs'] by simp
  show ?thesis
    unfolding v1_loop_Cons v1_entry_checks_ok
    using rest by (auto simp: same_shot_def v1_time_checks_def v1_entry_spec_def)
qed

definition v1_summary :: "v1_entry list \<Rightarrow> verified_lineage" where
  "v1_summary xs = (let root = fst (hd xs) in
     \<lparr>vl_shot_id = sr_shot_id root, vl_builder_id = sr_builder_id root,
      vl_root_sequence = sr_sequence root,
      vl_legacy_latest_shot = record_legacy_latest_shot root,
      vl_evolutions = map evolution_of_entry xs\<rparr>)"

lemma v1_root_sequence_ok:
  assumes "shot_record_validate r = Inr ()"
  shows "v1_root_sequence r = Inr n \<longleftrightarrow> sr_previous r = None \<and> n = sr_sequence r"
  using assms
  by (cases "sr_origin r")
    (auto simp: v1_root_sequence_def record_legacy_latest_shot_def shot_record_validate_def
      record_origin_checks_def split: shot_origin.splits if_splits)

lemma verify_lineage_iff:
  "verify_lineage E xs = Inr l \<longleftrightarrow> v1_spec E xs \<and> l = v1_summary xs"
proof (cases xs)
  case (Cons e es)
  obtain root sc where e: "e = (root, sc)" by (cases e)
  have valid: "shot_record_validate root = Inr ()"
    if "record_verify_signature E root sc = Inr ()"
    using that by (simp add: record_verify_signature_def)
  have "verify_lineage E xs = Inr l \<longleftrightarrow> shot_record_validate root = Inr ()
      \<and> (\<exists>n evs. v1_root_sequence root = Inr n
           \<and> v1_loop E root n 0 None None xs = Inr evs
           \<and> l = \<lparr>vl_shot_id = sr_shot_id root, vl_builder_id = sr_builder_id root,
                   vl_root_sequence = n,
                   vl_legacy_latest_shot = record_legacy_latest_shot root,
                   vl_evolutions = evs\<rparr>)"
    using Cons e by (auto simp: verify_lineage_def)
  also have "\<dots> \<longleftrightarrow> shot_record_validate root = Inr () \<and> sr_previous root = None
      \<and> (\<exists>evs. v1_loop E root (sr_sequence root) 0 None None xs = Inr evs
           \<and> l = \<lparr>vl_shot_id = sr_shot_id root, vl_builder_id = sr_builder_id root,
                   vl_root_sequence = sr_sequence root,
                   vl_legacy_latest_shot = record_legacy_latest_shot root,
                   vl_evolutions = evs\<rparr>)"
    by (auto simp: v1_root_sequence_ok)
  also have "\<dots> \<longleftrightarrow> v1_spec E xs \<and> l = v1_summary xs"
    using valid Cons e unfolding Cons e v1_loop_root
    by (auto simp: v1_spec_def v1_summary_def v1_entry_spec_def)
  finally show ?thesis .
qed (simp add: verify_lineage_def v1_spec_def)

text \<open>
  C34: verification of a first-generation lineage accepts exactly the non-empty lists in
  which every record is validly signed and belongs to the Shot, builder, bundle and
  Fascia of the root, the root refers to nothing before it, and every later record
  carries the next sequence number, no adoption origin, the commitment of the record
  before it and a creation time not earlier; the result lists sequence, commitment and
  signer of every record.
\<close>

theorem legacy_verification_exact:
  "verify_lineage E xs = Inr l \<longleftrightarrow> v1_spec E xs \<and> l = v1_summary xs"
  by (rule verify_lineage_iff)

section \<open>The head determines the records\<close>

lemma v1_spec_signed:
  "v1_spec E xs \<Longrightarrow> e \<in> set xs \<Longrightarrow> shot_record_commitment E (fst e) = Inr (ss_digest (snd e))"
  by (auto simp: v1_spec_def list_all_iff v1_entry_spec_def dest: record_verify_signatureD)

lemma v1_spec_chain:
  assumes "v1_spec E xs"
  shows "record_chain.chain E (map fst xs)"
proof -
  have "successively (\<lambda>d e. record_chain.linked E (fst d) (fst e)) xs"
    unfolding successively_conv_nth
  proof (intro allI impI)
    fix i assume i: "Suc i < length xs"
    then have "v1_follows E (xs ! i) (xs ! Suc i)"
      using assms by (auto simp: v1_spec_def successively_conv_nth)
    moreover have "shot_record_commitment E (fst (xs ! i)) = Inr (ss_digest (snd (xs ! i)))"
      using v1_spec_signed [OF assms] i by simp
    ultimately show "record_chain.linked E (fst (xs ! i)) (fst (xs ! Suc i))"
      by (simp add: record_chain.linked_def v1_follows_def)
  qed
  with assms show ?thesis
    by (auto simp: record_chain.chain_def v1_spec_def hd_map successively_map)
qed

text \<open>
  the head of a verified first-generation lineage determines its records: two
  verified lineages with the same head commitment hold the same records, or two of
  their records are different documents with one commitment.
\<close>

lemma legacy_head_determines_records:
  assumes "verify_lineage E xs = Inr l" and "verify_lineage E ys = Inr m"
    and "map_option ve_commitment (verified_lineage_head l)
      = map_option ve_commitment (verified_lineage_head m)"
  shows "map fst xs = map fst ys
    \<or> (\<exists>x \<in> set xs. \<exists>y \<in> set ys.
         commitment_collision E (shot_record_json (fst x)) (shot_record_json (fst y)))"
proof -
  from assms(1,2) have spec: "v1_spec E xs" "v1_spec E ys"
    and lm: "l = v1_summary xs" "m = v1_summary ys" by (auto simp: verify_lineage_iff)
  have ne: "xs \<noteq> []" "ys \<noteq> []" using spec by (auto simp: v1_spec_def)
  have "ss_digest (snd (last xs)) = ss_digest (snd (last ys))"
    using assms(3) ne by (simp add: lm verified_lineage_head_def v1_summary_def Let_def last_map
        evolution_of_entry_def)
  then have "shot_record_commitment E (last (map fst xs)) = Inr (ss_digest (snd (last xs)))"
    "shot_record_commitment E (last (map fst ys)) = Inr (ss_digest (snd (last xs)))"
    using v1_spec_signed [OF spec(1)] v1_spec_signed [OF spec(2)] ne by (simp_all add: last_map)
  from record_chain.chain_determined [OF v1_spec_chain [OF spec(1)] v1_spec_chain [OF spec(2)] this]
  show ?thesis by auto
qed

section \<open>The projection\<close>

definition adapted_entry :: "externals \<Rightarrow> expression_id \<Rightarrow> v1_entry \<Rightarrow> legacy_v1_entry" where
  "adapted_entry E x e = \<lparr>lv_record = fst e, lv_signature = snd e,
     lv_record_commitment = ss_digest (snd e),
     lv_version_id = version_id_for_legacy_v1 E (sr_shot_id (fst e)) x (sr_sequence (fst e))
       (ss_digest (snd e))\<rparr>"

lemma project_v1_entries_ok:
  assumes "\<forall>e \<in> set xs. shot_record_commitment E (fst e) = Inr (ss_digest (snd e))"
  shows "project_v1_entries E x xs = Inr (map (adapted_entry E x) xs)"
  using assms
proof (induction xs)
  case (Cons e xs)
  then show ?case by (cases e) (simp add: adapted_entry_def)
qed simp

lemma remdups_single: "remdups xs = [d] \<longleftrightarrow> xs \<noteq> [] \<and> (\<forall>x \<in> set xs. x = d)"
proof
  assume r: "remdups xs = [d]"
  then have "set xs = {d}" by (metis list.set(1) list.simps(15) set_remdups)
  with r show "xs \<noteq> [] \<and> (\<forall>x \<in> set xs. x = d)" by auto
next
  assume "xs \<noteq> [] \<and> (\<forall>x \<in> set xs. x = d)"
  then have set: "set xs = {d}" by (cases xs) auto
  then have "length (remdups xs) = 1" by (simp add: length_remdups_card_conv)
  then obtain e where e: "remdups xs = [e]" by (auto simp: length_Suc_conv)
  then have "set [e] = {d}" using set by (metis set_remdups)
  with e show "remdups xs = [d]" by simp
qed

lemma case_single:
  "(case xs of [d] \<Rightarrow> Some d | _ \<Rightarrow> None) = Some x \<longleftrightarrow> xs = [x]"
  by (auto split: list.splits)

definition adapted_spec :: "externals \<Rightarrow> v1_entry list \<Rightarrow> adapted_v1_lineage \<Rightarrow> bool" where
  "adapted_spec E xs a \<longleftrightarrow>
     map (\<lambda>e. (lv_record e, lv_signature e)) (ad1_entries a) = xs
     \<and> (\<forall>e \<in> set (ad1_entries a). shot_record_commitment E (lv_record e) = Inr (lv_record_commitment e)
          \<and> lv_version_id e = version_id_for_legacy_v1 E (ad1_shot_id a) (ad1_expression_id a)
              (sr_sequence (lv_record e)) (lv_record_commitment e)
          \<and> sr_builder_id (lv_record e) = ad1_controller a)
     \<and> ad1_head a = lv_record_commitment (last (ad1_entries a))
     \<and> (\<forall>d. ad1_intention_commitment a = Some d \<longleftrightarrow> (\<forall>e \<in> set xs. sr_genesis_input_sha256 (fst e) = d))
     \<and> ad1_intention_availability a = Unknown \<and> ad1_genome_availability a = Unknown"

lemma adapt_v1_lineage_ok:
  assumes spec: "v1_spec E xs"
  defines "x \<equiv> expression_id_for_legacy_v1 E (sr_shot_id (fst (hd xs))) (sr_bundle_id (fst (hd xs)))"
  shows "adapt_v1_lineage E xs = Inr \<lparr>ad1_shot_id = sr_shot_id (fst (hd xs)),
    ad1_controller = sr_builder_id (fst (hd xs)), ad1_expression_id = x,
    ad1_intention_commitment = (case remdups (map (\<lambda>(r, _). sr_genesis_input_sha256 r) xs) of
       [d] \<Rightarrow> Some d | _ \<Rightarrow> None),
    ad1_intention_availability = Unknown, ad1_genome_availability = Unknown,
    ad1_entries = map (adapted_entry E x) xs, ad1_head = ss_digest (snd (last xs))\<rparr>"
proof -
  have "verify_lineage E xs = Inr (v1_summary xs)" using spec by (simp add: verify_lineage_iff)
  moreover have "project_v1_entries E x xs = Inr (map (adapted_entry E x) xs)"
    using v1_spec_signed [OF spec] by (blast intro: project_v1_entries_ok)
  moreover obtain r sc es where xs: "xs = (r, sc) # es" using spec by (cases xs) (auto simp: v1_spec_def)
  moreover from this have "verified_lineage_head (v1_summary xs) = Some (evolution_of_entry (last xs))"
    by (simp add: verified_lineage_head_def v1_summary_def Let_def last_map)
  ultimately show ?thesis
    unfolding adapt_v1_lineage_def by (simp add: x_def v1_summary_def Let_def evolution_of_entry_def)
qed

text \<open>
  The projection of a first-generation lineage is honest. It succeeds exactly when
  the lineage verifies; it keeps every record and signature unchanged and in order; every
  entry carries its own commitment and the version identifier derived from it; all
  records belong to the projected controller; the head is the last commitment; an
  intention is claimed only if all records carry the same genesis digest; and neither
  intention nor genome bytes are claimed to be available.
\<close>

lemma legacy_projection_honest:
  "(\<exists>l. verify_lineage E xs = Inr l) \<longleftrightarrow> (\<exists>a. adapt_v1_lineage E xs = Inr a \<and> adapted_spec E xs a)"
proof
  assume "\<exists>l. verify_lineage E xs = Inr l"
  then have spec: "v1_spec E xs" by (auto simp: verify_lineage_iff)
  obtain shot builder where root: "sr_shot_id (fst (hd xs)) = shot"
    "sr_builder_id (fst (hd xs)) = builder" by blast
  have ne: "xs \<noteq> []" using spec by (auto simp: v1_spec_def)
  have same: "\<forall>e \<in> set xs. sr_shot_id (fst e) = shot \<and> sr_builder_id (fst e) = builder"
    using spec by (auto simp: v1_spec_def list_all_iff v1_entry_spec_def same_shot_def root)
  have "map ((\<lambda>e. (lv_record e, lv_signature e)) \<circ> adapted_entry E x) xs = xs" for x
    by (rule map_idI) (simp add: adapted_entry_def)
  then show "\<exists>a. adapt_v1_lineage E xs = Inr a \<and> adapted_spec E xs a"
    unfolding adapt_v1_lineage_ok [OF spec] root
    using ne same v1_spec_signed [OF spec]
    by (simp add: adapted_spec_def adapted_entry_def case_single remdups_single last_map split_beta)
next
  assume "\<exists>a. adapt_v1_lineage E xs = Inr a \<and> adapted_spec E xs a"
  then show "\<exists>l. verify_lineage E xs = Inr l" by (auto simp: adapt_v1_lineage_def)
qed

end
