(* ===== verification/Actions.thy ===== *)
theory Actions
  imports Identity
begin

text \<open>
  \<open>protocol/src/actions.rs\<close>: the EIP-712 typed data the Shot contracts verify.
  Four closed action families (registry generation 0.8, the frozen 0.7 public
  actions, device actions, BuilderAccount generation 0.8), each with its
  validation, its struct hash and its domain-separated digest, and the signed
  envelopes; with the words and hashes they are made of.
\<close>

section \<open>Type strings and domains\<close>

definition EIP712_DOMAIN_TYPE :: string where
  "EIP712_DOMAIN_TYPE =
     ''EIP712Domain(string name,string version,uint256 chainId,address verifyingContract)''"
definition BUILDER_ACCOUNT_DOMAIN :: string where
  "BUILDER_ACCOUNT_DOMAIN = ''TOHSENO BuilderAccount''"
definition SHOT_REGISTRY_DOMAIN :: string where
  "SHOT_REGISTRY_DOMAIN = ''TOHSENO ShotRegistry''"
definition SHOT_RELATIONS_DOMAIN :: string where
  "SHOT_RELATIONS_DOMAIN = ''TOHSENO ShotRelations''"
definition EIP712_VERSION :: string where
  "EIP712_VERSION = ''1''"
definition PUBLIC_ACTION_SCHEMA :: string where
  "PUBLIC_ACTION_SCHEMA = ''tohseno.public-action/1''"
definition SHOT_REGISTRY_V2_EIP712_VERSION :: string where
  "SHOT_REGISTRY_V2_EIP712_VERSION = ''2''"
definition REGISTRY_ACTION_V2_SCHEMA :: string where
  "REGISTRY_ACTION_V2_SCHEMA = ''tohseno.registry-action/2''"

definition CREATE_SHOT_TYPE :: string where
  "CREATE_SHOT_TYPE = ''CreateShot(bytes32 shotId,address controller,bytes32 head,uint64 sequence,uint8 publicState,bytes32 contentCommitment,uint64 nonce,uint64 deadline)''"
definition APPEND_EVOLUTION_TYPE :: string where
  "APPEND_EVOLUTION_TYPE = ''AppendEvolution(bytes32 shotId,bytes32 previousHead,bytes32 newHead,uint64 sequence,bytes32 contentCommitment,uint64 nonce,uint64 deadline)''"
definition TRANSFER_SHOT_TYPE :: string where
  "TRANSFER_SHOT_TYPE = ''TransferShot(bytes32 shotId,address currentController,address newController,bytes32 currentHead,uint64 sequence,uint64 nonce,uint64 deadline)''"
definition SET_PUBLIC_STATE_TYPE :: string where
  "SET_PUBLIC_STATE_TYPE = ''SetPublicState(bytes32 shotId,bytes32 currentHead,uint64 sequence,uint8 publicState,bytes32 contentCommitment,uint64 nonce,uint64 deadline)''"
definition AUTHORIZE_DEVICE_TYPE :: string where
  "AUTHORIZE_DEVICE_TYPE = ''AuthorizeDevice(address account,bytes32 keyId,uint256 x,uint256 y,uint32 permissions,uint64 nonce,uint64 deadline)''"
definition REVOKE_DEVICE_TYPE :: string where
  "REVOKE_DEVICE_TYPE = ''RevokeDevice(address account,bytes32 keyId,uint64 nonce,uint64 deadline)''"
definition SET_RECOVERY_TYPE :: string where
  "SET_RECOVERY_TYPE = ''SetRecovery(address account,address recovery,uint64 nonce,uint64 deadline)''"
definition RECOVER_ACCOUNT_TYPE :: string where
  "RECOVER_ACCOUNT_TYPE = ''RecoverAccount(address account,address currentRecovery,address newRecovery,bytes32 newKeyId,uint256 newX,uint256 newY,uint64 nonce,uint64 deadline)''"
definition CHANGE_RECOVERY_TYPE :: string where
  "CHANGE_RECOVERY_TYPE = ''ChangeRecovery(address account,address currentRecovery,address newRecovery,uint64 nonce,uint64 deadline)''"
definition INITIATE_RECOVERY_TYPE :: string where
  "INITIATE_RECOVERY_TYPE = ''InitiateRecovery(address account,address currentRecovery,address newRecovery,bytes32 newKeyId,uint256 newX,uint256 newY,uint64 nonce,uint64 deadline)''"
definition CANCEL_RECOVERY_TYPE :: string where
  "CANCEL_RECOVERY_TYPE = ''CancelRecovery(address account,bytes32 recoveryId,uint64 nonce,uint64 deadline)''"
definition CLAIM_HANDLE_TYPE :: string where
  "CLAIM_HANDLE_TYPE = ''ClaimHandle(bytes32 shotId,bytes32 handleHash,uint64 nonce,uint64 deadline)''"
definition RELEASE_HANDLE_TYPE :: string where
  "RELEASE_HANDLE_TYPE = ''ReleaseHandle(bytes32 shotId,bytes32 handleHash,uint64 nonce,uint64 deadline)''"
definition ASSOCIATE_APPCOIN_TYPE :: string where
  "ASSOCIATE_APPCOIN_TYPE = ''AssociateAppcoin(bytes32 shotId,uint256 chainId,address token,uint64 nonce,uint64 deadline)''"
definition REMOVE_APPCOIN_TYPE :: string where
  "REMOVE_APPCOIN_TYPE = ''RemoveAppcoin(bytes32 shotId,uint256 chainId,address token,uint64 nonce,uint64 deadline)''"
definition ATTEST_APP_STORE_TYPE :: string where
  "ATTEST_APP_STORE_TYPE = ''AttestAppStore(bytes32 shotId,bytes32 bundleIdHash,uint64 storeId,bytes32 evolutionHead,uint64 nonce,uint64 deadline)''"
definition SHOT_REGISTRATION_COMMITMENT_V2_TYPE :: string where
  "SHOT_REGISTRATION_COMMITMENT_V2_TYPE = ''ShotRegistrationCommitment(address controller,bytes32 shotId,bytes32 salt,address registry,uint256 chainId,uint64 deadline)''"
definition REGISTER_SHOT_V2_TYPE :: string where
  "REGISTER_SHOT_V2_TYPE = ''RegisterShot(bytes32 shotId,address controller,bytes32 head,bytes32 salt,uint64 nonce,uint64 deadline)''"
definition APPEND_CHECKPOINT_V2_TYPE :: string where
  "APPEND_CHECKPOINT_V2_TYPE = ''AppendCheckpoint(bytes32 shotId,bytes32 previousHead,bytes32 newHead,uint64 checkpointSequence,uint64 nonce,uint64 deadline)''"
definition TRANSFER_SHOT_V2_TYPE :: string where
  "TRANSFER_SHOT_V2_TYPE = ''TransferShot(bytes32 shotId,address currentController,address newController,bytes32 currentHead,uint64 checkpointSequence,uint64 nonce,uint64 deadline)''"

definition PERMISSION_PROTOCOL :: u32 where "PERMISSION_PROTOCOL = 1"
definition PERMISSION_DEVICE_ADMIN :: u32 where "PERMISSION_DEVICE_ADMIN = 2"
definition PERMISSION_ALL :: u32 where
  "PERMISSION_ALL = or PERMISSION_PROTOCOL PERMISSION_DEVICE_ADMIN"

section \<open>Words and hashes\<close>

definition hash_words :: "externals \<Rightarrow> bytes32 list \<Rightarrow> bytes32" where
  "hash_words E words = keccak256 E (concat (map to_be_bytes words))"

definition type_hash :: "externals \<Rightarrow> string \<Rightarrow> bytes32" where
  "type_hash E type_string = keccak256 E (str_bytes type_string)"

definition eip712_preimage :: "bytes32 \<Rightarrow> bytes32 \<Rightarrow> byte list" where
  "eip712_preimage domain_separator struct_hash =
     [0x19, 0x01] @ to_be_bytes domain_separator @ to_be_bytes struct_hash"

definition eip712_digest :: "externals \<Rightarrow> bytes32 \<Rightarrow> bytes32 \<Rightarrow> bytes32" where
  "eip712_digest E domain_separator struct_hash =
     keccak256 E (eip712_preimage domain_separator struct_hash)"

definition address_word :: "address20 \<Rightarrow> bytes32" where
  "address_word a = from_be_bytes (replicate 12 0 @ to_be_bytes a)"

definition u64_word :: "u64 \<Rightarrow> bytes32" where
  "u64_word v = from_be_bytes (replicate 24 0 @ to_be_bytes v)"

definition u32_word :: "u32 \<Rightarrow> bytes32" where
  "u32_word v = from_be_bytes (replicate 28 0 @ to_be_bytes v)"

definition u8_word :: "u8 \<Rightarrow> bytes32" where
  "u8_word v = from_be_bytes (replicate 31 0 @ [v])"

definition nonzero_address :: "string \<Rightarrow> address20 \<Rightarrow> unit result" where
  "nonzero_address field value =
     err_if (address_is_zero value) (invalid field ''must not be the zero address'')"

definition nonzero_bytes32 :: "string \<Rightarrow> bytes32 \<Rightarrow> unit result" where
  "nonzero_bytes32 field value = err_if (value = 0) (invalid field ''must not be zero'')"

section \<open>Domains\<close>

record eip712_domain =
  dom_name :: string
  dom_version :: string
  dom_chain_id :: u64
  dom_verifying_contract :: address20

definition validate_for_version :: "eip712_domain \<Rightarrow> string \<Rightarrow> string \<Rightarrow> unit result" where
  "validate_for_version d expected_name expected_version = checks [
     err_if (dom_name d \<noteq> expected_name) (invalid ''domain.name'' (''must be '' @ expected_name)),
     err_if (dom_version d \<noteq> expected_version)
       (invalid ''domain.version'' (''must be '' @ expected_version)),
     err_if (dom_chain_id d \<noteq> ROBINHOOD_CHAIN_ID)
       (invalid ''domain.chain_id'' (''must be '' @ show_nat (unat ROBINHOOD_CHAIN_ID))),
     err_if (address_is_zero (dom_verifying_contract d))
       (invalid ''domain.verifying_contract'' ''must not be the zero address'')]"

definition validate_for :: "eip712_domain \<Rightarrow> string \<Rightarrow> unit result" where
  "validate_for d expected_name = validate_for_version d expected_name EIP712_VERSION"

definition separator_words :: "externals \<Rightarrow> eip712_domain \<Rightarrow> bytes32 list" where
  "separator_words E d = [
     type_hash E EIP712_DOMAIN_TYPE,
     keccak256 E (str_bytes (dom_name d)),
     keccak256 E (str_bytes (dom_version d)),
     u64_word (dom_chain_id d),
     address_word (dom_verifying_contract d)]"

definition separator :: "externals \<Rightarrow> eip712_domain \<Rightarrow> bytes32" where
  "separator E d = hash_words E (separator_words E d)"

section \<open>Registration commitment\<close>

record shot_registration_commitment_v2 =
  rc_controller :: address20
  rc_shot_id :: shot_id
  rc_salt :: bytes32
  rc_registry :: address20
  rc_chain_id :: u64
  rc_deadline :: u64

definition registration_commitment_validate :: "shot_registration_commitment_v2 \<Rightarrow> unit result" where
  "registration_commitment_validate c = checks [
     nonzero_address ''commitment.controller'' (rc_controller c),
     nonzero_bytes32 ''commitment.shot_id'' (rc_shot_id c),
     nonzero_address ''commitment.registry'' (rc_registry c),
     err_if (rc_chain_id c \<noteq> ROBINHOOD_CHAIN_ID)
       (invalid ''commitment.chain_id'' (''must be '' @ show_nat (unat ROBINHOOD_CHAIN_ID))),
     err_if (rc_deadline c = 0 \<or> rc_deadline c > MAX_SAFE_JSON_INTEGER)
       (invalid ''commitment.deadline'' ''must be a positive JavaScript-safe integer'')]"

definition registration_commitment_words ::
  "externals \<Rightarrow> shot_registration_commitment_v2 \<Rightarrow> bytes32 list" where
  "registration_commitment_words E c = [
     type_hash E SHOT_REGISTRATION_COMMITMENT_V2_TYPE,
     address_word (rc_controller c),
     rc_shot_id c,
     rc_salt c,
     address_word (rc_registry c),
     u64_word (rc_chain_id c),
     u64_word (rc_deadline c)]"

definition registration_commitment_commitment ::
  "externals \<Rightarrow> shot_registration_commitment_v2 \<Rightarrow> bytes32 result" where
  "registration_commitment_commitment E c =
     bind_result (registration_commitment_validate c) (\<lambda>_.
       Inr (hash_words E (registration_commitment_words E c)))"

section \<open>Registry actions, generation 0.8\<close>

datatype registry_action_v2 =
    RegisterShot (ra_shot_id: shot_id) (ra_controller: address20) (ra_head: bytes32)
      (ra_salt: bytes32) (ra_nonce: u64) (ra_deadline: u64)
  | AppendCheckpoint (ra_shot_id: shot_id) (ra_previous_head: bytes32) (ra_new_head: bytes32)
      (ra_checkpoint_sequence: u64) (ra_nonce: u64) (ra_deadline: u64)
  | TransferShotV2 (ra_shot_id: shot_id) (ra_current_controller: address20)
      (ra_new_controller: address20) (ra_current_head: bytes32) (ra_checkpoint_sequence: u64)
      (ra_nonce: u64) (ra_deadline: u64)

fun registry_type_string :: "registry_action_v2 \<Rightarrow> string" where
  "registry_type_string (RegisterShot _ _ _ _ _ _) = REGISTER_SHOT_V2_TYPE"
| "registry_type_string (AppendCheckpoint _ _ _ _ _ _) = APPEND_CHECKPOINT_V2_TYPE"
| "registry_type_string (TransferShotV2 _ _ _ _ _ _ _) = TRANSFER_SHOT_V2_TYPE"

fun registry_action_coordinates :: "registry_action_v2 \<Rightarrow> unit result" where
  "registry_action_coordinates (RegisterShot shot_id controller head salt nonce deadline) =
     checks [
       nonzero_bytes32 ''action.shot_id'' shot_id,
       nonzero_address ''action.controller'' controller,
       nonzero_bytes32 ''action.head'' head]"
| "registry_action_coordinates
     (AppendCheckpoint shot_id previous_head new_head checkpoint_sequence nonce deadline) =
     checks [
       nonzero_bytes32 ''action.shot_id'' shot_id,
       nonzero_bytes32 ''action.previous_head'' previous_head,
       nonzero_bytes32 ''action.new_head'' new_head,
       err_if (new_head = previous_head)
         (invalid ''action.new_head'' ''must differ from previous_head''),
       err_if (checkpoint_sequence < 2)
         (invalid ''action.checkpoint_sequence'' ''an append must be at least checkpoint 2'')]"
| "registry_action_coordinates
     (TransferShotV2 shot_id current_controller new_controller current_head
        checkpoint_sequence nonce deadline) =
     checks [
       nonzero_bytes32 ''action.shot_id'' shot_id,
       nonzero_address ''action.current_controller'' current_controller,
       nonzero_address ''action.new_controller'' new_controller,
       err_if (current_controller = new_controller)
         (invalid ''action.new_controller'' ''must differ from current_controller''),
       nonzero_bytes32 ''action.current_head'' current_head,
       err_if (checkpoint_sequence = 0)
         (invalid ''action.checkpoint_sequence'' ''must be at least checkpoint 1'')]"

fun registry_checkpoint_sequence :: "registry_action_v2 \<Rightarrow> u64 option" where
  "registry_checkpoint_sequence (AppendCheckpoint _ _ _ checkpoint_sequence _ _) =
     Some checkpoint_sequence"
| "registry_checkpoint_sequence (TransferShotV2 _ _ _ _ checkpoint_sequence _ _) =
     Some checkpoint_sequence"
| "registry_checkpoint_sequence (RegisterShot _ _ _ _ _ _) = None"

definition is_some_and :: "'a option \<Rightarrow> ('a \<Rightarrow> bool) \<Rightarrow> bool" where
  "is_some_and x p = (case x of None \<Rightarrow> False | Some v \<Rightarrow> p v)"

definition registry_action_validate :: "registry_action_v2 \<Rightarrow> unit result" where
  "registry_action_validate a = checks [
     registry_action_coordinates a,
     err_if (ra_nonce a > MAX_SAFE_JSON_INTEGER \<or> ra_deadline a = 0
         \<or> ra_deadline a > MAX_SAFE_JSON_INTEGER)
       (invalid ''action''
         ''nonce and deadline must be JavaScript-safe, and deadline must be positive''),
     err_if (is_some_and (registry_checkpoint_sequence a) (\<lambda>v. v > MAX_SAFE_JSON_INTEGER))
       (invalid ''action.checkpoint_sequence'' ''must be a JavaScript-safe integer'')]"

fun registry_struct_words :: "externals \<Rightarrow> registry_action_v2 \<Rightarrow> bytes32 list" where
  "registry_struct_words E (RegisterShot shot_id controller head salt nonce deadline) = [
     type_hash E REGISTER_SHOT_V2_TYPE, shot_id, address_word controller, head, salt,
     u64_word nonce, u64_word deadline]"
| "registry_struct_words E
     (AppendCheckpoint shot_id previous_head new_head checkpoint_sequence nonce deadline) = [
     type_hash E APPEND_CHECKPOINT_V2_TYPE, shot_id, previous_head, new_head,
     u64_word checkpoint_sequence, u64_word nonce, u64_word deadline]"
| "registry_struct_words E
     (TransferShotV2 shot_id current_controller new_controller current_head
        checkpoint_sequence nonce deadline) = [
     type_hash E TRANSFER_SHOT_V2_TYPE, shot_id, address_word current_controller,
     address_word new_controller, current_head, u64_word checkpoint_sequence,
     u64_word nonce, u64_word deadline]"

definition registry_struct_hash :: "externals \<Rightarrow> registry_action_v2 \<Rightarrow> bytes32 result" where
  "registry_struct_hash E a =
     bind_result (registry_action_validate a) (\<lambda>_. Inr (hash_words E (registry_struct_words E a)))"

definition registry_digest :: "externals \<Rightarrow> registry_action_v2 \<Rightarrow> eip712_domain \<Rightarrow> bytes32 result" where
  "registry_digest E a domain =
     bind_result (validate_for_version domain SHOT_REGISTRY_DOMAIN SHOT_REGISTRY_V2_EIP712_VERSION)
     (\<lambda>_. bind_result (registry_struct_hash E a) (\<lambda>h. Inr (eip712_digest E (separator E domain) h)))"

definition registration_commitment ::
  "registry_action_v2 \<Rightarrow> eip712_domain \<Rightarrow> shot_registration_commitment_v2 result" where
  "registration_commitment a domain =
     bind_result (validate_for_version domain SHOT_REGISTRY_DOMAIN SHOT_REGISTRY_V2_EIP712_VERSION)
     (\<lambda>_. case a of
       RegisterShot shot_id controller head salt nonce deadline \<Rightarrow>
         (let commitment = \<lparr>
            rc_controller = controller,
            rc_shot_id = shot_id,
            rc_salt = salt,
            rc_registry = dom_verifying_contract domain,
            rc_chain_id = dom_chain_id domain,
            rc_deadline = deadline\<rparr>
          in bind_result (registration_commitment_validate commitment) (\<lambda>_. Inr commitment))
     | _ \<Rightarrow> Inl (invalid ''action.type'' ''only REGISTER_SHOT has a registration commitment''))"

record signed_registry_action_v2 =
  sra_schema :: string
  sra_domain :: eip712_domain
  sra_action :: registry_action_v2
  sra_signer :: p256_public_key
  sra_authorization :: detached_signature

definition signed_registry_verify :: "externals \<Rightarrow> signed_registry_action_v2 \<Rightarrow> unit result" where
  "signed_registry_verify E s =
     bind_result (checks [
       err_if (sra_schema s \<noteq> REGISTRY_ACTION_V2_SCHEMA)
         (invalid ''registry_action.schema'' (''must be '' @ REGISTRY_ACTION_V2_SCHEMA)),
       public_key_validate E (sra_signer s),
       detached_validate E (sra_authorization s)]) (\<lambda>_.
     bind_result (registry_digest E (sra_action s) (sra_domain s)) (\<lambda>digest.
       if digest \<noteq> ds_digest (sra_authorization s) then Inl DigestMismatch
       else verify_digest E (sra_signer s) digest (ds_signature (sra_authorization s))))"

end
