(* ===== verification/Public_Actions.thy ===== *)
theory Public_Actions
  imports Actions
begin

text \<open>
  \<open>protocol/src/actions.rs\<close>, the frozen generation 0.7: the nine public actions
  (registry and relations) with their validation, struct hash, digest and signed
  envelope.
\<close>

datatype public_state = Published | AppStore

fun public_state_u8 :: "public_state \<Rightarrow> u8" where
  "public_state_u8 Published = 1"
| "public_state_u8 AppStore = 2"

datatype public_action =
    CreateShot (pa_shot_id: shot_id) (pa_controller: address20) (pa_head: bytes32)
      (pa_sequence: u64) (pa_public_state: public_state) (pa_content_commitment: bytes32)
      (pa_nonce: u64) (pa_deadline: u64)
  | AppendEvolution (pa_shot_id: shot_id) (pa_previous_head: bytes32) (pa_new_head: bytes32)
      (pa_sequence: u64) (pa_content_commitment: bytes32) (pa_nonce: u64) (pa_deadline: u64)
  | TransferShot (pa_shot_id: shot_id) (pa_current_controller: address20)
      (pa_new_controller: address20) (pa_current_head: bytes32) (pa_sequence: u64)
      (pa_nonce: u64) (pa_deadline: u64)
  | SetPublicState (pa_shot_id: shot_id) (pa_current_head: bytes32) (pa_sequence: u64)
      (pa_public_state: public_state) (pa_content_commitment: bytes32) (pa_nonce: u64)
      (pa_deadline: u64)
  | ClaimHandle (pa_shot_id: shot_id) (pa_handle_hash: bytes32) (pa_nonce: u64) (pa_deadline: u64)
  | ReleaseHandle (pa_shot_id: shot_id) (pa_handle_hash: bytes32) (pa_nonce: u64)
      (pa_deadline: u64)
  | AssociateAppcoin (pa_shot_id: shot_id) (pa_chain_id: u64) (pa_token: address20)
      (pa_nonce: u64) (pa_deadline: u64)
  | RemoveAppcoin (pa_shot_id: shot_id) (pa_chain_id: u64) (pa_token: address20)
      (pa_nonce: u64) (pa_deadline: u64)
  | AttestAppStore (pa_shot_id: shot_id) (pa_bundle_id_hash: bytes32) (pa_store_id: u64)
      (pa_evolution_head: bytes32) (pa_nonce: u64) (pa_deadline: u64)

fun expected_domain_name :: "public_action \<Rightarrow> string" where
  "expected_domain_name (CreateShot _ _ _ _ _ _ _ _) = SHOT_REGISTRY_DOMAIN"
| "expected_domain_name (AppendEvolution _ _ _ _ _ _ _) = SHOT_REGISTRY_DOMAIN"
| "expected_domain_name (TransferShot _ _ _ _ _ _ _) = SHOT_REGISTRY_DOMAIN"
| "expected_domain_name (SetPublicState _ _ _ _ _ _ _) = SHOT_REGISTRY_DOMAIN"
| "expected_domain_name (ClaimHandle _ _ _ _) = SHOT_RELATIONS_DOMAIN"
| "expected_domain_name (ReleaseHandle _ _ _ _) = SHOT_RELATIONS_DOMAIN"
| "expected_domain_name (AssociateAppcoin _ _ _ _ _) = SHOT_RELATIONS_DOMAIN"
| "expected_domain_name (RemoveAppcoin _ _ _ _ _) = SHOT_RELATIONS_DOMAIN"
| "expected_domain_name (AttestAppStore _ _ _ _ _ _) = SHOT_RELATIONS_DOMAIN"

fun public_type_string :: "public_action \<Rightarrow> string" where
  "public_type_string (CreateShot _ _ _ _ _ _ _ _) = CREATE_SHOT_TYPE"
| "public_type_string (AppendEvolution _ _ _ _ _ _ _) = APPEND_EVOLUTION_TYPE"
| "public_type_string (TransferShot _ _ _ _ _ _ _) = TRANSFER_SHOT_TYPE"
| "public_type_string (SetPublicState _ _ _ _ _ _ _) = SET_PUBLIC_STATE_TYPE"
| "public_type_string (ClaimHandle _ _ _ _) = CLAIM_HANDLE_TYPE"
| "public_type_string (ReleaseHandle _ _ _ _) = RELEASE_HANDLE_TYPE"
| "public_type_string (AssociateAppcoin _ _ _ _ _) = ASSOCIATE_APPCOIN_TYPE"
| "public_type_string (RemoveAppcoin _ _ _ _ _) = REMOVE_APPCOIN_TYPE"
| "public_type_string (AttestAppStore _ _ _ _ _ _) = ATTEST_APP_STORE_TYPE"

text \<open>The first match of \<open>validate\<close>: coordinate checks, then the sequence (if the
  action has one) and the deadline.\<close>

fun public_action_coordinates :: "public_action \<Rightarrow> (u64 option \<times> u64) result" where
  "public_action_coordinates
     (CreateShot shot_id controller head sequence public_state content nonce deadline) =
     bind_result (checks [
       nonzero_bytes32 ''action.shot_id'' shot_id,
       nonzero_bytes32 ''action.head'' head,
       nonzero_address ''action.controller'' controller,
       err_if (public_state \<noteq> Published)
         (invalid ''action.public_state'' ''CREATE_SHOT must begin PUBLISHED'')])
     (\<lambda>_. Inr (Some sequence, deadline))"
| "public_action_coordinates
     (AppendEvolution shot_id previous_head new_head sequence content nonce deadline) =
     bind_result (checks [
       nonzero_bytes32 ''action.shot_id'' shot_id,
       nonzero_bytes32 ''action.previous_head'' previous_head,
       nonzero_bytes32 ''action.new_head'' new_head,
       err_if (new_head = previous_head)
         (invalid ''action.new_head'' ''must differ from previous_head'')])
     (\<lambda>_. Inr (Some sequence, deadline))"
| "public_action_coordinates
     (SetPublicState shot_id current_head sequence public_state content nonce deadline) =
     bind_result (checks [
       nonzero_bytes32 ''action.shot_id'' shot_id,
       nonzero_bytes32 ''action.current_head'' current_head])
     (\<lambda>_. Inr (Some sequence, deadline))"
| "public_action_coordinates
     (TransferShot shot_id current_controller new_controller current_head sequence nonce deadline) =
     bind_result (checks [
       nonzero_bytes32 ''action.shot_id'' shot_id,
       nonzero_bytes32 ''action.current_head'' current_head,
       nonzero_address ''action.current_controller'' current_controller,
       nonzero_address ''action.new_controller'' new_controller,
       err_if (current_controller = new_controller)
         (invalid ''action.new_controller'' ''must differ from current_controller'')])
     (\<lambda>_. Inr (Some sequence, deadline))"
| "public_action_coordinates (ClaimHandle shot_id handle_hash nonce deadline) =
     bind_result (checks [
       nonzero_bytes32 ''action.shot_id'' shot_id,
       nonzero_bytes32 ''action.handle_hash'' handle_hash])
     (\<lambda>_. Inr (None, deadline))"
| "public_action_coordinates (ReleaseHandle shot_id handle_hash nonce deadline) =
     bind_result (checks [
       nonzero_bytes32 ''action.shot_id'' shot_id,
       nonzero_bytes32 ''action.handle_hash'' handle_hash])
     (\<lambda>_. Inr (None, deadline))"
| "public_action_coordinates (AssociateAppcoin shot_id chain_id token nonce deadline) =
     bind_result (checks [
       nonzero_bytes32 ''action.shot_id'' shot_id,
       err_if (chain_id = 0) (invalid ''action.chain_id'' ''must not be zero''),
       nonzero_address ''action.token'' token])
     (\<lambda>_. Inr (None, deadline))"
| "public_action_coordinates (RemoveAppcoin shot_id chain_id token nonce deadline) =
     bind_result (checks [
       nonzero_bytes32 ''action.shot_id'' shot_id,
       err_if (chain_id = 0) (invalid ''action.chain_id'' ''must not be zero''),
       nonzero_address ''action.token'' token])
     (\<lambda>_. Inr (None, deadline))"
| "public_action_coordinates
     (AttestAppStore shot_id bundle_id_hash store_id evolution_head nonce deadline) =
     bind_result (checks [
       nonzero_bytes32 ''action.shot_id'' shot_id,
       nonzero_bytes32 ''action.bundle_id_hash'' bundle_id_hash,
       err_if (store_id = 0) (invalid ''action.store_id'' ''must not be zero''),
       nonzero_bytes32 ''action.evolution_head'' evolution_head])
     (\<lambda>_. Inr (None, deadline))"

fun public_action_external_ids :: "public_action \<Rightarrow> unit result" where
  "public_action_external_ids (AssociateAppcoin _ chain_id _ _ _) =
     err_if (chain_id > MAX_SAFE_JSON_INTEGER)
       (invalid ''action.chain_id'' ''must be a JavaScript-safe integer'')"
| "public_action_external_ids (RemoveAppcoin _ chain_id _ _ _) =
     err_if (chain_id > MAX_SAFE_JSON_INTEGER)
       (invalid ''action.chain_id'' ''must be a JavaScript-safe integer'')"
| "public_action_external_ids (AttestAppStore _ _ store_id _ _ _) =
     err_if (store_id > MAX_SAFE_JSON_INTEGER)
       (invalid ''action.store_id'' ''must be a JavaScript-safe integer'')"
| "public_action_external_ids _ = Inr ()"

definition public_action_validate :: "public_action \<Rightarrow> unit result" where
  "public_action_validate a =
     bind_result (public_action_coordinates a) (\<lambda>(sequence, deadline). checks [
       err_if (sequence = Some 0) (invalid ''action.sequence'' ''must be at least 1''),
       err_if (is_some_and sequence (\<lambda>v. v > MAX_SAFE_JSON_INTEGER))
         (invalid ''action.sequence'' ''must be a JavaScript-safe integer''),
       err_if (deadline = 0) (invalid ''action.deadline'' ''must not be zero''),
       err_if (pa_nonce a > MAX_SAFE_JSON_INTEGER \<or> deadline > MAX_SAFE_JSON_INTEGER)
         (invalid ''action'' ''nonce and deadline must be JavaScript-safe integers''),
       public_action_external_ids a])"

fun public_struct_words :: "externals \<Rightarrow> public_action \<Rightarrow> bytes32 list" where
  "public_struct_words E
     (CreateShot shot_id controller head sequence public_state content nonce deadline) = [
     type_hash E CREATE_SHOT_TYPE, shot_id, address_word controller, head, u64_word sequence,
     u8_word (public_state_u8 public_state), content, u64_word nonce, u64_word deadline]"
| "public_struct_words E
     (AppendEvolution shot_id previous_head new_head sequence content nonce deadline) = [
     type_hash E APPEND_EVOLUTION_TYPE, shot_id, previous_head, new_head, u64_word sequence,
     content, u64_word nonce, u64_word deadline]"
| "public_struct_words E
     (TransferShot shot_id current_controller new_controller current_head sequence nonce
        deadline) = [
     type_hash E TRANSFER_SHOT_TYPE, shot_id, address_word current_controller,
     address_word new_controller, current_head, u64_word sequence, u64_word nonce,
     u64_word deadline]"
| "public_struct_words E
     (SetPublicState shot_id current_head sequence public_state content nonce deadline) = [
     type_hash E SET_PUBLIC_STATE_TYPE, shot_id, current_head, u64_word sequence,
     u8_word (public_state_u8 public_state), content, u64_word nonce, u64_word deadline]"
| "public_struct_words E (ClaimHandle shot_id handle_hash nonce deadline) = [
     type_hash E CLAIM_HANDLE_TYPE, shot_id, handle_hash, u64_word nonce, u64_word deadline]"
| "public_struct_words E (ReleaseHandle shot_id handle_hash nonce deadline) = [
     type_hash E RELEASE_HANDLE_TYPE, shot_id, handle_hash, u64_word nonce, u64_word deadline]"
| "public_struct_words E (AssociateAppcoin shot_id chain_id token nonce deadline) = [
     type_hash E ASSOCIATE_APPCOIN_TYPE, shot_id, u64_word chain_id, address_word token,
     u64_word nonce, u64_word deadline]"
| "public_struct_words E (RemoveAppcoin shot_id chain_id token nonce deadline) = [
     type_hash E REMOVE_APPCOIN_TYPE, shot_id, u64_word chain_id, address_word token,
     u64_word nonce, u64_word deadline]"
| "public_struct_words E
     (AttestAppStore shot_id bundle_id_hash store_id evolution_head nonce deadline) = [
     type_hash E ATTEST_APP_STORE_TYPE, shot_id, bundle_id_hash, u64_word store_id,
     evolution_head, u64_word nonce, u64_word deadline]"

definition public_struct_hash :: "externals \<Rightarrow> public_action \<Rightarrow> bytes32 result" where
  "public_struct_hash E a =
     bind_result (public_action_validate a) (\<lambda>_. Inr (hash_words E (public_struct_words E a)))"

definition public_digest :: "externals \<Rightarrow> public_action \<Rightarrow> eip712_domain \<Rightarrow> bytes32 result" where
  "public_digest E a domain =
     bind_result (validate_for domain (expected_domain_name a)) (\<lambda>_.
     bind_result (public_struct_hash E a) (\<lambda>h.
       Inr (eip712_digest E (separator E domain) h)))"

record signed_public_action =
  spa_schema :: string
  spa_domain :: eip712_domain
  spa_action :: public_action
  spa_signer :: p256_public_key
  spa_authorization :: detached_signature

definition signed_public_verify :: "externals \<Rightarrow> signed_public_action \<Rightarrow> unit result" where
  "signed_public_verify E s =
     bind_result (checks [
       err_if (spa_schema s \<noteq> PUBLIC_ACTION_SCHEMA)
         (invalid ''public_action.schema'' (''must be '' @ PUBLIC_ACTION_SCHEMA)),
       public_key_validate E (spa_signer s),
       detached_validate E (spa_authorization s)]) (\<lambda>_.
     bind_result (public_digest E (spa_action s) (spa_domain s)) (\<lambda>digest.
       if digest \<noteq> ds_digest (spa_authorization s) then Inl DigestMismatch
       else verify_digest E (spa_signer s) digest (ds_signature (spa_authorization s))))"

end
