(* ===== verification/Account_Actions.thy ===== *)
theory Account_Actions
  imports Actions
begin

text \<open>
  \<open>protocol/src/actions.rs\<close>, the BuilderAccount side: the frozen device actions,
  the generation 0.8 account actions with their authority, and the pairing and
  device-authorization envelopes of \<open>protocol/src/builder.rs\<close>.
\<close>

section \<open>Device actions, generation 0.7\<close>

datatype device_action =
    AuthorizeDevice (da_account: address20) (da_key_id: bytes32) (da_x: bytes32) (da_y: bytes32)
      (da_permissions: u32) (da_nonce: u64) (da_deadline: u64)
  | RevokeDevice (da_account: address20) (da_key_id: bytes32) (da_nonce: u64) (da_deadline: u64)
  | SetRecovery (da_account: address20) (da_recovery: address20) (da_nonce: u64)
      (da_deadline: u64)
  | RecoverAccount (da_account: address20) (da_current_recovery: address20)
      (da_new_recovery: address20) (da_new_key_id: bytes32) (da_new_x: bytes32)
      (da_new_y: bytes32) (da_nonce: u64) (da_deadline: u64)

fun device_type_string :: "device_action \<Rightarrow> string" where
  "device_type_string (AuthorizeDevice _ _ _ _ _ _ _) = AUTHORIZE_DEVICE_TYPE"
| "device_type_string (RevokeDevice _ _ _ _) = REVOKE_DEVICE_TYPE"
| "device_type_string (SetRecovery _ _ _ _) = SET_RECOVERY_TYPE"
| "device_type_string (RecoverAccount _ _ _ _ _ _ _ _) = RECOVER_ACCOUNT_TYPE"

definition proposed_key_checks ::
  "externals \<Rightarrow> string \<Rightarrow> string \<Rightarrow> bytes32 \<Rightarrow> bytes32 \<Rightarrow> bytes32 \<Rightarrow> unit result" where
  "proposed_key_checks E field reason key_id x y =
     (let key = \<lparr>pk_x = x, pk_y = y\<rparr> in checks [
       public_key_validate E key,
       err_if (key_id \<noteq> device_key_id E key) (invalid field reason)])"

definition permission_checks :: "u32 \<Rightarrow> unit result" where
  "permission_checks permissions =
     err_if (permissions = 0 \<or> and permissions (not PERMISSION_ALL) \<noteq> 0)
       (invalid ''action.permissions'' ''must contain only PROTOCOL=1 and DEVICE_ADMIN=2'')"

fun device_action_coordinates :: "externals \<Rightarrow> device_action \<Rightarrow> unit result" where
  "device_action_coordinates E (AuthorizeDevice acct key_id x y permissions nonce deadline) =
     checks [
       proposed_key_checks E ''action.key_id'' ''does not match the proposed public key'' key_id x y,
       permission_checks permissions]"
| "device_action_coordinates E (RevokeDevice acct key_id nonce deadline) =
     nonzero_bytes32 ''action.key_id'' key_id"
| "device_action_coordinates E (SetRecovery acct recovery nonce deadline) =
     nonzero_address ''action.recovery'' recovery"
| "device_action_coordinates E
     (RecoverAccount acct current_recovery new_recovery new_key_id new_x new_y nonce deadline) =
     checks [
       nonzero_address ''action.current_recovery'' current_recovery,
       nonzero_address ''action.new_recovery'' new_recovery,
       proposed_key_checks E ''action.new_key_id'' ''does not match the replacement public key''
         new_key_id new_x new_y]"

definition account_action_tail :: "address20 \<Rightarrow> u64 \<Rightarrow> u64 \<Rightarrow> unit result" where
  "account_action_tail acct nonce deadline = checks [
     nonzero_address ''action.account'' acct,
     err_if (deadline = 0) (invalid ''action.deadline'' ''must not be zero''),
     err_if (nonce > MAX_SAFE_JSON_INTEGER \<or> deadline > MAX_SAFE_JSON_INTEGER)
       (invalid ''action'' ''nonce and deadline must be JavaScript-safe integers'')]"

definition device_action_validate :: "externals \<Rightarrow> device_action \<Rightarrow> unit result" where
  "device_action_validate E a = checks [
     device_action_coordinates E a,
     account_action_tail (da_account a) (da_nonce a) (da_deadline a)]"

fun device_struct_words :: "externals \<Rightarrow> device_action \<Rightarrow> bytes32 list" where
  "device_struct_words E (AuthorizeDevice acct key_id x y permissions nonce deadline) = [
     type_hash E AUTHORIZE_DEVICE_TYPE, address_word acct, key_id, x, y, u32_word permissions,
     u64_word nonce, u64_word deadline]"
| "device_struct_words E (RevokeDevice acct key_id nonce deadline) = [
     type_hash E REVOKE_DEVICE_TYPE, address_word acct, key_id, u64_word nonce,
     u64_word deadline]"
| "device_struct_words E (SetRecovery acct recovery nonce deadline) = [
     type_hash E SET_RECOVERY_TYPE, address_word acct, address_word recovery, u64_word nonce,
     u64_word deadline]"
| "device_struct_words E
     (RecoverAccount acct current_recovery new_recovery new_key_id new_x new_y nonce deadline) = [
     type_hash E RECOVER_ACCOUNT_TYPE, address_word acct, address_word current_recovery,
     address_word new_recovery, new_key_id, new_x, new_y, u64_word nonce, u64_word deadline]"

definition device_struct_hash :: "externals \<Rightarrow> device_action \<Rightarrow> bytes32 result" where
  "device_struct_hash E a =
     bind_result (device_action_validate E a) (\<lambda>_. Inr (hash_words E (device_struct_words E a)))"

definition device_digest :: "externals \<Rightarrow> device_action \<Rightarrow> eip712_domain \<Rightarrow> bytes32 result" where
  "device_digest E a domain =
     bind_result (validate_for domain BUILDER_ACCOUNT_DOMAIN) (\<lambda>_.
     bind_result (device_struct_hash E a) (\<lambda>h.
       Inr (eip712_digest E (separator E domain) h)))"

section \<open>Account actions, generation 0.8\<close>

datatype builder_account_action_v2 =
    AuthorizeDeviceV2 (ba_account: address20) (ba_key_id: bytes32) (ba_x: bytes32)
      (ba_y: bytes32) (ba_permissions: u32) (ba_nonce: u64) (ba_deadline: u64)
  | RevokeDeviceV2 (ba_account: address20) (ba_key_id: bytes32) (ba_nonce: u64)
      (ba_deadline: u64)
  | SetRecoveryV2 (ba_account: address20) (ba_recovery: address20) (ba_nonce: u64)
      (ba_deadline: u64)
  | ChangeRecovery (ba_account: address20) (ba_current_recovery: address20)
      (ba_new_recovery: address20) (ba_nonce: u64) (ba_deadline: u64)
  | InitiateRecovery (ba_account: address20) (ba_current_recovery: address20)
      (ba_new_recovery: address20) (ba_new_key_id: bytes32) (ba_new_x: bytes32)
      (ba_new_y: bytes32) (ba_nonce: u64) (ba_deadline: u64)
  | CancelRecovery (ba_account: address20) (ba_recovery_id: bytes32) (ba_nonce: u64)
      (ba_deadline: u64)

datatype account_action_authority = DeviceAdminAuthority | RecoveryAuthority

fun account_type_string :: "builder_account_action_v2 \<Rightarrow> string" where
  "account_type_string (AuthorizeDeviceV2 _ _ _ _ _ _ _) = AUTHORIZE_DEVICE_TYPE"
| "account_type_string (RevokeDeviceV2 _ _ _ _) = REVOKE_DEVICE_TYPE"
| "account_type_string (SetRecoveryV2 _ _ _ _) = SET_RECOVERY_TYPE"
| "account_type_string (ChangeRecovery _ _ _ _ _) = CHANGE_RECOVERY_TYPE"
| "account_type_string (InitiateRecovery _ _ _ _ _ _ _ _) = INITIATE_RECOVERY_TYPE"
| "account_type_string (CancelRecovery _ _ _ _) = CANCEL_RECOVERY_TYPE"

fun account_authority :: "builder_account_action_v2 \<Rightarrow> account_action_authority" where
  "account_authority (InitiateRecovery _ _ _ _ _ _ _ _) = RecoveryAuthority"
| "account_authority _ = DeviceAdminAuthority"

fun account_action_coordinates :: "externals \<Rightarrow> builder_account_action_v2 \<Rightarrow> unit result" where
  "account_action_coordinates E (AuthorizeDeviceV2 acct key_id x y permissions nonce deadline) =
     checks [
       proposed_key_checks E ''action.key_id'' ''does not match the proposed public key'' key_id x y,
       permission_checks permissions]"
| "account_action_coordinates E (RevokeDeviceV2 acct key_id nonce deadline) =
     nonzero_bytes32 ''action.key_id'' key_id"
| "account_action_coordinates E (SetRecoveryV2 acct recovery nonce deadline) =
     checks [
       nonzero_address ''action.recovery'' recovery,
       err_if (recovery = acct) (invalid ''action.recovery'' ''must differ from action.account'')]"
| "account_action_coordinates E
     (ChangeRecovery acct current_recovery new_recovery nonce deadline) =
     checks [
       nonzero_address ''action.current_recovery'' current_recovery,
       nonzero_address ''action.new_recovery'' new_recovery,
       err_if (current_recovery = acct)
         (invalid ''action.current_recovery'' ''must differ from action.account''),
       err_if (new_recovery = acct)
         (invalid ''action.new_recovery'' ''must differ from action.account'')]"
| "account_action_coordinates E
     (InitiateRecovery acct current_recovery new_recovery new_key_id new_x new_y nonce deadline) =
     checks [
       nonzero_address ''action.current_recovery'' current_recovery,
       nonzero_address ''action.new_recovery'' new_recovery,
       err_if (current_recovery = acct)
         (invalid ''action.current_recovery'' ''must differ from action.account''),
       err_if (new_recovery = acct)
         (invalid ''action.new_recovery'' ''must differ from action.account''),
       proposed_key_checks E ''action.new_key_id'' ''does not match the replacement public key''
         new_key_id new_x new_y]"
| "account_action_coordinates E (CancelRecovery acct recovery_id nonce deadline) =
     nonzero_bytes32 ''action.recovery_id'' recovery_id"

definition account_action_validate :: "externals \<Rightarrow> builder_account_action_v2 \<Rightarrow> unit result" where
  "account_action_validate E a = checks [
     account_action_coordinates E a,
     account_action_tail (ba_account a) (ba_nonce a) (ba_deadline a)]"

fun account_struct_words :: "externals \<Rightarrow> builder_account_action_v2 \<Rightarrow> bytes32 list" where
  "account_struct_words E (AuthorizeDeviceV2 acct key_id x y permissions nonce deadline) = [
     type_hash E AUTHORIZE_DEVICE_TYPE, address_word acct, key_id, x, y, u32_word permissions,
     u64_word nonce, u64_word deadline]"
| "account_struct_words E (RevokeDeviceV2 acct key_id nonce deadline) = [
     type_hash E REVOKE_DEVICE_TYPE, address_word acct, key_id, u64_word nonce,
     u64_word deadline]"
| "account_struct_words E (SetRecoveryV2 acct recovery nonce deadline) = [
     type_hash E SET_RECOVERY_TYPE, address_word acct, address_word recovery, u64_word nonce,
     u64_word deadline]"
| "account_struct_words E (ChangeRecovery acct current_recovery new_recovery nonce deadline) = [
     type_hash E CHANGE_RECOVERY_TYPE, address_word acct, address_word current_recovery,
     address_word new_recovery, u64_word nonce, u64_word deadline]"
| "account_struct_words E
     (InitiateRecovery acct current_recovery new_recovery new_key_id new_x new_y nonce deadline) = [
     type_hash E INITIATE_RECOVERY_TYPE, address_word acct, address_word current_recovery,
     address_word new_recovery, new_key_id, new_x, new_y, u64_word nonce, u64_word deadline]"
| "account_struct_words E (CancelRecovery acct recovery_id nonce deadline) = [
     type_hash E CANCEL_RECOVERY_TYPE, address_word acct, recovery_id, u64_word nonce,
     u64_word deadline]"

definition account_struct_hash :: "externals \<Rightarrow> builder_account_action_v2 \<Rightarrow> bytes32 result" where
  "account_struct_hash E a =
     bind_result (account_action_validate E a) (\<lambda>_. Inr (hash_words E (account_struct_words E a)))"

definition account_digest ::
  "externals \<Rightarrow> builder_account_action_v2 \<Rightarrow> eip712_domain \<Rightarrow> bytes32 result" where
  "account_digest E a domain =
     bind_result (validate_for domain BUILDER_ACCOUNT_DOMAIN) (\<lambda>_.
     bind_result (err_if (ba_account a \<noteq> dom_verifying_contract domain)
       (invalid ''action.account'' ''must equal domain.verifying_contract'')) (\<lambda>_.
     bind_result (account_struct_hash E a) (\<lambda>h.
       Inr (eip712_digest E (separator E domain) h))))"

section \<open>Pairing and device authorization\<close>

definition PAIRING_SCHEMA :: string where
  "PAIRING_SCHEMA = ''tohseno.pairing-request/1''"
definition DEVICE_AUTHORIZATION_SCHEMA :: string where
  "DEVICE_AUTHORIZATION_SCHEMA = ''tohseno.device-authorization/1''"

datatype device_permission = ProtocolPermission | DeviceAdminPermission

fun permission_bit :: "device_permission \<Rightarrow> u32" where
  "permission_bit ProtocolPermission = PERMISSION_PROTOCOL"
| "permission_bit DeviceAdminPermission = PERMISSION_DEVICE_ADMIN"

record pairing_network =
  pn_chain_id :: u64
  pn_builder_account :: address20
  pn_builder_account_factory :: address20

record pairing_request =
  pr_schema :: string
  pr_builder_id :: builder_id
  pr_proposed_device :: builder_device_key
  pr_requested_permissions :: "device_permission list"
  pr_challenge :: bytes32
  pr_nonce :: bytes32
  pr_expires_at :: u64
  pr_network :: pairing_network

definition fold_permission_bits :: "device_permission list \<Rightarrow> u32" where
  "fold_permission_bits ps = foldl (\<lambda>bits p. or bits (permission_bit p)) 0 ps"

definition pairing_validate :: "externals \<Rightarrow> pairing_request \<Rightarrow> unit result" where
  "pairing_validate E r =
     (let unique = remdups (pr_requested_permissions r);
          bits = fold_permission_bits unique;
          network = pr_network r
      in checks [
        err_if (pr_schema r \<noteq> PAIRING_SCHEMA)
          (invalid ''pairing.schema'' (''must be '' @ PAIRING_SCHEMA)),
        device_key_validate E (pr_proposed_device r),
        err_if (pr_requested_permissions r = [])
          (invalid ''pairing.requested_permissions'' ''must not be empty''),
        err_if (length unique \<noteq> length (pr_requested_permissions r))
          (invalid ''pairing.requested_permissions'' ''must not contain duplicates''),
        err_if (bits = 0 \<or> and bits (not PERMISSION_ALL) \<noteq> 0)
          (invalid ''pairing.requested_permissions'' ''contains an unsupported permission''),
        err_if (pr_challenge r = 0 \<or> pr_nonce r = 0)
          (invalid ''pairing.challenge''
            ''challenge and nonce must be independently random nonzero values''),
        err_if (pr_expires_at r = 0 \<or> pr_expires_at r > MAX_SAFE_JSON_INTEGER)
          (invalid ''pairing.expires_at'' ''must be a nonzero JavaScript-safe Unix timestamp''),
        err_if (pn_chain_id network \<noteq> ROBINHOOD_CHAIN_ID)
          (invalid ''pairing.network.chain_id'' (''must be '' @ show_nat (unat ROBINHOOD_CHAIN_ID))),
        err_if (pn_builder_account network \<noteq> account (pr_builder_id r))
          (invalid ''pairing.network.builder_account'' ''must equal the BuilderID account''),
        nonzero_address ''pairing.network.builder_account'' (pn_builder_account network),
        nonzero_address ''pairing.network.builder_account_factory''
          (pn_builder_account_factory network)])"

definition permission_bits :: "externals \<Rightarrow> pairing_request \<Rightarrow> u32 result" where
  "permission_bits E r =
     bind_result (pairing_validate E r) (\<lambda>_. Inr (fold_permission_bits (pr_requested_permissions r)))"

record device_authorization =
  dz_schema :: string
  dz_domain :: eip712_domain
  dz_action :: device_action
  dz_signer :: p256_public_key
  dz_authorization :: detached_signature

fun is_recover_account :: "device_action \<Rightarrow> bool" where
  "is_recover_account (RecoverAccount _ _ _ _ _ _ _ _) = True"
| "is_recover_account _ = False"

definition device_authorization_validate :: "externals \<Rightarrow> device_authorization \<Rightarrow> unit result" where
  "device_authorization_validate E z =
     bind_result (checks [
       err_if (dz_schema z \<noteq> DEVICE_AUTHORIZATION_SCHEMA)
         (invalid ''device_authorization.schema'' (''must be '' @ DEVICE_AUTHORIZATION_SCHEMA)),
       err_if (is_recover_account (dz_action z))
         (invalid ''device_authorization.action''
           ''RECOVER_ACCOUNT is authorized by the separate secp256k1 recovery authority''),
       public_key_validate E (dz_signer z),
       detached_validate E (dz_authorization z)]) (\<lambda>_.
     bind_result (device_digest E (dz_action z) (dz_domain z)) (\<lambda>digest.
       if ds_digest (dz_authorization z) \<noteq> digest then Inl DigestMismatch
       else verify_digest E (dz_signer z) digest (ds_signature (dz_authorization z))))"

end
