(* ===== verification/Typed_Data.thy ===== *)
theory Typed_Data
  imports Public_Actions Account_Actions
begin

text \<open>
  What the EIP-712 digests of \<open>protocol/src/actions.rs\<close> bind. A digest hashes three
  layers (struct words, domain words, the final preimage) and the type string; it
  determines action and domain unless two of the byte strings that were actually
  hashed collide under Keccak-256.
\<close>

section \<open>Words are injective\<close>

lemma from_be_bytes_inject:
  assumes "8 dvd LENGTH('a)" "length xs = LENGTH('a) div 8" "length ys = LENGTH('a) div 8"
  shows "(from_be_bytes xs :: 'a::len word) = from_be_bytes ys \<longleftrightarrow> xs = ys"
  using to_from_be_bytes [OF assms(1,2)] to_from_be_bytes [OF assms(1,3)] by metis

lemma address_word_inject [simp]: "address_word a = address_word b \<longleftrightarrow> a = b"
  by (simp add: address_word_def from_be_bytes_inject)

lemma u64_word_inject [simp]: "u64_word a = u64_word b \<longleftrightarrow> a = b"
  by (simp add: u64_word_def from_be_bytes_inject)

lemma u32_word_inject [simp]: "u32_word a = u32_word b \<longleftrightarrow> a = b"
  by (simp add: u32_word_def from_be_bytes_inject)

lemma u8_word_inject [simp]: "u8_word a = u8_word b \<longleftrightarrow> a = b"
  by (simp add: u8_word_def from_be_bytes_inject)

lemma public_state_u8_inject [simp]: "public_state_u8 a = public_state_u8 b \<longleftrightarrow> a = b"
  by (cases a; cases b) auto

definition word_bytes :: "bytes32 list \<Rightarrow> byte list" where
  "word_bytes ws = concat (map to_be_bytes ws)"

lemma word_bytes_inject [simp]: "word_bytes vs = word_bytes ws \<longleftrightarrow> vs = ws"
proof
  assume "word_bytes vs = word_bytes ws"
  then show "vs = ws"
  proof (induction vs arbitrary: ws)
    case Nil
    then show ?case by (cases ws) (auto simp: word_bytes_def dest: arg_cong [of _ _ length])
  next
    case (Cons v vs)
    then show ?case by (cases ws) (auto simp: word_bytes_def dest: arg_cong [of _ _ length])
  qed
qed simp

lemma eip712_preimage_inject [simp]:
  "eip712_preimage d s = eip712_preimage d' s' \<longleftrightarrow> d = d' \<and> s = s'"
  by (auto simp: eip712_preimage_def)

section \<open>Collisions\<close>

definition collide :: "externals \<Rightarrow> byte list \<Rightarrow> byte list \<Rightarrow> bool" where
  "collide E p q \<longleftrightarrow> p \<noteq> q \<and> ext_keccak256 E p = ext_keccak256 E q"

lemma keccak_binds: "keccak256 E p = keccak256 E q \<Longrightarrow> p = q \<or> collide E p q"
  by (auto simp: keccak256_def collide_def)

lemma hash_words_binds:
  "hash_words E vs = hash_words E ws \<Longrightarrow> vs = ws \<or> collide E (word_bytes vs) (word_bytes ws)"
  using keccak_binds [of E "word_bytes vs" "word_bytes ws"]
  by (auto simp: hash_words_def word_bytes_def [symmetric])

lemma separator_binds:
  assumes "separator E d = separator E d'"
  shows "d = d' \<or> collide E (str_bytes (dom_name d)) (str_bytes (dom_name d'))
    \<or> collide E (str_bytes (dom_version d)) (str_bytes (dom_version d'))
    \<or> collide E (word_bytes (separator_words E d)) (word_bytes (separator_words E d'))"
proof -
  have "d = d' \<or> collide E (str_bytes (dom_name d)) (str_bytes (dom_name d'))
      \<or> collide E (str_bytes (dom_version d)) (str_bytes (dom_version d'))"
    if "separator_words E d = separator_words E d'"
    using that keccak_binds [of E "str_bytes (dom_name d)" "str_bytes (dom_name d')"]
      keccak_binds [of E "str_bytes (dom_version d)" "str_bytes (dom_version d')"]
    by (cases d; cases d') (auto simp: separator_words_def)
  with hash_words_binds [OF assms [unfolded separator_def]] show ?thesis by blast
qed

section \<open>Typed data\<close>

text \<open>Some position at which two lists of one length are related.\<close>

fun list_ex2 :: "('a \<Rightarrow> 'b \<Rightarrow> bool) \<Rightarrow> 'a list \<Rightarrow> 'b list \<Rightarrow> bool" where
  "list_ex2 P (x # xs) (y # ys) \<longleftrightarrow> P x y \<or> list_ex2 P xs ys"
| "list_ex2 P _ _ \<longleftrightarrow> False"

text \<open>
  A family of typed-data structs: a type string per kind, and member words that
  determine the struct of that kind. The inputs of Keccak-256 on the way to a digest
  are named, so that a coincidence of digests points at a pair of them.
\<close>

definition hashed_inputs ::
  "externals \<Rightarrow> string \<Rightarrow> bytes32 list \<Rightarrow> eip712_domain \<Rightarrow> byte list list" where
  "hashed_inputs E type words d = [
     str_bytes type, word_bytes words,
     str_bytes (dom_name d), str_bytes (dom_version d), word_bytes (separator_words E d),
     eip712_preimage (separator E d) (hash_words E words)]"

locale typed_data =
  fixes type_of :: "'a \<Rightarrow> string"
    and struct_words :: "externals \<Rightarrow> 'a \<Rightarrow> bytes32 list"
  assumes words_type: "struct_words E a = type_hash E (type_of a) # tl (struct_words E a)"
    and members_inject: "type_of a = type_of b \<Longrightarrow> tl (struct_words E a) = tl (struct_words E b) \<Longrightarrow> a = b"
begin

lemma struct_binds:
  assumes "hash_words E (struct_words E a) = hash_words E (struct_words E b)"
  shows "a = b \<or> collide E (str_bytes (type_of a)) (str_bytes (type_of b))
    \<or> collide E (word_bytes (struct_words E a)) (word_bytes (struct_words E b))"
proof -
  consider "struct_words E a = struct_words E b"
    | "collide E (word_bytes (struct_words E a)) (word_bytes (struct_words E b))"
    using hash_words_binds [OF assms] by blast
  then show ?thesis
  proof cases
    case 1
    then have "type_hash E (type_of a) = type_hash E (type_of b)"
      and tl: "tl (struct_words E a) = tl (struct_words E b)"
      using words_type [of E a] words_type [of E b] by (metis list.inject)+
    then have "type_of a = type_of b \<or> collide E (str_bytes (type_of a)) (str_bytes (type_of b))"
      using keccak_binds by (fastforce simp: type_hash_def)
    with tl members_inject [of a b E] show ?thesis by blast
  qed auto
qed

lemma digest_binds:
  assumes "eip712_digest E (separator E d) (hash_words E (struct_words E a))
      = eip712_digest E (separator E d') (hash_words E (struct_words E b))"
  shows "a = b \<and> d = d' \<or> list_ex2 (collide E)
    (hashed_inputs E (type_of a) (struct_words E a) d)
    (hashed_inputs E (type_of b) (struct_words E b) d')"
proof -
  consider (same) "separator E d = separator E d'"
      "hash_words E (struct_words E a) = hash_words E (struct_words E b)"
    | (final) "collide E (eip712_preimage (separator E d) (hash_words E (struct_words E a)))
        (eip712_preimage (separator E d') (hash_words E (struct_words E b)))"
    using keccak_binds [OF assms [unfolded eip712_digest_def]] by auto
  then show ?thesis
  proof cases
    case same
    from separator_binds [OF same(1)] struct_binds [OF same(2)]
    show ?thesis by (auto simp: hashed_inputs_def)
  next
    case final
    then show ?thesis by (simp add: hashed_inputs_def)
  qed
qed

end

lemmas type_strings = REGISTER_SHOT_V2_TYPE_def APPEND_CHECKPOINT_V2_TYPE_def
  TRANSFER_SHOT_V2_TYPE_def CREATE_SHOT_TYPE_def APPEND_EVOLUTION_TYPE_def TRANSFER_SHOT_TYPE_def
  SET_PUBLIC_STATE_TYPE_def CLAIM_HANDLE_TYPE_def RELEASE_HANDLE_TYPE_def
  ASSOCIATE_APPCOIN_TYPE_def REMOVE_APPCOIN_TYPE_def ATTEST_APP_STORE_TYPE_def
  AUTHORIZE_DEVICE_TYPE_def REVOKE_DEVICE_TYPE_def SET_RECOVERY_TYPE_def RECOVER_ACCOUNT_TYPE_def
  CHANGE_RECOVERY_TYPE_def INITIATE_RECOVERY_TYPE_def CANCEL_RECOVERY_TYPE_def

lemma type_string_prefix: "take n s \<noteq> take n t \<Longrightarrow> s \<noteq> t"
  by auto

interpretation registry: typed_data registry_type_string registry_struct_words
proof unfold_locales
  show "registry_struct_words E a = type_hash E (registry_type_string a) # tl (registry_struct_words E a)"
    for E a by (cases a) auto
  show "a = b" if "registry_type_string a = registry_type_string b"
    "tl (registry_struct_words E a) = tl (registry_struct_words E b)" for a b E
    using that by (cases a; cases b; simp add: type_strings)
qed

interpretation public: typed_data public_type_string public_struct_words
proof unfold_locales
  show "public_struct_words E a = type_hash E (public_type_string a) # tl (public_struct_words E a)"
    for E a by (cases a) auto
  show "a = b" if "public_type_string a = public_type_string b"
    "tl (public_struct_words E a) = tl (public_struct_words E b)" for a b E
    using that by (cases a; cases b; simp add: type_strings)
qed

interpretation device: typed_data device_type_string device_struct_words
proof unfold_locales
  show "device_struct_words E a = type_hash E (device_type_string a) # tl (device_struct_words E a)"
    for E a by (cases a) auto
  show "a = b" if "device_type_string a = device_type_string b"
    "tl (device_struct_words E a) = tl (device_struct_words E b)" for a b E
    using that by (cases a; cases b; simp add: type_strings)
qed

interpretation builder_account: typed_data account_type_string account_struct_words
proof unfold_locales
  show "account_struct_words E a = type_hash E (account_type_string a) # tl (account_struct_words E a)"
    for E a by (cases a) auto
  show "a = b" if "account_type_string a = account_type_string b"
    "tl (account_struct_words E a) = tl (account_struct_words E b)" for a b E
    using that by (cases a; cases b; simp add: type_strings)
qed

lemma validate_for_version_ok:
  "validate_for_version d n v = Inr u \<longleftrightarrow> dom_name d = n \<and> dom_version d = v
     \<and> dom_chain_id d = ROBINHOOD_CHAIN_ID \<and> \<not> address_is_zero (dom_verifying_contract d)"
  by (auto simp: validate_for_version_def)

text \<open>
  a registry digest binds its action and its contract. If two generation 0.8
  registry actions have the same digest, they are the same action for the same
  contract, or two byte strings hashed at the same place on the way collide; a
  signature for one of them authorizes no other.
\<close>

lemma registry_digest_binds:
  assumes "registry_digest E a d = Inr h" and "registry_digest E b d' = Inr h"
  shows "a = b \<and> d = d' \<or> list_ex2 (collide E)
    (hashed_inputs E (registry_type_string a) (registry_struct_words E a) d)
    (hashed_inputs E (registry_type_string b) (registry_struct_words E b) d')"
  using assms by (intro registry.digest_binds) (auto simp: registry_digest_def registry_struct_hash_def)

text \<open>
  A public action digest of the frozen generation binds its action and its
  domain, registry or relations contract alike, in the same sense.
\<close>

lemma public_digest_binds:
  assumes "public_digest E a d = Inr h" and "public_digest E b d' = Inr h"
  shows "a = b \<and> d = d' \<or> list_ex2 (collide E)
    (hashed_inputs E (public_type_string a) (public_struct_words E a) d)
    (hashed_inputs E (public_type_string b) (public_struct_words E b) d')"
  using assms by (intro public.digest_binds) (auto simp: public_digest_def public_struct_hash_def)

text \<open>
  a device action digest binds its action and its account contract, in the
  same sense.
\<close>

lemma device_digest_binds:
  assumes "device_digest E a d = Inr h" and "device_digest E b d' = Inr h"
  shows "a = b \<and> d = d' \<or> list_ex2 (collide E)
    (hashed_inputs E (device_type_string a) (device_struct_words E a) d)
    (hashed_inputs E (device_type_string b) (device_struct_words E b) d')"
  using assms by (intro device.digest_binds) (auto simp: device_digest_def device_struct_hash_def)

text \<open>
  an account action digest of generation 0.8 binds its action and its account
  contract, in the same sense.
\<close>

lemma account_digest_binds:
  assumes "account_digest E a d = Inr h" and "account_digest E b d' = Inr h"
  shows "a = b \<and> d = d' \<or> list_ex2 (collide E)
    (hashed_inputs E (account_type_string a) (account_struct_words E a) d)
    (hashed_inputs E (account_type_string b) (account_struct_words E b) d')"
  using assms by (intro builder_account.digest_binds) (auto simp: account_digest_def account_struct_hash_def)

section \<open>What a valid action guarantees\<close>

lemma account_action_tail_ok:
  "account_action_tail acct nonce deadline = Inr u \<longleftrightarrow>
     acct \<noteq> 0 \<and> 0 < unat deadline \<and> unat deadline < 2 ^ 53 \<and> unat nonce < 2 ^ 53"
  by (auto simp: account_action_tail_def nonzero_address_def address_is_zero_iff
      MAX_SAFE_JSON_INTEGER_def word_le_nat_alt not_less unat_gt_0)

lemma proposed_key_checks_ok:
  "proposed_key_checks E f e key_id x y = Inr u \<longleftrightarrow>
     ext_p256_point E x y \<and> key_id = device_key_id E \<lparr>pk_x = x, pk_y = y\<rparr>"
  by (auto simp: proposed_key_checks_def Let_def)

lemma and_not_zero:
  fixes p m :: "'a::len word"
  assumes "and p (not m) = 0"
  shows "and p m = p"
proof (rule bit_word_eqI)
  fix n assume "n < LENGTH('a)"
  moreover have "\<not> bit (and p (not m)) n" using assms by simp
  ultimately show "bit (and p m) n = bit p n" by (auto simp: bit_simps)
qed

lemma PERMISSION_ALL_eq: "PERMISSION_ALL = 3"
  by (simp add: PERMISSION_ALL_def PERMISSION_PROTOCOL_def PERMISSION_DEVICE_ADMIN_def)

lemma permission_cases:
  fixes p :: u32
  shows "p \<noteq> 0 \<and> and p (not PERMISSION_ALL) = 0 \<longleftrightarrow> p \<in> {1, 2, 3}"
proof
  assume p: "p \<noteq> 0 \<and> and p (not PERMISSION_ALL) = 0"
  then have "and p 3 = p" unfolding PERMISSION_ALL_eq by (blast intro: and_not_zero)
  then have "p = take_bit 2 p" by (simp add: take_bit_eq_mask mask_numeral)
  then have "unat p = take_bit 2 (unat p)" by (metis unsigned_take_bit_eq)
  also have "\<dots> < 4" using take_bit_nat_less_exp [of 2 "unat p"] by simp
  finally consider "unat p = 0" | "unat p = 1" | "unat p = 2" | "unat p = 3" by linarith
  then show "p \<in> {1, 2, 3}" using p by cases (auto simp: word_unat_eq_iff)
qed (auto simp: PERMISSION_ALL_eq)

fun account_action_law :: "externals \<Rightarrow> builder_account_action_v2 \<Rightarrow> bool" where
  "account_action_law E (AuthorizeDeviceV2 acct key_id x y permissions nonce deadline) \<longleftrightarrow>
     ext_p256_point E x y \<and> key_id = device_key_id E \<lparr>pk_x = x, pk_y = y\<rparr> \<and> permissions \<in> {1, 2, 3}"
| "account_action_law E (RevokeDeviceV2 acct key_id nonce deadline) \<longleftrightarrow> key_id \<noteq> 0"
| "account_action_law E (SetRecoveryV2 acct recovery nonce deadline) \<longleftrightarrow> recovery \<notin> {0, acct}"
| "account_action_law E (ChangeRecovery acct current_recovery new_recovery nonce deadline) \<longleftrightarrow>
     current_recovery \<notin> {0, acct} \<and> new_recovery \<notin> {0, acct}"
| "account_action_law E
     (InitiateRecovery acct current_recovery new_recovery new_key_id new_x new_y nonce deadline) \<longleftrightarrow>
     current_recovery \<notin> {0, acct} \<and> new_recovery \<notin> {0, acct}
     \<and> ext_p256_point E new_x new_y \<and> new_key_id = device_key_id E \<lparr>pk_x = new_x, pk_y = new_y\<rparr>"
| "account_action_law E (CancelRecovery acct recovery_id nonce deadline) \<longleftrightarrow> recovery_id \<noteq> 0"

lemma account_action_coordinates_ok:
  "account_action_coordinates E a = Inr u \<longleftrightarrow> account_action_law E a"
  using permission_cases
  by (cases a) (auto simp: proposed_key_checks_ok permission_checks_def nonzero_bytes32_def
      nonzero_address_def)

text \<open>
  an account action has a digest exactly when it is lawful: the domain is the
  BuilderAccount domain on the Robinhood chain, its contract is the account the action
  names and not zero, a proposed device key is a curve point with its own key
  identifier and permissions 1, 2 or 3, a recovery address is neither zero nor the
  account itself, and nonce and deadline are JavaScript-safe with a positive deadline.
\<close>

lemma account_digest_lawful:
  "(\<exists>h. account_digest E a d = Inr h) \<longleftrightarrow>
     dom_name d = BUILDER_ACCOUNT_DOMAIN \<and> dom_version d = EIP712_VERSION
     \<and> dom_chain_id d = ROBINHOOD_CHAIN_ID
     \<and> ba_account a = dom_verifying_contract d \<and> ba_account a \<noteq> 0
     \<and> account_action_law E a
     \<and> unat (ba_nonce a) < 2 ^ 53 \<and> 0 < unat (ba_deadline a) \<and> unat (ba_deadline a) < 2 ^ 53"
  by (auto simp: account_digest_def account_struct_hash_def account_action_validate_def
      account_action_coordinates_ok account_action_tail_ok validate_for_def validate_for_version_ok)

section \<open>Permissions\<close>

definition permission_mask :: "device_permission set \<Rightarrow> u32" where
  "permission_mask ps = (if ProtocolPermission \<in> ps then 1 else 0)
     + (if DeviceAdminPermission \<in> ps then 2 else 0)"

lemma or_permissions:
  "or (1 :: u32) 1 = 1" "or (1 :: u32) 2 = 3" "or (1 :: u32) 3 = 3" "or (2 :: u32) 1 = 3"
  "or (2 :: u32) 2 = 2" "or (2 :: u32) 3 = 3" "or (3 :: u32) 1 = 3" "or (3 :: u32) 2 = 3"
  by simp_all

lemma fold_permission_bits_mask: "fold_permission_bits ps = permission_mask (set ps)"
proof (induction ps rule: rev_induct)
  case (snoc p ps)
  have "fold_permission_bits (ps @ [p]) = or (fold_permission_bits ps) (permission_bit p)"
    by (simp add: fold_permission_bits_def)
  with snoc show ?case
    by (cases p) (auto simp: permission_mask_def PERMISSION_PROTOCOL_def
        PERMISSION_DEVICE_ADMIN_def)
qed (simp add: fold_permission_bits_def permission_mask_def)

text \<open>
  the permission word of a valid pairing request says exactly what was requested:
  it is 1, 2 or 3, the sum of the bits of the permissions in the list, whatever their
  order; and the device key it proposes is a curve point under its own identifier.
\<close>

lemma pairing_permissions_exact:
  assumes "permission_bits E r = Inr bits"
  shows "bits = permission_mask (set (pr_requested_permissions r)) \<and> bits \<in> {1, 2, 3}
    \<and> distinct (pr_requested_permissions r)
    \<and> device_key_validate E (pr_proposed_device r) = Inr ()
    \<and> pn_builder_account (pr_network r) = account (pr_builder_id r)"
proof -
  from assms have v: "pairing_validate E r = Inr ()"
    and bits: "bits = permission_mask (set (pr_requested_permissions r))"
    by (auto simp: permission_bits_def fold_permission_bits_mask)
  from v have "bits \<noteq> 0 \<and> and bits (not PERMISSION_ALL) = 0"
    by (auto simp: pairing_validate_def Let_def bits fold_permission_bits_mask)
  then have "bits \<in> {1, 2, 3}" by (simp only: permission_cases)
  moreover have "distinct (pr_requested_permissions r)"
    using v by (auto simp: pairing_validate_def Let_def length_remdups_eq)
  ultimately show ?thesis using v bits by (auto simp: pairing_validate_def Let_def)
qed

section \<open>Commit and reveal\<close>

lemma registration_commitment_binds_words:
  assumes "registration_commitment_commitment E c = Inr h"
    and "registration_commitment_commitment E c' = Inr h"
  shows "c = c' \<or> collide E (word_bytes (registration_commitment_words E c))
    (word_bytes (registration_commitment_words E c'))"
proof -
  from assms have "hash_words E (registration_commitment_words E c)
      = hash_words E (registration_commitment_words E c')"
    by (auto simp: registration_commitment_commitment_def)
  from hash_words_binds [OF this] show ?thesis
    by (cases c; cases c') (auto simp: registration_commitment_words_def)
qed

text \<open>
  the registration commitment made before a Shot is registered binds the
  registration. For a registration action and the domain it is signed for, the
  commitment carries exactly the action's Shot, controller, salt and deadline and the
  domain's contract and chain; two registrations with one commitment agree on all of
  them, or the two hashed byte strings collide.
\<close>

lemma registration_commitment_binds:
  assumes "registration_commitment a d = Inr c" and "registration_commitment b d' = Inr c'"
    and "registration_commitment_commitment E c = Inr h"
    and "registration_commitment_commitment E c' = Inr h"
  shows "(ra_shot_id a, ra_controller a, ra_salt a, ra_deadline a, dom_verifying_contract d)
      = (ra_shot_id b, ra_controller b, ra_salt b, ra_deadline b, dom_verifying_contract d')
    \<or> collide E (word_bytes (registration_commitment_words E c))
        (word_bytes (registration_commitment_words E c'))"
  using registration_commitment_binds_words [OF assms(3,4)] assms(1,2)
  by (cases a; cases b) (auto simp: registration_commitment_def Let_def)

end
