(* ===== verification/Samples.thy ===== *)
theory Samples
  imports Acceptance_Gates Lineage_Integrity Lineage_Progress Legacy_Lineage Typed_Data
begin

text \<open>
  One concrete run of the model: simple stand-ins for the external crates and a signed
  lineage from its commitment to an evolution, on which the properties are evaluated.
\<close>

section \<open>Stand-ins for the external crates\<close>

text \<open>A document with a sequence number is encoded by that number, a signed action by that
  of its action, any other document by its shape; a digest is the number the last four bytes spell, plus one; a signature is
  valid if its first scalar is the first coordinate of the key.\<close>

fun sample_canonicalize :: "json \<Rightarrow> string + byte list" where
  "sample_canonicalize (JObj ms) =
     (case map_of ms ''sequence'' of
        Some (JNum n) \<Rightarrow> Inr (be_nat_bytes 4 (256 + n))
      | _ \<Rightarrow>
          (case map_of ms ''action'' of
             Some (JObj inner) \<Rightarrow>
               (case map_of inner ''sequence'' of
                  Some (JNum n) \<Rightarrow> Inr (be_nat_bytes 5 (256 + n))
                | _ \<Rightarrow> Inr [1])
           | _ \<Rightarrow> Inr [1]))"
| "sample_canonicalize _ = Inr [2]"

definition sample_digest :: "byte list \<Rightarrow> bytes32" where
  "sample_digest bs = of_nat (be_nat (drop (length bs - 4) bs) + 1)"

definition sample_rfc3339 :: "string \<Rightarrow> rfc3339_time option" where
  "sample_rfc3339 s = (if length s = 20
     then Some \<lparr>rt_offset = 0, rt_nanosecond = 0, rt_unix = of_char (s ! 18)\<rparr> else None)"

text \<open>Quoted JSON strings, with the one escape the examples need.\<close>

function sample_json_chars :: "string \<Rightarrow> string option" where
  "sample_json_chars [] = None"
| "sample_json_chars (c # cs) =
     (if c = CHR 0x22 then (if cs = [] then Some [] else None)
      else if c = CHR 0x5C then
        (if take 5 cs = ''u0030'' then map_option (Cons (CHR ''0'')) (sample_json_chars (drop 5 cs))
         else None)
      else map_option (Cons c) (sample_json_chars cs))"
  by pat_completeness auto
termination
  by (relation "measure length") auto

fun sample_json_string :: "string \<Rightarrow> string option" where
  "sample_json_string (c # cs) = (if c = CHR 0x22 then sample_json_chars cs else None)"
| "sample_json_string [] = None"

definition sample_externals :: externals where
  "sample_externals = \<lparr>ext_sha256 = sample_digest, ext_keccak256 = sample_digest,
     ext_canonicalize = sample_canonicalize,
     ext_p256_point = (\<lambda>x y. x \<noteq> 0), ext_p256_scalars = (\<lambda>r s. r \<noteq> 0 \<and> s \<noteq> 0),
     ext_p256_verify = (\<lambda>key digest sg. fst sg = fst key),
     ext_rfc3339 = sample_rfc3339, ext_json_string = sample_json_string\<rparr>"

section \<open>A lineage\<close>

definition sample_builder :: builder_id where "sample_builder = BuilderId 7"
definition sample_heir :: builder_id where "sample_heir = BuilderId 8"
definition sample_key :: p256_public_key where "sample_key = \<lparr>pk_x = 11, pk_y = 12\<rparr>"
definition sample_heir_key :: p256_public_key where "sample_heir_key = \<lparr>pk_x = 13, pk_y = 14\<rparr>"
definition sample_time :: canonical_timestamp where
  "sample_time = CanonicalTimestamp ''2026-01-01T00:00:00Z''"

definition sample_action ::
  "builder_id \<Rightarrow> p256_public_key \<Rightarrow> u64 \<Rightarrow> lineage_payload \<Rightarrow> signed_lineage_action" where
  "sample_action who key n p =
     \<lparr>action = \<lparr>protocol = LINEAGE_PROTOCOL, protocol_version = LINEAGE_PROTOCOL_VERSION,
        schema = LINEAGE_ACTION_SCHEMA, schema_version = LINEAGE_SCHEMA_VERSION, sequence = n,
        previous = (if n = 1 then None else Some (ucast n + 256)), action_shot_id = 1,
        actor = who, timestamp = sample_time, availability = PubliclyAvailable,
        payload = p, payload_digest = 2\<rparr>,
      signature = \<lparr>ss_schema = SIDECAR_SCHEMA, ss_algorithm = P256, ss_digest = ucast n + 257,
        ss_public_key = key, ss_signature = \<lparr>sig_r = pk_x key, sig_s = 1\<rparr>, ss_low_s = True\<rparr>\<rparr>"

definition sample_artifact :: artifact_availability where
  "sample_artifact = \<lparr>av_schema = ARTIFACT_AVAILABILITY_SCHEMA,
     av_artifact = \<lparr>ad_digest = 98, ad_media_type = ''text/plain'', ad_byte_length = 1, ad_name = None\<rparr>,
     av_status = PubliclyAvailable, av_locations = []\<rparr>"

definition sample_commitment :: shot_commitment where
  "sample_commitment = shot_commitment_new 2 sample_builder sample_key sample_time"

section \<open>Evaluation\<close>

lemma sample_ext [simp]:
  "ext_sha256 sample_externals = sample_digest" "ext_keccak256 sample_externals = sample_digest"
  "ext_canonicalize sample_externals = sample_canonicalize"
  "ext_p256_point sample_externals x y \<longleftrightarrow> x \<noteq> 0"
  "ext_p256_scalars sample_externals r t \<longleftrightarrow> r \<noteq> 0 \<and> t \<noteq> 0"
  "ext_p256_verify sample_externals key d sg \<longleftrightarrow> fst sg = fst key"
  "ext_rfc3339 sample_externals = sample_rfc3339"
  "ext_json_string sample_externals = sample_json_string"
  by (simp_all add: sample_externals_def)

lemma validate_token_printable:
  "list_all is_printable v \<Longrightarrow> minimum \<le> length v \<Longrightarrow> length v \<le> maximum \<Longrightarrow>
     validate_token f v minimum maximum = Inr ()"
  using printable_ascii_token [of v] by (simp add: validate_token_def)

lemma drop_be_nat_bytes: "m \<le> n \<Longrightarrow> drop (n - m) (be_nat_bytes n v) = be_nat_bytes m v"
proof (induction n arbitrary: m v)
  case (Suc n)
  then show ?case
  proof (cases m)
    case (Suc k)
    with Suc.IH [of k "v div 256"] Suc.prems show ?thesis by simp
  qed simp
qed simp

lemma be_nat_small: "v < 2 ^ 32 \<Longrightarrow> be_nat (be_nat_bytes 4 v) = v"
  by (simp add: be_nat_be_nat_bytes)

lemma sample_digest_small: "v < 2 ^ 32 \<Longrightarrow> sample_digest (be_nat_bytes 4 v) = of_nat (v + 1)"
  by (simp add: sample_digest_def be_nat_small)

lemma sample_version_id:
  assumes "unat d < 2 ^ 32"
  shows "version_id_derive sample_externals s e n g d = d + 1"
proof -
  have "drop (length bs + 28) (bs @ be_nat_bytes 32 (unat d)) = be_nat_bytes 4 (unat d)" for bs
    using drop_be_nat_bytes [of 4 32 "unat d"] by simp
  then have "drop (length (bs @ to_be_bytes d) - 4) (bs @ to_be_bytes d) = be_nat_bytes 4 (unat d)" for bs
    by (simp add: to_be_bytes_def)
  from this [of "str_bytes (''TOHSENO-VERSION-ID-V2'' @ [CHR 0x00]) @ to_be_bytes s @ to_be_bytes e
      @ to_be_bytes n @ to_be_bytes g"]
  have "sample_digest (version_id_preimage s e n g d) = of_nat (unat d + 1)"
    using assms unfolding sample_digest_def version_id_preimage_def
    by (simp only: append_assoc be_nat_small)
  then show ?thesis by (simp add: version_id_derive_def sha256_def)
qed

lemma payload_no_sequence:
  "map_of (payload_fields p) ''sequence'' = None" "map_of (payload_fields p) ''action'' = None"
  by (cases p; auto simp: shot_commitment_json_def intention_json_def genome_proposal_json_def
      genome_acceptance_json_def expression_json_def organ_json_def verification_result_json_def
      version_json_def feedback_json_def evolutionary_intent_json_def evolution_json_def
      ownership_json_def token_association_json_def availability_record_json_def
      parent_relation_json_def member_option_case split: option.splits)+

lemma sample_digest_singleton: "sample_digest [b] = of_nat (unat b + 1)"
  by (simp add: sample_digest_def be_nat_def)

lemma sample_payload_digest: "payload_digest_of sample_externals p = Inr 2"
  by (simp add: payload_digest_of_def payload_json_def sha256_commitment_def canonical_to_vec_def
      payload_no_sequence sha256_def sample_digest_singleton)

lemma sample_action_fields [simp]:
  "sequence (action (sample_action who key n p)) = n"
  "payload (action (sample_action who key n p)) = p"
  "actor (action (sample_action who key n p)) = who"
  "timestamp (action (sample_action who key n p)) = sample_time"
  "action_shot_id (action (sample_action who key n p)) = 1"
  "previous (action (sample_action who key n p)) = (if n = 1 then None else Some (ucast n + 256))"
  "ss_digest (signature (sample_action who key n p)) = ucast n + 257"
  "ss_public_key (signature (sample_action who key n p)) = key"
  by (simp_all add: sample_action_def)

lemma sample_action_digest:
  assumes "unat n < 2 ^ 31"
  shows "sha256_commitment sample_externals (action_json (action (sample_action who key n p)))
    = Inr (ucast n + 257)"
proof -
  have small: "256 + unat n < 2 ^ 32" using assms by simp
  have "sha256_commitment sample_externals (action_json (action (sample_action who key n p)))
      = Inr (sample_digest (be_nat_bytes 4 (256 + unat n)))"
    by (simp add: sha256_commitment_def canonical_to_vec_def action_json_def json_word_def sha256_def)
  also have "\<dots> = Inr (of_nat (256 + unat n + 1))"
    by (simp only: sample_digest_small [OF small])
  also have "(of_nat (256 + unat n + 1) :: bytes32) = ucast n + 257" by simp
  finally show ?thesis .
qed

lemma sample_unix [simp]: "unix_timestamp sample_externals sample_time = Inr 48"
  by (simp add: unix_timestamp_def sample_time_def sample_rfc3339_def)

lemma half_order_large: "is_low_s \<lparr>sig_r = r, sig_s = 1\<rparr>"
  by (simp add: is_low_s_iff p256_order_def)

text \<open>A sample action verifies as soon as its payload does.\<close>

definition sample_ok :: "builder_id \<Rightarrow> p256_public_key \<Rightarrow> u64 \<Rightarrow> lineage_payload \<Rightarrow> bool" where
  "sample_ok who key n p \<longleftrightarrow> account who \<noteq> 0 \<and> pk_x key \<noteq> 0 \<and> 0 < unat n \<and> unat n < 2 ^ 31
     \<and> payload_validate sample_externals p 1 = Inr ()
     \<and> feedback_availability_checks p PubliclyAvailable = Inr ()"

lemma sample_validate:
  assumes "sample_ok who key n p"
  shows "action_validate sample_externals (action (sample_action who key n p)) = Inr ()"
proof -
  have "n \<le> MAX_SAFE_JSON_INTEGER" "n \<noteq> 0"
    using assms by (auto simp: sample_ok_def MAX_SAFE_JSON_INTEGER_def word_le_nat_alt)
  with assms show ?thesis
    by (simp add: action_validate_def sample_ok_def sample_action_def is_zero_def
        verify_payload_digest_def sample_payload_digest not_less)
qed

lemma sample_commitment_ok:
  "sample_ok who key n p \<Longrightarrow>
     action_commitment sample_externals (action (sample_action who key n p)) = Inr (ucast n + 257)"
  by (simp add: action_commitment_def sample_validate sample_action_digest sample_ok_def)

lemma sample_signed:
  assumes "sample_ok who key n p"
  shows "signed_verify sample_externals (sample_action who key n p) = Inr ()"
proof -
  have "sha256_commitment sample_externals (action_json (action (sample_action who key n p)))
      = Inr (ucast n + 257)"
    using assms by (simp add: sample_action_digest sample_ok_def)
  moreover have "sidecar_validate sample_externals (signature (sample_action who key n p)) = Inr ()"
    using assms by (simp add: sidecar_validate_def sample_action_def sample_ok_def half_order_large)
  moreover have "verify_digest sample_externals key (ucast n + 257) \<lparr>sig_r = pk_x key, sig_s = 1\<rparr> = Inr ()"
    using assms by (simp add: verify_digest_ok sample_ok_def half_order_large)
  ultimately show ?thesis
    using sample_validate [OF assms]
    by (simp add: signed_verify_def sidecar_verify_def) (simp add: sample_action_def)
qed

lemma sample_well_signed: "sample_ok who key n p \<Longrightarrow> well_signed sample_externals (sample_action who key n p)"
  by (simp add: well_signed_iff sample_signed)

lemma sample_follows:
  assumes "sample_ok who key n p" "m = n + 1"
  shows "follows sample_externals (sample_action who key n p) (sample_action who' key' m q)"
proof -
  have "unat n < 2 ^ 31" "0 < unat n" using assms(1) by (auto simp: sample_ok_def)
  then have "unat (n + 1) = unat n + 1" by (simp add: unat_word_ariths)
  moreover from this have "n + 1 \<noteq> 1" using \<open>0 < unat n\<close> by (metis add_0 less_nat_zero_code unat_0 add_right_imp_eq)
  moreover have "(ucast (n + 1) :: bytes32) = ucast n + 1"
    using \<open>unat (n + 1) = unat n + 1\<close>
    by (simp add: word_unat_eq_iff unsigned_ucast_eq unat_word_ariths take_bit_eq_mod)
  ultimately show ?thesis
    using assms by (simp add: follows_def sample_commitment_ok extends_anchor_def anchor_of_def not_before_def)
qed

lemma sample_apply:
  assumes "sample_ok who key n p" "st_controller st = who" "st_controller_key st = key"
    and "apply_payload sample_externals (action_error n) (ucast n + 257)
      (action (sample_action who key n p)) p st = Inr t"
  shows "apply_one sample_externals st (sample_action who key n p)
    = Inr (t\<lparr>st_sequence := n, st_head := ucast n + 257, st_last_timestamp := sample_time\<rparr>)"
  using assms by (simp add: apply_one_def Let_def sample_commitment_ok)

section \<open>The payloads\<close>

definition sample_intention :: intention_record where
  "sample_intention =
     intention_new [\<lparr>om_artifact = sample_artifact, om_inline_text = None\<rparr>] sample_time"

definition sample_genome :: genome where
  "sample_genome = \<lparr>g_schema = GENOME_SCHEMA, g_revision = 1, g_purpose = ''calm'',
     g_intended_for = [''all''], g_essential_experience = [''calm''],
     g_behavioral_invariants = [''calm''], g_interaction_laws = [], g_aesthetic_principles = [],
     g_privacy_principles = [''local''], g_ownership_principles = [''yours''],
     g_platform_commitments = [], g_boundaries = [], g_non_goals = [], g_required_capabilities = [],
     g_forbidden_transformations = [''ads''], g_acceptance_principles = [''works''],
     g_freely_changeable = []\<rparr>"

definition sample_proposal :: genome_proposal where
  "sample_proposal = genome_proposal_initial sample_genome ''first''"

definition sample_acceptance :: genome_acceptance where
  "sample_acceptance = \<lparr>ga_schema = GENOME_ACCEPTANCE_SCHEMA, ga_proposal_action = 260,
     ga_revision = 1, ga_genome_digest = 2, ga_accepted_at = sample_time\<rparr>"

definition sample_expression :: expression where
  "sample_expression = \<lparr>ex_schema = EXPRESSION_SCHEMA, ex_expression_id = 5, ex_kind = ''app'',
     ex_name = ''timer'', ex_platforms = [''ios''], ex_genome_revision = 1, ex_genome_digest = 2,
     ex_definition = sample_artifact\<rparr>"

definition sample_organ :: organ where
  "sample_organ = \<lparr>or_schema = ORGAN_SCHEMA, or_expression_id = 5, or_organ_id = ''core'',
     or_provides = [''timer''], or_owns_state = [], or_permissions = [], or_dependencies = [],
     or_emits = [], or_consumes = [], or_satisfies_genome_constraints = [''calm''],
     or_acceptance_tests = [''works''], or_platforms = [''ios'']\<rparr>"

definition sample_verification :: "bytes32 \<Rightarrow> verification_result" where
  "sample_verification source = \<lparr>vf_schema = VERIFICATION_RESULT_SCHEMA, vf_expression_id = 5,
     vf_candidate_version_id = source + 1, vf_genome_revision = 1, vf_genome_digest = 2,
     vf_source_digest = source, vf_capability_graph_digest = 3,
     vf_gates = [\<lparr>vg_name = gate_name sample_externals ''core'' 1 ''works'', vg_passed = True,
       vg_deterministic = True, vg_evidence = None\<rparr>],
     vf_passed = True, vf_known_incompleteness = [], vf_verified_at = sample_time\<rparr>"

definition sample_version :: "u64 \<Rightarrow> bytes32 \<Rightarrow> bytes32 \<Rightarrow> version_record" where
  "sample_version ordinal source verification = \<lparr>vr_schema = VERSION_SCHEMA,
     vr_version_id = source + 1, vr_expression_id = 5, vr_ordinal = ordinal, vr_genome_revision = 1,
     vr_genome_digest = 2, vr_source_digest = source,
     vr_provenance = \<lparr>mp_factory = ''factory'', mp_factory_version = ''1'',
       mp_factory_source_commit = None, mp_template_digest = 1, mp_input_action = 260,
       mp_deterministic = True\<rparr>,
     vr_capability_graph_digest = 3, vr_verification_action = verification,
     vr_known_incompleteness = [], vr_build_identity = None, vr_build_digest = None,
     vr_accepted_at = sample_time\<rparr>"

definition sample_intent :: evolutionary_intent where
  "sample_intent = \<lparr>ei_schema = EVOLUTIONARY_INTENT_SCHEMA, ei_expression_id = 5,
     ei_from_version_id = 101, ei_preserved_invariants = [''calm''],
     ei_desired_changes = [\<lparr>dc_scope = Implementation, dc_description = ''faster''\<rparr>],
     ei_feedback_actions = [], ei_references = [], ei_proposed_genome_action = None\<rparr>"

definition sample_evolution :: evolution where
  "sample_evolution = \<lparr>ev_schema = EVOLUTION_SCHEMA, ev_evolutionary_intent_action = 266,
     ev_expression_id = 5, ev_from_version_id = 101, ev_to_version_id = 201,
     ev_from_genome_digest = 2, ev_to_genome_digest = 2, ev_genome_acceptance_action = None,
     ev_preserved_invariants = [''calm''], ev_completed_at = sample_time\<rparr>"

definition sample_ownership :: ownership where
  "sample_ownership = \<lparr>ow_schema = OWNERSHIP_SCHEMA, ow_previous_controller = sample_builder,
     ow_new_controller = sample_heir, ow_new_controller_key = sample_heir_key,
     ow_reason = ''sold'', ow_effective_at = sample_time\<rparr>"

definition sample_observation :: artifact_availability_record where
  "sample_observation = \<lparr>aa_target_role = ''source'', aa_availability = sample_artifact,
     aa_observed_at = sample_time\<rparr>"

lemmas sample_payload_defs = sample_intention_def sample_genome_def sample_proposal_def
  sample_acceptance_def sample_expression_def sample_organ_def sample_verification_def
  sample_version_def sample_intent_def sample_evolution_def sample_ownership_def
  sample_observation_def sample_artifact_def sample_commitment_def

section \<open>They are valid\<close>

lemma is_printable_code [simp]:
  "is_printable (Char b0 b1 b2 b3 b4 b5 b6 b7) \<longleftrightarrow>
     32 < (of_char (Char b0 b1 b2 b3 b4 b5 b6 b7) :: nat)
     \<and> of_char (Char b0 b1 b2 b3 b4 b5 b6 b7) < (127 :: nat)"
  by (simp add: is_printable_def)

lemmas sample_valid_simps = validate_tokens_def validate_token_printable require_schema_def
  require_nonzero_def validate_safe_positive_def MAX_SAFE_JSON_INTEGER_def optional_def is_zero_def
  artifact_availability_validate_def artifact_descriptor_validate_def sample_artifact_def

lemma sample_artifact_ok: "artifact_availability_validate sample_artifact = Inr ()"
  by (simp add: sample_valid_simps)

lemma sample_commitment_valid: "shot_commitment_validate sample_externals sample_commitment = Inr ()"
  by (simp add: sample_commitment_def shot_commitment_new_def shot_commitment_validate_def
      sample_valid_simps sample_builder_def sample_key_def)

lemma sample_intention_valid: "intention_validate sample_externals sample_intention = Inr ()"
  by (simp add: sample_intention_def intention_new_def intention_validate_def
      original_material_validate_def sample_valid_simps)

lemma sample_genome_valid: "genome_validate sample_genome = Inr ()"
  by (simp add: sample_genome_def genome_validate_def sample_valid_simps)

lemma sample_proposal_valid: "genome_proposal_validate sample_proposal = Inr ()"
  by (simp add: sample_proposal_def genome_proposal_initial_def genome_proposal_validate_def
      sample_genome_valid genome_proposal_base_checks_def require_schema_def validate_token_printable)
    (simp add: sample_genome_def)

lemma sample_acceptance_valid: "genome_acceptance_validate sample_acceptance = Inr ()"
  by (simp add: sample_acceptance_def genome_acceptance_validate_def sample_valid_simps)

lemma sample_expression_valid: "expression_validate sample_expression = Inr ()"
  by (simp add: sample_expression_def expression_validate_def sample_valid_simps)

lemma sample_organ_valid: "organ_validate sample_organ = Inr ()"
  by (simp add: sample_organ_def organ_validate_def sample_valid_simps)

lemma sample_intent_valid: "evolutionary_intent_validate sample_intent = Inr ()"
  by (simp add: sample_intent_def evolutionary_intent_validate_def desired_change_validate_def
      declares_scope_def sample_valid_simps)

lemma sample_evolution_valid: "evolution_validate sample_evolution = Inr ()"
  by (simp add: sample_evolution_def evolution_validate_def sample_valid_simps)

lemma sample_ownership_valid: "ownership_validate sample_externals sample_ownership = Inr ()"
  by (simp add: sample_ownership_def ownership_validate_def sample_valid_simps sample_builder_def
      sample_heir_def sample_heir_key_def)

lemma sample_observation_valid: "availability_record_validate sample_observation = Inr ()"
  by (simp add: sample_observation_def availability_record_validate_def sample_valid_simps)

lemma digits_printable: "list_all is_printable (show_nat n)"
  using show_nat_digits [of n] by (auto simp: list_all_iff is_ascii_digit_def is_printable_def Let_def)

lemma hex_printable: "list_all is_printable (bytes32_to_hex b)"
  using hex_pairs_lower [of "to_be_bytes b"] lower_hex_plain
  by (auto simp: bytes32_to_hex_def encode_prefixed_pairs list_all_iff is_printable_def)

lemma sample_gate_name:
  "list_all is_printable (gate_name E ''core'' 1 t)" "length (gate_name E ''core'' 1 t) = 90"
  using digits_printable [of 1] hex_printable
  by (simp_all add: gate_name_def length_bytes32_to_hex show_nat.simps)

lemma sample_verification_valid:
  "source \<noteq> 0 \<Longrightarrow> source + 1 \<noteq> 0 \<Longrightarrow> verification_result_validate (sample_verification source) = Inr ()"
  by (simp add: sample_verification_def verification_result_validate_def verification_gate_validate_def
      sample_valid_simps sample_gate_name [unfolded One_nat_def])

lemma sample_version_valid:
  assumes "0 < unat source" "unat source < 2 ^ 31" "verification \<noteq> 0" "ordinal \<in> {1, 2}"
  shows "version_validate sample_externals (sample_version ordinal source verification) 1 = Inr ()"
proof -
  have "unat (source + 1) = unat source + 1" using assms(2) by (simp add: unat_word_ariths)
  then have "source \<noteq> 0" "source + 1 \<noteq> 0" using assms(1) by auto
  moreover have "version_id_derive sample_externals 1 5 ordinal 2 source = source + 1"
    using assms(2) by (intro sample_version_id) simp
  ultimately show ?thesis
    using assms(3,4)
    by (auto simp: sample_version_def version_validate_def version_expected_id_def
        provenance_validate_def sample_valid_simps)
qed

section \<open>The run\<close>

definition x1 where "x1 = sample_action sample_builder sample_key 1 (CommitmentPayload sample_commitment)"
definition x2 where "x2 = sample_action sample_builder sample_key 2 (IntentionPayload sample_intention)"
definition x3 where "x3 = sample_action sample_builder sample_key 3 (GenomeProposalPayload sample_proposal)"
definition x4 where "x4 = sample_action sample_builder sample_key 4 (GenomeAcceptancePayload sample_acceptance)"
definition x5 where "x5 = sample_action sample_builder sample_key 5 (ExpressionPayload sample_expression)"
definition x6 where "x6 = sample_action sample_builder sample_key 6 (OrganPayload sample_organ)"
definition x7 where
  "x7 = sample_action sample_builder sample_key 7 (VerificationResultPayload (sample_verification 100))"
definition x8 where "x8 = sample_action sample_builder sample_key 8 (VersionPayload (sample_version 1 100 264))"
definition x9 where "x9 = sample_action sample_builder sample_key 9 (EvolutionaryIntentPayload sample_intent)"
definition x10 where
  "x10 = sample_action sample_builder sample_key 10 (VerificationResultPayload (sample_verification 200))"
definition x11 where "x11 = sample_action sample_builder sample_key 11 (VersionPayload (sample_version 2 200 267))"
definition x12 where "x12 = sample_action sample_builder sample_key 12 (EvolutionPayload sample_evolution)"
definition x13 where "x13 = sample_action sample_builder sample_key 13 (OwnershipPayload sample_ownership)"
definition x14 where
  "x14 = sample_action sample_heir sample_heir_key 14 (ArtifactAvailabilityPayload sample_observation)"

lemmas sample_x_defs = x1_def x2_def x3_def x4_def x5_def x6_def x7_def x8_def x9_def x10_def
  x11_def x12_def x13_def x14_def

definition sample_lineage :: "signed_lineage_action list" where
  "sample_lineage = [x1, x2, x3, x4, x5, x6, x7, x8, x9, x10, x11, x12, x13, x14]"

lemma sample_builder_ok [simp]: "account sample_builder \<noteq> 0" "account sample_heir \<noteq> 0"
  "pk_x sample_key \<noteq> 0" "pk_x sample_heir_key \<noteq> 0"
  by (simp_all add: sample_builder_def sample_heir_def sample_key_def sample_heir_key_def)

lemma sample_oks:
  "sample_ok sample_builder sample_key 1 (CommitmentPayload sample_commitment)"
  "sample_ok sample_builder sample_key 2 (IntentionPayload sample_intention)"
  "sample_ok sample_builder sample_key 3 (GenomeProposalPayload sample_proposal)"
  "sample_ok sample_builder sample_key 4 (GenomeAcceptancePayload sample_acceptance)"
  "sample_ok sample_builder sample_key 5 (ExpressionPayload sample_expression)"
  "sample_ok sample_builder sample_key 6 (OrganPayload sample_organ)"
  "sample_ok sample_builder sample_key 7 (VerificationResultPayload (sample_verification 100))"
  "sample_ok sample_builder sample_key 8 (VersionPayload (sample_version 1 100 264))"
  "sample_ok sample_builder sample_key 9 (EvolutionaryIntentPayload sample_intent)"
  "sample_ok sample_builder sample_key 10 (VerificationResultPayload (sample_verification 200))"
  "sample_ok sample_builder sample_key 11 (VersionPayload (sample_version 2 200 267))"
  "sample_ok sample_builder sample_key 12 (EvolutionPayload sample_evolution)"
  "sample_ok sample_builder sample_key 13 (OwnershipPayload sample_ownership)"
  "sample_ok sample_heir sample_heir_key 14 (ArtifactAvailabilityPayload sample_observation)"
  by (simp_all add: sample_ok_def sample_commitment_valid sample_intention_valid sample_proposal_valid
      sample_acceptance_valid sample_expression_valid sample_organ_valid sample_verification_valid
      sample_version_valid sample_intent_valid sample_evolution_valid sample_ownership_valid
      sample_observation_valid)

lemma sample_segment: "segment_spec sample_externals sample_lineage None"
proof -
  have "list_all (well_signed sample_externals) sample_lineage"
    by (simp add: sample_lineage_def sample_x_defs sample_well_signed sample_oks)
  moreover have "successively (follows sample_externals) sample_lineage"
    by (simp add: sample_lineage_def sample_x_defs sample_follows sample_oks)
  ultimately show ?thesis by (simp add: segment_spec_def anchored_at_def sample_lineage_def)
qed

definition cursor_at :: "u64 \<Rightarrow> shot_state \<Rightarrow> shot_state" where
  "cursor_at n st = st\<lparr>st_sequence := n, st_head := ucast n + 257, st_last_timestamp := sample_time\<rparr>"

definition sample_es :: "organ list \<Rightarrow> version_record list \<Rightarrow> expression_state" where
  "sample_es organs versions = \<lparr>es_expression = sample_expression,
     es_organs = map (\<lambda>r. (or_organ_id r, r)) organs, es_versions = versions,
     es_current_version = (if versions = [] then None else Some (vr_version_id (last versions)))\<rparr>"

definition s1 where "s1 = initial_state (action x1) sample_commitment 258"
definition s2 where "s2 = cursor_at 2 (s1\<lparr>st_intention := Some sample_intention\<rparr>)"
definition s3 where "s3 = cursor_at 3 (s2\<lparr>st_genome_proposals := [(260, sample_proposal)]\<rparr>)"
definition s4 where "s4 = cursor_at 4 (s3\<lparr>st_accepted_genome := Some \<lparr>ag_genome = sample_genome,
  ag_proposal_action = 260, ag_acceptance_action = 261\<rparr>, st_genome_acceptances := [(261, sample_acceptance)]\<rparr>)"
definition s5 where "s5 = cursor_at 5 (s4\<lparr>st_expressions := [(5, sample_es [] [])]\<rparr>)"
definition s6 where "s6 = cursor_at 6 (s5\<lparr>st_expressions := [(5, sample_es [sample_organ] [])]\<rparr>)"
definition s7 where "s7 = cursor_at 7 (s6\<lparr>st_verification_results := [(264, sample_verification 100)]\<rparr>)"
definition s8 where
  "s8 = cursor_at 8 (s7\<lparr>st_expressions := [(5, sample_es [sample_organ] [sample_version 1 100 264])]\<rparr>)"
definition s9 where "s9 = cursor_at 9 (s8\<lparr>st_evolutionary_intents := [(266, sample_intent)]\<rparr>)"
definition s10 where "s10 = cursor_at 10
  (s9\<lparr>st_verification_results := [(264, sample_verification 100), (267, sample_verification 200)]\<rparr>)"
definition s11 where "s11 = cursor_at 11 (s10\<lparr>st_expressions := [(5, sample_es [sample_organ]
  [sample_version 1 100 264, sample_version 2 200 267])]\<rparr>)"
definition s12 where "s12 = cursor_at 12 (s11\<lparr>st_evolutions := [(269, sample_evolution)]\<rparr>)"
definition s13 where "s13 = cursor_at 13 (s12\<lparr>st_ownership_history := [(270, sample_ownership)],
  st_controller := sample_heir, st_controller_key := sample_heir_key\<rparr>)"
definition s14 where "s14 = cursor_at 14 (s13\<lparr>st_availability := [(98, sample_observation)]\<rparr>)"

lemmas sample_state_defs = s1_def s2_def s3_def s4_def s5_def s6_def s7_def s8_def s9_def s10_def
  s11_def s12_def s13_def s14_def cursor_at_def initial_state_def

lemma sample_controllers [simp]:
  "sc_initial_controller sample_commitment = sample_builder"
  "sc_initial_controller_key sample_commitment = sample_key"
  "sc_committed_at sample_commitment = sample_time"
  "sc_intention_commitment sample_commitment = 2"
  by (simp_all add: sample_commitment_def shot_commitment_new_def)

lemma step1: "reduce_first sample_externals x1 = Inr s1"
  by (simp add: reduce_first_ok x1_def sample_commitment_ok [OF sample_oks(1), simplified] s1_def)

lemma step2: "apply_one sample_externals s1 x2 = Inr s2"
proof -
  have "intention_commitment sample_externals sample_intention = Inr 2"
    by (simp add: intention_commitment_def sample_intention_valid sha256_commitment_def
        canonical_to_vec_def sha256_def intention_json_def sample_intention_def intention_new_def
        sample_digest_singleton sample_intention_valid [unfolded sample_intention_def intention_new_def])
  moreover have "unix_timestamp sample_externals (in_captured_at sample_intention) = Inr 48"
    by (simp add: sample_intention_def intention_new_def)
  ultimately show ?thesis
    unfolding x2_def s2_def cursor_at_def
    by (intro sample_apply [OF sample_oks(2)])
      (simp_all add: apply_intention_def s1_def initial_state_def)
qed

lemma sample_genome_digest: "genome_digest sample_externals sample_genome = Inr 2"
  by (simp add: genome_digest_def sample_genome_valid sha256_commitment_def canonical_to_vec_def
      sha256_def genome_json_def sample_digest_singleton)

lemma sample_revision [simp]: "g_revision sample_genome = 1"
  by (simp add: sample_genome_def)

lemma step3: "apply_one sample_externals s2 x3 = Inr s3"
  unfolding x3_def s3_def cursor_at_def
  by (intro sample_apply [OF sample_oks(3)])
    (simp_all add: apply_genome_proposal_def sample_state_defs sample_proposal_def
      genome_proposal_initial_def Let_def)

lemma step4: "apply_one sample_externals s3 x4 = Inr s4"
  unfolding x4_def s4_def cursor_at_def
  by (intro sample_apply [OF sample_oks(4)])
    (simp_all add: apply_genome_acceptance_def sample_state_defs sample_acceptance_def bt_get_def
      sample_proposal_def genome_proposal_initial_def genome_binds_def sample_genome_digest Let_def)

lemma step5: "apply_one sample_externals s4 x5 = Inr s5"
  unfolding x5_def s5_def cursor_at_def
  by (intro sample_apply [OF sample_oks(5)])
    (simp_all add: apply_expression_def sample_state_defs sample_expression_def bt_get_def
      genome_binds_def sample_genome_digest bt_contains_key_def sample_es_def)

lemma step6: "apply_one sample_externals s5 x6 = Inr s6"
  unfolding x6_def s6_def cursor_at_def
  by (intro sample_apply [OF sample_oks(6)])
    (simp_all add: apply_organ_def sample_state_defs sample_organ_def bt_get_def
      bt_contains_key_def sample_es_def each_def)

text \<open>The Organ graph and the acceptance gates of the sample Expression.\<close>

lemma sample_graph_digest: "capability_graph_digest sample_externals [sample_organ] = Inr 3"
proof -
  have "or_dependencies sample_organ = []" by (simp add: sample_organ_def)
  then have "capability_graph_checks [sample_organ] = Inr ()"
    by (simp add: capability_graph_checks_def)
  then show ?thesis
    by (simp add: capability_graph_digest_def canonical_capability_graph_bytes_def sample_organ_valid
        canonical_to_vec_def sha256_def sample_digest_singleton)
qed

lemma sample_gates:
  "acceptance_gates_checks sample_externals fail [gate_name sample_externals ''core'' 1 ''works'']
     [sample_organ] = Inr ()"
proof -
  have "or_acceptance_tests sample_organ = [''works'']" "or_organ_id sample_organ = ''core''"
    by (simp_all add: sample_organ_def)
  then show ?thesis
    by (simp add: acceptance_gates_checks_def organ_acceptance_gate_name_def sample_organ_valid)
qed

lemma sample_es_fields [simp]:
  "es_organs (sample_es [sample_organ] vs) = [(''core'', sample_organ)]"
  "es_versions (sample_es organs vs) = vs"
  "es_current_version (sample_es organs vs) = (if vs = [] then None else Some (vr_version_id (last vs)))"
  by (simp_all add: sample_es_def sample_organ_def)

lemma sample_verification_fields [simp]:
  "vf_expression_id (sample_verification d) = 5" "vf_candidate_version_id (sample_verification d) = d + 1"
  "vf_genome_revision (sample_verification d) = 1" "vf_genome_digest (sample_verification d) = 2"
  "vf_source_digest (sample_verification d) = d" "vf_capability_graph_digest (sample_verification d) = 3"
  "map vg_name (vf_gates (sample_verification d)) = [gate_name sample_externals ''core'' 1 ''works'']"
  "vf_passed (sample_verification d)" "vf_known_incompleteness (sample_verification d) = []"
  by (simp_all add: sample_verification_def)

lemma sample_version_fields [simp]:
  "vr_expression_id (sample_version n d v) = 5" "vr_version_id (sample_version n d v) = d + 1"
  "vr_ordinal (sample_version n d v) = n" "vr_genome_revision (sample_version n d v) = 1"
  "vr_genome_digest (sample_version n d v) = 2" "vr_source_digest (sample_version n d v) = d"
  "vr_capability_graph_digest (sample_version n d v) = 3"
  "vr_verification_action (sample_version n d v) = v"
  "vr_known_incompleteness (sample_version n d v) = []"
  by (simp_all add: sample_version_def)

lemma sample_apply_verification:
  assumes "st_accepted_genome st = Some \<lparr>ag_genome = sample_genome, ag_proposal_action = 260,
      ag_acceptance_action = 261\<rparr>"
    and "bt_get (st_expressions st) 5 = Some (sample_es [sample_organ] vs)" "length vs < 3"
    and "unat d < 2 ^ 32"
  shows "apply_verification_result sample_externals fail c (sample_verification d) st
    = Inr (st\<lparr>st_verification_results :=
        bt_insert c (sample_verification d) (st_verification_results st)\<rparr>)"
proof -
  have "length vs = 0 \<or> length vs = 1 \<or> length vs = 2" using assms(3) by linarith
  then obtain n where n: "next_ordinal fail (sample_es [sample_organ] vs) = Inr n"
    by (auto simp: next_ordinal_def u64_try_from_def checked_add_def)
  show ?thesis
    using assms(1,2,4)
    by (simp add: apply_verification_result_def genome_binds_def sample_genome_digest n
        bt_values_def sample_graph_digest sample_gates [unfolded One_nat_def] sample_version_id)
qed

lemma sample_apply_version:
  assumes "st_accepted_genome st = Some \<lparr>ag_genome = sample_genome, ag_proposal_action = 260,
      ag_acceptance_action = 261\<rparr>"
    and "st_expressions st = [(5, sample_es [sample_organ] vs)]"
    and "bt_get (st_verification_results st) v = Some (sample_verification d)"
    and "\<forall>r\<in>set vs. vr_version_id r \<noteq> d + 1"
    and "next_ordinal fail (sample_es [sample_organ] vs) = Inr n"
  shows "apply_version sample_externals fail (sample_version n d v) st
    = Inr (st\<lparr>st_expressions := [(5, sample_es [sample_organ] (vs @ [sample_version n d v]))]\<rparr>)"
proof -
  have "\<not> version_id_known st (d + 1)"
    using assms(2,4) by (auto simp: version_id_known_def list_ex_iff bt_values_def)
  then show ?thesis
    using assms(1-3,5)
    by (simp add: apply_version_def version_matches_verification_def genome_binds_def
        sample_genome_digest bt_values_def sample_graph_digest bt_get_def) (simp add: sample_es_def)
qed

lemma step7: "apply_one sample_externals s6 x7 = Inr s7"
  unfolding x7_def s7_def cursor_at_def
  by (intro sample_apply [OF sample_oks(7)])
    (simp_all add: sample_apply_verification sample_state_defs bt_get_def)

lemma step8: "apply_one sample_externals s7 x8 = Inr s8"
  unfolding x8_def s8_def cursor_at_def
  by (intro sample_apply [OF sample_oks(8)])
    (simp_all add: sample_apply_version sample_state_defs bt_get_def next_ordinal_def
      u64_try_from_def checked_add_def)

lemma step9: "apply_one sample_externals s8 x9 = Inr s9"
  unfolding x9_def s9_def cursor_at_def
  by (intro sample_apply [OF sample_oks(9)])
    (simp_all add: apply_evolutionary_intent_def sample_state_defs bt_get_def sample_intent_def
      optional_def each_def)

lemma step10: "apply_one sample_externals s9 x10 = Inr s10"
  unfolding x10_def s10_def cursor_at_def
  by (intro sample_apply [OF sample_oks(10)])
    (simp_all add: sample_apply_verification sample_state_defs bt_get_def)

lemma step11: "apply_one sample_externals s10 x11 = Inr s11"
  unfolding x11_def s11_def cursor_at_def
  by (intro sample_apply [OF sample_oks(11)])
    (simp_all add: sample_apply_version sample_state_defs bt_get_def next_ordinal_def
      u64_try_from_def checked_add_def)

lemma step12: "apply_one sample_externals s11 x12 = Inr s12"
  unfolding x12_def s12_def cursor_at_def
  by (intro sample_apply [OF sample_oks(12)])
    (simp_all add: apply_evolution_def evolution_genome_checks_def sample_state_defs bt_get_def
      sample_intent_def sample_evolution_def usize_saturating_inc_def declares_scope_def)

lemma step13: "apply_one sample_externals s12 x13 = Inr s13"
  unfolding x13_def s13_def cursor_at_def
  by (intro sample_apply [OF sample_oks(13)])
    (simp_all add: apply_ownership_def sample_state_defs sample_ownership_def)

lemma step14: "apply_one sample_externals s13 x14 = Inr s14"
  unfolding x14_def s14_def cursor_at_def
  by (intro sample_apply [OF sample_oks(14)])
    (simp_all add: apply_artifact_availability_def sample_state_defs sample_observation_def
      sample_artifact_def)

lemma sample_reduces: "reduces sample_externals sample_lineage s14"
  unfolding reduces_def
  using sample_segment
  by (simp add: sample_lineage_def step1 step2 step3 step4 step5 step6 step7 step8 step9 step10
      step11 step12 step13 step14)

lemma sample_reduce_lineage: "reduce_lineage sample_externals sample_lineage = Inr s14"
  using sample_reduces by (simp add: reduce_lineage_iff)

end
