(* ===== verification/Node_Witnesses.thy ===== *)
theory Node_Witnesses
  imports Node_Sync Samples
begin

text \<open>
  The properties of the node, applied to a store that receives the first two actions of
  the sample lineage in both orders.
\<close>

section \<open>A node\<close>

definition sample_bytes :: "nat \<Rightarrow> byte list" where
  "sample_bytes n = be_nat_bytes 5 (256 + n)"

definition sample_from_slice :: "byte list \<Rightarrow> string + signed_lineage_action" where
  "sample_from_slice bytes =
     (if bytes = sample_bytes 1 then Inr x1 else if bytes = sample_bytes 2 then Inr x2
      else Inl ''expected value'')"

definition sample_node :: node_env where
  "sample_node = \<lparr>ne_protocol = sample_externals, ne_from_slice = sample_from_slice,
     ne_write_fault = (\<lambda>_. None), ne_identity_from_slice = (\<lambda>_. Inl ''expected value''),
     ne_identity_fault = None, ne_identity_race = None, ne_random = 77, ne_now = 5\<rparr>"

definition sample_store :: node_store where
  "sample_store = \<lparr>ns_root = ''/data/actions'', ns_identity_file = Some (RegularFile [1]),
     ns_identity = \<lparr>ni_schema = IDENTITY_SCHEMA, ni_node_id = 77, ni_created_at_unix = 5\<rparr>,
     ns_dir = [], ns_index = empty_index\<rparr>"

lemma sample_node_simps [simp]:
  "ne_protocol sample_node = sample_externals" "ne_from_slice sample_node = sample_from_slice"
  "ne_write_fault sample_node p = None" "ne_identity_fault sample_node = None"
  "ne_identity_race sample_node = None" "ne_random sample_node = 77" "ne_now sample_node = 5"
  by (simp_all add: sample_node_def)

lemma sample_signed_bytes:
  "canonical_to_vec sample_externals (signed_json (sample_action who key n p)) = Inr (sample_bytes (unat n))"
  by (simp add: canonical_to_vec_def signed_json_def action_json_def sample_bytes_def json_word_def)

lemma sample_bytes_distinct: "sample_bytes 2 \<noteq> sample_bytes 1"
proof
  assume "sample_bytes 2 = sample_bytes 1"
  then have "be_nat (be_nat_bytes 5 (256 + 2)) = be_nat (be_nat_bytes 5 (256 + 1))"
    by (simp add: sample_bytes_def)
  then show False by (simp only: be_nat_be_nat_bytes) simp
qed

lemma sample_read: "sample_from_slice (sample_bytes 1) = Inr x1" "sample_from_slice (sample_bytes 2) = Inr x2"
  using sample_bytes_distinct by (simp_all add: sample_from_slice_def)

lemma sample_written: "canonical_to_vec sample_externals (signed_json x1) = Inr (sample_bytes 1)"
  "canonical_to_vec sample_externals (signed_json x2) = Inr (sample_bytes 2)"
  by (simp_all add: x1_def x2_def sample_signed_bytes del: One_nat_def)

lemma sample_environment: "environment_ok sample_node"
proof -
  have "sample_from_slice canonical = Inr s" if read: "sample_from_slice bytes = Inr s"
    and written: "canonical_to_vec sample_externals (signed_json s) = Inr canonical" for bytes s canonical
  proof -
    consider "s = x1" | "s = x2" using read by (auto simp: sample_from_slice_def split: if_splits)
    then show ?thesis
    proof cases
      case 1
      with written have "canonical = sample_bytes 1" using sample_written(1) by (metis sum.inject(2))
      with 1 show ?thesis using sample_read(1) by simp
    next
      case 2
      with written have "canonical = sample_bytes 2" using sample_written(2) by (metis sum.inject(2))
      with 2 show ?thesis using sample_read(2) by simp
    qed
  qed
  then have "canonical_reparses sample_node"
    unfolding canonical_reparses_def sample_node_simps by blast
  moreover have "links_durable sample_node" by (simp add: links_durable_def)
  ultimately show ?thesis by (simp add: environment_ok_def)
qed

lemma sample_identity:
  "load_or_create_identity sample_node ''/data'' None = (Inr (ns_identity sample_store), ns_identity_file sample_store)"
  by (simp add: load_or_create_identity_def new_identity_def validate_identity_def err_if_def
      canonical_to_vec_def identity_json_def of_protocol_def sample_store_def)

lemma sample_scan: "scan_index sample_node root [] = Inr empty_index"
  by (simp add: scan_index_def collect_action_paths_def empty_index_def bt_values_def err_if_def)

lemma sample_start: "node_reachable sample_node ''/data'' sample_store"
  by (rule Start [of _ _ None]) (simp add: open_store_def sample_identity sample_scan sample_store_def)

section \<open>Its submissions\<close>

definition sample_validated :: "u64 \<Rightarrow> signed_lineage_action \<Rightarrow> validated_action" where
  "sample_validated n s = \<lparr>va_signed = s, va_digest = ucast n + 257, va_shot_id = 1, va_sequence = n,
     va_previous = previous (action s), va_canonical_bytes = sample_bytes (unat n),
     va_missing_artifacts = availability_observations s (ucast n + 257)\<rparr>"

lemma sample_parse:
  "parse_public sample_node (sample_bytes 1) = Inr (sample_validated 1 x1)"
  "parse_public sample_node (sample_bytes 2) = Inr (sample_validated 2 x2)"
proof -
  have len: "length (sample_bytes n) \<le> MAX_ACTION_BYTES" for n
    by (simp add: sample_bytes_def MAX_ACTION_BYTES_def)
  have "signed_verify sample_externals x1 = Inr ()" "signed_verify sample_externals x2 = Inr ()"
    unfolding x1_def x2_def using sample_signed sample_oks by blast+
  moreover have "signed_commitment sample_externals x1 = Inr 258" "signed_commitment sample_externals x2 = Inr 259"
    using calculation sample_commitment_ok [OF sample_oks(1)] sample_commitment_ok [OF sample_oks(2)]
    by (simp_all add: signed_commitment_def x1_def x2_def)
  moreover have "availability (action x1) = PubliclyAvailable" "availability (action x2) = PubliclyAvailable"
    by (simp_all add: x1_def x2_def sample_action_def)
  moreover have "action_shot_id (action x1) = 1" "action_shot_id (action x2) = 1"
    "sequence (action x1) = 1" "sequence (action x2) = 2" by (simp_all add: x1_def x2_def)
  ultimately show "parse_public sample_node (sample_bytes 1) = Inr (sample_validated 1 x1)"
    "parse_public sample_node (sample_bytes 2) = Inr (sample_validated 2 x2)"
    using sample_read sample_written len
    unfolding parse_public_iff by (simp_all add: sample_validated_def)
qed

lemma sample_parts:
  "well_signed sample_externals x1" "well_signed sample_externals x2" "follows sample_externals x1 x2"
  unfolding x1_def x2_def by (simp_all add: sample_well_signed sample_follows sample_oks)

lemma sample_reduced:
  "reduce_lineage sample_externals [x1] = Inr s1" "reduce_lineage sample_externals [x1, x2] = Inr s2"
  by (simp_all add: reduce_lineage_iff reduces_def step1 step2 segment_spec_def anchored_at_def sample_parts)

lemma sample_segments:
  "is_ok (verify_lineage_segment sample_externals [x1] None)"
  "is_ok (verify_lineage_segment sample_externals [x2] None)"
  "is_ok (verify_lineage_segment sample_externals [x1, x2] None)"
proof -
  have "action_commitment sample_externals (action x1) = Inr 258"
    "action_commitment sample_externals (action x2) = Inr 259"
    using sample_commitment_ok [OF sample_oks(1)] sample_commitment_ok [OF sample_oks(2)]
    by (simp_all add: x1_def x2_def)
  then show "is_ok (verify_lineage_segment sample_externals [x1] None)"
    "is_ok (verify_lineage_segment sample_externals [x2] None)"
    "is_ok (verify_lineage_segment sample_externals [x1, x2] None)"
    by (auto simp: verify_segment_iff segment_spec_def anchored_at_def sample_parts)
qed

section \<open>Acceptance\<close>

definition plain_dir :: "action_dir \<Rightarrow> bool" where
  "plain_dir dir \<longleftrightarrow> (\<forall>n. bt_get dir n \<noteq> Some OtherBucket) \<and> (\<forall>p. dir_entry dir p \<noteq> Some OtherEntry)"

lemma create_plain:
  assumes "plain_dir dir" "dir_entry dir p = None" "ne_write_fault N p = None"
  shows "\<exists>dir'. create_new_atomic N root dir p bytes = (Inr True, dir') \<and> plain_dir dir'"
proof (cases "bt_get dir (fst p)")
  case None
  have "plain_dir (bt_insert (fst p) (Bucket [(snd p, RegularFile bytes)]) dir)"
    using assms(1) by (auto simp: plain_dir_def dir_entry_def bt_get_insert bt_get_Cons bt.get_empty)
  with None assms show ?thesis by (simp add: create_new_atomic_def Let_def bt.get_empty)
next
  case (Some b)
  then obtain files where files: "b = Bucket files" using assms(1) by (cases b) (auto simp: plain_dir_def)
  have "bt_get files f \<noteq> Some OtherEntry" for f
  proof -
    have "dir_entry dir (fst p, f) \<noteq> Some OtherEntry" using assms(1) unfolding plain_dir_def by blast
    then show ?thesis using Some files by (simp add: dir_entry_def)
  qed
  then have "plain_dir (bt_insert (fst p) (Bucket (bt_insert (snd p) (RegularFile bytes) files)) dir)"
    using assms(1) by (auto simp: plain_dir_def dir_entry_def bt_get_insert)
  moreover have "bt_get files (snd p) = None" using assms(2) Some files by (simp add: dir_entry_def)
  ultimately show ?thesis using Some files assms(3) by (simp add: create_new_atomic_def Let_def)
qed

text \<open>A directory without entries that are not action files.\<close>

definition clean :: "node_env \<Rightarrow> node_store \<Rightarrow> bool" where
  "clean N st \<longleftrightarrow> plain_dir (ns_dir st)
     \<and> (\<forall>d. holdings N st d = None \<longrightarrow> dir_entry (ns_dir st) (action_path d) = None)"

lemma ingest_accepts:
  assumes env: "environment_ok N" and fault: "\<And>p. ne_write_fault N p = None"
    and reach: "node_reachable N root st" and clean: "clean N st"
    and v: "parse_public N bytes = Inr v"
    and new: "holdings N st (va_digest v) = None" and small: "card (dom (holdings N st)) < 10000"
    and accepted: "reject_known_invalid (classify_candidate (ne_protocol N) (ns_index st) v) = Inr ()"
  shows "\<exists>out st'. ingest N st bytes = Some (Inr out, st') \<and> clean N st' \<and> node_reachable N root st'
    \<and> holdings N st' = (holdings N st)(va_digest v \<mapsto> v)"
proof -
  have ok: "store_ok N st" using reachable_ok [OF reach env] by blast
  obtain A where A: "index_repr A (ns_index st)" "skeleton A = holdings N st" by (rule store_ok_index [OF ok])
  have unknown: "bt_get (ix_actions (ns_index st)) (va_digest v) = None"
    using store_ok_get [OF ok, of "va_digest v"] new by simp
  have "shot_members (holdings N st) s \<subseteq> dom (holdings N st)" for s by (auto simp: shot_members_def)
  then have "card (shot_members (holdings N st) s) < 10000" for s
    using small card_mono [OF holdings_finite [OF ok]] by (meson le_less_trans)
  then have limits: "ingest_limits (ns_index st) v = Inr ()"
    using small by (simp add: ingest_limits_def index_size [OF A(1)] shot_count_card [OF A(1)] A(2)
        MAX_ACTIONS_PER_NODE_def MAX_ACTIONS_PER_SHOT_def not_le)
  obtain dir where create: "create_new_atomic N (ns_root st) (ns_dir st) (action_path (va_digest v))
      (va_canonical_bytes v) = (Inr True, dir)" and plain: "plain_dir dir"
    using create_plain [OF _ _ fault] clean new unfolding clean_def by blast
  obtain r st' where step: "ingest N st bytes = Some (r, st')" "ns_root st' = ns_root st"
    and out: "case r of Inl _ \<Rightarrow> holdings N st' = holdings N st
      | Inr out \<Rightarrow> (\<exists>u. parse_public N bytes = Inr u \<and> holdings N st' = (holdings N st)(va_digest u \<mapsto> u))"
    using ingest_ok [OF ok env, of bytes] by (force split: sum.splits)
  have dir': "ns_dir st' = dir"
    using step v unknown limits accepted create
    by (auto simp: ingest_def ingest_new_def Let_def ingest_created_def)
  have "dir_wf (ns_dir st)" "links_durable N"
    using ok env by (auto simp: store_ok_def disk_sound_def environment_ok_def)
  then have entry: "dir_entry dir = (dir_entry (ns_dir st))(action_path (va_digest v) \<mapsto>
      RegularFile (va_canonical_bytes v))"
    using create_new_atomic_cases(2) [OF create] by simp
  have again: "parse_public N (va_canonical_bytes v) = Inr v" by (rule parse_public_again [OF env v])
  moreover have "length (va_canonical_bytes v) \<le> MAX_ACTION_BYTES"
    using again unfolding parse_public_iff by blast
  ultimately have "holdings N st' (va_digest v) = Some v"
    unfolding holdings_def disk_action_iff dir' entry by simp
  then obtain o1 where r: "r = Inr o1" using out new by (cases r) auto
  then have held: "holdings N st' = (holdings N st)(va_digest v \<mapsto> v)" using out v by auto
  then have "clean N st'"
    using clean plain entry by (auto simp: clean_def dir' action_path_inj split: if_splits)
  with step(1) r held Ingested [OF reach step(1)] show ?thesis by blast
qed

lemma held_index:
  assumes "store_ok N st"
  shows "holdings N st d = None \<Longrightarrow> bt_get (ix_actions (ns_index st)) d = None"
    and "holdings N st d = Some v \<Longrightarrow> \<exists>w. bt_get (ix_actions (ns_index st)) d = Some (meta_of d (v, w))"
proof -
  obtain A where A: "index_repr A (ns_index st)" "skeleton A = holdings N st" by (rule store_ok_index [OF assms])
  have "holdings N st d = map_option fst (A d)" unfolding A(2) [symmetric] by (simp add: skeleton_def)
  moreover have "bt_get (ix_actions (ns_index st)) d = map_option (meta_of d) (A d)"
    using A(1) by (simp add: index_repr_def actions_repr_def)
  ultimately show "holdings N st d = None \<Longrightarrow> bt_get (ix_actions (ns_index st)) d = None"
    and "holdings N st d = Some v \<Longrightarrow> \<exists>w. bt_get (ix_actions (ns_index st)) d = Some (meta_of d (v, w))"
    by (auto simp: prod_eq_iff)
qed

section \<open>The two orders\<close>

abbreviation "v1 \<equiv> sample_validated 1 x1"
abbreviation "v2 \<equiv> sample_validated 2 x2"

lemma sample_validated_fields [simp]:
  "va_digest v1 = 258" "va_digest v2 = 259" "va_previous v1 = None" "va_previous v2 = Some 258"
  "va_signed v1 = x1" "va_signed v2 = x2"
  by (simp_all add: sample_validated_def x1_def x2_def)

lemma sample_accepted:
  assumes ok: "store_ok sample_node st"
  shows "reject_known_invalid (classify_candidate sample_externals (ns_index st) v1) = Inr ()"
    and "holdings sample_node st = Map.empty \<Longrightarrow>
      reject_known_invalid (classify_candidate sample_externals (ns_index st) v2) = Inr ()"
    and "holdings sample_node st = [258 \<mapsto> v1] \<Longrightarrow>
      reject_known_invalid (classify_candidate sample_externals (ns_index st) v2) = Inr ()"
proof -
  show "reject_known_invalid (classify_candidate sample_externals (ns_index st) v1) = Inr ()"
    using sample_segments(1)
    by (auto simp: classify_candidate_def classify_def classify_branch_def sample_reduced
        unresolved_public_authority_validation_def reject_known_invalid_def)
  have seq: "sequence (action x2) \<noteq> 1" by (simp add: x2_def)
  show "reject_known_invalid (classify_candidate sample_externals (ns_index st) v2) = Inr ()"
    if "holdings sample_node st = Map.empty"
    using sample_segments(2) held_index(1) [OF ok, of 258] that seq
    by (auto simp: classify_candidate_def classify_def classify_branch_def walk_branch.simps(2)
        MAX_ACTIONS_PER_SHOT_def unresolved_validation_def reject_known_invalid_def)
  assume "holdings sample_node st = [258 \<mapsto> v1]"
  with held_index(2) [OF ok, of 258 v1] obtain w where
    "bt_get (ix_actions (ns_index st)) 258 = Some (meta_of 258 (v1, w))" by auto
  then show "reject_known_invalid (classify_candidate sample_externals (ns_index st) v2) = Inr ()"
    using sample_segments(3)
    by (auto simp: classify_candidate_def classify_def classify_branch_def walk_branch.simps(2)
        MAX_ACTIONS_PER_SHOT_def sample_reduced unresolved_public_authority_validation_def
        reject_known_invalid_def)
qed

lemma sample_store_clean: "clean sample_node sample_store \<and> holdings sample_node sample_store = Map.empty"
  by (simp add: clean_def plain_dir_def sample_store_def holdings_def disk_action_empty dir_entry_def
      bt.get_empty)

lemma sample_step1:
  assumes "node_reachable sample_node root st" "clean sample_node st" "holdings sample_node st \<in> {Map.empty, [259 \<mapsto> v2]}"
  shows "\<exists>out st'. ingest sample_node st (sample_bytes 1) = Some (Inr out, st') \<and> clean sample_node st'
    \<and> node_reachable sample_node root st' \<and> holdings sample_node st' = (holdings sample_node st)(258 \<mapsto> v1)"
proof -
  have ok: "store_ok sample_node st" using reachable_ok [OF assms(1) sample_environment] by blast
  show ?thesis
    using ingest_accepts [OF sample_environment _ assms(1,2) sample_parse(1)] sample_accepted(1) [OF ok] assms(3)
    by auto
qed

lemma sample_step2:
  assumes "node_reachable sample_node root st" "clean sample_node st" "holdings sample_node st \<in> {Map.empty, [258 \<mapsto> v1]}"
  shows "\<exists>out st'. ingest sample_node st (sample_bytes 2) = Some (Inr out, st') \<and> clean sample_node st'
    \<and> node_reachable sample_node root st' \<and> holdings sample_node st' = (holdings sample_node st)(259 \<mapsto> v2)"
proof -
  have ok: "store_ok sample_node st" using reachable_ok [OF assms(1) sample_environment] by blast
  show ?thesis
    using ingest_accepts [OF sample_environment _ assms(1,2) sample_parse(2)]
      sample_accepted(2,3) [OF ok] assms(3) by auto
qed

lemma sample_run:
  assumes "bs \<in> {[sample_bytes 1, sample_bytes 2], [sample_bytes 2, sample_bytes 1]}"
  shows "\<exists>rs st. submit_all (ingest sample_node) sample_store bs = Some (rs, st) \<and> list_all is_ok rs
    \<and> node_reachable sample_node ''/data'' st \<and> holdings sample_node st = [258 \<mapsto> v1, 259 \<mapsto> v2]"
proof -
  note start = sample_start sample_store_clean [THEN conjunct1]
  consider "bs = [sample_bytes 1, sample_bytes 2]" | "bs = [sample_bytes 2, sample_bytes 1]" using assms by blast
  then show ?thesis
  proof cases
    case 1
    obtain o1 st where a: "ingest sample_node sample_store (sample_bytes 1) = Some (Inr o1, st)"
      "clean sample_node st" "node_reachable sample_node ''/data'' st" "holdings sample_node st = [258 \<mapsto> v1]"
      using sample_step1 [OF start] sample_store_clean by auto
    obtain o2 st' where b: "ingest sample_node st (sample_bytes 2) = Some (Inr o2, st')"
      "node_reachable sample_node ''/data'' st'" "holdings sample_node st' = [258 \<mapsto> v1, 259 \<mapsto> v2]"
      using sample_step2 [OF a(3,2)] a(4) by auto
    show ?thesis using 1 a(1) b by simp
  next
    case 2
    obtain o1 st where a: "ingest sample_node sample_store (sample_bytes 2) = Some (Inr o1, st)"
      "clean sample_node st" "node_reachable sample_node ''/data'' st" "holdings sample_node st = [259 \<mapsto> v2]"
      using sample_step2 [OF start] sample_store_clean by auto
    obtain o2 st' where b: "ingest sample_node st (sample_bytes 1) = Some (Inr o2, st')"
      "node_reachable sample_node ''/data'' st'" "holdings sample_node st' = [259 \<mapsto> v2, 258 \<mapsto> v1]"
      using sample_step1 [OF a(3,2)] a(4) by auto
    have "[259 :: bytes32 \<mapsto> v2, 258 \<mapsto> v1] = [258 \<mapsto> v1, 259 \<mapsto> v2]" by (rule fun_upd_twist) simp
    with 2 a(1) b show ?thesis by simp
  qed
qed

text \<open>The store after the child arrived before its parent.\<close>

lemma sample_late:
  obtains rs st where "submit_all (ingest sample_node) sample_store [sample_bytes 2, sample_bytes 1] = Some (rs, st)"
    "list_all is_ok rs" "node_reachable sample_node ''/data'' st"
    "holdings sample_node st = [258 \<mapsto> v1, 259 \<mapsto> v2]"
  using sample_run by blast

section \<open>The properties\<close>




lemma held_listed:
  assumes ok: "store_ok N st" and d: "holdings N st d = Some v"
  shows "\<exists>view r. shot st (va_shot_id v) = Inr view \<and> r \<in> set (sv_actions view) \<and> ref_digest r = d"
proof -
  obtain A where A: "index_repr A (ns_index st)" "skeleton A = holdings N st" by (rule store_ok_index [OF ok])
  have "skeleton A d = Some v" using d unfolding A(2) .
  then obtain w where w: "A d = Some (v, w)" by (auto simp: skeleton_def)
  let ?ix = "get_or [] (bt_get (ix_shots (ns_index st)) (va_shot_id v))"
  have repr: "shot_repr A (va_shot_id v) ?ix" using A(1) by (simp add: index_repr_def shots_repr_def)
  then have get: "bt_get ?ix (va_sequence v, d) = Some (meta_of d (v, w))"
    using w unfolding shot_repr_def by blast
  then obtain ix where ix: "bt_get (ix_shots (ns_index st)) (va_shot_id v) = Some ix"
    by (cases "bt_get (ix_shots (ns_index st)) (va_shot_id v)") (auto simp: bt.get_empty)
  have "meta_of d (v, w) \<in> set (bt_values ix)"
    using get repr ix bt_get_entries [of ix] by (force simp: shot_repr_def bt_values_def)
  moreover have "va_digest v = d" using A(1) w by (auto simp: index_repr_def digests_ok_def)
  ultimately show ?thesis
    using ix by (intro exI [of _ "\<lparr>sv_shot = summarize (va_shot_id v) ix,
      sv_actions = map am_reference (bt_values ix)\<rparr>"] exI [of _ "am_reference (meta_of d (v, w))"])
      (simp add: shot_def)
qed

lemma sample_view:
  assumes "node_reachable sample_node root st" "holdings sample_node st = [258 \<mapsto> v1, 259 \<mapsto> v2]"
  obtains view r where "shot st 1 = Inr view" "r \<in> set (sv_actions view)" "ref_digest r = 259"
proof -
  have ok: "store_ok sample_node st" using reachable_ok [OF assms(1) sample_environment] by blast
  have "va_shot_id v2 = 1" by (simp add: sample_validated_def)
  then show ?thesis using held_listed [OF ok, of 259 v2] assms(2) that by auto
qed


lemma candidate_authority_never_claimed_instance:
  "\<exists>rs st view. submit_all (ingest sample_node) sample_store [sample_bytes 2, sample_bytes 1] = Some (rs, st)
     \<and> shot st 1 = Inr view \<and> sum_authority_verified_heads (sv_shot view) = []
     \<and> vc_candidate_authority_verified (sum_validation (sv_shot view)) = 0"
proof -
  obtain rs st where st: "submit_all (ingest sample_node) sample_store [sample_bytes 2, sample_bytes 1] = Some (rs, st)"
    "list_all is_ok rs" "node_reachable sample_node ''/data'' st"
    "holdings sample_node st = [258 \<mapsto> v1, 259 \<mapsto> v2]" by (rule sample_late)
  obtain view r where "shot st 1 = Inr view" "r \<in> set (sv_actions view)" "ref_digest r = 259"
    by (rule sample_view [OF st(3,4)])
  from candidate_authority_never_claimed [OF sample_environment st(3) this(1)] this(1) st(1) show ?thesis by blast
qed


text \<open>A peer that refuses every connection.\<close>

definition sample_url :: url where
  "sample_url = \<lparr>url_scheme = ''https'', url_username = [], url_password = None,
     url_authority = ''node.example'', url_path = ''/'', url_query = None, url_fragment = None\<rparr>"

definition sample_world :: sync_env where
  "sample_world = \<lparr>se_url_parse = (\<lambda>_. Some sample_url), se_url_str = url_authority,
     se_url_join = (\<lambda>u path. Some (u\<lparr>url_path := path\<rparr>)), se_get = (\<lambda>_ _. Inl ''connection refused''),
     se_parse_info = (\<lambda>_. Inl ''eof''), se_parse_shots = (\<lambda>_. Inl ''eof''), se_parse_view = (\<lambda>_. Inl ''eof''),
     se_now = (\<lambda>_. 0)\<rparr>"

definition sample_service :: node where
  "sample_service = \<lparr>nd_store = sample_store, nd_peers = [\<lparr>peer_base = sample_url\<rparr>],
     nd_sync_status = initial_sync_report, nd_sync_locked = False, nd_requests = 0\<rparr>"


end
