(* ===== verification/Companion_Journal.thy ===== *)
theory Companion_Journal
  imports Text_Digest "HOL-Library.Product_Lexorder"
begin

text \<open>
  The journals of a paired companion: \<open>companion/src/journal.rs\<close> with the error type and the
  identifiers of \<open>companion/src/lib.rs\<close>. A replay window per sender, an idempotency journal
  for commands, and a bounded event journal with cursors, each a value that is persisted
  as a whole.
\<close>

section \<open>Errors and identifiers\<close>

datatype companion_error =
    CompanionCanonical string
  | CompanionCrypto string
  | CompanionInvalid string
  | CompanionReplay string
  | CompanionPanic string

type_synonym 'a companion_result = "companion_error + 'a"

definition require :: "bool \<Rightarrow> string \<Rightarrow> unit companion_result" where
  "require condition message = err_if (\<not> condition) (CompanionInvalid message)"

lemma require_eq_Inr [simp]: "require b m = Inr u \<longleftrightarrow> b"
  by (simp add: require_def)

lemma require_simps [simp]: "require True m = Inr ()" "require False m = Inl (CompanionInvalid m)"
  by (simp_all add: require_def err_if_def)

definition MAX_IDENTIFIER_BYTES :: nat where "MAX_IDENTIFIER_BYTES = 128"

definition identifier_char :: "char \<Rightarrow> bool" where
  "identifier_char c \<longleftrightarrow> is_ascii_alphanumeric c \<or> c \<in> {CHR ''-'', CHR ''_'', CHR ''.'', CHR '':''}"

definition validate_identifier :: "string \<Rightarrow> string \<Rightarrow> unit companion_result" where
  "validate_identifier label v =
     require (v \<noteq> [] \<and> length v \<le> MAX_IDENTIFIER_BYTES \<and> list_all identifier_char v)
       (label @ '' must be a bounded opaque identifier'')"

section \<open>The replay window\<close>

datatype replay_decision = ReplayNew | ReplayDuplicate

record sender_window =
  sw_floor :: u64
  sw_sequences :: "(u64, string) btree"
  sw_envelope_ids :: "(string, u64) btree"

record replay_window =
  rw_maximum_per_sender :: nat
  rw_senders :: "(string, sender_window) btree"

definition replay_window_new :: "nat \<Rightarrow> replay_window companion_result" where
  "replay_window_new maximum =
     bind_result (require (1 \<le> maximum \<and> maximum \<le> 65536) ''replay window capacity must be 1..=65536'')
       (\<lambda>_. Inr \<lparr>rw_maximum_per_sender = maximum, rw_senders = []\<rparr>)"

definition empty_sender :: sender_window where
  "empty_sender = \<lparr>sw_floor = 0, sw_sequences = [], sw_envelope_ids = []\<rparr>"

text \<open>The loop that drops the oldest sequences of an oversized window.\<close>

function evict :: "nat \<Rightarrow> sender_window \<Rightarrow> sender_window" where
  "evict maximum w =
     (case sw_sequences w of
        [] \<Rightarrow> w
      | (oldest, old_id) # _ \<Rightarrow>
          (if length (sw_sequences w) > maximum then
             evict maximum (w\<lparr>sw_sequences := bt_remove oldest (sw_sequences w),
               sw_envelope_ids := bt_remove old_id (sw_envelope_ids w),
               sw_floor := max (sw_floor w) oldest\<rparr>)
           else w))"
  by pat_completeness auto
termination
  by (relation "measure (\<lambda>(_, w). length (sw_sequences w))")
    (auto simp: bt_remove_def intro!: le_imp_less_Suc length_filter_le)

declare evict.simps [simp del]

text \<open>The decision for one sender, and its window afterwards.\<close>

definition observe_sender ::
  "nat \<Rightarrow> sender_window \<Rightarrow> u64 \<Rightarrow> string \<Rightarrow> replay_decision companion_result \<times> sender_window" where
  "observe_sender maximum w n envelope_id =
     (if n \<le> sw_floor w then
        (Inl (CompanionReplay ''sender sequence is older than the retained replay window''), w)
      else case bt_get (sw_sequences w) n of
          Some existing_id \<Rightarrow>
            (if existing_id = envelope_id then Inr ReplayDuplicate
             else Inl (CompanionReplay ''sender sequence was reused by a different envelope''), w)
        | None \<Rightarrow>
            (case bt_get (sw_envelope_ids w) envelope_id of
               Some existing_sequence \<Rightarrow>
                 (if existing_sequence = n then Inr ReplayDuplicate
                  else Inl (CompanionReplay ''envelope ID was reused at a different sequence''), w)
             | None \<Rightarrow>
                 (Inr ReplayNew, evict maximum
                   (w\<lparr>sw_sequences := bt_insert n envelope_id (sw_sequences w),
                      sw_envelope_ids := bt_insert envelope_id n (sw_envelope_ids w)\<rparr>))))"

definition window_of :: "replay_window \<Rightarrow> string \<Rightarrow> sender_window" where
  "window_of rw sender = (case bt_get (rw_senders rw) sender of None \<Rightarrow> empty_sender | Some w \<Rightarrow> w)"

definition observe ::
  "replay_window \<Rightarrow> string \<Rightarrow> u64 \<Rightarrow> string \<Rightarrow> replay_decision companion_result \<times> replay_window" where
  "observe rw sender n envelope_id =
     (case checks [validate_identifier ''sender device ID'' sender,
             validate_identifier ''envelope ID'' envelope_id,
             require (0 < n) ''sender sequence must be positive''] of
        Inl e \<Rightarrow> (Inl e, rw)
      | Inr _ \<Rightarrow>
          (case observe_sender (rw_maximum_per_sender rw) (window_of rw sender) n envelope_id of
             (decision, w) \<Rightarrow>
               (decision, rw\<lparr>rw_senders := bt_insert sender w (rw_senders rw)\<rparr>)))"

section \<open>The idempotency journal\<close>

datatype command_state = Received | Validated | Accepted | Running | WaitingForDevice
  | Completed | Rejected | Failed | Cancelled

definition final_state :: "command_state \<Rightarrow> bool" where
  "final_state s \<longleftrightarrow> s \<in> {Completed, Rejected, Failed, Cancelled}"

datatype 'r command_admission = AdmissionNew | AdmissionExisting command_state "'r option"

record 'r command_entry =
  ce_payload_digest :: bytes32
  ce_state :: command_state
  ce_result :: "'r option"

type_synonym 'r idempotency_journal = "(string, 'r command_entry) btree"

definition valid_transition :: "command_state \<Rightarrow> command_state \<Rightarrow> bool" where
  "valid_transition from to \<longleftrightarrow>
     from = to \<or>
     (case from of
        Received \<Rightarrow> to \<in> {Validated, Rejected, Failed, Cancelled}
      | Validated \<Rightarrow> to \<in> {Accepted, Rejected, Failed, Cancelled}
      | Accepted \<Rightarrow> to \<in> {Running, WaitingForDevice, Completed, Failed, Cancelled}
      | Running \<Rightarrow> to \<in> {WaitingForDevice, Completed, Failed, Cancelled}
      | WaitingForDevice \<Rightarrow> to \<in> {Running, Completed, Failed, Cancelled}
      | _ \<Rightarrow> False)"

fun debug_state :: "command_state \<Rightarrow> string" where
  "debug_state Received = ''Received''"
| "debug_state Validated = ''Validated''"
| "debug_state Accepted = ''Accepted''"
| "debug_state Running = ''Running''"
| "debug_state WaitingForDevice = ''WaitingForDevice''"
| "debug_state Completed = ''Completed''"
| "debug_state Rejected = ''Rejected''"
| "debug_state Failed = ''Failed''"
| "debug_state Cancelled = ''Cancelled''"

definition journal_admit ::
  "'r idempotency_journal \<Rightarrow> string \<Rightarrow> bytes32 \<Rightarrow> 'r command_admission companion_result \<times> 'r idempotency_journal" where
  "journal_admit j command_id digest =
     (case validate_identifier ''command ID'' command_id of
        Inl e \<Rightarrow> (Inl e, j)
      | Inr _ \<Rightarrow>
          (case bt_get j command_id of
             Some existing \<Rightarrow>
               (bind_result (require (ce_payload_digest existing = digest)
                  ''command ID was reused with a different payload'')
                  (\<lambda>_. Inr (AdmissionExisting (ce_state existing) (ce_result existing))), j)
           | None \<Rightarrow>
               (Inr AdmissionNew, bt_insert command_id
                  \<lparr>ce_payload_digest = digest, ce_state = Received, ce_result = None\<rparr> j)))"

definition journal_transition ::
  "'r idempotency_journal \<Rightarrow> string \<Rightarrow> command_state \<Rightarrow> unit companion_result \<times> 'r idempotency_journal" where
  "journal_transition j command_id state =
     (case bt_get j command_id of
        None \<Rightarrow> (Inl (CompanionInvalid ''command was not admitted''), j)
      | Some entry \<Rightarrow>
          (if valid_transition (ce_state entry) state
           then (Inr (), bt_insert command_id (entry\<lparr>ce_state := state\<rparr>) j)
           else (Inl (CompanionInvalid (''invalid command transition from '' @ debug_state (ce_state entry)
             @ '' to '' @ debug_state state)), j)))"

definition journal_finish ::
  "'r idempotency_journal \<Rightarrow> string \<Rightarrow> command_state \<Rightarrow> 'r \<Rightarrow> unit companion_result \<times> 'r idempotency_journal" where
  "journal_finish j command_id state r =
     (case require (final_state state) ''command result requires a final state'' of
        Inl e \<Rightarrow> (Inl e, j)
      | Inr _ \<Rightarrow>
          (case journal_transition j command_id state of
             (Inl e, j') \<Rightarrow> (Inl e, j')
           | (Inr _, j') \<Rightarrow>
               (case bt_get j' command_id of
                  None \<Rightarrow> (Inl (CompanionPanic ''transition proved command presence''), j')
                | Some entry \<Rightarrow> (Inr (), bt_insert command_id (entry\<lparr>ce_result := Some r\<rparr>) j'))))"

definition journal_state :: "'r idempotency_journal \<Rightarrow> string \<Rightarrow> command_state option" where
  "journal_state j command_id = map_option ce_state (bt_get j command_id)"

section \<open>The cursor journal\<close>

datatype 't catch_up =
    CatchUpEvents "(u64 \<times> string \<times> 't) list" u64
  | SnapshotRequired u64 u64

record 't cursor_entry =
  cu_cursor :: u64
  cu_event_id :: string
  cu_event :: 't

record 't cursor_journal =
  cj_maximum_events :: nat
  cj_next_cursor :: u64
  cj_entries :: "'t cursor_entry list"
  cj_event_index :: "(string, u64 \<times> bytes32) btree"
  cj_acknowledgements :: "(string, u64) btree"

definition cursor_journal_new :: "nat \<Rightarrow> 't cursor_journal companion_result" where
  "cursor_journal_new maximum =
     bind_result (require (1 \<le> maximum \<and> maximum \<le> 1000000) ''cursor journal capacity must be 1..=1000000'')
       (\<lambda>_. Inr \<lparr>cj_maximum_events = maximum, cj_next_cursor = 1, cj_entries = [],
              cj_event_index = [], cj_acknowledgements = []\<rparr>)"

text \<open>The loop that drops the oldest events of an oversized journal.\<close>

fun drop_oldest ::
  "nat \<Rightarrow> 't cursor_entry list \<Rightarrow> (string, u64 \<times> bytes32) btree
     \<Rightarrow> 't cursor_entry list \<times> (string, u64 \<times> bytes32) btree" where
  "drop_oldest maximum (removed # entries) index =
     (if length (removed # entries) > maximum
      then drop_oldest maximum entries (bt_remove (cu_event_id removed) index)
      else (removed # entries, index))"
| "drop_oldest maximum [] index = ([], index)"

definition cursor_append ::
  "'t cursor_journal \<Rightarrow> string \<Rightarrow> bytes32 \<Rightarrow> 't \<Rightarrow> u64 companion_result \<times> 't cursor_journal" where
  "cursor_append j event_id digest event =
     (case validate_identifier ''event ID'' event_id of
        Inl e \<Rightarrow> (Inl e, j)
      | Inr _ \<Rightarrow>
          (case bt_get (cj_event_index j) event_id of
             Some (cursor, existing_digest) \<Rightarrow>
               (bind_result (require (existing_digest = digest) ''event ID was reused with different content'')
                  (\<lambda>_. Inr cursor), j)
           | None \<Rightarrow>
               (case checked_add (cj_next_cursor j) 1 of
                  None \<Rightarrow> (Inl (CompanionInvalid ''cursor overflowed''), j)
                | Some next \<Rightarrow>
                    (let cursor = cj_next_cursor j;
                         pushed = cj_entries j @ [\<lparr>cu_cursor = cursor, cu_event_id = event_id, cu_event = event\<rparr>];
                         index = bt_insert event_id (cursor, digest) (cj_event_index j);
                         (entries, index') = drop_oldest (cj_maximum_events j) pushed index
                     in (Inr cursor, j\<lparr>cj_next_cursor := next, cj_entries := entries,
                          cj_event_index := index'\<rparr>)))))"

definition cursor_catch_up ::
  "'t cursor_journal \<Rightarrow> u64 \<Rightarrow> nat \<Rightarrow> 't catch_up companion_result" where
  "cursor_catch_up j after maximum =
     bind_result (require (1 \<le> maximum \<and> maximum \<le> 10000) ''catch-up limit is invalid'') (\<lambda>_.
       let oldest = (case cj_entries j of [] \<Rightarrow> cj_next_cursor j | e # _ \<Rightarrow> cu_cursor e) in
       if after \<noteq> 0 \<and> saturating_add after 1 < oldest
       then Inr (SnapshotRequired oldest (cj_next_cursor j))
       else Inr (CatchUpEvents
         (map (\<lambda>e. (cu_cursor e, cu_event_id e, cu_event e))
           (take maximum (filter (\<lambda>e. cu_cursor e > after) (cj_entries j))))
         (cj_next_cursor j)))"

definition acknowledged_cursor :: "'t cursor_journal \<Rightarrow> string \<Rightarrow> u64" where
  "acknowledged_cursor j recipient =
     (case bt_get (cj_acknowledgements j) recipient of None \<Rightarrow> 0 | Some c \<Rightarrow> c)"

definition cursor_acknowledge ::
  "'t cursor_journal \<Rightarrow> string \<Rightarrow> u64 \<Rightarrow> unit companion_result \<times> 't cursor_journal" where
  "cursor_acknowledge j recipient cursor =
     (case checks [validate_identifier ''recipient ID'' recipient,
             require (cursor < cj_next_cursor j) ''acknowledgement cursor is unknown'',
             require (acknowledged_cursor j recipient \<le> cursor) ''acknowledgement cursor moved backwards''] of
        Inl e \<Rightarrow> (Inl e, j)
      | Inr _ \<Rightarrow>
          (Inr (), j\<lparr>cj_acknowledgements := bt_insert recipient cursor (cj_acknowledgements j)\<rparr>))"

section \<open>Runs\<close>

text \<open>Operations in sequence, each with its answer.\<close>

fun run_steps :: "('s \<Rightarrow> 'i \<Rightarrow> 'r \<times> 's) \<Rightarrow> 's \<Rightarrow> 'i list \<Rightarrow> ('i \<times> 'r) list \<times> 's" where
  "run_steps step s [] = ([], s)"
| "run_steps step s (i # is) =
     (case step s i of (r, s') \<Rightarrow>
        (case run_steps step s' is of (rs, s'') \<Rightarrow> ((i, r) # rs, s'')))"

lemma run_steps_Cons:
  assumes "run_steps step s (i # is) = (rs, s'')"
  obtains r s' rs' where "step s i = (r, s')" "run_steps step s' is = (rs', s'')" "rs = (i, r) # rs'"
  using assms by (auto split: prod.splits)

lemma run_steps_mem:
  assumes "run_steps step s is = (rs, s')" "(i, r) \<in> set rs"
  shows "\<exists>m m'. step m i = (r, m')"
  using assms
proof (induction "is" arbitrary: s rs)
  case (Cons k "is")
  from Cons.prems(1) obtain r' m rs' where "step s k = (r', m)" "run_steps step m is = (rs', s')"
    "rs = (k, r') # rs'" by (rule run_steps_Cons)
  then show ?case using Cons.IH Cons.prems(2) by auto
qed simp

text \<open>
  An interface that accepts each tag at most once: what is spent stays spent, an accepted
  tag was not spent before and is spent afterwards.
\<close>

locale once_only =
  fixes step :: "'s \<Rightarrow> 'i \<Rightarrow> 'r \<times> 's"
    and accepts :: "'i \<Rightarrow> 'r \<Rightarrow> bool"
    and tag :: "'i \<Rightarrow> 't"
    and spent :: "'s \<Rightarrow> 't \<Rightarrow> bool"
  assumes spent_kept: "step s i = (r, s') \<Longrightarrow> spent s t \<Longrightarrow> spent s' t"
    and accepted_fresh: "step s i = (r, s') \<Longrightarrow> accepts i r \<Longrightarrow> \<not> spent s (tag i)"
    and accepted_spent: "step s i = (r, s') \<Longrightarrow> accepts i r \<Longrightarrow> spent s' (tag i)"
begin

definition accepted_tags :: "('i \<times> 'r) list \<Rightarrow> 't list" where
  "accepted_tags rs = map (\<lambda>e. tag (fst e)) (filter (\<lambda>e. accepts (fst e) (snd e)) rs)"

lemma accepted_not_spent:
  "run_steps step s is = (rs, s') \<Longrightarrow> spent s t \<Longrightarrow> t \<notin> set (accepted_tags rs)"
proof (induction "is" arbitrary: s rs)
  case (Cons i "is")
  from Cons.prems(1) obtain r m rs' where run: "step s i = (r, m)" "run_steps step m is = (rs', s')"
    "rs = (i, r) # rs'" by (rule run_steps_Cons)
  have "t \<notin> set (accepted_tags rs')" by (rule Cons.IH [OF run(2) spent_kept [OF run(1) Cons.prems(2)]])
  then show ?case using run accepted_fresh [OF run(1)] Cons.prems(2) by (auto simp: accepted_tags_def)
qed (simp add: accepted_tags_def)

lemma accepted_once: "run_steps step s is = (rs, s') \<Longrightarrow> distinct (accepted_tags rs)"
proof (induction "is" arbitrary: s rs)
  case (Cons i "is")
  from Cons.prems obtain r m rs' where run: "step s i = (r, m)" "run_steps step m is = (rs', s')"
    "rs = (i, r) # rs'" by (rule run_steps_Cons)
  then show ?case
    using Cons.IH [OF run(2)] accepted_not_spent [OF run(2) accepted_spent [OF run(1)]]
    by (auto simp: accepted_tags_def)
qed (simp add: accepted_tags_def)

end

section \<open>Replay protection\<close>

definition sequence_spent :: "sender_window \<Rightarrow> u64 \<Rightarrow> bool" where
  "sequence_spent w n \<longleftrightarrow> n \<le> sw_floor w \<or> bt_get (sw_sequences w) n \<noteq> None"

lemma evict_spent: "sequence_spent w n \<Longrightarrow> sequence_spent (evict maximum w) n"
proof (induction maximum w rule: evict.induct)
  case (1 maximum w)
  show ?case
  proof (cases "sw_sequences w")
    case Nil
    then show ?thesis using "1.prems" by (simp add: evict.simps [of maximum w])
  next
    case (Cons e es)
    let ?w = "w\<lparr>sw_sequences := bt_remove (fst e) (sw_sequences w),
      sw_envelope_ids := bt_remove (snd e) (sw_envelope_ids w), sw_floor := max (sw_floor w) (fst e)\<rparr>"
    have "sequence_spent ?w n"
      using "1.prems" by (auto simp: sequence_spent_def bt_get_remove le_max_iff_disj)
    then show ?thesis
      using "1.IH" [of e es "fst e" "snd e"] Cons "1.prems" by (cases e) (simp add: evict.simps [of maximum w])
  qed
qed

lemma observe_sender_spent:
  assumes "observe_sender maximum w n i = (r, w')"
  shows "sequence_spent w k \<Longrightarrow> sequence_spent w' k"
    and "r = Inr ReplayNew \<Longrightarrow> \<not> sequence_spent w n \<and> sequence_spent w' n"
proof -
  let ?w = "w\<lparr>sw_sequences := bt_insert n i (sw_sequences w), sw_envelope_ids := bt_insert i n (sw_envelope_ids w)\<rparr>"
  have "sequence_spent w k \<Longrightarrow> sequence_spent (evict maximum ?w) k" for k
    by (rule evict_spent) (simp add: sequence_spent_def bt_get_insert)
  moreover have "sequence_spent (evict maximum ?w) n"
    by (rule evict_spent) (simp add: sequence_spent_def bt_get_insert)
  ultimately show "sequence_spent w k \<Longrightarrow> sequence_spent w' k"
    and "r = Inr ReplayNew \<Longrightarrow> \<not> sequence_spent w n \<and> sequence_spent w' n"
    using assms by (auto simp: observe_sender_def sequence_spent_def not_le
        split: if_splits option.splits)
qed

definition replay_spent :: "replay_window \<Rightarrow> string \<times> u64 \<Rightarrow> bool" where
  "replay_spent rw t \<longleftrightarrow> sequence_spent (window_of rw (fst t)) (snd t)"

lemma observe_spent:
  assumes "observe rw sender n i = (r, rw')"
  shows "replay_spent rw t \<Longrightarrow> replay_spent rw' t"
    and "r = Inr ReplayNew \<Longrightarrow> \<not> replay_spent rw (sender, n) \<and> replay_spent rw' (sender, n)"
proof -
  obtain d w where o: "observe_sender (rw_maximum_per_sender rw) (window_of rw sender) n i = (d, w)" by fastforce
  note spent = observe_sender_spent [OF o]
  show "replay_spent rw t \<Longrightarrow> replay_spent rw' t"
    using assms o spent(1) [of "snd t"]
    by (auto simp: observe_def replay_spent_def window_of_def bt_get_insert split: sum.splits)
  show "r = Inr ReplayNew \<Longrightarrow> \<not> replay_spent rw (sender, n) \<and> replay_spent rw' (sender, n)"
    using assms o spent(2)
    by (auto simp: observe_def replay_spent_def window_of_def bt_get_insert split: sum.splits)
qed

interpretation replay: once_only "\<lambda>rw (sender, n, i). observe rw sender n i"
  "\<lambda>_ r. r = Inr ReplayNew" "\<lambda>(sender, n, _). (sender, n)" replay_spent
  using observe_spent by unfold_locales (auto split: prod.splits)

section \<open>Commands\<close>

datatype 'r journal_op =
    OpAdmit string bytes32
  | OpTransition string command_state
  | OpFinish string command_state 'r

datatype 'r journal_answer =
    AnswerAdmission "'r command_admission companion_result"
  | AnswerDone "unit companion_result"

fun journal_step :: "'r idempotency_journal \<Rightarrow> 'r journal_op \<Rightarrow> 'r journal_answer \<times> 'r idempotency_journal" where
  "journal_step j (OpAdmit c d) = map_prod AnswerAdmission id (journal_admit j c d)"
| "journal_step j (OpTransition c s) = map_prod AnswerDone id (journal_transition j c s)"
| "journal_step j (OpFinish c s r) = map_prod AnswerDone id (journal_finish j c s r)"

fun op_command :: "'r journal_op \<Rightarrow> string" where
  "op_command (OpAdmit c _) = c"
| "op_command (OpTransition c _) = c"
| "op_command (OpFinish c _ _) = c"

text \<open>What later operations keep of an admitted command.\<close>

definition entry_extends :: "'r command_entry \<Rightarrow> 'r command_entry \<Rightarrow> bool" where
  "entry_extends e e' \<longleftrightarrow> ce_payload_digest e' = ce_payload_digest e
     \<and> valid_transition\<^sup>*\<^sup>* (ce_state e) (ce_state e')
     \<and> (ce_result e \<noteq> None \<longrightarrow> ce_result e' \<noteq> None)"

lemma final_stays: "valid_transition\<^sup>*\<^sup>* s t \<Longrightarrow> final_state s \<Longrightarrow> t = s"
  by (induction rule: rtranclp_induct)
    (auto simp: final_state_def valid_transition_def split: command_state.splits)

lemma entry_extends_refl: "entry_extends e e"
  by (simp add: entry_extends_def)

lemma entry_extends_trans: "entry_extends e f \<Longrightarrow> entry_extends f g \<Longrightarrow> entry_extends e g"
  by (auto simp: entry_extends_def)

lemma journal_transition_keeps:
  assumes "journal_transition j c s = (r, j')" "bt_get j k = Some e"
  shows "\<exists>e'. bt_get j' k = Some e' \<and> entry_extends e e'"
  using assms
  by (auto simp: journal_transition_def bt_get_insert entry_extends_def split: option.splits if_splits)

lemma journal_finish_keeps:
  assumes "journal_finish j c s x = (r, j')" "bt_get j k = Some e"
  shows "\<exists>e'. bt_get j' k = Some e' \<and> entry_extends e e'"
proof -
  obtain t m where t: "journal_transition j c s = (t, m)" by fastforce
  obtain f where f: "bt_get m k = Some f" "entry_extends e f"
    using journal_transition_keeps [OF t assms(2)] by blast
  then show ?thesis
    using assms t
    by (auto simp: journal_finish_def bt_get_insert entry_extends_def split: sum.splits option.splits)
qed

lemma journal_step_keeps:
  assumes "journal_step j op = (a, j')" "bt_get j k = Some e"
  shows "\<exists>e'. bt_get j' k = Some e' \<and> entry_extends e e'"
proof (cases op)
  case (OpAdmit c d)
  with assms show ?thesis
    by (auto simp: journal_admit_def bt_get_insert entry_extends_refl map_prod_def
        split: sum.splits option.splits if_splits)
next
  case (OpTransition c s)
  then obtain r where "journal_transition j c s = (r, j')"
    using assms(1) by (cases "journal_transition j c s") auto
  then show ?thesis using assms(2) by (rule journal_transition_keeps)
next
  case (OpFinish c s x)
  then obtain r where "journal_finish j c s x = (r, j')"
    using assms(1) by (cases "journal_finish j c s x") auto
  then show ?thesis using assms(2) by (rule journal_finish_keeps)
qed

lemma journal_run_keeps:
  assumes "run_steps journal_step j ops = (as, j')" "bt_get j k = Some e"
  shows "\<exists>e'. bt_get j' k = Some e' \<and> entry_extends e e'"
  using assms
proof (induction ops arbitrary: j as e)
  case Nil
  then show ?case by (auto intro: entry_extends_refl)
next
  case (Cons op ops)
  from Cons.prems(1) obtain a m as' where run: "journal_step j op = (a, m)"
    "run_steps journal_step m ops = (as', j')" by (rule run_steps_Cons)
  obtain f where "bt_get m k = Some f" "entry_extends e f"
    using journal_step_keeps [OF run(1) Cons.prems(2)] by blast
  with Cons.IH [OF run(2)] show ?case by (blast intro: entry_extends_trans)
qed

interpretation commands: once_only journal_step
  "\<lambda>op a. (\<exists>c d. op = OpAdmit c d) \<and> a = AnswerAdmission (Inr AdmissionNew)" op_command
  "\<lambda>j c. bt_get j c \<noteq> None"
proof
  fix j :: "'r idempotency_journal" and op a j' c
  assume step: "journal_step j op = (a, j')"
  show "bt_get j' c \<noteq> None" if "bt_get j c \<noteq> None" using journal_step_keeps [OF step] that by blast
  assume "(\<exists>c d. op = OpAdmit c d) \<and> a = AnswerAdmission (Inr AdmissionNew)"
  then obtain c d where op: "op = OpAdmit c d" "journal_admit j c d = (Inr AdmissionNew, j')"
    using step by (cases op) (auto simp: map_prod_def split: prod.splits)
  then show "\<not> bt_get j (op_command op) \<noteq> None" and "bt_get j' (op_command op) \<noteq> None"
    by (auto simp: journal_admit_def bt_get_insert split: sum.splits option.splits)
qed

definition newly_admitted :: "('r journal_op \<times> 'r journal_answer) list \<Rightarrow> string list" where
  "newly_admitted answers = map (\<lambda>a. op_command (fst a))
     (filter (\<lambda>a. (\<exists>c d. fst a = OpAdmit c d) \<and> snd a = AnswerAdmission (Inr AdmissionNew)) answers)"


text \<open>The stored result itself may be replaced: a transition to the present state is valid for
  final states too.\<close>

lemma finish_replaces_result:
  "bt_get j c = Some e \<Longrightarrow> final_state (ce_state e) \<Longrightarrow> \<exists>j'. journal_finish j c (ce_state e) r = (Inr (), j')
     \<and> bt_get j' c = Some (e\<lparr>ce_result := Some r\<rparr>)"
  by (simp add: journal_finish_def journal_transition_def valid_transition_def bt_get_insert)

section \<open>Events\<close>

text \<open>
  The specification: an unbounded log. The journal retains its last \<open>m\<close> entries; an event
  whose identifier is among them is not logged again.
\<close>

type_synonym 't event_log = "(string \<times> bytes32 \<times> 't) list"

definition retained :: "nat \<Rightarrow> 't event_log \<Rightarrow> nat list" where
  "retained m L = [length L - m ..< length L]"

definition retained_at :: "nat \<Rightarrow> 't event_log \<Rightarrow> string \<Rightarrow> nat option" where
  "retained_at m L event_id = List.find (\<lambda>i. fst (L ! i) = event_id) (retained m L)"

definition log_append ::
  "nat \<Rightarrow> 't event_log \<Rightarrow> string \<times> bytes32 \<times> 't \<Rightarrow> u64 companion_result \<times> 't event_log" where
  "log_append m L e =
     (case validate_identifier ''event ID'' (fst e) of
        Inl err \<Rightarrow> (Inl err, L)
      | Inr _ \<Rightarrow>
          (case retained_at m L (fst e) of
             Some i \<Rightarrow>
               (if fst (snd (L ! i)) = fst (snd e) then Inr (of_nat (Suc i))
                else Inl (CompanionInvalid ''event ID was reused with different content''), L)
           | None \<Rightarrow>
               (if length L + 2 < 2 ^ 64 then (Inr (of_nat (Suc (length L))), L @ [e])
                else (Inl (CompanionInvalid ''cursor overflowed''), L))))"

definition numbered :: "'t event_log \<Rightarrow> (u64 \<times> string \<times> 't) list" where
  "numbered L = map (\<lambda>i. (of_nat (Suc i), fst (L ! i), snd (snd (L ! i)))) [0 ..< length L]"

definition log_entry :: "'t event_log \<Rightarrow> nat \<Rightarrow> 't cursor_entry" where
  "log_entry L i = \<lparr>cu_cursor = of_nat (Suc i), cu_event_id = fst (L ! i), cu_event = snd (snd (L ! i))\<rparr>"

definition journal_repr :: "nat \<Rightarrow> 't event_log \<Rightarrow> 't cursor_journal \<Rightarrow> bool" where
  "journal_repr m L j \<longleftrightarrow> 0 < m \<and> cj_maximum_events j = m \<and> length L + 1 < 2 ^ 64
     \<and> cj_next_cursor j = of_nat (Suc (length L))
     \<and> cj_entries j = map (log_entry L) (retained m L)
     \<and> inj_on (\<lambda>i. fst (L ! i)) (set (retained m L))
     \<and> (\<forall>c. bt_get (cj_event_index j) c =
          map_option (\<lambda>i. (of_nat (Suc i), fst (snd (L ! i)))) (retained_at m L c))"

lemma drop_oldest_eq:
  "drop_oldest m es index = (drop (length es - m) es,
     fold (\<lambda>e. bt_remove (cu_event_id e)) (take (length es - m) es) index)"
  by (induction m es index rule: drop_oldest.induct) (auto simp: Suc_diff_le not_less)

lemma retained_at_Some:
  assumes "inj_on (\<lambda>i. fst (L ! i)) (set (retained m L))"
  shows "retained_at m L c = Some i \<longleftrightarrow> i \<in> set (retained m L) \<and> fst (L ! i) = c"
proof
  assume "retained_at m L c = Some i"
  then show "i \<in> set (retained m L) \<and> fst (L ! i) = c"
    by (auto simp: retained_at_def find_Some_iff)
next
  assume i: "i \<in> set (retained m L) \<and> fst (L ! i) = c"
  then obtain k where k: "retained_at m L c = Some k"
    by (cases "retained_at m L c") (auto simp: retained_at_def find_None_iff)
  then have "k \<in> set (retained m L) \<and> fst (L ! k) = c"
    by (auto simp: retained_at_def find_Some_iff)
  with i assms k show "retained_at m L c = Some i" by (auto dest: inj_onD)
qed

lemma retained_at_None: "retained_at m L c = None \<longleftrightarrow> (\<forall>i \<in> set (retained m L). fst (L ! i) \<noteq> c)"
  by (auto simp: retained_at_def find_None_iff)

lemma option_ext: "(\<And>y. x = Some y \<longleftrightarrow> z = Some y) \<Longrightarrow> x = z"
  by (cases x; cases z) auto

lemma retained_index_iff:
  assumes "inj_on (\<lambda>i. fst (L ! i)) (set (retained m L))"
  shows "x = map_option g (retained_at m L c) \<longleftrightarrow>
    (\<forall>y. x = Some y \<longleftrightarrow> (\<exists>i \<in> set (retained m L). fst (L ! i) = c \<and> y = g i))"
proof -
  have key: "map_option g (retained_at m L c) = Some y \<longleftrightarrow>
      (\<exists>i \<in> set (retained m L). fst (L ! i) = c \<and> y = g i)" for y
    using retained_at_Some [OF assms] by auto
  show ?thesis unfolding key [symmetric] by (auto intro: option_ext)
qed

lemma retained_snoc:
  "set (retained m (L @ [e])) = {i \<in> set (retained m L). Suc (length L) - m \<le> i} \<union> (if m = 0 then {} else {length L})"
  by (auto simp: retained_def)

lemma fold_remove_get:
  "bt_get (fold (\<lambda>e. bt_remove (cu_event_id e)) es ix) c
     = (if c \<in> cu_event_id ` set es then None else bt_get ix c)"
  by (induction es arbitrary: ix) (auto simp: bt_get_remove)

lemma append_new_refines:
  assumes repr: "journal_repr m L j" and new: "retained_at m L event_id = None"
    and room: "length L + 2 < 2 ^ 64"
    and entries: "(es, ix) = drop_oldest m (cj_entries j @ [\<lparr>cu_cursor = cj_next_cursor j, cu_event_id = event_id, cu_event = event\<rparr>])
      (bt_insert event_id (cj_next_cursor j, digest) (cj_event_index j))"
  shows "journal_repr m (L @ [(event_id, digest, event)])
    (j\<lparr>cj_next_cursor := of_nat (Suc (Suc (length L))), cj_entries := es, cj_event_index := ix\<rparr>)"
proof -
  let ?L = "L @ [(event_id, digest, event)]" and ?k = "length L - m"
  have j: "0 < m" "cj_maximum_events j = m" "cj_next_cursor j = of_nat (Suc (length L))"
    "cj_entries j = map (log_entry L) (retained m L)" "inj_on (\<lambda>i. fst (L ! i)) (set (retained m L))"
    "\<And>c. bt_get (cj_event_index j) c = map_option (\<lambda>i. (of_nat (Suc i), fst (snd (L ! i)))) (retained_at m L c)"
    using repr by (auto simp: journal_repr_def)
  define pushed where "pushed = map (log_entry ?L) [?k ..< Suc (length L)]"
  have "map (log_entry L) (retained m L) = map (log_entry ?L) (retained m L)"
    by (auto simp: retained_def log_entry_def nth_append)
  then have pushed: "cj_entries j @ [\<lparr>cu_cursor = cj_next_cursor j, cu_event_id = event_id, cu_event = event\<rparr>] = pushed"
    unfolding pushed_def j(4) by (simp add: retained_def log_entry_def j(3))
  define n where "n = length pushed - m"
  have n: "n = Suc (length L) - m - ?k" by (auto simp: n_def pushed_def)
  then have kn: "?k + n = Suc (length L) - m" using j(1) by linarith
  have es: "es = drop n pushed" and ix: "ix = fold (\<lambda>e. bt_remove (cu_event_id e)) (take n pushed)
      (bt_insert event_id (cj_next_cursor j, digest) (cj_event_index j))"
    using entries unfolding pushed drop_oldest_eq n_def by simp_all
  have es': "es = map (log_entry ?L) (retained m ?L)"
    unfolding es pushed_def drop_map drop_upt kn by (simp add: retained_def)
  have take: "cu_event_id ` set (take n pushed) = (\<lambda>i. fst (L ! i)) ` {i \<in> set (retained m L). i < Suc (length L) - m}"
  proof -
    have "take n [?k ..< Suc (length L)] = [?k ..< Suc (length L) - m]"
      using take_upt [of ?k n "Suc (length L)"] unfolding kn by simp
    moreover have "set [?k ..< Suc (length L) - m] = {i \<in> set (retained m L). i < Suc (length L) - m}"
      using j(1) by (auto simp: retained_def)
    moreover have "cu_event_id (log_entry ?L i) = fst (L ! i)" if "i \<in> set (retained m L)" for i
      using that by (simp add: log_entry_def nth_append retained_def)
    ultimately show ?thesis unfolding pushed_def take_map set_map image_image by (auto intro!: image_cong)
  qed
  have id: "fst (L ! i) \<noteq> event_id" if "i \<in> set (retained m L)" for i
    using new that by (simp add: retained_at_None)
  have below: "i < length L" if "i \<in> set (retained m L)" for i using that by (simp add: retained_def)
  have inj: "inj_on (\<lambda>i. fst (?L ! i)) (set (retained m ?L))"
    using j(5) id below unfolding retained_snoc inj_on_def by (auto simp: nth_append split: if_splits)
  have index: "bt_get ix c = map_option (\<lambda>i. (of_nat (Suc i), fst (snd (?L ! i)))) (retained_at m ?L c)" for c
    unfolding retained_index_iff [OF inj]
  proof
    fix y
    have old: "bt_get (cj_event_index j) c = Some y \<longleftrightarrow>
        (\<exists>i \<in> set (retained m L). fst (L ! i) = c \<and> y = (of_nat (Suc i), fst (snd (L ! i))))" for c y
      using iffD1 [OF retained_index_iff [OF j(5)] j(6)] by blast
    show "bt_get ix c = Some y \<longleftrightarrow>
        (\<exists>i \<in> set (retained m ?L). fst (?L ! i) = c \<and> y = (of_nat (Suc i), fst (snd (?L ! i))))"
    proof (cases "c = event_id")
      case True
      then have "c \<notin> cu_event_id ` set (take n pushed)" using id unfolding take by auto
      then show ?thesis
        using True id below j(1,3) unfolding ix fold_remove_get retained_snoc
        by (auto simp: bt_get_insert nth_append)
    next
      case False
      have "bt_get ix c = Some y \<longleftrightarrow> c \<notin> cu_event_id ` set (take n pushed)
          \<and> bt_get (cj_event_index j) c = Some y"
        unfolding ix fold_remove_get using False by (simp add: bt_get_insert)
      also have "\<dots> \<longleftrightarrow> (\<exists>i \<in> {i \<in> set (retained m L). Suc (length L) - m \<le> i}.
          fst (L ! i) = c \<and> y = (of_nat (Suc i), fst (snd (L ! i))))"
        using inj_onD [OF j(5)] unfolding old take by (auto simp: not_le image_iff) (metis not_less)+
      also have "\<dots> \<longleftrightarrow> (\<exists>i \<in> set (retained m ?L). fst (?L ! i) = c \<and> y = (of_nat (Suc i), fst (snd (?L ! i))))"
        using False below unfolding retained_snoc by (auto simp: nth_append split: if_splits) 
      finally show ?thesis .
    qed
  qed
  show ?thesis using j room es' inj index by (simp add: journal_repr_def)
qed

lemma append_refines:
  assumes repr: "journal_repr m L j" and step: "cursor_append j event_id digest event = (r, j')"
  shows "\<exists>L'. log_append m L (event_id, digest, event) = (r, L') \<and> journal_repr m L' j'"
proof (cases "validate_identifier ''event ID'' event_id")
  case (Inl e)
  then show ?thesis using assms by (simp add: cursor_append_def log_append_def)
next
  case (Inr u)
  have j: "cj_next_cursor j = of_nat (Suc (length L))" "length L + 1 < 2 ^ 64" "cj_maximum_events j = m"
    "bt_get (cj_event_index j) event_id =
      map_option (\<lambda>i. (of_nat (Suc i), fst (snd (L ! i)))) (retained_at m L event_id)"
    using repr by (auto simp: journal_repr_def)
  have next_cursor: "unat (cj_next_cursor j) = Suc (length L)"
    using j(1,2) by (simp add: unat_of_nat del: of_nat_Suc)
  show ?thesis
  proof (cases "retained_at m L event_id")
    case (Some i)
    then show ?thesis
      using assms Inr j(4) by (auto simp: cursor_append_def log_append_def require_def err_if_def)
  next
    case None
    show ?thesis
    proof (cases "length L + 2 < 2 ^ 64")
      case True
      obtain es ix where drop: "drop_oldest m
          (cj_entries j @ [\<lparr>cu_cursor = cj_next_cursor j, cu_event_id = event_id, cu_event = event\<rparr>])
          (bt_insert event_id (cj_next_cursor j, digest) (cj_event_index j)) = (es, ix)" by fastforce
      have "checked_add (cj_next_cursor j) 1 = Some (of_nat (Suc (Suc (length L))))"
        using True by (simp add: checked_add_eq_Some_iff next_cursor unat_of_nat del: of_nat_Suc)
      then have "r = Inr (of_nat (Suc (length L)))"
        "j' = j\<lparr>cj_next_cursor := of_nat (Suc (Suc (length L))), cj_entries := es, cj_event_index := ix\<rparr>"
        using step Inr None j(1,3,4) drop
        by (auto simp: cursor_append_def Let_def simp del: of_nat_Suc)
      then show ?thesis
        using append_new_refines [OF repr None True drop [symmetric]] Inr None True
        by (simp add: log_append_def del: of_nat_Suc)
    next
      case False
      have "checked_add (cj_next_cursor j) 1 = None"
        using False next_cursor by (simp add: checked_add_def)
      then show ?thesis using assms Inr None False j(4) by (simp add: cursor_append_def log_append_def)
    qed
  qed
qed

lemma journal_run_refines:
  assumes "journal_repr m L j"
    and "run_steps (\<lambda>j (event_id, digest, event). cursor_append j event_id digest event) j ops = (answers, j')"
  shows "\<exists>L'. run_steps (log_append m) L ops = (answers, L') \<and> journal_repr m L' j'"
  using assms
proof (induction ops arbitrary: L j answers)
  case (Cons op ops)
  obtain c d e where op: "op = (c, d, e)" by (cases op)
  from Cons.prems(2) obtain r k rest where run: "cursor_append j c d e = (r, k)"
    "run_steps (\<lambda>j (event_id, digest, event). cursor_append j event_id digest event) k ops = (rest, j')"
    "answers = (op, r) # rest" unfolding op by (rule run_steps_Cons) simp
  obtain M where M: "log_append m L (c, d, e) = (r, M)" "journal_repr m M k"
    using append_refines [OF Cons.prems(1) run(1)] by blast
  with Cons.IH [OF M(2) run(2)] run(3) show ?case by (auto simp: op)
qed simp

lemma new_repr: "cursor_journal_new m = Inr j \<Longrightarrow> journal_repr m [] j"
  by (auto simp: cursor_journal_new_def journal_repr_def retained_def retained_at_def bt.get_empty)

text \<open>What a reader gets who has seen the log up to a position.\<close>

lemma filter_upt: "k \<le> a \<Longrightarrow> filter (\<lambda>i. a \<le> i) [k ..< n] = [a ..< n]"
  by (induction n) auto

lemma catch_up_repr:
  assumes repr: "journal_repr m L j" and "0 < after" "1 \<le> limit" "limit \<le> 10000"
  shows "cursor_catch_up j after limit = Inr (if unat after + m < length L
    then SnapshotRequired (of_nat (Suc (length L - m))) (of_nat (Suc (length L)))
    else CatchUpEvents (take limit (drop (unat after) (numbered L))) (of_nat (Suc (length L))))"
proof -
  let ?k = "length L - m"
  have j: "0 < m" "length L + 1 < 2 ^ 64" "cj_next_cursor j = of_nat (Suc (length L))"
    "cj_entries j = map (log_entry L) [?k ..< length L]"
    using repr by (auto simp: journal_repr_def retained_def)
  have small: "unat (of_nat (Suc i) :: u64) = Suc i" if "i \<le> length L" for i
    using that j(2) by (simp add: unat_of_nat del: of_nat_Suc)
  have oldest: "(case cj_entries j of [] \<Rightarrow> cj_next_cursor j | e # _ \<Rightarrow> cu_cursor e) = of_nat (Suc ?k)"
    using j(1,3,4) by (cases "L = []") (auto simp: upt_conv_Cons log_entry_def)
  have gap: "saturating_add after 1 < of_nat (Suc ?k) \<longleftrightarrow> unat after + m < length L"
  proof (cases "unat after + 1 < 2 ^ 64")
    case True
    then have "unat (saturating_add after 1) = unat after + 1"
      by (simp add: saturating_add_def unat_word_ariths)
    then show ?thesis by (auto simp: word_less_nat_alt small simp del: of_nat_Suc)
  next
    case False
    then have "unat (saturating_add after 1) = 2 ^ 64 - 1"
      by (simp add: saturating_add_def unsigned_minus_1_eq_mask mask_eq_exp_minus_1)
    then show ?thesis using False j(2) by (auto simp: word_less_nat_alt small simp del: of_nat_Suc)
  qed
  show ?thesis
  proof (cases "unat after + m < length L")
    case True
    then show ?thesis
      using assms(2-4) by (simp add: cursor_catch_up_def Let_def oldest gap j(3) require_def err_if_def del: of_nat_Suc)
  next
    case False
    have "filter (\<lambda>e. cu_cursor e > after) (cj_entries j)
        = map (log_entry L) (filter (\<lambda>i. unat after \<le> i) [?k ..< length L])"
      unfolding j(4) filter_map
      by (auto simp: log_entry_def word_less_nat_alt small intro!: arg_cong [of _ _ "map _"] filter_cong simp del: of_nat_Suc)
    also have "\<dots> = map (log_entry L) [unat after ..< length L]"
      using False by (subst filter_upt) auto
    finally have "map (\<lambda>e. (cu_cursor e, cu_event_id e, cu_event e))
        (take limit (filter (\<lambda>e. cu_cursor e > after) (cj_entries j))) = take limit (drop (unat after) (numbered L))"
      by (simp add: numbered_def drop_map take_map log_entry_def comp_def)
    then show ?thesis
      using assms(2-4) False by (simp add: cursor_catch_up_def Let_def oldest gap j(3) require_def err_if_def del: of_nat_Suc)
  qed
qed

text \<open>C19: The bounded event journal refines the unbounded log: over any sequence of appends its answers
  are those of the log, and a reader that has seen the log up to a positive cursor gets
  exactly the entries that follow it, numbered without gaps, or is told that a snapshot is
  required when the journal no longer holds all of them.\<close>

theorem cursor_journal_refines_log:
  assumes new: "cursor_journal_new m = Inr j"
    and run: "run_steps (\<lambda>j (event_id, digest, event). cursor_append j event_id digest event) j events = (answers, j')"
  shows "\<exists>L. run_steps (log_append m) [] events = (answers, L)
    \<and> (\<forall>after limit. 0 < after \<longrightarrow> 1 \<le> limit \<longrightarrow> limit \<le> 10000 \<longrightarrow>
        cursor_catch_up j' after limit = Inr (if unat after + m < length L
          then SnapshotRequired (of_nat (Suc (length L - m))) (of_nat (Suc (length L)))
          else CatchUpEvents (take limit (drop (unat after) (numbered L))) (of_nat (Suc (length L)))))"
  using journal_run_refines [OF new_repr [OF new] run] catch_up_repr by blast

end
