(* ===== verification/Companion_Crypto.thy ===== *)
theory Companion_Crypto
  imports Companion_Journal Signatures
begin

text \<open>
  The foundation of the companion crate: timestamps and validity windows
  (\<open>companion/src/lib.rs\<close>), canonical JSON with its safe integers (\<open>canonical.rs\<close>), the
  cryptographic building blocks (\<open>crypto.rs\<close>) and the transport identities
  (\<open>identity.rs\<close>). A byte array \<open>[u8; N]\<close> is a word of \<open>8 N\<close> bits, so its length is part of
  its type; its bytes are \<open>to_be_bytes\<close>.
\<close>

section \<open>Functions of other crates\<close>

text \<open>
  \<open>time\<close>, \<open>serde_json_canonicalizer\<close>, \<open>base64\<close> (URL-safe, unpadded), \<open>sha2\<close>, \<open>x25519_dalek\<close>,
  \<open>hkdf\<close> (salt, input key, info), \<open>chacha20poly1305\<close> (key, nonce, text, associated data),
  \<open>ed25519_dalek\<close>, \<open>hmac\<close> (key, message) and \<open>bip39\<close>: a parsed mnemonic is its number of
  words and the seed it gives with an empty passphrase.
\<close>

record companion_env =
  cx_rfc3339_parse :: "string \<Rightarrow> rfc3339_time option"
  cx_rfc3339_format :: "rfc3339_time \<Rightarrow> string option"
  cx_canonicalize :: "json \<Rightarrow> string + byte list"
  cx_base64 :: "byte list \<Rightarrow> string"
  cx_base64_decode :: "string \<Rightarrow> byte list option"
  cx_sha256 :: "byte list \<Rightarrow> bytes32"
  cx_agreement_public :: "bytes32 \<Rightarrow> bytes32"
  cx_diffie_hellman :: "bytes32 \<Rightarrow> bytes32 \<Rightarrow> bytes32"
  cx_hkdf :: "byte list \<Rightarrow> byte list \<Rightarrow> byte list \<Rightarrow> bytes32 option"
  cx_seal :: "bytes32 \<Rightarrow> 96 word \<Rightarrow> byte list \<Rightarrow> byte list \<Rightarrow> byte list option"
  cx_open :: "bytes32 \<Rightarrow> 96 word \<Rightarrow> byte list \<Rightarrow> byte list \<Rightarrow> byte list option"
  cx_signing_public :: "bytes32 \<Rightarrow> bytes32"
  cx_sign :: "bytes32 \<Rightarrow> byte list \<Rightarrow> 512 word"
  cx_verifying_key :: "bytes32 \<Rightarrow> bool"
  cx_verify :: "bytes32 \<Rightarrow> byte list \<Rightarrow> 512 word \<Rightarrow> bool"
  cx_hmac :: "byte list \<Rightarrow> byte list \<Rightarrow> bytes32"
  cx_mnemonic :: "string \<Rightarrow> (nat \<times> byte list) option"
  cx_mnemonic_of_entropy :: "128 word \<Rightarrow> string option"

text \<open>
  What the protocol relies on of them: unpadded base64 is decoded by its decoder and at most
  doubles the length, the key agreement is symmetric, authenticated decryption inverts
  encryption, which adds a tag of 16 bytes, and a signature verifies under its public key.
\<close>

definition base64_laws :: "companion_env \<Rightarrow> bool" where
  "base64_laws E \<longleftrightarrow> (\<forall>b. cx_base64_decode E (cx_base64 E b) = Some b
     \<and> length (cx_base64 E b) \<le> 2 * length b \<and> (b \<noteq> [] \<longrightarrow> cx_base64 E b \<noteq> []))"

definition agreement_law :: "companion_env \<Rightarrow> bool" where
  "agreement_law E \<longleftrightarrow> (\<forall>a b. cx_diffie_hellman E a (cx_agreement_public E b)
     = cx_diffie_hellman E b (cx_agreement_public E a))"

definition aead_law :: "companion_env \<Rightarrow> bool" where
  "aead_law E \<longleftrightarrow> (\<forall>k n m a c. cx_seal E k n m a = Some c \<longrightarrow>
     cx_open E k n c a = Some m \<and> length c = length m + 16)"

definition signature_law :: "companion_env \<Rightarrow> bool" where
  "signature_law E \<longleftrightarrow> (\<forall>s m. cx_verifying_key E (cx_signing_public E s)
     \<and> cx_verify E (cx_signing_public E s) m (cx_sign E s m))"

section \<open>Text and time\<close>

definition MAX_CLOCK_SKEW_SECONDS :: int where "MAX_CLOCK_SKEW_SECONDS = 30"
definition MAX_TEXT_BYTES :: nat where "MAX_TEXT_BYTES = 1024 * 1024"

definition validate_text :: "string \<Rightarrow> string \<Rightarrow> nat \<Rightarrow> unit companion_result" where
  "validate_text label v maximum =
     require (str_trim v \<noteq> [] \<and> length v \<le> maximum)
       (label @ '' must be nonempty and no larger than '' @ show_nat maximum @ '' UTF-8 bytes'')"

text \<open>
  An \<open>OffsetDateTime\<close> is compared by its instant, in nanoseconds. Durations in whole
  seconds are truncated towards zero; a shift that leaves the years -9999 to 9999 panics.
\<close>

type_synonym instant = int

definition second :: int where "second = 1000000000"

definition instant_of :: "rfc3339_time \<Rightarrow> instant" where
  "instant_of t = rt_unix t * second + int (rt_nanosecond t)"

definition whole_seconds :: "int \<Rightarrow> int" where
  "whole_seconds d = sgn d * (\<bar>d\<bar> div second)"

definition shift :: "instant \<Rightarrow> int \<Rightarrow> instant companion_result" where
  "shift t seconds =
     (let u = t + seconds * second in
      if - 377705116800 * second \<le> u \<and> u < 253402300800 * second then Inr u
      else Inl (CompanionPanic ''resulting value is out of range''))"

definition parse_timestamp :: "companion_env \<Rightarrow> string \<Rightarrow> instant companion_result" where
  "parse_timestamp E v =
     bind_result (require (length v = 20 \<and> v ! 4 = CHR ''-'' \<and> v ! 7 = CHR ''-'' \<and> v ! 10 = CHR ''T''
         \<and> v ! 13 = CHR '':'' \<and> v ! 16 = CHR '':'' \<and> last v = CHR ''Z'')
       ''timestamps must use exact-second UTC RFC 3339'') (\<lambda>_.
     bind_result (ok_or (CompanionInvalid ''timestamp is not RFC 3339'') (cx_rfc3339_parse E v)) (\<lambda>parsed.
     bind_result (ok_or (CompanionInvalid ''timestamp cannot be formatted'') (cx_rfc3339_format E parsed)) (\<lambda>canonical.
     bind_result (require (canonical = v) ''timestamp is not canonical RFC 3339'') (\<lambda>_.
       Inr (instant_of parsed)))))"

definition timestamp_ok :: "companion_env \<Rightarrow> string \<Rightarrow> unit companion_result" where
  "timestamp_ok E v = bind_result (parse_timestamp E v) (\<lambda>_. Inr ())"

text \<open>\<open>now >= issued - skew && now <= expires + skew\<close>.\<close>

definition within_skew :: "instant \<Rightarrow> instant \<Rightarrow> instant \<Rightarrow> int \<Rightarrow> bool companion_result" where
  "within_skew now issued expires skew =
     bind_result (shift issued (- skew)) (\<lambda>first.
       if now < first then Inr False
       else bind_result (shift expires skew) (\<lambda>final. Inr (now \<le> final)))"

definition validate_window ::
  "companion_env \<Rightarrow> string \<Rightarrow> string \<Rightarrow> instant \<Rightarrow> int \<Rightarrow> int \<Rightarrow> unit companion_result" where
  "validate_window E issued_at expires_at now maximum_lifetime_seconds clock_skew_seconds =
     bind_result (parse_timestamp E issued_at) (\<lambda>issued.
     bind_result (parse_timestamp E expires_at) (\<lambda>expires.
     let lifetime = whole_seconds (expires - issued) in
     bind_result (require (0 < lifetime \<and> lifetime \<le> maximum_lifetime_seconds) ''object lifetime is invalid'') (\<lambda>_.
     bind_result (within_skew now issued expires clock_skew_seconds) (\<lambda>valid.
       require valid ''object is not valid at this time''))))"

section \<open>Canonical JSON\<close>

definition MAX_SAFE_INTEGER :: nat where "MAX_SAFE_INTEGER = 2 ^ 53 - 1"

fun validate_safe_numbers :: "json \<Rightarrow> unit companion_result" where
  "validate_safe_numbers (JNum n) =
     require (n \<le> MAX_SAFE_INTEGER) ''JSON number is not a cross-language safe integer''"
| "validate_safe_numbers (JNegative n) =
     require (n \<le> MAX_SAFE_INTEGER) ''JSON number is not a cross-language safe integer''"
| "validate_safe_numbers (JFraction _) =
     Inl (CompanionInvalid ''JSON number is not a cross-language safe integer'')"
| "validate_safe_numbers (JArr xs) = checks (map validate_safe_numbers xs)"
| "validate_safe_numbers (JObj ms) = checks (map (\<lambda>m. validate_safe_numbers (snd m)) ms)"
| "validate_safe_numbers JNull = Inr ()"
| "validate_safe_numbers (JBool _) = Inr ()"
| "validate_safe_numbers (JStr _) = Inr ()"

definition to_vec :: "companion_env \<Rightarrow> json \<Rightarrow> byte list companion_result" where
  "to_vec E v = bind_result (validate_safe_numbers v) (\<lambda>_.
     map_err CompanionCanonical (cx_canonicalize E v))"

text \<open>The parser of the type and its JSON form are arguments.\<close>

definition from_slice ::
  "companion_env \<Rightarrow> (byte list \<Rightarrow> string + 'a) \<Rightarrow> ('a \<Rightarrow> json) \<Rightarrow> byte list \<Rightarrow> 'a companion_result" where
  "from_slice E parse to_json bytes =
     bind_result (map_err CompanionCanonical (parse bytes)) (\<lambda>v.
     bind_result (to_vec E (to_json v)) (\<lambda>encoded.
       if encoded \<noteq> bytes then Inl (CompanionInvalid ''JSON bytes are not their RFC 8785 canonical representation'')
       else Inr v))"

section \<open>Building blocks\<close>

definition ENVELOPE_KEY_DOMAIN :: "byte list" where
  "ENVELOPE_KEY_DOMAIN = str_bytes ''tohseno.companion.envelope-key.v1''"
definition PAIRING_CONFIRMATION_DOMAIN :: "byte list" where
  "PAIRING_CONFIRMATION_DOMAIN = str_bytes ''tohseno.companion.pairing-confirmation.v1''"
definition PAIRING_RESPONSE_KEY_DOMAIN :: "byte list" where
  "PAIRING_RESPONSE_KEY_DOMAIN = str_bytes ''tohseno.companion.pairing-response-key.v1''"

definition base64url :: "companion_env \<Rightarrow> byte list \<Rightarrow> string" where
  "base64url E bytes = cx_base64 E bytes"

text \<open>Lengths are far below \<open>usize::MAX\<close>: every caller passes a constant.\<close>

definition decode_base64url ::
  "companion_env \<Rightarrow> string \<Rightarrow> string \<Rightarrow> nat \<Rightarrow> byte list companion_result" where
  "decode_base64url E label v maximum =
     bind_result (require (v \<noteq> [] \<and> length v \<le> maximum * 2 + 8) (label @ '' is empty or too large'')) (\<lambda>_.
     bind_result (ok_or (CompanionInvalid (label @ '' is not canonical base64url'')) (cx_base64_decode E v)) (\<lambda>decoded.
     bind_result (require (length decoded \<le> maximum) (label @ '' is too large'')) (\<lambda>_.
     bind_result (require (base64url E decoded = v) (label @ '' is not canonical base64url'')) (\<lambda>_.
       Inr decoded))))"

definition decode_array :: "companion_env \<Rightarrow> string \<Rightarrow> string \<Rightarrow> 'n::len word companion_result" where
  "decode_array E label v =
     bind_result (decode_base64url E label v (LENGTH('n) div 8)) (\<lambda>bytes.
       if length bytes = LENGTH('n) div 8 then Inr (from_be_bytes bytes)
       else Inl (CompanionInvalid (label @ '' has the wrong byte length'')))"

text \<open>\<open>decode_array::<N>(..)?;\<close> for its check alone.\<close>

definition array_ok :: "'n::len word itself \<Rightarrow> companion_env \<Rightarrow> string \<Rightarrow> string \<Rightarrow> unit companion_result" where
  "array_ok T E label v = bind_result (decode_array E label v :: 'n word companion_result) (\<lambda>_. Inr ())"

definition hash :: "companion_env \<Rightarrow> byte list \<Rightarrow> bytes32" where
  "hash E bytes = cx_sha256 E bytes"

definition hash_many :: "companion_env \<Rightarrow> byte list list \<Rightarrow> bytes32" where
  "hash_many E parts = cx_sha256 E (concat parts)"

definition x25519 :: "companion_env \<Rightarrow> bytes32 \<Rightarrow> bytes32 \<Rightarrow> bytes32 companion_result" where
  "x25519 E secret public_key =
     (let shared = cx_diffie_hellman E secret public_key in
      bind_result (require (shared \<noteq> 0) ''X25519 shared secret is all zero'') (\<lambda>_. Inr shared))"

definition derive_key :: "companion_env \<Rightarrow> bytes32 \<Rightarrow> byte list \<Rightarrow> byte list \<Rightarrow> bytes32 companion_result" where
  "derive_key E shared_secret salt domain =
     ok_or (CompanionCrypto ''HKDF-SHA-256 expansion'') (cx_hkdf E salt (to_be_bytes shared_secret) domain)"

definition encrypt :: "companion_env \<Rightarrow> bytes32 \<Rightarrow> 96 word \<Rightarrow> byte list \<Rightarrow> byte list \<Rightarrow> byte list companion_result" where
  "encrypt E key nonce plaintext associated_data =
     ok_or (CompanionCrypto ''ChaCha20-Poly1305 encryption'') (cx_seal E key nonce plaintext associated_data)"

definition decrypt :: "companion_env \<Rightarrow> bytes32 \<Rightarrow> 96 word \<Rightarrow> byte list \<Rightarrow> byte list \<Rightarrow> byte list companion_result" where
  "decrypt E key nonce ciphertext associated_data =
     ok_or (CompanionCrypto ''ChaCha20-Poly1305 authentication'') (cx_open E key nonce ciphertext associated_data)"

definition hmac_sha256 :: "companion_env \<Rightarrow> byte list \<Rightarrow> byte list \<Rightarrow> byte list \<Rightarrow> bytes32" where
  "hmac_sha256 E key domain message = cx_hmac E key (domain @ [0] @ message)"

definition verify_hmac_sha256 ::
  "companion_env \<Rightarrow> byte list \<Rightarrow> byte list \<Rightarrow> byte list \<Rightarrow> bytes32 \<Rightarrow> unit companion_result" where
  "verify_hmac_sha256 E key domain message expected =
     err_if (cx_hmac E key (domain @ [0] @ message) \<noteq> expected) (CompanionCrypto ''HMAC-SHA-256 verification'')"

section \<open>Identities\<close>

definition COMPANION_SIGNING_DOMAIN :: "byte list" where
  "COMPANION_SIGNING_DOMAIN = str_bytes ''tohseno.companion.signing.v1''"
definition COMPANION_AGREEMENT_DOMAIN :: "byte list" where
  "COMPANION_AGREEMENT_DOMAIN = str_bytes ''tohseno.companion.agreement.v1''"
definition COMPANION_STORAGE_DOMAIN :: "byte list" where
  "COMPANION_STORAGE_DOMAIN = str_bytes ''tohseno.companion.storage.v1''"
definition HKDF_SALT :: "byte list" where
  "HKDF_SALT = str_bytes ''tohseno.companion.hkdf-sha256.v1''"
definition DEVICE_ID_DOMAIN :: "byte list" where
  "DEVICE_ID_DOMAIN = str_bytes ''tohseno.companion.device-id.v1'' @ [0]"

text \<open>
  The workspace service and a companion implement \<open>TransportIdentity\<close> alike; a companion
  also has a storage key.
\<close>

record transport_identity =
  ti_signing_secret :: bytes32
  ti_agreement_secret :: bytes32
  ti_signing_public_key :: bytes32
  ti_agreement_public_key :: bytes32
  ti_device_id :: string

record companion_identity = transport_identity +
  ci_storage_key :: bytes32

record derived_key_material =
  dk_signing_secret :: bytes32
  dk_agreement_secret :: bytes32
  dk_storage_key :: bytes32

definition device_id_from_public_keys :: "companion_env \<Rightarrow> bytes32 \<Rightarrow> bytes32 \<Rightarrow> string" where
  "device_id_from_public_keys E signing_public_key agreement_public_key =
     (let digest = hash_many E [DEVICE_ID_DOMAIN, to_be_bytes signing_public_key, to_be_bytes agreement_public_key]
      in ''device_'' @ base64url E (take 18 (to_be_bytes digest)))"

definition from_secret_keys :: "companion_env \<Rightarrow> bytes32 \<Rightarrow> bytes32 \<Rightarrow> transport_identity companion_result" where
  "from_secret_keys E signing_secret agreement_secret =
     bind_result (require (signing_secret \<noteq> 0 \<and> agreement_secret \<noteq> 0)
       ''workspace transport secrets must not be all zero'') (\<lambda>_.
     let signing_public_key = cx_signing_public E signing_secret;
         agreement_public_key = cx_agreement_public E agreement_secret
     in Inr \<lparr>ti_signing_secret = signing_secret, ti_agreement_secret = agreement_secret,
          ti_signing_public_key = signing_public_key, ti_agreement_public_key = agreement_public_key,
          ti_device_id = device_id_from_public_keys E signing_public_key agreement_public_key\<rparr>)"

definition derive_key_material :: "companion_env \<Rightarrow> byte list \<Rightarrow> derived_key_material companion_result" where
  "derive_key_material E seed =
     bind_result (require (length seed = 64) ''BIP-39 seed must contain 64 bytes'') (\<lambda>_.
     bind_result (ok_or (CompanionCrypto ''signing-key derivation'') (cx_hkdf E HKDF_SALT seed COMPANION_SIGNING_DOMAIN)) (\<lambda>signing_secret.
     bind_result (ok_or (CompanionCrypto ''agreement-key derivation'') (cx_hkdf E HKDF_SALT seed COMPANION_AGREEMENT_DOMAIN)) (\<lambda>agreement_secret.
     bind_result (ok_or (CompanionCrypto ''storage-key derivation'') (cx_hkdf E HKDF_SALT seed COMPANION_STORAGE_DOMAIN)) (\<lambda>storage_key.
       Inr \<lparr>dk_signing_secret = signing_secret, dk_agreement_secret = agreement_secret, dk_storage_key = storage_key\<rparr>))))"

definition from_seed :: "companion_env \<Rightarrow> byte list \<Rightarrow> companion_identity companion_result" where
  "from_seed E seed =
     bind_result (derive_key_material E seed) (\<lambda>material.
     let signing_public_key = cx_signing_public E (dk_signing_secret material);
         agreement_public_key = cx_agreement_public E (dk_agreement_secret material)
     in Inr \<lparr>ti_signing_secret = dk_signing_secret material, ti_agreement_secret = dk_agreement_secret material,
          ti_signing_public_key = signing_public_key, ti_agreement_public_key = agreement_public_key,
          ti_device_id = device_id_from_public_keys E signing_public_key agreement_public_key,
          ci_storage_key = dk_storage_key material\<rparr>)"

definition parse_mnemonic :: "companion_env \<Rightarrow> string \<Rightarrow> (nat \<times> byte list) companion_result" where
  "parse_mnemonic E words =
     bind_result (ok_or (CompanionInvalid ''invalid English BIP-39 recovery phrase'') (cx_mnemonic E words)) (\<lambda>mnemonic.
     bind_result (require (fst mnemonic = 12) ''companion recovery phrase must contain exactly 12 words'') (\<lambda>_.
       Inr mnemonic))"

definition recovery_phrase_parse :: "companion_env \<Rightarrow> string \<Rightarrow> string companion_result" where
  "recovery_phrase_parse E words = bind_result (parse_mnemonic E words) (\<lambda>_. Inr words)"

definition restore :: "companion_env \<Rightarrow> string \<Rightarrow> companion_identity companion_result" where
  "restore E phrase = bind_result (parse_mnemonic E phrase) (\<lambda>mnemonic. from_seed E (snd mnemonic))"

definition from_entropy :: "companion_env \<Rightarrow> 128 word \<Rightarrow> (string \<times> companion_identity) companion_result" where
  "from_entropy E entropy =
     bind_result (ok_or (CompanionCrypto ''BIP-39 phrase generation'') (cx_mnemonic_of_entropy E entropy)) (\<lambda>mnemonic.
     bind_result (recovery_phrase_parse E mnemonic) (\<lambda>phrase.
     bind_result (restore E phrase) (\<lambda>identity. Inr (phrase, identity))))"

definition signing_bytes :: "byte list \<Rightarrow> byte list \<Rightarrow> byte list" where
  "signing_bytes domain message = domain @ [0] @ message"

definition identity_sign ::
  "companion_env \<Rightarrow> 'i transport_identity_scheme \<Rightarrow> byte list \<Rightarrow> byte list \<Rightarrow> 512 word" where
  "identity_sign E i domain message = cx_sign E (ti_signing_secret i) (signing_bytes domain message)"

definition identity_agree ::
  "companion_env \<Rightarrow> 'i transport_identity_scheme \<Rightarrow> bytes32 \<Rightarrow> bytes32 companion_result" where
  "identity_agree E i remote_public_key = x25519 E (ti_agreement_secret i) remote_public_key"

definition identity_verify ::
  "companion_env \<Rightarrow> bytes32 \<Rightarrow> byte list \<Rightarrow> byte list \<Rightarrow> 512 word \<Rightarrow> unit companion_result" where
  "identity_verify E public_key domain message signature =
     checks [err_if (\<not> cx_verifying_key E public_key) (CompanionCrypto ''invalid Ed25519 public key''),
       err_if (\<not> cx_verify E public_key (signing_bytes domain message) signature)
         (CompanionCrypto ''Ed25519 signature verification'')]"

definition signing_public_key_base64url :: "companion_env \<Rightarrow> 'i transport_identity_scheme \<Rightarrow> string" where
  "signing_public_key_base64url E i = base64url E (to_be_bytes (ti_signing_public_key i))"

definition agreement_public_key_base64url :: "companion_env \<Rightarrow> 'i transport_identity_scheme \<Rightarrow> string" where
  "agreement_public_key_base64url E i = base64url E (to_be_bytes (ti_agreement_public_key i))"

section \<open>Facts the protocols use\<close>

lemma timestamp_ok_eq_Inr [simp]: "timestamp_ok E v = Inr u \<longleftrightarrow> (\<exists>t. parse_timestamp E v = Inr t)"
  by (simp add: timestamp_ok_def)

lemma array_ok_eq_Inr [simp]:
  "array_ok (T :: 'n::len word itself) E label v = Inr u \<longleftrightarrow> (\<exists>w :: 'n word. decode_array E label v = Inr w)"
  by (simp add: array_ok_def)

lemma decode_base64url_eq_Inr:
  "decode_base64url E label v maximum = Inr b \<longleftrightarrow>
     v \<noteq> [] \<and> length v \<le> maximum * 2 + 8 \<and> cx_base64_decode E v = Some b
     \<and> length b \<le> maximum \<and> base64url E b = v"
  by (auto simp: decode_base64url_def)

lemma decode_base64url_encoded:
  assumes "base64_laws E" "b \<noteq> []" "length b \<le> maximum"
  shows "decode_base64url E label (base64url E b) maximum = Inr b"
proof -
  have "cx_base64_decode E (cx_base64 E b) = Some b" "length (cx_base64 E b) \<le> 2 * length b" "cx_base64 E b \<noteq> []"
    using assms(1,2) by (auto simp: base64_laws_def)
  then show ?thesis using assms(3) by (simp add: decode_base64url_eq_Inr base64url_def)
qed

text \<open>The text of an array determines it; only that text is accepted for it.\<close>

lemma decode_array_eq_Inr:
  assumes "8 dvd LENGTH('n)"
  shows "decode_array E label v = Inr (w :: 'n::len word) \<longleftrightarrow>
    decode_base64url E label v (LENGTH('n) div 8) = Inr (to_be_bytes w)"
  using from_to_be_bytes [OF assms] to_from_be_bytes [OF assms] by (auto simp: decode_array_def)

lemma decode_array_base64url:
  assumes "8 dvd LENGTH('n)" "decode_array E label v = Inr (w :: 'n::len word)"
  shows "v = base64url E (to_be_bytes w)"
  using assms(2) unfolding decode_array_eq_Inr [OF assms(1)] by (simp add: decode_base64url_eq_Inr)

lemma decode_array_encoded:
  fixes w :: "'n::len word"
  assumes "base64_laws E" "8 dvd LENGTH('n)"
  shows "decode_array E label (base64url E (to_be_bytes w)) = Inr w"
proof -
  have "8 \<le> LENGTH('n)" using assms(2) by (auto elim!: dvdE) (metis len_not_eq_0 mult_is_0 not_less_eq_eq One_nat_def neq0_conv mult_le_mono2 nat_mult_1_right Suc_leI)
  then have "(to_be_bytes w) \<noteq> []" by (metis div_greater_zero_iff length_to_be_bytes length_greater_0_conv zero_less_numeral)
  then show ?thesis by (simp add: decode_array_eq_Inr [OF assms(2)] decode_base64url_encoded [OF assms(1)])
qed

text \<open>Identities whose public parts belong to their secrets, as every constructor makes them.\<close>

definition genuine :: "companion_env \<Rightarrow> 'i transport_identity_scheme \<Rightarrow> bool" where
  "genuine E i \<longleftrightarrow> ti_signing_public_key i = cx_signing_public E (ti_signing_secret i)
     \<and> ti_agreement_public_key i = cx_agreement_public E (ti_agreement_secret i)
     \<and> ti_device_id i = device_id_from_public_keys E (ti_signing_public_key i) (ti_agreement_public_key i)"

lemma from_secret_keys_genuine: "from_secret_keys E s a = Inr i \<Longrightarrow> genuine E i"
  by (auto simp: from_secret_keys_def genuine_def Let_def)

lemma from_seed_genuine: "from_seed E seed = Inr i \<Longrightarrow> genuine E i"
  by (auto simp: from_seed_def genuine_def Let_def)

lemma from_entropy_genuine: "from_entropy E e = Inr (phrase, i) \<Longrightarrow> genuine E i"
  by (auto simp: from_entropy_def restore_def intro: from_seed_genuine)

lemma verify_signed:
  "signature_law E \<Longrightarrow> genuine E i \<Longrightarrow>
     identity_verify E (ti_signing_public_key i) domain message (identity_sign E i domain message) = Inr ()"
  by (simp add: identity_verify_def identity_sign_def genuine_def signature_law_def)

lemma agree_symmetric:
  "agreement_law E \<Longrightarrow> genuine E i \<Longrightarrow>
     identity_agree E i (cx_agreement_public E s) = x25519 E s (ti_agreement_public_key i)"
  by (simp add: identity_agree_def x25519_def genuine_def agreement_law_def)

lemma decrypt_encrypted: "aead_law E \<Longrightarrow> encrypt E k n m a = Inr c \<Longrightarrow> decrypt E k n c a = Inr m \<and> length c = length m + 16"
  by (auto simp: encrypt_def decrypt_def aead_law_def)

text \<open>The bytes of a document are signed under a domain by the holder of a key.\<close>

definition signed_document :: "companion_env \<Rightarrow> bytes32 \<Rightarrow> byte list \<Rightarrow> json \<Rightarrow> string \<Rightarrow> bool" where
  "signed_document E key domain document text \<longleftrightarrow>
     (\<exists>bytes signature. to_vec E document = Inr bytes \<and> text = base64url E (to_be_bytes signature)
        \<and> cx_verify E key (signing_bytes domain bytes) signature)"

lemma signed_documentI:
  assumes "to_vec E document = Inr bytes" "decode_array E label text = Inr (signature :: 512 word)"
    "identity_verify E key domain bytes signature = Inr ()"
  shows "signed_document E key domain document text"
proof -
  have "text = base64url E (to_be_bytes signature)"
    by (rule decode_array_base64url [OF _ assms(2)]) simp
  then show ?thesis
    using assms(1,3) by (auto simp: signed_document_def identity_verify_def)
qed

end
