(* ===== verification/Companion_Envelope.thy ===== *)
theory Companion_Envelope
  imports Companion_Crypto
begin

text \<open>
  End-to-end encrypted envelopes, \<open>companion/src/envelope.rs\<close>: sealing under a fresh key,
  the shape a relay can check, and opening against a replay window. What is opened was
  sealed and is delivered once.
\<close>

section \<open>Envelopes\<close>

definition COMPANION_ENVELOPE_SCHEMA :: string where
  "COMPANION_ENVELOPE_SCHEMA = ''tohseno.companion-envelope/1''"
definition ENVELOPE_SIGNATURE_DOMAIN :: "byte list" where
  "ENVELOPE_SIGNATURE_DOMAIN = str_bytes ''tohseno.companion.envelope-signature.v1''"
definition MAX_ENVELOPE_PLAINTEXT_BYTES :: nat where
  "MAX_ENVELOPE_PLAINTEXT_BYTES = 16 * 1024 * 1024"
definition MAX_ENVELOPE_LIFETIME_SECONDS :: int where
  "MAX_ENVELOPE_LIFETIME_SECONDS = 7 * 24 * 60 * 60"
definition MAX_SAFE_SENDER_SEQUENCE :: u64 where
  "MAX_SAFE_SENDER_SEQUENCE = 9007199254740991"

record envelope_header =
  eh_schema :: string
  eh_envelope_id :: string
  eh_mailbox_id :: string
  eh_sender_device_id :: string
  eh_recipient_device_id :: string
  eh_sender_sequence :: u64
  eh_created_at :: string
  eh_expires_at :: string
  eh_ephemeral_public_key :: string
  eh_nonce :: string

record opaque_envelope =
  oe_header :: envelope_header
  oe_ciphertext :: string
  oe_signature :: string

record envelope_metadata =
  em_envelope_id :: string
  em_mailbox_id :: string
  em_recipient_device_id :: string
  em_sender_sequence :: u64
  em_created_at :: string
  em_expires_at :: string

definition envelope_header_members :: "envelope_header \<Rightarrow> (string \<times> json) list" where
  "envelope_header_members h = [
     (''schema'', JStr (eh_schema h)),
     (''envelope_id'', JStr (eh_envelope_id h)),
     (''mailbox_id'', JStr (eh_mailbox_id h)),
     (''sender_device_id'', JStr (eh_sender_device_id h)),
     (''recipient_device_id'', JStr (eh_recipient_device_id h)),
     (''sender_sequence'', json_word (eh_sender_sequence h)),
     (''created_at'', JStr (eh_created_at h)),
     (''expires_at'', JStr (eh_expires_at h)),
     (''ephemeral_public_key'', JStr (eh_ephemeral_public_key h)),
     (''nonce'', JStr (eh_nonce h))]"

definition envelope_header_json :: "envelope_header \<Rightarrow> json" where
  "envelope_header_json h = JObj (envelope_header_members h)"

definition unsigned_envelope_json :: "envelope_header \<Rightarrow> string \<Rightarrow> json" where
  "unsigned_envelope_json h ciphertext = JObj (envelope_header_members h @ [(''ciphertext'', JStr ciphertext)])"

definition validate_uuid_v4 :: "string \<Rightarrow> unit companion_result" where
  "validate_uuid_v4 v =
     require (length v = 36 \<and> list_all (\<lambda>i. v ! i = CHR ''-'') [8, 13, 18, 23]
         \<and> list_all (\<lambda>i. i \<in> {8, 13, 18, 23} \<or> is_lower_hex_char (v ! i)) [0 ..< length v]
         \<and> v ! 14 = CHR ''4'' \<and> v ! 19 \<in> {CHR ''8'', CHR ''9'', CHR ''a'', CHR ''b''})
       ''envelope ID must be a canonical lowercase UUIDv4''"

definition header_validate_shape :: "companion_env \<Rightarrow> envelope_header \<Rightarrow> unit companion_result" where
  "header_validate_shape E h =
     checks [require (eh_schema h = COMPANION_ENVELOPE_SCHEMA) ''unsupported companion envelope schema'',
       validate_uuid_v4 (eh_envelope_id h),
       validate_identifier ''mailbox ID'' (eh_mailbox_id h),
       validate_identifier ''sender device ID'' (eh_sender_device_id h),
       validate_identifier ''recipient device ID'' (eh_recipient_device_id h),
       require (1 \<le> eh_sender_sequence h \<and> eh_sender_sequence h \<le> MAX_SAFE_SENDER_SEQUENCE)
         ''sender sequence must be a positive cross-language safe integer'',
       bind_result (parse_timestamp E (eh_created_at h)) (\<lambda>created_at.
       bind_result (parse_timestamp E (eh_expires_at h)) (\<lambda>expires_at.
         let lifetime = whole_seconds (expires_at - created_at) in
         require (0 < lifetime \<and> lifetime \<le> MAX_ENVELOPE_LIFETIME_SECONDS) ''envelope lifetime is invalid'')),
       array_ok TYPE(256 word) E ''envelope ephemeral public key'' (eh_ephemeral_public_key h),
       array_ok TYPE(96 word) E ''envelope nonce'' (eh_nonce h)]"

definition validate_relay_shape :: "companion_env \<Rightarrow> opaque_envelope \<Rightarrow> unit companion_result" where
  "validate_relay_shape E envelope =
     bind_result (header_validate_shape E (oe_header envelope)) (\<lambda>_.
     bind_result (decode_base64url E ''envelope ciphertext'' (oe_ciphertext envelope)
       (MAX_ENVELOPE_PLAINTEXT_BYTES + 16)) (\<lambda>ciphertext.
       checks [require (16 \<le> length ciphertext) ''envelope ciphertext is too short'',
         array_ok TYPE(512 word) E ''envelope signature'' (oe_signature envelope)]))"

section \<open>Sealing and opening\<close>

definition sealed_header ::
  "companion_env \<Rightarrow> string \<Rightarrow> envelope_metadata \<Rightarrow> bytes32 \<Rightarrow> 96 word \<Rightarrow> envelope_header" where
  "sealed_header E sender_device_id metadata ephemeral_public_key nonce =
     \<lparr>eh_schema = COMPANION_ENVELOPE_SCHEMA, eh_envelope_id = em_envelope_id metadata,
      eh_mailbox_id = em_mailbox_id metadata, eh_sender_device_id = sender_device_id,
      eh_recipient_device_id = em_recipient_device_id metadata,
      eh_sender_sequence = em_sender_sequence metadata, eh_created_at = em_created_at metadata,
      eh_expires_at = em_expires_at metadata,
      eh_ephemeral_public_key = base64url E (to_be_bytes ephemeral_public_key),
      eh_nonce = base64url E (to_be_bytes nonce)\<rparr>"

text \<open>\<open>seal_envelope\<close> calls this with a random ephemeral secret and nonce.\<close>

definition seal_with_material ::
  "companion_env \<Rightarrow> 'i transport_identity_scheme \<Rightarrow> bytes32 \<Rightarrow> envelope_metadata \<Rightarrow> byte list
     \<Rightarrow> bytes32 \<Rightarrow> 96 word \<Rightarrow> opaque_envelope companion_result" where
  "seal_with_material E sender recipient_agreement_public_key metadata plaintext ephemeral_secret nonce =
     bind_result (require (plaintext \<noteq> [] \<and> length plaintext \<le> MAX_ENVELOPE_PLAINTEXT_BYTES)
       ''envelope plaintext is empty or too large'') (\<lambda>_.
     let header = sealed_header E (ti_device_id sender) metadata (cx_agreement_public E ephemeral_secret) nonce in
     bind_result (header_validate_shape E header) (\<lambda>_.
     bind_result (to_vec E (envelope_header_json header)) (\<lambda>aad.
     bind_result (x25519 E ephemeral_secret recipient_agreement_public_key) (\<lambda>shared.
     bind_result (derive_key E shared (to_be_bytes (hash E aad)) ENVELOPE_KEY_DOMAIN) (\<lambda>key.
     bind_result (encrypt E key nonce plaintext aad) (\<lambda>ciphertext_bytes.
     let ciphertext = base64url E ciphertext_bytes in
     bind_result (to_vec E (unsigned_envelope_json header ciphertext)) (\<lambda>unsigned.
       Inr \<lparr>oe_header = header, oe_ciphertext = ciphertext,
            oe_signature = base64url E (to_be_bytes (identity_sign E sender ENVELOPE_SIGNATURE_DOMAIN unsigned))\<rparr>)))))))"

text \<open>Everything before the replay window is consulted.\<close>

definition open_ciphertext ::
  "companion_env \<Rightarrow> opaque_envelope \<Rightarrow> bytes32 \<Rightarrow> string \<Rightarrow> 'i transport_identity_scheme \<Rightarrow> instant
     \<Rightarrow> byte list companion_result" where
  "open_ciphertext E envelope sender_key sender_device_id recipient now =
     (let header = oe_header envelope in
     bind_result (checks [validate_relay_shape E envelope,
       require (eh_sender_device_id header = sender_device_id)
         ''envelope sender device is not the expected paired device'',
       require (eh_recipient_device_id header = ti_device_id recipient)
         ''envelope is addressed to a different recipient'',
       validate_window E (eh_created_at header) (eh_expires_at header) now
         MAX_ENVELOPE_LIFETIME_SECONDS MAX_CLOCK_SKEW_SECONDS]) (\<lambda>_.
     bind_result (decode_base64url E ''envelope ciphertext'' (oe_ciphertext envelope)
       (MAX_ENVELOPE_PLAINTEXT_BYTES + 16)) (\<lambda>ciphertext.
     bind_result (decode_array E ''envelope signature'' (oe_signature envelope)) (\<lambda>signature.
     bind_result (to_vec E (unsigned_envelope_json header (oe_ciphertext envelope))) (\<lambda>unsigned.
     bind_result (identity_verify E sender_key ENVELOPE_SIGNATURE_DOMAIN unsigned signature) (\<lambda>_.
     bind_result (decode_array E ''envelope ephemeral public key'' (eh_ephemeral_public_key header)) (\<lambda>ephemeral.
     bind_result (decode_array E ''envelope nonce'' (eh_nonce header)) (\<lambda>nonce.
     bind_result (to_vec E (envelope_header_json header)) (\<lambda>aad.
     bind_result (identity_agree E recipient ephemeral) (\<lambda>shared.
     bind_result (derive_key E shared (to_be_bytes (hash E aad)) ENVELOPE_KEY_DOMAIN) (\<lambda>key.
       decrypt E key nonce ciphertext aad)))))))))))"

definition open_envelope ::
  "companion_env \<Rightarrow> opaque_envelope \<Rightarrow> bytes32 \<Rightarrow> string \<Rightarrow> 'i transport_identity_scheme \<Rightarrow> instant
     \<Rightarrow> replay_window \<Rightarrow> byte list companion_result \<times> replay_window" where
  "open_envelope E envelope sender_key sender_device_id recipient now replay =
     (case open_ciphertext E envelope sender_key sender_device_id recipient now of
        Inl e \<Rightarrow> (Inl e, replay)
      | Inr plaintext \<Rightarrow>
          (let header = oe_header envelope in
           case observe replay (eh_sender_device_id header) (eh_sender_sequence header) (eh_envelope_id header) of
             (Inl e, replay') \<Rightarrow> (Inl e, replay')
           | (Inr ReplayNew, replay') \<Rightarrow> (Inr plaintext, replay')
           | (Inr ReplayDuplicate, replay') \<Rightarrow>
               (Inl (CompanionReplay ''duplicate envelope delivery''), replay')))"

section \<open>An opened envelope\<close>

lemma open_envelope_Inr:
  "open_envelope E envelope k d recipient now replay = (Inr plaintext, replay') \<longleftrightarrow>
     open_ciphertext E envelope k d recipient now = Inr plaintext
     \<and> observe replay (eh_sender_device_id (oe_header envelope)) (eh_sender_sequence (oe_header envelope))
         (eh_envelope_id (oe_header envelope)) = (Inr ReplayNew, replay')"
  by (auto simp: open_envelope_def Let_def split: sum.splits prod.splits replay_decision.splits)

lemma sealed_shape:
  assumes laws: "base64_laws E" "aead_law E"
    and sealed: "seal_with_material E sender key metadata plaintext secret nonce = Inr envelope"
  obtains aad shared k c unsigned where
    "oe_header envelope = sealed_header E (ti_device_id sender) metadata (cx_agreement_public E secret) nonce"
    "header_validate_shape E (oe_header envelope) = Inr ()"
    "to_vec E (envelope_header_json (oe_header envelope)) = Inr aad"
    "x25519 E secret key = Inr shared" "derive_key E shared (to_be_bytes (hash E aad)) ENVELOPE_KEY_DOMAIN = Inr k"
    "decrypt E k nonce c aad = Inr plaintext" "oe_ciphertext envelope = base64url E c"
    "decode_base64url E ''envelope ciphertext'' (oe_ciphertext envelope) (MAX_ENVELOPE_PLAINTEXT_BYTES + 16) = Inr c"
    "16 \<le> length c" "to_vec E (unsigned_envelope_json (oe_header envelope) (oe_ciphertext envelope)) = Inr unsigned"
    "oe_signature envelope = base64url E (to_be_bytes (identity_sign E sender ENVELOPE_SIGNATURE_DOMAIN unsigned))"
proof -
  obtain aad shared k c unsigned where s: "length plaintext \<le> MAX_ENVELOPE_PLAINTEXT_BYTES"
    "oe_header envelope = sealed_header E (ti_device_id sender) metadata (cx_agreement_public E secret) nonce"
    "header_validate_shape E (oe_header envelope) = Inr ()"
    "to_vec E (envelope_header_json (oe_header envelope)) = Inr aad"
    "x25519 E secret key = Inr shared" "derive_key E shared (to_be_bytes (hash E aad)) ENVELOPE_KEY_DOMAIN = Inr k"
    "encrypt E k nonce plaintext aad = Inr c" "oe_ciphertext envelope = base64url E c"
    "to_vec E (unsigned_envelope_json (oe_header envelope) (oe_ciphertext envelope)) = Inr unsigned"
    "oe_signature envelope = base64url E (to_be_bytes (identity_sign E sender ENVELOPE_SIGNATURE_DOMAIN unsigned))"
    using sealed by (auto simp: seal_with_material_def Let_def)
  have d: "decrypt E k nonce c aad = Inr plaintext" "length c = length plaintext + 16"
    using decrypt_encrypted [OF laws(2) s(7)] by auto
  then have "decode_base64url E ''envelope ciphertext'' (oe_ciphertext envelope) (MAX_ENVELOPE_PLAINTEXT_BYTES + 16) = Inr c"
    using s(1) unfolding s(8) by (intro decode_base64url_encoded laws) auto
  with s d that show thesis by auto
qed

lemma open_sealed:
  assumes laws: "base64_laws E" "aead_law E" "agreement_law E" "signature_law E"
    and genuine: "genuine E sender" "genuine E recipient"
    and sealed: "seal_with_material E sender (ti_agreement_public_key recipient) metadata plaintext secret nonce = Inr envelope"
    and addressed: "em_recipient_device_id metadata = ti_device_id recipient"
    and window: "validate_window E (em_created_at metadata) (em_expires_at metadata) now
      MAX_ENVELOPE_LIFETIME_SECONDS MAX_CLOCK_SKEW_SECONDS = Inr ()"
  shows "open_ciphertext E envelope (ti_signing_public_key sender) (ti_device_id sender) recipient now = Inr plaintext"
proof -
  obtain aad shared k c unsigned where s:
    "oe_header envelope = sealed_header E (ti_device_id sender) metadata (cx_agreement_public E secret) nonce"
    "header_validate_shape E (oe_header envelope) = Inr ()"
    "to_vec E (envelope_header_json (oe_header envelope)) = Inr aad"
    "x25519 E secret (ti_agreement_public_key recipient) = Inr shared"
    "derive_key E shared (to_be_bytes (hash E aad)) ENVELOPE_KEY_DOMAIN = Inr k"
    "decrypt E k nonce c aad = Inr plaintext" "oe_ciphertext envelope = base64url E c"
    "decode_base64url E ''envelope ciphertext'' (oe_ciphertext envelope) (MAX_ENVELOPE_PLAINTEXT_BYTES + 16) = Inr c"
    "16 \<le> length c" "to_vec E (unsigned_envelope_json (oe_header envelope) (oe_ciphertext envelope)) = Inr unsigned"
    "oe_signature envelope = base64url E (to_be_bytes (identity_sign E sender ENVELOPE_SIGNATURE_DOMAIN unsigned))"
    by (rule sealed_shape [OF laws(1,2) sealed]) blast
  let ?h = "oe_header envelope"
  have signature: "decode_array E ''envelope signature'' (oe_signature envelope)
      = Inr (identity_sign E sender ENVELOPE_SIGNATURE_DOMAIN unsigned)"
    unfolding s(11) by (intro decode_array_encoded laws) simp
  have keys: "decode_array E ''envelope ephemeral public key'' (eh_ephemeral_public_key ?h) = Inr (cx_agreement_public E secret)"
    "decode_array E ''envelope nonce'' (eh_nonce ?h) = Inr nonce"
    unfolding s(1) sealed_header_def by (auto intro!: decode_array_encoded laws)
  have fields: "eh_sender_device_id ?h = ti_device_id sender" "eh_recipient_device_id ?h = ti_device_id recipient"
    "eh_created_at ?h = em_created_at metadata" "eh_expires_at ?h = em_expires_at metadata"
    unfolding s(1) by (simp_all add: sealed_header_def addressed)
  have relay: "validate_relay_shape E envelope = Inr ()"
    using s(2,8,9) signature by (simp add: validate_relay_shape_def)
  have "identity_agree E recipient (cx_agreement_public E secret) = Inr shared"
    using agree_symmetric [OF laws(3) genuine(2)] s(4) by simp
  then show ?thesis
    using s(3,5,6,8,10) signature keys fields relay window verify_signed [OF laws(4) genuine(1)]
    by (simp add: open_ciphertext_def Let_def)
qed

text \<open>An envelope that opens was addressed to its reader and signed over all its parts.\<close>

lemma open_ciphertext_authentic:
  assumes "open_ciphertext E envelope k d recipient now = Inr plaintext"
  shows "signed_document E k ENVELOPE_SIGNATURE_DOMAIN
      (unsigned_envelope_json (oe_header envelope) (oe_ciphertext envelope)) (oe_signature envelope)
    \<and> eh_sender_device_id (oe_header envelope) = d \<and> eh_recipient_device_id (oe_header envelope) = ti_device_id recipient"
  using assms by (auto simp: open_ciphertext_def Let_def intro: signed_documentI)

section \<open>Deliveries\<close>

text \<open>One attempt to open an envelope, at its time.\<close>

record delivery =
  dl_envelope :: opaque_envelope
  dl_sender_key :: bytes32
  dl_sender_device_id :: string
  dl_now :: instant

definition deliver ::
  "companion_env \<Rightarrow> 'i transport_identity_scheme \<Rightarrow> replay_window \<Rightarrow> delivery
     \<Rightarrow> byte list companion_result \<times> replay_window" where
  "deliver E recipient replay a =
     open_envelope E (dl_envelope a) (dl_sender_key a) (dl_sender_device_id a) recipient (dl_now a) replay"

definition delivery_slot :: "delivery \<Rightarrow> string \<times> u64" where
  "delivery_slot a = (eh_sender_device_id (oe_header (dl_envelope a)), eh_sender_sequence (oe_header (dl_envelope a)))"

lemma deliver_window:
  assumes "deliver E recipient replay a = (r, replay')"
  obtains "replay' = replay" "\<not> is_ok r"
    | d where "observe replay (fst (delivery_slot a)) (snd (delivery_slot a))
        (eh_envelope_id (oe_header (dl_envelope a))) = (d, replay')" "is_ok r \<longrightarrow> d = Inr ReplayNew"
proof (cases "open_ciphertext E (dl_envelope a) (dl_sender_key a) (dl_sender_device_id a) recipient (dl_now a)")
  case (Inl e)
  then have "replay' = replay" "r = Inl e" using assms by (simp_all add: deliver_def open_envelope_def)
  then show thesis using that(1) by simp
next
  case (Inr plaintext)
  obtain d m where "observe replay (fst (delivery_slot a)) (snd (delivery_slot a))
      (eh_envelope_id (oe_header (dl_envelope a))) = (d, m)" by fastforce
  with Inr show thesis using assms that(2)
    by (auto simp: deliver_def open_envelope_def delivery_slot_def Let_def split: sum.splits replay_decision.splits)
qed

interpretation envelopes: once_only "deliver E recipient" "\<lambda>_. is_ok" delivery_slot replay_spent
proof
  fix s i r s' t
  assume step: "deliver E recipient s i = (r, s')"
  show "replay_spent s t \<Longrightarrow> replay_spent s' t"
    using step by (rule deliver_window) (auto dest: observe_spent(1))
  show "is_ok r \<Longrightarrow> \<not> replay_spent s (delivery_slot i)"
    using step by (rule deliver_window) (auto dest: observe_spent(2))
  show "is_ok r \<Longrightarrow> replay_spent s' (delivery_slot i)"
    using step by (rule deliver_window) (auto dest: observe_spent(2))
qed

definition delivered :: "(delivery \<times> byte list companion_result) list \<Rightarrow> (string \<times> u64) list" where
  "delivered answers = map (\<lambda>a. delivery_slot (fst a)) (filter (\<lambda>a. is_ok (snd a)) answers)"

text \<open>C12: Over any sequence of attempts to open envelopes against one replay window, whatever the
  envelopes, keys and times, each sender sequence number is delivered at most once. Every
  delivered envelope was addressed to the recipient, names the expected sender, and its
  header and ciphertext were signed by the expected key.\<close>

theorem envelopes_delivered_once:
  assumes run: "run_steps (deliver E recipient) replay attempts = (answers, replay')"
  shows "distinct (delivered answers)
    \<and> (\<forall>(a, r) \<in> set answers. is_ok r \<longrightarrow>
        signed_document E (dl_sender_key a) ENVELOPE_SIGNATURE_DOMAIN
          (unsigned_envelope_json (oe_header (dl_envelope a)) (oe_ciphertext (dl_envelope a))) (oe_signature (dl_envelope a))
        \<and> eh_sender_device_id (oe_header (dl_envelope a)) = dl_sender_device_id a
        \<and> eh_recipient_device_id (oe_header (dl_envelope a)) = ti_device_id recipient)"
proof -
  have authentic: "signed_document E (dl_sender_key a) ENVELOPE_SIGNATURE_DOMAIN
        (unsigned_envelope_json (oe_header (dl_envelope a)) (oe_ciphertext (dl_envelope a))) (oe_signature (dl_envelope a))
      \<and> eh_sender_device_id (oe_header (dl_envelope a)) = dl_sender_device_id a
      \<and> eh_recipient_device_id (oe_header (dl_envelope a)) = ti_device_id recipient"
    if a: "(a, r) \<in> set answers" "is_ok r" for a r
  proof -
    obtain s s' where "deliver E recipient s a = (r, s')" using run_steps_mem [OF run a(1)] by blast
    with a(2) obtain x where "open_ciphertext E (dl_envelope a) (dl_sender_key a) (dl_sender_device_id a) recipient (dl_now a) = Inr x"
      by (auto simp: deliver_def open_envelope_Inr)
    then show ?thesis by (rule open_ciphertext_authentic)
  qed
  have "delivered answers = envelopes.accepted_tags answers"
    by (simp add: delivered_def envelopes.accepted_tags_def)
  then show ?thesis using envelopes.accepted_once [OF run] authentic by auto
qed

text \<open>C13: An envelope sealed for a recipient opens for that recipient to the plaintext it was sealed
  from, at every time of its validity window and against every replay window that has not
  seen its sequence number or identifier; opening it again then fails.\<close>

theorem envelope_round_trip:
  assumes laws: "base64_laws E" "aead_law E" "agreement_law E" "signature_law E"
    and genuine: "genuine E sender" "genuine E recipient"
    and sealed: "seal_with_material E sender (ti_agreement_public_key recipient) metadata plaintext secret nonce = Inr envelope"
    and addressed: "em_recipient_device_id metadata = ti_device_id recipient"
    and window: "validate_window E (em_created_at metadata) (em_expires_at metadata) now
      MAX_ENVELOPE_LIFETIME_SECONDS MAX_CLOCK_SKEW_SECONDS = Inr ()"
    and fresh: "observe replay (ti_device_id sender) (em_sender_sequence metadata) (em_envelope_id metadata) = (Inr ReplayNew, replay')"
  shows "open_envelope E envelope (ti_signing_public_key sender) (ti_device_id sender) recipient now replay = (Inr plaintext, replay')
    \<and> (\<forall>later. \<exists>e. fst (open_envelope E envelope (ti_signing_public_key sender) (ti_device_id sender) recipient later replay') = Inl e)"
proof -
  have header: "oe_header envelope = sealed_header E (ti_device_id sender) metadata (cx_agreement_public E secret) nonce"
    using sealed by (auto simp: seal_with_material_def Let_def)
  have opened: "open_envelope E envelope (ti_signing_public_key sender) (ti_device_id sender) recipient now replay = (Inr plaintext, replay')"
    using open_sealed [OF laws genuine sealed addressed window] fresh
    unfolding open_envelope_Inr header by (simp add: sealed_header_def)
  let ?at = "\<lambda>t. \<lparr>dl_envelope = envelope, dl_sender_key = ti_signing_public_key sender,
    dl_sender_device_id = ti_device_id sender, dl_now = t\<rparr>"
  have deliver: "deliver E recipient s (?at t) =
      open_envelope E envelope (ti_signing_public_key sender) (ti_device_id sender) recipient t s" for s t
    by (simp add: deliver_def)
  have spent: "replay_spent replay' (delivery_slot (?at now))"
    by (rule envelopes.accepted_spent [of E recipient replay]) (auto simp: deliver opened)
  have "\<exists>e. fst (open_envelope E envelope (ti_signing_public_key sender) (ti_device_id sender) recipient t replay') = Inl e" for t
  proof -
    have "\<not> is_ok (fst (deliver E recipient replay' (?at t)))"
      using spent envelopes.accepted_fresh [of E recipient replay' "?at t" "fst (deliver E recipient replay' (?at t))"
          "snd (deliver E recipient replay' (?at t))"]
      by (auto simp: delivery_slot_def)
    then show ?thesis unfolding deliver by (cases "fst (open_envelope E envelope (ti_signing_public_key sender) (ti_device_id sender) recipient t replay')") auto
  qed
  with opened show ?thesis by blast
qed

end
