(* ===== verification/Companion_Command.thy ===== *)
theory Companion_Command
  imports Companion_Crypto
begin

text \<open>
  Signed commands of a paired phone, \<open>companion/src/command.rs\<close>, with the records of
  \<open>publication.rs\<close> and \<open>event.rs\<close> that their payloads carry: the Builder's DeviceKey, its
  signatures, an approved Claim Edition, a private Update.
\<close>

section \<open>Builder device signatures\<close>

definition BUILDER_DEVICE_ANNOUNCEMENT_SCHEMA :: string where
  "BUILDER_DEVICE_ANNOUNCEMENT_SCHEMA = ''tohseno.builder-device-announcement/1''"
definition PUBLICATION_SIGNATURE_SCHEMA :: string where
  "PUBLICATION_SIGNATURE_SCHEMA = ''tohseno.builder-device-signature/1''"
definition ACTIVE_REGISTRY :: string where
  "ACTIVE_REGISTRY = ''0x3fe6508ba2660bc575080024f402c192a2e035a0''"
definition EXACT_INTEGER_LIMIT :: u64 where
  "EXACT_INTEGER_LIMIT = 9007199254740991"

definition is_hex :: "string \<Rightarrow> bool" where
  "is_hex v \<longleftrightarrow> starts_with ''0x'' v \<and> list_all is_lower_hex_char (drop 2 v)"

definition hex32 :: "string \<Rightarrow> string \<Rightarrow> unit companion_result" where
  "hex32 label v = require (length v = 66 \<and> is_hex v) (label @ '' must be lowercase 0x-prefixed bytes32'')"

record builder_device_announcement =
  ba_schema :: string
  ba_key_id :: string
  ba_x :: string
  ba_y :: string
  ba_security_level :: string
  ba_test_only :: bool

definition announcement_validate :: "builder_device_announcement \<Rightarrow> unit companion_result" where
  "announcement_validate a =
     checks [require (ba_schema a = BUILDER_DEVICE_ANNOUNCEMENT_SCHEMA) ''unsupported Builder DeviceKey announcement schema'',
       hex32 ''Builder DeviceKey ID'' (ba_key_id a),
       hex32 ''Builder DeviceKey x'' (ba_x a),
       hex32 ''Builder DeviceKey y'' (ba_y a),
       require (ba_security_level a \<in> {''secure_enclave'', ''software_test''}) ''Builder DeviceKey security level is invalid'',
       require (ba_test_only a = (ba_security_level a = ''software_test''))
         ''Builder DeviceKey test marker disagrees with its security level'']"

record builder_device_signature =
  bs_schema :: string
  bs_signer :: builder_device_announcement
  bs_algorithm :: string
  bs_digest :: string
  bs_r :: string
  bs_s :: string
  bs_low_s :: bool

definition LOW_S_LIMIT :: string where
  "LOW_S_LIMIT = ''0x7fffffff800000007fffffffffffffffde737d56d38bcf4279dce5617e3192a8''"

definition builder_signature_validate :: "builder_device_signature \<Rightarrow> unit companion_result" where
  "builder_signature_validate v =
     checks [require (bs_schema v = PUBLICATION_SIGNATURE_SCHEMA) ''unsupported Builder DeviceKey signature schema'',
       announcement_validate (bs_signer v),
       require (bs_algorithm v = ''p256'') ''publication signature must use P-256'',
       hex32 ''publication signature digest'' (bs_digest v),
       hex32 ''publication signature r'' (bs_r v),
       hex32 ''publication signature s'' (bs_s v),
       require (bs_low_s v) ''publication signature must be low-s'',
       require (bs_s v \<le> LOW_S_LIMIT) ''publication signature s is not low-s'']"

record claim_policy =
  cp_kind :: string
  cp_max_claims :: u64
  cp_closes_at :: u64

definition claim_policy_validate :: "claim_policy \<Rightarrow> unit companion_result" where
  "claim_policy_validate p =
     checks [require (cp_max_claims p \<le> EXACT_INTEGER_LIMIT \<and> cp_closes_at p \<le> EXACT_INTEGER_LIMIT)
         ''Claim Edition bounds exceed the exact integer limit'',
       require (cp_kind p = ''open'' \<and> cp_max_claims p = 0 \<and> cp_closes_at p = 0
           \<or> cp_kind p = ''limited'' \<and> 1 \<le> cp_max_claims p \<and> cp_closes_at p = 0
           \<or> cp_kind p = ''timed'' \<and> cp_max_claims p = 0 \<and> 1 \<le> cp_closes_at p
           \<or> cp_kind p = ''limited_timed'' \<and> 1 \<le> cp_max_claims p \<and> 1 \<le> cp_closes_at p)
         ''Claim Edition policy shape is invalid'']"

record claim_action =
  co_shot_registry :: string
  co_shot_id :: string
  co_max_claims :: u64
  co_closes_at :: u64
  co_controller :: string
  co_nonce :: u64
  co_deadline :: u64

record approved_claim_edition =
  ae_policy :: claim_policy
  ae_action :: claim_action
  ae_digest :: string
  ae_signature :: builder_device_signature

definition approved_edition_validate :: "approved_claim_edition \<Rightarrow> unit companion_result" where
  "approved_edition_validate v =
     (let action = ae_action v; policy = ae_policy v in
      checks [claim_policy_validate policy,
        hex32 ''Claim Edition digest'' (ae_digest v),
        builder_signature_validate (ae_signature v),
        require (bs_digest (ae_signature v) = ae_digest v \<and> co_shot_registry action = ACTIVE_REGISTRY
            \<and> length (co_shot_id action) = 66 \<and> length (co_controller action) = 42
            \<and> co_max_claims action = cp_max_claims policy \<and> co_closes_at action = cp_closes_at policy
            \<and> co_nonce action \<le> EXACT_INTEGER_LIMIT
            \<and> 0 < co_deadline action \<and> co_deadline action \<le> EXACT_INTEGER_LIMIT)
          ''approved Claim Edition is invalid'',
        hex32 ''Claim Edition ShotID'' (co_shot_id action)])"

section \<open>Private Updates\<close>

definition PRIVATE_UPDATE_ITEM_SCHEMA :: string where
  "PRIVATE_UPDATE_ITEM_SCHEMA = ''tohseno.private-update/1''"

datatype private_update_kind = UpdateClaimed | ClaimedAppUpdated | PreparationReady | ForkShipped
  | EditionClosed | AliasApproved | PublicationApproval | EvolutionFinished | GithubAppUpdated
  | GithubPreparation

fun wire_name :: "private_update_kind \<Rightarrow> string" where
  "wire_name UpdateClaimed = ''claimed''"
| "wire_name ClaimedAppUpdated = ''claimed_app_updated''"
| "wire_name PreparationReady = ''preparation_ready''"
| "wire_name ForkShipped = ''fork_shipped''"
| "wire_name EditionClosed = ''edition_closed''"
| "wire_name AliasApproved = ''alias_approved''"
| "wire_name PublicationApproval = ''publication_approval''"
| "wire_name EvolutionFinished = ''evolution_finished''"
| "wire_name GithubAppUpdated = ''github_app_updated''"
| "wire_name GithubPreparation = ''github_preparation''"

record private_update_item =
  pu_schema :: string
  pu_update_id :: string
  pu_kind :: private_update_kind
  pu_subject_id :: string
  pu_evidence_id :: string
  pu_title :: string
  pu_detail :: string
  pu_occurred_at :: string
  pu_read_at :: "string option"

definition stable_id_material :: "private_update_kind \<Rightarrow> string \<Rightarrow> string \<Rightarrow> byte list" where
  "stable_id_material kind subject_id evidence_id =
     str_bytes ''TOHSENO-PRIVATE-UPDATE-V1'' @ [0] @ str_bytes (wire_name kind) @ [0]
       @ str_bytes subject_id @ [0] @ str_bytes evidence_id"

definition stable_id :: "companion_env \<Rightarrow> private_update_kind \<Rightarrow> string \<Rightarrow> string \<Rightarrow> string" where
  "stable_id E kind subject_id evidence_id =
     ''update_'' @ base64url E (to_be_bytes (hash E (stable_id_material kind subject_id evidence_id)))"

definition opt_check :: "('a \<Rightarrow> 'e + unit) \<Rightarrow> 'a option \<Rightarrow> 'e + unit" where
  "opt_check check x = (case x of None \<Rightarrow> Inr () | Some v \<Rightarrow> check v)"

lemma opt_check_eq_Inr [simp]: "opt_check check x = Inr u \<longleftrightarrow> (\<forall>v. x = Some v \<longrightarrow> check v = Inr ())"
  by (cases x) (auto simp: opt_check_def)

definition update_validate :: "companion_env \<Rightarrow> private_update_item \<Rightarrow> unit companion_result" where
  "update_validate E u =
     checks [require (pu_schema u = PRIVATE_UPDATE_ITEM_SCHEMA) ''unsupported private Update schema'',
       validate_identifier ''private Update ID'' (pu_update_id u),
       validate_text ''private Update subject'' (pu_subject_id u) 256,
       validate_text ''private Update evidence'' (pu_evidence_id u) 256,
       validate_text ''private Update title'' (pu_title u) 160,
       validate_text ''private Update detail'' (pu_detail u) 512,
       timestamp_ok E (pu_occurred_at u),
       opt_check (timestamp_ok E) (pu_read_at u),
       require (pu_update_id u = stable_id E (pu_kind u) (pu_subject_id u) (pu_evidence_id u))
         ''private Update ID does not match its stable evidence'']"

section \<open>Payloads\<close>

definition COMPANION_COMMAND_SCHEMA :: string where
  "COMPANION_COMMAND_SCHEMA = ''tohseno.companion-command/1''"
definition COMMAND_SIGNATURE_DOMAIN :: "byte list" where
  "COMMAND_SIGNATURE_DOMAIN = str_bytes ''tohseno.companion.command-signature.v1''"
definition MAX_COMMAND_AGE_SECONDS :: int where
  "MAX_COMMAND_AGE_SECONDS = 30 * 24 * 60 * 60"
definition MAX_REFERENCES :: nat where "MAX_REFERENCES = 8"
definition MAX_REFERENCE_BLOB_BYTES :: nat where
  "MAX_REFERENCE_BLOB_BYTES = 64 * 1024 * 1024"

datatype network_release_action = ReleaseInstall | ReleaseFork

record reference_descriptor =
  rd_blob_id :: string
  rd_origin_name :: string
  rd_media_type :: string
  rd_byte_length :: u64
  rd_sha256 :: string

definition reference_validate :: "companion_env \<Rightarrow> reference_descriptor \<Rightarrow> unit companion_result" where
  "reference_validate E r =
     checks [validate_identifier ''reference blob ID'' (rd_blob_id r),
       validate_text ''reference origin name'' (rd_origin_name r) 512,
       require (CHR ''/'' \<notin> set (rd_origin_name r) \<and> CHR 0x5C \<notin> set (rd_origin_name r))
         ''reference origin name must not contain a path'',
       require (rd_media_type r \<in> {''image/png'', ''image/jpeg''}) ''reference media type must be image/png or image/jpeg'',
       require (1 \<le> rd_byte_length r \<and> unat (rd_byte_length r) \<le> MAX_REFERENCE_BLOB_BYTES)
         ''reference byte length is invalid'',
       array_ok TYPE(256 word) E ''reference SHA-256'' (rd_sha256 r)]"

datatype command_payload =
    WorkspaceSnapshotRequest
  | FeedbackSubmit string string string u64 string
  | MarketingSubmit string string string
  | ShotEvolveRequest string string string u64 string "string list" "reference_descriptor list"
  | ProjectEvolveRequest string string string "reference_descriptor list" "string option"
  | ShotCreateRequest "string option" string "reference_descriptor list"
  | BuilderIdentityAnnounce builder_device_announcement
  | PublicationApprove string builder_device_signature builder_device_signature
      "approved_claim_edition option" string
  | NetworkReleaseRequest network_release_action string string
  | GitHubAppInstall string u64 string
  | BuilderFollowSet string bool
  | PrivateUpdateUpsert private_update_item
  | PrivateUpdateReadSet string bool

datatype capability_action = WorkspaceRead | ExecutionRead | FeedbackWrite | MarketingWrite | ShotCreate
  | ShotEvolve | PublicationAuthorize | NetworkReceive | PreferenceWrite

fun required_capability :: "command_payload \<Rightarrow> capability_action" where
  "required_capability WorkspaceSnapshotRequest = WorkspaceRead"
| "required_capability (FeedbackSubmit _ _ _ _ _) = FeedbackWrite"
| "required_capability (MarketingSubmit _ _ _) = MarketingWrite"
| "required_capability (ShotEvolveRequest _ _ _ _ _ _ _) = ShotEvolve"
| "required_capability (ProjectEvolveRequest _ _ _ _ _) = ShotEvolve"
| "required_capability (ShotCreateRequest _ _ _) = ShotCreate"
| "required_capability (BuilderIdentityAnnounce _) = PublicationAuthorize"
| "required_capability (PublicationApprove _ _ _ _ _) = PublicationAuthorize"
| "required_capability (NetworkReleaseRequest _ _ _) = NetworkReceive"
| "required_capability (GitHubAppInstall _ _ _) = NetworkReceive"
| "required_capability (BuilderFollowSet _ _) = PreferenceWrite"
| "required_capability (PrivateUpdateUpsert _) = PreferenceWrite"
| "required_capability (PrivateUpdateReadSet _ _) = PreferenceWrite"

definition valid_builder_id :: "string \<Rightarrow> bool" where
  "valid_builder_id v \<longleftrightarrow> length v = 54 \<and> starts_with ''eip155:4663:0x'' v
     \<and> list_all is_lower_hex_char (drop 14 v) \<and> list_ex (\<lambda>c. c \<noteq> CHR ''0'') (drop 14 v)"

definition validate_protocol_hex32 :: "string \<Rightarrow> string \<Rightarrow> unit companion_result" where
  "validate_protocol_hex32 label v =
     require (length v = 66 \<and> starts_with ''0x'' v \<and> list_all is_lower_hex_char (drop 2 v)
         \<and> list_ex (\<lambda>c. c \<noteq> CHR ''0'') (drop 2 v))
       (label @ '' must be 32 lowercase nonzero hex bytes'')"

text \<open>Sorting and removing adjacent duplicates keeps the number of items exactly when they
  are distinct.\<close>

definition validate_references :: "companion_env \<Rightarrow> reference_descriptor list \<Rightarrow> unit companion_result" where
  "validate_references E references =
     checks [require (length references \<le> MAX_REFERENCES) ''a companion command may contain at most eight references'',
       each (reference_validate E) references,
       require (length (remdups_adj (sort (map rd_blob_id references))) = length references)
         ''reference blob IDs must be unique'']"

definition double_hyphen :: "string \<Rightarrow> bool" where
  "double_hyphen v \<longleftrightarrow> list_ex (\<lambda>i. starts_with ''--'' (drop i v)) [0 ..< length v]"

definition git_commit :: "string \<Rightarrow> bool" where
  "git_commit v \<longleftrightarrow> length v = 40 \<and> list_all is_lower_hex_char v"

fun command_payload_validate :: "companion_env \<Rightarrow> command_payload \<Rightarrow> unit companion_result" where
  "command_payload_validate E WorkspaceSnapshotRequest = Inr ()"
| "command_payload_validate E (FeedbackSubmit shot_id expression_id version_id version_ordinal body) =
     checks [validate_identifier ''feedback Shot ID'' shot_id,
       validate_identifier ''feedback Expression ID'' expression_id,
       validate_identifier ''feedback Version ID'' version_id,
       require (0 < version_ordinal) ''feedback Version ordinal must be positive'',
       validate_text ''feedback body'' body (256 * 1024)]"
| "command_payload_validate E (MarketingSubmit note_id shot_id body) =
     checks [validate_identifier ''marketing note ID'' note_id,
       validate_identifier ''marketing Shot ID'' shot_id,
       validate_text ''marketing-note body'' body (256 * 1024)]"
| "command_payload_validate E (ShotEvolveRequest shot_id base_expression_id base_version_id base_version_ordinal
       intention selected references) =
     checks [validate_identifier ''evolution Shot ID'' shot_id,
       validate_identifier ''base Expression ID'' base_expression_id,
       validate_identifier ''base Version ID'' base_version_id,
       require (0 < base_version_ordinal) ''base Version ordinal must be positive'',
       validate_text ''evolution intention'' intention MAX_TEXT_BYTES,
       require (length selected \<le> 256) ''too many selected feedback actions'',
       each (array_ok TYPE(256 word) E ''feedback action commitment'') selected,
       validate_references E references]"
| "command_payload_validate E (ProjectEvolveRequest project_id base_source_state intention references follow_up_to) =
     checks [validate_identifier ''project ID'' project_id,
       validate_identifier ''project source state'' base_source_state,
       validate_text ''project evolution intention'' intention MAX_TEXT_BYTES,
       opt_check (validate_identifier ''follow-up evolution ID'') follow_up_to,
       validate_references E references]"
| "command_payload_validate E (ShotCreateRequest suggested_name intention references) =
     checks [opt_check (\<lambda>name. validate_text ''suggested Shot name'' name 256) suggested_name,
       validate_text ''creation intention'' intention MAX_TEXT_BYTES,
       validate_references E references]"
| "command_payload_validate E (BuilderIdentityAnnounce builder_device) = announcement_validate builder_device"
| "command_payload_validate E (PublicationApprove job_id catalog registry claim_edition approved_at) =
     checks [validate_identifier ''publication job ID'' job_id,
       builder_signature_validate catalog,
       builder_signature_validate registry,
       require (bs_signer catalog = bs_signer registry) ''publication signatures must use one Builder DeviceKey'',
       opt_check (\<lambda>claim. checks [approved_edition_validate claim,
         require (bs_signer (ae_signature claim) = bs_signer catalog)
           ''Claim Edition and publication signatures must use one Builder DeviceKey'']) claim_edition,
       timestamp_ok E approved_at]"
| "command_payload_validate E (NetworkReleaseRequest action shot_id release_digest) =
     checks [validate_protocol_hex32 ''network ShotID'' shot_id,
       validate_protocol_hex32 ''network release digest'' release_digest]"
| "command_payload_validate E (BuilderFollowSet builder_id followed) =
     require (valid_builder_id builder_id) ''Builder follow requires one exact BuilderID''"
| "command_payload_validate E (GitHubAppInstall slug repository_id commit) =
     require (2 \<le> length slug \<and> length slug \<le> 64 \<and> hd slug \<noteq> CHR ''-'' \<and> last slug \<noteq> CHR ''-''
         \<and> \<not> double_hyphen slug
         \<and> list_all (\<lambda>c. is_ascii_lowercase c \<or> is_ascii_digit c \<or> c = CHR ''-'') slug
         \<and> 0 < repository_id \<and> repository_id \<le> EXACT_INTEGER_LIMIT \<and> git_commit commit)
       ''GitHub installation requires an exact repository and commit''"
| "command_payload_validate E (PrivateUpdateUpsert update) = update_validate E update"
| "command_payload_validate E (PrivateUpdateReadSet update_id read) = validate_identifier ''private Update ID'' update_id"

section \<open>Their JSON forms\<close>

definition announcement_json :: "builder_device_announcement \<Rightarrow> json" where
  "announcement_json a = JObj [
     (''schema'', JStr (ba_schema a)), (''key_id'', JStr (ba_key_id a)), (''x'', JStr (ba_x a)),
     (''y'', JStr (ba_y a)), (''security_level'', JStr (ba_security_level a)),
     (''test_only'', JBool (ba_test_only a))]"

definition builder_signature_json :: "builder_device_signature \<Rightarrow> json" where
  "builder_signature_json v = JObj [
     (''schema'', JStr (bs_schema v)), (''signer'', announcement_json (bs_signer v)),
     (''algorithm'', JStr (bs_algorithm v)), (''digest'', JStr (bs_digest v)), (''r'', JStr (bs_r v)),
     (''s'', JStr (bs_s v)), (''low_s'', JBool (bs_low_s v))]"

definition claim_policy_json :: "claim_policy \<Rightarrow> json" where
  "claim_policy_json p = JObj [(''kind'', JStr (cp_kind p)),
     (''max_claims'', json_word (cp_max_claims p)), (''closes_at'', json_word (cp_closes_at p))]"

definition approved_edition_json :: "approved_claim_edition \<Rightarrow> json" where
  "approved_edition_json v = (let a = ae_action v in JObj [
     (''policy'', claim_policy_json (ae_policy v)),
     (''action'', JObj [
        (''shot_registry'', JStr (co_shot_registry a)), (''shot_id'', JStr (co_shot_id a)),
        (''max_claims'', json_word (co_max_claims a)), (''closes_at'', json_word (co_closes_at a)),
        (''controller'', JStr (co_controller a)), (''nonce'', json_word (co_nonce a)),
        (''deadline'', json_word (co_deadline a))]),
     (''digest'', JStr (ae_digest v)), (''signature'', builder_signature_json (ae_signature v))])"

definition update_json :: "private_update_item \<Rightarrow> json" where
  "update_json u = JObj ([
     (''schema'', JStr (pu_schema u)), (''update_id'', JStr (pu_update_id u)),
     (''kind'', JStr (wire_name (pu_kind u))), (''subject_id'', JStr (pu_subject_id u)),
     (''evidence_id'', JStr (pu_evidence_id u)), (''title'', JStr (pu_title u)),
     (''detail'', JStr (pu_detail u)), (''occurred_at'', JStr (pu_occurred_at u))]
     @ member_option ''read_at'' JStr (pu_read_at u))"

definition reference_json :: "reference_descriptor \<Rightarrow> json" where
  "reference_json r = JObj [
     (''blob_id'', JStr (rd_blob_id r)), (''origin_name'', JStr (rd_origin_name r)),
     (''media_type'', JStr (rd_media_type r)), (''byte_length'', json_word (rd_byte_length r)),
     (''sha256'', JStr (rd_sha256 r))]"

fun payload_members :: "command_payload \<Rightarrow> (string \<times> json) list" where
  "payload_members WorkspaceSnapshotRequest = [(''command_kind'', JStr ''workspace.snapshot.request'')]"
| "payload_members (FeedbackSubmit shot_id expression_id version_id version_ordinal body) = [
     (''command_kind'', JStr ''feedback.submit''), (''shot_id'', JStr shot_id),
     (''expression_id'', JStr expression_id), (''version_id'', JStr version_id),
     (''version_ordinal'', json_word version_ordinal), (''body'', JStr body)]"
| "payload_members (MarketingSubmit note_id shot_id body) = [
     (''command_kind'', JStr ''marketing.submit''), (''note_id'', JStr note_id),
     (''shot_id'', JStr shot_id), (''body'', JStr body)]"
| "payload_members (ShotEvolveRequest shot_id base_expression_id base_version_id base_version_ordinal
       intention selected references) = [
     (''command_kind'', JStr ''shot.evolve.request''), (''shot_id'', JStr shot_id),
     (''base_expression_id'', JStr base_expression_id), (''base_version_id'', JStr base_version_id),
     (''base_version_ordinal'', json_word base_version_ordinal), (''intention'', JStr intention),
     (''selected_feedback_action_commitments'', json_strings selected),
     (''references'', JArr (map reference_json references))]"
| "payload_members (ProjectEvolveRequest project_id base_source_state intention references follow_up_to) = [
     (''command_kind'', JStr ''project.evolve.request''), (''project_id'', JStr project_id),
     (''base_source_state'', JStr base_source_state), (''intention'', JStr intention),
     (''references'', JArr (map reference_json references))]
     @ member_option ''follow_up_to'' JStr follow_up_to"
| "payload_members (ShotCreateRequest suggested_name intention references) =
     [(''command_kind'', JStr ''shot.create.request'')] @ member_option ''suggested_name'' JStr suggested_name
     @ [(''intention'', JStr intention), (''references'', JArr (map reference_json references))]"
| "payload_members (BuilderIdentityAnnounce builder_device) = [
     (''command_kind'', JStr ''builder.identity.announce''), (''builder_device'', announcement_json builder_device)]"
| "payload_members (PublicationApprove job_id catalog registry claim_edition approved_at) = [
     (''command_kind'', JStr ''publication.approve''), (''job_id'', JStr job_id),
     (''catalog'', builder_signature_json catalog), (''registry'', builder_signature_json registry)]
     @ member_option ''claim_edition'' approved_edition_json claim_edition
     @ [(''approved_at'', JStr approved_at)]"
| "payload_members (NetworkReleaseRequest action shot_id release_digest) = [
     (''command_kind'', JStr ''network.release.request''),
     (''action'', JStr (case action of ReleaseInstall \<Rightarrow> ''install'' | ReleaseFork \<Rightarrow> ''fork'')),
     (''shot_id'', JStr shot_id), (''release_digest'', JStr release_digest)]"
| "payload_members (GitHubAppInstall slug repository_id commit) = [
     (''command_kind'', JStr ''github.app.install''), (''slug'', JStr slug),
     (''repository_id'', json_word repository_id), (''commit'', JStr commit)]"
| "payload_members (BuilderFollowSet builder_id followed) = [
     (''command_kind'', JStr ''builder.follow.set''), (''builder_id'', JStr builder_id), (''followed'', JBool followed)]"
| "payload_members (PrivateUpdateUpsert update) = [
     (''command_kind'', JStr ''private.update.upsert''), (''update'', update_json update)]"
| "payload_members (PrivateUpdateReadSet update_id read) = [
     (''command_kind'', JStr ''private.update.read.set''), (''update_id'', JStr update_id), (''read'', JBool read)]"

section \<open>Commands\<close>

record command_body =
  cb_schema :: string
  cb_command_id :: string
  cb_workspace_id :: string
  cb_capability_id :: string
  cb_author_device_id :: string
  cb_created_at :: string
  cb_payload :: command_payload

record companion_command =
  cc_body :: command_body
  cc_signature :: string

definition command_body_json :: "command_body \<Rightarrow> json" where
  "command_body_json b = JObj [
     (''schema'', JStr (cb_schema b)), (''command_id'', JStr (cb_command_id b)),
     (''workspace_id'', JStr (cb_workspace_id b)), (''capability_id'', JStr (cb_capability_id b)),
     (''author_device_id'', JStr (cb_author_device_id b)), (''created_at'', JStr (cb_created_at b)),
     (''payload'', JObj (payload_members (cb_payload b)))]"

definition command_validate_shape :: "companion_env \<Rightarrow> command_body \<Rightarrow> unit companion_result" where
  "command_validate_shape E b =
     checks [require (cb_schema b = COMPANION_COMMAND_SCHEMA) ''unsupported companion command schema'',
       validate_identifier ''command ID'' (cb_command_id b),
       validate_identifier ''workspace ID'' (cb_workspace_id b),
       validate_identifier ''capability ID'' (cb_capability_id b),
       validate_identifier ''author device ID'' (cb_author_device_id b),
       timestamp_ok E (cb_created_at b),
       command_payload_validate E (cb_payload b)]"

definition command_sign ::
  "companion_env \<Rightarrow> companion_identity \<Rightarrow> command_body \<Rightarrow> companion_command companion_result" where
  "command_sign E identity draft =
     (let body = draft\<lparr>cb_schema := COMPANION_COMMAND_SCHEMA, cb_author_device_id := ti_device_id identity\<rparr> in
      bind_result (command_validate_shape E body) (\<lambda>_.
      bind_result (to_vec E (command_body_json body)) (\<lambda>bytes.
        Inr \<lparr>cc_body = body,
             cc_signature = base64url E (to_be_bytes (identity_sign E identity COMMAND_SIGNATURE_DOMAIN bytes))\<rparr>)))"

definition command_verify ::
  "companion_env \<Rightarrow> companion_command \<Rightarrow> bytes32 \<Rightarrow> string \<Rightarrow> instant \<Rightarrow> unit companion_result" where
  "command_verify E command signing_public_key device_id now =
     (let body = cc_body command in
      bind_result (command_validate_shape E body) (\<lambda>_.
      bind_result (require (cb_author_device_id body = device_id)
        ''command author is not the expected paired device'') (\<lambda>_.
      bind_result (parse_timestamp E (cb_created_at body)) (\<lambda>created_at.
      bind_result (shift created_at (- MAX_CLOCK_SKEW_SECONDS)) (\<lambda>earliest.
      bind_result (require (earliest \<le> now) ''command was created too far in the future'') (\<lambda>_.
      bind_result (shift created_at MAX_COMMAND_AGE_SECONDS) (\<lambda>latest.
      bind_result (require (now \<le> latest) ''command is older than the offline-admission limit'') (\<lambda>_.
      bind_result (decode_array E ''companion command signature'' (cc_signature command)) (\<lambda>signature.
      bind_result (to_vec E (command_body_json body)) (\<lambda>bytes.
        identity_verify E signing_public_key COMMAND_SIGNATURE_DOMAIN bytes signature))))))))))"

definition payload_digest :: "companion_env \<Rightarrow> companion_command \<Rightarrow> bytes32 companion_result" where
  "payload_digest E command = bind_result (to_vec E (command_body_json (cc_body command))) (\<lambda>bytes. Inr (hash E bytes))"

section \<open>Notes and receipts\<close>

record marketing_note =
  mn_schema :: string
  mn_note_id :: string
  mn_command_id :: string
  mn_shot_id :: string
  mn_body :: string
  mn_created_at :: string
  mn_author_device_id :: string
  mn_companion_command_digest :: string
  mn_companion_signature :: string

definition note_validate :: "companion_env \<Rightarrow> marketing_note \<Rightarrow> unit companion_result" where
  "note_validate E n =
     checks [require (mn_schema n = ''tohseno.marketing-note/1'') ''unsupported private marketing-note schema'',
       validate_identifier ''marketing note ID'' (mn_note_id n),
       validate_identifier ''marketing command ID'' (mn_command_id n),
       validate_identifier ''marketing Shot ID'' (mn_shot_id n),
       validate_text ''marketing-note body'' (mn_body n) (256 * 1024),
       timestamp_ok E (mn_created_at n),
       validate_identifier ''marketing author device ID'' (mn_author_device_id n),
       array_ok TYPE(256 word) E ''marketing companion command digest'' (mn_companion_command_digest n),
       array_ok TYPE(512 word) E ''marketing companion signature'' (mn_companion_signature n)]"

definition from_verified_command ::
  "companion_env \<Rightarrow> companion_command \<Rightarrow> bytes32 \<Rightarrow> string \<Rightarrow> instant \<Rightarrow> marketing_note companion_result" where
  "from_verified_command E command signing_public_key device_id now =
     bind_result (command_verify E command signing_public_key device_id now) (\<lambda>_.
     let body = cc_body command in
     case cb_payload body of
       MarketingSubmit note_id shot_id note_body \<Rightarrow>
         bind_result (payload_digest E command) (\<lambda>digest.
         let n = \<lparr>mn_schema = ''tohseno.marketing-note/1'', mn_note_id = note_id,
                mn_command_id = cb_command_id body, mn_shot_id = shot_id, mn_body = note_body,
                mn_created_at = cb_created_at body, mn_author_device_id = cb_author_device_id body,
                mn_companion_command_digest = base64url E (to_be_bytes digest),
                mn_companion_signature = cc_signature command\<rparr>
         in bind_result (note_validate E n) (\<lambda>_. Inr n))
     | _ \<Rightarrow> Inl (CompanionInvalid ''only marketing.submit can become a marketing note''))"

datatype receipt_state = ReceiptReceived | ReceiptAccepted | ReceiptCompleted | ReceiptRejected | ReceiptFailed

record command_receipt =
  re_schema :: string
  re_command_id :: string
  re_state :: receipt_state
  re_shot_id :: "string option"
  re_execution_id :: "string option"
  re_result_id :: "string option"
  re_rejection_code :: "string option"

definition receipt_validate :: "command_receipt \<Rightarrow> unit companion_result" where
  "receipt_validate r =
     checks [require (re_schema r = ''tohseno.companion-command-receipt/1'') ''unsupported command receipt schema'',
       validate_identifier ''command ID'' (re_command_id r),
       opt_check (validate_identifier ''receipt Shot ID'') (re_shot_id r),
       opt_check (validate_identifier ''receipt execution ID'') (re_execution_id r),
       opt_check (validate_identifier ''receipt result ID'') (re_result_id r),
       opt_check (validate_identifier ''receipt rejection code'') (re_rejection_code r),
       require (re_state r = ReceiptRejected \<or> re_rejection_code r = None)
         ''only a rejected receipt may contain a rejection code'']"

end
