(* ===== verification/Companion_Capability.thy ===== *)
theory Companion_Capability
  imports Companion_Command
begin

text \<open>
  Revocable authority of a paired device, \<open>companion/src/capability.rs\<close>: signed grants, the
  registry of revocation epochs, and the authorization of a command. What is authorized was
  granted and signed by both sides, and a revocation is final.
\<close>

section \<open>Grants\<close>

definition CAPABILITY_GRANT_SCHEMA :: string where
  "CAPABILITY_GRANT_SCHEMA = ''tohseno.companion-capability-grant/1''"
definition CAPABILITY_SIGNATURE_DOMAIN :: "byte list" where
  "CAPABILITY_SIGNATURE_DOMAIN = str_bytes ''tohseno.companion.capability-grant.v1''"
definition MAX_CAPABILITY_LIFETIME_SECONDS :: int where
  "MAX_CAPABILITY_LIFETIME_SECONDS = 366 * 24 * 60 * 60"

text \<open>The derived order of the enum is that of its declaration.\<close>

fun action_index :: "capability_action \<Rightarrow> nat" where
  "action_index WorkspaceRead = 0"
| "action_index ExecutionRead = 1"
| "action_index FeedbackWrite = 2"
| "action_index MarketingWrite = 3"
| "action_index ShotCreate = 4"
| "action_index ShotEvolve = 5"
| "action_index PublicationAuthorize = 6"
| "action_index NetworkReceive = 7"
| "action_index PreferenceWrite = 8"

lemma action_index_inject: "action_index a = action_index b \<longleftrightarrow> a = b"
  by (cases a; cases b) simp_all

instantiation capability_action :: linorder
begin

definition less_eq_capability_action :: "capability_action \<Rightarrow> capability_action \<Rightarrow> bool" where
  "less_eq_capability_action a b \<longleftrightarrow> action_index a \<le> action_index b"

definition less_capability_action :: "capability_action \<Rightarrow> capability_action \<Rightarrow> bool" where
  "less_capability_action a b \<longleftrightarrow> action_index a < action_index b"

instance
  by standard (auto simp: less_eq_capability_action_def less_capability_action_def action_index_inject
      dest: order.antisym)

end

fun action_name :: "capability_action \<Rightarrow> string" where
  "action_name WorkspaceRead = ''workspace.read''"
| "action_name ExecutionRead = ''execution.read''"
| "action_name FeedbackWrite = ''feedback.write''"
| "action_name MarketingWrite = ''marketing.write''"
| "action_name ShotCreate = ''shot.create''"
| "action_name ShotEvolve = ''shot.evolve''"
| "action_name PublicationAuthorize = ''publication.authorize''"
| "action_name NetworkReceive = ''network.receive''"
| "action_name PreferenceWrite = ''preference.write''"

record capability_grant_body =
  cg_schema :: string
  cg_capability_id :: string
  cg_workspace_id :: string
  cg_device_id :: string
  cg_allowed_actions :: "capability_action list"
  cg_issued_at :: string
  cg_expires_at :: "string option"
  cg_revocation_epoch :: u64
  cg_studio_signing_public_key :: string

record capability_grant =
  gr_body :: capability_grant_body
  gr_signature :: string

definition grant_members :: "capability_grant_body \<Rightarrow> (string \<times> json) list" where
  "grant_members b = [
     (''schema'', JStr (cg_schema b)), (''capability_id'', JStr (cg_capability_id b)),
     (''workspace_id'', JStr (cg_workspace_id b)), (''device_id'', JStr (cg_device_id b)),
     (''allowed_actions'', json_strings (map action_name (cg_allowed_actions b))),
     (''issued_at'', JStr (cg_issued_at b))]
     @ member_option ''expires_at'' JStr (cg_expires_at b)
     @ [(''revocation_epoch'', json_word (cg_revocation_epoch b)),
     (''studio_signing_public_key'', JStr (cg_studio_signing_public_key b))]"

definition grant_body_json :: "capability_grant_body \<Rightarrow> json" where
  "grant_body_json b = JObj (grant_members b)"

definition grant_json :: "capability_grant \<Rightarrow> json" where
  "grant_json g = JObj (grant_members (gr_body g) @ [(''signature'', JStr (gr_signature g))])"

definition grant_validate_shape :: "companion_env \<Rightarrow> capability_grant_body \<Rightarrow> unit companion_result" where
  "grant_validate_shape E b =
     checks [require (cg_schema b = CAPABILITY_GRANT_SCHEMA) ''unsupported capability grant schema'',
       validate_identifier ''capability ID'' (cg_capability_id b),
       validate_identifier ''workspace ID'' (cg_workspace_id b),
       validate_identifier ''device ID'' (cg_device_id b),
       require (cg_allowed_actions b \<noteq> [] \<and> length (cg_allowed_actions b) \<le> 9)
         ''capability grant must contain one to nine actions'',
       require (sorted_wrt (<) (cg_allowed_actions b)) ''capability actions must be unique and sorted'',
       timestamp_ok E (cg_issued_at b),
       opt_check (timestamp_ok E) (cg_expires_at b),
       array_ok TYPE(256 word) E ''capability Studio signing key'' (cg_studio_signing_public_key b)]"

definition grant_sign ::
  "companion_env \<Rightarrow> capability_grant_body \<Rightarrow> 'i transport_identity_scheme \<Rightarrow> capability_grant companion_result" where
  "grant_sign E body studio =
     bind_result (grant_validate_shape E body) (\<lambda>_.
     bind_result (require (cg_studio_signing_public_key body = signing_public_key_base64url E studio)
       ''capability grant signing key does not match Studio'') (\<lambda>_.
     bind_result (to_vec E (grant_body_json body)) (\<lambda>bytes.
       Inr \<lparr>gr_body = body,
            gr_signature = base64url E (to_be_bytes (identity_sign E studio CAPABILITY_SIGNATURE_DOMAIN bytes))\<rparr>)))"

definition grant_window ::
  "companion_env \<Rightarrow> capability_grant_body \<Rightarrow> instant \<Rightarrow> unit companion_result" where
  "grant_window E b now =
     bind_result (parse_timestamp E (cg_issued_at b)) (\<lambda>issued.
       case cg_expires_at b of
         Some expires_at \<Rightarrow> validate_window E (cg_issued_at b) expires_at now
           MAX_CAPABILITY_LIFETIME_SECONDS MAX_CLOCK_SKEW_SECONDS
       | None \<Rightarrow> bind_result (shift issued (- MAX_CLOCK_SKEW_SECONDS)) (\<lambda>earliest.
           require (earliest \<le> now) ''capability grant is not valid yet''))"

definition grant_verify :: "companion_env \<Rightarrow> capability_grant \<Rightarrow> bytes32 \<Rightarrow> instant \<Rightarrow> unit companion_result" where
  "grant_verify E g trusted_studio_signing_key now =
     (let b = gr_body g in
      bind_result (grant_validate_shape E b) (\<lambda>_.
      bind_result (decode_array E ''capability Studio signing key'' (cg_studio_signing_public_key b)) (\<lambda>embedded.
      bind_result (require (embedded = trusted_studio_signing_key)
        ''capability grant is not signed by the trusted Studio'') (\<lambda>_.
      bind_result (grant_window E b now) (\<lambda>_.
      bind_result (decode_array E ''capability grant signature'' (gr_signature g)) (\<lambda>signature.
      bind_result (to_vec E (grant_body_json b)) (\<lambda>bytes.
        identity_verify E trusted_studio_signing_key CAPABILITY_SIGNATURE_DOMAIN bytes signature)))))))"

section \<open>The registry\<close>

record capability_registry =
  cy_workspace_id :: string
  cy_device_epochs :: "(string, u64) btree"
  cy_revoked_capabilities :: "string set"

definition registry_new :: "string \<Rightarrow> capability_registry companion_result" where
  "registry_new workspace_id =
     bind_result (validate_identifier ''workspace ID'' workspace_id) (\<lambda>_.
       Inr \<lparr>cy_workspace_id = workspace_id, cy_device_epochs = [], cy_revoked_capabilities = {}\<rparr>)"

definition current_epoch :: "capability_registry \<Rightarrow> string \<Rightarrow> u64" where
  "current_epoch reg device_id = (case bt_get (cy_device_epochs reg) device_id of None \<Rightarrow> 0 | Some e \<Rightarrow> e)"

definition restore_device_epoch ::
  "capability_registry \<Rightarrow> string \<Rightarrow> u64 \<Rightarrow> unit companion_result \<times> capability_registry" where
  "restore_device_epoch reg device_id epoch =
     (case checks [validate_identifier ''device ID'' device_id,
             require (current_epoch reg device_id \<le> epoch) ''revocation epoch cannot move backwards''] of
        Inl e \<Rightarrow> (Inl e, reg)
      | Inr _ \<Rightarrow> (Inr (), reg\<lparr>cy_device_epochs := bt_insert device_id epoch (cy_device_epochs reg)\<rparr>))"

definition revoke_device :: "capability_registry \<Rightarrow> string \<Rightarrow> u64 companion_result \<times> capability_registry" where
  "revoke_device reg device_id =
     (case validate_identifier ''device ID'' device_id of
        Inl e \<Rightarrow> (Inl e, reg)
      | Inr _ \<Rightarrow>
          (case checked_add (current_epoch reg device_id) 1 of
             None \<Rightarrow> (Inl (CompanionInvalid ''revocation epoch overflowed''), reg)
           | Some next \<Rightarrow> (Inr next, reg\<lparr>cy_device_epochs := bt_insert device_id next (cy_device_epochs reg)\<rparr>)))"

definition revoke_capability :: "capability_registry \<Rightarrow> string \<Rightarrow> unit companion_result \<times> capability_registry" where
  "revoke_capability reg capability_id =
     (case validate_identifier ''capability ID'' capability_id of
        Inl e \<Rightarrow> (Inl e, reg)
      | Inr _ \<Rightarrow> (Inr (), reg\<lparr>cy_revoked_capabilities := insert capability_id (cy_revoked_capabilities reg)\<rparr>))"

text \<open>The actions of a verified grant are sorted, so the binary search finds its members.\<close>

definition authorize ::
  "companion_env \<Rightarrow> capability_registry \<Rightarrow> capability_grant \<Rightarrow> capability_action \<Rightarrow> bytes32 \<Rightarrow> instant
     \<Rightarrow> unit companion_result" where
  "authorize E reg g action trusted_studio_signing_key now =
     (let b = gr_body g in
      checks [grant_verify E g trusted_studio_signing_key now,
        require (cg_workspace_id b = cy_workspace_id reg) ''capability grant belongs to a different workspace'',
        require (cg_capability_id b \<notin> cy_revoked_capabilities reg) ''capability grant was revoked'',
        require (cg_revocation_epoch b = current_epoch reg (cg_device_id b))
          ''capability grant has a stale revocation epoch'',
        require (action \<in> set (cg_allowed_actions b)) ''capability grant does not authorize this action''])"

definition authorize_command ::
  "companion_env \<Rightarrow> capability_registry \<Rightarrow> capability_grant \<Rightarrow> companion_command \<Rightarrow> bytes32 \<Rightarrow> bytes32
     \<Rightarrow> instant \<Rightarrow> unit companion_result" where
  "authorize_command E reg g command companion_signing_public_key trusted_studio_signing_key now =
     (let body = cc_body command in
      checks [command_verify E command companion_signing_public_key (cg_device_id (gr_body g)) now,
        require (cb_workspace_id body = cy_workspace_id reg \<and> cb_workspace_id body = cg_workspace_id (gr_body g))
          ''companion command belongs to a different workspace'',
        require (cb_capability_id body = cg_capability_id (gr_body g))
          ''companion command names a different capability grant'',
        authorize E reg g (required_capability (cb_payload body)) trusted_studio_signing_key now])"

section \<open>Signatures of both sides\<close>

lemma grant_verify_signed:
  "grant_verify E g key now = Inr u \<Longrightarrow>
     signed_document E key CAPABILITY_SIGNATURE_DOMAIN (grant_body_json (gr_body g)) (gr_signature g)"
  by (auto simp: grant_verify_def Let_def intro: signed_documentI)

lemma command_verify_signed:
  "command_verify E c key d now = Inr u \<Longrightarrow>
     signed_document E key COMMAND_SIGNATURE_DOMAIN (command_body_json (cc_body c)) (cc_signature c)
     \<and> cb_author_device_id (cc_body c) = d"
  by (auto simp: command_verify_def Let_def intro: signed_documentI)

text \<open>What each side signs, the other side verifies.\<close>

lemma grant_sign_verifies:
  assumes "base64_laws E" "signature_law E" "genuine E studio" "grant_sign E body studio = Inr g"
    "grant_window E body now = Inr ()"
  shows "grant_verify E g (ti_signing_public_key studio) now = Inr ()"
proof -
  obtain bytes where g: "grant_validate_shape E body = Inr ()"
    "cg_studio_signing_public_key body = base64url E (to_be_bytes (ti_signing_public_key studio))"
    "to_vec E (grant_body_json body) = Inr bytes" "gr_body g = body"
    "gr_signature g = base64url E (to_be_bytes (identity_sign E studio CAPABILITY_SIGNATURE_DOMAIN bytes))"
    using assms(4) by (auto simp: grant_sign_def signing_public_key_base64url_def)
  then show ?thesis
    using assms(5) verify_signed [OF assms(2,3)]
    by (simp add: grant_verify_def decode_array_encoded [OF assms(1)])
qed

lemma command_sign_verifies:
  assumes "base64_laws E" "signature_law E" "genuine E identity" "command_sign E identity draft = Inr c"
    "parse_timestamp E (cb_created_at draft) = Inr t"
    "shift t (- MAX_CLOCK_SKEW_SECONDS) = Inr earliest" "earliest \<le> now"
    "shift t MAX_COMMAND_AGE_SECONDS = Inr latest" "now \<le> latest"
  shows "command_verify E c (ti_signing_public_key identity) (ti_device_id identity) now = Inr ()"
proof -
  let ?body = "draft\<lparr>cb_schema := COMPANION_COMMAND_SCHEMA, cb_author_device_id := ti_device_id identity\<rparr>"
  obtain bytes where c: "command_validate_shape E ?body = Inr ()" "to_vec E (command_body_json ?body) = Inr bytes"
    "cc_body c = ?body"
    "cc_signature c = base64url E (to_be_bytes (identity_sign E identity COMMAND_SIGNATURE_DOMAIN bytes))"
    using assms(4) by (auto simp: command_sign_def Let_def)
  have "decode_array E ''companion command signature'' (cc_signature c)
      = Inr (identity_sign E identity COMMAND_SIGNATURE_DOMAIN bytes)"
    unfolding c(4) by (intro decode_array_encoded assms) simp
  then show ?thesis
    using assms(5-) c verify_signed [OF assms(2,3)] by (simp add: command_verify_def)
qed

section \<open>Revocation\<close>

datatype registry_op = RestoreEpoch string u64 | RevokeDevice string | RevokeCapability string

fun registry_step :: "capability_registry \<Rightarrow> registry_op \<Rightarrow> unit companion_result \<times> capability_registry" where
  "registry_step reg (RestoreEpoch d e) = restore_device_epoch reg d e"
| "registry_step reg (RevokeDevice d) = map_prod (\<lambda>r. bind_result r (\<lambda>_. Inr ())) id (revoke_device reg d)"
| "registry_step reg (RevokeCapability c) = revoke_capability reg c"

definition registry_le :: "capability_registry \<Rightarrow> capability_registry \<Rightarrow> bool" where
  "registry_le a b \<longleftrightarrow> cy_workspace_id b = cy_workspace_id a \<and> (\<forall>d. current_epoch a d \<le> current_epoch b d)
     \<and> cy_revoked_capabilities a \<subseteq> cy_revoked_capabilities b"

lemma registry_le_trans: "registry_le a b \<Longrightarrow> registry_le b c \<Longrightarrow> registry_le a c"
  by (auto simp: registry_le_def intro: order.trans)

lemma current_epoch_insert:
  "current_epoch (reg\<lparr>cy_device_epochs := bt_insert d e (cy_device_epochs reg)\<rparr>) k
     = (if k = d then e else current_epoch reg k)"
  by (simp add: current_epoch_def bt_get_insert)

lemma current_epoch_revoked [simp]: "current_epoch (reg\<lparr>cy_revoked_capabilities := S\<rparr>) = current_epoch reg"
  by (rule ext) (simp add: current_epoch_def)

lemma checked_add_1_less: "checked_add (a :: u64) 1 = Some b \<Longrightarrow> a < b"
  by (auto dest!: checked_add_SomeD simp: word_less_nat_alt)

lemma registry_step_le: "registry_step reg op = (r, reg') \<Longrightarrow> registry_le reg reg'"
  by (cases op)
    (auto simp: registry_le_def restore_device_epoch_def revoke_device_def revoke_capability_def
      current_epoch_insert map_prod_def dest!: checked_add_1_less split: sum.splits option.splits prod.splits)

lemma registry_run_le: "run_steps registry_step reg ops = (rs, reg') \<Longrightarrow> registry_le reg reg'"
proof (induction ops arbitrary: reg rs)
  case (Cons op ops)
  from Cons.prems obtain r m rs' where "registry_step reg op = (r, m)" "run_steps registry_step m ops = (rs', reg')"
    by (rule run_steps_Cons)
  then show ?case by (blast intro: registry_le_trans registry_step_le Cons.IH)
qed (simp add: registry_le_def)

text \<open>A grant that a registry, or any later one, will not accept again.\<close>

definition outdated :: "capability_registry \<Rightarrow> capability_grant \<Rightarrow> bool" where
  "outdated reg g \<longleftrightarrow> cg_capability_id (gr_body g) \<in> cy_revoked_capabilities reg
     \<or> cg_revocation_epoch (gr_body g) < current_epoch reg (cg_device_id (gr_body g))"

lemma outdated_mono: "registry_le a b \<Longrightarrow> outdated a g \<Longrightarrow> outdated b g"
  by (auto simp: registry_le_def outdated_def intro: order.strict_trans2)

lemma outdated_refused: "outdated reg g \<Longrightarrow> authorize E reg g action key now \<noteq> Inr ()"
  by (auto simp: outdated_def authorize_def Let_def)

lemma revocation_outdates:
  assumes "op = RevokeDevice (cg_device_id (gr_body g)) \<or> op = RevokeCapability (cg_capability_id (gr_body g))"
    "registry_step reg op = (Inr (), reg')" "cg_revocation_epoch (gr_body g) \<le> current_epoch reg (cg_device_id (gr_body g))"
  shows "outdated reg' g"
  using assms
  by (auto simp: revoke_device_def revoke_capability_def outdated_def current_epoch_insert map_prod_def
      dest!: checked_add_1_less split: sum.splits option.splits prod.splits)


text \<open>C16: A revocation is final. Once a grant that a registry accepted is revoked, by its identifier or by
  its device, no sequence of later operations on the registry lets it authorize anything
  again, at any time and under any key.\<close>

theorem revocation_final:
  assumes "authorize E reg g action key now = Inr ()"
    and "op = RevokeDevice (cg_device_id (gr_body g)) \<or> op = RevokeCapability (cg_capability_id (gr_body g))"
    and "registry_step reg op = (Inr (), revoked)"
    and "run_steps registry_step revoked ops = (answers, later)"
  shows "authorize E later g action' key' now' \<noteq> Inr ()"
proof -
  have "cg_revocation_epoch (gr_body g) \<le> current_epoch reg (cg_device_id (gr_body g))"
    using assms(1) by (auto simp: authorize_def Let_def)
  then have "outdated revoked g" by (rule revocation_outdates [OF assms(2,3)])
  then show ?thesis by (intro outdated_refused outdated_mono [OF registry_run_le [OF assms(4)]])
qed

end
