(* ===== verification/Companion_Pairing.thy ===== *)
theory Companion_Pairing
  imports Companion_Capability
begin

text \<open>
  Pairing a phone with the workspace, \<open>companion/src/pairing.rs\<close>: signed invitations, proofs
  of key possession, the encrypted response and the store of one-use sessions. A session is
  used once, by a proof that its device signed and confirmed, and an honest proof is accepted.
\<close>

section \<open>Invitations\<close>

definition PAIRING_INVITATION_SCHEMA :: string where
  "PAIRING_INVITATION_SCHEMA = ''tohseno.companion-pairing-invitation/1''"
definition PAIRING_PROOF_SCHEMA :: string where
  "PAIRING_PROOF_SCHEMA = ''tohseno.companion-pairing-proof/1''"
definition PAIRING_RESPONSE_BODY_SCHEMA :: string where
  "PAIRING_RESPONSE_BODY_SCHEMA = ''tohseno.companion-pairing-response-body/1''"
definition PAIRING_ACCEPTANCE_SCHEMA :: string where
  "PAIRING_ACCEPTANCE_SCHEMA = ''tohseno.companion-pairing-grant-package/1''"
definition ENCRYPTED_PAIRING_RESPONSE_SCHEMA :: string where
  "ENCRYPTED_PAIRING_RESPONSE_SCHEMA = ''tohseno.companion-encrypted-pairing-response/1''"
definition PAIRING_URI_PREFIX :: string where "PAIRING_URI_PREFIX = ''tohseno://pair/v1/''"
definition PAIRING_INVITATION_LIFETIME_SECONDS :: int where
  "PAIRING_INVITATION_LIFETIME_SECONDS = 120"
definition PAIRING_INVITATION_SIGNATURE_DOMAIN :: "byte list" where
  "PAIRING_INVITATION_SIGNATURE_DOMAIN = str_bytes ''tohseno.companion.pairing-invitation.v1''"
definition PAIRING_PROOF_SIGNATURE_DOMAIN :: "byte list" where
  "PAIRING_PROOF_SIGNATURE_DOMAIN = str_bytes ''tohseno.companion.pairing-proof.v1''"
definition MAX_PAIRING_URI_BYTES :: nat where "MAX_PAIRING_URI_BYTES = 16 * 1024"
definition MAX_PAIRING_RESPONSE_BYTES :: nat where "MAX_PAIRING_RESPONSE_BYTES = 64 * 1024"

type_synonym relay_allowlist = "string set"

text \<open>The identifiers are checked in the order of the \<open>BTreeSet\<close>.\<close>

definition allowlist_new :: "string list \<Rightarrow> relay_allowlist companion_result" where
  "allowlist_new ids =
     bind_result (require (ids \<noteq> []) ''relay allowlist must not be empty'') (\<lambda>_.
     bind_result (each (validate_identifier ''relay ID'') (remdups_adj (sort ids))) (\<lambda>_. Inr (set ids)))"

definition allowlist_official :: relay_allowlist where
  "allowlist_official = {''official-v1''}"

record invitation_body =
  ib_schema :: string
  ib_session_id :: string
  ib_workspace_id :: string
  ib_studio_device_id :: string
  ib_studio_signing_public_key :: string
  ib_studio_ephemeral_agreement_public_key :: string
  ib_relay_id :: string
  ib_issued_at :: string
  ib_expires_at :: string

record pairing_invitation =
  pi_body :: invitation_body
  pi_signature :: string

definition invitation_members :: "invitation_body \<Rightarrow> (string \<times> json) list" where
  "invitation_members b = [
     (''schema'', JStr (ib_schema b)), (''session_id'', JStr (ib_session_id b)),
     (''workspace_id'', JStr (ib_workspace_id b)), (''studio_device_id'', JStr (ib_studio_device_id b)),
     (''studio_signing_public_key'', JStr (ib_studio_signing_public_key b)),
     (''studio_ephemeral_agreement_public_key'', JStr (ib_studio_ephemeral_agreement_public_key b)),
     (''relay_id'', JStr (ib_relay_id b)), (''issued_at'', JStr (ib_issued_at b)),
     (''expires_at'', JStr (ib_expires_at b))]"

definition invitation_json :: "pairing_invitation \<Rightarrow> json" where
  "invitation_json i = JObj (invitation_members (pi_body i) @ [(''signature'', JStr (pi_signature i))])"

definition invitation_validate_shape :: "companion_env \<Rightarrow> invitation_body \<Rightarrow> unit companion_result" where
  "invitation_validate_shape E b =
     checks [require (ib_schema b = PAIRING_INVITATION_SCHEMA) ''unsupported pairing invitation schema'',
       validate_identifier ''pairing session ID'' (ib_session_id b),
       validate_identifier ''workspace ID'' (ib_workspace_id b),
       validate_identifier ''Studio device ID'' (ib_studio_device_id b),
       validate_identifier ''relay ID'' (ib_relay_id b),
       array_ok TYPE(256 word) E ''Studio signing public key'' (ib_studio_signing_public_key b),
       array_ok TYPE(256 word) E ''Studio ephemeral agreement public key'' (ib_studio_ephemeral_agreement_public_key b),
       bind_result (parse_timestamp E (ib_issued_at b)) (\<lambda>issued.
       bind_result (parse_timestamp E (ib_expires_at b)) (\<lambda>expires.
         let lifetime = whole_seconds (expires - issued) in
         require (0 < lifetime \<and> lifetime \<le> PAIRING_INVITATION_LIFETIME_SECONDS)
           ''pairing invitation lifetime must be no more than two minutes''))]"

definition invitation_sign ::
  "companion_env \<Rightarrow> invitation_body \<Rightarrow> 'i transport_identity_scheme \<Rightarrow> pairing_invitation companion_result" where
  "invitation_sign E body studio =
     bind_result (invitation_validate_shape E body) (\<lambda>_.
     bind_result (require (ib_studio_signing_public_key body = signing_public_key_base64url E studio)
       ''pairing invitation signing key does not match the Studio identity'') (\<lambda>_.
     bind_result (to_vec E (JObj (invitation_members body))) (\<lambda>bytes.
       Inr \<lparr>pi_body = body, pi_signature =
         base64url E (to_be_bytes (identity_sign E studio PAIRING_INVITATION_SIGNATURE_DOMAIN bytes))\<rparr>)))"

definition invitation_verify ::
  "companion_env \<Rightarrow> pairing_invitation \<Rightarrow> bytes32 \<Rightarrow> relay_allowlist \<Rightarrow> instant \<Rightarrow> unit companion_result" where
  "invitation_verify E i trusted_studio_signing_key allowlist now =
     (let b = pi_body i in
      bind_result (checks [invitation_validate_shape E b,
        require (ib_relay_id b \<in> allowlist) ''pairing invitation names a relay ID outside the allowlist'',
        validate_window E (ib_issued_at b) (ib_expires_at b) now
          PAIRING_INVITATION_LIFETIME_SECONDS MAX_CLOCK_SKEW_SECONDS]) (\<lambda>_.
      bind_result (decode_array E ''Studio signing public key'' (ib_studio_signing_public_key b)) (\<lambda>encoded_key.
      bind_result (require (encoded_key = trusted_studio_signing_key)
        ''pairing invitation Studio key is not trusted'') (\<lambda>_.
      bind_result (decode_array E ''pairing invitation signature'' (pi_signature i)) (\<lambda>signature.
      bind_result (to_vec E (JObj (invitation_members b))) (\<lambda>bytes.
        identity_verify E trusted_studio_signing_key PAIRING_INVITATION_SIGNATURE_DOMAIN bytes signature))))))"

definition invitation_to_uri :: "companion_env \<Rightarrow> pairing_invitation \<Rightarrow> string companion_result" where
  "invitation_to_uri E i =
     bind_result (to_vec E (invitation_json i)) (\<lambda>payload.
     bind_result (require (length payload \<le> MAX_PAIRING_URI_BYTES) ''pairing invitation is too large'') (\<lambda>_.
       Inr (PAIRING_URI_PREFIX @ base64url E payload)))"

definition invitation_from_uri ::
  "companion_env \<Rightarrow> (byte list \<Rightarrow> string + pairing_invitation) \<Rightarrow> string \<Rightarrow> pairing_invitation companion_result" where
  "invitation_from_uri E parse uri =
     bind_result (require (length uri \<le> MAX_PAIRING_URI_BYTES * 2) ''pairing URI is too large'') (\<lambda>_.
     bind_result (ok_or (CompanionInvalid ''unsupported pairing URI'')
       (if starts_with PAIRING_URI_PREFIX uri then Some (drop (length PAIRING_URI_PREFIX) uri) else None)) (\<lambda>payload.
     bind_result (decode_base64url E ''pairing URI payload'' payload MAX_PAIRING_URI_BYTES) (\<lambda>bytes.
       from_slice E parse invitation_json bytes)))"

definition invitation_digest :: "companion_env \<Rightarrow> pairing_invitation \<Rightarrow> bytes32 companion_result" where
  "invitation_digest E i = bind_result (to_vec E (invitation_json i)) (\<lambda>bytes. Inr (hash E bytes))"

section \<open>Proofs of key possession\<close>

record proof_body =
  pb_schema :: string
  pb_session_id :: string
  pb_workspace_id :: string
  pb_invitation_digest :: string
  pb_companion_device_id :: string
  pb_companion_display_name :: string
  pb_companion_signing_public_key :: string
  pb_companion_agreement_public_key :: string
  pb_created_at :: string

record pairing_proof =
  pp_body :: proof_body
  pp_key_confirmation :: string
  pp_signature :: string

definition proof_members :: "proof_body \<Rightarrow> (string \<times> json) list" where
  "proof_members b = [
     (''schema'', JStr (pb_schema b)), (''session_id'', JStr (pb_session_id b)),
     (''workspace_id'', JStr (pb_workspace_id b)), (''invitation_digest'', JStr (pb_invitation_digest b)),
     (''companion_device_id'', JStr (pb_companion_device_id b)),
     (''companion_display_name'', JStr (pb_companion_display_name b)),
     (''companion_signing_public_key'', JStr (pb_companion_signing_public_key b)),
     (''companion_agreement_public_key'', JStr (pb_companion_agreement_public_key b)),
     (''created_at'', JStr (pb_created_at b))]"

definition proof_json :: "pairing_proof \<Rightarrow> json" where
  "proof_json p = JObj (proof_members (pp_body p)
     @ [(''key_confirmation'', JStr (pp_key_confirmation p)), (''signature'', JStr (pp_signature p))])"

definition proof_validate_shape :: "companion_env \<Rightarrow> proof_body \<Rightarrow> unit companion_result" where
  "proof_validate_shape E b =
     checks [require (pb_schema b = PAIRING_PROOF_SCHEMA) ''unsupported pairing proof schema'',
       validate_identifier ''pairing session ID'' (pb_session_id b),
       validate_identifier ''workspace ID'' (pb_workspace_id b),
       validate_identifier ''companion device ID'' (pb_companion_device_id b),
       validate_text ''companion display name'' (pb_companion_display_name b) 256,
       array_ok TYPE(256 word) E ''invitation digest'' (pb_invitation_digest b),
       array_ok TYPE(256 word) E ''companion signing public key'' (pb_companion_signing_public_key b),
       array_ok TYPE(256 word) E ''companion agreement public key'' (pb_companion_agreement_public_key b),
       timestamp_ok E (pb_created_at b)]"

definition proof_create ::
  "companion_env \<Rightarrow> pairing_invitation \<Rightarrow> companion_identity \<Rightarrow> string \<Rightarrow> string \<Rightarrow> pairing_proof companion_result" where
  "proof_create E i companion display_name created_at =
     bind_result (invitation_digest E i) (\<lambda>digest.
     let b = \<lparr>pb_schema = PAIRING_PROOF_SCHEMA, pb_session_id = ib_session_id (pi_body i),
           pb_workspace_id = ib_workspace_id (pi_body i), pb_invitation_digest = base64url E (to_be_bytes digest),
           pb_companion_device_id = ti_device_id companion, pb_companion_display_name = display_name,
           pb_companion_signing_public_key = signing_public_key_base64url E companion,
           pb_companion_agreement_public_key = agreement_public_key_base64url E companion,
           pb_created_at = created_at\<rparr> in
     bind_result (proof_validate_shape E b) (\<lambda>_.
     bind_result (to_vec E (JObj (proof_members b))) (\<lambda>body_bytes.
     bind_result (decode_array E ''Studio ephemeral agreement public key''
       (ib_studio_ephemeral_agreement_public_key (pi_body i))) (\<lambda>studio_ephemeral.
     bind_result (identity_agree E companion studio_ephemeral) (\<lambda>shared.
     bind_result (derive_key E shared (to_be_bytes digest) PAIRING_CONFIRMATION_DOMAIN) (\<lambda>confirmation_key.
       Inr \<lparr>pp_body = b,
            pp_key_confirmation = base64url E (to_be_bytes
              (hmac_sha256 E (to_be_bytes confirmation_key) PAIRING_CONFIRMATION_DOMAIN body_bytes)),
            pp_signature = base64url E (to_be_bytes
              (identity_sign E companion PAIRING_PROOF_SIGNATURE_DOMAIN body_bytes))\<rparr>))))))"

text \<open>\<open>created >= issued - skew && created <= expires + skew && now <= expires + skew\<close>.\<close>

definition proof_in_window :: "instant \<Rightarrow> instant \<Rightarrow> instant \<Rightarrow> instant \<Rightarrow> bool companion_result" where
  "proof_in_window created issued expires now =
     bind_result (within_skew created issued expires MAX_CLOCK_SKEW_SECONDS) (\<lambda>valid.
       if \<not> valid then Inr False
       else bind_result (shift expires MAX_CLOCK_SKEW_SECONDS) (\<lambda>final. Inr (now \<le> final)))"

definition proof_verify ::
  "companion_env \<Rightarrow> pairing_proof \<Rightarrow> pairing_invitation \<Rightarrow> bytes32 \<Rightarrow> instant \<Rightarrow> unit companion_result" where
  "proof_verify E p i studio_ephemeral_secret now =
     (let b = pp_body p; ib = pi_body i in
      bind_result (proof_validate_shape E b) (\<lambda>_.
      bind_result (require (pb_session_id b = ib_session_id ib \<and> pb_workspace_id b = ib_workspace_id ib)
        ''pairing proof names a different invitation'') (\<lambda>_.
      bind_result (invitation_digest E i) (\<lambda>digest.
      bind_result (require (pb_invitation_digest b = base64url E (to_be_bytes digest))
        ''pairing proof invitation digest differs'') (\<lambda>_.
      bind_result (parse_timestamp E (pb_created_at b)) (\<lambda>created.
      bind_result (parse_timestamp E (ib_issued_at ib)) (\<lambda>issued.
      bind_result (parse_timestamp E (ib_expires_at ib)) (\<lambda>expires.
      bind_result (proof_in_window created issued expires now) (\<lambda>valid.
      bind_result (require valid ''pairing proof is outside the invitation window'') (\<lambda>_.
      bind_result (decode_array E ''companion signing public key'' (pb_companion_signing_public_key b)) (\<lambda>signing_key.
      bind_result (decode_array E ''companion agreement public key'' (pb_companion_agreement_public_key b)) (\<lambda>agreement_key.
      bind_result (require (pb_companion_device_id b = device_id_from_public_keys E signing_key agreement_key)
        ''pairing proof device ID does not bind its public keys'') (\<lambda>_.
      bind_result (to_vec E (JObj (proof_members b))) (\<lambda>body_bytes.
      bind_result (decode_array E ''pairing proof signature'' (pp_signature p)) (\<lambda>signature.
      bind_result (identity_verify E signing_key PAIRING_PROOF_SIGNATURE_DOMAIN body_bytes signature) (\<lambda>_.
      bind_result (x25519 E studio_ephemeral_secret agreement_key) (\<lambda>shared.
      bind_result (derive_key E shared (to_be_bytes digest) PAIRING_CONFIRMATION_DOMAIN) (\<lambda>confirmation_key.
      bind_result (decode_array E ''pairing key confirmation'' (pp_key_confirmation p)) (\<lambda>confirmation.
        verify_hmac_sha256 E (to_be_bytes confirmation_key) PAIRING_CONFIRMATION_DOMAIN body_bytes confirmation)))))))))))))))))))"

section \<open>The encrypted response\<close>

record response_header =
  rh_schema :: string
  rh_session_id :: string
  rh_ephemeral_public_key :: string
  rh_nonce :: string

record encrypted_response =
  er_header :: response_header
  er_ciphertext :: string

record response_body =
  rb_schema :: string
  rb_proof :: pairing_proof
  rb_response_mailbox_id :: string
  rb_write_capability :: string
  rb_revoke_capability :: string

definition response_header_json :: "response_header \<Rightarrow> json" where
  "response_header_json h = JObj [(''schema'', JStr (rh_schema h)), (''session_id'', JStr (rh_session_id h)),
     (''ephemeral_public_key'', JStr (rh_ephemeral_public_key h)), (''nonce'', JStr (rh_nonce h))]"

definition response_body_json :: "response_body \<Rightarrow> json" where
  "response_body_json b = JObj [(''schema'', JStr (rb_schema b)), (''proof'', proof_json (rb_proof b)),
     (''response_mailbox_id'', JStr (rb_response_mailbox_id b)),
     (''response_mailbox_write_capability'', JStr (rb_write_capability b)),
     (''response_mailbox_revoke_capability'', JStr (rb_revoke_capability b))]"

definition validate_bearer_capability :: "companion_env \<Rightarrow> string \<Rightarrow> bytes32 companion_result" where
  "validate_bearer_capability E capability = decode_array E ''relay bearer capability'' capability"

definition bearer_ok :: "companion_env \<Rightarrow> string \<Rightarrow> unit companion_result" where
  "bearer_ok E capability = bind_result (validate_bearer_capability E capability) (\<lambda>_. Inr ())"

definition response_body_validate :: "companion_env \<Rightarrow> response_body \<Rightarrow> unit companion_result" where
  "response_body_validate E b =
     checks [require (rb_schema b = PAIRING_RESPONSE_BODY_SCHEMA) ''unsupported pairing response body schema'',
       validate_identifier ''response mailbox ID'' (rb_response_mailbox_id b),
       bearer_ok E (rb_write_capability b), bearer_ok E (rb_revoke_capability b),
       require (rb_write_capability b \<noteq> rb_revoke_capability b) ''response mailbox capabilities must be distinct'']"

definition response_header_validate :: "companion_env \<Rightarrow> response_header \<Rightarrow> unit companion_result" where
  "response_header_validate E h =
     checks [require (rh_schema h = ENCRYPTED_PAIRING_RESPONSE_SCHEMA) ''unsupported encrypted pairing response schema'',
       validate_identifier ''pairing session ID'' (rh_session_id h),
       array_ok TYPE(256 word) E ''pairing response ephemeral public key'' (rh_ephemeral_public_key h),
       array_ok TYPE(96 word) E ''pairing response nonce'' (rh_nonce h)]"

text \<open>\<open>seal\<close> calls this with a random ephemeral secret and nonce.\<close>

definition response_seal ::
  "companion_env \<Rightarrow> pairing_invitation \<Rightarrow> response_body \<Rightarrow> bytes32 \<Rightarrow> 96 word \<Rightarrow> encrypted_response companion_result" where
  "response_seal E i body ephemeral_secret nonce =
     (let pb = pp_body (rb_proof body); ib = pi_body i;
          header = \<lparr>rh_schema = ENCRYPTED_PAIRING_RESPONSE_SCHEMA, rh_session_id = ib_session_id ib,
            rh_ephemeral_public_key = base64url E (to_be_bytes (cx_agreement_public E ephemeral_secret)),
            rh_nonce = base64url E (to_be_bytes nonce)\<rparr> in
      bind_result (checks [require (pb_session_id pb = ib_session_id ib \<and> pb_workspace_id pb = ib_workspace_id ib)
          ''pairing proof does not match the invitation'',
        response_body_validate E body, response_header_validate E header]) (\<lambda>_.
      bind_result (to_vec E (response_header_json header)) (\<lambda>aad.
      bind_result (decode_array E ''Studio ephemeral agreement public key''
        (ib_studio_ephemeral_agreement_public_key ib)) (\<lambda>studio_ephemeral.
      bind_result (x25519 E ephemeral_secret studio_ephemeral) (\<lambda>shared.
      bind_result (invitation_digest E i) (\<lambda>digest.
      bind_result (derive_key E shared (to_be_bytes digest) PAIRING_RESPONSE_KEY_DOMAIN) (\<lambda>key.
      bind_result (to_vec E (response_body_json body)) (\<lambda>plaintext.
      bind_result (encrypt E key nonce plaintext aad) (\<lambda>ciphertext.
      bind_result (require (length ciphertext \<le> MAX_PAIRING_RESPONSE_BYTES)
        ''encrypted pairing response is too large'') (\<lambda>_.
        Inr \<lparr>er_header = header, er_ciphertext = base64url E ciphertext\<rparr>))))))))))"

definition response_relay_shape :: "companion_env \<Rightarrow> encrypted_response \<Rightarrow> unit companion_result" where
  "response_relay_shape E r =
     bind_result (response_header_validate E (er_header r)) (\<lambda>_.
     bind_result (decode_base64url E ''pairing response ciphertext'' (er_ciphertext r) MAX_PAIRING_RESPONSE_BYTES) (\<lambda>ciphertext.
       require (16 \<le> length ciphertext) ''pairing response ciphertext is too short''))"

definition response_open ::
  "companion_env \<Rightarrow> (byte list \<Rightarrow> string + response_body) \<Rightarrow> encrypted_response \<Rightarrow> pairing_invitation \<Rightarrow> bytes32
     \<Rightarrow> response_body companion_result" where
  "response_open E parse r i studio_ephemeral_secret =
     (let h = er_header r in
      bind_result (response_relay_shape E r) (\<lambda>_.
      bind_result (require (rh_session_id h = ib_session_id (pi_body i))
        ''encrypted pairing response names a different session'') (\<lambda>_.
      bind_result (decode_array E ''pairing response ephemeral public key'' (rh_ephemeral_public_key h)) (\<lambda>ephemeral.
      bind_result (decode_array E ''pairing response nonce'' (rh_nonce h)) (\<lambda>nonce.
      bind_result (decode_base64url E ''pairing response ciphertext'' (er_ciphertext r) MAX_PAIRING_RESPONSE_BYTES) (\<lambda>ciphertext.
      bind_result (x25519 E studio_ephemeral_secret ephemeral) (\<lambda>shared.
      bind_result (invitation_digest E i) (\<lambda>digest.
      bind_result (derive_key E shared (to_be_bytes digest) PAIRING_RESPONSE_KEY_DOMAIN) (\<lambda>key.
      bind_result (to_vec E (response_header_json h)) (\<lambda>aad.
      bind_result (decrypt E key nonce ciphertext aad) (\<lambda>plaintext.
      bind_result (from_slice E parse response_body_json plaintext) (\<lambda>body.
      bind_result (response_body_validate E body) (\<lambda>_. Inr body)))))))))))))"

record pairing_acceptance =
  pa_schema :: string
  pa_capability_grant :: capability_grant
  pa_studio_agreement_public_key :: string
  pa_command_mailbox_id :: string
  pa_command_mailbox_write_capability :: string

definition acceptance_validate ::
  "companion_env \<Rightarrow> pairing_acceptance \<Rightarrow> bytes32 \<Rightarrow> string \<Rightarrow> string \<Rightarrow> string \<Rightarrow> instant \<Rightarrow> unit companion_result" where
  "acceptance_validate E a trusted_studio_signing_key studio_device_id companion_device_id workspace_id now =
     bind_result (require (pa_schema a = PAIRING_ACCEPTANCE_SCHEMA) ''unsupported pairing acceptance schema'') (\<lambda>_.
     bind_result (decode_array E ''Studio agreement public key'' (pa_studio_agreement_public_key a)) (\<lambda>studio_agreement_public_key.
       checks [require (device_id_from_public_keys E trusted_studio_signing_key studio_agreement_public_key = studio_device_id)
           ''pairing acceptance Studio identity differs from the invitation'',
         validate_identifier ''command mailbox ID'' (pa_command_mailbox_id a),
         bearer_ok E (pa_command_mailbox_write_capability a),
         grant_verify E (pa_capability_grant a) trusted_studio_signing_key now,
         require (cg_workspace_id (gr_body (pa_capability_grant a)) = workspace_id
             \<and> cg_device_id (gr_body (pa_capability_grant a)) = companion_device_id)
           ''pairing capability grant does not match the paired workspace and device'']))"

section \<open>Sessions\<close>

datatype pairing_session_state = SessionActive | SessionConsumed | SessionCancelled

record pairing_session =
  se_invitation :: pairing_invitation
  se_ephemeral_secret :: bytes32
  se_state :: pairing_session_state

type_synonym session_store = "(string, pairing_session) btree"

text \<open>Where a session is, for whom, over which relay and how long.\<close>

record session_terms =
  sn_workspace_id :: string
  sn_studio_device_id :: string
  sn_relay_id :: string
  sn_issued_at :: string
  sn_expires_at :: string

definition insert_with_secret ::
  "companion_env \<Rightarrow> session_store \<Rightarrow> string \<Rightarrow> session_terms \<Rightarrow> 'i transport_identity_scheme \<Rightarrow> bytes32
     \<Rightarrow> pairing_invitation companion_result \<times> session_store" where
  "insert_with_secret E store session_id terms studio ephemeral_secret =
     (case bind_result (require (\<not> bt_contains_key store session_id) ''pairing session ID already exists'') (\<lambda>_.
        invitation_sign E
          \<lparr>ib_schema = PAIRING_INVITATION_SCHEMA, ib_session_id = session_id,
           ib_workspace_id = sn_workspace_id terms, ib_studio_device_id = sn_studio_device_id terms,
           ib_studio_signing_public_key = signing_public_key_base64url E studio,
           ib_studio_ephemeral_agreement_public_key = base64url E (to_be_bytes (cx_agreement_public E ephemeral_secret)),
           ib_relay_id = sn_relay_id terms, ib_issued_at = sn_issued_at terms,
           ib_expires_at = sn_expires_at terms\<rparr> studio) of
        Inl e \<Rightarrow> (Inl e, store)
      | Inr invitation \<Rightarrow> (Inr invitation, bt_insert session_id
          \<lparr>se_invitation = invitation, se_ephemeral_secret = ephemeral_secret, se_state = SessionActive\<rparr> store))"

text \<open>The random session identifier and secret are arguments.\<close>

definition session_create ::
  "companion_env \<Rightarrow> session_store \<Rightarrow> session_terms \<Rightarrow> 'i transport_identity_scheme \<Rightarrow> relay_allowlist
     \<Rightarrow> 144 word \<Rightarrow> bytes32 \<Rightarrow> pairing_invitation companion_result \<times> session_store" where
  "session_create E store terms studio allowlist session_random secret =
     (case require (sn_relay_id terms \<in> allowlist) ''pairing session relay ID is not allowlisted'' of
        Inl e \<Rightarrow> (Inl e, store)
      | Inr _ \<Rightarrow> insert_with_secret E store (''pair_'' @ base64url E (to_be_bytes session_random)) terms studio secret)"

definition register_relay_session ::
  "companion_env \<Rightarrow> session_store \<Rightarrow> string \<Rightarrow> session_terms \<Rightarrow> 'i transport_identity_scheme \<Rightarrow> relay_allowlist
     \<Rightarrow> bytes32 \<Rightarrow> pairing_invitation companion_result \<times> session_store" where
  "register_relay_session E store session_id terms studio allowlist secret =
     (case checks [require (sn_relay_id terms \<in> allowlist) ''pairing session relay ID is not allowlisted'',
             require (length session_id = 32
                 \<and> list_all (\<lambda>c. is_ascii_alphanumeric c \<or> c \<in> {CHR ''-'', CHR ''_''}) session_id)
               ''relay pairing session ID must be a 32-character opaque identifier''] of
        Inl e \<Rightarrow> (Inl e, store)
      | Inr _ \<Rightarrow> insert_with_secret E store session_id terms studio secret)"

definition session_state :: "session_store \<Rightarrow> string \<Rightarrow> pairing_session_state option" where
  "session_state store session_id = map_option se_state (bt_get store session_id)"

definition session_cancel :: "session_store \<Rightarrow> string \<Rightarrow> unit companion_result \<times> session_store" where
  "session_cancel store session_id =
     (case bt_get store session_id of
        None \<Rightarrow> (Inl (CompanionInvalid ''pairing session does not exist''), store)
      | Some session \<Rightarrow>
          (case require (se_state session = SessionActive) ''pairing session is not active'' of
             Inl e \<Rightarrow> (Inl e, store)
           | Inr _ \<Rightarrow> (Inr (), bt_insert session_id (session\<lparr>se_state := SessionCancelled\<rparr>) store)))"

text \<open>Both ways of consuming a session look it up, check that it is active and its
  invitation valid, then check the answer and mark the session.\<close>

definition consume_with ::
  "companion_env \<Rightarrow> session_store \<Rightarrow> string \<Rightarrow> bytes32 \<Rightarrow> relay_allowlist \<Rightarrow> instant
     \<Rightarrow> (pairing_session \<Rightarrow> 'a companion_result) \<Rightarrow> 'a companion_result \<times> session_store" where
  "consume_with E store session_id trusted_studio_signing_key allowlist now answer =
     (case bt_get store session_id of
        None \<Rightarrow> (Inl (CompanionInvalid ''pairing session does not exist''), store)
      | Some session \<Rightarrow>
          (case bind_result (require (se_state session = SessionActive)
                  ''pairing session was already used or cancelled'') (\<lambda>_.
                bind_result (invitation_verify E (se_invitation session) trusted_studio_signing_key allowlist now) (\<lambda>_.
                  answer session)) of
             Inl e \<Rightarrow> (Inl e, store)
           | Inr x \<Rightarrow> (Inr x, bt_insert session_id (session\<lparr>se_state := SessionConsumed\<rparr>) store)))"

definition consume ::
  "companion_env \<Rightarrow> session_store \<Rightarrow> string \<Rightarrow> pairing_proof \<Rightarrow> bytes32 \<Rightarrow> relay_allowlist \<Rightarrow> instant
     \<Rightarrow> proof_body companion_result \<times> session_store" where
  "consume E store session_id p trusted_studio_signing_key allowlist now =
     consume_with E store session_id trusted_studio_signing_key allowlist now (\<lambda>session.
       bind_result (proof_verify E p (se_invitation session) (se_ephemeral_secret session) now) (\<lambda>_.
         Inr (pp_body p)))"

definition consume_encrypted ::
  "companion_env \<Rightarrow> (byte list \<Rightarrow> string + response_body) \<Rightarrow> session_store \<Rightarrow> string \<Rightarrow> encrypted_response
     \<Rightarrow> bytes32 \<Rightarrow> relay_allowlist \<Rightarrow> instant \<Rightarrow> response_body companion_result \<times> session_store" where
  "consume_encrypted E parse store session_id response trusted_studio_signing_key allowlist now =
     consume_with E store session_id trusted_studio_signing_key allowlist now (\<lambda>session.
       bind_result (response_open E parse response (se_invitation session) (se_ephemeral_secret session)) (\<lambda>body.
       bind_result (proof_verify E (rb_proof body) (se_invitation session) (se_ephemeral_secret session) now) (\<lambda>_.
         Inr body)))"

section \<open>An accepted proof\<close>

text \<open>
  A proof for an invitation, confirmed against the ephemeral secret of its session: it names
  the invitation, its device identifier is that of the two keys, the device signed it, and
  it shows possession of the agreement key.
\<close>

definition proof_genuine :: "companion_env \<Rightarrow> pairing_proof \<Rightarrow> pairing_invitation \<Rightarrow> bytes32 \<Rightarrow> bool" where
  "proof_genuine E p i secret \<longleftrightarrow>
     (let b = pp_body p in
      \<exists>digest signing_key agreement_key bytes key.
        invitation_digest E i = Inr digest \<and> pb_invitation_digest b = base64url E (to_be_bytes digest)
        \<and> pb_session_id b = ib_session_id (pi_body i) \<and> pb_workspace_id b = ib_workspace_id (pi_body i)
        \<and> pb_companion_device_id b = device_id_from_public_keys E signing_key agreement_key
        \<and> signed_document E signing_key PAIRING_PROOF_SIGNATURE_DOMAIN (JObj (proof_members b)) (pp_signature p)
        \<and> to_vec E (JObj (proof_members b)) = Inr bytes
        \<and> derive_key E (cx_diffie_hellman E secret agreement_key) (to_be_bytes digest) PAIRING_CONFIRMATION_DOMAIN = Inr key
        \<and> pp_key_confirmation p
            = base64url E (to_be_bytes (hmac_sha256 E (to_be_bytes key) PAIRING_CONFIRMATION_DOMAIN bytes)))"

lemma proof_verify_genuine:
  assumes "proof_verify E p i secret now = Inr ()"
  shows "proof_genuine E p i secret"
proof -
  let ?b = "pp_body p"
  obtain digest signing_key agreement_key bytes signature shared key confirmation where p:
    "invitation_digest E i = Inr digest" "pb_invitation_digest ?b = base64url E (to_be_bytes digest)"
    "pb_session_id ?b = ib_session_id (pi_body i)" "pb_workspace_id ?b = ib_workspace_id (pi_body i)"
    "pb_companion_device_id ?b = device_id_from_public_keys E signing_key agreement_key"
    "to_vec E (JObj (proof_members ?b)) = Inr bytes"
    "decode_array E ''pairing proof signature'' (pp_signature p) = Inr signature"
    "identity_verify E signing_key PAIRING_PROOF_SIGNATURE_DOMAIN bytes signature = Inr ()"
    "x25519 E secret agreement_key = Inr shared"
    "derive_key E shared (to_be_bytes digest) PAIRING_CONFIRMATION_DOMAIN = Inr key"
    "decode_array E ''pairing key confirmation'' (pp_key_confirmation p) = Inr confirmation"
    "verify_hmac_sha256 E (to_be_bytes key) PAIRING_CONFIRMATION_DOMAIN bytes confirmation = Inr ()"
    using assms by (auto simp: proof_verify_def Let_def)
  have "pp_key_confirmation p = base64url E (to_be_bytes confirmation)"
    by (rule decode_array_base64url [OF _ p(11)]) simp
  moreover have "shared = cx_diffie_hellman E secret agreement_key"
    using p(9) by (auto simp: x25519_def Let_def)
  moreover have "hmac_sha256 E (to_be_bytes key) PAIRING_CONFIRMATION_DOMAIN bytes = confirmation"
    using p(12) by (simp add: verify_hmac_sha256_def hmac_sha256_def)
  moreover have "signed_document E signing_key PAIRING_PROOF_SIGNATURE_DOMAIN (JObj (proof_members ?b)) (pp_signature p)"
    using p(6-8) by (rule signed_documentI)
  ultimately show ?thesis using p(1-6,10) unfolding proof_genuine_def Let_def by blast
qed

lemma consume_with_Inr:
  "consume_with E store sid key allowlist now answer = (Inr x, store') \<longleftrightarrow>
     (\<exists>session. bt_get store sid = Some session \<and> se_state session = SessionActive
        \<and> invitation_verify E (se_invitation session) key allowlist now = Inr ()
        \<and> answer session = Inr x \<and> store' = bt_insert sid (session\<lparr>se_state := SessionConsumed\<rparr>) store)"
  by (auto simp: consume_with_def split: option.splits sum.splits)

section \<open>One use\<close>

datatype pairing_op =
    PairCreate session_terms transport_identity relay_allowlist "144 word" bytes32
  | PairRegister string session_terms transport_identity relay_allowlist bytes32
  | PairCancel string
  | PairConsume string pairing_proof bytes32 relay_allowlist instant
  | PairConsumeEncrypted string encrypted_response bytes32 relay_allowlist instant

datatype pairing_answer =
    AnswerInvitation "pairing_invitation companion_result"
  | AnswerCancelled "unit companion_result"
  | AnswerProof "proof_body companion_result"
  | AnswerResponse "response_body companion_result"

fun pairing_step ::
  "companion_env \<Rightarrow> (byte list \<Rightarrow> string + response_body) \<Rightarrow> session_store \<Rightarrow> pairing_op
     \<Rightarrow> pairing_answer \<times> session_store" where
  "pairing_step E parse store (PairCreate terms studio allowlist random secret) =
     map_prod AnswerInvitation id (session_create E store terms studio allowlist random secret)"
| "pairing_step E parse store (PairRegister sid terms studio allowlist secret) =
     map_prod AnswerInvitation id (register_relay_session E store sid terms studio allowlist secret)"
| "pairing_step E parse store (PairCancel sid) = map_prod AnswerCancelled id (session_cancel store sid)"
| "pairing_step E parse store (PairConsume sid p key allowlist now) =
     map_prod AnswerProof id (consume E store sid p key allowlist now)"
| "pairing_step E parse store (PairConsumeEncrypted sid response key allowlist now) =
     map_prod AnswerResponse id (consume_encrypted E parse store sid response key allowlist now)"

text \<open>The session an answer pairs, if it does.\<close>

fun paired :: "pairing_op \<Rightarrow> pairing_answer \<Rightarrow> bool" where
  "paired _ (AnswerProof r) = is_ok r"
| "paired _ (AnswerResponse r) = is_ok r"
| "paired _ _ = False"

fun op_session :: "pairing_op \<Rightarrow> string" where
  "op_session (PairRegister sid _ _ _ _) = sid"
| "op_session (PairCancel sid) = sid"
| "op_session (PairConsume sid _ _ _ _) = sid"
| "op_session (PairConsumeEncrypted sid _ _ _ _) = sid"
| "op_session (PairCreate _ _ _ _ _) = []"

definition session_spent :: "session_store \<Rightarrow> string \<Rightarrow> bool" where
  "session_spent store sid \<longleftrightarrow> (\<exists>s. bt_get store sid = Some s \<and> se_state s \<noteq> SessionActive)"

lemma session_spent_insert:
  "session_spent (bt_insert sid s store) k \<longleftrightarrow>
     (if k = sid then se_state s \<noteq> SessionActive else session_spent store k)"
  by (simp add: session_spent_def bt_get_insert)

lemma not_spentI: "bt_get store sid = None \<Longrightarrow> \<not> session_spent store sid"
  by (simp add: session_spent_def)

lemma insert_keeps_spent:
  assumes "insert_with_secret E store sid terms studio secret = (r, store')" "session_spent store k"
  shows "session_spent store' k"
proof -
  have "store' = store \<or> bt_get store sid = None \<and> (\<exists>s. store' = bt_insert sid s store)"
    using assms(1) by (auto simp: insert_with_secret_def bt_contains_key_def split: sum.splits)
  with assms(2) not_spentI show ?thesis by (auto simp: session_spent_insert)
qed

lemma create_keeps_spent:
  "session_create E store terms studio allowlist random secret = (r, store') \<Longrightarrow> session_spent store k \<Longrightarrow> session_spent store' k"
  "register_relay_session E store sid terms studio allowlist secret = (r', store') \<Longrightarrow> session_spent store k \<Longrightarrow> session_spent store' k"
  by (auto simp: session_create_def register_relay_session_def split: sum.splits intro: insert_keeps_spent)

lemma cancel_keeps_spent: "session_cancel store sid = (r, store') \<Longrightarrow> session_spent store k \<Longrightarrow> session_spent store' k"
  by (auto simp: session_cancel_def session_spent_insert split: option.splits sum.splits)

lemma consume_with_spent:
  assumes "consume_with E store sid key allowlist now answer = (r, store')"
  shows "session_spent store k \<Longrightarrow> session_spent store' k"
    and "is_ok r \<Longrightarrow> \<not> session_spent store sid \<and> session_spent store' sid"
proof -
  show "session_spent store k \<Longrightarrow> session_spent store' k"
    using assms by (auto simp: consume_with_def session_spent_insert split: option.splits sum.splits)
  show "is_ok r \<Longrightarrow> \<not> session_spent store sid \<and> session_spent store' sid"
    using assms by (auto simp: consume_with_Inr session_spent_insert) (simp add: session_spent_def)
qed

lemma pairing_step_paired:
  assumes "pairing_step E parse store op = (a, store')" "paired op a"
  obtains p key allowlist now where "op = PairConsume (op_session op) p key allowlist now"
      "consume E store (op_session op) p key allowlist now = (Inr (pp_body p), store')"
    | response body key allowlist now where "op = PairConsumeEncrypted (op_session op) response key allowlist now"
      "consume_encrypted E parse store (op_session op) response key allowlist now = (Inr body, store')"
proof (cases op)
  case (PairConsume sid p key allowlist now)
  then obtain r where r: "consume E store sid p key allowlist now = (Inr r, store')"
    using assms by (cases "consume E store sid p key allowlist now") auto
  then have "r = pp_body p" by (auto simp: consume_def consume_with_Inr)
  with r PairConsume that(1) show thesis by simp
next
  case (PairConsumeEncrypted sid response key allowlist now)
  then show thesis
    using assms that(2) by (cases "consume_encrypted E parse store sid response key allowlist now") auto
qed (use assms in \<open>auto simp: map_prod_def split: prod.splits\<close>)

interpretation sessions: once_only "pairing_step E parse" paired op_session session_spent
proof
  fix s i r s' t
  assume step: "pairing_step E parse s i = (r, s')"
  show "session_spent s t \<Longrightarrow> session_spent s' t"
    using step
    by (cases i) (auto simp: map_prod_def consume_def consume_encrypted_def split: prod.splits
        dest: create_keeps_spent cancel_keeps_spent consume_with_spent(1))
  assume "paired i r"
  with step have "\<not> session_spent s (op_session i) \<and> session_spent s' (op_session i)"
  proof (rule pairing_step_paired)
    fix p key allowlist now
    assume "consume E s (op_session i) p key allowlist now = (Inr (pp_body p), s')"
    then show ?thesis unfolding consume_def by (auto dest: consume_with_spent(2))
  next
    fix response body key allowlist now
    assume "consume_encrypted E parse s (op_session i) response key allowlist now = (Inr body, s')"
    then show ?thesis unfolding consume_encrypted_def by (auto dest: consume_with_spent(2))
  qed
  then show "\<not> session_spent s (op_session i)" "session_spent s' (op_session i)" by simp_all
qed

section \<open>An honest pairing\<close>

lemma invitation_sign_verifies:
  assumes laws: "base64_laws E" "signature_law E" and genuine: "genuine E studio"
    and sign: "invitation_sign E body studio = Inr i" and relay: "ib_relay_id body \<in> allowlist"
    and window: "validate_window E (ib_issued_at body) (ib_expires_at body) now
      PAIRING_INVITATION_LIFETIME_SECONDS MAX_CLOCK_SKEW_SECONDS = Inr ()"
  shows "invitation_verify E i (ti_signing_public_key studio) allowlist now = Inr ()" "pi_body i = body"
proof -
  obtain bytes where i: "invitation_validate_shape E body = Inr ()"
    "ib_studio_signing_public_key body = base64url E (to_be_bytes (ti_signing_public_key studio))"
    "to_vec E (JObj (invitation_members body)) = Inr bytes" "pi_body i = body"
    "pi_signature i = base64url E (to_be_bytes (identity_sign E studio PAIRING_INVITATION_SIGNATURE_DOMAIN bytes))"
    using sign by (auto simp: invitation_sign_def signing_public_key_base64url_def)
  have "decode_array E ''pairing invitation signature'' (pi_signature i)
      = Inr (identity_sign E studio PAIRING_INVITATION_SIGNATURE_DOMAIN bytes)"
    unfolding i(5) by (intro decode_array_encoded laws) simp
  moreover have "decode_array E ''Studio signing public key'' (ib_studio_signing_public_key body)
      = Inr (ti_signing_public_key studio)"
    unfolding i(2) by (intro decode_array_encoded laws) simp
  ultimately show "invitation_verify E i (ti_signing_public_key studio) allowlist now = Inr ()"
    using i relay window verify_signed [OF laws(2) genuine] by (simp add: invitation_verify_def)
  show "pi_body i = body" by (rule i(4))
qed

lemma proof_create_verifies:
  assumes laws: "base64_laws E" "agreement_law E" "signature_law E" and genuine: "genuine E companion"
    and ephemeral: "ib_studio_ephemeral_agreement_public_key (pi_body i) = base64url E (to_be_bytes (cx_agreement_public E secret))"
    and create: "proof_create E i companion name created_at = Inr p"
    and times: "parse_timestamp E created_at = Inr created" "parse_timestamp E (ib_issued_at (pi_body i)) = Inr issued"
      "parse_timestamp E (ib_expires_at (pi_body i)) = Inr expires" "proof_in_window created issued expires now = Inr True"
  shows "proof_verify E p i secret now = Inr ()"
proof -
  have eph: "decode_array E ''Studio ephemeral agreement public key''
      (ib_studio_ephemeral_agreement_public_key (pi_body i)) = Inr (cx_agreement_public E secret)"
    unfolding ephemeral by (intro decode_array_encoded laws) simp
  obtain digest bytes shared key where p: "invitation_digest E i = Inr digest"
    "proof_validate_shape E (pp_body p) = Inr ()" "to_vec E (JObj (proof_members (pp_body p))) = Inr bytes"
    "identity_agree E companion (cx_agreement_public E secret) = Inr shared"
    "derive_key E shared (to_be_bytes digest) PAIRING_CONFIRMATION_DOMAIN = Inr key"
    "pp_key_confirmation p = base64url E (to_be_bytes (hmac_sha256 E (to_be_bytes key) PAIRING_CONFIRMATION_DOMAIN bytes))"
    "pp_signature p = base64url E (to_be_bytes (identity_sign E companion PAIRING_PROOF_SIGNATURE_DOMAIN bytes))"
    and b: "pb_session_id (pp_body p) = ib_session_id (pi_body i)" "pb_workspace_id (pp_body p) = ib_workspace_id (pi_body i)"
    "pb_invitation_digest (pp_body p) = base64url E (to_be_bytes digest)" "pb_companion_device_id (pp_body p) = ti_device_id companion"
    "pb_companion_signing_public_key (pp_body p) = base64url E (to_be_bytes (ti_signing_public_key companion))"
    "pb_companion_agreement_public_key (pp_body p) = base64url E (to_be_bytes (ti_agreement_public_key companion))"
    "pb_created_at (pp_body p) = created_at"
    using create eph by (auto simp: proof_create_def Let_def signing_public_key_base64url_def agreement_public_key_base64url_def)
  have decoded: "decode_array E ''companion signing public key'' (pb_companion_signing_public_key (pp_body p)) = Inr (ti_signing_public_key companion)"
    "decode_array E ''companion agreement public key'' (pb_companion_agreement_public_key (pp_body p)) = Inr (ti_agreement_public_key companion)"
    "decode_array E ''pairing proof signature'' (pp_signature p) = Inr (identity_sign E companion PAIRING_PROOF_SIGNATURE_DOMAIN bytes)"
    "decode_array E ''pairing key confirmation'' (pp_key_confirmation p) = Inr (hmac_sha256 E (to_be_bytes key) PAIRING_CONFIRMATION_DOMAIN bytes)"
    unfolding b p(6,7) by (intro decode_array_encoded laws; simp)+
  have "x25519 E secret (ti_agreement_public_key companion) = Inr shared"
    using agree_symmetric [OF laws(2) genuine] p(4) by simp
  then show ?thesis
    using p b times decoded verify_signed [OF laws(3) genuine] genuine
    by (simp add: proof_verify_def Let_def genuine_def verify_hmac_sha256_def hmac_sha256_def)
qed

text \<open>A session opened for a workspace pairs with the honest proof of its invitation.\<close>

lemma insert_with_secret_Inr:
  "insert_with_secret E store sid terms studio secret = (Inr i, store') \<Longrightarrow>
     bt_get store sid = None \<and> (\<exists>body. invitation_sign E body studio = Inr i \<and> ib_session_id body = sid
       \<and> ib_relay_id body = sn_relay_id terms \<and> ib_issued_at body = sn_issued_at terms
       \<and> ib_expires_at body = sn_expires_at terms
       \<and> ib_studio_ephemeral_agreement_public_key body = base64url E (to_be_bytes (cx_agreement_public E secret)))
     \<and> store' = bt_insert sid \<lparr>se_invitation = i, se_ephemeral_secret = secret, se_state = SessionActive\<rparr> store"
  by (auto simp: insert_with_secret_def bt_contains_key_def split: sum.splits)

lemma consume_spent_refused:
  assumes "session_spent store sid"
  shows "fst (consume E store sid p key allowlist now) \<noteq> Inr x"
proof
  assume "fst (consume E store sid p key allowlist now) = Inr x"
  then obtain store' where "consume E store sid p key allowlist now = (Inr x, store')"
    by (cases "consume E store sid p key allowlist now") simp
  then have "\<not> session_spent store sid" unfolding consume_def by (auto dest: consume_with_spent(2))
  with assms show False by contradiction
qed

definition paired_sessions :: "(pairing_op \<times> pairing_answer) list \<Rightarrow> string list" where
  "paired_sessions answers = map (\<lambda>a. op_session (fst a)) (filter (\<lambda>a. paired (fst a) (snd a)) answers)"

fun accepted_proof :: "pairing_op \<Rightarrow> pairing_answer \<Rightarrow> pairing_proof option" where
  "accepted_proof (PairConsume _ p _ _ _) (AnswerProof (Inr _)) = Some p"
| "accepted_proof _ (AnswerResponse (Inr body)) = Some (rb_proof body)"
| "accepted_proof _ _ = None"

lemma paired_genuine:
  assumes "pairing_step E parse store op = (a, store')" "paired op a"
  shows "\<exists>p i secret. accepted_proof op a = Some p \<and> proof_genuine E p i secret \<and> pb_session_id (pp_body p) = ib_session_id (pi_body i)"
  using assms
proof (rule pairing_step_paired)
  fix p key allowlist now
  assume op: "op = PairConsume (op_session op) p key allowlist now"
    and consume: "consume E store (op_session op) p key allowlist now = (Inr (pp_body p), store')"
  have "a = AnswerProof (Inr (pp_body p))"
    using assms(1) consume by (subst (asm) op) simp
  then have "accepted_proof op a = Some p" by (subst op) simp
  moreover obtain session :: pairing_session where "proof_verify E p (se_invitation session) (se_ephemeral_secret session) now = Inr ()"
    using consume by (auto simp: consume_def consume_with_Inr)
  ultimately show ?thesis using proof_verify_genuine by (fastforce simp: proof_genuine_def Let_def)
next
  fix response body key allowlist now
  assume op: "op = PairConsumeEncrypted (op_session op) response key allowlist now"
    and consume: "consume_encrypted E parse store (op_session op) response key allowlist now = (Inr body, store')"
  have "a = AnswerResponse (Inr body)"
    using assms(1) consume by (subst (asm) op) simp
  then have "accepted_proof op a = Some (rb_proof body)" by simp
  moreover obtain session :: pairing_session where "proof_verify E (rb_proof body) (se_invitation session) (se_ephemeral_secret session) now = Inr ()"
    using consume by (auto simp: consume_encrypted_def consume_with_Inr)
  ultimately show ?thesis using proof_verify_genuine by (fastforce simp: proof_genuine_def Let_def)
qed


text \<open>C15: A session opened for a workspace pairs with the proof that an honest device makes of its
  invitation, at every time of the invitation's window over an allowed relay; afterwards the
  session is consumed and refuses every other proof.\<close>

theorem pairing_completes:
  assumes laws: "base64_laws E" "agreement_law E" "signature_law E"
    and genuine: "genuine E studio" "genuine E companion"
    and opened: "insert_with_secret E store sid terms studio secret = (Inr i, store1)"
    and create: "proof_create E i companion name created_at = Inr p"
    and relay: "sn_relay_id terms \<in> allowlist"
    and window: "validate_window E (sn_issued_at terms) (sn_expires_at terms) now
      PAIRING_INVITATION_LIFETIME_SECONDS MAX_CLOCK_SKEW_SECONDS = Inr ()"
    and times: "parse_timestamp E created_at = Inr created" "parse_timestamp E (sn_issued_at terms) = Inr issued"
      "parse_timestamp E (sn_expires_at terms) = Inr expires" "proof_in_window created issued expires now = Inr True"
  shows "\<exists>store2. consume E store1 sid p (ti_signing_public_key studio) allowlist now = (Inr (pp_body p), store2)
    \<and> session_state store2 sid = Some SessionConsumed
    \<and> (\<forall>p' key relays later x. fst (consume E store2 sid p' key relays later) \<noteq> Inr x)"
proof -
  obtain body where body: "invitation_sign E body studio = Inr i" "ib_relay_id body = sn_relay_id terms"
    "ib_issued_at body = sn_issued_at terms" "ib_expires_at body = sn_expires_at terms"
    "ib_studio_ephemeral_agreement_public_key body = base64url E (to_be_bytes (cx_agreement_public E secret))"
    and store1: "store1 = bt_insert sid \<lparr>se_invitation = i, se_ephemeral_secret = secret, se_state = SessionActive\<rparr> store"
    using insert_with_secret_Inr [OF opened] by blast
  have i: "invitation_verify E i (ti_signing_public_key studio) allowlist now = Inr ()" "pi_body i = body"
    using invitation_sign_verifies [OF laws(1,3) genuine(1) body(1)] relay window body(2-4) by auto
  have "proof_verify E p i secret now = Inr ()"
    by (rule proof_create_verifies [OF laws genuine(2) _ create times(1) _ _ times(4)])
      (simp_all add: i(2) body(3-5) times(2,3))
  let ?store2 = "bt_insert sid \<lparr>se_invitation = i, se_ephemeral_secret = secret, se_state = SessionConsumed\<rparr> store1"
  have consume: "consume E store1 sid p (ti_signing_public_key studio) allowlist now = (Inr (pp_body p), ?store2)"
    using i(1) \<open>proof_verify E p i secret now = Inr ()\<close>
    unfolding consume_def consume_with_Inr by (simp add: store1 bt_get_insert)
  have "session_spent ?store2 sid" by (simp add: session_spent_insert)
  then show ?thesis
    using consume consume_spent_refused by (auto simp: session_state_def bt_get_insert)
qed

end
