(* ===== verification/Companion_Relay.thy ===== *)
theory Companion_Relay
  imports Companion_Envelope Companion_Pairing
begin

text \<open>
  What an endpoint exchanges with the content-blind relay, \<open>companion/src/relay_client.rs\<close>:
  verifiers of bearer capabilities and the validation of every answer. Pages that pass it
  list a mailbox in strictly increasing order without repetition.
\<close>

section \<open>Capabilities\<close>

definition MAX_PAGE_ENVELOPES :: nat where "MAX_PAGE_ENVELOPES = 256"
definition MAX_SAFE_RELAY_INTEGER :: u64 where "MAX_SAFE_RELAY_INTEGER = 9007199254740991"

definition validate_schema :: "string \<Rightarrow> string \<Rightarrow> unit companion_result" where
  "validate_schema actual expected = require (actual = expected) (''unsupported relay schema '' @ actual)"

definition validate_verifier :: "string \<Rightarrow> string \<Rightarrow> unit companion_result" where
  "validate_verifier label v =
     require (length v = 64 \<and> list_all is_lower_hex_char v) (label @ '' must be a lowercase SHA-256 verifier'')"

definition relay_hex :: "byte list \<Rightarrow> string" where
  "relay_hex bytes = concat (map (\<lambda>b. [hex_digit (drop_bit 4 b), hex_digit (and b 15)]) bytes)"

definition capability_verifier :: "companion_env \<Rightarrow> string \<Rightarrow> string companion_result" where
  "capability_verifier E capability =
     bind_result (validate_bearer_capability E capability) (\<lambda>bytes.
       Inr (relay_hex (to_be_bytes (hash E (to_be_bytes bytes)))))"

definition validate_opaque_pairing_response :: "byte list \<Rightarrow> unit companion_result" where
  "validate_opaque_pairing_response bytes =
     require (bytes \<noteq> [] \<and> length bytes \<le> MAX_PAIRING_RESPONSE_BYTES)
       ''opaque pairing response must contain 1..=65536 bytes''"

definition safe_positive :: "u64 \<Rightarrow> bool" where
  "safe_positive n \<longleftrightarrow> 1 \<le> n \<and> n \<le> MAX_SAFE_RELAY_INTEGER"

section \<open>Requests and answers\<close>

record pairing_session_create =
  psc_schema :: string
  psc_expires_at :: string
  psc_read_verifier :: string
  psc_cancel_verifier :: string

definition session_create_validate :: "companion_env \<Rightarrow> pairing_session_create \<Rightarrow> unit companion_result" where
  "session_create_validate E v =
     checks [validate_schema (psc_schema v) ''tohseno.companion-pairing-session-create/1'',
       timestamp_ok E (psc_expires_at v),
       validate_verifier ''pairing read verifier'' (psc_read_verifier v),
       validate_verifier ''pairing cancel verifier'' (psc_cancel_verifier v),
       require (psc_read_verifier v \<noteq> psc_cancel_verifier v) ''pairing read and cancel capabilities must be distinct'']"

record pairing_session_created =
  psd_schema :: string
  psd_session_id :: string
  psd_expires_at :: string

definition session_created_validate :: "companion_env \<Rightarrow> pairing_session_created \<Rightarrow> unit companion_result" where
  "session_created_validate E v =
     checks [validate_schema (psd_schema v) ''tohseno.companion-pairing-session-created/1'',
       validate_identifier ''relay pairing session ID'' (psd_session_id v), timestamp_ok E (psd_expires_at v)]"

record pairing_response_accepted =
  pra_schema :: string
  pra_accepted :: bool
  pra_duplicate :: bool

definition response_accepted_validate :: "pairing_response_accepted \<Rightarrow> unit companion_result" where
  "response_accepted_validate v =
     checks [validate_schema (pra_schema v) ''tohseno.companion-pairing-response-accepted/1'',
       require (pra_accepted v) ''relay rejected the pairing response'']"

record mailbox_create =
  mc_schema :: string
  mc_write_verifier :: string
  mc_read_verifier :: string
  mc_ack_verifier :: string
  mc_revoke_verifier :: string
  mc_push_verifier :: string

definition adjacent_distinct :: "'a list \<Rightarrow> bool" where
  "adjacent_distinct xs \<longleftrightarrow> list_all (\<lambda>(a, b). a \<noteq> b) (zip xs (tl xs))"

definition mailbox_create_validate :: "mailbox_create \<Rightarrow> unit companion_result" where
  "mailbox_create_validate v =
     checks [validate_schema (mc_schema v) ''tohseno.companion-mailbox-create/1'',
       validate_verifier ''mailbox write verifier'' (mc_write_verifier v),
       validate_verifier ''mailbox read verifier'' (mc_read_verifier v),
       validate_verifier ''mailbox acknowledgement verifier'' (mc_ack_verifier v),
       validate_verifier ''mailbox revoke verifier'' (mc_revoke_verifier v),
       validate_verifier ''mailbox push verifier'' (mc_push_verifier v),
       require (adjacent_distinct (sort [mc_write_verifier v, mc_read_verifier v, mc_ack_verifier v,
           mc_revoke_verifier v, mc_push_verifier v])) ''mailbox endpoint capabilities must be distinct'']"

record mailbox_created =
  md_schema :: string
  md_mailbox_id :: string
  md_created_at :: string

definition mailbox_created_validate :: "companion_env \<Rightarrow> mailbox_created \<Rightarrow> unit companion_result" where
  "mailbox_created_validate E v =
     checks [validate_schema (md_schema v) ''tohseno.companion-mailbox-created/1'',
       validate_identifier ''relay mailbox ID'' (md_mailbox_id v), timestamp_ok E (md_created_at v)]"

record envelope_accepted =
  eac_schema :: string
  eac_accepted :: bool
  eac_duplicate :: bool
  eac_cursor :: u64

definition envelope_accepted_validate :: "envelope_accepted \<Rightarrow> unit companion_result" where
  "envelope_accepted_validate v =
     checks [validate_schema (eac_schema v) ''tohseno.companion-envelope-accepted/1'',
       require (eac_accepted v) ''relay rejected the opaque envelope'',
       require (safe_positive (eac_cursor v))
         ''accepted envelope cursor must be a positive cross-language safe integer'']"

record cursor_envelope =
  cen_cursor :: u64
  cen_envelope :: opaque_envelope

record mailbox_page =
  mpg_schema :: string
  mpg_envelopes :: "cursor_envelope list"
  mpg_next_cursor :: u64
  mpg_head_cursor :: u64
  mpg_has_more :: bool

text \<open>The loop over the entries of a page, from the cursor before it.\<close>

fun page_entries ::
  "companion_env \<Rightarrow> string \<Rightarrow> u64 \<Rightarrow> u64 \<Rightarrow> cursor_envelope list \<Rightarrow> unit companion_result" where
  "page_entries E mailbox_id head_cursor previous [] = Inr ()"
| "page_entries E mailbox_id head_cursor previous (entry # entries) =
     checks [require (cen_cursor entry \<le> MAX_SAFE_RELAY_INTEGER)
         ''relay mailbox entry cursor exceeds the cross-language safe integer range'',
       require (previous < cen_cursor entry \<and> cen_cursor entry \<le> head_cursor)
         ''relay mailbox entry cursors are not strictly increasing'',
       require (eh_mailbox_id (oe_header (cen_envelope entry)) = mailbox_id)
         ''mailbox page contains a misrouted envelope'',
       validate_relay_shape E (cen_envelope entry),
       page_entries E mailbox_id head_cursor (cen_cursor entry) entries]"

definition validate_routing ::
  "companion_env \<Rightarrow> mailbox_page \<Rightarrow> string \<Rightarrow> u64 \<Rightarrow> unit companion_result" where
  "validate_routing E page mailbox_id after_cursor =
     checks [validate_schema (mpg_schema page) ''tohseno.companion-mailbox-page/1'',
       validate_identifier ''relay mailbox ID'' mailbox_id,
       require (after_cursor \<le> MAX_SAFE_RELAY_INTEGER \<and> mpg_next_cursor page \<le> MAX_SAFE_RELAY_INTEGER
           \<and> mpg_head_cursor page \<le> MAX_SAFE_RELAY_INTEGER)
         ''relay mailbox cursors exceed the cross-language safe integer range'',
       require (length (mpg_envelopes page) \<le> MAX_PAGE_ENVELOPES) ''relay mailbox page contains too many envelopes'',
       require (after_cursor \<le> mpg_next_cursor page \<and> mpg_next_cursor page \<le> mpg_head_cursor page)
         ''relay mailbox cursors are inconsistent'',
       page_entries E mailbox_id (mpg_head_cursor page) after_cursor (mpg_envelopes page),
       (if mpg_envelopes page = []
        then require (mpg_next_cursor page = after_cursor) ''empty mailbox page advanced its cursor''
        else require (mpg_next_cursor page = cen_cursor (last (mpg_envelopes page)))
          ''next cursor does not match the final mailbox entry''),
       require (mpg_has_more page = (mpg_next_cursor page < mpg_head_cursor page))
         ''mailbox has_more does not match its cursors'']"

record mailbox_reset =
  mr_schema :: string
  mr_reset_required :: bool
  mr_reset_before_cursor :: u64
  mr_head_cursor :: u64

definition mailbox_reset_validate :: "mailbox_reset \<Rightarrow> unit companion_result" where
  "mailbox_reset_validate v =
     checks [validate_schema (mr_schema v) ''tohseno.companion-mailbox-reset-required/1'',
       require (mr_reset_required v) ''mailbox reset response is inconsistent'',
       require (mr_reset_before_cursor v \<le> mr_head_cursor v) ''mailbox reset cursor exceeds the head cursor'',
       require (mr_head_cursor v \<le> MAX_SAFE_RELAY_INTEGER)
         ''mailbox reset cursors exceed the cross-language safe integer range'']"

record mailbox_ack =
  mk_schema :: string
  mk_cursor :: u64

definition mailbox_ack_validate :: "mailbox_ack \<Rightarrow> unit companion_result" where
  "mailbox_ack_validate v =
     checks [validate_schema (mk_schema v) ''tohseno.companion-mailbox-ack/1'',
       require (safe_positive (mk_cursor v))
         ''mailbox acknowledgement cursor must be a positive cross-language safe integer'']"

record mailbox_acknowledged =
  mad_schema :: string
  mad_acknowledged_cursor :: u64

definition mailbox_acknowledged_validate :: "mailbox_acknowledged \<Rightarrow> unit companion_result" where
  "mailbox_acknowledged_validate v =
     checks [validate_schema (mad_schema v) ''tohseno.companion-mailbox-acknowledged/1'',
       require (safe_positive (mad_acknowledged_cursor v))
         ''acknowledged cursor must be a positive cross-language safe integer'']"

record mailbox_revoked =
  mv_schema :: string
  mv_revoked :: bool
  mv_revocation_epoch :: u64

definition mailbox_revoked_validate :: "mailbox_revoked \<Rightarrow> unit companion_result" where
  "mailbox_revoked_validate v =
     checks [validate_schema (mv_schema v) ''tohseno.companion-mailbox-revoked/1'',
       require (mv_revoked v) ''mailbox revocation response is inconsistent'',
       require (safe_positive (mv_revocation_epoch v))
         ''mailbox revocation epoch must be a positive cross-language safe integer'']"

record push_register =
  pur_schema :: string
  pur_mailbox_id :: string
  pur_device_id :: string
  pur_apns_token :: string

definition push_register_validate :: "push_register \<Rightarrow> unit companion_result" where
  "push_register_validate v =
     checks [validate_schema (pur_schema v) ''tohseno.companion-push-register/1'',
       validate_identifier ''push mailbox ID'' (pur_mailbox_id v),
       validate_identifier ''push device ID'' (pur_device_id v),
       validate_text ''opaque APNs token'' (pur_apns_token v) 512]"

record push_unregister =
  puu_schema :: string
  puu_mailbox_id :: string

definition push_unregister_validate :: "push_unregister \<Rightarrow> unit companion_result" where
  "push_unregister_validate v =
     checks [validate_schema (puu_schema v) ''tohseno.companion-push-unregister/1'',
       validate_identifier ''push mailbox ID'' (puu_mailbox_id v)]"

record relay_health =
  rhe_schema :: string
  rhe_service_version :: string
  rhe_ready :: bool
  rhe_push_enabled :: bool
  rhe_maximum_envelope_bytes :: u64
  rhe_retention_seconds :: u64

definition relay_health_validate :: "relay_health \<Rightarrow> unit companion_result" where
  "relay_health_validate v =
     checks [validate_schema (rhe_schema v) ''tohseno.companion-relay-health/1'',
       validate_text ''relay service version'' (rhe_service_version v) 64,
       require (0 < rhe_maximum_envelope_bytes v \<and> 0 < rhe_retention_seconds v)
         ''relay health limits must be positive'']"

section \<open>Reading a mailbox\<close>

lemma page_entries_sorted:
  "page_entries E mailbox_id head_cursor previous entries = Inr u \<Longrightarrow>
     sorted_wrt (<) (previous # map cen_cursor entries)
     \<and> (\<forall>e \<in> set entries. cen_cursor e \<le> head_cursor \<and> eh_mailbox_id (oe_header (cen_envelope e)) = mailbox_id
          \<and> validate_relay_shape E (cen_envelope e) = Inr ())"
proof (induction entries arbitrary: previous)
  case (Cons e es)
  then have "sorted_wrt (<) (cen_cursor e # map cen_cursor es)" "previous < cen_cursor e"
    by (auto simp del: sorted_wrt.simps)
  then have "sorted_wrt (<) (previous # cen_cursor e # map cen_cursor es)" by (auto intro: order.strict_trans)
  then show ?case using Cons by auto
qed simp

text \<open>Pages read one after the other, each from the cursor the previous one ended with.\<close>

fun pages_from :: "companion_env \<Rightarrow> string \<Rightarrow> u64 \<Rightarrow> mailbox_page list \<Rightarrow> bool" where
  "pages_from E mailbox_id after [] \<longleftrightarrow> True"
| "pages_from E mailbox_id after (page # pages) \<longleftrightarrow>
     validate_routing E page mailbox_id after = Inr () \<and> pages_from E mailbox_id (mpg_next_cursor page) pages"

definition page_cursors :: "mailbox_page list \<Rightarrow> u64 list" where
  "page_cursors pages = map cen_cursor (concat (map mpg_envelopes pages))"

lemma page_last: "validate_routing E page mailbox_id after = Inr u \<Longrightarrow>
    last (after # map cen_cursor (mpg_envelopes page)) = mpg_next_cursor page"
  by (auto simp: validate_routing_def last_map split: if_splits)

lemma sorted_wrt_less_last:
  fixes xs :: "'a::linorder list"
  assumes "sorted_wrt (<) xs" "x \<in> set xs"
  shows "x \<le> last xs"
  using assms by (induction xs) (auto split: if_splits intro: less_imp_le)

lemma pages_sorted:
  "pages_from E mailbox_id after pages \<Longrightarrow> sorted_wrt (<) (after # page_cursors pages)
     \<and> last (after # page_cursors pages) = (if pages = [] then after else mpg_next_cursor (last pages))"
proof (induction pages arbitrary: after)
  case (Cons page pages)
  let ?here = "map cen_cursor (mpg_envelopes page)"
  have valid: "validate_routing E page mailbox_id after = Inr ()" using Cons.prems by simp
  have here: "sorted_wrt (<) (after # ?here)"
    using page_entries_sorted valid by (fastforce simp: validate_routing_def simp del: sorted_wrt.simps)
  have IH: "sorted_wrt (<) (mpg_next_cursor page # page_cursors pages)"
    "last (mpg_next_cursor page # page_cursors pages) = (if pages = [] then mpg_next_cursor page else mpg_next_cursor (last pages))"
    using Cons by auto
  have cursors: "page_cursors (page # pages) = ?here @ page_cursors pages" by (simp add: page_cursors_def)
  have before: "x \<le> mpg_next_cursor page" if "x \<in> set (after # ?here)" for x
    using sorted_wrt_less_last [OF here that] page_last [OF valid] by simp
  have "sorted_wrt (<) ((after # ?here) @ page_cursors pages)"
    unfolding sorted_wrt_append using here IH(1) before by (auto intro: order.strict_trans1)
  moreover have "last ((after # ?here) @ page_cursors pages) = last (mpg_next_cursor page # page_cursors pages)"
    using page_last [OF valid] by (auto simp: last_append)
  ultimately show ?case using IH(2) unfolding cursors by simp
qed (simp add: page_cursors_def)

text \<open>Pages of a mailbox that pass their validation, each read from the cursor the previous one ended
  with, list its envelopes in strictly increasing order without repetition, above the
  starting cursor; each envelope is of the mailbox and well formed, the last cursor is
  the next starting point, and reading is complete when a page announces no more.\<close>

lemma mailbox_pages_ordered:
  assumes "pages_from E mailbox_id after pages" "pages \<noteq> []"
  shows "sorted_wrt (<) (after # page_cursors pages)
    \<and> last (after # page_cursors pages) = mpg_next_cursor (last pages)
    \<and> (\<forall>page \<in> set pages. \<forall>e \<in> set (mpg_envelopes page).
        eh_mailbox_id (oe_header (cen_envelope e)) = mailbox_id \<and> validate_relay_shape E (cen_envelope e) = Inr ())
    \<and> (mpg_has_more (last pages) \<longleftrightarrow> mpg_next_cursor (last pages) \<noteq> mpg_head_cursor (last pages))"
proof -
  have valid: "\<exists>c. validate_routing E page mailbox_id c = Inr ()" if "page \<in> set pages" for page
    using assms(1) that by (induction pages arbitrary: after) auto
  have "eh_mailbox_id (oe_header (cen_envelope e)) = mailbox_id \<and> validate_relay_shape E (cen_envelope e) = Inr ()"
    if "page \<in> set pages" "e \<in> set (mpg_envelopes page)" for page e
    using valid [OF that(1)] that(2) page_entries_sorted by (fastforce simp: validate_routing_def)
  moreover have "mpg_has_more (last pages) \<longleftrightarrow> mpg_next_cursor (last pages) \<noteq> mpg_head_cursor (last pages)"
    using valid [of "last pages"] assms(2) by (auto simp: validate_routing_def)
  ultimately show ?thesis using pages_sorted [OF assms(1)] assms(2) by simp
qed

end
