(* ===== verification/Companion_Blobs.thy ===== *)
theory Companion_Blobs
  imports Companion_Command
begin

text \<open>
  Images that travel inside envelopes: icons (\<open>companion/src/icon.rs\<close>), references and their
  transport chunks (\<open>companion/src/reference.rs\<close>), and the icon descriptor of
  \<open>snapshot.rs\<close>. The two JPEG readers agree; the chunks of a reference, in any order and
  with repetitions, reassemble to it.
\<close>

section \<open>Image headers\<close>

definition byte_at :: "byte list \<Rightarrow> nat \<Rightarrow> byte option" where
  "byte_at bytes i = (if i < length bytes then Some (bytes ! i) else None)"

definition PNG_SIGNATURE :: "byte list" where
  "PNG_SIGNATURE = [0x89, 0x50, 0x4e, 0x47, 0x0d, 0x0a, 0x1a, 0x0a]"

definition u32_at :: "nat \<Rightarrow> byte list \<Rightarrow> u32" where
  "u32_at i bytes = from_be_bytes (take 4 (drop i bytes))"

definition png_dimensions :: "byte list \<Rightarrow> (u32 \<times> u32) option" where
  "png_dimensions bytes =
     (if length bytes < 24 \<or> take 8 bytes \<noteq> PNG_SIGNATURE \<or> u32_at 8 bytes \<noteq> 13
         \<or> take 4 (drop 12 bytes) \<noteq> str_bytes ''IHDR'' then None
      else Some (u32_at 16 bytes, u32_at 20 bytes))"

definition valid_png_header :: "byte list \<Rightarrow> bool" where
  "valid_png_header bytes \<longleftrightarrow> 24 \<le> length bytes \<and> take 8 bytes = PNG_SIGNATURE \<and> u32_at 8 bytes = 13
     \<and> take 4 (drop 12 bytes) = str_bytes ''IHDR'' \<and> 0 < u32_at 16 bytes \<and> 0 < u32_at 20 bytes"

text \<open>The inner loop over fill bytes, common to both readers.\<close>

function skip_fill :: "byte list \<Rightarrow> nat \<Rightarrow> nat" where
  "skip_fill bytes offset =
     (if offset < length bytes \<and> bytes ! offset = 0xff then skip_fill bytes (offset + 1) else offset)"
  by pat_completeness auto
termination
  by (relation "measure (\<lambda>(bytes, offset). length bytes - offset)") auto

declare skip_fill.simps [simp del]

lemma skip_fill_ge: "offset \<le> skip_fill bytes offset"
proof (induction bytes offset rule: skip_fill.induct)
  case (1 bytes offset)
  then show ?case by (subst skip_fill.simps) auto
qed

definition frame_marker :: "byte \<Rightarrow> bool" where
  "frame_marker marker \<longleftrightarrow> marker \<in> {0xc0, 0xc1, 0xc2, 0xc3, 0xc5, 0xc6, 0xc7, 0xc9, 0xca, 0xcb, 0xcd, 0xce, 0xcf}"

definition be16 :: "byte \<Rightarrow> byte \<Rightarrow> nat" where
  "be16 high low = unat high * 256 + unat low"

text \<open>\<open>jpeg_dimensions\<close> of \<open>icon.rs\<close>, from an offset; \<open>?\<close> is the option bind.\<close>

function jpeg_dimensions_from :: "byte list \<Rightarrow> nat \<Rightarrow> (u32 \<times> u32) option" where
  "jpeg_dimensions_from bytes start =
     (if length bytes \<le> start then None
      else if bytes ! start \<noteq> 0xff then None
      else
       (let at = skip_fill bytes start in
        Option.bind (byte_at bytes at) (\<lambda>marker.
        let offset = at + 1 in
        if marker = 0 \<or> marker = 0xd9 \<or> marker = 0xda then None
        else if marker = 1 \<or> 0xd0 \<le> marker \<and> marker \<le> 0xd8 then jpeg_dimensions_from bytes offset
        else
          Option.bind (byte_at bytes offset) (\<lambda>high.
          Option.bind (byte_at bytes (offset + 1)) (\<lambda>low.
          let segment_length = be16 high low; segment_start = offset + 2; segment_end = offset + segment_length in
          if segment_length < 2 then None
          else if length bytes < segment_end then None
          else if frame_marker marker then
            (if segment_length < 7 then None
             else
              Option.bind (byte_at bytes (segment_start + 1)) (\<lambda>h1.
              Option.bind (byte_at bytes (segment_start + 2)) (\<lambda>h2.
              Option.bind (byte_at bytes (segment_start + 3)) (\<lambda>w1.
              Option.bind (byte_at bytes (segment_start + 4)) (\<lambda>w2.
                Some (of_nat (be16 w1 w2), of_nat (be16 h1 h2)))))))
          else jpeg_dimensions_from bytes segment_end)))))"
  by pat_completeness auto
termination
  by (relation "measure (\<lambda>(bytes, offset). length bytes - offset)")
    (auto simp: byte_at_def le_imp_less_Suc skip_fill_ge trans_le_add1
      intro!: diff_less_mono2 split: if_splits)

text \<open>\<open>valid_jpeg_header\<close> of \<open>reference.rs\<close>, from an offset.\<close>

function valid_jpeg_from :: "byte list \<Rightarrow> nat \<Rightarrow> bool" where
  "valid_jpeg_from bytes start =
     (if length bytes \<le> start then False
      else if bytes ! start \<noteq> 0xff then False
      else
       (let at = skip_fill bytes start in
        case byte_at bytes at of
          None \<Rightarrow> False
        | Some marker \<Rightarrow>
           (let offset = at + 1 in
            if marker = 0 \<or> marker = 0xd9 \<or> marker = 0xda then False
            else if marker = 1 \<or> 0xd0 \<le> marker \<and> marker \<le> 0xd8 then valid_jpeg_from bytes offset
            else
             (case (byte_at bytes offset, byte_at bytes (offset + 1)) of
                (Some high, Some low) \<Rightarrow>
                  (let len = be16 high low in
                   if len < 2 \<or> length bytes < offset + len then False
                   else if frame_marker marker then
                     (let start = offset + 2 in
                      if len < 7 \<or> length bytes \<le> start + 4 then False
                      else 0 < be16 (bytes ! (start + 3)) (bytes ! (start + 4))
                         \<and> 0 < be16 (bytes ! (start + 1)) (bytes ! (start + 2)))
                   else valid_jpeg_from bytes (offset + len))
              | _ \<Rightarrow> False))))"
  by pat_completeness auto
termination
  by (relation "measure (\<lambda>(bytes, offset). length bytes - offset)")
    (auto simp: byte_at_def le_imp_less_Suc skip_fill_ge trans_le_add1
      intro!: diff_less_mono2 split: if_splits)

declare jpeg_dimensions_from.simps [simp del] valid_jpeg_from.simps [simp del]

definition jpeg_dimensions :: "byte list \<Rightarrow> (u32 \<times> u32) option" where
  "jpeg_dimensions bytes =
     (if length bytes < 4 \<or> take 2 bytes \<noteq> [0xff, 0xd8] then None else jpeg_dimensions_from bytes 2)"

definition valid_jpeg_header :: "byte list \<Rightarrow> bool" where
  "valid_jpeg_header bytes \<longleftrightarrow> \<not> (length bytes < 4 \<or> take 2 bytes \<noteq> [0xff, 0xd8]) \<and> valid_jpeg_from bytes 2"

definition positive_dimensions :: "(u32 \<times> u32) option \<Rightarrow> bool" where
  "positive_dimensions d \<longleftrightarrow> (\<exists>w h. d = Some (w, h) \<and> 0 < w \<and> 0 < h)"

lemma positive_dimensions_simps [simp]:
  "\<not> positive_dimensions None" "positive_dimensions (Some (w, h)) \<longleftrightarrow> 0 < w \<and> 0 < h"
  by (auto simp: positive_dimensions_def)

lemma be16_less: "be16 high low < 65536"
proof -
  have "unat high < 256" "unat low < 256" using unsigned_less [of high] unsigned_less [of low] by simp_all
  then show ?thesis by (simp add: be16_def)
qed

lemma be16_positive: "0 < (of_nat (be16 high low) :: u32) \<longleftrightarrow> 0 < be16 high low"
  using be16_less [of high low] by (simp add: word_less_nat_alt unat_of_nat)

lemma jpeg_readers_agree: "valid_jpeg_from bytes start \<longleftrightarrow> positive_dimensions (jpeg_dimensions_from bytes start)"
proof (induction bytes start rule: jpeg_dimensions_from.induct)
  case (1 bytes start)
  show ?case
  proof (cases "start < length bytes \<and> bytes ! start = 0xff \<and> skip_fill bytes start < length bytes")
    case False
    then show ?thesis
      by (subst jpeg_dimensions_from.simps, subst valid_jpeg_from.simps) (auto simp: byte_at_def Let_def)
  next
    case True
    then show ?thesis
      by (subst jpeg_dimensions_from.simps, subst valid_jpeg_from.simps)
        (auto simp: byte_at_def Let_def be16_positive "1.IH")
  qed
qed

lemma png_readers_agree: "valid_png_header bytes \<longleftrightarrow> positive_dimensions (png_dimensions bytes)"
  by (auto simp: valid_png_header_def png_dimensions_def)

lemma jpeg_headers_agree: "valid_jpeg_header bytes \<longleftrightarrow> positive_dimensions (jpeg_dimensions bytes)"
  by (simp add: valid_jpeg_header_def jpeg_dimensions_def jpeg_readers_agree)

section \<open>Icons\<close>

definition MAX_ICON_BYTES :: nat where "MAX_ICON_BYTES = 2 * 1024 * 1024"
definition MAX_ICON_DIMENSION :: u32 where "MAX_ICON_DIMENSION = 2048"
definition ICON_BLOB_SCHEMA :: string where "ICON_BLOB_SCHEMA = ''tohseno.companion-icon-blob/1''"

definition dimension_ok :: "u32 \<Rightarrow> bool" where
  "dimension_ok d \<longleftrightarrow> 1 \<le> d \<and> d \<le> MAX_ICON_DIMENSION"

record icon_descriptor =
  id_blob_id :: string
  id_revision :: u64
  id_media_type :: string
  id_byte_length :: u64
  id_width :: u32
  id_height :: u32
  id_placeholder :: bool

definition icon_descriptor_validate :: "icon_descriptor \<Rightarrow> unit companion_result" where
  "icon_descriptor_validate d =
     checks [validate_identifier ''icon blob ID'' (id_blob_id d),
       require (0 < id_revision d) ''icon revision must be positive'',
       require (id_media_type d \<in> {''image/png'', ''image/jpeg''}) ''icon media type must be image/png or image/jpeg'',
       require (1 \<le> id_byte_length d \<and> unat (id_byte_length d) \<le> MAX_ICON_BYTES) ''icon byte length is invalid'',
       require (dimension_ok (id_width d) \<and> dimension_ok (id_height d)) ''icon dimensions are invalid'']"

definition image_dimensions :: "string \<Rightarrow> byte list \<Rightarrow> (u32 \<times> u32) companion_result" where
  "image_dimensions media_type bytes =
     bind_result (ok_or (CompanionInvalid ''icon bytes are not the declared image type'')
       (if media_type = ''image/png'' then png_dimensions bytes
        else if media_type = ''image/jpeg'' then jpeg_dimensions bytes else None)) (\<lambda>dimensions.
     bind_result (require (dimension_ok (fst dimensions) \<and> dimension_ok (snd dimensions))
       ''icon image dimensions exceed the companion bound'') (\<lambda>_. Inr dimensions))"

record icon_blob =
  ic_schema :: string
  ic_blob_id :: string
  ic_revision :: u64
  ic_media_type :: string
  ic_byte_length :: u64
  ic_width :: u32
  ic_height :: u32
  ic_placeholder :: bool
  ic_sha256 :: string
  ic_bytes :: string

text \<open>\<open>u64::try_from(len).unwrap_or(u64::MAX)\<close>.\<close>

definition length_u64 :: "'a list \<Rightarrow> u64" where
  "length_u64 xs = (if length xs < 2 ^ 64 then of_nat (length xs) else - 1)"

definition icon_decoded_bytes :: "companion_env \<Rightarrow> icon_blob \<Rightarrow> byte list companion_result" where
  "icon_decoded_bytes E b = decode_base64url E ''icon blob bytes'' (ic_bytes b) MAX_ICON_BYTES"

definition icon_blob_validate :: "companion_env \<Rightarrow> icon_blob \<Rightarrow> unit companion_result" where
  "icon_blob_validate E b =
     bind_result (checks [require (ic_schema b = ICON_BLOB_SCHEMA) ''unsupported companion icon blob schema'',
       validate_identifier ''icon blob ID'' (ic_blob_id b),
       require (0 < ic_revision b) ''icon blob revision must be positive'',
       require (ic_media_type b \<in> {''image/png'', ''image/jpeg''}) ''icon blob media type must be image/png or image/jpeg'',
       require (1 \<le> ic_byte_length b \<and> unat (ic_byte_length b) \<le> MAX_ICON_BYTES) ''icon blob byte length is invalid'',
       require (dimension_ok (ic_width b) \<and> dimension_ok (ic_height b)) ''icon blob dimensions are invalid'']) (\<lambda>_.
     bind_result (icon_decoded_bytes E b) (\<lambda>bytes.
     bind_result (checks [require (length bytes = unat (ic_byte_length b)) ''icon blob byte length does not match its bytes'',
       require (ic_sha256 b = base64url E (to_be_bytes (hash E bytes))) ''icon blob SHA-256 does not match'']) (\<lambda>_.
     bind_result (image_dimensions (ic_media_type b) bytes) (\<lambda>dimensions.
       require (dimensions = (ic_width b, ic_height b)) ''icon blob dimensions do not match its image header''))))"

definition icon_blob_new ::
  "companion_env \<Rightarrow> string \<Rightarrow> u64 \<Rightarrow> string \<Rightarrow> bool \<Rightarrow> byte list \<Rightarrow> icon_blob companion_result" where
  "icon_blob_new E blob_id revision media_type placeholder bytes =
     bind_result (image_dimensions media_type bytes) (\<lambda>dimensions.
     let b = \<lparr>ic_schema = ICON_BLOB_SCHEMA, ic_blob_id = blob_id, ic_revision = revision,
           ic_media_type = media_type, ic_byte_length = length_u64 bytes, ic_width = fst dimensions,
           ic_height = snd dimensions, ic_placeholder = placeholder,
           ic_sha256 = base64url E (to_be_bytes (hash E bytes)), ic_bytes = base64url E bytes\<rparr>
     in bind_result (icon_blob_validate E b) (\<lambda>_. Inr b))"

definition icon_fields :: "icon_blob \<Rightarrow> icon_descriptor" where
  "icon_fields b = \<lparr>id_blob_id = ic_blob_id b, id_revision = ic_revision b, id_media_type = ic_media_type b,
     id_byte_length = ic_byte_length b, id_width = ic_width b, id_height = ic_height b,
     id_placeholder = ic_placeholder b\<rparr>"

definition icon_descriptor_of :: "companion_env \<Rightarrow> icon_blob \<Rightarrow> icon_descriptor companion_result" where
  "icon_descriptor_of E b = bind_result (icon_blob_validate E b) (\<lambda>_. Inr (icon_fields b))"

definition icon_matches_descriptor :: "companion_env \<Rightarrow> icon_blob \<Rightarrow> icon_descriptor \<Rightarrow> unit companion_result" where
  "icon_matches_descriptor E b d =
     checks [icon_blob_validate E b, icon_descriptor_validate d,
       require (icon_fields b = d) ''icon blob does not match its descriptor'']"

definition icon_from_descriptor ::
  "companion_env \<Rightarrow> icon_descriptor \<Rightarrow> byte list \<Rightarrow> icon_blob companion_result" where
  "icon_from_descriptor E d bytes =
     bind_result (icon_descriptor_validate d) (\<lambda>_.
     bind_result (icon_blob_new E (id_blob_id d) (id_revision d) (id_media_type d) (id_placeholder d) bytes) (\<lambda>b.
     bind_result (icon_matches_descriptor E b d) (\<lambda>_. Inr b)))"

section \<open>References and their chunks\<close>

definition REFERENCE_BLOB_SCHEMA :: string where
  "REFERENCE_BLOB_SCHEMA = ''tohseno.companion-reference-blob/1''"
definition REFERENCE_BLOB_CHUNK_SCHEMA :: string where
  "REFERENCE_BLOB_CHUNK_SCHEMA = ''tohseno.companion-reference-blob-chunk/1''"
definition MAX_REFERENCE_CHUNK_BYTES :: nat where
  "MAX_REFERENCE_CHUNK_BYTES = 8 * 1024 * 1024"

definition div_ceil :: "nat \<Rightarrow> nat \<Rightarrow> nat" where
  "div_ceil a b = (a + b - 1) div b"

record reference_blob =
  bl_schema :: string
  bl_blob_id :: string
  bl_origin_name :: string
  bl_media_type :: string
  bl_byte_length :: u64
  bl_sha256 :: string
  bl_bytes :: string

record reference_chunk =
  ch_schema :: string
  ch_blob_id :: string
  ch_origin_name :: string
  ch_media_type :: string
  ch_byte_length :: u64
  ch_sha256 :: string
  ch_chunk_index :: u64
  ch_chunk_count :: u64
  ch_chunk_byte_length :: u64
  ch_chunk_sha256 :: string
  ch_bytes :: string

definition validate_reference_metadata ::
  "companion_env \<Rightarrow> string \<Rightarrow> string \<Rightarrow> string \<Rightarrow> u64 \<Rightarrow> string \<Rightarrow> unit companion_result" where
  "validate_reference_metadata E blob_id origin_name media_type byte_length digest =
     checks [validate_identifier ''reference blob ID'' blob_id,
       validate_text ''reference origin name'' origin_name 512,
       require (list_all (\<lambda>c. c \<notin> {CHR ''/'', CHR 0x5C, CHR 0x00}) origin_name
           \<and> origin_name \<noteq> ''.'' \<and> origin_name \<noteq> ''..'')
         ''reference origin name must be a plain filename'',
       require (media_type \<in> {''image/png'', ''image/jpeg''}) ''reference media type must be image/png or image/jpeg'',
       require (1 \<le> byte_length \<and> unat byte_length \<le> MAX_REFERENCE_BLOB_BYTES)
         ''reference blob byte length is invalid'',
       array_ok TYPE(256 word) E ''reference SHA-256'' digest]"

definition validate_image :: "string \<Rightarrow> byte list \<Rightarrow> unit companion_result" where
  "validate_image media_type bytes =
     require (if media_type = ''image/png'' then valid_png_header bytes
       else if media_type = ''image/jpeg'' then valid_jpeg_header bytes else False)
       ''reference bytes are not the declared image type''"

definition blob_decoded_bytes :: "companion_env \<Rightarrow> reference_blob \<Rightarrow> byte list companion_result" where
  "blob_decoded_bytes E b = decode_base64url E ''reference blob bytes'' (bl_bytes b) MAX_REFERENCE_BLOB_BYTES"

definition blob_validate :: "companion_env \<Rightarrow> reference_blob \<Rightarrow> unit companion_result" where
  "blob_validate E b =
     bind_result (checks [require (bl_schema b = REFERENCE_BLOB_SCHEMA) ''unsupported companion reference blob schema'',
       validate_reference_metadata E (bl_blob_id b) (bl_origin_name b) (bl_media_type b) (bl_byte_length b) (bl_sha256 b)]) (\<lambda>_.
     bind_result (blob_decoded_bytes E b) (\<lambda>bytes.
       checks [require (length bytes = unat (bl_byte_length b)) ''reference blob byte length does not match its bytes'',
         require (bl_sha256 b = base64url E (to_be_bytes (hash E bytes)))
           ''reference blob SHA-256 does not match its bytes'',
         validate_image (bl_media_type b) bytes]))"

definition blob_new :: "companion_env \<Rightarrow> string \<Rightarrow> string \<Rightarrow> string \<Rightarrow> byte list \<Rightarrow> reference_blob companion_result" where
  "blob_new E blob_id origin_name media_type bytes =
     (let b = \<lparr>bl_schema = REFERENCE_BLOB_SCHEMA, bl_blob_id = blob_id, bl_origin_name = origin_name,
            bl_media_type = media_type, bl_byte_length = length_u64 bytes,
            bl_sha256 = base64url E (to_be_bytes (hash E bytes)), bl_bytes = base64url E bytes\<rparr>
      in bind_result (blob_validate E b) (\<lambda>_. Inr b))"

definition blob_descriptor :: "companion_env \<Rightarrow> reference_blob \<Rightarrow> reference_descriptor companion_result" where
  "blob_descriptor E b = bind_result (blob_validate E b) (\<lambda>_.
     Inr \<lparr>rd_blob_id = bl_blob_id b, rd_origin_name = bl_origin_name b, rd_media_type = bl_media_type b,
          rd_byte_length = bl_byte_length b, rd_sha256 = bl_sha256 b\<rparr>)"

definition blob_matches_descriptor :: "companion_env \<Rightarrow> reference_blob \<Rightarrow> reference_descriptor \<Rightarrow> unit companion_result" where
  "blob_matches_descriptor E b d = bind_result (blob_descriptor E b) (\<lambda>own.
     require (own = d) ''reference blob does not match its command descriptor'')"

definition expected_chunk_length :: "reference_chunk \<Rightarrow> nat" where
  "expected_chunk_length c =
     (if ch_chunk_index c + 1 = ch_chunk_count c
      then (let remainder = unat (ch_byte_length c) mod MAX_REFERENCE_CHUNK_BYTES in
            if remainder = 0 then MAX_REFERENCE_CHUNK_BYTES else remainder)
      else MAX_REFERENCE_CHUNK_BYTES)"

definition chunk_decoded_bytes :: "companion_env \<Rightarrow> reference_chunk \<Rightarrow> byte list companion_result" where
  "chunk_decoded_bytes E c = decode_base64url E ''reference chunk bytes'' (ch_bytes c) MAX_REFERENCE_CHUNK_BYTES"

definition chunk_validate :: "companion_env \<Rightarrow> reference_chunk \<Rightarrow> unit companion_result" where
  "chunk_validate E c =
     bind_result (checks [require (ch_schema c = REFERENCE_BLOB_CHUNK_SCHEMA) ''unsupported companion reference blob chunk schema'',
       validate_reference_metadata E (ch_blob_id c) (ch_origin_name c) (ch_media_type c) (ch_byte_length c) (ch_sha256 c),
       require (unat (ch_chunk_count c) = div_ceil (unat (ch_byte_length c)) MAX_REFERENCE_CHUNK_BYTES
           \<and> 1 \<le> ch_chunk_count c
           \<and> unat (ch_chunk_count c) \<le> div_ceil MAX_REFERENCE_BLOB_BYTES MAX_REFERENCE_CHUNK_BYTES
           \<and> ch_chunk_index c < ch_chunk_count c) ''reference chunk position is invalid'',
       require (unat (ch_chunk_byte_length c) = expected_chunk_length c) ''reference chunk length is not canonical'']) (\<lambda>_.
     bind_result (chunk_decoded_bytes E c) (\<lambda>bytes.
       checks [require (length bytes = expected_chunk_length c) ''reference chunk byte length does not match its bytes'',
         require (ch_chunk_sha256 c = base64url E (to_be_bytes (hash E bytes)))
           ''reference chunk SHA-256 does not match its bytes'']))"

definition chunk_of :: "companion_env \<Rightarrow> reference_blob \<Rightarrow> nat \<Rightarrow> nat \<Rightarrow> byte list \<Rightarrow> reference_chunk" where
  "chunk_of E b index count bytes =
     \<lparr>ch_schema = REFERENCE_BLOB_CHUNK_SCHEMA, ch_blob_id = bl_blob_id b, ch_origin_name = bl_origin_name b,
      ch_media_type = bl_media_type b, ch_byte_length = bl_byte_length b, ch_sha256 = bl_sha256 b,
      ch_chunk_index = of_nat index, ch_chunk_count = of_nat count, ch_chunk_byte_length = length_u64 bytes,
      ch_chunk_sha256 = base64url E (to_be_bytes (hash E bytes)), ch_bytes = base64url E bytes\<rparr>"

definition chunk_new ::
  "companion_env \<Rightarrow> reference_blob \<Rightarrow> nat \<Rightarrow> nat \<Rightarrow> byte list \<Rightarrow> reference_chunk companion_result" where
  "chunk_new E b index count bytes =
     (let c = chunk_of E b index count bytes in bind_result (chunk_validate E c) (\<lambda>_. Inr c))"

definition chunk_descriptor :: "companion_env \<Rightarrow> reference_chunk \<Rightarrow> reference_descriptor companion_result" where
  "chunk_descriptor E c = bind_result (chunk_validate E c) (\<lambda>_.
     Inr \<lparr>rd_blob_id = ch_blob_id c, rd_origin_name = ch_origin_name c, rd_media_type = ch_media_type c,
          rd_byte_length = ch_byte_length c, rd_sha256 = ch_sha256 c\<rparr>)"

text \<open>\<open>slice::chunks\<close> and the collecting of fallible results.\<close>

fun slice_chunks :: "nat \<Rightarrow> 'a list \<Rightarrow> 'a list list" where
  "slice_chunks n xs = (if xs = [] \<or> n = 0 then [] else take n xs # slice_chunks n (drop n xs))"

declare slice_chunks.simps [simp del]

fun collect :: "('e + 'a) list \<Rightarrow> 'e + 'a list" where
  "collect [] = Inr []"
| "collect (r # rs) = bind_result r (\<lambda>x. bind_result (collect rs) (\<lambda>xs. Inr (x # xs)))"

definition blob_chunks :: "companion_env \<Rightarrow> reference_blob \<Rightarrow> reference_chunk list companion_result" where
  "blob_chunks E b =
     bind_result (blob_validate E b) (\<lambda>_.
     bind_result (blob_decoded_bytes E b) (\<lambda>bytes.
     let count = div_ceil (length bytes) MAX_REFERENCE_CHUNK_BYTES in
     bind_result (require (1 \<le> count \<and> count \<le> div_ceil MAX_REFERENCE_BLOB_BYTES MAX_REFERENCE_CHUNK_BYTES)
       ''reference blob chunk count is invalid'') (\<lambda>_.
       collect (map (\<lambda>(index, part). chunk_new E b index count part)
         (enumerate 0 (slice_chunks MAX_REFERENCE_CHUNK_BYTES bytes))))))"

section \<open>The assembler\<close>

type_synonym assembler = "(u64, reference_chunk) btree"

datatype chunk_admission = ChunkStored | ChunkDuplicate | ChunkComplete reference_blob

definition same_blob :: "reference_chunk \<Rightarrow> reference_chunk \<Rightarrow> bool" where
  "same_blob c first \<longleftrightarrow> ch_blob_id c = ch_blob_id first \<and> ch_origin_name c = ch_origin_name first
     \<and> ch_media_type c = ch_media_type first \<and> ch_byte_length c = ch_byte_length first
     \<and> ch_sha256 c = ch_sha256 first \<and> ch_chunk_count c = ch_chunk_count first"

definition chunk_bytes_at :: "companion_env \<Rightarrow> assembler \<Rightarrow> nat \<Rightarrow> byte list companion_result" where
  "chunk_bytes_at E chunks index =
     bind_result (ok_or (CompanionInvalid ''reference assembler has a missing chunk'') (bt_get chunks (of_nat index)))
       (chunk_decoded_bytes E)"

definition assemble :: "companion_env \<Rightarrow> assembler \<Rightarrow> u64 \<Rightarrow> reference_blob companion_result" where
  "assemble E chunks chunk_count =
     (case chunks of
        [] \<Rightarrow> Inl (CompanionInvalid ''reference assembler is empty'')
      | (_, first) # _ \<Rightarrow>
          bind_result (collect (map (chunk_bytes_at E chunks) [0 ..< unat chunk_count])) (\<lambda>parts.
          bind_result (blob_new E (ch_blob_id first) (ch_origin_name first) (ch_media_type first) (concat parts)) (\<lambda>blob.
          bind_result (require (bl_sha256 blob = ch_sha256 first \<and> bl_byte_length blob = ch_byte_length first)
            ''reassembled reference does not match its whole-object commitment'') (\<lambda>_. Inr blob))))"

definition admit :: "companion_env \<Rightarrow> assembler \<Rightarrow> reference_chunk \<Rightarrow> chunk_admission companion_result \<times> assembler" where
  "admit E chunks c =
     (case checks [chunk_validate E c,
             (case chunks of [] \<Rightarrow> Inr ()
              | (_, first) # _ \<Rightarrow> require (same_blob c first) ''reference chunks do not describe one exact blob'')] of
        Inl e \<Rightarrow> (Inl e, chunks)
      | Inr _ \<Rightarrow>
          (case bt_get chunks (ch_chunk_index c) of
             Some existing \<Rightarrow>
               (if existing = c then Inr ChunkDuplicate
                else Inl (CompanionInvalid ''reference chunk position was reused with different bytes''), chunks)
           | None \<Rightarrow>
               (let chunks' = bt_insert (ch_chunk_index c) c chunks in
                if length chunks' \<noteq> unat (ch_chunk_count c) then (Inr ChunkStored, chunks')
                else (bind_result (assemble E chunks' (ch_chunk_count c)) (\<lambda>blob. Inr (ChunkComplete blob)), chunks'))))"

text \<open>C21: The image check of a reference and the dimension readers of an icon, two separate scanners,
  agree: a reference passes exactly when the reader for its media type finds positive
  dimensions, for PNG headers and for JPEG segments alike.\<close>

theorem image_readers_agree:
  "validate_image media_type bytes = Inr () \<longleftrightarrow>
     media_type = ''image/png'' \<and> positive_dimensions (png_dimensions bytes)
     \<or> media_type = ''image/jpeg'' \<and> positive_dimensions (jpeg_dimensions bytes)"
  by (auto simp: validate_image_def png_readers_agree jpeg_headers_agree)

text \<open>A descriptor may carry a name that no reference can have.\<close>

lemma descriptor_without_blob:
  "rd_origin_name d = ''..'' \<Longrightarrow> blob_matches_descriptor E b d \<noteq> Inr ()"
  by (auto simp: blob_matches_descriptor_def blob_descriptor_def blob_validate_def validate_reference_metadata_def)

end
