(* ===== verification/Companion_Assembly.thy ===== *)
theory Companion_Assembly
  imports Companion_Blobs
begin

text \<open>
  The correctness of reference chunks: splitting a reference loses nothing, and the
  assembler, given its chunks in any order and any number of times, answers each and
  returns the reference exactly once.
\<close>

section \<open>Splitting\<close>

lemma slice_chunks_Nil [simp]: "slice_chunks n [] = []"
  by (simp add: slice_chunks.simps)

lemma slice_chunks_Cons: "xs \<noteq> [] \<Longrightarrow> 0 < n \<Longrightarrow> slice_chunks n xs = take n xs # slice_chunks n (drop n xs)"
  by (simp add: slice_chunks.simps [of n xs])

lemma concat_slice_chunks: "0 < n \<Longrightarrow> concat (slice_chunks n xs) = xs"
proof (induction n xs rule: slice_chunks.induct)
  case (1 n xs)
  then show ?case by (cases "xs = []") (auto simp: slice_chunks_Cons)
qed

lemma slice_chunks_part: "0 < n \<Longrightarrow> p \<in> set (slice_chunks n xs) \<Longrightarrow> p \<noteq> [] \<and> length p \<le> n"
proof (induction n xs rule: slice_chunks.induct)
  case (1 n xs)
  then show ?case by (cases "xs = []") (auto simp: slice_chunks_Cons)
qed

lemma length_slice_chunks: "0 < n \<Longrightarrow> length (slice_chunks n xs) = div_ceil (length xs) n"
proof (induction n xs rule: slice_chunks.induct)
  case (1 n xs)
  show ?case
  proof (cases "xs = []")
    case False
    then have IH: "length (slice_chunks n (drop n xs)) = div_ceil (length xs - n) n" using "1" by simp
    have "Suc (div_ceil (length xs - n) n) = div_ceil (length xs) n"
    proof (cases "n \<le> length xs")
      case True
      then have "length xs + n - 1 = (length xs - n + n - 1) + n" using "1.prems" by simp
      then show ?thesis unfolding div_ceil_def using "1.prems" by (metis Suc_eq_plus1 add.commute div_add_self2 not_gr_zero)
    next
      case less: False
      then have eq: "length xs + n - 1 = (length xs - 1) + n" and "length xs - 1 < n" using False by (auto simp: Suc_le_eq)
      then have "(length xs + n - 1) div n = 1" unfolding eq using "1.prems" by (subst div_add_self2) simp_all
      then show ?thesis using less "1.prems" by (simp add: div_ceil_def)
    qed
    then show ?thesis unfolding slice_chunks_Cons [OF False "1.prems"] list.size(4) IH by simp
  qed (simp add: div_ceil_def "1.prems")
qed

lemma collect_eq_Inr: "collect rs = Inr xs \<longleftrightarrow> rs = map Inr xs"
  by (induction rs arbitrary: xs) (auto simp: Cons_eq_map_conv)

section \<open>The chunks of a reference\<close>

text \<open>What the chunks of a reference have in common, with its parts and their number.\<close>

definition chunks_of :: "companion_env \<Rightarrow> reference_blob \<Rightarrow> byte list list \<Rightarrow> reference_chunk list \<Rightarrow> bool" where
  "chunks_of E b parts cs \<longleftrightarrow>
     blob_validate E b = Inr () \<and> blob_decoded_bytes E b = Inr (concat parts)
     \<and> length cs = length parts \<and> 1 \<le> length cs \<and> length cs < 2 ^ 64
     \<and> (\<forall>i < length cs. chunk_validate E (cs ! i) = Inr () \<and> chunk_decoded_bytes E (cs ! i) = Inr (parts ! i)
          \<and> cs ! i = chunk_of E b i (length cs) (parts ! i))"

lemma chunks_ofD:
  assumes "chunks_of E b parts cs" "i < length cs"
  shows "length cs < 2 ^ 64" "cs ! i = chunk_of E b i (length cs) (parts ! i)" "chunk_validate E (cs ! i) = Inr ()"
    "chunk_decoded_bytes E (cs ! i) = Inr (parts ! i)" "ch_chunk_index (cs ! i) = of_nat i"
    "ch_chunk_count (cs ! i) = of_nat (length cs)"
proof -
  show "length cs < 2 ^ 64" "chunk_validate E (cs ! i) = Inr ()"
    "chunk_decoded_bytes E (cs ! i) = Inr (parts ! i)" and c: "cs ! i = chunk_of E b i (length cs) (parts ! i)"
    using assms unfolding chunks_of_def by blast+
  show "ch_chunk_index (cs ! i) = of_nat i" "ch_chunk_count (cs ! i) = of_nat (length cs)"
    unfolding c by (simp_all add: chunk_of_def)
qed

lemma blob_chunks_of:
  assumes laws: "base64_laws E" and chunks: "blob_chunks E b = Inr cs"
  shows "\<exists>parts. chunks_of E b parts cs"
proof -
  let ?M = MAX_REFERENCE_CHUNK_BYTES
  have M: "0 < ?M" by (simp add: MAX_REFERENCE_CHUNK_BYTES_def)
  obtain bytes where b: "blob_validate E b = Inr ()" "blob_decoded_bytes E b = Inr bytes"
    "1 \<le> div_ceil (length bytes) ?M" "div_ceil (length bytes) ?M \<le> div_ceil MAX_REFERENCE_BLOB_BYTES ?M"
    and cs: "map (\<lambda>(i, p). chunk_new E b i (div_ceil (length bytes) ?M) p)
      (enumerate 0 (slice_chunks ?M bytes)) = map Inr cs"
    using chunks by (auto simp: blob_chunks_def Let_def collect_eq_Inr)
  define parts where "parts = slice_chunks ?M bytes"
  have n: "length parts = div_ceil (length bytes) ?M" by (simp add: parts_def length_slice_chunks M)
  have len: "length cs = length parts" using arg_cong [OF cs, of length] by (simp add: parts_def)
  have small: "div_ceil MAX_REFERENCE_BLOB_BYTES ?M < 2 ^ 64"
    by (simp add: div_ceil_def MAX_REFERENCE_BLOB_BYTES_def MAX_REFERENCE_CHUNK_BYTES_def)
  have new: "chunk_new E b i (length cs) (parts ! i) = Inr (cs ! i)" if "i < length cs" for i
    using arg_cong [OF cs, of "\<lambda>xs. xs ! i"] that len
    by (simp add: parts_def [symmetric] n [symmetric] nth_enumerate_eq)
  have c: "chunk_validate E (cs ! i) = Inr ()" "cs ! i = chunk_of E b i (length cs) (parts ! i)"
    if "i < length cs" for i
    using new [OF that] by (auto simp: chunk_new_def Let_def)
  have "chunk_decoded_bytes E (cs ! i) = Inr (parts ! i)" if "i < length cs" for i
  proof -
    have "parts ! i \<in> set (slice_chunks ?M bytes)" using that len by (simp add: parts_def)
    then have "parts ! i \<noteq> []" "length (parts ! i) \<le> ?M" using slice_chunks_part [OF M] by auto
    then show ?thesis unfolding c(2) [OF that] chunk_decoded_bytes_def
      by (simp add: chunk_of_def decode_base64url_encoded [OF laws])
  qed
  moreover have "concat parts = bytes" by (simp add: parts_def concat_slice_chunks M)
  ultimately have "chunks_of E b parts cs" using b c len n small by (auto simp: chunks_of_def)
  then show ?thesis by blast
qed

text \<open>A reference is what its bytes and names make it.\<close>

lemma blob_rebuilt:
  assumes "blob_validate E b = Inr ()" "blob_decoded_bytes E b = Inr bytes"
  shows "blob_new E (bl_blob_id b) (bl_origin_name b) (bl_media_type b) bytes = Inr b"
proof -
  have "bl_schema b = REFERENCE_BLOB_SCHEMA" "length bytes = unat (bl_byte_length b)"
    "bl_sha256 b = base64url E (to_be_bytes (hash E bytes))"
    using assms by (auto simp: blob_validate_def)
  moreover have "bl_bytes b = base64url E bytes"
    using assms(2) by (simp add: blob_decoded_bytes_def decode_base64url_eq_Inr)
  moreover have "length_u64 bytes = bl_byte_length b"
  proof -
    have "unat (bl_byte_length b) < 2 ^ 64" using unsigned_less [of "bl_byte_length b"] by simp
    with calculation(2) show ?thesis by (simp add: length_u64_def)
  qed
  ultimately have "\<lparr>bl_schema = REFERENCE_BLOB_SCHEMA, bl_blob_id = bl_blob_id b, bl_origin_name = bl_origin_name b,
      bl_media_type = bl_media_type b, bl_byte_length = length_u64 bytes,
      bl_sha256 = base64url E (to_be_bytes (hash E bytes)), bl_bytes = base64url E bytes\<rparr> = b"
    by simp
  with assms(1) show ?thesis by (simp add: blob_new_def)
qed

section \<open>Assembling\<close>

definition assembled :: "reference_chunk list \<Rightarrow> nat set \<Rightarrow> assembler \<Rightarrow> bool" where
  "assembled cs S st \<longleftrightarrow> bt_invar st \<and> S \<subseteq> {..< length cs}
     \<and> (\<forall>k. bt_get st k = (if unat k \<in> S then Some (cs ! unat k) else None))"

lemma assembled_empty: "assembled cs {} []"
  by (simp add: assembled_def bt.empty_invar bt.get_empty)

lemma assembled_insert:
  assumes "assembled cs S st" "i < length cs" "length cs < 2 ^ 64" "k = of_nat i"
  shows "assembled cs (insert i S) (bt_insert k (cs ! i) st)"
proof -
  have "unat k = i" using assms(2-4) by (simp add: unat_of_nat)
  then have "j = k \<longleftrightarrow> unat j = i" for j by (metis word_eq_iff_unsigned)
  then show ?thesis using assms(1,2) by (auto simp: assembled_def bt_insert_invar bt_get_insert)
qed

lemma assembled_length:
  assumes "assembled cs S st" "length cs < 2 ^ 64"
  shows "length st = card S"
proof -
  have inv: "bt_invar st" and get: "\<And>k. bt_get st k = (if unat k \<in> S then Some (cs ! unat k) else None)"
    and S: "S \<subseteq> {..< length cs}" using assms(1) by (auto simp: assembled_def)
  have "set (map fst st) = {k. bt_get st k \<noteq> None}"
    using bt_get_entries [OF inv] by (force simp: image_iff)
  also have "\<dots> = {k. unat k \<in> S}" by (auto simp: get)
  also have "\<dots> = of_nat ` S"
  proof -
    have "unat (of_nat i :: u64) = i" if "i \<in> S" for i using S that assms(2) by (auto simp: unat_of_nat)
    then show ?thesis by (auto simp: image_iff) (metis of_nat_unat ucast_id)
  qed
  finally have keys: "set (map fst st) = (of_nat :: nat \<Rightarrow> u64) ` S" .
  have "inj_on (of_nat :: nat \<Rightarrow> u64) S"
  proof (rule inj_onI)
    fix i j assume "i \<in> S" "j \<in> S" "(of_nat i :: u64) = of_nat j"
    then have "unat (of_nat i :: u64) = unat (of_nat j :: u64)" "i < 2 ^ 64" "j < 2 ^ 64" using S assms(2) by auto
    then show "i = j" by (simp add: unat_of_nat)
  qed
  then have "card (set (map fst st)) = card S" unfolding keys by (rule card_image)
  moreover have "distinct (map fst st)" using inv by (simp add: bt_invar_def strict_sorted_iff)
  ultimately show ?thesis by (metis distinct_card length_map)
qed

lemma assembled_first:
  assumes "assembled cs S st" "st \<noteq> []"
  obtains k first where "hd st = (k, first)" "unat k < length cs" "first = cs ! unat k"
proof -
  obtain k first where hd: "hd st = (k, first)" by fastforce
  then have "(k, first) \<in> set st" using assms(2) by (metis list.set_sel(1))
  then have "bt_get st k = Some first" using assms(1) by (subst bt_get_entries) (auto simp: assembled_def)
  with hd that assms(1) show thesis by (auto simp: assembled_def split: if_splits)
qed

lemma assemble_complete:
  assumes cs: "chunks_of E b parts cs" and all: "assembled cs {..< length cs} st"
  shows "assemble E st (of_nat (length cs)) = Inr b"
proof -
  have "length cs < 2 ^ 64" "length parts = length cs" "1 \<le> length cs" using cs unfolding chunks_of_def by simp_all
  then have n: "unat (of_nat (length cs) :: u64) = length cs" "length cs < 2 ^ 64" "length parts = length cs" "1 \<le> length cs"
    by (auto simp: unat_of_nat)
  have "length st = length cs" using assembled_length [OF all n(2)] by simp
  then have ne: "st \<noteq> []" using n(4) by auto
  obtain k first where first: "hd st = (k, first)" "unat k < length cs" "first = cs ! unat k"
    by (rule assembled_first [OF all ne])
  then obtain rest where st: "st = (k, first) # rest" using ne by (cases st) auto
  have names: "ch_blob_id first = bl_blob_id b" "ch_origin_name first = bl_origin_name b" "ch_media_type first = bl_media_type b"
    "ch_sha256 first = bl_sha256 b" "ch_byte_length first = bl_byte_length b"
  proof -
    have "first = chunk_of E b (unat k) (length cs) (parts ! unat k)"
      unfolding first(3) by (rule chunks_ofD(2) [OF cs first(2)])
    then show "ch_blob_id first = bl_blob_id b" "ch_origin_name first = bl_origin_name b" "ch_media_type first = bl_media_type b"
      "ch_sha256 first = bl_sha256 b" "ch_byte_length first = bl_byte_length b" by (simp_all add: chunk_of_def)
  qed
  have "chunk_bytes_at E st i = Inr (parts ! i)" if "i < length cs" for i
  proof -
    have "bt_get st (of_nat i) = Some (cs ! i)" using all that n(2) by (simp add: assembled_def unat_of_nat)
    with chunks_ofD(4) [OF cs that] show ?thesis by (simp add: chunk_bytes_at_def)
  qed
  then have "map (chunk_bytes_at E st) [0 ..< length cs] = map Inr parts"
    by (intro nth_equalityI) (auto simp: n(3))
  then have "collect (map (chunk_bytes_at E st) [0 ..< unat (of_nat (length cs) :: u64)]) = Inr parts"
    by (simp add: collect_eq_Inr n(1))
  moreover have "blob_new E (bl_blob_id b) (bl_origin_name b) (bl_media_type b) (concat parts) = Inr b"
    using cs by (intro blob_rebuilt) (auto simp: chunks_of_def)
  ultimately show ?thesis unfolding st by (simp add: assemble_def names [unfolded st])
qed

text \<open>One admission.\<close>

definition admission_of :: "reference_blob \<Rightarrow> nat \<Rightarrow> nat set \<Rightarrow> nat \<Rightarrow> chunk_admission" where
  "admission_of b n S i = (if i \<in> S then ChunkDuplicate
     else if insert i S = {..< n} then ChunkComplete b else ChunkStored)"

lemma admit_chunk:
  assumes cs: "chunks_of E b parts cs" and st: "assembled cs S st" and i: "i < length cs"
  shows "\<exists>st'. admit E st (cs ! i) = (Inr (admission_of b (length cs) S i), st') \<and> assembled cs (insert i S) st'"
proof -
  let ?c = "cs ! i"
  note n = chunks_ofD(1) [OF cs i] and valid = chunks_ofD(3) [OF cs i] and index = chunks_ofD(5,6) [OF cs i]
  have un: "unat (of_nat i :: u64) = i" "unat (of_nat (length cs) :: u64) = length cs" using i n by (auto simp: unat_of_nat)
  have same: "(case st of [] \<Rightarrow> Inr () | (_, first) # _ \<Rightarrow> require (same_blob ?c first) m) = Inr ()" for m
  proof (cases st)
    case (Cons e es)
    then obtain k first where "hd st = (k, first)" "unat k < length cs" "first = cs ! unat k"
      using assembled_first [OF st] by auto
    moreover from this(2,3) have "same_blob ?c first"
      using chunks_ofD(2) [OF cs i] chunks_ofD(2) [OF cs, of "unat k"] by (simp add: same_blob_def chunk_of_def)
    ultimately show ?thesis using Cons by (simp split: prod.splits)
  qed simp
  have get: "bt_get st (ch_chunk_index ?c) = (if i \<in> S then Some ?c else None)"
    using st un(1) by (simp add: assembled_def index)
  show ?thesis
  proof (cases "i \<in> S")
    case True
    then show ?thesis using st valid same get by (auto simp: admit_def admission_of_def insert_absorb)
  next
    case False
    let ?st = "bt_insert (ch_chunk_index ?c) ?c st"
    have st': "assembled cs (insert i S) ?st" by (rule assembled_insert [OF st i n index(1)])
    have "insert i S \<subseteq> {..< length cs}" using st i by (auto simp: assembled_def)
    then have full: "card (insert i S) = length cs \<longleftrightarrow> insert i S = {..< length cs}"
      by (metis card_lessThan card_subset_eq finite_lessThan)
    have len: "length ?st = card (insert i S)" by (rule assembled_length [OF st' n])
    show ?thesis
    proof (cases "insert i S = {..< length cs}")
      case True
      then have "assemble E ?st (of_nat (length cs)) = Inr b" using assemble_complete [OF cs] st' by simp
      then show ?thesis
        using False True st' valid same get len full
        by (auto simp: admit_def Let_def admission_of_def index un)
    next
      case ne: False
      then show ?thesis
        using False st' valid same get len full
        by (auto simp: admit_def Let_def admission_of_def index un)
    qed
  qed
qed

section \<open>Any order, any number of times\<close>

definition completions :: "('i \<times> chunk_admission companion_result) list \<Rightarrow> reference_blob list" where
  "completions answers = concat (map (\<lambda>a. case snd a of Inr (ChunkComplete b) \<Rightarrow> [b] | _ \<Rightarrow> []) answers)"

lemma admit_run:
  assumes "chunks_of E b parts cs" "assembled cs S st" "set xs \<subseteq> set cs"
    "run_steps (admit E) st xs = (answers, st')"
  shows "list_all (\<lambda>a. is_ok (snd a)) answers
    \<and> completions answers = (if S \<noteq> {..< length cs} \<and> (\<forall>i < length cs. i \<in> S \<or> cs ! i \<in> set xs) then [b] else [])"
  using assms(2-)
proof (induction xs arbitrary: S st answers)
  case Nil
  then show ?case by (auto simp: completions_def assembled_def)
next
  case (Cons x xs)
  have inj: "i = j" if "i < length cs" "j < length cs" "cs ! i = cs ! j" for i j
  proof -
    note chunks_ofD(5) [OF assms(1) that(1)] chunks_ofD(5) [OF assms(1) that(2)]
    moreover have "length cs < 2 ^ 64" by (rule chunks_ofD(1) [OF assms(1) that(1)])
    ultimately have "unat (of_nat i :: u64) = unat (of_nat j :: u64)" using that(3) by simp
    with that(1,2) \<open>length cs < 2 ^ 64\<close> show "i = j" by (simp add: unat_of_nat)
  qed
  obtain i where i: "i < length cs" "x = cs ! i" using Cons.prems(2) by (auto simp: in_set_conv_nth)
  obtain m where m: "admit E st x = (Inr (admission_of b (length cs) S i), m)" "assembled cs (insert i S) m"
    using admit_chunk [OF assms(1) Cons.prems(1) i(1)] i(2) by blast
  from Cons.prems(3) obtain r s' rest where run: "admit E st x = (r, s')" "run_steps (admit E) s' xs = (rest, st')"
    "answers = (x, r) # rest" by (rule run_steps_Cons)
  have r: "r = Inr (admission_of b (length cs) S i)" "s' = m" using run(1) m(1) by auto
  have xs: "set xs \<subseteq> set cs" using Cons.prems(2) by simp
  have mem: "cs ! j = x \<longleftrightarrow> j = i" if "j < length cs" for j using inj that i by blast
  have S: "S \<subseteq> {..< length cs}" using Cons.prems(1) by (simp add: assembled_def)
  have IH: "list_all (\<lambda>a. is_ok (snd a)) rest" "completions rest =
      (if insert i S \<noteq> {..< length cs} \<and> (\<forall>j < length cs. j \<in> insert i S \<or> cs ! j \<in> set xs) then [b] else [])"
    using Cons.IH [OF m(2) xs] run(2) r(2) by auto
  have all: "(\<forall>j < length cs. j \<in> S \<or> cs ! j \<in> set (x # xs)) \<longleftrightarrow> (\<forall>j < length cs. j \<in> insert i S \<or> cs ! j \<in> set xs)"
    using mem by auto
  have "completions answers = (case admission_of b (length cs) S i of ChunkComplete b \<Rightarrow> [b] | _ \<Rightarrow> []) @ completions rest"
    unfolding run(3) r(1) by (simp add: completions_def)
  then show ?case
    unfolding all using IH S i(1) run(3) r(1)
    by (cases "i \<in> S"; cases "insert i S = {..< length cs}") (auto simp: admission_of_def insert_absorb)
qed

text \<open>C20: The chunks of a reference, admitted in any order and any number of times by an empty assembler,
  are all accepted, and the reference comes out exactly once if all of them arrived and not at
  all otherwise, unchanged.\<close>

theorem chunks_reassemble:
  assumes "base64_laws E" "blob_chunks E b = Inr cs" "set xs \<subseteq> set cs"
    "run_steps (admit E) [] xs = (answers, st)"
  shows "list_all (\<lambda>a. is_ok (snd a)) answers \<and> completions answers = (if set xs = set cs then [b] else [])"
proof -
  obtain parts where cs: "chunks_of E b parts cs" using blob_chunks_of [OF assms(1,2)] by blast
  then have "cs \<noteq> []" unfolding chunks_of_def by auto
  have "set xs = set cs \<longleftrightarrow> (\<forall>i < length cs. cs ! i \<in> set xs)"
    using assms(3) by (metis in_set_conv_nth nth_mem subset_antisym subset_eq)
  with admit_run [OF cs assembled_empty assms(3,4)] \<open>cs \<noteq> []\<close> show ?thesis by auto
qed

end
