(* ===== verification/Companion_Witnesses.thy ===== *)
theory Companion_Witnesses
  imports Companion_Relay Companion_Assembly
begin

text \<open>
  Stand-ins for the crates of the companion that satisfy the laws it relies on, two
  identities, and the properties of the companion applied to concrete runs.
\<close>

section \<open>Stand-ins\<close>

text \<open>
  Hexadecimal for base64, a digest made of the last bytes, a multiplicative key agreement, a
  tag of sixteen key bytes, a signature that repeats the key, and a clock of three readings.
\<close>

definition clock :: "(string \<times> int) list" where
  "clock = [(''2026-08-15T12:00:00Z'', 1786795200), (''2026-08-15T12:01:00Z'', 1786795260)]"

definition clock_time :: "int \<Rightarrow> rfc3339_time" where
  "clock_time t = \<lparr>rt_offset = 0, rt_nanosecond = 0, rt_unix = t\<rparr>"

definition demo_tag :: "bytes32 \<Rightarrow> byte list" where
  "demo_tag k = take 16 (to_be_bytes k)"

definition demo :: companion_env where
  "demo = \<lparr>cx_rfc3339_parse = (\<lambda>s. map_option clock_time (map_of clock s)),
     cx_rfc3339_format = (\<lambda>t. map_of (map (\<lambda>e. (snd e, fst e)) clock) (rt_unix t)),
     cx_canonicalize = (\<lambda>j. case j of JObj ms \<Rightarrow> Inr [of_nat (length ms)] | _ \<Rightarrow> Inr [0]),
     cx_base64 = (\<lambda>b. concat (map hex_pair b)), cx_base64_decode = (\<lambda>s. decode_pairs (str_bytes s)),
     cx_sha256 = (\<lambda>b. from_be_bytes (take 32 (rev b @ replicate 32 0))),
     cx_agreement_public = (\<lambda>s. s), cx_diffie_hellman = (\<lambda>a b. a * b),
     cx_hkdf = (\<lambda>salt key info. Some (from_be_bytes key)),
     cx_seal = (\<lambda>k n m a. Some (m @ demo_tag k)),
     cx_open = (\<lambda>k n c a. if drop (length c - 16) c = demo_tag k then Some (take (length c - 16) c) else None),
     cx_signing_public = (\<lambda>s. s), cx_sign = (\<lambda>s m. ucast s), cx_verifying_key = (\<lambda>k. True),
     cx_verify = (\<lambda>k m s. s = ucast k), cx_hmac = (\<lambda>k m. from_be_bytes k),
     cx_mnemonic = (\<lambda>w. None), cx_mnemonic_of_entropy = (\<lambda>e. None)\<rparr>"

lemma demo_simps [simp]:
  "cx_canonicalize demo j = (case j of JObj ms \<Rightarrow> Inr [of_nat (length ms)] | _ \<Rightarrow> Inr [0])"
  "cx_base64 demo b = concat (map hex_pair b)" "cx_base64_decode demo s = decode_pairs (str_bytes s)"
  "cx_sha256 demo b = from_be_bytes (take 32 (rev b @ replicate 32 0))"
  "cx_agreement_public demo x = x" "cx_diffie_hellman demo x y = x * y"
  "cx_hkdf demo salt key info = Some (from_be_bytes key)" "cx_seal demo k n m a = Some (m @ demo_tag k)"
  "cx_open demo k n c a = (if drop (length c - 16) c = demo_tag k then Some (take (length c - 16) c) else None)"
  "cx_signing_public demo x = x" "cx_sign demo x m = ucast x" "cx_verifying_key demo x"
  "cx_verify demo x m g \<longleftrightarrow> g = ucast x" "cx_hmac demo key m = from_be_bytes key"
  by (simp_all add: demo_def)

lemma demo_laws: "base64_laws demo" "aead_law demo" "agreement_law demo" "signature_law demo"
proof -
  have "concat (map hex_pair b) \<noteq> []" if "b \<noteq> []" for b :: "byte list"
    using that length_hex_pairs [of b] by (metis length_0_conv mult_is_0 zero_neq_numeral)
  then show "base64_laws demo" by (simp add: base64_laws_def decode_pairs_hex_pairs)
  show "aead_law demo" by (simp add: aead_law_def demo_tag_def)
  show "agreement_law demo" by (simp add: agreement_law_def mult.commute)
  show "signature_law demo" by (simp add: signature_law_def)
qed

lemma demo_times:
  "parse_timestamp demo ''2026-08-15T12:00:00Z'' = Inr (1786795200 * second)"
  "parse_timestamp demo ''2026-08-15T12:01:00Z'' = Inr (1786795260 * second)"
  by (simp_all add: parse_timestamp_def demo_def clock_def clock_time_def instant_of_def)

text \<open>Two identities with secrets three and five.\<close>

definition demo_identity :: "bytes32 \<Rightarrow> companion_identity" where
  "demo_identity k = \<lparr>ti_signing_secret = k, ti_agreement_secret = k, ti_signing_public_key = k,
     ti_agreement_public_key = k, ti_device_id = device_id_from_public_keys demo k k, ci_storage_key = 0\<rparr>"

lemma demo_genuine: "genuine demo (demo_identity k)"
  by (simp add: genuine_def demo_identity_def)

lemma hex_identifier: "list_all is_lower_hex_char s \<Longrightarrow> list_all identifier_char s"
  by (auto simp: list_all_iff is_lower_hex_char_def identifier_char_def is_ascii_alphanumeric_def
      is_ascii_lowercase_def Let_def)

lemma demo_device_id: "validate_identifier label (ti_device_id (demo_identity k)) = Inr ()"
proof -
  have "list_all identifier_char (''device_'' @ concat (map hex_pair b))" for b
    using hex_identifier [OF hex_pairs_lower] 
    by (simp add: identifier_char_def is_ascii_alphanumeric_def is_ascii_lowercase_def is_ascii_digit_def is_ascii_uppercase_def)
  then show ?thesis
    by (simp add: validate_identifier_def demo_identity_def device_id_from_public_keys_def base64url_def
        MAX_IDENTIFIER_BYTES_def Let_def)
qed

section \<open>Envelopes\<close>

abbreviation phone :: companion_identity where "phone \<equiv> demo_identity 3"
abbreviation mac :: companion_identity where "mac \<equiv> demo_identity 5"

definition demo_metadata :: envelope_metadata where
  "demo_metadata = \<lparr>em_envelope_id = ''11111111-1111-4111-8111-111111111111'', em_mailbox_id = ''mailbox_fixture'',
     em_recipient_device_id = ti_device_id mac, em_sender_sequence = 1,
     em_created_at = ''2026-08-15T12:00:00Z'', em_expires_at = ''2026-08-15T12:01:00Z''\<rparr>"

definition demo_now :: instant where "demo_now = 1786795200 * second"

lemma demo_uuid: "validate_uuid_v4 ''11111111-1111-4111-8111-111111111111'' = Inr ()"
  by code_simp

lemma demo_identifiers:
  "validate_identifier label ''mailbox_fixture'' = Inr ()"
  "validate_identifier label ''11111111-1111-4111-8111-111111111111'' = Inr ()"
  "validate_identifier label ''workspace_fixture'' = Inr ()" "validate_identifier label ''capability_fixture'' = Inr ()"
  "validate_identifier label ''official-v1'' = Inr ()"
  "validate_identifier label ''session'' = Inr ()"
  by (simp_all add: validate_identifier_def MAX_IDENTIFIER_BYTES_def identifier_char_def
      is_ascii_alphanumeric_def is_ascii_digit_def is_ascii_lowercase_def is_ascii_uppercase_def)

lemma demo_window:
  "0 < maximum \<Longrightarrow> 60 \<le> maximum \<Longrightarrow>
    validate_window demo ''2026-08-15T12:00:00Z'' ''2026-08-15T12:01:00Z'' demo_now maximum MAX_CLOCK_SKEW_SECONDS = Inr ()"
  by (simp add: validate_window_def demo_times within_skew_def shift_def demo_now_def whole_seconds_def
      second_def MAX_CLOCK_SKEW_SECONDS_def)

lemma demo_lifetime: "whole_seconds (1786795260 * second - 1786795200 * second) = 60"
  by (simp add: whole_seconds_def second_def)

lemma demo_header:
  "header_validate_shape demo (sealed_header demo (ti_device_id phone) demo_metadata k n) = Inr ()"
  using demo_lifetime
  by (simp add: header_validate_shape_def sealed_header_def demo_metadata_def demo_uuid demo_identifiers
      demo_device_id demo_times decode_array_encoded [OF demo_laws(1)] MAX_SAFE_SENDER_SEQUENCE_def
      MAX_ENVELOPE_LIFETIME_SECONDS_def Let_def)

lemma demo_to_vec [simp]: "to_vec demo (JObj ms) = bind_result (validate_safe_numbers (JObj ms)) (\<lambda>_. Inr [of_nat (length ms)])"
  by (simp add: to_vec_def)

lemma demo_sealed: "\<exists>envelope. seal_with_material demo phone 5 demo_metadata [1] 7 9 = Inr envelope"
  using demo_header [of 7 9]
  by (simp add: seal_with_material_def Let_def envelope_header_json_def unsigned_envelope_json_def
      envelope_header_members_def sealed_header_def demo_metadata_def json_word_def MAX_SAFE_INTEGER_def
      MAX_ENVELOPE_PLAINTEXT_BYTES_def x25519_def derive_key_def encrypt_def)

definition demo_replay :: replay_window where
  "demo_replay = \<lparr>rw_maximum_per_sender = 8, rw_senders = []\<rparr>"

lemma demo_observed:
  "fst (observe demo_replay (ti_device_id phone) 1 ''11111111-1111-4111-8111-111111111111'') = Inr ReplayNew"
  by (simp add: observe_def demo_device_id demo_identifiers window_of_def demo_replay_def
      bt.get_empty empty_sender_def observe_sender_def)

lemma demo_metadata_window:
  "validate_window demo (em_created_at demo_metadata) (em_expires_at demo_metadata) demo_now
     MAX_ENVELOPE_LIFETIME_SECONDS MAX_CLOCK_SKEW_SECONDS = Inr ()"
  by (simp add: demo_metadata_def demo_window MAX_ENVELOPE_LIFETIME_SECONDS_def)

theorem envelope_round_trip_witness:
  "\<exists>envelope replay'. seal_with_material demo phone 5 demo_metadata [1] 7 9 = Inr envelope
     \<and> open_envelope demo envelope 3 (ti_device_id phone) mac demo_now demo_replay = (Inr [1], replay')
     \<and> (\<forall>later. \<exists>e. fst (open_envelope demo envelope 3 (ti_device_id phone) mac later replay') = Inl e)"
proof -
  obtain envelope where sealed: "seal_with_material demo phone (ti_agreement_public_key mac) demo_metadata [1] 7 9 = Inr envelope"
    using demo_sealed by (auto simp: demo_identity_def [of 5])
  obtain replay' where observed: "observe demo_replay (ti_device_id phone) (em_sender_sequence demo_metadata)
      (em_envelope_id demo_metadata) = (Inr ReplayNew, replay')"
    using demo_observed
    by (cases "observe demo_replay (ti_device_id phone) 1 ''11111111-1111-4111-8111-111111111111''") (auto simp: demo_metadata_def)
  from envelope_round_trip [OF demo_laws demo_genuine demo_genuine sealed _ demo_metadata_window observed]
  have "open_envelope demo envelope (ti_signing_public_key phone) (ti_device_id phone) mac demo_now demo_replay = (Inr [1], replay')
    \<and> (\<forall>later. \<exists>e. fst (open_envelope demo envelope (ti_signing_public_key phone) (ti_device_id phone) mac later replay') = Inl e)"
    by (simp add: demo_metadata_def)
  moreover have "ti_signing_public_key phone = 3" "ti_agreement_public_key mac = 5" by (simp_all add: demo_identity_def)
  ultimately show ?thesis using sealed by auto
qed

lemma demo_opened:
  obtains envelope where "seal_with_material demo phone 5 demo_metadata [1] 7 9 = Inr envelope"
    "oe_header envelope = sealed_header demo (ti_device_id phone) demo_metadata 7 9"
    "open_ciphertext demo envelope 3 (ti_device_id phone) mac demo_now = Inr [1]"
proof -
  obtain envelope where sealed: "seal_with_material demo phone 5 demo_metadata [1] 7 9 = Inr envelope"
    using demo_sealed by blast
  moreover have "oe_header envelope = sealed_header demo (ti_device_id phone) demo_metadata 7 9"
    using sealed by (auto simp: seal_with_material_def Let_def)
  moreover have "open_ciphertext demo envelope (ti_signing_public_key phone) (ti_device_id phone) mac demo_now = Inr [1]"
  proof (rule open_sealed [OF demo_laws demo_genuine demo_genuine _ _ demo_metadata_window])
    show "seal_with_material demo phone (ti_agreement_public_key mac) demo_metadata [1] 7 9 = Inr envelope"
      using sealed by (simp add: demo_identity_def [of 5])
  qed (simp add: demo_metadata_def)
  ultimately show thesis using that by (simp add: demo_identity_def [of 3])
qed

theorem envelopes_delivered_once_witness:
  "\<exists>envelope. seal_with_material demo phone 5 demo_metadata [1] 7 9 = Inr envelope
     \<and> (let a = \<lparr>dl_envelope = envelope, dl_sender_key = 3, dl_sender_device_id = ti_device_id phone, dl_now = demo_now\<rparr>
        in delivered (fst (run_steps (deliver demo mac) demo_replay [a, a])) = [(ti_device_id phone, 1)])"
proof -
  obtain envelope where envelope: "seal_with_material demo phone 5 demo_metadata [1] 7 9 = Inr envelope"
    "oe_header envelope = sealed_header demo (ti_device_id phone) demo_metadata 7 9"
    "open_ciphertext demo envelope 3 (ti_device_id phone) mac demo_now = Inr [1]" by (rule demo_opened)
  let ?a = "\<lparr>dl_envelope = envelope, dl_sender_key = 3, dl_sender_device_id = ti_device_id phone, dl_now = demo_now\<rparr>"
  obtain replay' where "observe demo_replay (ti_device_id phone) 1 ''11111111-1111-4111-8111-111111111111'' = (Inr ReplayNew, replay')"
    using demo_observed
    by (cases "observe demo_replay (ti_device_id phone) 1 ''11111111-1111-4111-8111-111111111111''") auto
  then have first: "deliver demo mac demo_replay ?a = (Inr [1], replay')"
    using envelope(2,3) by (simp add: deliver_def open_envelope_Inr sealed_header_def demo_metadata_def)
  obtain r replay'' where second: "deliver demo mac replay' ?a = (r, replay'')" by fastforce
  have run: "run_steps (deliver demo mac) demo_replay [?a, ?a] = ([(?a, Inr [1]), (?a, r)], replay'')"
    by (simp add: first second)
  have "distinct (delivered [(?a, Inr [1]), (?a, r)])" using envelopes_delivered_once [OF run] by blast
  then have "delivered [(?a, Inr [1]), (?a, r)] = [(ti_device_id phone, 1)]"
    using envelope(2) by (auto simp: delivered_def delivery_slot_def sealed_header_def demo_metadata_def split: if_splits)
  with envelope(1) run show ?thesis by (auto simp: Let_def)
qed

section \<open>Journals\<close>

definition demo_commands :: "nat idempotency_journal" where
  "demo_commands = [(''session'', \<lparr>ce_payload_digest = 1, ce_state = Completed, ce_result = Some 7\<rparr>)]"

definition demo_ops :: "nat journal_op list" where
  "demo_ops = [OpAdmit ''session'' 1, OpAdmit ''official-v1'' 2, OpTransition ''session'' Running, OpAdmit ''official-v1'' 2]"


definition demo_events :: "(string \<times> bytes32 \<times> nat) list" where
  "demo_events = [(''session'', 1, 10), (''official-v1'', 2, 20), (''session'', 1, 10), (''mailbox_fixture'', 3, 30)]"

theorem cursor_journal_refines_log_witness:
  "\<exists>j. cursor_journal_new 2 = Inr j
     \<and> (let r = run_steps (\<lambda>j (event_id, digest, event). cursor_append j event_id digest event) j demo_events
        in map snd (fst r) = [Inr 1, Inr 2, Inr 1, Inr 3]
           \<and> cursor_catch_up (snd r) 1 10 = Inr (CatchUpEvents [(2, ''official-v1'', 20), (3, ''mailbox_fixture'', 30)] 4))"
proof -
  have log: "run_steps (log_append 2) [] demo_events = (zip demo_events [Inr 1, Inr 2, Inr 1, Inr 3],
      [(''session'', 1, 10), (''official-v1'', 2, 20), (''mailbox_fixture'', 3, 30)])"
    by (simp add: demo_events_def log_append_def demo_identifiers retained_at_def retained_def upt_conv_Cons)
  obtain j :: "nat cursor_journal" where j: "cursor_journal_new 2 = Inr j"
    by (simp add: cursor_journal_new_def)
  let ?r = "run_steps (\<lambda>j (event_id, digest, event). cursor_append j event_id digest event) j demo_events"
  have "\<exists>L. run_steps (log_append 2) [] demo_events = (fst ?r, L)
    \<and> (\<forall>after limit. 0 < after \<longrightarrow> 1 \<le> limit \<longrightarrow> limit \<le> 10000 \<longrightarrow>
        cursor_catch_up (snd ?r) after limit = Inr (if unat after + 2 < length L
          then SnapshotRequired (of_nat (Suc (length L - 2))) (of_nat (Suc (length L)))
          else CatchUpEvents (take limit (drop (unat after) (numbered L))) (of_nat (Suc (length L)))))"
    by (rule cursor_journal_refines_log [OF j]) simp
  then have "fst ?r = zip demo_events [Inr 1, Inr 2, Inr 1, Inr 3]"
    "cursor_catch_up (snd ?r) 1 10 = Inr (CatchUpEvents [(2, ''official-v1'', 20), (3, ''mailbox_fixture'', 30)] 4)"
    by (auto simp: log numbered_def upt_conv_Cons)
  then show ?thesis using j by (auto simp: Let_def demo_events_def)
qed

section \<open>Capabilities\<close>

definition demo_grant_body :: capability_grant_body where
  "demo_grant_body = \<lparr>cg_schema = CAPABILITY_GRANT_SCHEMA, cg_capability_id = ''capability_fixture'',
     cg_workspace_id = ''workspace_fixture'', cg_device_id = ti_device_id phone,
     cg_allowed_actions = [WorkspaceRead, FeedbackWrite], cg_issued_at = ''2026-08-15T12:00:00Z'',
     cg_expires_at = None, cg_revocation_epoch = 0,
     cg_studio_signing_public_key = signing_public_key_base64url demo mac\<rparr>"

definition demo_command_body :: command_body where
  "demo_command_body = \<lparr>cb_schema = [], cb_command_id = ''session'', cb_workspace_id = ''workspace_fixture'',
     cb_capability_id = ''capability_fixture'', cb_author_device_id = [],
     cb_created_at = ''2026-08-15T12:00:00Z'', cb_payload = WorkspaceSnapshotRequest\<rparr>"

definition demo_registry :: capability_registry where
  "demo_registry = \<lparr>cy_workspace_id = ''workspace_fixture'', cy_device_epochs = [], cy_revoked_capabilities = {}\<rparr>"

lemma demo_granted:
  obtains g c where "grant_sign demo demo_grant_body mac = Inr g" "command_sign demo phone demo_command_body = Inr c"
    "gr_body g = demo_grant_body" "cb_payload (cc_body c) = WorkspaceSnapshotRequest"
    "authorize demo demo_registry g WorkspaceRead 5 demo_now = Inr ()"
    "authorize_command demo demo_registry g c 3 5 demo_now = Inr ()"
proof -
  have "grant_validate_shape demo demo_grant_body = Inr ()"
    by (simp add: grant_validate_shape_def demo_grant_body_def demo_identifiers demo_device_id demo_times
        less_capability_action_def signing_public_key_base64url_def decode_array_encoded [OF demo_laws(1)])
  then obtain g where g: "grant_sign demo demo_grant_body mac = Inr g" "gr_body g = demo_grant_body"
    by (simp add: grant_sign_def grant_body_json_def grant_members_def demo_grant_body_def json_strings_def json_word_def MAX_SAFE_INTEGER_def)
  obtain c where c: "command_sign demo phone demo_command_body = Inr c" "cb_payload (cc_body c) = WorkspaceSnapshotRequest"
    "cb_workspace_id (cc_body c) = ''workspace_fixture''" "cb_capability_id (cc_body c) = ''capability_fixture''"
    by (simp add: command_sign_def command_validate_shape_def command_body_json_def demo_command_body_def demo_identifiers
        demo_device_id demo_times Let_def)
  have "grant_verify demo g (ti_signing_public_key mac) demo_now = Inr ()"
    by (rule grant_sign_verifies [OF demo_laws(1,4) demo_genuine g(1)])
      (simp add: grant_window_def demo_grant_body_def demo_times shift_def demo_now_def second_def MAX_CLOCK_SKEW_SECONDS_def)
  then have gv: "grant_verify demo g 5 demo_now = Inr ()" by (simp add: demo_identity_def)
  have "command_verify demo c (ti_signing_public_key phone) (ti_device_id phone) demo_now = Inr ()"
    by (rule command_sign_verifies [OF demo_laws(1,4) demo_genuine c(1), of "1786795200 * second"
          "1786795170 * second" _ "1789387200 * second"])
      (simp_all add: demo_command_body_def demo_times shift_def demo_now_def second_def MAX_CLOCK_SKEW_SECONDS_def MAX_COMMAND_AGE_SECONDS_def)
  then have cv: "command_verify demo c 3 (ti_device_id phone) demo_now = Inr ()" by (simp add: demo_identity_def [of 3])
  have "authorize demo demo_registry g WorkspaceRead 5 demo_now = Inr ()"
    using gv g(2) by (simp add: authorize_def demo_registry_def demo_grant_body_def current_epoch_def bt.get_empty Let_def)
  moreover from this have "authorize_command demo demo_registry g c 3 5 demo_now = Inr ()"
    using cv c g(2) by (simp add: authorize_command_def demo_registry_def demo_grant_body_def Let_def)
  ultimately show thesis using that g c by blast
qed


theorem revocation_final_witness:
  "\<exists>g revoked. authorize demo demo_registry g WorkspaceRead 5 demo_now = Inr ()
     \<and> registry_step demo_registry (RevokeDevice (ti_device_id phone)) = (Inr (), revoked)
     \<and> authorize demo (snd (run_steps registry_step revoked [RestoreEpoch (ti_device_id phone) 9])) g WorkspaceRead 5 demo_now \<noteq> Inr ()"
proof (rule demo_granted)
  fix g c
  assume g: "gr_body g = demo_grant_body" "authorize demo demo_registry g WorkspaceRead 5 demo_now = Inr ()"
  have device: "cg_device_id (gr_body g) = ti_device_id phone" by (simp add: g(1) demo_grant_body_def)
  have "checked_add (0 :: u64) 1 = Some 1" by (simp add: checked_add_def)
  then obtain revoked where revoked: "registry_step demo_registry (RevokeDevice (ti_device_id phone)) = (Inr (), revoked)"
    by (simp add: revoke_device_def demo_device_id current_epoch_def demo_registry_def bt.get_empty)
  let ?run = "run_steps registry_step revoked [RestoreEpoch (ti_device_id phone) 9]"
  have "authorize demo (snd ?run) g WorkspaceRead 5 demo_now \<noteq> Inr ()"
    using revocation_final [OF g(2), of "RevokeDevice (ti_device_id phone)" revoked
        "[RestoreEpoch (ti_device_id phone) 9]" "fst ?run" "snd ?run"] revoked
    by (simp add: device)
  with g(2) revoked show ?thesis by blast
qed

section \<open>Pairing\<close>

definition demo_terms :: session_terms where
  "demo_terms = \<lparr>sn_workspace_id = ''workspace_fixture'', sn_studio_device_id = ti_device_id mac,
     sn_relay_id = ''official-v1'', sn_issued_at = ''2026-08-15T12:00:00Z'', sn_expires_at = ''2026-08-15T12:01:00Z''\<rparr>"

lemma demo_text: "validate_text label ''phone'' 256 = Inr ()"
  by (simp add: validate_text_def str_trim_def utf8_width_def Let_def is_whitespace_def)

lemma demo_invited:
  obtains i store1 where "insert_with_secret demo [] ''session'' demo_terms mac 7 = (Inr i, store1)"
    "ib_session_id (pi_body i) = ''session''" "ib_workspace_id (pi_body i) = ''workspace_fixture''"
    "ib_studio_ephemeral_agreement_public_key (pi_body i) = base64url demo (to_be_bytes (7 :: bytes32))"
  using demo_lifetime
  by (simp add: insert_with_secret_def bt_contains_key_def bt.get_empty invitation_sign_def invitation_validate_shape_def
      demo_terms_def demo_identifiers demo_device_id demo_times signing_public_key_base64url_def
      array_ok_def decode_array_encoded [OF demo_laws(1)] PAIRING_INVITATION_LIFETIME_SECONDS_def invitation_members_def)

lemma demo_proved:
  assumes "ib_session_id (pi_body i) = ''session''" "ib_workspace_id (pi_body i) = ''workspace_fixture''"
    "ib_studio_ephemeral_agreement_public_key (pi_body i) = base64url demo (to_be_bytes (7 :: bytes32))"
  shows "\<exists>p. proof_create demo i phone ''phone'' ''2026-08-15T12:00:00Z'' = Inr p"
proof -
  have "identity_agree demo phone 7 = Inr 21" by (simp add: identity_agree_def x25519_def demo_identity_def)
  then show ?thesis
    by (simp add: proof_create_def invitation_digest_def invitation_json_def invitation_members_def proof_members_def
        assms proof_validate_shape_def demo_identifiers demo_device_id demo_text demo_times derive_key_def
        signing_public_key_base64url_def agreement_public_key_base64url_def decode_array_encoded [OF demo_laws(1)] Let_def)
qed

lemma demo_in_window:
  "proof_in_window (1786795200 * second) (1786795200 * second) (1786795260 * second) demo_now = Inr True"
  by (simp add: proof_in_window_def within_skew_def shift_def demo_now_def second_def MAX_CLOCK_SKEW_SECONDS_def)

theorem pairing_completes_witness:
  "\<exists>i store1 p store2. insert_with_secret demo [] ''session'' demo_terms mac 7 = (Inr i, store1)
     \<and> proof_create demo i phone ''phone'' ''2026-08-15T12:00:00Z'' = Inr p
     \<and> consume demo store1 ''session'' p 5 allowlist_official demo_now = (Inr (pp_body p), store2)
     \<and> session_state store2 ''session'' = Some SessionConsumed"
proof (rule demo_invited)
  fix i store1
  assume i: "insert_with_secret demo [] ''session'' demo_terms mac 7 = (Inr i, store1)"
    "ib_session_id (pi_body i) = ''session''" "ib_workspace_id (pi_body i) = ''workspace_fixture''"
    "ib_studio_ephemeral_agreement_public_key (pi_body i) = base64url demo (to_be_bytes (7 :: bytes32))"
  obtain p where p: "proof_create demo i phone ''phone'' ''2026-08-15T12:00:00Z'' = Inr p"
    using demo_proved [OF i(2-4)] by blast
  have "\<exists>store2. consume demo store1 ''session'' p (ti_signing_public_key mac) allowlist_official demo_now = (Inr (pp_body p), store2)
    \<and> session_state store2 ''session'' = Some SessionConsumed
    \<and> (\<forall>p' key relays later x. fst (consume demo store2 ''session'' p' key relays later) \<noteq> Inr x)"
    by (rule pairing_completes [OF demo_laws(1,3,4) demo_genuine demo_genuine i(1) p _ _ demo_times(1) _ _ demo_in_window])
      (simp_all add: demo_terms_def demo_times demo_window allowlist_official_def PAIRING_INVITATION_LIFETIME_SECONDS_def)
  then have "\<exists>store2. consume demo store1 ''session'' p 5 allowlist_official demo_now = (Inr (pp_body p), store2)
    \<and> session_state store2 ''session'' = Some SessionConsumed"
    by (auto simp: demo_identity_def [of 5])
  with i(1) p show ?thesis by blast
qed


section \<open>Blobs and pages\<close>

definition demo_png :: "byte list" where
  "demo_png = PNG_SIGNATURE @ [0, 0, 0, 13] @ str_bytes ''IHDR'' @ [0, 0, 0, 1] @ [0, 0, 0, 1]"

lemma demo_png_facts: "length demo_png = 24" "validate_image ''image/png'' demo_png = Inr ()"
  by (simp add: demo_png_def PNG_SIGNATURE_def)
    (simp add: validate_image_def valid_png_header_def demo_png_def PNG_SIGNATURE_def u32_at_def str_bytes_def
      from_be_bytes_def be_nat_def)

lemma demo_blob:
  obtains b c where "blob_new demo ''session'' ''phone'' ''image/png'' demo_png = Inr b" "blob_chunks demo b = Inr [c]"
proof -
  have name: "validate_text label ''phone'' 512 = Inr ()" for label
    by (simp add: validate_text_def str_trim_def utf8_width_def Let_def is_whitespace_def)
  have ne: "demo_png \<noteq> []" using demo_png_facts(1) by auto
  have meta: "validate_reference_metadata demo ''session'' ''phone'' ''image/png'' 24
      (base64url demo (to_be_bytes (h :: bytes32))) = Inr ()" for h
    by (simp add: validate_reference_metadata_def demo_identifiers name decode_array_encoded [OF demo_laws(1)]
        MAX_REFERENCE_BLOB_BYTES_def)
  define b where "b = \<lparr>bl_schema = REFERENCE_BLOB_SCHEMA, bl_blob_id = ''session'', bl_origin_name = ''phone'',
    bl_media_type = ''image/png'', bl_byte_length = 24,
    bl_sha256 = base64url demo (to_be_bytes (hash demo demo_png)), bl_bytes = base64url demo demo_png\<rparr>"
  have decoded: "blob_decoded_bytes demo b = Inr demo_png"
    by (simp add: b_def blob_decoded_bytes_def decode_base64url_encoded [OF demo_laws(1) ne] demo_png_facts(1) MAX_REFERENCE_BLOB_BYTES_def)
  then have valid: "blob_validate demo b = Inr ()"
    using meta demo_png_facts by (simp add: blob_validate_def) (simp add: b_def)
  have new: "blob_new demo ''session'' ''phone'' ''image/png'' demo_png = Inr b"
    using valid by (simp add: blob_new_def b_def length_u64_def demo_png_facts(1))
  let ?c = "chunk_of demo b 0 1 demo_png"
  have slice: "slice_chunks MAX_REFERENCE_CHUNK_BYTES demo_png = [demo_png]"
    using ne demo_png_facts(1) by (subst slice_chunks.simps) (simp add: MAX_REFERENCE_CHUNK_BYTES_def slice_chunks.simps)
  have ceil: "div_ceil 24 MAX_REFERENCE_CHUNK_BYTES = 1" "div_ceil MAX_REFERENCE_BLOB_BYTES MAX_REFERENCE_CHUNK_BYTES = 8"
    by (simp_all add: div_ceil_def MAX_REFERENCE_CHUNK_BYTES_def MAX_REFERENCE_BLOB_BYTES_def)
  have "chunk_decoded_bytes demo ?c = Inr demo_png"
    by (simp add: chunk_of_def chunk_decoded_bytes_def decode_base64url_encoded [OF demo_laws(1) ne] demo_png_facts(1) MAX_REFERENCE_CHUNK_BYTES_def)
  then have "chunk_validate demo ?c = Inr ()"
    using meta ceil
    by (simp add: chunk_validate_def) (simp add: chunk_of_def b_def expected_chunk_length_def length_u64_def demo_png_facts(1) MAX_REFERENCE_CHUNK_BYTES_def)
  then have "blob_chunks demo b = Inr [?c]"
    using valid decoded slice ceil demo_png_facts(1) by (simp add: blob_chunks_def chunk_new_def enumerate_eq_zip)
  with new that show thesis by blast
qed

theorem chunks_reassemble_witness:
  "\<exists>b c. blob_new demo ''session'' ''phone'' ''image/png'' demo_png = Inr b \<and> blob_chunks demo b = Inr [c]
     \<and> completions (fst (run_steps (admit demo) [] [c, c])) = [b]"
proof (rule demo_blob)
  fix b c
  assume b: "blob_new demo ''session'' ''phone'' ''image/png'' demo_png = Inr b" "blob_chunks demo b = Inr [c]"
  have "completions (fst (run_steps (admit demo) [] [c, c])) = [b]"
    using chunks_reassemble [OF demo_laws(1) b(2), of "[c, c]" "fst (run_steps (admit demo) [] [c, c])"
        "snd (run_steps (admit demo) [] [c, c])"] by simp
  with b show ?thesis by blast
qed

lemma mailbox_pages_ordered_instance:
  "\<exists>envelope. seal_with_material demo phone 5 demo_metadata [1] 7 9 = Inr envelope
     \<and> (let pages = [\<lparr>mpg_schema = ''tohseno.companion-mailbox-page/1'',
              mpg_envelopes = [\<lparr>cen_cursor = 4, cen_envelope = envelope\<rparr>], mpg_next_cursor = 4, mpg_head_cursor = 4, mpg_has_more = False\<rparr>]
        in pages_from demo ''mailbox_fixture'' 3 pages \<and> sorted_wrt (<) (3 # page_cursors pages)
           \<and> last (3 # page_cursors pages) = 4)"
proof (rule demo_opened)
  fix envelope
  assume e: "seal_with_material demo phone 5 demo_metadata [1] 7 9 = Inr envelope"
    "oe_header envelope = sealed_header demo (ti_device_id phone) demo_metadata 7 9"
    "open_ciphertext demo envelope 3 (ti_device_id phone) mac demo_now = Inr [1]"
  let ?pages = "[\<lparr>mpg_schema = ''tohseno.companion-mailbox-page/1'', mpg_envelopes = [\<lparr>cen_cursor = 4, cen_envelope = envelope\<rparr>],
    mpg_next_cursor = 4, mpg_head_cursor = 4, mpg_has_more = False\<rparr>]"
  have "validate_relay_shape demo envelope = Inr ()" using e(3) by (auto simp: open_ciphertext_def Let_def)
  then have pages: "pages_from demo ''mailbox_fixture'' 3 ?pages"
    using e(2) by (simp add: validate_routing_def validate_schema_def demo_identifiers MAX_SAFE_RELAY_INTEGER_def
        MAX_PAGE_ENVELOPES_def sealed_header_def demo_metadata_def)
  have "sorted_wrt (<) (3 # page_cursors ?pages) \<and> last (3 # page_cursors ?pages) = 4"
    using mailbox_pages_ordered [OF pages] by simp
  with e(1) pages show ?thesis by (auto simp: Let_def)
qed

end
