(* ===== verification/Witnesses.thy ===== *)
theory Witnesses
  imports Samples
begin

text \<open>
  The properties with hypotheses, applied to the sample lineage and to further concrete
  inputs on which their hypotheses hold.
\<close>

section \<open>The sample lineage\<close>

lemma sample_split: "take 7 sample_lineage @ drop 7 sample_lineage = sample_lineage"
  "take 7 sample_lineage \<noteq> []"
  by (simp_all add: sample_lineage_def)

theorem reduction_splits_witness:
  "\<exists>st. reduce_lineage sample_externals (take 7 sample_lineage) = Inr st
     \<and> apply_lineage_actions sample_externals st (drop 7 sample_lineage) = (Inr (), s14)"
  using reduction_splits [of "take 7 sample_lineage" sample_externals "drop 7 sample_lineage" s14]
  by (simp only: sample_split sample_reduce_lineage simp_thms if_True)

theorem lineage_authority_witness:
  "\<exists>com. payload (action (hd sample_lineage)) = CommitmentPayload com
     \<and> run_log authority_step (sc_initial_controller com, sc_initial_controller_key com) sample_lineage
         = Inr (sample_heir, sample_heir_key)
     \<and> (\<forall>x \<in> set sample_lineage. signed_verify sample_externals x = Inr ())"
  using lineage_authority [OF sample_reduce_lineage] by (simp add: s14_def s13_def cursor_at_def)



lemma reduced_state_position_instance:
  "unat (st_sequence s14) = 14 \<and> st_head s14 = ss_digest (signature x14)
     \<and> list_all (\<lambda>x. action_shot_id (action x) = st_shot_id s14) sample_lineage"
  using reduced_state_position [OF sample_reduce_lineage]
  by (simp add: sample_lineage_def)

abbreviation sample_versions :: "version_record list" where
  "sample_versions \<equiv> [sample_version 1 100 264, sample_version 2 200 267]"

lemma sample_final_expression:
  "bt_get (st_expressions s14) 5 = Some (sample_es [sample_organ] sample_versions)"
  by (simp add: s14_def s13_def s12_def s11_def cursor_at_def bt_get_def)

theorem accepted_version_verified_witness:
  "\<exists>ys x zs s r fs. sample_lineage = ys @ x # zs \<and> reduce_lineage sample_externals ys = Inr s
     \<and> payload (action x) = VerificationResultPayload r \<and> ss_digest (signature x) = 267
     \<and> (\<exists>y \<in> set zs. payload (action y) = VersionPayload (sample_version 2 200 267))
     \<and> list_all vg_passed (vf_gates r) \<and> bt_get (st_expressions s) 5 = Some fs
     \<and> gates_cover sample_externals r (bt_values (es_organs fs))"
proof -
  have "sample_version 2 200 267 \<in> set (es_versions (sample_es [sample_organ] sample_versions))" by simp
  from accepted_version_verified [OF sample_reduce_lineage sample_final_expression this]
  show ?thesis by (simp only: sample_version_fields) blast
qed

theorem reduced_state_structure_witness:
  "organs_wf 5 (es_organs (sample_es [sample_organ] sample_versions))
     \<and> map (\<lambda>v. unat (vr_ordinal v)) sample_versions = [1, 2]
     \<and> version_ids_unique (st_expressions s14)"
  using reduced_state_structure [OF sample_reduce_lineage sample_final_expression] by simp

text \<open>The same lineage with its last action signed again.\<close>

definition x14_resigned :: signed_lineage_action where
  "x14_resigned = x14\<lparr>signature := (signature x14)\<lparr>ss_signature := \<lparr>sig_r = 13, sig_s = 2\<rparr>\<rparr>\<rparr>"

definition sample_resigned :: "signed_lineage_action list" where
  "sample_resigned = take 13 sample_lineage @ [x14_resigned]"

lemma x14_resigned_fields [simp]: "action x14_resigned = action x14"
  "ss_public_key (signature x14_resigned) = ss_public_key (signature x14)"
  "ss_digest (signature x14_resigned) = ss_digest (signature x14)"
  by (simp_all add: x14_resigned_def)

lemma x14_resigned_signed: "well_signed sample_externals x14_resigned"
proof -
  have low: "is_low_s \<lparr>sig_r = 13, sig_s = 2\<rparr>" by (simp add: is_low_s_iff p256_order_def)
  have "action_validate sample_externals (action x14) = Inr ()"
    unfolding x14_def by (rule sample_validate [OF sample_oks(14)])
  moreover have "sha256_commitment sample_externals (action_json (action x14)) = Inr (ss_digest (signature x14))"
    unfolding x14_def by (subst sample_action_digest) simp_all
  moreover have "sidecar_validate sample_externals (signature x14_resigned) = Inr ()"
    by (simp add: sidecar_validate_def x14_resigned_def x14_def sample_action_def low sample_heir_key_def)
  moreover have "verify_digest sample_externals (ss_public_key (signature x14)) (ss_digest (signature x14))
      \<lparr>sig_r = 13, sig_s = 2\<rparr> = Inr ()"
    by (simp add: verify_digest_ok low x14_def sample_heir_key_def)
  moreover have "ss_signature (signature x14_resigned) = \<lparr>sig_r = 13, sig_s = 2\<rparr>"
    by (simp add: x14_resigned_def)
  moreover have "timestamp (action x14) = sample_time" by (simp add: x14_def)
  ultimately show ?thesis by (simp add: well_signed_iff signed_verify_def sidecar_verify_def)
qed

lemma x14_resigned_follows: "follows E x x14_resigned = follows E x x14"
  by (simp add: follows_def extends_anchor_def)

lemma sample_resigned_reduces: "reduce_lineage sample_externals sample_resigned = Inr s14"
proof -
  have "list_all (well_signed sample_externals) sample_resigned"
    using sample_segment x14_resigned_signed
    by (simp add: segment_spec_def sample_resigned_def sample_lineage_def)
  moreover have "successively (follows sample_externals) sample_resigned"
    using sample_segment
    by (simp add: segment_spec_def sample_resigned_def sample_lineage_def x14_resigned_follows)
  ultimately have "segment_spec sample_externals sample_resigned None"
    using sample_segment by (simp add: segment_spec_def anchored_at_def sample_resigned_def sample_lineage_def)
  moreover have "apply_one sample_externals s13 x14_resigned = Inr s14"
    using step14 by (simp add: apply_one_def)
  ultimately show ?thesis
    unfolding reduce_lineage_iff reduces_def
    by (simp add: sample_resigned_def sample_lineage_def step1 step2 step3 step4 step5 step6 step7
        step8 step9 step10 step11 step12 step13)
qed

theorem head_determines_history_witness:
  "reduce_lineage sample_externals sample_resigned = Inr s14 \<and> sample_resigned \<noteq> sample_lineage
     \<and> (map action sample_lineage = map action sample_resigned \<and> s14 = s14
        \<or> (\<exists>x \<in> set sample_lineage. \<exists>y \<in> set sample_resigned.
             commitment_collision sample_externals (action_json (action x)) (action_json (action y))))"
proof -
  have "sample_resigned \<noteq> sample_lineage"
    by (simp add: sample_resigned_def sample_lineage_def x14_resigned_def x14_def sample_action_def)
  with head_determines_history [OF sample_reduce_lineage sample_resigned_reduces refl]
  show ?thesis using sample_resigned_reduces by blast
qed

theorem single_origin_witness:
  "payload (action x1) = CommitmentPayload (st_commitment s14)
     \<and> [r. x \<leftarrow> sample_lineage, IntentionPayload r \<leftarrow> [payload (action x)]] = [sample_intention]
     \<and> intention_commitment sample_externals sample_intention
         = Inr (sc_intention_commitment (st_commitment s14))"
proof -
  have "st_intention s14 = Some sample_intention" by (simp add: sample_state_defs)
  moreover have "hd sample_lineage = x1" by (simp add: sample_lineage_def)
  ultimately show ?thesis using single_origin [OF sample_reduce_lineage] by simp
qed

theorem genome_revisions_contiguous_witness:
  "accepted_revisions sample_lineage = [1]
     \<and> genome_in_force sample_lineage \<lparr>ag_genome = sample_genome, ag_proposal_action = 260,
         ag_acceptance_action = 261\<rparr>"
proof -
  have "length (records_of acceptance_of sample_lineage) = 1"
    by (simp add: records_of_def sample_lineage_def sample_x_defs)
  moreover have "st_accepted_genome s14 = Some \<lparr>ag_genome = sample_genome, ag_proposal_action = 260,
      ag_acceptance_action = 261\<rparr>" by (simp add: sample_state_defs)
  ultimately show ?thesis using genome_revisions_contiguous [OF sample_reduce_lineage] by simp
qed

theorem evolutions_lawful_witness: "evolution_lawful sample_lineage s14 sample_evolution"
  by (rule evolutions_lawful [OF sample_reduce_lineage, of 269])
    (simp add: s14_def s13_def s12_def cursor_at_def)

section \<open>Typed data\<close>

lemma sample_digest_last: "sample_digest (bs @ to_be_bytes w) = sample_digest (to_be_bytes (w :: bytes32))"
proof -
  have "drop (length (bs @ to_be_bytes w) - 4) (bs @ to_be_bytes w)
      = drop (length (to_be_bytes w) - 4) (to_be_bytes w)"
    by simp
  then show ?thesis unfolding sample_digest_def by (simp only:)
qed

lemma sample_hash_words:
  assumes "ws \<noteq> []"
  shows "hash_words sample_externals ws = sample_digest (to_be_bytes (last ws))"
proof -
  have "hash_words sample_externals (vs @ [w]) = sample_digest (to_be_bytes w)" for vs w
    by (simp add: hash_words_def keccak256_def sample_digest_last)
  from this [of "butlast ws" "last ws"] show ?thesis using assms by simp
qed

abbreviation sample_domain :: "string \<Rightarrow> string \<Rightarrow> eip712_domain" where
  "sample_domain name version \<equiv> \<lparr>dom_name = name, dom_version = version,
     dom_chain_id = ROBINHOOD_CHAIN_ID, dom_verifying_contract = 5\<rparr>"

definition sample_registration :: "shot_id \<Rightarrow> registry_action_v2" where
  "sample_registration s = RegisterShot s 7 2 3 0 9"

abbreviation sample_registry :: eip712_domain where
  "sample_registry \<equiv> sample_domain SHOT_REGISTRY_DOMAIN SHOT_REGISTRY_V2_EIP712_VERSION"

lemmas sample_typed_simps = nonzero_address_def nonzero_bytes32_def MAX_SAFE_JSON_INTEGER_def
  validate_for_version_def validate_for_def is_some_and_def sample_hash_words

lemma sample_registry_digest:
  "\<exists>h. registry_digest sample_externals (sample_registration 1) sample_registry = Inr h
     \<and> registry_digest sample_externals (sample_registration 4) sample_registry = Inr h"
  by (simp add: registry_digest_def registry_struct_hash_def registry_action_validate_def
      sample_registration_def sample_typed_simps)

lemma registry_digest_binds_instance:
  "\<exists>h. registry_digest sample_externals (sample_registration 1) sample_registry = Inr h
     \<and> registry_digest sample_externals (sample_registration 4) sample_registry = Inr h
     \<and> list_ex2 (collide sample_externals)
         (hashed_inputs sample_externals (registry_type_string (sample_registration 1))
           (registry_struct_words sample_externals (sample_registration 1)) sample_registry)
         (hashed_inputs sample_externals (registry_type_string (sample_registration 4))
           (registry_struct_words sample_externals (sample_registration 4)) sample_registry)"
proof -
  have "sample_registration 1 \<noteq> sample_registration 4" by (simp add: sample_registration_def)
  then show ?thesis using sample_registry_digest registry_digest_binds by blast
qed

abbreviation sample_public :: eip712_domain where
  "sample_public \<equiv> sample_domain (expected_domain_name (ClaimHandle 1 2 0 9)) EIP712_VERSION"

lemma public_digest_binds_instance:
  "\<exists>h. public_digest sample_externals (ClaimHandle 1 2 0 9) sample_public = Inr h
     \<and> public_digest sample_externals (ClaimHandle 4 2 0 9) sample_public = Inr h
     \<and> list_ex2 (collide sample_externals)
         (hashed_inputs sample_externals (public_type_string (ClaimHandle 1 2 0 9))
           (public_struct_words sample_externals (ClaimHandle 1 2 0 9)) sample_public)
         (hashed_inputs sample_externals (public_type_string (ClaimHandle 4 2 0 9))
           (public_struct_words sample_externals (ClaimHandle 4 2 0 9)) sample_public)"
proof -
  obtain h where "public_digest sample_externals (ClaimHandle 1 2 0 9) sample_public = Inr h"
    "public_digest sample_externals (ClaimHandle 4 2 0 9) sample_public = Inr h"
    by (simp add: public_digest_def public_struct_hash_def public_action_validate_def sample_typed_simps)
  with public_digest_binds [OF this] show ?thesis by simp
qed

abbreviation sample_account_domain :: eip712_domain where
  "sample_account_domain \<equiv> sample_domain BUILDER_ACCOUNT_DOMAIN EIP712_VERSION"

definition sample_pairing :: pairing_request where
  "sample_pairing = \<lparr>pr_schema = PAIRING_SCHEMA, pr_builder_id = sample_builder,
     pr_proposed_device = \<lparr>dk_key_id = device_key_id sample_externals sample_key, dk_public_key = sample_key\<rparr>,
     pr_requested_permissions = [DeviceAdminPermission, ProtocolPermission], pr_challenge = 1,
     pr_nonce = 2, pr_expires_at = 9, pr_network = \<lparr>pn_chain_id = ROBINHOOD_CHAIN_ID,
       pn_builder_account = account sample_builder, pn_builder_account_factory = 6\<rparr>\<rparr>"

lemma version_id_binds_instance:
  "version_id_preimage 1 5 1 2 100 \<noteq> version_id_preimage 9 5 1 2 100
     \<and> sha256 sample_externals (version_id_preimage 1 5 1 2 100)
         = sha256 sample_externals (version_id_preimage 9 5 1 2 100)"
proof -
  have "version_id_derive sample_externals 1 5 1 2 100 = version_id_derive sample_externals 9 5 1 2 100"
    by (simp add: sample_version_id)
  from version_id_binds [OF this] show ?thesis by simp
qed

section \<open>Acceptance gates\<close>

lemma sample_organ_gate:
  "organ_acceptance_gate_name sample_externals sample_organ 0
     = Inr (gate_name sample_externals ''core'' 1 ''works'')"
proof -
  have "or_acceptance_tests sample_organ = [''works'']" "or_organ_id sample_organ = ''core''"
    by (simp_all add: sample_organ_def)
  then show ?thesis by (simp add: organ_acceptance_gate_name_def sample_organ_valid)
qed

text \<open>An Organ that requires the same gate although its other declarations differ.\<close>

definition sample_twin :: organ where
  "sample_twin = sample_organ\<lparr>or_provides := [''clock'']\<rparr>"

lemma sample_twin_valid: "organ_validate sample_twin = Inr ()"
  by (simp add: sample_twin_def sample_organ_def organ_validate_def sample_valid_simps)

lemma sample_twin_gate:
  "organ_acceptance_gate_name sample_externals sample_twin 0
     = Inr (gate_name sample_externals ''core'' 1 ''works'')"
proof -
  have "or_acceptance_tests sample_twin = [''works'']" "or_organ_id sample_twin = ''core''"
    by (simp_all add: sample_twin_def sample_organ_def)
  then show ?thesis by (simp add: organ_acceptance_gate_name_def sample_twin_valid)
qed

lemma gate_name_identifies_test_instance:
  "sample_organ \<noteq> sample_twin \<and> or_organ_id sample_organ = or_organ_id sample_twin
     \<and> sha256 sample_externals (str_bytes (or_acceptance_tests sample_organ ! 0))
         = sha256 sample_externals (str_bytes (or_acceptance_tests sample_twin ! 0))"
  using gate_name_identifies_test [OF sample_organ_gate sample_twin_gate]
  by (simp add: sample_twin_def) (simp add: sample_organ_def)

definition sample_edge :: organ where
  "sample_edge = sample_organ\<lparr>or_organ_id := ''edge''\<rparr>"

lemma sample_edge_graph: "capability_graph_digest sample_externals [sample_organ, sample_edge] = Inr 3"
proof -
  have "organ_validate sample_edge = Inr ()"
    by (simp add: sample_edge_def sample_organ_def organ_validate_def sample_valid_simps)
  moreover have "capability_graph_checks (sort_key or_organ_id [sample_organ, sample_edge]) = Inr ()"
    by (simp add: capability_graph_checks_def sample_edge_def sample_organ_def)
  ultimately show ?thesis
    by (simp add: capability_graph_digest_def canonical_capability_graph_bytes_def sample_organ_valid
        canonical_to_vec_def sha256_def sample_digest_singleton)
qed

text \<open>An expression of two Organs with 257 acceptance tests between them.\<close>

definition crowded_organ :: organ where
  "crowded_organ = sample_edge\<lparr>or_acceptance_tests := map show_nat [0..<256]\<rparr>"

lemma crowded_organ_tests: "length (or_acceptance_tests crowded_organ) = 256"
  by (simp add: crowded_organ_def del: upt_rec_numeral)

definition crowded_state :: shot_state where
  "crowded_state = s14\<lparr>st_expressions := [(5, sample_es [sample_organ, crowded_organ] [])]\<rparr>"

theorem too_many_tests_unverifiable_witness:
  "\<exists>e. apply_verification_result sample_externals (action_error 15) 272 (sample_verification 100)
     crowded_state = Inl e"
proof (rule too_many_tests_unverifiable)
  show "bt_get (st_expressions crowded_state) (vf_expression_id (sample_verification 100))
    = Some (sample_es [sample_organ, crowded_organ] [])"
    by (simp add: crowded_state_def bt_get_def)
  show "256 < sum_list (map (\<lambda>q. length (or_acceptance_tests q)) (bt_values (es_organs
      (sample_es [sample_organ, crowded_organ] []))))"
    by (simp add: sample_es_def bt_values_def crowded_organ_tests) (simp add: sample_organ_def)
  show "verification_result_validate (sample_verification 100) = Inr ()"
    by (simp add: sample_verification_valid)
qed

section \<open>The first generation\<close>

definition sample_record :: shot_record where
  "sample_record = \<lparr>sr_protocol = PROTOCOL_NAME, sr_schema = SHOT_SCHEMA, sr_shot_id = 1,
     sr_slug = ''calm-timer'', sr_builder_id = sample_builder, sr_sequence = 1, sr_previous = None,
     sr_fascia = APPLE_FASCIA_ID, sr_bundle_id = ''app.timer'', sr_bundle_version = 1,
     sr_genesis_input_sha256 = 1, sr_source_tree_sha256 = 2, sr_fascia_sha256 = 3,
     sr_factory = \<lparr>fd_implementation = ''factory'', fd_version = ''1'',
       fd_source_commit = ''0123456789012345678901234567890123456789''\<rparr>,
     sr_created_at = sample_time, sr_origin = None\<rparr>"

definition sample_record_sidecar :: "bytes32 \<Rightarrow> signature_sidecar" where
  "sample_record_sidecar s = \<lparr>ss_schema = SIDECAR_SCHEMA, ss_algorithm = P256, ss_digest = 258,
     ss_public_key = sample_key, ss_signature = \<lparr>sig_r = 11, sig_s = s\<rparr>, ss_low_s = True\<rparr>"

lemma sample_record_valid: "shot_record_validate sample_record = Inr ()"
proof -
  have "validate_slug ''slug'' ''calm-timer'' = Inr ()"
    by (simp add: validate_slug_def validate_token_printable is_ascii_lowercase_def is_ascii_digit_def)
  moreover have "validate_bundle_id ''bundle_id'' ''app.timer'' = Inr ()"
    by (simp add: validate_bundle_id_def validate_token_printable bundle_part_bad_def
        is_ascii_alphanumeric_def is_ascii_lowercase_def is_ascii_digit_def)
  moreover have "is_git_object_id ''0123456789012345678901234567890123456789''"
    by (simp add: is_git_object_id_def is_lower_hex_char_def is_ascii_digit_def)
  ultimately show ?thesis
    by (simp add: shot_record_validate_def sample_record_def factory_validate_def
        record_origin_checks_def validate_token_printable is_zero_def)
qed

lemma sample_record_signed:
  assumes "s \<in> {1, 2}"
  shows "record_verify_signature sample_externals sample_record (sample_record_sidecar s) = Inr ()"
proof -
  have low: "is_low_s \<lparr>sig_r = 11, sig_s = s\<rparr>" "s \<noteq> 0"
    using assms by (auto simp: is_low_s_iff p256_order_def)
  have "sha256_commitment sample_externals (shot_record_json sample_record)
      = Inr (sample_digest (be_nat_bytes 4 257))"
    by (simp add: sha256_commitment_def canonical_to_vec_def shot_record_json_def sha256_def
        json_word_def sample_record_def)
  also have "\<dots> = Inr 258" using sample_digest_small [of 257] by simp
  finally show ?thesis
    using low by (simp add: record_verify_signature_def sample_record_valid sidecar_verify_def
        sidecar_validate_def sample_record_sidecar_def verify_digest_ok sample_key_def)
qed

lemma sample_record_lineage:
  assumes "s \<in> {1, 2}"
  shows "verify_lineage sample_externals [(sample_record, sample_record_sidecar s)]
    = Inr (v1_summary [(sample_record, sample_record_sidecar s)])"
proof -
  have "sr_previous sample_record = None" "sr_created_at sample_record = sample_time"
    by (simp_all add: sample_record_def)
  then show ?thesis
    using sample_record_signed [OF assms]
    by (simp add: verify_lineage_iff v1_spec_def v1_entry_spec_def same_shot_def)
qed

lemma legacy_head_determines_records_instance:
  "sample_record_sidecar 1 \<noteq> sample_record_sidecar 2
     \<and> (map fst [(sample_record, sample_record_sidecar 1)] = map fst [(sample_record, sample_record_sidecar 2)]
        \<or> (\<exists>x \<in> {(sample_record, sample_record_sidecar 1)}. \<exists>y \<in> {(sample_record, sample_record_sidecar 2)}.
             commitment_collision sample_externals (shot_record_json (fst x)) (shot_record_json (fst y))))"
proof -
  have "map_option ve_commitment (verified_lineage_head (v1_summary [(sample_record, sample_record_sidecar 1)]))
      = map_option ve_commitment (verified_lineage_head (v1_summary [(sample_record, sample_record_sidecar 2)]))"
    by (simp add: v1_summary_def verified_lineage_head_def evolution_of_entry_def sample_record_sidecar_def)
  from legacy_head_determines_records [OF sample_record_lineage [of 1] sample_record_lineage [of 2] this]
  show ?thesis by (simp add: sample_record_sidecar_def)
qed

section \<open>Identity\<close>

lemma sample_json_chars_plain:
  "list_all (\<lambda>c. is_printable c \<and> c \<noteq> CHR 0x22 \<and> c \<noteq> CHR 0x5C) s \<Longrightarrow>
     sample_json_chars (s @ [CHR 0x22]) = Some s"
  by (induction s) auto

lemma sample_json_plain: "json_plain_strings sample_externals"
  by (simp add: json_plain_strings_def json_quoted_def sample_json_chars_plain)

lemma sample_json_zero: "json_zero_escapes sample_externals"
  by (simp add: json_zero_escapes_def json_quoted_def sample_json_chars_plain)

end
