(* ===== verification/Source_Tree.thy ===== *)
theory Source_Tree
  imports Text_Digest "HOL-Library.Multiset"
begin

text \<open>
  \<open>tree_hash.rs\<close>: the digest of a source tree. A directory is what the walk observes of it:
  the listing of each directory, the metadata and the contents of each entry, every system
  call with its own outcome. The strict digest of sealed worlds (\<open>hash_source_tree\<close>), the
  lenient one of working trees (\<open>hash_working_tree\<close>), and the definitions both share.
  Unicode normalization is the parameter \<open>nfc\<close>.
\<close>

section \<open>What a walk observes\<close>

text \<open>
  The fields of \<open>Metadata\<close> that the code reads. A name is UTF-8 text, or it is not and only
  its lossy display is known. The root of a listing carries its metadata, its contents and
  its listing; each may be an I/O error.
\<close>

datatype file_kind = KindFile | KindDirectory | KindSymlink | KindOther

record metadata =
  md_kind :: file_kind
  md_dev :: u64
  md_ino :: u64
  md_len :: u64
  md_mtime :: int
  md_mtime_nsec :: int
  md_ctime :: int
  md_ctime_nsec :: int

datatype os_name = Utf8Name string | OtherName string

record file_read =
  fr_open :: "string option"
  fr_opened :: "string + metadata"
  fr_bytes :: "string + byte list"
  fr_final :: "string + metadata"

datatype fs_node = FsNode (nd_metadata: "string + metadata") (nd_read: file_read)
    (nd_listing: "string option") (nd_items: fs_items)
  and fs_items = NoItem | ItemError string fs_items | Item os_name fs_node fs_items

fun to_str :: "os_name \<Rightarrow> string option" where
  "to_str (Utf8Name s) = Some s"
| "to_str (OtherName d) = None"

fun os_display :: "os_name \<Rightarrow> string" where
  "os_display (Utf8Name s) = s"
| "os_display (OtherName d) = d"

fun join_slash :: "string list \<Rightarrow> string" where
  "join_slash [] = []"
| "join_slash [p] = p"
| "join_slash (p # q # ps) = p @ ''/'' @ join_slash (q # ps)"

definition relative_display :: "os_name list \<Rightarrow> string" where
  "relative_display names = join_slash (map os_display names)"

text \<open>\<open>root.join(names).display()\<close>: a separator is added unless the root is empty or ends
  with one.\<close>

definition absolute_display :: "string \<Rightarrow> os_name list \<Rightarrow> string" where
  "absolute_display root names =
     (if names = [] then root
      else (if root = [] \<or> last root = CHR ''/'' then root else root @ ''/'') @ relative_display names)"

definition same_file :: "metadata \<Rightarrow> metadata \<Rightarrow> bool" where
  "same_file l r \<longleftrightarrow> md_dev l = md_dev r \<and> md_ino l = md_ino r \<and> md_len l = md_len r
     \<and> md_mtime l = md_mtime r \<and> md_mtime_nsec l = md_mtime_nsec r
     \<and> md_ctime l = md_ctime r \<and> md_ctime_nsec l = md_ctime_nsec r"

text \<open>
  \<open>hash_regular_file\<close> and the \<open>read_regular_file\<close> of \<open>fascia_tree.rs\<close> are one procedure up
  to the constructors of their errors and the digest at the end.
\<close>

definition read_checked ::
  "(string \<Rightarrow> string \<Rightarrow> protocol_error) \<Rightarrow> (string \<Rightarrow> protocol_error) \<Rightarrow> string \<Rightarrow> metadata \<Rightarrow> file_read
     \<Rightarrow> byte list result" where
  "read_checked io changed path initial r =
     bind_result (case fr_open r of Some e \<Rightarrow> Inl (io path e) | None \<Rightarrow> Inr ()) (\<lambda>_.
     bind_result (map_err (io path) (fr_opened r)) (\<lambda>opened.
     bind_result (err_if (md_kind opened \<noteq> KindFile \<or> \<not> same_file initial opened) (changed path)) (\<lambda>_.
     bind_result (map_err (io path) (fr_bytes r)) (\<lambda>bytes.
     bind_result (map_err (io path) (fr_final r)) (\<lambda>final.
     bind_result (err_if (md_kind final = KindSymlink \<or> \<not> same_file initial final
         \<or> md_len opened \<noteq> md_len final \<or> of_nat (length bytes) \<noteq> md_len opened) (changed path)) (\<lambda>_.
       Inr bytes))))))"

definition hash_regular_file :: "externals \<Rightarrow> string \<Rightarrow> metadata \<Rightarrow> file_read \<Rightarrow> bytes32 result" where
  "hash_regular_file E path initial r =
     bind_result (read_checked TreeIo TreeChanged path initial r) (\<lambda>bytes. Inr (sha256 E bytes))"

section \<open>Paths\<close>

definition SOURCE_TREE_DOMAIN :: "byte list" where
  "SOURCE_TREE_DOMAIN = str_bytes (''TOHSENO-SOURCE-TREE-V1'' @ [CHR 0x00])"

definition SELF_REFERENTIAL_EXCLUSIONS :: "string list" where
  "SELF_REFERENTIAL_EXCLUSIONS = [''TOHSENO/shot.json'', ''TOHSENO/signature.json'',
     ''TOHSENO/conformance.json'', ''TOHSENO/embedded-provenance.json'']"

definition EXCLUDED_DIRECTORY_COMPONENTS :: "string list" where
  "EXCLUDED_DIRECTORY_COMPONENTS = [''.git'', ''.tohseno'', ''.build'', ''.swiftpm'', ''DerivedData'',
     ''build'', ''xcuserdata'']"

definition PRIVATE_FILE_NAMES :: "string list" where
  "PRIVATE_FILE_NAMES = [''.DS_Store'', ''.env'', ''build.log'', ''harness.log'', ''prompt.md'', ''TASK.md'']"

definition PRIVATE_EXTENSIONS :: "string list" where
  "PRIVATE_EXTENSIONS = [''log'', ''mobileprovision'', ''p8'', ''p12'', ''pem'', ''pfx'', ''xcuserstate'']"

text \<open>\<open>Path::extension\<close> of a single component: what follows its last dot, unless the dot is
  the first character.\<close>

definition path_extension :: "string \<Rightarrow> string option" where
  "path_extension name =
     (let parts = split_on (CHR ''.'') name in
      if length parts < 2 \<or> (length parts = 2 \<and> hd parts = []) \<or> name = ''..'' then None else Some (last parts))"

definition exclusion_reason :: "string \<Rightarrow> string option" where
  "exclusion_reason path =
     (if List.member SELF_REFERENTIAL_EXCLUSIONS path
      then Some ''protocol sidecar excluded to prevent self-reference'' else None)"

definition forbidden_source_reason :: "string \<Rightarrow> string option" where
  "forbidden_source_reason path =
     (let components = split_on (CHR ''/'') path; file_name = last components in
      if list_ex (List.member EXCLUDED_DIRECTORY_COMPONENTS) components
      then Some ''build, VCS, or user-local directory is forbidden inside source''
      else if List.member PRIVATE_FILE_NAMES file_name
        \<or> (starts_with ''.env.'' file_name \<and> length file_name > 5)
      then Some ''private, temporary, or log file is forbidden inside source''
      else case path_extension file_name of
          None \<Rightarrow> None
        | Some extension \<Rightarrow>
            if List.member PRIVATE_EXTENSIONS extension
            then Some ''signing, log, or user-local artifact is forbidden inside source'' else None)"

text \<open>The checks on paths are the same in \<open>tree_hash.rs\<close> and \<open>fascia_tree.rs\<close>, up to the
  constructor of their error.\<close>

definition path_well_formed :: "(string \<Rightarrow> string) \<Rightarrow> string \<Rightarrow> bool" where
  "path_well_formed nfc path \<longleftrightarrow>
     path \<noteq> [] \<and> \<not> starts_with ''/'' path \<and> \<not> List.member path (CHR 0x5C)
     \<and> \<not> list_ex is_control (str_chars path)
     \<and> \<not> list_ex (\<lambda>component. component = [] \<or> component = ''.'' \<or> component = ''..''
           \<or> nfc component \<noteq> component) (split_on (CHR ''/'') path)"

definition validate_normalized_path :: "(string \<Rightarrow> string) \<Rightarrow> string \<Rightarrow> unit result" where
  "validate_normalized_path nfc path = err_if (\<not> path_well_formed nfc path) (InvalidTreePath path)"

fun normalize_components ::
  "(string \<Rightarrow> string) \<Rightarrow> protocol_error \<Rightarrow> os_name list \<Rightarrow> string list result" where
  "normalize_components nfc e [] = Inr []"
| "normalize_components nfc e (name # names) =
     bind_result (ok_or e (to_str name)) (\<lambda>value.
     let normalized = nfc value in
     bind_result (err_if (normalized = [] \<or> normalized = ''.'' \<or> normalized = ''..'') e) (\<lambda>_.
     bind_result (normalize_components nfc e names) (\<lambda>components.
       Inr (normalized # components))))"

definition normalize_relative_path :: "(string \<Rightarrow> string) \<Rightarrow> os_name list \<Rightarrow> string result" where
  "normalize_relative_path nfc relative =
     bind_result (normalize_components nfc (InvalidTreePath (relative_display relative)) relative)
       (\<lambda>components. let path = join_slash components in
         bind_result (validate_normalized_path nfc path) (\<lambda>_. Inr path))"

section \<open>Walks\<close>

record source_tree_entry =
  te_path :: string
  te_content_sha256 :: bytes32

record source_tree_commitment =
  tc_digest :: bytes32
  tc_entries :: "source_tree_entry list"

definition tree_metadata :: "string \<Rightarrow> fs_node \<Rightarrow> metadata result" where
  "tree_metadata path node = map_err (TreeIo path) (nd_metadata node)"

text \<open>The vector of entries is the concatenation of what the iterations push.\<close>

definition pushed :: "'a list result \<Rightarrow> 'a list result \<Rightarrow> 'a list result" where
  "pushed first rest = bind_result first (\<lambda>es. bind_result rest (\<lambda>fs. Inr (es @ fs)))"

text \<open>\<open>read_dir\<close> of a directory, then the loop over its entries.\<close>

fun walk :: "externals \<Rightarrow> (string \<Rightarrow> string) \<Rightarrow> string \<Rightarrow> os_name list \<Rightarrow> fs_node \<Rightarrow> source_tree_entry list result"
  and walk_items :: "externals \<Rightarrow> (string \<Rightarrow> string) \<Rightarrow> string \<Rightarrow> os_name list \<Rightarrow> fs_items
    \<Rightarrow> source_tree_entry list result" where
  "walk E nfc root directory (FsNode m r listing items) =
     (case listing of
        Some e \<Rightarrow> Inl (TreeIo (absolute_display root directory) e)
      | None \<Rightarrow> walk_items E nfc root directory items)"
| "walk_items E nfc root directory NoItem = Inr []"
| "walk_items E nfc root directory (ItemError e items) = Inl (TreeIo (absolute_display root directory) e)"
| "walk_items E nfc root directory (Item name node items) =
     (let path = directory @ [name]; display = absolute_display root path in
      bind_result (normalize_relative_path nfc path) (\<lambda>normalized.
      bind_result (tree_metadata display node) (\<lambda>md.
        if md_kind md = KindSymlink then Inl (TreeSymlink normalized)
        else if exclusion_reason normalized \<noteq> None then walk_items E nfc root directory items
        else if forbidden_source_reason normalized \<noteq> None then Inl (TreeForbidden normalized)
        else if md_kind md = KindDirectory
        then pushed (walk E nfc root path node) (walk_items E nfc root directory items)
        else if md_kind md = KindFile
        then pushed (bind_result (hash_regular_file E display md (nd_read node)) (\<lambda>digest.
               Inr [\<lparr>te_path = normalized, te_content_sha256 = digest\<rparr>]))
             (walk_items E nfc root directory items)
        else Inl (TreeEntryType normalized))))"

fun walk_lenient :: "externals \<Rightarrow> (string \<Rightarrow> string) \<Rightarrow> string \<Rightarrow> os_name list \<Rightarrow> fs_node
    \<Rightarrow> source_tree_entry list result"
  and walk_lenient_items :: "externals \<Rightarrow> (string \<Rightarrow> string) \<Rightarrow> string \<Rightarrow> os_name list \<Rightarrow> fs_items
    \<Rightarrow> source_tree_entry list result" where
  "walk_lenient E nfc root directory (FsNode m r listing items) =
     (case listing of
        Some e \<Rightarrow> Inl (TreeIo (absolute_display root directory) e)
      | None \<Rightarrow> walk_lenient_items E nfc root directory items)"
| "walk_lenient_items E nfc root directory NoItem = Inr []"
| "walk_lenient_items E nfc root directory (ItemError e items) =
     Inl (TreeIo (absolute_display root directory) e)"
| "walk_lenient_items E nfc root directory (Item name node items) =
     (let path = directory @ [name]; display = absolute_display root path in
      case normalize_relative_path nfc path of
        Inl _ \<Rightarrow> walk_lenient_items E nfc root directory items
      | Inr normalized \<Rightarrow>
          if exclusion_reason normalized \<noteq> None \<or> forbidden_source_reason normalized \<noteq> None
          then walk_lenient_items E nfc root directory items
          else bind_result (tree_metadata display node) (\<lambda>md.
            if md_kind md = KindSymlink then Inl (TreeSymlink normalized)
            else if md_kind md = KindDirectory
            then pushed (walk_lenient E nfc root path node) (walk_lenient_items E nfc root directory items)
            else if md_kind md = KindFile
            then pushed (bind_result (hash_regular_file E display md (nd_read node)) (\<lambda>digest.
                   Inr [\<lparr>te_path = normalized, te_content_sha256 = digest\<rparr>]))
                 (walk_lenient_items E nfc root directory items)
            else walk_lenient_items E nfc root directory items))"

section \<open>The digest of the entries\<close>

definition to_ascii_lowercase :: "string \<Rightarrow> string" where
  "to_ascii_lowercase s = map (\<lambda>c. if is_ascii_uppercase c then char_of ((of_char c :: nat) + 32) else c) s"

text \<open>The loops over a \<open>BTreeMap\<close> of folded paths; \<open>hash_source_tree\<close> also keeps the set of
  exact paths.\<close>

definition fold_collision :: "(string \<Rightarrow> protocol_error) \<Rightarrow> string option \<Rightarrow> string \<Rightarrow> unit result" where
  "fold_collision duplicate previous path =
     (case previous of
        None \<Rightarrow> Inr ()
      | Some p \<Rightarrow> err_if (p \<noteq> path) (duplicate (p @ '' collides with '' @ path @ '' on an Apple filesystem'')))"

fun case_folded_loop :: "(string, string) btree \<Rightarrow> string list \<Rightarrow> unit result" where
  "case_folded_loop seen [] = Inr ()"
| "case_folded_loop seen (path # paths) =
     (let folded = to_ascii_lowercase path in
      bind_result (fold_collision DuplicateTreePath (bt_get seen folded) path) (\<lambda>_.
        case_folded_loop (bt_insert folded path seen) paths))"

fun duplicate_loop :: "string list \<Rightarrow> (string, string) btree \<Rightarrow> string list \<Rightarrow> unit result" where
  "duplicate_loop normalized seen [] = Inr ()"
| "duplicate_loop normalized seen (path # paths) =
     (let folded = to_ascii_lowercase path in
      bind_result (err_if (List.member normalized path) (DuplicateTreePath path)) (\<lambda>_.
      bind_result (fold_collision DuplicateTreePath (bt_get seen folded) path) (\<lambda>_.
        duplicate_loop (path # normalized) (bt_insert folded path seen) paths)))"

fun entries_stream :: "(string \<Rightarrow> string) \<Rightarrow> string option \<Rightarrow> source_tree_entry list \<Rightarrow> byte list result" where
  "entries_stream nfc previous [] = Inr []"
| "entries_stream nfc previous (e # es) =
     bind_result (validate_normalized_path nfc (te_path e)) (\<lambda>_.
     bind_result (err_if (previous = Some (te_path e)) (DuplicateTreePath (te_path e))) (\<lambda>_.
     bind_result (ok_or (InvalidTreePath (te_path e)) (u32_try_from (length (te_path e)))) (\<lambda>len.
     bind_result (entries_stream nfc (Some (te_path e)) es) (\<lambda>rest.
       Inr (to_be_bytes len @ str_bytes (te_path e) @ to_be_bytes (te_content_sha256 e) @ rest)))))"

definition hash_entries :: "externals \<Rightarrow> (string \<Rightarrow> string) \<Rightarrow> source_tree_entry list \<Rightarrow> bytes32 result" where
  "hash_entries E nfc entries =
     (let sorted = sort_key te_path entries in
      bind_result (case_folded_loop [] (map te_path sorted)) (\<lambda>_.
      bind_result (ok_or (InvalidTreePath ''too many files'') (u64_try_from (length sorted))) (\<lambda>count.
      bind_result (entries_stream nfc None sorted) (\<lambda>stream.
        Inr (sha256 E (SOURCE_TREE_DOMAIN @ to_be_bytes count @ stream))))))"

text \<open>The root must be a directory and no symbolic link.\<close>

definition tree_root :: "string \<Rightarrow> fs_node \<Rightarrow> unit result" where
  "tree_root root node =
     bind_result (tree_metadata root node) (\<lambda>md. checks [
       err_if (md_kind md = KindSymlink) (TreeSymlink root),
       err_if (md_kind md \<noteq> KindDirectory) (TreeEntryType root)])"

definition hash_source_tree ::
  "externals \<Rightarrow> (string \<Rightarrow> string) \<Rightarrow> string \<Rightarrow> fs_node \<Rightarrow> source_tree_commitment result" where
  "hash_source_tree E nfc root node =
     bind_result (tree_root root node) (\<lambda>_.
     bind_result (walk E nfc root [] node) (\<lambda>walked.
     let entries = sort_key te_path walked in
     bind_result (duplicate_loop [] [] (map te_path entries)) (\<lambda>_.
     bind_result (hash_entries E nfc entries) (\<lambda>digest.
       Inr \<lparr>tc_digest = digest, tc_entries = entries\<rparr>))))"

definition hash_working_tree ::
  "externals \<Rightarrow> (string \<Rightarrow> string) \<Rightarrow> string \<Rightarrow> fs_node \<Rightarrow> source_tree_commitment result" where
  "hash_working_tree E nfc root node =
     bind_result (tree_root root node) (\<lambda>_.
     bind_result (walk_lenient E nfc root [] node) (\<lambda>walked.
     let entries = sort_key te_path walked in
     bind_result (hash_entries E nfc entries) (\<lambda>digest.
       Inr \<lparr>tc_digest = digest, tc_entries = entries\<rparr>)))"

section \<open>Prefix-free encodings\<close>

text \<open>
  The streams are concatenations of self-delimiting encodings: an encoding determines what
  follows it, so a concatenation determines the list.
\<close>

locale prefix_code =
  fixes enc :: "'a \<Rightarrow> 'b list"
    and valid :: "'a \<Rightarrow> bool"
  assumes enc_nonempty: "valid x \<Longrightarrow> enc x \<noteq> []"
    and enc_prefix_free: "valid x \<Longrightarrow> valid y \<Longrightarrow> enc x @ r = enc y @ s \<Longrightarrow> x = y \<and> r = s"
begin

lemma concat_inject:
  assumes "\<forall>x \<in> set xs. valid x" "\<forall>y \<in> set ys. valid y" "concat (map enc xs) = concat (map enc ys)"
  shows "xs = ys"
  using assms
proof (induction xs arbitrary: ys)
  case Nil
  then show ?case using enc_nonempty by (cases ys) auto
next
  case (Cons x xs)
  show ?case
  proof (cases ys)
    case Nil
    then show ?thesis using Cons.prems enc_nonempty [of x] by simp
  next
    case (Cons y zs)
    with Cons.prems have "x = y \<and> concat (map enc xs) = concat (map enc zs)"
      by (intro enc_prefix_free) auto
    with Cons Cons.IH [of zs] Cons.prems show ?thesis by simp
  qed
qed

end

definition entry_code :: "source_tree_entry \<Rightarrow> byte list" where
  "entry_code e = to_be_bytes (of_nat (length (te_path e)) :: u32) @ str_bytes (te_path e)
     @ to_be_bytes (te_content_sha256 e)"

definition entry_fits :: "source_tree_entry \<Rightarrow> bool" where
  "entry_fits e \<longleftrightarrow> length (te_path e) < 2 ^ 32"

lemma counted_append_inject:
  assumes "to_be_bytes (of_nat (length xs) :: 'w::len word) @ xs @ r = to_be_bytes (of_nat (length ys) :: 'w word) @ ys @ s"
    "length xs < 2 ^ LENGTH('w)" "length ys < 2 ^ LENGTH('w)" "8 dvd LENGTH('w)"
  shows "xs = ys \<and> r = s"
proof -
  have "(of_nat (length xs) :: 'w word) = of_nat (length ys) \<and> xs @ r = ys @ s"
    using assms(1,4) by (simp add: to_be_bytes_inject)
  moreover from this have "unat (of_nat (length xs) :: 'w word) = unat (of_nat (length ys) :: 'w word)" by simp
  then have "length xs = length ys" using assms(2,3) by (simp add: unat_of_nat)
  ultimately show ?thesis by simp
qed

interpretation entry_stream: prefix_code entry_code entry_fits
proof (unfold_locales)
  show "entry_code x \<noteq> []" for x
    by (simp add: entry_code_def flip: length_greater_0_conv)
  show "x = y \<and> r = s" if "entry_fits x" "entry_fits y" "entry_code x @ r = entry_code y @ s" for x y r s
  proof -
    have "str_bytes (te_path x) = str_bytes (te_path y)
        \<and> to_be_bytes (te_content_sha256 x) @ r = to_be_bytes (te_content_sha256 y) @ s"
      by (rule counted_append_inject [where 'w = 32])
        (use that in \<open>simp_all only: entry_code_def entry_fits_def length_str_bytes append_assoc, simp_all\<close>)
    then show ?thesis by (cases x, cases y) simp
  qed
qed

section \<open>The stream of a tree\<close>

definition tree_stream :: "source_tree_entry list \<Rightarrow> byte list" where
  "tree_stream entries =
     SOURCE_TREE_DOMAIN @ to_be_bytes (of_nat (length entries) :: u64) @ concat (map entry_code entries)"

lemma entries_stream_ok:
  "entries_stream nfc previous es = Inr stream \<Longrightarrow>
     stream = concat (map entry_code es) \<and> (\<forall>e \<in> set es. entry_fits e \<and> path_well_formed nfc (te_path e))"
  by (induction es arbitrary: previous stream)
    (auto simp: entry_code_def entry_fits_def validate_normalized_path_def u32_try_from_def split: if_splits)

lemma entries_stream_distinct:
  assumes "entries_stream nfc previous es = Inr stream" "sorted (map te_path es)"
  shows "distinct (map te_path es) \<and> (\<forall>e \<in> set (take 1 es). previous \<noteq> Some (te_path e))"
  using assms
proof (induction es arbitrary: previous stream)
  case (Cons e es)
  then obtain rest where "entries_stream nfc (Some (te_path e)) es = Inr rest" "previous \<noteq> Some (te_path e)"
    by auto
  with Cons have "distinct (map te_path es)" "\<forall>f \<in> set (take 1 es). te_path e \<noteq> te_path f" by auto
  moreover have "te_path e \<notin> te_path ` set es"
  proof (cases es)
    case (Cons f fs)
    then have "te_path e < te_path f" "\<forall>g \<in> set fs. te_path f \<le> te_path g"
      using Cons.prems(2) \<open>\<forall>f \<in> set (take 1 es). te_path e \<noteq> te_path f\<close> by auto
    then show ?thesis using Cons by fastforce
  qed simp
  ultimately show ?case using \<open>previous \<noteq> Some (te_path e)\<close> by simp
qed simp

lemma duplicate_loop_iff:
  "duplicate_loop normalized seen ps = Inr () \<longleftrightarrow>
     set ps \<inter> set normalized = {} \<and> distinct ps \<and> case_folded_loop seen ps = Inr ()"
  by (induction ps arbitrary: normalized seen) (auto simp: Let_def)

lemma case_folded_loop_iff:
  "case_folded_loop seen ps = Inr () \<longleftrightarrow> inj_on to_ascii_lowercase (set ps)
     \<and> (\<forall>p \<in> set ps. \<forall>q. bt_get seen (to_ascii_lowercase p) = Some q \<longrightarrow> q = p)"
proof (induction ps arbitrary: seen)
  case (Cons p ps)
  have "fold_collision DuplicateTreePath (bt_get seen (to_ascii_lowercase p)) p = Inr ()
      \<longleftrightarrow> (\<forall>q. bt_get seen (to_ascii_lowercase p) = Some q \<longrightarrow> q = p)"
    by (auto simp: fold_collision_def split: option.splits)
  then show ?case by (auto simp: Cons.IH Let_def bt_get_insert inj_on_def)
qed simp

lemma hash_entries_ok:
  assumes "hash_entries E nfc entries = Inr digest" "sorted (map te_path entries)"
  shows "digest = ext_sha256 E (tree_stream entries)" "length entries < 2 ^ 64"
    "\<forall>e \<in> set entries. entry_fits e \<and> path_well_formed nfc (te_path e)"
    "distinct (map te_path entries)" "inj_on to_ascii_lowercase (te_path ` set entries)"
proof -
  have s: "sort_key te_path entries = entries" using assms(2) by (rule sort_key_id_if_sorted)
  then obtain stream where *: "case_folded_loop [] (map te_path entries) = Inr ()" "length entries < 2 ^ 64"
      "entries_stream nfc None entries = Inr stream"
      "digest = sha256 E (SOURCE_TREE_DOMAIN @ to_be_bytes (of_nat (length entries) :: u64) @ stream)"
    using assms(1) by (auto simp: hash_entries_def Let_def u64_try_from_def split: if_splits)
  show "length entries < 2 ^ 64" by (rule *)
  show "digest = ext_sha256 E (tree_stream entries)" "\<forall>e \<in> set entries. entry_fits e \<and> path_well_formed nfc (te_path e)"
    using entries_stream_ok [OF *(3)] *(4) by (auto simp: tree_stream_def sha256_def)
  show "distinct (map te_path entries)" using entries_stream_distinct [OF *(3) assms(2)] by simp
  show "inj_on to_ascii_lowercase (te_path ` set entries)" using *(1) by (simp add: case_folded_loop_iff)
qed

lemma tree_stream_inject:
  assumes "tree_stream es = tree_stream fs" "\<forall>e \<in> set es. entry_fits e" "\<forall>e \<in> set fs. entry_fits e"
  shows "es = fs"
proof -
  have "concat (map entry_code es) = concat (map entry_code fs)"
    using assms(1) by (simp add: tree_stream_def)
  with assms(2,3) show ?thesis by (intro entry_stream.concat_inject)
qed

end
