(* ===== verification/Source_Tree_Files.thy ===== *)
theory Source_Tree_Files
  imports Source_Tree
begin

text \<open>
  What the digest of a source tree says about the files below it: an accepted tree is its
  list of regular files, the digest determines them, and the lenient digest of a working
  tree is the strict digest of the snapshot that leaves out what may not be sealed.
\<close>

section \<open>The files of a tree\<close>

text \<open>All regular files below a directory, with their paths and contents, and no checks.\<close>

definition contents :: "fs_node \<Rightarrow> byte list" where
  "contents node = (case fr_bytes (nd_read node) of Inl _ \<Rightarrow> [] | Inr bytes \<Rightarrow> bytes)"

definition kind_of :: "fs_node \<Rightarrow> file_kind option" where
  "kind_of node = (case nd_metadata node of Inl _ \<Rightarrow> None | Inr md \<Rightarrow> Some (md_kind md))"

fun node_files :: "os_name list \<Rightarrow> fs_node \<Rightarrow> (os_name list \<times> byte list) list"
  and item_files :: "os_name list \<Rightarrow> fs_items \<Rightarrow> (os_name list \<times> byte list) list" where
  "node_files directory (FsNode m r listing items) = item_files directory items"
| "item_files directory NoItem = []"
| "item_files directory (ItemError e items) = []"
| "item_files directory (Item name node items) =
     (if kind_of node = Some KindDirectory then node_files (directory @ [name]) node
      else if kind_of node = Some KindFile then [(directory @ [name], contents node)]
      else []) @ item_files directory items"

definition normal_path :: "(string \<Rightarrow> string) \<Rightarrow> os_name list \<Rightarrow> string" where
  "normal_path nfc names = (case normalize_relative_path nfc names of Inl _ \<Rightarrow> [] | Inr path \<Rightarrow> path)"

text \<open>A file is part of the sealed world unless it is a self-referential sidecar or lies below
  a directory with the name of one.\<close>

definition sealed :: "(string \<Rightarrow> string) \<Rightarrow> os_name list \<Rightarrow> bool" where
  "sealed nfc names \<longleftrightarrow> list_all (\<lambda>p. exclusion_reason (normal_path nfc p) = None) (prefixes names)"

definition source_files :: "(string \<Rightarrow> string) \<Rightarrow> fs_node \<Rightarrow> (string \<times> byte list) list" where
  "source_files nfc node =
     map (\<lambda>(names, bytes). (normal_path nfc names, bytes)) (filter (\<lambda>f. sealed nfc (fst f)) (node_files [] node))"

definition file_entry :: "externals \<Rightarrow> string \<times> byte list \<Rightarrow> source_tree_entry" where
  "file_entry E f = \<lparr>te_path = fst f, te_content_sha256 = ext_sha256 E (snd f)\<rparr>"

lemma normal_path_Nil [simp]: "normal_path nfc [] = []"
  by (simp add: normal_path_def normalize_relative_path_def validate_normalized_path_def path_well_formed_def
      err_if_def)

lemma exclusion_reason_Nil [simp]: "exclusion_reason [] = None"
  by (simp add: exclusion_reason_def SELF_REFERENTIAL_EXCLUSIONS_def)

lemma sealed_snoc: "sealed nfc (p @ [n]) \<longleftrightarrow> sealed nfc p \<and> exclusion_reason (normal_path nfc (p @ [n])) = None"
  by (simp add: sealed_def prefixes_snoc)

lemma sealed_Nil [simp]: "sealed nfc []"
  by (simp add: sealed_def)

lemma sealed_prefix: "sealed nfc q \<Longrightarrow> prefix p q \<Longrightarrow> sealed nfc p"
  by (auto simp: sealed_def list_all_iff)

lemma files_below:
  "f \<in> set (node_files p node) \<Longrightarrow> prefix p (fst f)"
  "f \<in> set (item_files p items) \<Longrightarrow> prefix p (fst f)"
  by (induction p node and p items rule: node_files_item_files.induct)
    (auto split: if_splits dest: append_prefixD)

lemma unsealed_files:
  assumes "\<not> sealed nfc p"
  shows "filter (\<lambda>f. sealed nfc (fst f)) (node_files p node) = []"
  using assms files_below(1) sealed_prefix by (fastforce simp: filter_empty_conv)

lemma read_checked_ok: "read_checked io changed path md r = Inr bytes \<Longrightarrow> fr_bytes r = Inr bytes"
  by (auto simp: read_checked_def split: option.splits)

lemma hash_regular_file_ok:
  "hash_regular_file E path md (nd_read node) = Inr d \<Longrightarrow> d = ext_sha256 E (contents node)"
  by (auto simp: hash_regular_file_def contents_def sha256_def dest: read_checked_ok)

lemma pushed_ok [simp]: "pushed first rest = Inr es \<longleftrightarrow> (\<exists>fs gs. first = Inr fs \<and> rest = Inr gs \<and> es = fs @ gs)"
  by (auto simp: pushed_def)

text \<open>A walk that succeeds visits exactly the files of the sealed world, in listing order, and
  meets no forbidden path.\<close>

definition walked :: "externals \<Rightarrow> (string \<Rightarrow> string) \<Rightarrow> (os_name list \<times> byte list) list \<Rightarrow> source_tree_entry list" where
  "walked E nfc files = map (\<lambda>(names, bytes). file_entry E (normal_path nfc names, bytes))
     (filter (\<lambda>f. sealed nfc (fst f)) files)"

lemma walked_simps [simp]:
  "walked E nfc [] = []"
  "walked E nfc (fs @ gs) = walked E nfc fs @ walked E nfc gs"
  "walked E nfc ((p, b) # fs) =
     (if sealed nfc p then [file_entry E (normal_path nfc p, b)] else []) @ walked E nfc fs"
  by (simp_all add: walked_def)

lemma walk_files:
  "walk E nfc root p node = Inr es \<Longrightarrow> sealed nfc p \<Longrightarrow> es = walked E nfc (node_files p node)
     \<and> (\<forall>e \<in> set es. forbidden_source_reason (te_path e) = None)"
  "walk_items E nfc root p items = Inr es \<Longrightarrow> sealed nfc p \<Longrightarrow> es = walked E nfc (item_files p items)
     \<and> (\<forall>e \<in> set es. forbidden_source_reason (te_path e) = None)"
proof (induction p node and p items arbitrary: es and es rule: node_files_item_files.induct)
  case (4 p name node items)
  let ?q = "p @ [name]"
  from "4.prems"(1) obtain path md where n: "normalize_relative_path nfc ?q = Inr path"
      and m: "nd_metadata node = Inr md" and k: "md_kind md \<noteq> KindSymlink"
    by (auto simp: Let_def tree_metadata_def split: if_splits)
  have np: "normal_path nfc ?q = path" using n by (simp add: normal_path_def)
  show ?case
  proof (cases "exclusion_reason path = None")
    case False
    then have "\<not> sealed nfc ?q" using np by (simp add: sealed_snoc)
    moreover have "walk_items E nfc root p items = Inr es"
      using "4.prems"(1) False n m k by (simp add: Let_def tree_metadata_def)
    ultimately show ?thesis using "4.IH"(2) "4.prems"(2) unsealed_files
      by (auto simp: walked_def)
  next
    case True
    then have sq: "sealed nfc ?q" using np "4.prems"(2) by (simp add: sealed_snoc)
    have ok: "forbidden_source_reason path = None"
      using "4.prems"(1) True n m k by (auto simp: Let_def tree_metadata_def split: if_splits)
    show ?thesis
    proof (cases "md_kind md")
      case KindDirectory
      then obtain fs gs where "walk E nfc root ?q node = Inr fs" "walk_items E nfc root p items = Inr gs" "es = fs @ gs"
        using "4.prems"(1) True n m k ok by (auto simp: Let_def tree_metadata_def)
      then show ?thesis using "4.IH" "4.prems"(2) sq m KindDirectory by (auto simp: kind_of_def)
    next
      case KindFile
      then obtain d gs where "hash_regular_file E (absolute_display root ?q) md (nd_read node) = Inr d"
          "walk_items E nfc root p items = Inr gs" "es = \<lparr>te_path = path, te_content_sha256 = d\<rparr> # gs"
        using "4.prems"(1) True n m k ok by (auto simp: Let_def tree_metadata_def)
      then show ?thesis using "4.IH"(2) "4.prems"(2) sq m KindFile np ok
        by (auto simp: kind_of_def file_entry_def dest: hash_regular_file_ok)
    next
      case KindSymlink
      with k show ?thesis by simp
    next
      case KindOther
      then show ?thesis using "4.prems"(1) True n m k ok by (simp add: Let_def tree_metadata_def)
    qed
  qed
qed (auto split: option.splits)

section \<open>The digest determines the files\<close>

lemma hash_source_tree_ok:
  assumes "hash_source_tree E nfc root node = Inr c"
  shows "tc_digest c = ext_sha256 E (tree_stream (tc_entries c))"
    "tc_entries c = sort_key te_path (map (file_entry E) (source_files nfc node))"
    "\<forall>e \<in> set (tc_entries c). entry_fits e \<and> path_well_formed nfc (te_path e)
       \<and> forbidden_source_reason (te_path e) = None"
    "distinct (map te_path (tc_entries c))" "inj_on to_ascii_lowercase (te_path ` set (tc_entries c))"
proof -
  from assms obtain es d where w: "walk E nfc root [] node = Inr es"
      and h: "hash_entries E nfc (sort_key te_path es) = Inr d"
      and c: "c = \<lparr>tc_digest = d, tc_entries = sort_key te_path es\<rparr>"
    by (auto simp: hash_source_tree_def Let_def)
  have es: "es = map (file_entry E) (source_files nfc node)"
      "\<forall>e \<in> set es. forbidden_source_reason (te_path e) = None"
    using walk_files(1) [OF w] by (auto simp: walked_def source_files_def)
  note ok = hash_entries_ok [OF h sorted_sort_key]
  show "tc_digest c = ext_sha256 E (tree_stream (tc_entries c))" using ok(1) c by simp
  show "tc_entries c = sort_key te_path (map (file_entry E) (source_files nfc node))" using es(1) c by simp
  show "\<forall>e \<in> set (tc_entries c). entry_fits e \<and> path_well_formed nfc (te_path e)
      \<and> forbidden_source_reason (te_path e) = None" using ok(3) es(2) c by simp
  show "distinct (map te_path (tc_entries c))" "inj_on to_ascii_lowercase (te_path ` set (tc_entries c))"
    using ok(4,5) c by simp_all
qed

definition sha_collision :: "externals \<Rightarrow> byte list \<Rightarrow> byte list \<Rightarrow> bool" where
  "sha_collision E x y \<longleftrightarrow> x \<noteq> y \<and> ext_sha256 E x = ext_sha256 E y"

text \<open>Lists of files with the same entries differ only in contents that collide.\<close>

lemma entries_bind_files:
  assumes "file_entry E ` set fs = file_entry E ` set gs"
  shows "set fs = set gs \<or> (\<exists>(p, b) \<in> set fs. \<exists>(q, b') \<in> set gs. q = p \<and> sha_collision E b b')"
proof (rule disjCI)
  assume no: "\<not> (\<exists>(p, b) \<in> set fs. \<exists>(q, b') \<in> set gs. q = p \<and> sha_collision E b b')"
  have same: "f = g" if "f \<in> set fs" "g \<in> set gs" "file_entry E f = file_entry E g" for f g
  proof -
    have "\<not> (fst g = fst f \<and> sha_collision E (snd f) (snd g))"
      using that(1,2) no by (simp add: case_prod_beta)
    then show ?thesis using that(3) by (simp add: file_entry_def sha_collision_def prod_eq_iff)
  qed
  show "set fs = set gs"
  proof (intro set_eqI iffI)
    fix f assume f: "f \<in> set fs"
    then have "file_entry E f \<in> file_entry E ` set gs" using assms by auto
    then obtain g where "g \<in> set gs" "file_entry E f = file_entry E g" by blast
    with f same show "f \<in> set gs" by blast
  next
    fix g assume g: "g \<in> set gs"
    then have "file_entry E g \<in> file_entry E ` set fs" using assms by auto
    then obtain f where "f \<in> set fs" "file_entry E g = file_entry E f" by blast
    with g same [of f g] show "g \<in> set fs" by simp
  qed
qed

text \<open>
  C27: the digest of a source tree determines the tree. If two accepted trees have the
  same digest, then the same files, by normalized path and contents, lie below them, or
  SHA-256 collides on the two streams or on two versions of one file. The files are all
  regular files below the root except the four sidecars that depend on the digest; what
  the listings' order was, and where the roots are, does not matter. No path is forbidden
  and no two paths differ only in the case of ASCII letters.
\<close>

theorem source_tree_binds:
  assumes "hash_source_tree E nfc root node = Inr c" "hash_source_tree E nfc root' node' = Inr c'"
    "tc_digest c = tc_digest c'"
  shows "set (source_files nfc node) = set (source_files nfc node')
      \<and> (\<forall>(p, b) \<in> set (source_files nfc node). forbidden_source_reason p = None)
      \<and> distinct (map (to_ascii_lowercase \<circ> fst) (source_files nfc node))
    \<or> sha_collision E (tree_stream (tc_entries c)) (tree_stream (tc_entries c'))
    \<or> (\<exists>(p, b) \<in> set (source_files nfc node). \<exists>(q, b') \<in> set (source_files nfc node').
         q = p \<and> sha_collision E b b')"
proof (cases "tree_stream (tc_entries c) = tree_stream (tc_entries c')")
  case True
  note c = hash_source_tree_ok [OF assms(1)] and c' = hash_source_tree_ok [OF assms(2)]
  let ?fs = "source_files nfc node" and ?gs = "source_files nfc node'"
  from True have "tc_entries c = tc_entries c'" using c(3) c'(3) by (intro tree_stream_inject) auto
  then have "set (map (file_entry E) ?fs) = set (map (file_entry E) ?gs)" using c(2) c'(2) by (metis set_sort)
  then have "file_entry E ` set ?fs = file_entry E ` set ?gs" by simp
  moreover have "\<forall>(p, b) \<in> set ?fs. forbidden_source_reason p = None"
    using c(2,3) by (auto simp: file_entry_def)
  moreover have "mset (map te_path (tc_entries c)) = mset (map fst ?fs)"
    by (simp add: c(2) image_mset.compositionality comp_def) (simp add: file_entry_def)
  then have "distinct (map fst ?fs)" "set (map fst ?fs) = te_path ` set (tc_entries c)"
    using c(4) mset_eq_imp_distinct_iff mset_eq_setD by (fastforce, metis list.set_map)
  then have "distinct (map (to_ascii_lowercase \<circ> fst) ?fs)"
    using c(5) by (simp add: distinct_map comp_inj_on_iff flip: map_map)
  ultimately show ?thesis using entries_bind_files by blast
next
  case False
  then show ?thesis using assms(3) hash_source_tree_ok(1) [OF assms(1)] hash_source_tree_ok(1) [OF assms(2)]
    by (simp add: sha_collision_def)
qed

section \<open>Working trees\<close>

text \<open>The snapshot of a working tree: names that cannot be expressed, sidecars, forbidden paths
  and special files are left out, all else stays as it is.\<close>

definition left_out :: "(string \<Rightarrow> string) \<Rightarrow> os_name list \<Rightarrow> fs_node \<Rightarrow> bool" where
  "left_out nfc path node =
     (case normalize_relative_path nfc path of
        Inl _ \<Rightarrow> True
      | Inr normalized \<Rightarrow> exclusion_reason normalized \<noteq> None \<or> forbidden_source_reason normalized \<noteq> None
          \<or> kind_of node = Some KindOther)"

fun snapshot :: "(string \<Rightarrow> string) \<Rightarrow> os_name list \<Rightarrow> fs_node \<Rightarrow> fs_node"
  and snapshot_items :: "(string \<Rightarrow> string) \<Rightarrow> os_name list \<Rightarrow> fs_items \<Rightarrow> fs_items" where
  "snapshot nfc directory (FsNode m r listing items) = FsNode m r listing (snapshot_items nfc directory items)"
| "snapshot_items nfc directory NoItem = NoItem"
| "snapshot_items nfc directory (ItemError e items) = ItemError e (snapshot_items nfc directory items)"
| "snapshot_items nfc directory (Item name node items) =
     (if left_out nfc (directory @ [name]) node then snapshot_items nfc directory items
      else Item name (snapshot nfc (directory @ [name]) node) (snapshot_items nfc directory items))"

lemma snapshot_node [simp]:
  "nd_metadata (snapshot nfc p node) = nd_metadata node" "nd_read (snapshot nfc p node) = nd_read node"
  by (cases node; simp)+

lemma snapshot_walk:
  "walk E nfc root p (snapshot nfc p node) = walk_lenient E nfc root p node"
  "walk_items E nfc root p (snapshot_items nfc p items) = walk_lenient_items E nfc root p items"
proof (induction p node and p items rule: node_files_item_files.induct)
  case (4 p name node items)
  show ?case
  proof (cases "normalize_relative_path nfc (p @ [name])")
    case (Inr path)
    show ?thesis
    proof (cases "nd_metadata node")
      case (Inr md)
      with \<open>normalize_relative_path nfc (p @ [name]) = Inr path\<close> 4 show ?thesis
        by (cases "md_kind md") (simp_all add: left_out_def kind_of_def tree_metadata_def Let_def)
    qed (use Inr 4 in \<open>simp add: left_out_def kind_of_def tree_metadata_def Let_def\<close>)
  qed (use 4 in \<open>simp add: left_out_def Let_def\<close>)
qed (auto split: option.splits)

lemma hash_entries_no_duplicates:
  assumes "hash_entries E nfc entries = Inr digest" "sorted (map te_path entries)"
  shows "duplicate_loop [] [] (map te_path entries) = Inr ()"
  using hash_entries_ok(4,5) [OF assms]
  by (simp add: duplicate_loop_iff case_folded_loop_iff bt.get_empty)

text \<open>
  C28: the digest of a living working tree is the strict digest of its clean snapshot. The
  lenient walk succeeds with a commitment exactly when the strict walk succeeds with the
  same one on the tree without version control state, build products, private files,
  sidecars, special files and names that cannot be expressed. Sealing a snapshot therefore
  never changes the digest, and a change of the digest is a change of the sealed files.
\<close>

theorem working_tree_is_snapshot:
  "hash_working_tree E nfc root node = Inr c \<longleftrightarrow> hash_source_tree E nfc root (snapshot nfc [] node) = Inr c"
proof -
  have "tree_root root (snapshot nfc [] node) = tree_root root node"
    by (simp add: tree_root_def tree_metadata_def)
  then show ?thesis
    using hash_entries_no_duplicates
    by (auto simp: hash_working_tree_def hash_source_tree_def snapshot_walk Let_def)
qed

end
