(* ===== verification/Fascia_Tree.thy ===== *)
theory Fascia_Tree
  imports Source_Tree_Files
begin

text \<open>
  \<open>fascia_tree.rs\<close>: the digest of the reusable Fascia tree, over the raw contents of its
  files, with anchored exclusions; and that it determines those files. The procedures it
  shares with \<open>tree_hash.rs\<close> (\<open>same_file\<close>, the checked read, the path grammar) are those of
  \<open>Source_Tree\<close>, with the errors of this module.
\<close>

section \<open>Entries and exclusions\<close>

definition DEFAULT_FASCIA_EXCLUSIONS :: "string list" where
  "DEFAULT_FASCIA_EXCLUSIONS = [''.build'', ''.swiftpm'', ''Package.resolved'']"

definition PINNED_APPLE_FASCIA_SHA256 :: string where
  "PINNED_APPLE_FASCIA_SHA256 = ''0x6f12250499208f5751a00951f8ad2beea21084cbbc8a69b87f74d2642954a482''"

record fascia_input_entry =
  fi_path :: string
  fi_content :: "byte list"

record fascia_tree_entry =
  fe_path :: string
  fe_content_length :: u64
  fe_content_sha256 :: bytes32

record fascia_tree_commitment =
  fc_digest :: bytes32
  fc_entries :: "fascia_tree_entry list"

definition is_excluded :: "string \<Rightarrow> string list \<Rightarrow> bool" where
  "is_excluded path exclusions \<longleftrightarrow>
     list_ex (\<lambda>excluded. path = excluded
       \<or> starts_with excluded path \<and> starts_with ''/'' (drop (length excluded) path)) exclusions"

definition validate_path :: "(string \<Rightarrow> string) \<Rightarrow> string \<Rightarrow> unit result" where
  "validate_path nfc path = err_if (\<not> path_well_formed nfc path) (InvalidFasciaTreePath path)"

text \<open>The error of a duplicate names the exclusion, so the loop is written out.\<close>

fun exclusions_loop :: "(string \<Rightarrow> string) \<Rightarrow> string list \<Rightarrow> string list \<Rightarrow> unit result" where
  "exclusions_loop nfc unique [] = Inr ()"
| "exclusions_loop nfc unique (exclusion # exclusions) =
     bind_result (validate_path nfc exclusion) (\<lambda>_.
     bind_result (err_if (List.member unique exclusion)
         (InvalidFasciaTreePath (''duplicate exclusion '' @ exclusion))) (\<lambda>_.
       exclusions_loop nfc (exclusion # unique) exclusions))"

definition validate_exclusions :: "(string \<Rightarrow> string) \<Rightarrow> string list \<Rightarrow> unit result" where
  "validate_exclusions nfc exclusions = exclusions_loop nfc [] exclusions"

fun unique_paths_loop ::
  "(string \<Rightarrow> string) \<Rightarrow> string list \<Rightarrow> (string, string) btree \<Rightarrow> string list \<Rightarrow> unit result" where
  "unique_paths_loop nfc exact casefold [] = Inr ()"
| "unique_paths_loop nfc exact casefold (path # paths) =
     (let folded = to_ascii_lowercase path in
      bind_result (validate_path nfc path) (\<lambda>_.
      bind_result (err_if (List.member exact path) (DuplicateFasciaTreePath path)) (\<lambda>_.
      bind_result (fold_collision DuplicateFasciaTreePath (bt_get casefold folded) path) (\<lambda>_.
        unique_paths_loop nfc (path # exact) (bt_insert folded path casefold) paths))))"

definition validate_unique_paths :: "(string \<Rightarrow> string) \<Rightarrow> fascia_input_entry list \<Rightarrow> unit result" where
  "validate_unique_paths nfc entries = unique_paths_loop nfc [] [] (map fi_path entries)"

definition normalize_path :: "(string \<Rightarrow> string) \<Rightarrow> os_name list \<Rightarrow> string result" where
  "normalize_path nfc relative =
     bind_result (normalize_components nfc (InvalidFasciaTreePath (relative_display relative)) relative)
       (\<lambda>components. let path = join_slash components in
         bind_result (validate_path nfc path) (\<lambda>_. Inr path))"

section \<open>The walk and the digest\<close>

definition fascia_metadata :: "string \<Rightarrow> fs_node \<Rightarrow> metadata result" where
  "fascia_metadata path node = map_err (FasciaTreeIo path) (nd_metadata node)"

definition read_regular_file :: "string \<Rightarrow> metadata \<Rightarrow> file_read \<Rightarrow> byte list result" where
  "read_regular_file path initial r = read_checked FasciaTreeIo FasciaTreeChanged path initial r"

fun fascia_walk :: "(string \<Rightarrow> string) \<Rightarrow> string \<Rightarrow> string list \<Rightarrow> os_name list \<Rightarrow> fs_node
    \<Rightarrow> fascia_input_entry list result"
  and fascia_walk_items :: "(string \<Rightarrow> string) \<Rightarrow> string \<Rightarrow> string list \<Rightarrow> os_name list \<Rightarrow> fs_items
    \<Rightarrow> fascia_input_entry list result" where
  "fascia_walk nfc root exclusions directory (FsNode m r listing items) =
     (case listing of
        Some e \<Rightarrow> Inl (FasciaTreeIo (absolute_display root directory) e)
      | None \<Rightarrow> fascia_walk_items nfc root exclusions directory items)"
| "fascia_walk_items nfc root exclusions directory NoItem = Inr []"
| "fascia_walk_items nfc root exclusions directory (ItemError e items) =
     Inl (FasciaTreeIo (absolute_display root directory) e)"
| "fascia_walk_items nfc root exclusions directory (Item name node items) =
     (let path = directory @ [name]; display = absolute_display root path in
      bind_result (normalize_path nfc path) (\<lambda>normalized.
      bind_result (fascia_metadata display node) (\<lambda>md.
        if md_kind md = KindSymlink then Inl (FasciaTreeSymlink normalized)
        else if is_excluded normalized exclusions then fascia_walk_items nfc root exclusions directory items
        else if md_kind md = KindDirectory
        then pushed (fascia_walk nfc root exclusions path node)
               (fascia_walk_items nfc root exclusions directory items)
        else if md_kind md = KindFile
        then pushed (bind_result (read_regular_file display md (nd_read node)) (\<lambda>bytes.
               Inr [\<lparr>fi_path = normalized, fi_content = bytes\<rparr>]))
             (fascia_walk_items nfc root exclusions directory items)
        else Inl (FasciaTreeEntryType normalized))))"

fun fascia_stream :: "(string \<Rightarrow> string) \<Rightarrow> fascia_input_entry list \<Rightarrow> byte list result" where
  "fascia_stream nfc [] = Inr []"
| "fascia_stream nfc (e # es) =
     bind_result (validate_path nfc (fi_path e)) (\<lambda>_.
     bind_result (ok_or (InvalidFasciaTreePath (fi_path e)) (u64_try_from (length (fi_path e)))) (\<lambda>path_len.
     bind_result (ok_or (InvalidFasciaTreePath (fi_path e)) (u64_try_from (length (fi_content e)))) (\<lambda>content_len.
     bind_result (fascia_stream nfc es) (\<lambda>rest.
       Inr (to_be_bytes path_len @ str_bytes (fi_path e) @ to_be_bytes content_len @ fi_content e @ rest)))))"

definition hash_fascia_entries ::
  "externals \<Rightarrow> (string \<Rightarrow> string) \<Rightarrow> fascia_input_entry list \<Rightarrow> bytes32 result" where
  "hash_fascia_entries E nfc entries =
     (let sorted = sort_key fi_path entries in
      bind_result (validate_unique_paths nfc sorted) (\<lambda>_.
      bind_result (fascia_stream nfc sorted) (\<lambda>stream. Inr (sha256 E stream))))"

definition fascia_root :: "string \<Rightarrow> fs_node \<Rightarrow> unit result" where
  "fascia_root root node =
     bind_result (fascia_metadata root node) (\<lambda>md. checks [
       err_if (md_kind md = KindSymlink) (FasciaTreeSymlink root),
       err_if (md_kind md \<noteq> KindDirectory) (FasciaTreeEntryType root)])"

definition fascia_entry :: "externals \<Rightarrow> fascia_input_entry \<Rightarrow> fascia_tree_entry" where
  "fascia_entry E e = \<lparr>fe_path = fi_path e, fe_content_length = of_nat (length (fi_content e)),
     fe_content_sha256 = sha256 E (fi_content e)\<rparr>"

definition hash_fascia_tree_with_exclusions ::
  "externals \<Rightarrow> (string \<Rightarrow> string) \<Rightarrow> string \<Rightarrow> fs_node \<Rightarrow> string list \<Rightarrow> fascia_tree_commitment result" where
  "hash_fascia_tree_with_exclusions E nfc root node exclusions =
     bind_result (validate_exclusions nfc exclusions) (\<lambda>_.
     bind_result (fascia_root root node) (\<lambda>_.
     bind_result (fascia_walk nfc root exclusions [] node) (\<lambda>loaded.
     bind_result (hash_fascia_entries E nfc loaded) (\<lambda>digest.
       Inr \<lparr>fc_digest = digest, fc_entries = map (fascia_entry E) (sort_key fi_path loaded)\<rparr>))))"

definition hash_fascia_tree ::
  "externals \<Rightarrow> (string \<Rightarrow> string) \<Rightarrow> string \<Rightarrow> fs_node \<Rightarrow> fascia_tree_commitment result" where
  "hash_fascia_tree E nfc root node = hash_fascia_tree_with_exclusions E nfc root node DEFAULT_FASCIA_EXCLUSIONS"

section \<open>The stream is prefix-free\<close>

definition fascia_code :: "fascia_input_entry \<Rightarrow> byte list" where
  "fascia_code e = to_be_bytes (of_nat (length (fi_path e)) :: u64) @ str_bytes (fi_path e)
     @ to_be_bytes (of_nat (length (fi_content e)) :: u64) @ fi_content e"

definition fascia_fits :: "fascia_input_entry \<Rightarrow> bool" where
  "fascia_fits e \<longleftrightarrow> length (fi_path e) < 2 ^ 64 \<and> length (fi_content e) < 2 ^ 64"

interpretation fascia_stream: prefix_code fascia_code fascia_fits
proof (unfold_locales)
  show "fascia_code x \<noteq> []" for x
    by (simp add: fascia_code_def flip: length_greater_0_conv)
  show "x = y \<and> r = s" if "fascia_fits x" "fascia_fits y" "fascia_code x @ r = fascia_code y @ s" for x y r s
  proof -
    let ?n = "\<lambda>e. to_be_bytes (of_nat (length (fi_content e)) :: u64)"
    have "str_bytes (fi_path x) = str_bytes (fi_path y) \<and> ?n x @ fi_content x @ r = ?n y @ fi_content y @ s"
      by (rule counted_append_inject [where 'w = 64])
        (use that in \<open>simp_all only: fascia_code_def fascia_fits_def length_str_bytes append_assoc, simp_all\<close>)
    moreover from this have "fi_content x = fi_content y \<and> r = s"
      by (intro counted_append_inject [where 'w = 64])
        (use that in \<open>simp_all only: fascia_fits_def, simp_all\<close>)
    ultimately show ?thesis by (cases x, cases y) simp
  qed
qed

lemma fascia_stream_ok:
  "fascia_stream nfc es = Inr stream \<Longrightarrow> stream = concat (map fascia_code es) \<and> (\<forall>e \<in> set es. fascia_fits e)"
  by (induction es arbitrary: stream) (auto simp: fascia_code_def fascia_fits_def u64_try_from_def split: if_splits)

section \<open>The digest determines the files\<close>

text \<open>A file is part of the Fascia unless it, or a directory above it, is excluded.\<close>

definition not_excluded :: "(string \<Rightarrow> string) \<Rightarrow> string list \<Rightarrow> os_name list \<Rightarrow> bool" where
  "not_excluded nfc exclusions names \<longleftrightarrow>
     list_all (\<lambda>p. p = [] \<or> \<not> is_excluded (normal_path nfc p) exclusions) (prefixes names)"

definition fascia_files :: "(string \<Rightarrow> string) \<Rightarrow> string list \<Rightarrow> fs_node \<Rightarrow> (string \<times> byte list) list" where
  "fascia_files nfc exclusions node =
     map (\<lambda>(names, bytes). (normal_path nfc names, bytes))
       (filter (\<lambda>f. not_excluded nfc exclusions (fst f)) (node_files [] node))"

lemma normalize_components_any_error:
  "normalize_components nfc e p = Inr cs \<Longrightarrow> normalize_components nfc e' p = Inr cs"
  by (induction p arbitrary: cs) (auto simp: Let_def)

lemma normalize_path_normal:
  assumes "normalize_path nfc p = Inr path"
  shows "normal_path nfc p = path"
proof -
  from assms obtain cs where "normalize_components nfc (InvalidFasciaTreePath (relative_display p)) p = Inr cs"
      "path = join_slash cs" "path_well_formed nfc path"
    by (auto simp: normalize_path_def validate_path_def Let_def)
  then have "normalize_relative_path nfc p = Inr path"
    using normalize_components_any_error [where e' = "InvalidTreePath (relative_display p)"]
    by (simp add: normalize_relative_path_def validate_normalized_path_def Let_def)
  then show ?thesis by (simp add: normal_path_def)
qed

lemma not_excluded_snoc:
  "not_excluded nfc X (p @ [n]) \<longleftrightarrow> not_excluded nfc X p \<and> \<not> is_excluded (normal_path nfc (p @ [n])) X"
  by (simp add: not_excluded_def prefixes_snoc)

lemma excluded_files:
  assumes "\<not> not_excluded nfc X p"
  shows "filter (\<lambda>f. not_excluded nfc X (fst f)) (node_files p node) = []"
proof -
  have "not_excluded nfc X q \<Longrightarrow> prefix p q \<Longrightarrow> not_excluded nfc X p" for q
    by (auto simp: not_excluded_def list_all_iff)
  with assms files_below(1) show ?thesis by (fastforce simp: filter_empty_conv)
qed

definition loaded :: "(string \<Rightarrow> string) \<Rightarrow> string list \<Rightarrow> (os_name list \<times> byte list) list \<Rightarrow> fascia_input_entry list" where
  "loaded nfc X files = map (\<lambda>(names, bytes). \<lparr>fi_path = normal_path nfc names, fi_content = bytes\<rparr>)
     (filter (\<lambda>f. not_excluded nfc X (fst f)) files)"

lemma loaded_simps [simp]:
  "loaded nfc X [] = []"
  "loaded nfc X (fs @ gs) = loaded nfc X fs @ loaded nfc X gs"
  "loaded nfc X ((p, b) # fs) =
     (if not_excluded nfc X p then [\<lparr>fi_path = normal_path nfc p, fi_content = b\<rparr>] else []) @ loaded nfc X fs"
  by (simp_all add: loaded_def)

lemma fascia_walk_files:
  "fascia_walk nfc root X p node = Inr es \<Longrightarrow> not_excluded nfc X p \<Longrightarrow> es = loaded nfc X (node_files p node)"
  "fascia_walk_items nfc root X p items = Inr es \<Longrightarrow> not_excluded nfc X p \<Longrightarrow> es = loaded nfc X (item_files p items)"
proof (induction p node and p items arbitrary: es and es rule: node_files_item_files.induct)
  case (4 p name node items)
  let ?q = "p @ [name]"
  from "4.prems"(1) obtain path md where n: "normalize_path nfc ?q = Inr path"
      and m: "nd_metadata node = Inr md" and k: "md_kind md \<noteq> KindSymlink"
    by (auto simp: Let_def fascia_metadata_def split: if_splits)
  have np: "normal_path nfc ?q = path" using n by (rule normalize_path_normal)
  show ?case
  proof (cases "is_excluded path X")
    case True
    then have "\<not> not_excluded nfc X ?q" using np by (simp add: not_excluded_snoc)
    moreover have "fascia_walk_items nfc root X p items = Inr es"
      using "4.prems"(1) True n m k by (simp add: Let_def fascia_metadata_def)
    ultimately show ?thesis using "4.IH"(2) "4.prems"(2) excluded_files by (auto simp: loaded_def)
  next
    case False
    then have q: "not_excluded nfc X ?q" using np "4.prems"(2) by (simp add: not_excluded_snoc)
    show ?thesis
    proof (cases "md_kind md")
      case KindDirectory
      then obtain fs gs where "fascia_walk nfc root X ?q node = Inr fs" "fascia_walk_items nfc root X p items = Inr gs"
          "es = fs @ gs"
        using "4.prems"(1) False n m k by (auto simp: Let_def fascia_metadata_def)
      then show ?thesis using "4.IH" "4.prems"(2) q m KindDirectory by (auto simp: kind_of_def)
    next
      case KindFile
      then obtain b gs where "read_regular_file (absolute_display root ?q) md (nd_read node) = Inr b"
          "fascia_walk_items nfc root X p items = Inr gs" "es = \<lparr>fi_path = path, fi_content = b\<rparr> # gs"
        using "4.prems"(1) False n m k by (auto simp: Let_def fascia_metadata_def)
      then show ?thesis using "4.IH"(2) "4.prems"(2) q m KindFile np
        by (auto simp: kind_of_def read_regular_file_def contents_def dest: read_checked_ok)
    qed (use "4.prems"(1) False n m k in \<open>simp_all add: Let_def fascia_metadata_def\<close>)
  qed
qed (auto split: option.splits)

lemma hash_fascia_ok:
  assumes "hash_fascia_tree_with_exclusions E nfc root node X = Inr c"
  obtains es where "mset (map (\<lambda>e. (fi_path e, fi_content e)) es) = mset (fascia_files nfc X node)"
    "fc_digest c = ext_sha256 E (concat (map fascia_code es))" "\<forall>e \<in> set es. fascia_fits e"
    "fc_entries c = map (fascia_entry E) es"
proof -
  from assms obtain ls stream where w: "fascia_walk nfc root X [] node = Inr ls"
      and s: "fascia_stream nfc (sort_key fi_path ls) = Inr stream"
      and c: "c = \<lparr>fc_digest = sha256 E stream, fc_entries = map (fascia_entry E) (sort_key fi_path ls)\<rparr>"
    by (auto simp: hash_fascia_tree_with_exclusions_def hash_fascia_entries_def Let_def)
  have "not_excluded nfc X []" by (simp add: not_excluded_def)
  with w have "ls = loaded nfc X (node_files [] node)" by (rule fascia_walk_files)
  then have ls: "map (\<lambda>e. (fi_path e, fi_content e)) ls = fascia_files nfc X node"
    by (auto simp: loaded_def fascia_files_def)
  show thesis
  proof
    show "mset (map (\<lambda>e. (fi_path e, fi_content e)) (sort_key fi_path ls)) = mset (fascia_files nfc X node)"
      by (simp flip: ls)
  qed (use fascia_stream_ok [OF s] c in \<open>auto simp: sha256_def\<close>)
qed

text \<open>
  C29: the digest of a Fascia tree determines it, although the stream has no domain prefix
  and no count. If two accepted trees, walked with any exclusions, have the same digest,
  then the same files lie below them, by normalized path and contents, and the same entries
  are reported, or SHA-256 collides on the two streams.
\<close>

theorem fascia_tree_binds:
  assumes "hash_fascia_tree_with_exclusions E nfc root node X = Inr c"
    "hash_fascia_tree_with_exclusions E nfc root' node' X' = Inr c'"
    "fc_digest c = fc_digest c'"
  shows "mset (fascia_files nfc X node) = mset (fascia_files nfc X' node') \<and> fc_entries c = fc_entries c'
    \<or> (\<exists>es fs. mset (map (\<lambda>e. (fi_path e, fi_content e)) es) = mset (fascia_files nfc X node)
         \<and> mset (map (\<lambda>e. (fi_path e, fi_content e)) fs) = mset (fascia_files nfc X' node')
         \<and> sha_collision E (concat (map fascia_code es)) (concat (map fascia_code fs)))"
proof -
  obtain es where es: "mset (map (\<lambda>e. (fi_path e, fi_content e)) es) = mset (fascia_files nfc X node)"
      "fc_digest c = ext_sha256 E (concat (map fascia_code es))" "\<forall>e \<in> set es. fascia_fits e"
      "fc_entries c = map (fascia_entry E) es"
    using hash_fascia_ok [OF assms(1)] .
  obtain fs where fs: "mset (map (\<lambda>e. (fi_path e, fi_content e)) fs) = mset (fascia_files nfc X' node')"
      "fc_digest c' = ext_sha256 E (concat (map fascia_code fs))" "\<forall>e \<in> set fs. fascia_fits e"
      "fc_entries c' = map (fascia_entry E) fs"
    using hash_fascia_ok [OF assms(2)] .
  show ?thesis
  proof (cases "concat (map fascia_code es) = concat (map fascia_code fs)")
    case True
    then have "es = fs" using es(3) fs(3) by (intro fascia_stream.concat_inject)
    then show ?thesis using es(1,4) fs(1,4) by simp
  next
    case False
    then have "sha_collision E (concat (map fascia_code es)) (concat (map fascia_code fs))"
      using assms(3) es(2) fs(2) by (simp add: sha_collision_def)
    then show ?thesis using es(1) fs(1) by blast
  qed
qed

end
