(* ===== verification/Public_Checkpoint.thy ===== *)
theory Public_Checkpoint
  imports Commitments Actions
begin

text \<open>
  \<open>public_checkpoint.rs\<close>: the public projection of a Shot that registry heads commit to. A
  checkpoint and its commitment, the registry action that authorizes it, and the
  verification of a segment of checkpoints from an anchor; exactness of that verification,
  and that a head determines the whole public history.
\<close>

section \<open>Checkpoints\<close>

definition PUBLIC_CHECKPOINT_PROTOCOL :: string where "PUBLIC_CHECKPOINT_PROTOCOL = ''tohseno''"
definition PUBLIC_CHECKPOINT_PROTOCOL_VERSION :: string where "PUBLIC_CHECKPOINT_PROTOCOL_VERSION = ''2''"
definition PUBLIC_CHECKPOINT_SCHEMA :: string where "PUBLIC_CHECKPOINT_SCHEMA = ''tohseno.public-checkpoint/1''"
definition PUBLIC_CHECKPOINT_CONTRACT_GENERATION :: string where
  "PUBLIC_CHECKPOINT_CONTRACT_GENERATION = ''0.8.0''"

datatype public_checkpoint_scope = ShotIdentityContinuity

record public_checkpoint_witness =
  pw_contract_generation :: string
  pw_chain_id :: u64
  pw_registry :: address20

definition checkpoint_witness_validate :: "public_checkpoint_witness \<Rightarrow> unit result" where
  "checkpoint_witness_validate w = checks [
     err_if (pw_contract_generation w \<noteq> PUBLIC_CHECKPOINT_CONTRACT_GENERATION)
       (invalid ''public_checkpoint.witness.contract_generation''
         (''must be '' @ PUBLIC_CHECKPOINT_CONTRACT_GENERATION)),
     err_if (pw_chain_id w \<noteq> ROBINHOOD_CHAIN_ID)
       (invalid ''public_checkpoint.witness.chain_id'' (''must be '' @ show_nat (unat ROBINHOOD_CHAIN_ID))),
     err_if (address_is_zero (pw_registry w))
       (invalid ''public_checkpoint.witness.registry'' ''must not be the zero address'')]"

record public_checkpoint =
  cp_protocol :: string
  cp_protocol_version :: string
  cp_schema :: string
  cp_scope :: public_checkpoint_scope
  cp_witness :: public_checkpoint_witness
  cp_shot_id :: shot_id
  cp_sequence :: u64
  cp_previous :: "bytes32 option"
  cp_issued_at :: canonical_timestamp

definition checkpoint_predecessor :: "u64 \<Rightarrow> bytes32 option \<Rightarrow> unit result" where
  "checkpoint_predecessor n predecessor =
     (let fail = invalid ''public_checkpoint.previous_checkpoint'' in
      case predecessor of
        None \<Rightarrow> err_if (n \<noteq> 1) (fail ''a continuation must name the prior public checkpoint'')
      | Some value \<Rightarrow>
          (if n = 1 then Inl (fail ''checkpoint 1 must not claim a predecessor'')
           else err_if (value = 0) (fail ''must not be zero'')))"

definition checkpoint_validate :: "public_checkpoint \<Rightarrow> unit result" where
  "checkpoint_validate c = checks [
     err_if (cp_protocol c \<noteq> PUBLIC_CHECKPOINT_PROTOCOL)
       (invalid ''public_checkpoint.protocol'' (''must be '' @ PUBLIC_CHECKPOINT_PROTOCOL)),
     err_if (cp_protocol_version c \<noteq> PUBLIC_CHECKPOINT_PROTOCOL_VERSION)
       (invalid ''public_checkpoint.protocol_version'' (''must be '' @ PUBLIC_CHECKPOINT_PROTOCOL_VERSION)),
     err_if (cp_schema c \<noteq> PUBLIC_CHECKPOINT_SCHEMA)
       (invalid ''public_checkpoint.schema'' (''must be '' @ PUBLIC_CHECKPOINT_SCHEMA)),
     checkpoint_witness_validate (cp_witness c),
     err_if (is_zero (cp_shot_id c)) (invalid ''public_checkpoint.shot_id'' ''must not be zero''),
     err_if (cp_sequence c = 0 \<or> cp_sequence c > MAX_SAFE_JSON_INTEGER)
       (invalid ''public_checkpoint.checkpoint_sequence'' ''must be a positive JavaScript-safe integer''),
     checkpoint_predecessor (cp_sequence c) (cp_previous c)]"

definition checkpoint_new ::
  "public_checkpoint_witness \<Rightarrow> shot_id \<Rightarrow> u64 \<Rightarrow> bytes32 option \<Rightarrow> canonical_timestamp \<Rightarrow> public_checkpoint result" where
  "checkpoint_new witness shot_id n predecessor issued_at =
     (let checkpoint = \<lparr>cp_protocol = PUBLIC_CHECKPOINT_PROTOCOL,
            cp_protocol_version = PUBLIC_CHECKPOINT_PROTOCOL_VERSION, cp_schema = PUBLIC_CHECKPOINT_SCHEMA,
            cp_scope = ShotIdentityContinuity, cp_witness = witness, cp_shot_id = shot_id, cp_sequence = n,
            cp_previous = predecessor, cp_issued_at = issued_at\<rparr>
      in bind_result (checkpoint_validate checkpoint) (\<lambda>_. Inr checkpoint))"

fun checkpoint_scope_name :: "public_checkpoint_scope \<Rightarrow> string" where
  "checkpoint_scope_name ShotIdentityContinuity = ''shot_identity_continuity''"

definition checkpoint_witness_json :: "public_checkpoint_witness \<Rightarrow> json" where
  "checkpoint_witness_json w = JObj [(''contract_generation'', JStr (pw_contract_generation w)),
     (''chain_id'', json_word (pw_chain_id w)), (''registry'', json_address20 (pw_registry w))]"

definition checkpoint_json :: "public_checkpoint \<Rightarrow> json" where
  "checkpoint_json c = JObj [
     (''protocol'', JStr (cp_protocol c)),
     (''protocol_version'', JStr (cp_protocol_version c)),
     (''schema'', JStr (cp_schema c)),
     (''scope'', JStr (checkpoint_scope_name (cp_scope c))),
     (''witness'', checkpoint_witness_json (cp_witness c)),
     (''shot_id'', json_bytes32 (cp_shot_id c)),
     (''checkpoint_sequence'', json_word (cp_sequence c)),
     (''previous_checkpoint'', json_option json_bytes32 (cp_previous c)),
     (''issued_at'', timestamp_json (cp_issued_at c))]"

definition checkpoint_commitment :: "externals \<Rightarrow> public_checkpoint \<Rightarrow> bytes32 result" where
  "checkpoint_commitment E c =
     bind_result (checkpoint_validate c) (\<lambda>_. sha256_commitment E (checkpoint_json c))"

section \<open>The registry action of a checkpoint\<close>

fun checkpoint_action_binds :: "public_checkpoint \<Rightarrow> bytes32 \<Rightarrow> registry_action_v2 \<Rightarrow> unit result" where
  "checkpoint_action_binds c head (RegisterShot shot_id controller action_head salt nonce deadline) =
     err_if (\<not> (shot_id = cp_shot_id c \<and> action_head = head \<and> cp_sequence c = 1 \<and> cp_previous c = None))
       (invalid ''public_checkpoint.registry_action'' ''does not bind this checkpoint exactly'')"
| "checkpoint_action_binds c head (AppendCheckpoint shot_id previous_head new_head n nonce deadline) =
     err_if (\<not> (shot_id = cp_shot_id c \<and> cp_previous c = Some previous_head \<and> new_head = head \<and> n = cp_sequence c))
       (invalid ''public_checkpoint.registry_action'' ''does not bind this checkpoint exactly'')"
| "checkpoint_action_binds c head (TransferShotV2 _ _ _ _ _ _ _) =
     Inl (invalid ''public_checkpoint.registry_action'' ''a transfer preserves the current public checkpoint'')"

definition validate_registry_action ::
  "externals \<Rightarrow> public_checkpoint \<Rightarrow> registry_action_v2 \<Rightarrow> eip712_domain \<Rightarrow> unit result" where
  "validate_registry_action E c a d =
     bind_result (checks [checkpoint_validate c, registry_action_validate a,
       validate_for_version d SHOT_REGISTRY_DOMAIN SHOT_REGISTRY_V2_EIP712_VERSION,
       err_if (dom_chain_id d \<noteq> pw_chain_id (cp_witness c)
           \<or> dom_verifying_contract d \<noteq> pw_registry (cp_witness c))
         (invalid ''public_checkpoint.witness'' ''must equal the registry action domain'')]) (\<lambda>_.
     bind_result (checkpoint_commitment E c) (\<lambda>head. checkpoint_action_binds c head a))"

section \<open>Segments\<close>

record public_checkpoint_anchor =
  ca_witness :: public_checkpoint_witness
  ca_shot_id :: shot_id
  ca_sequence :: u64
  ca_head :: bytes32
  ca_issued_at :: canonical_timestamp

record verified_checkpoint_segment =
  vc_witness :: public_checkpoint_witness
  vc_shot_id :: shot_id
  vc_first :: u64
  vc_last :: u64
  vc_head :: bytes32
  vc_complete_from_registration :: bool

text \<open>The variables of the loop: the next sequence, the expected link and the last time.\<close>

record checkpoint_cursor =
  cc_sequence :: u64
  cc_previous :: "bytes32 option"
  cc_time :: "int option"

definition segment_fail :: "string \<Rightarrow> protocol_error" where
  "segment_fail reason = invalid ''public_checkpoint.segment'' reason"

definition checkpoint_step ::
  "externals \<Rightarrow> public_checkpoint_witness \<Rightarrow> shot_id \<Rightarrow> checkpoint_cursor \<Rightarrow> public_checkpoint
     \<Rightarrow> checkpoint_cursor result" where
  "checkpoint_step E witness shot_id cursor c =
     bind_result (checks [checkpoint_validate c,
       err_if (cp_witness c \<noteq> witness) (segment_fail ''witness coordinates changed''),
       err_if (cp_shot_id c \<noteq> shot_id) (segment_fail ''ShotID changed''),
       err_if (cp_sequence c \<noteq> cc_sequence cursor) (segment_fail ''sequence is not contiguous''),
       err_if (cp_previous c \<noteq> cc_previous cursor) (segment_fail ''predecessor does not match''),
       (case cc_time cursor of
          None \<Rightarrow> Inr ()
        | Some prior \<Rightarrow> bind_result (unix_timestamp E (cp_issued_at c)) (\<lambda>time.
            err_if (time < prior) (segment_fail ''timestamp moved backwards'')))]) (\<lambda>_.
     bind_result (checkpoint_commitment E c) (\<lambda>head.
     bind_result (unix_timestamp E (cp_issued_at c)) (\<lambda>time.
     bind_result (ok_or (segment_fail ''sequence overflowed'') (checked_add (cc_sequence cursor) 1)) (\<lambda>next.
       Inr \<lparr>cc_sequence = next, cc_previous = Some head, cc_time = Some time\<rparr>))))"

definition checkpoint_start ::
  "externals \<Rightarrow> public_checkpoint \<Rightarrow> public_checkpoint_anchor option \<Rightarrow> checkpoint_cursor result" where
  "checkpoint_start E first anchor =
     (case anchor of
        None \<Rightarrow> Inr \<lparr>cc_sequence = cp_sequence first, cc_previous = cp_previous first, cc_time = None\<rparr>
      | Some a \<Rightarrow>
          bind_result (ok_or (segment_fail ''anchor sequence overflowed'') (checked_add (ca_sequence a) 1)) (\<lambda>n.
          bind_result (unix_timestamp E (ca_issued_at a)) (\<lambda>time.
          bind_result (checks [
            err_if (ca_shot_id a \<noteq> cp_shot_id first) (segment_fail ''anchor ShotID differs''),
            err_if (ca_witness a \<noteq> cp_witness first) (segment_fail ''anchor witness differs'')]) (\<lambda>_.
            Inr \<lparr>cc_sequence = n, cc_previous = Some (ca_head a), cc_time = Some time\<rparr>))))"

definition verify_public_checkpoint_segment ::
  "externals \<Rightarrow> public_checkpoint list \<Rightarrow> public_checkpoint_anchor option \<Rightarrow> verified_checkpoint_segment result" where
  "verify_public_checkpoint_segment E checkpoints anchor =
     (case checkpoints of
        [] \<Rightarrow> Inl (segment_fail ''must not be empty'')
      | first # _ \<Rightarrow>
          bind_result (checkpoint_start E first anchor) (\<lambda>start.
          bind_result (run_log (checkpoint_step E (cp_witness first) (cp_shot_id first)) start checkpoints) (\<lambda>cursor.
          bind_result (ok_or (Panic ''verified checkpoint supplied a commitment'') (cc_previous cursor)) (\<lambda>head.
            Inr \<lparr>vc_witness = cp_witness first, vc_shot_id = cp_shot_id first, vc_first = cp_sequence first,
              vc_last = cp_sequence (last checkpoints), vc_head = head,
              vc_complete_from_registration =
                (anchor = None \<and> cp_sequence first = 1 \<and> cp_previous first = None)\<rparr>))))"

section \<open>What a segment is\<close>

text \<open>A checkpoint that can be committed, and one that follows it.\<close>

definition checkpoint_committed :: "externals \<Rightarrow> public_checkpoint \<Rightarrow> bytes32 \<Rightarrow> int \<Rightarrow> bool" where
  "checkpoint_committed E c head time \<longleftrightarrow> checkpoint_validate c = Inr ()
     \<and> checkpoint_commitment E c = Inr head \<and> unix_timestamp E (cp_issued_at c) = Inr time"

definition checkpoint_follows :: "externals \<Rightarrow> public_checkpoint \<Rightarrow> public_checkpoint \<Rightarrow> bool" where
  "checkpoint_follows E a b \<longleftrightarrow> cp_witness b = cp_witness a \<and> cp_shot_id b = cp_shot_id a
     \<and> unat (cp_sequence b) = unat (cp_sequence a) + 1
     \<and> (\<exists>head s t. checkpoint_committed E a head s \<and> cp_previous b = Some head
          \<and> unix_timestamp E (cp_issued_at b) = Inr t \<and> s \<le> t)"

definition checkpoint_extends :: "externals \<Rightarrow> public_checkpoint_anchor \<Rightarrow> public_checkpoint \<Rightarrow> bool" where
  "checkpoint_extends E a c \<longleftrightarrow> cp_witness c = ca_witness a \<and> cp_shot_id c = ca_shot_id a
     \<and> unat (cp_sequence c) = unat (ca_sequence a) + 1 \<and> cp_previous c = Some (ca_head a)
     \<and> (\<exists>s t. unix_timestamp E (ca_issued_at a) = Inr s \<and> unix_timestamp E (cp_issued_at c) = Inr t \<and> s \<le> t)"

definition checkpoint_segment ::
  "externals \<Rightarrow> public_checkpoint_anchor option \<Rightarrow> public_checkpoint list \<Rightarrow> bytes32 \<Rightarrow> bool" where
  "checkpoint_segment E anchor cs head \<longleftrightarrow> cs \<noteq> [] \<and> successively (checkpoint_follows E) cs
     \<and> (\<forall>c \<in> set cs. \<exists>h t. checkpoint_committed E c h t) \<and> checkpoint_commitment E (last cs) = Inr head
     \<and> (case anchor of None \<Rightarrow> True | Some a \<Rightarrow> checkpoint_extends E a (hd cs))"

text \<open>What the cursor demands of the next checkpoint, and the cursor after it.\<close>

definition cursor_meets :: "externals \<Rightarrow> public_checkpoint_witness \<Rightarrow> shot_id \<Rightarrow> checkpoint_cursor \<Rightarrow> public_checkpoint \<Rightarrow> bool" where
  "cursor_meets E w s cursor c \<longleftrightarrow> cp_witness c = w \<and> cp_shot_id c = s \<and> cp_sequence c = cc_sequence cursor
     \<and> cp_previous c = cc_previous cursor
     \<and> (\<forall>prior. cc_time cursor = Some prior \<longrightarrow> (\<exists>t. unix_timestamp E (cp_issued_at c) = Inr t \<and> prior \<le> t))"

definition checkpoint_cursor_after :: "public_checkpoint \<Rightarrow> bytes32 \<Rightarrow> int \<Rightarrow> checkpoint_cursor" where
  "checkpoint_cursor_after c head time =
     \<lparr>cc_sequence = cp_sequence c + 1, cc_previous = Some head, cc_time = Some time\<rparr>"

lemma safe_sequence_next:
  assumes "checkpoint_validate c = Inr ()"
  shows "checked_add (cp_sequence c) 1 = Some (cp_sequence c + 1)" "unat (cp_sequence c + 1) = unat (cp_sequence c) + 1"
proof -
  have "cp_sequence c \<le> 9007199254740991"
    using assms by (simp add: checkpoint_validate_def MAX_SAFE_JSON_INTEGER_def not_less)
  then have "unat (cp_sequence c) \<le> 9007199254740991" by (simp add: word_le_nat_alt)
  then show "checked_add (cp_sequence c) 1 = Some (cp_sequence c + 1)" by (simp add: checked_add_def)
  then show "unat (cp_sequence c + 1) = unat (cp_sequence c) + 1" by (auto dest!: checked_add_SomeD)
qed

lemma checkpoint_step_ok:
  "checkpoint_step E w s cursor c = Inr cursor' \<longleftrightarrow> cursor_meets E w s cursor c
     \<and> (\<exists>h t. checkpoint_committed E c h t \<and> cursor' = checkpoint_cursor_after c h t)"
proof -
  have "checkpoint_step E w s cursor c = Inr cursor' \<longleftrightarrow> cursor_meets E w s cursor c
      \<and> (\<exists>h t n. checkpoint_committed E c h t \<and> checked_add (cc_sequence cursor) 1 = Some n
           \<and> cursor' = \<lparr>cc_sequence = n, cc_previous = Some h, cc_time = Some t\<rparr>)"
    by (cases "cc_time cursor")
      (auto simp: checkpoint_step_def cursor_meets_def checkpoint_committed_def)
  moreover have "checked_add (cc_sequence cursor) 1 = Some (cp_sequence c + 1)"
    if "cursor_meets E w s cursor c" "checkpoint_committed E c h t" for h t
    using that safe_sequence_next [of c] by (simp add: cursor_meets_def checkpoint_committed_def)
  ultimately show ?thesis by (auto simp: checkpoint_cursor_after_def)
qed

lemma cursor_after_meets:
  assumes "checkpoint_committed E a h t"
  shows "cursor_meets E w s (checkpoint_cursor_after a h t) b \<and> w = cp_witness a \<and> s = cp_shot_id a
    \<longleftrightarrow> checkpoint_follows E a b \<and> w = cp_witness a \<and> s = cp_shot_id a"
proof -
  have "checkpoint_validate a = Inr ()" using assms by (simp add: checkpoint_committed_def)
  then have "cp_sequence b = cp_sequence a + 1 \<longleftrightarrow> unat (cp_sequence b) = unat (cp_sequence a) + 1"
    by (simp add: word_unat_eq_iff safe_sequence_next)
  then show ?thesis using assms
    by (auto simp: cursor_meets_def checkpoint_follows_def checkpoint_cursor_after_def checkpoint_committed_def)
qed

lemma checkpoint_run:
  "run_log (checkpoint_step E w s) cursor (c # cs) = Inr cursor' \<longleftrightarrow> cursor_meets E w s cursor c
     \<and> successively (checkpoint_follows E) (c # cs) \<and> (\<forall>d \<in> set (c # cs). \<exists>h t. checkpoint_committed E d h t)
     \<and> (\<exists>h t. checkpoint_committed E (last (c # cs)) h t \<and> cursor' = checkpoint_cursor_after (last (c # cs)) h t)"
proof (induction cs arbitrary: c cursor)
  case Nil
  then show ?case by (auto simp: checkpoint_step_ok)
next
  case (Cons d cs)
  have det: "checkpoint_committed E c h t \<Longrightarrow> checkpoint_committed E c h' t' \<Longrightarrow> h' = h \<and> t' = t" for h t h' t'
    by (simp add: checkpoint_committed_def)
  have "run_log (checkpoint_step E w s) cursor (c # d # cs) = Inr cursor' \<longleftrightarrow> cursor_meets E w s cursor c
      \<and> (\<exists>h t. checkpoint_committed E c h t
           \<and> run_log (checkpoint_step E w s) (checkpoint_cursor_after c h t) (d # cs) = Inr cursor')"
    by (simp only: run_log.simps(2) [of _ cursor c] bind_result_eq_Inr checkpoint_step_ok) blast
  moreover have "cursor_meets E w s cursor c \<Longrightarrow> checkpoint_committed E c h t \<Longrightarrow>
      cursor_meets E w s (checkpoint_cursor_after c h t) d \<longleftrightarrow> checkpoint_follows E c d" for h t
    using cursor_after_meets [of E c h t w s d] by (auto simp: cursor_meets_def)
  ultimately show ?case unfolding Cons.IH using det by auto
qed

lemma checkpoint_start_ok:
  "checkpoint_start E c anchor = Inr cursor \<and> cursor_meets E (cp_witness c) (cp_shot_id c) cursor c \<longleftrightarrow>
     (case anchor of
        None \<Rightarrow> cursor = \<lparr>cc_sequence = cp_sequence c, cc_previous = cp_previous c, cc_time = None\<rparr>
      | Some a \<Rightarrow> checkpoint_extends E a c \<and> (\<exists>s. unix_timestamp E (ca_issued_at a) = Inr s
          \<and> cursor = \<lparr>cc_sequence = cp_sequence c, cc_previous = Some (ca_head a), cc_time = Some s\<rparr>))"
  by (cases anchor) (auto simp: checkpoint_start_def cursor_meets_def checkpoint_extends_def checked_add_eq_Some_iff
      dest: checked_add_SomeD)

text \<open>
  Verification is exact: it succeeds exactly on the non-empty lists of valid checkpoints in
  which each follows the one before and the first extends the anchor, and reports the
  coordinates, the sequences, the commitment of the last checkpoint and completeness.
\<close>

lemma verify_checkpoints_iff:
  "verify_public_checkpoint_segment E cs anchor = Inr v \<longleftrightarrow> checkpoint_segment E anchor cs (vc_head v)
     \<and> v = \<lparr>vc_witness = cp_witness (hd cs), vc_shot_id = cp_shot_id (hd cs), vc_first = cp_sequence (hd cs),
          vc_last = cp_sequence (last cs), vc_head = vc_head v,
          vc_complete_from_registration = (anchor = None \<and> cp_sequence (hd cs) = 1 \<and> cp_previous (hd cs) = None)\<rparr>"
proof (cases cs)
  case (Cons c ds)
  let ?w = "cp_witness c" and ?s = "cp_shot_id c"
  let ?v = "\<lambda>h. \<lparr>vc_witness = ?w, vc_shot_id = ?s, vc_first = cp_sequence c, vc_last = cp_sequence (last cs),
    vc_head = h, vc_complete_from_registration = (anchor = None \<and> cp_sequence c = 1 \<and> cp_previous c = None)\<rparr>"
  let ?ok = "successively (checkpoint_follows E) cs \<and> (\<forall>d \<in> set cs. \<exists>h t. checkpoint_committed E d h t)"
  have "verify_public_checkpoint_segment E cs anchor = Inr v \<longleftrightarrow>
      (\<exists>start. checkpoint_start E c anchor = Inr start \<and> cursor_meets E ?w ?s start c)
      \<and> ?ok \<and> (\<exists>h t. checkpoint_committed E (last cs) h t \<and> v = ?v h)"
    (is "_ \<longleftrightarrow> ?start \<and> ?ok \<and> ?last")
  proof -
    have "verify_public_checkpoint_segment E cs anchor = Inr v \<longleftrightarrow> (\<exists>start cursor h. checkpoint_start E c anchor = Inr start
        \<and> run_log (checkpoint_step E ?w ?s) start cs = Inr cursor \<and> cc_previous cursor = Some h \<and> v = ?v h)"
      by (simp add: verify_public_checkpoint_segment_def Cons) metis
    also have "\<dots> \<longleftrightarrow> (\<exists>start cursor h. checkpoint_start E c anchor = Inr start \<and> cursor_meets E ?w ?s start c \<and> ?ok
        \<and> (\<exists>h t. checkpoint_committed E (last cs) h t \<and> cursor = checkpoint_cursor_after (last cs) h t)
        \<and> cc_previous cursor = Some h \<and> v = ?v h)"
      unfolding Cons checkpoint_run by blast
    also have "\<dots> \<longleftrightarrow> ?start \<and> ?ok \<and> (\<exists>cursor h. (\<exists>h t. checkpoint_committed E (last cs) h t
        \<and> cursor = checkpoint_cursor_after (last cs) h t) \<and> cc_previous cursor = Some h \<and> v = ?v h)"
      by blast
    also have "(\<exists>cursor h. (\<exists>h t. checkpoint_committed E (last cs) h t
        \<and> cursor = checkpoint_cursor_after (last cs) h t) \<and> cc_previous cursor = Some h \<and> v = ?v h) \<longleftrightarrow> ?last"
      by (fastforce simp: checkpoint_cursor_after_def)
    finally show ?thesis .
  qed
  also have "(\<exists>start. checkpoint_start E c anchor = Inr start \<and> cursor_meets E ?w ?s start c)
      \<longleftrightarrow> (case anchor of None \<Rightarrow> True | Some a \<Rightarrow> checkpoint_extends E a c)"
    unfolding checkpoint_start_ok by (auto simp: checkpoint_extends_def split: option.splits)
  also have "?ok \<and> (\<exists>h t. checkpoint_committed E (last cs) h t \<and> v = ?v h)
      \<longleftrightarrow> ?ok \<and> checkpoint_commitment E (last cs) = Inr (vc_head v) \<and> v = ?v (vc_head v)"
    using Cons last_in_set [of cs] by (fastforce simp: checkpoint_committed_def)
  finally show ?thesis unfolding checkpoint_segment_def Cons list.sel(1) by blast
qed (simp add: verify_public_checkpoint_segment_def checkpoint_segment_def)

section \<open>A head determines the public history\<close>

lemma checkpoint_witness_json_inject: "checkpoint_witness_json a = checkpoint_witness_json b \<longleftrightarrow> a = b"
  by (cases a; cases b) (simp add: checkpoint_witness_json_def json_inject)

lemma checkpoint_json_inject: "checkpoint_json a = checkpoint_json b \<longleftrightarrow> a = b"
proof -
  have scope: "x = y" for x y :: public_checkpoint_scope by (cases x; cases y) simp
  show ?thesis
    using scope [of "cp_scope a" "cp_scope b"]
    by (cases a; cases b) (simp add: checkpoint_json_def json_inject checkpoint_witness_json_inject)
qed

lemma checkpoint_commitment_binds:
  assumes "checkpoint_commitment E a = Inr h" "checkpoint_commitment E b = Inr h"
  shows "a = b \<or> commitment_collision E (checkpoint_json a) (checkpoint_json b)"
  using assms sha256_commitment_binds [of E "checkpoint_json a" h "checkpoint_json b"]
  by (auto simp: checkpoint_commitment_def checkpoint_json_inject)

interpretation checkpoint_chain: hash_chain cp_previous "checkpoint_commitment E"
  "\<lambda>a b. commitment_collision E (checkpoint_json a) (checkpoint_json b)" for E
  by unfold_locales (rule checkpoint_commitment_binds)

lemma complete_segment_chain:
  assumes "verify_public_checkpoint_segment E cs anchor = Inr v" "vc_complete_from_registration v"
  shows "checkpoint_chain.chain E cs" "checkpoint_commitment E (last cs) = Inr (vc_head v)"
proof -
  have *: "checkpoint_segment E anchor cs (vc_head v)" "cp_previous (hd cs) = None"
    using iffD1 [OF verify_checkpoints_iff assms(1)] assms(2)
    by (metis verified_checkpoint_segment.select_convs(6))+
  have "successively (checkpoint_chain.linked E) cs"
    using *(1) by (auto simp: checkpoint_segment_def checkpoint_chain.linked_def checkpoint_follows_def
        checkpoint_committed_def elim!: successively_mono)
  with * show "checkpoint_chain.chain E cs" "checkpoint_commitment E (last cs) = Inr (vc_head v)"
    by (auto simp: checkpoint_chain.chain_def checkpoint_segment_def)
qed

lemma complete_segments_agree:
  assumes "verify_public_checkpoint_segment E cs anchor = Inr v" "vc_complete_from_registration v"
    "verify_public_checkpoint_segment E ds anchor' = Inr v'" "vc_complete_from_registration v'"
    "vc_head v = vc_head v'"
  shows "cs = ds \<or> (\<exists>c \<in> set cs. \<exists>d \<in> set ds. commitment_collision E (checkpoint_json c) (checkpoint_json d))"
  using complete_segment_chain [OF assms(1,2)] complete_segment_chain [OF assms(3,4)] assms(5)
  by (intro checkpoint_chain.chain_determined) auto

text \<open>The head that a registry action records.\<close>

fun recorded_head :: "registry_action_v2 \<Rightarrow> bytes32" where
  "recorded_head (RegisterShot shot_id controller head salt nonce deadline) = head"
| "recorded_head (AppendCheckpoint shot_id previous_head new_head n nonce deadline) = new_head"
| "recorded_head (TransferShotV2 shot_id current_controller new_controller current_head n nonce deadline) = current_head"

lemma validate_registry_action_ok:
  assumes "validate_registry_action E c a d = Inr ()"
  shows "checkpoint_commitment E c = Inr (recorded_head a)" "ra_shot_id a = cp_shot_id c"
    "dom_chain_id d = pw_chain_id (cp_witness c)" "dom_verifying_contract d = pw_registry (cp_witness c)"
  using assms by (cases a; auto simp: validate_registry_action_def)+

text \<open>
  C30: the head recorded in the registry determines the public history. Take two checkpoint
  lists that verify as complete from the registration, whose last checkpoints are each bound
  to a valid registry action for the contract of their witness. If the two actions record
  the same head, the lists are equal checkpoint by checkpoint, and the two actions are for
  the same Shot on the same contract, or two of the checkpoints have colliding canonical
  forms.
\<close>

theorem registered_head_determines_history:
  assumes "verify_public_checkpoint_segment E cs anchor = Inr v" "vc_complete_from_registration v"
    "validate_registry_action E (last cs) a d = Inr ()"
    "verify_public_checkpoint_segment E ds anchor' = Inr v'" "vc_complete_from_registration v'"
    "validate_registry_action E (last ds) a' d' = Inr ()"
    "recorded_head a = recorded_head a'"
  shows "cs = ds \<and> ra_shot_id a = ra_shot_id a' \<and> dom_chain_id d = dom_chain_id d'
      \<and> dom_verifying_contract d = dom_verifying_contract d'
    \<or> (\<exists>x \<in> set cs. \<exists>y \<in> set ds. commitment_collision E (checkpoint_json x) (checkpoint_json y))"
proof -
  note a = validate_registry_action_ok [OF assms(3)] and a' = validate_registry_action_ok [OF assms(6)]
  have "vc_head v = vc_head v'"
    using complete_segment_chain(2) [OF assms(1,2)] complete_segment_chain(2) [OF assms(4,5)] a(1) a'(1) assms(7)
    by simp
  with assms have "cs = ds \<or> (\<exists>x \<in> set cs. \<exists>y \<in> set ds. commitment_collision E (checkpoint_json x) (checkpoint_json y))"
    by (intro complete_segments_agree)
  then show ?thesis using a(2-4) a'(2-4) by auto
qed

end
