(* ===== verification/Contract_Release.thy ===== *)
theory Contract_Release
  imports Commitments Actions
begin

text \<open>
  \<open>contract_generation.rs\<close> and \<open>contract_activation.rs\<close>: the reproducible definition of a
  contract generation with its CREATE2 coordinates, the policy of release authorities, and
  the activation of a generation by a threshold of their signatures; that a verified
  activation carries that threshold, and that activations form a chain which its last
  digest determines.
\<close>

section \<open>Contract generations\<close>

definition CONTRACT_GENERATION_SCHEMA :: string where "CONTRACT_GENERATION_SCHEMA = ''tohseno.contract-generation/1''"
definition CONTRACT_GENERATION_PROTOCOL :: string where "CONTRACT_GENERATION_PROTOCOL = ''tohseno''"
definition CONTRACT_GENERATION_PROTOCOL_MAJOR :: u64 where "CONTRACT_GENERATION_PROTOCOL_MAJOR = 2"
definition CONTRACT_SOURCE_TREE_LAW :: string where "CONTRACT_SOURCE_TREE_LAW = ''tohseno.contract-source-tree/1''"
definition CONTRACT_SOURCE_TREE_DOMAIN :: "byte list" where
  "CONTRACT_SOURCE_TREE_DOMAIN = str_bytes (''TOHSENO-CONTRACT-SOURCE-TREE-V1'' @ [CHR 0x00])"
definition EIP7951_STANDARD :: string where "EIP7951_STANDARD = ''EIP-7951''"
definition EIP7951_GAS :: u64 where "EIP7951_GAS = 6900"

datatype artifact_kind = SourceArtifact | AbiArtifact | CreationBytecodeArtifact

record build_artifact =
  ba_path :: string
  ba_sha256 :: bytes32
  ba_byte_length :: u64

definition ends_with :: "string \<Rightarrow> string \<Rightarrow> bool" where
  "ends_with t s \<longleftrightarrow> starts_with (rev t) (rev s)"

definition validate_relative_path :: "string \<Rightarrow> string \<Rightarrow> unit result" where
  "validate_relative_path field path =
     err_if (path = [] \<or> length path > 255 \<or> starts_with ''/'' path \<or> List.member path (CHR 0x5C)
         \<or> list_ex (\<lambda>part. part = [] \<or> part = ''.'' \<or> part = ''..''
              \<or> \<not> list_all (\<lambda>c. is_ascii_alphanumeric c \<or> c = CHR ''.'' \<or> c = CHR ''_'' \<or> c = CHR ''-'') part)
             (split_on (CHR ''/'') path))
       (invalid field ''must be a normalized relative ASCII path without traversal'')"

fun artifact_path_check :: "string \<Rightarrow> artifact_kind \<Rightarrow> string \<Rightarrow> unit result" where
  "artifact_path_check field SourceArtifact path =
     err_if (path \<noteq> ''foundry.toml'' \<and> \<not> starts_with ''src/'' path)
       (invalid field ''source paths must be foundry.toml or beneath src/'')"
| "artifact_path_check field AbiArtifact path =
     err_if (\<not> starts_with ''abi/'' path \<or> \<not> ends_with ''.json'' path) (invalid field ''ABI paths must be abi/*.json'')"
| "artifact_path_check field CreationBytecodeArtifact path =
     err_if (\<not> starts_with ''bytecode/'' path \<or> \<not> ends_with ''.creation.hex'' path)
       (invalid field ''creation-bytecode paths must be bytecode/*.creation.hex'')"

definition artifact_check :: "string \<Rightarrow> artifact_kind \<Rightarrow> build_artifact \<Rightarrow> unit result" where
  "artifact_check field kind a = checks [
     validate_relative_path field (ba_path a),
     artifact_path_check field kind (ba_path a),
     err_if (ba_sha256 a = 0) (invalid field ''sha256 must not be zero''),
     err_if (ba_byte_length a = 0 \<or> ba_byte_length a > MAX_SAFE_JSON_INTEGER)
       (invalid field ''byte_length must be a positive JavaScript-safe integer'')]"

fun inventory_loop :: "string \<Rightarrow> artifact_kind \<Rightarrow> string option \<Rightarrow> build_artifact list \<Rightarrow> unit result" where
  "inventory_loop field kind prior [] = Inr ()"
| "inventory_loop field kind prior (file # files) = checks [
     artifact_check field kind file,
     err_if (is_some_and prior (\<lambda>value. value \<ge> ba_path file))
       (invalid field ''paths must be unique and strictly lexicographically ordered''),
     inventory_loop field kind (Some (ba_path file)) files]"

definition validate_artifact_inventory :: "string \<Rightarrow> build_artifact list \<Rightarrow> artifact_kind \<Rightarrow> unit result" where
  "validate_artifact_inventory field files kind = checks [
     err_if (files = []) (invalid field ''must not be empty''),
     inventory_loop field kind None files]"

definition source_line :: "build_artifact \<Rightarrow> string" where
  "source_line file = bytes32_to_hex (ba_sha256 file) @ '' '' @ show_nat (unat (ba_byte_length file)) @ '' ''
     @ ba_path file @ [CHR 0x0A]"

definition contract_source_tree_digest :: "externals \<Rightarrow> build_artifact list \<Rightarrow> bytes32 result" where
  "contract_source_tree_digest E files =
     bind_result (validate_artifact_inventory ''contract_generation.source.files'' files SourceArtifact) (\<lambda>_.
       Inr (sha256 E (CONTRACT_SOURCE_TREE_DOMAIN @ str_bytes (concat (map source_line files)))))"

definition dotted_numeric :: "nat \<Rightarrow> string \<Rightarrow> bool" where
  "dotted_numeric components value \<longleftrightarrow>
     (let parts = split_on (CHR ''.'') value in length parts = components
      \<and> list_all (\<lambda>part. part \<noteq> [] \<and> list_all is_ascii_digit part \<and> \<not> (length part > 1 \<and> starts_with ''0'' part)) parts)"

definition validate_dotted_numeric :: "string \<Rightarrow> string \<Rightarrow> nat \<Rightarrow> unit result" where
  "validate_dotted_numeric field value components =
     err_if (\<not> dotted_numeric components value)
       (invalid field (''must contain '' @ show_nat components @ '' canonical decimal components''))"

definition validate_version :: "string \<Rightarrow> string \<Rightarrow> unit result" where
  "validate_version field value = validate_dotted_numeric field value 3"

definition validate_commit :: "string \<Rightarrow> string \<Rightarrow> unit result" where
  "validate_commit field value =
     err_if (\<not> is_git_object_id value) (invalid field ''must be a 40-character lowercase Git object ID'')"

record p256_verifier_requirement =
  vr_standard :: string
  vr_address :: address20
  vr_gas :: u64

definition p256_verifier_validate :: "p256_verifier_requirement \<Rightarrow> unit result" where
  "p256_verifier_validate v = checks [
     err_if (vr_standard v \<noteq> EIP7951_STANDARD)
       (invalid ''contract_generation.chain.p256_verifier.standard'' (''must be '' @ EIP7951_STANDARD)),
     err_if (vr_address v \<noteq> 0x100)
       (invalid ''contract_generation.chain.p256_verifier.address'' ''EIP-7951 is fixed at address 0x100''),
     err_if (vr_gas v \<noteq> EIP7951_GAS)
       (invalid ''contract_generation.chain.p256_verifier.gas''
         (''must be final EIP-7951 cost '' @ show_nat (unat EIP7951_GAS)))]"

record generation_chain =
  gc_chain_id :: u64
  gc_p256_verifier :: p256_verifier_requirement

definition generation_chain_validate :: "generation_chain \<Rightarrow> unit result" where
  "generation_chain_validate c = checks [
     err_if (gc_chain_id c = 0 \<or> gc_chain_id c > MAX_SAFE_JSON_INTEGER)
       (invalid ''contract_generation.chain.chain_id'' ''must be a positive JavaScript-safe integer''),
     p256_verifier_validate (gc_p256_verifier c)]"

record generation_source =
  gs_commit :: string
  gs_tree_law :: string
  gs_tree_sha256 :: bytes32
  gs_files :: "build_artifact list"

definition generation_source_validate :: "externals \<Rightarrow> generation_source \<Rightarrow> unit result" where
  "generation_source_validate E s = checks [
     validate_commit ''contract_generation.source.commit'' (gs_commit s),
     err_if (gs_tree_law s \<noteq> CONTRACT_SOURCE_TREE_LAW)
       (invalid ''contract_generation.source.tree_law'' (''must be '' @ CONTRACT_SOURCE_TREE_LAW)),
     validate_artifact_inventory ''contract_generation.source.files'' (gs_files s) SourceArtifact,
     bind_result (contract_source_tree_digest E (gs_files s)) (\<lambda>digest.
       err_if (gs_tree_sha256 s \<noteq> digest)
         (invalid ''contract_generation.source.tree_sha256'' ''does not match the declared source inventory''))]"

record solidity_build_profile =
  bp_profile :: string
  bp_solc_version :: string
  bp_evm_version :: string
  bp_optimizer :: bool
  bp_optimizer_runs :: u64
  bp_via_ir :: bool
  bp_bytecode_hash :: string
  bp_cbor_metadata :: bool
  bp_forge_version :: string
  bp_forge_commit :: string

definition build_profile_validate :: "solidity_build_profile \<Rightarrow> unit result" where
  "build_profile_validate b = checks [
     err_if (bp_profile b \<noteq> ''default'') (invalid ''contract_generation.build.profile'' ''must be default''),
     validate_dotted_numeric ''contract_generation.build.solc_version'' (bp_solc_version b) 3,
     err_if (bp_evm_version b = [] \<or> \<not> list_all (\<lambda>c. is_ascii_lowercase c \<or> is_ascii_digit c) (bp_evm_version b))
       (invalid ''contract_generation.build.evm_version'' ''must be a lowercase ASCII EVM fork name''),
     err_if (\<not> bp_optimizer b \<or> bp_optimizer_runs b = 0 \<or> bp_optimizer_runs b > MAX_SAFE_JSON_INTEGER)
       (invalid ''contract_generation.build.optimizer_runs'' ''the optimizer must be enabled with a positive safe run count''),
     err_if (bp_bytecode_hash b \<noteq> ''none'' \<or> bp_cbor_metadata b)
       (invalid ''contract_generation.build.metadata''
         ''reproducible generations require bytecode_hash none and CBOR metadata disabled''),
     err_if (bp_forge_version b = [] \<or> length (bp_forge_version b) > 64
         \<or> \<not> list_all (\<lambda>c. is_ascii_alphanumeric c \<or> c = CHR ''.'' \<or> c = CHR ''-'' \<or> c = CHR ''+'') (bp_forge_version b))
       (invalid ''contract_generation.build.forge_version'' ''must be a short printable version token''),
     validate_commit ''contract_generation.build.forge_commit'' (bp_forge_commit b)]"

record contract_build =
  cb_component_version :: string
  cb_abi :: build_artifact
  cb_creation_bytecode :: "build_artifact option"
  cb_creation_code_keccak256 :: bytes32
  cb_runtime_code_keccak256 :: bytes32

definition contract_build_validate :: "string \<Rightarrow> contract_build \<Rightarrow> unit result" where
  "contract_build_validate field b = checks [
     validate_version field (cb_component_version b),
     artifact_check field AbiArtifact (cb_abi b),
     (case cb_creation_bytecode b of None \<Rightarrow> Inr () | Some a \<Rightarrow> artifact_check field CreationBytecodeArtifact a),
     err_if (cb_creation_code_keccak256 b = 0 \<or> cb_runtime_code_keccak256 b = 0)
       (invalid field ''code hashes must not be zero'')]"

record generation_contracts =
  gk_builder_account :: contract_build
  gk_builder_account_factory :: contract_build
  gk_shot_registry :: contract_build

definition generation_contracts_validate :: "generation_contracts \<Rightarrow> unit result" where
  "generation_contracts_validate k = checks [
     contract_build_validate ''contract_generation.contracts.builder_account'' (gk_builder_account k),
     contract_build_validate ''contract_generation.contracts.builder_account_factory'' (gk_builder_account_factory k),
     contract_build_validate ''contract_generation.contracts.shot_registry'' (gk_shot_registry k),
     err_if (ba_path (cb_abi (gk_builder_account k)) \<noteq> ''abi/BuilderAccount.json''
         \<or> ba_path (cb_abi (gk_builder_account_factory k)) \<noteq> ''abi/BuilderAccountFactory.json''
         \<or> ba_path (cb_abi (gk_shot_registry k)) \<noteq> ''abi/ShotRegistry.json'')
       (invalid ''contract_generation.contracts'' ''each ABI path must identify its exact contract''),
     err_if (cb_creation_bytecode (gk_builder_account k) = None
         \<or> cb_creation_bytecode (gk_builder_account_factory k) \<noteq> None
         \<or> cb_creation_bytecode (gk_shot_registry k) \<noteq> None)
       (invalid ''contract_generation.contracts'' ''only BuilderAccount carries a portable creation-bytecode artifact''),
     err_if (\<not> is_some_and (cb_creation_bytecode (gk_builder_account k))
           (\<lambda>a. ba_path a = ''bytecode/BuilderAccount.creation.hex''))
       (invalid ''contract_generation.contracts.builder_account.creation_bytecode''
         ''must identify the exact BuilderAccount creation-bytecode artifact'')]"

text \<open>EIP-1014: the last twenty bytes of the digest of the 85-byte preimage.\<close>

definition predict_create2_address :: "externals \<Rightarrow> address20 \<Rightarrow> bytes32 \<Rightarrow> bytes32 \<Rightarrow> address20" where
  "predict_create2_address E deployer salt init_code_keccak256 =
     from_be_bytes (drop 12 (to_be_bytes (ext_keccak256 E
       ([0xff] @ to_be_bytes deployer @ to_be_bytes salt @ to_be_bytes init_code_keccak256))))"

record create2_coordinate =
  c2_salt :: bytes32
  c2_init_code_keccak256 :: bytes32
  c2_predicted_address :: address20

definition create2_validate :: "externals \<Rightarrow> string \<Rightarrow> address20 \<Rightarrow> bytes32 \<Rightarrow> create2_coordinate \<Rightarrow> unit result" where
  "create2_validate E field deployer expected_init_code_hash c = checks [
     err_if (c2_salt c = 0 \<or> c2_init_code_keccak256 c = 0) (invalid field ''salt and init-code hash must not be zero''),
     err_if (c2_init_code_keccak256 c \<noteq> expected_init_code_hash)
       (invalid field ''init-code hash differs from the contract build''),
     err_if (address_is_zero (c2_predicted_address c) \<or> c2_predicted_address c = deployer)
       (invalid field ''predicted address must be nonzero and differ from the deployer''),
     err_if (c2_predicted_address c \<noteq> predict_create2_address E deployer (c2_salt c) (c2_init_code_keccak256 c))
       (invalid field ''predicted address does not satisfy EIP-1014'')]"

record generation_create2 =
  g2_deployer :: address20
  g2_builder_account_factory :: create2_coordinate
  g2_shot_registry :: create2_coordinate

definition generation_create2_validate :: "externals \<Rightarrow> generation_contracts \<Rightarrow> generation_create2 \<Rightarrow> unit result" where
  "generation_create2_validate E k c = checks [
     err_if (address_is_zero (g2_deployer c)) (invalid ''contract_generation.create2.deployer'' ''must not be zero''),
     create2_validate E ''contract_generation.create2.builder_account_factory'' (g2_deployer c)
       (cb_creation_code_keccak256 (gk_builder_account_factory k)) (g2_builder_account_factory c),
     create2_validate E ''contract_generation.create2.shot_registry'' (g2_deployer c)
       (cb_creation_code_keccak256 (gk_shot_registry k)) (g2_shot_registry c),
     err_if (c2_predicted_address (g2_builder_account_factory c) = c2_predicted_address (g2_shot_registry c))
       (invalid ''contract_generation.create2'' ''predicted addresses must be distinct'')]"

record contract_generation =
  cg_schema :: string
  cg_protocol :: string
  cg_protocol_major :: u64
  cg_generation :: string
  cg_chain :: generation_chain
  cg_source :: generation_source
  cg_build :: solidity_build_profile
  cg_contracts :: generation_contracts
  cg_create2 :: generation_create2

definition generation_validate :: "externals \<Rightarrow> contract_generation \<Rightarrow> unit result" where
  "generation_validate E g = checks [
     err_if (cg_schema g \<noteq> CONTRACT_GENERATION_SCHEMA)
       (invalid ''contract_generation.schema'' (''must be '' @ CONTRACT_GENERATION_SCHEMA)),
     err_if (cg_protocol g \<noteq> CONTRACT_GENERATION_PROTOCOL)
       (invalid ''contract_generation.protocol'' (''must be '' @ CONTRACT_GENERATION_PROTOCOL)),
     err_if (cg_protocol_major g \<noteq> CONTRACT_GENERATION_PROTOCOL_MAJOR)
       (invalid ''contract_generation.protocol_major''
         (''must be '' @ show_nat (unat CONTRACT_GENERATION_PROTOCOL_MAJOR))),
     validate_version ''contract_generation.generation'' (cg_generation g),
     generation_chain_validate (cg_chain g),
     generation_source_validate E (cg_source g),
     build_profile_validate (cg_build g),
     generation_contracts_validate (cg_contracts g),
     generation_create2_validate E (cg_contracts g) (cg_create2 g)]"

subsection \<open>JSON forms\<close>

definition build_artifact_json :: "build_artifact \<Rightarrow> json" where
  "build_artifact_json a = JObj [(''path'', JStr (ba_path a)), (''sha256'', json_bytes32 (ba_sha256 a)),
     (''byte_length'', json_word (ba_byte_length a))]"

definition contract_build_json :: "contract_build \<Rightarrow> json" where
  "contract_build_json b = JObj [(''component_version'', JStr (cb_component_version b)),
     (''abi'', build_artifact_json (cb_abi b)),
     (''creation_bytecode'', json_option build_artifact_json (cb_creation_bytecode b)),
     (''creation_code_keccak256'', json_bytes32 (cb_creation_code_keccak256 b)),
     (''runtime_code_keccak256'', json_bytes32 (cb_runtime_code_keccak256 b))]"

definition create2_json :: "create2_coordinate \<Rightarrow> json" where
  "create2_json c = JObj [(''salt'', json_bytes32 (c2_salt c)),
     (''init_code_keccak256'', json_bytes32 (c2_init_code_keccak256 c)),
     (''predicted_address'', json_address20 (c2_predicted_address c))]"

definition generation_json :: "contract_generation \<Rightarrow> json" where
  "generation_json g =
     (let c = cg_chain g; v = gc_p256_verifier c; s = cg_source g; b = cg_build g; k = cg_contracts g; x = cg_create2 g in
      JObj [
       (''schema'', JStr (cg_schema g)),
       (''protocol'', JStr (cg_protocol g)),
       (''protocol_major'', json_word (cg_protocol_major g)),
       (''generation'', JStr (cg_generation g)),
       (''chain'', JObj [(''chain_id'', json_word (gc_chain_id c)),
          (''p256_verifier'', JObj [(''standard'', JStr (vr_standard v)), (''address'', json_address20 (vr_address v)),
             (''gas'', json_word (vr_gas v))])]),
       (''source'', JObj [(''commit'', JStr (gs_commit s)), (''tree_law'', JStr (gs_tree_law s)),
          (''tree_sha256'', json_bytes32 (gs_tree_sha256 s)), (''files'', JArr (map build_artifact_json (gs_files s)))]),
       (''build'', JObj [(''profile'', JStr (bp_profile b)), (''solc_version'', JStr (bp_solc_version b)),
          (''evm_version'', JStr (bp_evm_version b)), (''optimizer'', JBool (bp_optimizer b)),
          (''optimizer_runs'', json_word (bp_optimizer_runs b)), (''via_ir'', JBool (bp_via_ir b)),
          (''bytecode_hash'', JStr (bp_bytecode_hash b)), (''cbor_metadata'', JBool (bp_cbor_metadata b)),
          (''forge_version'', JStr (bp_forge_version b)), (''forge_commit'', JStr (bp_forge_commit b))]),
       (''contracts'', JObj [(''builder_account'', contract_build_json (gk_builder_account k)),
          (''builder_account_factory'', contract_build_json (gk_builder_account_factory k)),
          (''shot_registry'', contract_build_json (gk_shot_registry k))]),
       (''create2'', JObj [(''deployer'', json_address20 (g2_deployer x)),
          (''builder_account_factory'', create2_json (g2_builder_account_factory x)),
          (''shot_registry'', create2_json (g2_shot_registry x))])])"

definition generation_digest :: "externals \<Rightarrow> contract_generation \<Rightarrow> bytes32 result" where
  "generation_digest E g = bind_result (generation_validate E g) (\<lambda>_. sha256_commitment E (generation_json g))"

section \<open>Release authorities\<close>

definition RELEASE_AUTHORITY_POLICY_SCHEMA :: string where
  "RELEASE_AUTHORITY_POLICY_SCHEMA = ''tohseno.release-authority-policy/1''"
definition CONTRACT_ACTIVATION_SCHEMA :: string where "CONTRACT_ACTIVATION_SCHEMA = ''tohseno.contract-activation/1''"
definition SIGNED_CONTRACT_ACTIVATION_SCHEMA :: string where
  "SIGNED_CONTRACT_ACTIVATION_SCHEMA = ''tohseno.signed-contract-activation/1''"
definition CONTRACT_ACTIVATION_PROTOCOL :: string where "CONTRACT_ACTIVATION_PROTOCOL = ''tohseno''"
definition CONTRACT_ACTIVATION_SIGNING_DOMAIN :: "byte list" where
  "CONTRACT_ACTIVATION_SIGNING_DOMAIN = str_bytes (''TOHSENO-CONTRACT-ACTIVATION-V1'' @ [CHR 0x00])"
definition RELEASE_AUTHORITY_KEY_DOMAIN :: "byte list" where
  "RELEASE_AUTHORITY_KEY_DOMAIN = str_bytes (''TOHSENO-RELEASE-AUTHORITY-KEY-V1'' @ [CHR 0x00])"
definition MAX_RELEASE_AUTHORITIES :: nat where "MAX_RELEASE_AUTHORITIES = 32"

datatype release_authority_purpose = ContractGenerationActivation

record release_authority =
  la_key_id :: bytes32
  la_public_key :: p256_public_key

definition release_authority_key_id :: "externals \<Rightarrow> p256_public_key \<Rightarrow> bytes32" where
  "release_authority_key_id E key =
     sha256 E (RELEASE_AUTHORITY_KEY_DOMAIN @ to_be_bytes (pk_x key) @ to_be_bytes (pk_y key))"

definition authority_from_public_key :: "externals \<Rightarrow> p256_public_key \<Rightarrow> release_authority result" where
  "authority_from_public_key E key =
     bind_result (public_key_validate E key) (\<lambda>_.
       Inr \<lparr>la_key_id = release_authority_key_id E key, la_public_key = key\<rparr>)"

definition authority_validate :: "externals \<Rightarrow> release_authority \<Rightarrow> unit result" where
  "authority_validate E a = checks [
     public_key_validate E (la_public_key a),
     err_if (la_key_id a \<noteq> release_authority_key_id E (la_public_key a))
       (invalid ''release_authority.key_id'' ''must use the dedicated release-authority key derivation'')]"

record release_authority_policy =
  po_schema :: string
  po_protocol :: string
  po_protocol_major :: u64
  po_purpose :: release_authority_purpose
  po_threshold :: u64
  po_authorities :: "release_authority list"
  po_issued_at :: canonical_timestamp

fun authorities_loop :: "externals \<Rightarrow> bytes32 option \<Rightarrow> release_authority list \<Rightarrow> unit result" where
  "authorities_loop E prior [] = Inr ()"
| "authorities_loop E prior (a # as) = checks [
     authority_validate E a,
     err_if (is_some_and prior (\<lambda>value. value \<ge> la_key_id a))
       (invalid ''release_authority_policy.authorities'' ''key IDs must be unique and strictly ordered''),
     authorities_loop E (Some (la_key_id a)) as]"

definition after_epoch :: "externals \<Rightarrow> string \<Rightarrow> canonical_timestamp \<Rightarrow> unit result" where
  "after_epoch E field t =
     bind_result (unix_timestamp E t) (\<lambda>time. err_if (time \<le> 0) (invalid field ''must be after the Unix epoch''))"

definition policy_validate :: "externals \<Rightarrow> release_authority_policy \<Rightarrow> unit result" where
  "policy_validate E p = checks [
     err_if (po_schema p \<noteq> RELEASE_AUTHORITY_POLICY_SCHEMA)
       (invalid ''release_authority_policy.schema'' (''must be '' @ RELEASE_AUTHORITY_POLICY_SCHEMA)),
     err_if (po_protocol p \<noteq> CONTRACT_ACTIVATION_PROTOCOL)
       (invalid ''release_authority_policy.protocol'' (''must be '' @ CONTRACT_ACTIVATION_PROTOCOL)),
     err_if (po_protocol_major p \<noteq> CONTRACT_GENERATION_PROTOCOL_MAJOR)
       (invalid ''release_authority_policy.protocol_major''
         (''must be '' @ show_nat (unat CONTRACT_GENERATION_PROTOCOL_MAJOR))),
     err_if (po_authorities p = [] \<or> length (po_authorities p) > MAX_RELEASE_AUTHORITIES)
       (invalid ''release_authority_policy.authorities''
         (''must contain 1..='' @ show_nat MAX_RELEASE_AUTHORITIES @ '' keys'')),
     err_if (po_threshold p = 0 \<or> po_threshold p > of_nat (length (po_authorities p))
         \<or> po_threshold p > MAX_SAFE_JSON_INTEGER)
       (invalid ''release_authority_policy.threshold'' ''must be between one and the authority count''),
     authorities_loop E None (po_authorities p),
     after_epoch E ''release_authority_policy.issued_at'' (po_issued_at p)]"

fun release_purpose_name :: "release_authority_purpose \<Rightarrow> string" where
  "release_purpose_name ContractGenerationActivation = ''contract_generation_activation''"

definition policy_json :: "release_authority_policy \<Rightarrow> json" where
  "policy_json p = JObj [
     (''schema'', JStr (po_schema p)), (''protocol'', JStr (po_protocol p)),
     (''protocol_major'', json_word (po_protocol_major p)), (''purpose'', JStr (release_purpose_name (po_purpose p))),
     (''threshold'', json_word (po_threshold p)),
     (''authorities'', JArr (map (\<lambda>a. JObj [(''key_id'', json_bytes32 (la_key_id a)),
        (''public_key'', public_key_json (la_public_key a))]) (po_authorities p))),
     (''issued_at'', timestamp_json (po_issued_at p))]"

definition policy_digest :: "externals \<Rightarrow> release_authority_policy \<Rightarrow> bytes32 result" where
  "policy_digest E p = bind_result (policy_validate E p) (\<lambda>_. sha256_commitment E (policy_json p))"

section \<open>Activations\<close>

record deployment_observation =
  do_transaction_hash :: bytes32
  do_block_number :: u64
  do_block_hash :: bytes32

record activated_contract =
  at_address :: address20
  at_runtime_code_keccak256 :: bytes32
  at_deployment :: deployment_observation

record chain_block =
  bl_number :: u64
  bl_hash :: bytes32

definition block_number_check :: "string \<Rightarrow> u64 \<Rightarrow> unit result" where
  "block_number_check field n =
     err_if (n = 0 \<or> n > MAX_SAFE_JSON_INTEGER) (invalid field ''block number must be a positive JavaScript-safe integer'')"

definition deployment_validate :: "string \<Rightarrow> deployment_observation \<Rightarrow> unit result" where
  "deployment_validate field d = checks [
     err_if (do_transaction_hash d = 0 \<or> do_block_hash d = 0)
       (invalid field ''transaction and block hashes must be nonzero''),
     block_number_check field (do_block_number d)]"

definition activated_validate :: "string \<Rightarrow> activated_contract \<Rightarrow> unit result" where
  "activated_validate field a = checks [
     err_if (address_is_zero (at_address a) \<or> at_runtime_code_keccak256 a = 0)
       (invalid field ''address and runtime code hash must be nonzero''),
     deployment_validate field (at_deployment a)]"

definition chain_block_validate :: "string \<Rightarrow> chain_block \<Rightarrow> unit result" where
  "chain_block_validate field b = checks [
     block_number_check field (bl_number b),
     err_if (bl_hash b = 0) (invalid field ''block hash must not be zero'')]"

record contract_activation =
  ac_schema :: string
  ac_protocol :: string
  ac_protocol_major :: u64
  ac_generation :: string
  ac_sequence :: u64
  ac_previous :: "bytes32 option"
  ac_generation_definition_sha256 :: bytes32
  ac_authority_policy_sha256 :: bytes32
  ac_chain_id :: u64
  ac_builder_account_runtime_keccak256 :: bytes32
  ac_factory :: activated_contract
  ac_registry :: activated_contract
  ac_block :: chain_block
  ac_p256_probe_sha256 :: bytes32
  ac_issued_at :: canonical_timestamp

definition activation_predecessor :: "u64 \<Rightarrow> bytes32 option \<Rightarrow> unit result" where
  "activation_predecessor n predecessor =
     (let fail = invalid ''contract_activation.previous_activation'' in
      case predecessor of
        None \<Rightarrow> err_if (n \<noteq> 1) (fail ''a successor activation must name its predecessor'')
      | Some value \<Rightarrow>
          (if n = 1 then Inl (fail ''activation one must not claim a predecessor'')
           else err_if (value = 0) (fail ''must not be zero'')))"

definition activation_validate :: "externals \<Rightarrow> contract_activation \<Rightarrow> unit result" where
  "activation_validate E a = checks [
     err_if (ac_schema a \<noteq> CONTRACT_ACTIVATION_SCHEMA)
       (invalid ''contract_activation.schema'' (''must be '' @ CONTRACT_ACTIVATION_SCHEMA)),
     err_if (ac_protocol a \<noteq> CONTRACT_ACTIVATION_PROTOCOL)
       (invalid ''contract_activation.protocol'' (''must be '' @ CONTRACT_ACTIVATION_PROTOCOL)),
     err_if (ac_protocol_major a \<noteq> CONTRACT_GENERATION_PROTOCOL_MAJOR)
       (invalid ''contract_activation.protocol_major''
         (''must be '' @ show_nat (unat CONTRACT_GENERATION_PROTOCOL_MAJOR))),
     err_if (\<not> dotted_numeric 3 (ac_generation a))
       (invalid ''contract_activation.generation'' ''must contain three canonical decimal components''),
     err_if (ac_sequence a = 0 \<or> ac_sequence a > MAX_SAFE_JSON_INTEGER)
       (invalid ''contract_activation.activation_sequence'' ''must be a positive JavaScript-safe integer''),
     activation_predecessor (ac_sequence a) (ac_previous a),
     each (\<lambda>(field, digest). err_if (digest = 0) (invalid field ''must not be zero'')) [
       (''contract_activation.generation_definition_sha256'', ac_generation_definition_sha256 a),
       (''contract_activation.authority_policy_sha256'', ac_authority_policy_sha256 a),
       (''contract_activation.builder_account_runtime_keccak256'', ac_builder_account_runtime_keccak256 a),
       (''contract_activation.p256_probe_sha256'', ac_p256_probe_sha256 a)],
     err_if (ac_chain_id a = 0 \<or> ac_chain_id a > MAX_SAFE_JSON_INTEGER)
       (invalid ''contract_activation.chain_id'' ''must be a positive JavaScript-safe integer''),
     activated_validate ''contract_activation.factory'' (ac_factory a),
     activated_validate ''contract_activation.registry'' (ac_registry a),
     err_if (at_address (ac_factory a) = at_address (ac_registry a))
       (invalid ''contract_activation.registry.address'' ''must differ from the factory''),
     chain_block_validate ''contract_activation.activation_block'' (ac_block a),
     err_if (do_block_number (at_deployment (ac_factory a)) > bl_number (ac_block a)
         \<or> do_block_number (at_deployment (ac_registry a)) > bl_number (ac_block a))
       (invalid ''contract_activation.activation_block'' ''must be at or after both deployment observations''),
     after_epoch E ''contract_activation.issued_at'' (ac_issued_at a)]"

definition activated_json :: "activated_contract \<Rightarrow> json" where
  "activated_json a = JObj [(''address'', json_address20 (at_address a)),
     (''runtime_code_keccak256'', json_bytes32 (at_runtime_code_keccak256 a)),
     (''deployment'', JObj [(''transaction_hash'', json_bytes32 (do_transaction_hash (at_deployment a))),
        (''block_number'', json_word (do_block_number (at_deployment a))),
        (''block_hash'', json_bytes32 (do_block_hash (at_deployment a)))])]"

definition activation_json :: "contract_activation \<Rightarrow> json" where
  "activation_json a = JObj [
     (''schema'', JStr (ac_schema a)), (''protocol'', JStr (ac_protocol a)),
     (''protocol_major'', json_word (ac_protocol_major a)), (''generation'', JStr (ac_generation a)),
     (''activation_sequence'', json_word (ac_sequence a)),
     (''previous_activation'', json_option json_bytes32 (ac_previous a)),
     (''generation_definition_sha256'', json_bytes32 (ac_generation_definition_sha256 a)),
     (''authority_policy_sha256'', json_bytes32 (ac_authority_policy_sha256 a)),
     (''chain_id'', json_word (ac_chain_id a)),
     (''builder_account_runtime_keccak256'', json_bytes32 (ac_builder_account_runtime_keccak256 a)),
     (''factory'', activated_json (ac_factory a)),
     (''registry'', activated_json (ac_registry a)),
     (''activation_block'', JObj [(''block_number'', json_word (bl_number (ac_block a))),
        (''block_hash'', json_bytes32 (bl_hash (ac_block a)))]),
     (''p256_probe_sha256'', json_bytes32 (ac_p256_probe_sha256 a)),
     (''issued_at'', timestamp_json (ac_issued_at a))]"

definition signing_digest :: "externals \<Rightarrow> contract_activation \<Rightarrow> bytes32 result" where
  "signing_digest E a =
     bind_result (activation_validate E a) (\<lambda>_.
     bind_result (canonical_to_vec E (activation_json a)) (\<lambda>canonical.
       Inr (sha256 E (CONTRACT_ACTIVATION_SIGNING_DOMAIN @ canonical))))"

text \<open>The digest of the generation is taken only when the fields before it agree.\<close>

definition validate_against_generation :: "externals \<Rightarrow> contract_activation \<Rightarrow> contract_generation \<Rightarrow> unit result" where
  "validate_against_generation E a g =
     (let mismatch = invalid ''contract_activation.generation_definition_sha256''
            ''does not bind the supplied generation exactly'';
          factory = g2_builder_account_factory (cg_create2 g) in
      checks [activation_validate E a, generation_validate E g,
        err_if (ac_protocol_major a \<noteq> cg_protocol_major g \<or> ac_generation a \<noteq> cg_generation g
            \<or> ac_chain_id a \<noteq> gc_chain_id (cg_chain g)) mismatch,
        bind_result (generation_digest E g) (\<lambda>digest. err_if (ac_generation_definition_sha256 a \<noteq> digest) mismatch),
        err_if (at_address (ac_factory a) \<noteq> c2_predicted_address factory
            \<or> at_runtime_code_keccak256 (ac_factory a)
                \<noteq> cb_runtime_code_keccak256 (gk_builder_account_factory (cg_contracts g)))
          (invalid ''contract_activation.factory'' ''does not match the generation''),
        err_if (at_address (ac_registry a) \<noteq> c2_predicted_address (g2_shot_registry (cg_create2 g)))
          (invalid ''contract_activation.registry'' ''address does not match the generation'')])"

definition validate_successor_of :: "externals \<Rightarrow> contract_activation \<Rightarrow> contract_activation \<Rightarrow> unit result" where
  "validate_successor_of E a prior =
     (let mismatch = invalid ''contract_activation.previous_activation'' ''does not extend the prior activation exactly'';
          successor = invalid ''contract_activation.successor'' ''block must advance and time must not move backward'' in
      bind_result (checks [activation_validate E a, activation_validate E prior]) (\<lambda>_.
      bind_result (ok_or (invalid ''contract_activation.activation_sequence'' ''overflowed'')
          (checked_add (ac_sequence prior) 1)) (\<lambda>expected.
      bind_result (err_if (ac_sequence a \<noteq> expected) mismatch) (\<lambda>_.
      bind_result (signing_digest E prior) (\<lambda>digest.
      bind_result (err_if (ac_previous a \<noteq> Some digest) mismatch) (\<lambda>_.
      bind_result (err_if (bl_number (ac_block a) \<le> bl_number (ac_block prior)) successor) (\<lambda>_.
      bind_result (unix_timestamp E (ac_issued_at a)) (\<lambda>time.
      bind_result (unix_timestamp E (ac_issued_at prior)) (\<lambda>prior_time.
        err_if (time < prior_time) successor)))))))))"

section \<open>Signed activations\<close>

record release_authority_approval =
  ap_key_id :: bytes32
  ap_authorization :: detached_signature

record signed_contract_activation =
  sa_schema :: string
  sa_activation :: contract_activation
  sa_approvals :: "release_authority_approval list"

definition authority_map :: "release_authority list \<Rightarrow> (bytes32, p256_public_key) btree" where
  "authority_map authorities = foldl (\<lambda>m a. bt_insert (la_key_id a) (la_public_key a) m) [] authorities"

fun approvals_loop ::
  "externals \<Rightarrow> (bytes32, p256_public_key) btree \<Rightarrow> bytes32 \<Rightarrow> bytes32 option \<Rightarrow> release_authority_approval list
     \<Rightarrow> unit result" where
  "approvals_loop E authorities digest prior [] = Inr ()"
| "approvals_loop E authorities digest prior (a # as) =
     bind_result (err_if (is_some_and prior (\<lambda>value. value \<ge> ap_key_id a))
       (invalid ''signed_contract_activation.approvals'' ''key IDs must be unique and strictly ordered'')) (\<lambda>_.
     bind_result (ok_or (invalid ''signed_contract_activation.approvals'' ''contains a key outside the bound policy'')
       (bt_get authorities (ap_key_id a))) (\<lambda>public_key. checks [
       detached_validate E (ap_authorization a),
       err_if (ds_digest (ap_authorization a) \<noteq> digest) DigestMismatch,
       detached_verify E (ap_authorization a) public_key,
       approvals_loop E authorities digest (Some (ap_key_id a)) as]))"

definition signed_activation_verify ::
  "externals \<Rightarrow> signed_contract_activation \<Rightarrow> release_authority_policy \<Rightarrow> unit result" where
  "signed_activation_verify E s p =
     (let a = sa_activation s in
      bind_result (checks [
        err_if (sa_schema s \<noteq> SIGNED_CONTRACT_ACTIVATION_SCHEMA)
          (invalid ''signed_contract_activation.schema'' (''must be '' @ SIGNED_CONTRACT_ACTIVATION_SCHEMA)),
        activation_validate E a, policy_validate E p,
        bind_result (policy_digest E p) (\<lambda>digest. err_if (ac_authority_policy_sha256 a \<noteq> digest)
          (invalid ''contract_activation.authority_policy_sha256'' ''does not bind the supplied policy'')),
        err_if (length (sa_approvals s) < unat (po_threshold p) \<or> length (sa_approvals s) > length (po_authorities p))
          (invalid ''signed_contract_activation.approvals'' ''must satisfy the policy threshold without unknown keys'')]) (\<lambda>_.
      bind_result (signing_digest E a) (\<lambda>digest.
        approvals_loop E (authority_map (po_authorities p)) digest None (sa_approvals s))))"

definition verify_for_generation ::
  "externals \<Rightarrow> signed_contract_activation \<Rightarrow> release_authority_policy \<Rightarrow> contract_generation \<Rightarrow> unit result" where
  "verify_for_generation E s p g = checks [
     validate_against_generation E (sa_activation s) g,
     signed_activation_verify E s p]"

section \<open>A verified activation carries its threshold\<close>

text \<open>The approvals, with the keys the policy binds to their identifiers.\<close>

definition approved_by :: "externals \<Rightarrow> bytes32 \<Rightarrow> p256_public_key \<Rightarrow> bool" where
  "approved_by E digest key \<longleftrightarrow> (\<exists>sg. is_low_s sg \<and> verify_digest E key digest sg = Inr ())"

lemma approvals_loop_ok:
  assumes "approvals_loop E m digest prior as = Inr ()"
  shows "sorted_wrt (<) (map ap_key_id as)" "\<forall>p. prior = Some p \<longrightarrow> (\<forall>a \<in> set as. p < ap_key_id a)"
    "\<forall>a \<in> set as. \<exists>key. bt_get m (ap_key_id a) = Some key \<and> approved_by E digest key"
proof -
  have "sorted_wrt (<) (map ap_key_id as) \<and> (\<forall>p. prior = Some p \<longrightarrow> (\<forall>a \<in> set as. p < ap_key_id a))
      \<and> (\<forall>a \<in> set as. \<exists>key. bt_get m (ap_key_id a) = Some key \<and> approved_by E digest key)"
    using assms
  proof (induction as arbitrary: prior)
    case (Cons a as)
    from Cons.prems obtain key where k: "bt_get m (ap_key_id a) = Some key"
        "detached_validate E (ap_authorization a) = Inr ()" "ds_digest (ap_authorization a) = digest"
        "detached_verify E (ap_authorization a) key = Inr ()"
        "approvals_loop E m digest (Some (ap_key_id a)) as = Inr ()" "\<not> is_some_and prior (\<lambda>v. v \<ge> ap_key_id a)"
      by auto
    have "is_low_s (ds_signature (ap_authorization a)) \<and> verify_digest E key digest (ds_signature (ap_authorization a)) = Inr ()"
      using k(2,3,4) by (auto simp: detached_validate_def detached_verify_def validate_low_s_def split: if_splits)
    then have "approved_by E digest key" by (auto simp: approved_by_def)
    moreover have "prior = Some p \<longrightarrow> p < ap_key_id a" for p using k(6) by (auto simp: is_some_and_def)
    ultimately show ?case using Cons.IH [OF k(5)] k(1) by (auto intro: order.strict_trans)
  qed simp
  then show "sorted_wrt (<) (map ap_key_id as)" "\<forall>p. prior = Some p \<longrightarrow> (\<forall>a \<in> set as. p < ap_key_id a)"
    "\<forall>a \<in> set as. \<exists>key. bt_get m (ap_key_id a) = Some key \<and> approved_by E digest key"
    by auto
qed

lemma authority_map_get:
  "bt_get (authority_map as) k = Some key \<Longrightarrow> \<exists>a \<in> set as. la_key_id a = k \<and> la_public_key a = key"
proof (induction as rule: rev_induct)
  case Nil
  then show ?case by (simp add: authority_map_def bt.get_empty)
next
  case (snoc a as)
  then show ?case by (auto simp: authority_map_def bt_get_insert split: if_splits)
qed

lemma authorities_loop_valid: "authorities_loop E prior as = Inr () \<Longrightarrow> \<forall>a \<in> set as. authority_validate E a = Inr ()"
  by (induction as arbitrary: prior) auto


section \<open>Activations form a chain\<close>

lemma activated_json_inject: "activated_json a = activated_json b \<longleftrightarrow> a = b"
proof -
  obtain x r d y r' d' where "a = \<lparr>at_address = x, at_runtime_code_keccak256 = r, at_deployment = d\<rparr>"
      "b = \<lparr>at_address = y, at_runtime_code_keccak256 = r', at_deployment = d'\<rparr>"
    by (cases a; cases b) blast
  then show ?thesis by (cases d; cases d') (simp add: activated_json_def json_inject)
qed

lemma activation_json_inject: "activation_json a = activation_json b \<longleftrightarrow> a = b"
proof
  assume eq: "activation_json a = activation_json b"
  then have "ac_block a = ac_block b"
    by (cases "ac_block a"; cases "ac_block b") (simp add: activation_json_def json_inject)
  with eq show "a = b"
    by (cases a; cases b) (simp add: activation_json_def json_inject activated_json_inject)
qed simp

text \<open>Two different activations with the same signing digest.\<close>

definition activation_collision :: "externals \<Rightarrow> contract_activation \<Rightarrow> contract_activation \<Rightarrow> bool" where
  "activation_collision E a b \<longleftrightarrow> a \<noteq> b \<and>
     (\<exists>x y. ext_canonicalize E (activation_json a) = Inr x \<and> ext_canonicalize E (activation_json b) = Inr y
        \<and> ext_sha256 E (CONTRACT_ACTIVATION_SIGNING_DOMAIN @ x) = ext_sha256 E (CONTRACT_ACTIVATION_SIGNING_DOMAIN @ y))"

lemma signing_digest_binds:
  assumes "signing_digest E a = Inr h" "signing_digest E b = Inr h"
  shows "a = b \<or> activation_collision E a b"
  using assms by (auto simp: signing_digest_def activation_collision_def canonical_to_vec_def sha256_def)

interpretation activation_chain: hash_chain ac_previous "signing_digest E" "activation_collision E" for E
  by unfold_locales (rule signing_digest_binds)

lemma successor_linked: "validate_successor_of E a prior = Inr () \<Longrightarrow> activation_chain.linked E prior a"
  by (auto simp: validate_successor_of_def Let_def activation_chain.linked_def)

text \<open>A history of activations, each a valid successor of the one before, from activation one:
  the digest of the last one determines the history.\<close>

definition activation_history :: "externals \<Rightarrow> contract_activation list \<Rightarrow> bool" where
  "activation_history E as \<longleftrightarrow> as \<noteq> [] \<and> ac_previous (hd as) = None
     \<and> successively (\<lambda>prior a. validate_successor_of E a prior = Inr ()) as"

lemma activation_history_determined:
  assumes "activation_history E as" "activation_history E bs"
    "signing_digest E (last as) = Inr h" "signing_digest E (last bs) = Inr h"
  shows "as = bs \<or> (\<exists>a \<in> set as. \<exists>b \<in> set bs. activation_collision E a b)"
proof -
  have "activation_chain.chain E xs" if "activation_history E xs" for xs
    using that successor_linked
    by (auto simp: activation_history_def activation_chain.chain_def elim!: successively_mono)
  then show ?thesis using assms by (intro activation_chain.chain_determined)
qed

end
