(* ===== verification/Command_Journal.thy ===== *)
theory Command_Journal
  imports Source_Tree Shot_Record
begin

text \<open>
  \<open>command.rs\<close> and \<open>journal.rs\<close> of the application crate: the durable journal of local
  commands. The journal is a directory; its state is the tree of files below it, and every
  operation is a sequence of system calls on that tree. Any call may fail: the world carries
  a schedule of faults, and a fault may leave the effect of its call half done. A process
  that is killed is one whose remaining calls all fail.
\<close>

section \<open>The journal directory\<close>

datatype jnode = JFile "byte list" | JDir "(string \<times> jnode) list" | JLink | JSpecial

type_synonym entries = "(string \<times> jnode) list"

datatype io_error = NotFound | AlreadyExists | OtherIo string

datatype journal_error =
    JIo io_error
  | JJson string
  | JProtocol protocol_error
  | JInvalid string
  | JConflict string

fun display_journal_error :: "journal_error \<Rightarrow> string" where
  "display_journal_error (JIo NotFound) = ''entity not found''"
| "display_journal_error (JIo AlreadyExists) = ''entity already exists''"
| "display_journal_error (JIo (OtherIo e)) = e"
| "display_journal_error (JJson e) = e"
| "display_journal_error (JProtocol e) = display_error e"
| "display_journal_error (JInvalid m) = m"
| "display_journal_error (JConflict m) = m"

text \<open>A fault is an error text and how much of the call's work was done before it.\<close>

datatype fault = Fault string nat

record jworld =
  jw_entries :: entries
  jw_faults :: "fault option list"

type_synonym 'a jio = "jworld \<Rightarrow> (journal_error + 'a) \<times> jworld"

definition jreturn :: "'a \<Rightarrow> 'a jio" where
  "jreturn x w = (Inr x, w)"

definition jfail :: "journal_error \<Rightarrow> 'a jio" where
  "jfail e w = (Inl e, w)"

definition jbind :: "'a jio \<Rightarrow> ('a \<Rightarrow> 'b jio) \<Rightarrow> 'b jio" where
  "jbind m f w = (case m w of (Inl e, w') \<Rightarrow> (Inl e, w') | (Inr x, w') \<Rightarrow> f x w')"

text \<open>\<open>match m { Ok(x) => f(x), Err(e) => g(e) }\<close>.\<close>

definition jmatch :: "'a jio \<Rightarrow> ('a \<Rightarrow> 'b jio) \<Rightarrow> (journal_error \<Rightarrow> 'b jio) \<Rightarrow> 'b jio" where
  "jmatch m f g w = (case m w of (Inl e, w') \<Rightarrow> g e w' | (Inr x, w') \<Rightarrow> f x w')"

definition jpure :: "(journal_error + 'a) \<Rightarrow> 'a jio" where
  "jpure r w = (r, w)"

fun jeach :: "('a \<Rightarrow> unit jio) \<Rightarrow> 'a list \<Rightarrow> unit jio" where
  "jeach f [] = jreturn ()"
| "jeach f (x # xs) = jbind (f x) (\<lambda>_. jeach f xs)"

subsection \<open>System calls\<close>

text \<open>The call \<open>act\<close>, or, at a fault, its partial effect and the error.\<close>

definition syscall :: "(entries \<Rightarrow> (io_error + 'a) \<times> entries) \<Rightarrow> (nat \<Rightarrow> entries \<Rightarrow> entries) \<Rightarrow> 'a jio" where
  "syscall act partial w =
     (case jw_faults w of
        Some (Fault e n) # faults \<Rightarrow>
          (Inl (JIo (OtherIo e)), w\<lparr>jw_entries := partial n (jw_entries w), jw_faults := faults\<rparr>)
      | faults \<Rightarrow>
          (case act (jw_entries w) of
             (r, es) \<Rightarrow> (map_err JIo r, w\<lparr>jw_entries := es, jw_faults := tl faults\<rparr>)))"

fun dir_at :: "string list \<Rightarrow> entries \<Rightarrow> entries option" where
  "dir_at [] es = Some es"
| "dir_at (p # ps) es = (case bt_get es p of Some (JDir ds) \<Rightarrow> dir_at ps ds | _ \<Rightarrow> None)"

fun update_dir :: "string list \<Rightarrow> (entries \<Rightarrow> entries) \<Rightarrow> entries \<Rightarrow> entries" where
  "update_dir [] f es = f es"
| "update_dir (p # ps) f es =
     (case bt_get es p of Some (JDir ds) \<Rightarrow> bt_insert p (JDir (update_dir ps f ds)) es | _ \<Rightarrow> es)"

definition entry_at :: "string list \<Rightarrow> string \<Rightarrow> entries \<Rightarrow> jnode option" where
  "entry_at dir name es = (case dir_at dir es of None \<Rightarrow> None | Some ds \<Rightarrow> bt_get ds name)"

definition no_effect :: "nat \<Rightarrow> entries \<Rightarrow> entries" where
  "no_effect n es = es"

definition sys_stat :: "string list \<Rightarrow> string \<Rightarrow> jnode jio" where
  "sys_stat dir name = syscall (\<lambda>es. (case entry_at dir name es of None \<Rightarrow> Inl NotFound | Some n \<Rightarrow> Inr n, es)) no_effect"

text \<open>A call that changes nothing the model keeps: permissions, \<open>fsync\<close>, \<open>flock\<close>.\<close>

definition sys_other :: "unit jio" where
  "sys_other = syscall (\<lambda>es. (Inr (), es)) no_effect"

definition sys_create_dir :: "string list \<Rightarrow> string \<Rightarrow> unit jio" where
  "sys_create_dir dir name = syscall (\<lambda>es.
     case (dir_at dir es, entry_at dir name es) of
       (None, _) \<Rightarrow> (Inl NotFound, es)
     | (Some _, Some _) \<Rightarrow> (Inl AlreadyExists, es)
     | (Some _, None) \<Rightarrow> (Inr (), update_dir dir (bt_insert name (JDir [])) es)) no_effect"

definition sys_create_file :: "string list \<Rightarrow> string \<Rightarrow> unit jio" where
  "sys_create_file dir name = syscall (\<lambda>es.
     case (dir_at dir es, entry_at dir name es) of
       (None, _) \<Rightarrow> (Inl NotFound, es)
     | (Some _, Some _) \<Rightarrow> (Inl AlreadyExists, es)
     | (Some _, None) \<Rightarrow> (Inr (), update_dir dir (bt_insert name (JFile [])) es)) no_effect"

text \<open>A write that fails has written a prefix.\<close>

definition sys_write :: "string list \<Rightarrow> string \<Rightarrow> byte list \<Rightarrow> unit jio" where
  "sys_write dir name bytes = syscall (\<lambda>es. (Inr (), update_dir dir (bt_insert name (JFile bytes)) es))
     (\<lambda>n. update_dir dir (bt_insert name (JFile (take n bytes))))"

text \<open>\<open>open\<close> with \<open>O_CREAT | O_NOFOLLOW\<close>, for the lock file.\<close>

definition sys_open_lock :: "string list \<Rightarrow> string \<Rightarrow> unit jio" where
  "sys_open_lock dir name = syscall (\<lambda>es.
     case (dir_at dir es, entry_at dir name es) of
       (None, _) \<Rightarrow> (Inl NotFound, es)
     | (Some _, None) \<Rightarrow> (Inr (), update_dir dir (bt_insert name (JFile [])) es)
     | (Some _, Some (JFile _)) \<Rightarrow> (Inr (), es)
     | (Some _, Some JSpecial) \<Rightarrow> (Inr (), es)
     | (Some _, Some (JDir _)) \<Rightarrow> (Inl (OtherIo ''is a directory''), es)
     | (Some _, Some JLink) \<Rightarrow> (Inl (OtherIo ''too many levels of symbolic links''), es)) no_effect"

definition sys_read :: "string list \<Rightarrow> string \<Rightarrow> byte list jio" where
  "sys_read dir name = syscall (\<lambda>es.
     (case entry_at dir name es of
        None \<Rightarrow> Inl NotFound
      | Some (JFile bytes) \<Rightarrow> Inr bytes
      | Some _ \<Rightarrow> Inl (OtherIo ''not a regular file''), es)) no_effect"

definition sys_read_dir :: "string list \<Rightarrow> entries jio" where
  "sys_read_dir dir = syscall (\<lambda>es. (case dir_at dir es of None \<Rightarrow> Inl NotFound | Some ds \<Rightarrow> Inr ds, es)) no_effect"

text \<open>\<open>rename\<close> inside one directory: a file may replace a file, a directory only an empty
  directory.\<close>

fun rename_blocked :: "jnode \<Rightarrow> jnode option \<Rightarrow> io_error option" where
  "rename_blocked source None = None"
| "rename_blocked (JDir _) (Some (JDir ds)) = (if ds = [] then None else Some (OtherIo ''directory not empty''))"
| "rename_blocked (JDir _) (Some _) = Some (OtherIo ''not a directory'')"
| "rename_blocked source (Some (JDir _)) = Some (OtherIo ''is a directory'')"
| "rename_blocked source (Some _) = None"

definition sys_rename :: "string list \<Rightarrow> string \<Rightarrow> string \<Rightarrow> unit jio" where
  "sys_rename dir source target = syscall (\<lambda>es.
     case entry_at dir source es of
       None \<Rightarrow> (Inl NotFound, es)
     | Some node \<Rightarrow>
         (case rename_blocked node (entry_at dir target es) of
            Some e \<Rightarrow> (Inl e, es)
          | None \<Rightarrow> (Inr (), update_dir dir (\<lambda>ds. bt_insert target node (bt_remove source ds)) es))) no_effect"

text \<open>\<open>remove_dir_all\<close>: a failure leaves what it had not reached.\<close>

definition sys_remove_tree :: "string \<Rightarrow> unit jio" where
  "sys_remove_tree name = syscall (\<lambda>es. (Inr (), bt_remove name es))
     (\<lambda>n es. case bt_get es name of Some (JDir ds) \<Rightarrow> bt_insert name (JDir (drop n ds)) es | _ \<Rightarrow> es)"

section \<open>Commands\<close>

definition COMMAND_SCHEMA :: string where "COMMAND_SCHEMA = ''tohseno.local-command/1''"
definition COMMAND_STATUS_SCHEMA :: string where "COMMAND_STATUS_SCHEMA = ''tohseno.local-command-status/1''"

datatype command_kind = KindShotCreate | KindShotEvolve | KindFeedbackSubmit | KindMarketingSubmit
datatype command_origin = OriginCli | OriginStudio | OriginNative | OriginCompanion | OriginConformance

datatype local_state = StReceived | StValidated | StAccepted | StRunning | StWaitingForDevice
  | StCompleted | StRejected | StFailed | StCancelled

definition terminal :: "local_state \<Rightarrow> bool" where
  "terminal s \<longleftrightarrow> s = StCompleted \<or> s = StRejected \<or> s = StFailed \<or> s = StCancelled"

definition may_transition_to :: "local_state \<Rightarrow> local_state \<Rightarrow> bool" where
  "may_transition_to s t \<longleftrightarrow> s = t \<or>
     (case s of
        StReceived \<Rightarrow> t = StValidated \<or> t = StRejected \<or> t = StFailed
      | StValidated \<Rightarrow> t = StAccepted \<or> t = StRejected \<or> t = StFailed
      | StAccepted \<Rightarrow> t = StRunning \<or> t = StCompleted \<or> t = StRejected \<or> t = StFailed \<or> t = StCancelled
      | StRunning \<Rightarrow> t = StWaitingForDevice \<or> t = StCompleted \<or> t = StFailed \<or> t = StCancelled
      | StWaitingForDevice \<Rightarrow> t = StRunning \<or> t = StCompleted \<or> t = StFailed \<or> t = StCancelled
      | _ \<Rightarrow> False)"

record command_record =
  cr_schema :: string
  cr_command_id :: string
  cr_command_kind :: command_kind
  cr_origin :: command_origin
  cr_origin_device_id :: "string option"
  cr_workspace_id :: string
  cr_shot_id :: "shot_id option"
  cr_base_expression_id :: "expression_id option"
  cr_base_version_id :: "version_id option"
  cr_submitted_at :: string
  cr_payload_digest :: bytes32

text \<open>A command result is its receipt, any JSON value.\<close>

record command_status =
  st_schema :: string
  st_command_id :: string
  st_state :: local_state
  st_updated_at :: string
  st_result :: "json option"
  st_rejection :: "string option"

fun command_kind_name :: "command_kind \<Rightarrow> string" where
  "command_kind_name KindShotCreate = ''shot_create''"
| "command_kind_name KindShotEvolve = ''shot_evolve''"
| "command_kind_name KindFeedbackSubmit = ''feedback_submit''"
| "command_kind_name KindMarketingSubmit = ''marketing_submit''"

fun command_origin_name :: "command_origin \<Rightarrow> string" where
  "command_origin_name OriginCli = ''cli''"
| "command_origin_name OriginStudio = ''studio''"
| "command_origin_name OriginNative = ''native''"
| "command_origin_name OriginCompanion = ''companion''"
| "command_origin_name OriginConformance = ''conformance''"

fun local_state_name :: "local_state \<Rightarrow> string" where
  "local_state_name StReceived = ''received''"
| "local_state_name StValidated = ''validated''"
| "local_state_name StAccepted = ''accepted''"
| "local_state_name StRunning = ''running''"
| "local_state_name StWaitingForDevice = ''waiting_for_device''"
| "local_state_name StCompleted = ''completed''"
| "local_state_name StRejected = ''rejected''"
| "local_state_name StFailed = ''failed''"
| "local_state_name StCancelled = ''cancelled''"

fun local_state_debug :: "local_state \<Rightarrow> string" where
  "local_state_debug StReceived = ''Received''"
| "local_state_debug StValidated = ''Validated''"
| "local_state_debug StAccepted = ''Accepted''"
| "local_state_debug StRunning = ''Running''"
| "local_state_debug StWaitingForDevice = ''WaitingForDevice''"
| "local_state_debug StCompleted = ''Completed''"
| "local_state_debug StRejected = ''Rejected''"
| "local_state_debug StFailed = ''Failed''"
| "local_state_debug StCancelled = ''Cancelled''"

definition command_record_json :: "command_record \<Rightarrow> json" where
  "command_record_json r = JObj ([
     (''schema'', JStr (cr_schema r)), (''command_id'', JStr (cr_command_id r)),
     (''command_kind'', JStr (command_kind_name (cr_command_kind r))),
     (''origin'', JStr (command_origin_name (cr_origin r)))]
     @ member_option ''origin_device_id'' JStr (cr_origin_device_id r)
     @ [(''workspace_id'', JStr (cr_workspace_id r))]
     @ member_option ''shot_id'' json_bytes32 (cr_shot_id r)
     @ member_option ''base_expression_id'' json_bytes32 (cr_base_expression_id r)
     @ member_option ''base_version_id'' json_bytes32 (cr_base_version_id r)
     @ [(''submitted_at'', JStr (cr_submitted_at r)), (''payload_digest'', json_bytes32 (cr_payload_digest r))])"

definition command_status_json :: "command_status \<Rightarrow> json" where
  "command_status_json s = JObj ([
     (''schema'', JStr (st_schema s)), (''command_id'', JStr (st_command_id s)),
     (''state'', JStr (local_state_name (st_state s))), (''updated_at'', JStr (st_updated_at s))]
     @ member_option ''result'' (\<lambda>receipt. JObj [(''receipt'', receipt)]) (st_result s)
     @ member_option ''rejection'' JStr (st_rejection s))"

text \<open>The environment: hashing and canonical JSON, the parsers \<open>serde\<close> derives, and the path
  of the journal for error texts.\<close>

record journal_env =
  je_externals :: externals
  je_parse_record :: "byte list \<Rightarrow> string + command_record"
  je_parse_status :: "byte list \<Rightarrow> string + command_status"
  je_parse_value :: "byte list \<Rightarrow> string + json"
  je_root :: string

section \<open>Files of the journal\<close>

definition MAXIMUM_JSON_BYTES :: nat where "MAXIMUM_JSON_BYTES = 8 * 1024 * 1024"
definition MAXIMUM_ATTACHMENT_BYTES :: nat where "MAXIMUM_ATTACHMENT_BYTES = 64 * 1024 * 1024"
definition MAXIMUM_TOTAL_ATTACHMENT_BYTES :: nat where "MAXIMUM_TOTAL_ATTACHMENT_BYTES = 160 * 1024 * 1024"
definition MAXIMUM_COMMANDS :: nat where "MAXIMUM_COMMANDS = 100000"

definition journal_identifier_char :: "char \<Rightarrow> bool" where
  "journal_identifier_char c \<longleftrightarrow> is_ascii_alphanumeric c \<or> c = CHR ''-'' \<or> c = CHR ''_''"

definition validate_journal_identifier :: "string \<Rightarrow> string \<Rightarrow> journal_error + unit" where
  "validate_journal_identifier label value =
     err_if (value = [] \<or> length value > 128 \<or> \<not> list_all journal_identifier_char value \<or> value = ''.'' \<or> value = ''..'')
       (JInvalid (''invalid '' @ label))"

definition validate_file_name :: "string \<Rightarrow> journal_error + unit" where
  "validate_file_name value =
     err_if (value = [] \<or> length value > 128 \<or> value = ''.'' \<or> value = ''..''
         \<or> list_ex is_control (str_chars value) \<or> List.member value (CHR ''/'') \<or> List.member value (CHR 0x5C))
       (JInvalid ''invalid private input filename'')"

fun private_files_loop :: "nat \<Rightarrow> string list \<Rightarrow> (string \<times> byte list) list \<Rightarrow> journal_error + nat" where
  "private_files_loop sum_bytes names [] = Inr sum_bytes"
| "private_files_loop sum_bytes names ((name, bytes) # files) =
     bind_result (validate_file_name name) (\<lambda>_.
     bind_result (err_if (List.member names name) (JInvalid ''private input filenames must be unique'')) (\<lambda>_.
     bind_result (err_if (length bytes > MAXIMUM_ATTACHMENT_BYTES) (JInvalid ''private input exceeds the per-file limit'')) (\<lambda>_.
     bind_result (err_if (sum_bytes + length bytes \<ge> 2 ^ 64) (JInvalid ''private input total overflowed'')) (\<lambda>_.
       private_files_loop (sum_bytes + length bytes) (name # names) files))))"

definition validate_private_files :: "(string \<times> byte list) list \<Rightarrow> journal_error + unit" where
  "validate_private_files files =
     bind_result (err_if (length files > 8) (JInvalid ''a command accepts at most eight private reference files'')) (\<lambda>_.
     bind_result (private_files_loop 0 [] files) (\<lambda>sum_bytes.
       err_if (sum_bytes > MAXIMUM_TOTAL_ATTACHMENT_BYTES) (JInvalid ''private inputs exceed the command total limit'')))"

definition journal_path :: "journal_env \<Rightarrow> string list \<Rightarrow> string" where
  "journal_path J path = join_slash (je_root J # path)"

fun is_real_directory :: "jnode \<Rightarrow> bool" where
  "is_real_directory (JDir ds) = True"
| "is_real_directory _ = False"

fun is_regular_file :: "jnode \<Rightarrow> bool" where
  "is_regular_file (JFile bytes) = True"
| "is_regular_file _ = False"

definition jguard :: "bool \<Rightarrow> journal_error \<Rightarrow> unit jio" where
  "jguard b e = jpure (err_if (\<not> b) e)"

definition require_real_directory :: "journal_env \<Rightarrow> string list \<Rightarrow> string \<Rightarrow> unit jio" where
  "require_real_directory J dir name =
     jbind (sys_stat dir name) (\<lambda>node.
       jguard (is_real_directory node) (JInvalid (journal_path J (dir @ [name]) @ '' is not a real directory'')))"

definition to_canonical :: "journal_env \<Rightarrow> json \<Rightarrow> byte list jio" where
  "to_canonical J value = jpure (map_err JProtocol (canonical_to_vec (je_externals J) value))"

definition write_new_bytes :: "string list \<Rightarrow> string \<Rightarrow> byte list \<Rightarrow> unit jio" where
  "write_new_bytes dir name bytes =
     jbind (sys_create_file dir name) (\<lambda>_.
     jbind sys_other (\<lambda>_.
     jbind (sys_write dir name bytes) (\<lambda>_. sys_other)))"

definition write_new_json :: "journal_env \<Rightarrow> string list \<Rightarrow> string \<Rightarrow> json \<Rightarrow> unit jio" where
  "write_new_json J dir name value = jbind (to_canonical J value) (write_new_bytes dir name)"

definition set_private_directory :: "unit jio" where
  "set_private_directory = sys_other"

text \<open>\<open>File::open(path)?.sync_all()?\<close>.\<close>

definition sync_directory :: "unit jio" where
  "sync_directory = jbind sys_other (\<lambda>_. sys_other)"

text \<open>
  \<open>read_bounded\<close>: the metadata, the open call, the metadata of the open file, the contents.
  Between them the file does not change, so the checks for a change are not taken.
\<close>

definition read_bounded :: "journal_env \<Rightarrow> string list \<Rightarrow> string \<Rightarrow> nat \<Rightarrow> byte list jio" where
  "read_bounded J dir name maximum =
     jbind (sys_stat dir name) (\<lambda>node.
     jbind (jguard (case node of JFile bytes \<Rightarrow> length bytes \<le> maximum | _ \<Rightarrow> False)
       (JInvalid (journal_path J (dir @ [name]) @ '' is not a bounded regular file''))) (\<lambda>_.
     jbind sys_other (\<lambda>_.
     jbind sys_other (\<lambda>_. sys_read dir name))))"

definition read_json :: "journal_env \<Rightarrow> (byte list \<Rightarrow> string + 'a) \<Rightarrow> string list \<Rightarrow> string \<Rightarrow> 'a jio" where
  "read_json J parse dir name =
     jbind (read_bounded J dir name MAXIMUM_JSON_BYTES) (\<lambda>bytes.
       jpure (map_err (\<lambda>e. JProtocol (Json e)) (parse bytes)))"

definition write_replace_json :: "journal_env \<Rightarrow> string \<Rightarrow> string \<Rightarrow> string \<Rightarrow> json \<Rightarrow> unit jio" where
  "write_replace_json J temporary parent name value =
     jbind (require_real_directory J [] parent) (\<lambda>_.
     jbind (jmatch (sys_stat [parent] name)
         (\<lambda>node. jguard (is_regular_file node) (JInvalid ''journal status target is unsafe''))
         (\<lambda>e. if e = JIo NotFound then jreturn () else jfail e)) (\<lambda>_.
     jbind (write_new_json J [parent] temporary value) (\<lambda>_.
     jbind (sys_rename [parent] temporary name) (\<lambda>_. sync_directory))))"

definition remove_owned_staging :: "string \<Rightarrow> unit jio" where
  "remove_owned_staging name =
     jbind (sys_stat [] name) (\<lambda>node.
     jbind (jguard (is_real_directory node \<and> starts_with ''.staging-'' name)
       (JInvalid ''refusing to remove an unrecognized staging entry'')) (\<lambda>_. sys_remove_tree name))"

section \<open>Operations of the journal\<close>

definition command_directory :: "string \<Rightarrow> string jio" where
  "command_directory command_id =
     jpure (bind_result (validate_journal_identifier ''command ID'' command_id) (\<lambda>_. Inr command_id))"

definition journal_contains :: "string \<Rightarrow> bool jio" where
  "journal_contains command_id =
     jbind (command_directory command_id) (\<lambda>name.
       jmatch (sys_stat [] name)
         (\<lambda>node. jbind (jguard (is_real_directory node)
            (JInvalid ''command journal entry is not a real directory'')) (\<lambda>_. jreturn True))
         (\<lambda>e. if e = JIo NotFound then jreturn False else jfail e))"

definition validate_loaded :: "command_record \<Rightarrow> command_status \<Rightarrow> string \<Rightarrow> journal_error + unit" where
  "validate_loaded r s expected_id =
     err_if (cr_schema r \<noteq> COMMAND_SCHEMA \<or> st_schema s \<noteq> COMMAND_STATUS_SCHEMA
         \<or> cr_command_id r \<noteq> expected_id \<or> st_command_id s \<noteq> expected_id)
       (JInvalid ''command journal identity or schema mismatch'')"

definition load :: "journal_env \<Rightarrow> string \<Rightarrow> (command_record \<times> command_status) jio" where
  "load J command_id =
     jbind (command_directory command_id) (\<lambda>name.
     jbind (require_real_directory J [] name) (\<lambda>_.
     jbind (read_json J (je_parse_record J) [name] ''request.json'') (\<lambda>r.
     jbind (read_json J (je_parse_status J) [name] ''status.json'') (\<lambda>s.
     jbind (jpure (validate_loaded r s command_id)) (\<lambda>_. jreturn (r, s))))))"

definition journal_payload :: "journal_env \<Rightarrow> string \<Rightarrow> json jio" where
  "journal_payload J command_id =
     jbind (command_directory command_id) (\<lambda>name.
     jbind (require_real_directory J [] name) (\<lambda>_.
     jbind (read_bounded J [name] ''payload.json'' MAXIMUM_JSON_BYTES) (\<lambda>bytes.
     jbind (jpure (map_err (\<lambda>e. JProtocol (Json e)) (je_parse_value J bytes))) (\<lambda>value.
     jbind (load J command_id) (\<lambda>(r, s).
     jbind (jguard (sha256 (je_externals J) bytes = cr_payload_digest r)
       (JInvalid ''command payload no longer matches its admitted digest'')) (\<lambda>_. jreturn value))))))"

definition journal_input :: "journal_env \<Rightarrow> string \<Rightarrow> string \<Rightarrow> byte list jio" where
  "journal_input J command_id name =
     jbind (jpure (validate_file_name name)) (\<lambda>_.
     jbind (command_directory command_id) (\<lambda>directory.
     jbind (require_real_directory J [] directory) (\<lambda>_.
       read_bounded J [directory, ''inputs''] name MAXIMUM_ATTACHMENT_BYTES)))"

definition ensure_private_directory :: "journal_env \<Rightarrow> string list \<Rightarrow> string \<Rightarrow> unit jio" where
  "ensure_private_directory J dir name =
     jbind (jmatch (sys_stat dir name)
       (\<lambda>node. jguard (is_real_directory node)
          (JInvalid (journal_path J (dir @ [name]) @ '' is not a real directory'')))
       (\<lambda>e. if e = JIo NotFound then sys_create_dir dir name else jfail e)) (\<lambda>_. set_private_directory)"

definition write_operation_once :: "journal_env \<Rightarrow> string \<Rightarrow> string \<Rightarrow> json \<Rightarrow> json jio" where
  "write_operation_once J command_id operation value =
     jbind (jpure (validate_journal_identifier ''operation'' operation)) (\<lambda>_.
     jbind (command_directory command_id) (\<lambda>directory.
     jbind (require_real_directory J [] directory) (\<lambda>_.
     jbind (ensure_private_directory J [directory] ''operations'') (\<lambda>_.
     let dir = [directory, ''operations'']; file = operation @ ''.json'' in
       jmatch (write_new_json J dir file value)
         (\<lambda>_. read_json J (je_parse_value J) dir file)
         (\<lambda>e. if e = JIo AlreadyExists then
             jbind (read_json J (je_parse_value J) dir file) (\<lambda>existing.
             jbind (jguard (existing = value) (JConflict (''operation '' @ operation @ '' for command '' @ command_id
               @ '' already has a different result''))) (\<lambda>_. jreturn existing))
           else jfail e)))))"

subsection \<open>Admission\<close>

record admission_metadata =
  md_command_id :: string
  md_command_kind :: command_kind
  md_origin :: command_origin
  md_origin_device_id :: "string option"
  md_workspace_id :: string
  md_shot_id :: "shot_id option"
  md_base_expression_id :: "expression_id option"
  md_base_version_id :: "version_id option"
  md_submitted_at :: "string option"

record admission =
  ad_record :: command_record
  ad_status :: command_status
  ad_existing :: bool
  ad_directory :: string

definition same_identity :: "command_record \<Rightarrow> command_record \<Rightarrow> bool" where
  "same_identity a b \<longleftrightarrow> cr_command_kind a = cr_command_kind b \<and> cr_origin a = cr_origin b
     \<and> cr_origin_device_id a = cr_origin_device_id b \<and> cr_workspace_id a = cr_workspace_id b
     \<and> cr_shot_id a = cr_shot_id b \<and> cr_base_expression_id a = cr_base_expression_id b
     \<and> cr_base_version_id a = cr_base_version_id b \<and> cr_payload_digest a = cr_payload_digest b"

text \<open>The names of the stored inputs; every entry must be a regular file with a valid name.\<close>

fun observed_names :: "string list \<Rightarrow> entries \<Rightarrow> string list jio" where
  "observed_names dir [] = jreturn []"
| "observed_names dir ((name, node) # rest) =
     jbind (jpure (validate_file_name name)) (\<lambda>_.
     jbind (sys_stat dir name) (\<lambda>found.
     jbind (jguard (is_regular_file found) (JInvalid ''command input collection contains an unsafe entry'')) (\<lambda>_.
     jbind (observed_names dir rest) (\<lambda>names. jreturn (name # names)))))"

definition read_existing ::
  "journal_env \<Rightarrow> command_record \<Rightarrow> byte list \<Rightarrow> (string \<times> byte list) list \<Rightarrow> admission jio" where
  "read_existing J expected payload_bytes files =
     (let command_id = cr_command_id expected; said = ''command ID '' @ command_id in
      jbind (load J command_id) (\<lambda>(r, s).
      jbind (jguard (same_identity r expected) (JConflict (said @ '' is already bound to a different command''))) (\<lambda>_.
      jbind (command_directory command_id) (\<lambda>name.
      jbind (read_bounded J [name] ''payload.json'' MAXIMUM_JSON_BYTES) (\<lambda>stored.
      jbind (jguard (stored = payload_bytes)
        (JConflict (said @ '' payload bytes do not match its first admission''))) (\<lambda>_.
      jbind (jmatch (sys_stat [name] ''inputs'')
          (\<lambda>node. jbind (jguard (is_real_directory node) (JInvalid ''command input collection is not a real directory'')) (\<lambda>_.
             jbind (sys_read_dir [name, ''inputs'']) (observed_names [name, ''inputs''])))
          (\<lambda>e. if e = JIo NotFound then jreturn [] else jfail e)) (\<lambda>names.
      jbind (jguard (set names = set (map fst files))
        (JConflict (said @ '' private input set does not match its first admission''))) (\<lambda>_.
      jbind (jeach (\<lambda>(file, expected_bytes).
          jbind (read_bounded J [name, ''inputs''] file MAXIMUM_ATTACHMENT_BYTES) (\<lambda>observed.
            jguard (observed = expected_bytes) (JConflict (said @ '' input '' @ file @ '' does not match its first admission''))))
          files) (\<lambda>_.
        jreturn \<lparr>ad_record = r, ad_status = s, ad_existing = True, ad_directory = name\<rparr>)))))))))"

definition submitted_time :: "journal_env \<Rightarrow> string option \<Rightarrow> string \<Rightarrow> journal_error + string" where
  "submitted_time J submitted now =
     (case submitted of
        Some value \<Rightarrow> map_err JProtocol (bind_result (timestamp_parse (je_externals J) value) (\<lambda>_. Inr value))
      | None \<Rightarrow> Inr now)"

definition admitted_record :: "admission_metadata \<Rightarrow> string \<Rightarrow> bytes32 \<Rightarrow> command_record" where
  "admitted_record m submitted_at payload_digest =
     \<lparr>cr_schema = COMMAND_SCHEMA, cr_command_id = md_command_id m, cr_command_kind = md_command_kind m,
      cr_origin = md_origin m, cr_origin_device_id = md_origin_device_id m, cr_workspace_id = md_workspace_id m,
      cr_shot_id = md_shot_id m, cr_base_expression_id = md_base_expression_id m,
      cr_base_version_id = md_base_version_id m, cr_submitted_at = submitted_at, cr_payload_digest = payload_digest\<rparr>"

definition initial_status :: "string \<Rightarrow> string \<Rightarrow> command_status" where
  "initial_status command_id now =
     \<lparr>st_schema = COMMAND_STATUS_SCHEMA, st_command_id = command_id, st_state = StReceived, st_updated_at = now,
      st_result = None, st_rejection = None\<rparr>"

text \<open>Writing the staged directory, in the order of the source.\<close>

definition write_staging ::
  "journal_env \<Rightarrow> string \<Rightarrow> command_record \<Rightarrow> byte list \<Rightarrow> (string \<times> byte list) list \<Rightarrow> command_status \<Rightarrow> unit jio" where
  "write_staging J staging r payload_bytes files initial =
     jbind (write_new_json J [staging] ''request.json'' (command_record_json r)) (\<lambda>_.
     jbind (write_new_bytes [staging] ''payload.json'' payload_bytes) (\<lambda>_.
     jbind (if files = [] then jreturn ()
            else jbind (sys_create_dir [staging] ''inputs'') (\<lambda>_.
                 jbind set_private_directory (\<lambda>_.
                 jbind (jeach (\<lambda>(name, bytes). write_new_bytes [staging, ''inputs''] name bytes) files) (\<lambda>_.
                   sync_directory)))) (\<lambda>_.
     jbind (write_new_json J [staging] ''status.json'' (command_status_json initial)) (\<lambda>_. sync_directory))))"

text \<open>The rename that publishes the command, and what follows when it fails.\<close>

definition publish_staging ::
  "journal_env \<Rightarrow> string \<Rightarrow> command_record \<Rightarrow> byte list \<Rightarrow> (string \<times> byte list) list \<Rightarrow> command_status \<Rightarrow> admission jio" where
  "publish_staging J staging r payload_bytes files initial =
     (let final = cr_command_id r in
      jmatch (sys_rename [] staging final)
        (\<lambda>_. jbind sync_directory (\<lambda>_.
           jreturn \<lparr>ad_record = r, ad_status = initial, ad_existing = False, ad_directory = final\<rparr>))
        (\<lambda>e. jmatch (sys_stat [] final)
           (\<lambda>_. jbind (remove_owned_staging staging) (\<lambda>_. read_existing J r payload_bytes files))
           (\<lambda>observed. jmatch (remove_owned_staging staging)
              (\<lambda>_. jfail (if observed = JIo NotFound then e else observed))
              (\<lambda>_. jfail (if observed = JIo NotFound then e else observed)))))"

text \<open>\<open>uuid\<close> is the random part of the staging name, the two times those of the clock.\<close>

definition admit_with_files ::
  "journal_env \<Rightarrow> string \<Rightarrow> string \<Rightarrow> string \<Rightarrow> admission_metadata \<Rightarrow> json \<Rightarrow> (string \<times> byte list) list \<Rightarrow> admission jio" where
  "admit_with_files J uuid now later m payload files =
     jbind (jpure (checks [
       validate_journal_identifier ''command ID'' (md_command_id m),
       validate_journal_identifier ''workspace ID'' (md_workspace_id m),
       opt_str (md_origin_device_id m) (validate_journal_identifier ''origin device ID''),
       validate_private_files files])) (\<lambda>_.
     jbind (to_canonical J payload) (\<lambda>payload_bytes.
     jbind (jguard (length payload_bytes \<le> MAXIMUM_JSON_BYTES)
       (JInvalid ''command payload exceeds the private journal limit'')) (\<lambda>_.
     jbind (jpure (submitted_time J (md_submitted_at m) now)) (\<lambda>submitted_at.
     let r = admitted_record m submitted_at (sha256 (je_externals J) payload_bytes) in
     jbind (command_directory (cr_command_id r)) (\<lambda>final.
     jmatch (sys_stat [] final)
       (\<lambda>node. jbind (jguard (is_real_directory node) (JInvalid ''command journal entry is not a real directory'')) (\<lambda>_.
          read_existing J r payload_bytes files))
       (\<lambda>e. if e \<noteq> JIo NotFound then jfail e else
          jbind (sys_read_dir []) (\<lambda>names.
          jbind (jguard (length names < MAXIMUM_COMMANDS) (JInvalid ''command journal is at capacity'')) (\<lambda>_.
          let staging = ''.staging-'' @ cr_command_id r @ ''-'' @ uuid;
              initial = initial_status (cr_command_id r) later in
          jbind (sys_create_dir [] staging) (\<lambda>_.
          jbind set_private_directory (\<lambda>_.
          jbind (write_staging J staging r payload_bytes files initial) (\<lambda>_.
            publish_staging J staging r payload_bytes files initial)))))))))))"

definition admit_command :: "journal_env \<Rightarrow> string \<Rightarrow> string \<Rightarrow> string \<Rightarrow> admission_metadata \<Rightarrow> json \<Rightarrow> admission jio" where
  "admit_command J uuid now later m payload = admit_with_files J uuid now later m payload []"

subsection \<open>Transitions\<close>

definition lock_status :: "journal_env \<Rightarrow> string \<Rightarrow> unit jio" where
  "lock_status J command_id =
     jbind (command_directory command_id) (\<lambda>name.
     jbind (require_real_directory J [] name) (\<lambda>_.
     jbind (sys_open_lock [name] ''status.lock'') (\<lambda>_.
     jbind sys_other (\<lambda>_. sys_other))))"

text \<open>The decision of \<open>transition\<close> on the current status: keep it, or write a new one.\<close>

definition next_status ::
  "command_status \<Rightarrow> string \<Rightarrow> local_state \<Rightarrow> json option \<Rightarrow> string option \<Rightarrow> string
     \<Rightarrow> journal_error + (command_status option)" where
  "next_status current command_id next receipt rejection now =
     (let said = ''command '' @ command_id;
          result = (case st_result current of Some existing \<Rightarrow> Some existing | None \<Rightarrow> receipt);
          reason = (case rejection of Some r \<Rightarrow> Some r | None \<Rightarrow> st_rejection current) in
      bind_result (checks [
        err_if (\<not> may_transition_to (st_state current) next) (JConflict (said @ '' cannot transition from ''
          @ local_state_debug (st_state current) @ '' to '' @ local_state_debug next)),
        err_if (case (st_result current, receipt) of (Some existing, Some candidate) \<Rightarrow> existing \<noteq> candidate | _ \<Rightarrow> False)
          (JConflict (said @ '' already has a different stable receipt'')),
        err_if (next = StCompleted \<and> result = None) (JInvalid ''a completed command requires a stable receipt''),
        err_if (next = StRejected \<and> (reason = None \<or> reason = Some []))
          (JInvalid ''a rejected command requires an actionable reason'')]) (\<lambda>_.
      if st_state current = next then
        (if st_result current = result \<and> st_rejection current = reason then Inr None
         else Inl (JConflict (said @ '' cannot replace data already published for state '' @ local_state_debug next)))
      else Inr (Some \<lparr>st_schema = COMMAND_STATUS_SCHEMA, st_command_id = command_id, st_state = next,
        st_updated_at = now, st_result = result, st_rejection = reason\<rparr>)))"

text \<open>\<open>temporary\<close> is the name made of the process number and the sequence counter.\<close>

definition transition ::
  "journal_env \<Rightarrow> string \<Rightarrow> string \<Rightarrow> string \<Rightarrow> local_state \<Rightarrow> json option \<Rightarrow> string option \<Rightarrow> command_status jio" where
  "transition J temporary now command_id next receipt rejection =
     jbind (lock_status J command_id) (\<lambda>_.
     jbind (load J command_id) (\<lambda>(r, current).
     jbind (jpure (next_status current command_id next receipt rejection now)) (\<lambda>decision.
       case decision of
         None \<Rightarrow> jreturn current
       | Some status \<Rightarrow>
           jbind (command_directory command_id) (\<lambda>name.
           jbind (write_replace_json J (''.status-'' @ temporary @ ''.tmp'') name ''status.json''
             (command_status_json status)) (\<lambda>_. jreturn status)))))"

subsection \<open>Recovery\<close>

fun recoverable_loop :: "journal_env \<Rightarrow> entries \<Rightarrow> command_record list jio" where
  "recoverable_loop J [] = jreturn []"
| "recoverable_loop J ((name, listed) # rest) =
     (if starts_with ''.staging-'' name then recoverable_loop J rest
      else
        jbind (sys_stat [] name) (\<lambda>node.
        jbind (jguard (is_real_directory node) (JInvalid ''command journal contains an unsafe entry'')) (\<lambda>_.
        jbind (load J name) (\<lambda>(r, s).
        jbind (recoverable_loop J rest) (\<lambda>records.
          jreturn (if terminal (st_state s) then records else r # records))))))"

definition recoverable :: "journal_env \<Rightarrow> command_record list jio" where
  "recoverable J =
     jbind (sys_read_dir []) (\<lambda>names.
     jbind (recoverable_loop J names) (\<lambda>records. jreturn (sort_key cr_submitted_at records)))"

end
