(* ===== verification/Journal_Atomic.thy ===== *)
theory Journal_Atomic
  imports Command_Journal
begin

text \<open>
  Admission of a command is atomic: whatever system call fails, and wherever the process
  stops, a command is in the journal completely or not at all. A small logic of the
  operations: what they keep at every outcome, and what holds when they succeed.
\<close>

named_theorems keeps_rules \<open>what an operation keeps, whatever its outcome\<close>

section \<open>What operations keep\<close>

definition keeps :: "(entries \<Rightarrow> bool) \<Rightarrow> 'a jio \<Rightarrow> bool" where
  "keeps P m \<longleftrightarrow> (\<forall>w. P (jw_entries w) \<longrightarrow> P (jw_entries (snd (m w))))"

definition ensures :: "(entries \<Rightarrow> bool) \<Rightarrow> 'a jio \<Rightarrow> ('a \<Rightarrow> entries \<Rightarrow> bool) \<Rightarrow> bool" where
  "ensures P m Q \<longleftrightarrow> (\<forall>w x w'. P (jw_entries w) \<longrightarrow> m w = (Inr x, w') \<longrightarrow> Q x (jw_entries w'))"

lemma keepsD: "keeps P m \<Longrightarrow> P (jw_entries w) \<Longrightarrow> m w = (r, w') \<Longrightarrow> P (jw_entries w')"
  by (metis keeps_def snd_conv)

lemma ensuresD: "ensures P m Q \<Longrightarrow> P (jw_entries w) \<Longrightarrow> m w = (Inr x, w') \<Longrightarrow> Q x (jw_entries w')"
  by (auto simp: ensures_def)

lemma keeps_return [keeps_rules]: "keeps P (jreturn x)" "keeps P (jfail e)" "keeps P (jpure q)" "keeps P (jguard b e)"
  by (simp_all add: keeps_def jreturn_def jfail_def jpure_def jguard_def)

lemma keeps_match [keeps_rules]:
  assumes "keeps P m" "\<And>x. keeps P (f x)" "\<And>e. keeps P (g e)"
  shows "keeps P (jmatch m f g)"
  unfolding keeps_def
proof (intro allI impI)
  fix w :: jworld assume "P (jw_entries w)"
  moreover obtain q w' where m: "m w = (q, w')" by fastforce
  ultimately have "P (jw_entries w')" using assms(1) by (blast intro: keepsD)
  then show "P (jw_entries (snd (jmatch m f g w)))"
    using m assms(2,3) by (cases q) (simp_all add: jmatch_def keeps_def)
qed

lemma jbind_jmatch: "jbind m f = jmatch m f jfail"
  by (rule ext) (simp add: jbind_def jmatch_def jfail_def split: prod.split sum.split)

lemma keeps_bind [keeps_rules]: "keeps P m \<Longrightarrow> (\<And>x. keeps P (f x)) \<Longrightarrow> keeps P (jbind m f)"
  unfolding jbind_jmatch by (intro keeps_match keeps_return)

lemma keeps_if [keeps_rules]: "keeps P m \<Longrightarrow> keeps P k \<Longrightarrow> keeps P (if b then m else k)"
  by simp

lemma keeps_prod [keeps_rules]: "(\<And>x y. keeps P (f x y)) \<Longrightarrow> keeps P (case p of (x, y) \<Rightarrow> f x y)"
  by (cases p) simp

lemma keeps_option [keeps_rules]: "keeps P m \<Longrightarrow> (\<And>x. keeps P (f x)) \<Longrightarrow> keeps P (case q of None \<Rightarrow> m | Some x \<Rightarrow> f x)"
  by (cases q) simp_all

lemma keeps_each [keeps_rules]: "(\<And>x. keeps P (f x)) \<Longrightarrow> keeps P (jeach f xs)"
  by (induction xs) (simp_all add: keeps_return keeps_bind)

lemma keeps_syscall:
  "(\<And>es. P es \<Longrightarrow> P (snd (act es))) \<Longrightarrow> (\<And>n es. P es \<Longrightarrow> P (partial n es)) \<Longrightarrow> keeps P (syscall act partial)"
  by (simp add: keeps_def syscall_def split: list.split option.split fault.split) (auto simp: case_prod_beta)

text \<open>Calls and operations that only read keep every property.\<close>

lemma keeps_reads [keeps_rules]:
  "keeps P (sys_stat dir name)" "keeps P sys_other" "keeps P (sys_read dir name)" "keeps P (sys_read_dir dir)"
  by (simp_all add: sys_stat_def sys_other_def sys_read_def sys_read_dir_def keeps_syscall no_effect_def)

lemma keeps_read_bounded [keeps_rules]: "keeps P (read_bounded J dir name n)"
  unfolding read_bounded_def by (intro keeps_rules)

lemma keeps_helpers [keeps_rules]:
  "keeps P (read_json J parse dir name)" "keeps P (require_real_directory J dir name)" "keeps P (to_canonical J v)"
  "keeps P (command_directory c)" "keeps P set_private_directory" "keeps P sync_directory"
  unfolding read_json_def require_real_directory_def to_canonical_def command_directory_def set_private_directory_def
    sync_directory_def
  by (intro keeps_rules)+

lemma keeps_load [keeps_rules]: "keeps P (load J c)"
  unfolding load_def by (intro keeps_rules)

lemma keeps_observed_names [keeps_rules]: "keeps P (observed_names dir es)"
  by (induction dir es rule: observed_names.induct) (simp_all, (intro keeps_rules | assumption)+)

lemma keeps_read_existing [keeps_rules]: "keeps P (read_existing J r b files)"
  unfolding read_existing_def Let_def by (intro keeps_rules)

lemma keeps_recoverable_loop [keeps_rules]: "keeps P (recoverable_loop J es)"
proof (induction J es rule: recoverable_loop.induct)
  case (2 J name listed rest)
  then have "keeps P (recoverable_loop J rest)" by blast
  then show ?case unfolding recoverable_loop.simps by (intro keeps_rules)
qed (simp add: keeps_return)

lemma keeps_queries [keeps_rules]:
  "keeps P (journal_contains c)" "keeps P (journal_payload J c)" "keeps P (journal_input J c name)" "keeps P (recoverable J)"
  unfolding journal_contains_def journal_payload_def journal_input_def recoverable_def
  by (intro keeps_rules)+

section \<open>Frames\<close>

text \<open>Nothing changes outside the entry \<open>p\<close> of the root.\<close>

definition only_at :: "string \<Rightarrow> entries \<Rightarrow> entries \<Rightarrow> bool" where
  "only_at p es0 es \<longleftrightarrow> (\<forall>n. n \<noteq> p \<longrightarrow> bt_get es n = bt_get es0 n)"

lemma only_at_refl [simp]: "only_at p es es"
  by (simp add: only_at_def)

lemma bt_get_update_dir:
  "bt_get (update_dir (p # ps) f es) n =
     (if n = p then (case bt_get es p of Some (JDir ds) \<Rightarrow> Some (JDir (update_dir ps f ds)) | x \<Rightarrow> x) else bt_get es n)"
  by (auto simp: bt_get_insert split: option.splits jnode.splits)

lemma only_at_update: "only_at p es0 es \<Longrightarrow> only_at p es0 (update_dir (p # ps) f es)"
  unfolding only_at_def bt_get_update_dir by simp

lemma frame_calls [keeps_rules]:
  "keeps (only_at p es0) (sys_create_dir (p # ps) name)" "keeps (only_at p es0) (sys_create_file (p # ps) name)"
  "keeps (only_at p es0) (sys_write (p # ps) name bytes)" "keeps (only_at p es0) (sys_open_lock (p # ps) name)"
  "keeps (only_at p es0) (sys_rename (p # ps) a b)" "keeps (only_at p es0) (sys_remove_tree p)"
  unfolding sys_create_dir_def sys_create_file_def sys_write_def sys_open_lock_def sys_rename_def sys_remove_tree_def
  by (rule keeps_syscall;
      auto simp: no_effect_def only_at_update only_at_def bt_get_remove bt_get_insert simp del: update_dir.simps
        split: option.split jnode.split prod.split intro: only_at_update [unfolded only_at_def, rule_format])+

lemma frame_writes [keeps_rules]:
  "keeps (only_at p es0) (write_new_bytes (p # ps) name bytes)"
  "keeps (only_at p es0) (write_new_json J (p # ps) name v)"
  unfolding write_new_bytes_def write_new_json_def by (intro keeps_rules)+

lemma frame_write_staging: "keeps (only_at p es0) (write_staging J p r payload files initial)"
  unfolding write_staging_def by (intro keeps_rules)

lemma frame_remove_staging [keeps_rules]: "keeps (only_at p es0) (remove_owned_staging p)"
  unfolding remove_owned_staging_def by (intro keeps_rules)

section \<open>What holds after success\<close>

lemma ensures_bind: "ensures P m (\<lambda>x. R x) \<Longrightarrow> (\<And>x. ensures (R x) (f x) Q) \<Longrightarrow> ensures P (jbind m f) Q"
  by (fastforce simp: ensures_def jbind_def split: prod.splits sum.splits)

lemma ensures_keeps: "keeps P m \<Longrightarrow> ensures P m (\<lambda>_. P)"
  by (auto simp: ensures_def intro: keepsD)

lemma ensures_weaken:
  assumes "ensures P m Q" "\<And>es. P' es \<Longrightarrow> P es" "\<And>x es. Q x es \<Longrightarrow> Q' x es"
  shows "ensures P' m Q'"
  using assms unfolding ensures_def by blast

lemma ensures_syscall:
  "(\<And>es x es'. P es \<Longrightarrow> act es = (Inr x, es') \<Longrightarrow> Q x es') \<Longrightarrow> ensures P (syscall act partial) Q"
  by (auto simp: ensures_def syscall_def split: list.splits option.splits fault.splits prod.splits)

lemma ensures_pure: "(\<And>x es. P es \<Longrightarrow> q = Inr x \<Longrightarrow> Q x es) \<Longrightarrow> ensures P (jpure q) Q"
  by (auto simp: ensures_def jpure_def)

lemma ensures_ex: "(\<And>a. ensures (P a) m Q) \<Longrightarrow> ensures (\<lambda>es. \<exists>a. P a es) m Q"
  unfolding ensures_def by blast

lemma ensures_fact: "(A \<Longrightarrow> ensures P m Q) \<Longrightarrow> ensures (\<lambda>es. A \<and> P es) m Q"
  unfolding ensures_def by blast

text \<open>The contents of the directory \<open>p\<close> as a map.\<close>

definition holds_dir :: "string list \<Rightarrow> (string \<Rightarrow> jnode option) \<Rightarrow> entries \<Rightarrow> bool" where
  "holds_dir p M es \<longleftrightarrow> (\<exists>ds. dir_at p es = Some ds \<and> (\<forall>n. bt_get ds n = M n))"

lemma dir_at_update: "dir_at p (update_dir p f es) = map_option f (dir_at p es)"
  by (induction p f es rule: update_dir.induct) (auto simp: bt_get_insert split: option.splits jnode.splits)

lemma holds_update:
  assumes "holds_dir p M es" "\<And>ds n. (\<And>n. bt_get ds n = M n) \<Longrightarrow> bt_get (f ds) n = M' n"
  shows "holds_dir p M' (update_dir p f es)"
  using assms by (auto simp: holds_dir_def dir_at_update)

lemma holds_insert: "holds_dir p M es \<Longrightarrow> holds_dir p (M(name \<mapsto> x)) (update_dir p (bt_insert name x) es)"
  by (erule holds_update) (simp add: bt_get_insert)

lemma ensures_create_file: "ensures (holds_dir p M) (sys_create_file p name) (\<lambda>_ es. M name = None \<and> holds_dir p (M(name \<mapsto> JFile [])) es)"
  unfolding sys_create_file_def
  by (rule ensures_syscall)
    (auto simp: entry_at_def holds_dir_def dir_at_update bt_get_insert split: option.splits)

lemma ensures_create_dir: "ensures (holds_dir p M) (sys_create_dir p name) (\<lambda>_ es. M name = None \<and> holds_dir p (M(name \<mapsto> JDir [])) es)"
  unfolding sys_create_dir_def
  by (rule ensures_syscall)
    (auto simp: entry_at_def holds_dir_def dir_at_update bt_get_insert split: option.splits)

lemma ensures_write: "ensures (holds_dir p M) (sys_write p name bytes) (\<lambda>_. holds_dir p (M(name \<mapsto> JFile bytes)))"
  unfolding sys_write_def by (rule ensures_syscall) (auto intro: holds_insert)

lemma ensures_write_new_bytes:
  "ensures (holds_dir p M) (write_new_bytes p name bytes) (\<lambda>_ es. M name = None \<and> holds_dir p (M(name \<mapsto> JFile bytes)) es)"
proof -
  have k: "ensures P sys_other (\<lambda>_. P)" for P by (intro ensures_keeps keeps_rules)
  have "ensures (\<lambda>es. M name = None \<and> holds_dir p (M(name \<mapsto> JFile [])) es) (sys_write p name bytes)
      (\<lambda>_ es. M name = None \<and> holds_dir p (M(name \<mapsto> JFile bytes)) es)"
    using ensures_write [of p "M(name \<mapsto> JFile [])" name bytes] by (auto simp: ensures_def)
  then show ?thesis
    unfolding write_new_bytes_def by (intro ensures_bind [OF ensures_create_file] ensures_bind [OF k] ensures_bind [OF _ k])
qed

lemma ensures_write_new_json:
  "ensures (holds_dir p M) (write_new_json J p name v)
     (\<lambda>_ es. \<exists>bytes. canonical_to_vec (je_externals J) v = Inr bytes \<and> M name = None \<and> holds_dir p (M(name \<mapsto> JFile bytes)) es)"
proof -
  have "ensures (holds_dir p M) (to_canonical J v) (\<lambda>bytes es. canonical_to_vec (je_externals J) v = Inr bytes \<and> holds_dir p M es)"
    unfolding to_canonical_def by (rule ensures_pure) simp
  moreover have "ensures (\<lambda>es. canonical_to_vec (je_externals J) v = Inr bytes \<and> holds_dir p M es) (write_new_bytes p name bytes)
      (\<lambda>_ es. \<exists>bytes. canonical_to_vec (je_externals J) v = Inr bytes \<and> M name = None \<and> holds_dir p (M(name \<mapsto> JFile bytes)) es)" for bytes
    using ensures_write_new_bytes [of p M name bytes] by (auto simp: ensures_def)
  ultimately show ?thesis unfolding write_new_json_def by (rule ensures_bind)
qed

section \<open>The staged directory\<close>

definition complete_entry ::
  "journal_env \<Rightarrow> command_record \<Rightarrow> byte list \<Rightarrow> (string \<times> byte list) list \<Rightarrow> command_status \<Rightarrow> jnode \<Rightarrow> bool" where
  "complete_entry J r payload files status node \<longleftrightarrow>
     (\<exists>ds rb sb. node = JDir ds \<and> canonical_to_vec (je_externals J) (command_record_json r) = Inr rb
        \<and> canonical_to_vec (je_externals J) (command_status_json status) = Inr sb
        \<and> bt_get ds ''request.json'' = Some (JFile rb) \<and> bt_get ds ''payload.json'' = Some (JFile payload)
        \<and> bt_get ds ''status.json'' = Some (JFile sb)
        \<and> (if files = [] then bt_get ds ''inputs'' = None
           else \<exists>is. bt_get ds ''inputs'' = Some (JDir is) \<and> (\<forall>n. bt_get is n = map_option JFile (map_of files n))))"

text \<open>The directory without its inputs, which calls on the inputs do not change.\<close>

definition outside_inputs :: "string \<Rightarrow> (string \<Rightarrow> jnode option) \<Rightarrow> entries \<Rightarrow> bool" where
  "outside_inputs s M es \<longleftrightarrow> (\<exists>ds. dir_at [s] es = Some ds \<and> (\<forall>n. n \<noteq> ''inputs'' \<longrightarrow> bt_get ds n = M n))"

lemma dir_at_update_below: "dir_at p (update_dir (p @ q) f es) = map_option (update_dir q f) (dir_at p es)"
  by (induction p f es rule: update_dir.induct) (auto simp: bt_get_insert split: option.splits jnode.splits)

lemma outside_update: "outside_inputs s M es \<Longrightarrow> outside_inputs s M (update_dir [s, ''inputs''] f es)"
proof -
  assume "outside_inputs s M es"
  then obtain ds where "dir_at [s] es = Some ds" "\<forall>n. n \<noteq> ''inputs'' \<longrightarrow> bt_get ds n = M n"
    unfolding outside_inputs_def by blast
  then have "dir_at [s] (update_dir [s, ''inputs''] f es) = Some (update_dir [''inputs''] f ds)"
      "\<forall>n. n \<noteq> ''inputs'' \<longrightarrow> bt_get (update_dir [''inputs''] f ds) n = M n"
    using dir_at_update_below [of "[s]" "[''inputs'']" f es]
    by (simp_all only: append_Cons append_Nil option.map bt_get_update_dir if_False) simp_all
  then show ?thesis unfolding outside_inputs_def by blast
qed

lemma outside_calls:
  "keeps (outside_inputs s M) (sys_create_file [s, ''inputs''] name)"
  "keeps (outside_inputs s M) (sys_write [s, ''inputs''] name bytes)"
  unfolding sys_create_file_def sys_write_def
  by (rule keeps_syscall; auto simp: no_effect_def simp del: update_dir.simps dir_at.simps
      split: option.split prod.split intro: outside_update)+

lemma outside_write_new_bytes: "keeps (outside_inputs s M) (write_new_bytes [s, ''inputs''] name bytes)"
  unfolding write_new_bytes_def by (intro keeps_rules outside_calls)

lemma ensures_conj: "ensures P m Q \<Longrightarrow> keeps R m \<Longrightarrow> ensures (\<lambda>es. P es \<and> R es) m (\<lambda>x es. Q x es \<and> R es)"
  by (auto simp: ensures_def intro: keepsD)

lemma ensures_write_inputs:
  "distinct (map fst files) \<Longrightarrow> \<forall>n \<in> set (map fst files). F n = None \<Longrightarrow>
   ensures (\<lambda>es. holds_dir [s, ''inputs''] F es \<and> outside_inputs s M es)
     (jeach (\<lambda>(name, bytes). write_new_bytes [s, ''inputs''] name bytes) files)
     (\<lambda>_ es. holds_dir [s, ''inputs''] (\<lambda>n. case map_of files n of None \<Rightarrow> F n | Some b \<Rightarrow> Some (JFile b)) es
        \<and> outside_inputs s M es)"
proof (induction files arbitrary: F)
  case Nil
  show ?case by (simp add: ensures_def jreturn_def)
next
  case (Cons f files)
  obtain name bytes where f: "f = (name, bytes)" by fastforce
  let ?G = "F(name \<mapsto> JFile bytes)"
  have one: "ensures (\<lambda>es. holds_dir [s, ''inputs''] F es \<and> outside_inputs s M es) (write_new_bytes [s, ''inputs''] name bytes)
      (\<lambda>_ es. holds_dir [s, ''inputs''] ?G es \<and> outside_inputs s M es)"
    by (rule ensures_weaken [OF ensures_conj [OF ensures_write_new_bytes outside_write_new_bytes]]) auto
  have "(\<lambda>n. case map_of (f # files) n of None \<Rightarrow> F n | Some b \<Rightarrow> Some (JFile b))
      = (\<lambda>n. case map_of files n of None \<Rightarrow> ?G n | Some b \<Rightarrow> Some (JFile b))"
  proof -
    have "map_of files name = None" using Cons.prems(1) f by (simp add: map_of_eq_None_iff)
    then show ?thesis using f by (auto simp: fun_eq_iff split: option.split)
  qed
  then show ?case
    using Cons f by (auto intro!: ensures_bind [OF one] Cons.IH)
qed

lemma staged_complete:
  assumes "canonical_to_vec (je_externals J) (command_record_json r) = Inr rb"
    "if files = [] then inp = None else \<exists>ds. inp = Some (JDir ds) \<and> (\<forall>n. bt_get ds n = map_option JFile (map_of files n))"
    "canonical_to_vec (je_externals J) (command_status_json initial) = Inr sb"
    "holds_dir [s] ([''request.json'' \<mapsto> JFile rb, ''payload.json'' \<mapsto> JFile payload, ''status.json'' \<mapsto> JFile sb](''inputs'' := inp)) es"
  shows "\<exists>node. bt_get es s = Some node \<and> complete_entry J r payload files initial node"
proof -
  from assms(4) obtain ds where "bt_get es s = Some (JDir ds)" "bt_get ds ''request.json'' = Some (JFile rb)"
      "bt_get ds ''payload.json'' = Some (JFile payload)" "bt_get ds ''status.json'' = Some (JFile sb)" "bt_get ds ''inputs'' = inp"
    by (auto simp: holds_dir_def split: option.splits jnode.splits)
  then show ?thesis using assms(1-3) by (auto simp: complete_entry_def split: if_splits)
qed

lemma ensures_write_staging:
  assumes "distinct (map fst files)"
  shows "ensures (holds_dir [s] Map.empty) (write_staging J s r payload files initial)
    (\<lambda>_ es. \<exists>node. bt_get es s = Some node \<and> complete_entry J r payload files initial node)"
proof -
  let ?can = "canonical_to_vec (je_externals J)"
  let ?M = "\<lambda>rb. [''request.json'' \<mapsto> JFile rb, ''payload.json'' \<mapsto> JFile payload]"
  let ?inputs = "\<lambda>is. if files = [] then is = None
    else \<exists>ds. is = Some (JDir ds) \<and> (\<forall>n. bt_get ds n = map_option JFile (map_of files n))"
  let ?R = "\<lambda>es. \<exists>rb is. ?can (command_record_json r) = Inr rb \<and> ?inputs is \<and> holds_dir [s] ((?M rb)(''inputs'' := is)) es"
  have k: "ensures P sync_directory (\<lambda>_. P)" "ensures P set_private_directory (\<lambda>_. P)" for P
    by (intro ensures_keeps keeps_rules)+
  have req: "ensures (holds_dir [s] Map.empty) (write_new_json J [s] ''request.json'' (command_record_json r))
      (\<lambda>_ es. \<exists>rb. ?can (command_record_json r) = Inr rb \<and> holds_dir [s] [''request.json'' \<mapsto> JFile rb] es)"
    by (rule ensures_weaken [OF ensures_write_new_json]) auto
  have pay: "ensures (\<lambda>es. \<exists>rb. ?can (command_record_json r) = Inr rb \<and> holds_dir [s] [''request.json'' \<mapsto> JFile rb] es)
      (write_new_bytes [s] ''payload.json'' payload) (\<lambda>_ es. \<exists>rb. ?can (command_record_json r) = Inr rb \<and> holds_dir [s] (?M rb) es)"
    using ensures_write_new_bytes [of "[s]"] by (fastforce simp: ensures_def)
  have "ensures (\<lambda>es. \<exists>rb. ?can (command_record_json r) = Inr rb \<and> holds_dir [s] (?M rb) es)
      (if files = [] then jreturn ()
       else jbind (sys_create_dir [s] ''inputs'') (\<lambda>_. jbind set_private_directory (\<lambda>_.
         jbind (jeach (\<lambda>(name, bytes). write_new_bytes [s, ''inputs''] name bytes) files) (\<lambda>_. sync_directory)))) (\<lambda>_. ?R)"
    (is "ensures ?P ?m _")
  proof (cases "files = []")
    case True
    then show ?thesis by (auto simp: ensures_def jreturn_def fun_upd_idem)
  next
    case False
    let ?O = "\<lambda>es. \<exists>rb. ?can (command_record_json r) = Inr rb \<and> outside_inputs s (?M rb) es"
    have mk: "ensures ?P (sys_create_dir [s] ''inputs'') (\<lambda>_ es. \<exists>rb. ?can (command_record_json r) = Inr rb
        \<and> holds_dir [s, ''inputs''] Map.empty es \<and> outside_inputs s (?M rb) es)"
    proof (rule ensures_weaken)
      show "ensures ?P (sys_create_dir [s] ''inputs'')
        (\<lambda>_ es. \<exists>rb. ?can (command_record_json r) = Inr rb \<and> holds_dir [s] ((?M rb)(''inputs'' \<mapsto> JDir [])) es)"
        using ensures_create_dir [of "[s]"] by (fastforce simp: ensures_def)
    qed (auto simp: holds_dir_def outside_inputs_def bt.get_empty split: option.splits jnode.splits)
    have wr: "ensures (\<lambda>es. \<exists>rb. ?can (command_record_json r) = Inr rb
          \<and> holds_dir [s, ''inputs''] Map.empty es \<and> outside_inputs s (?M rb) es)
        (jeach (\<lambda>(name, bytes). write_new_bytes [s, ''inputs''] name bytes) files)
        (\<lambda>_ es. \<exists>rb. ?can (command_record_json r) = Inr rb
          \<and> holds_dir [s, ''inputs''] (\<lambda>n. map_option JFile (map_of files n)) es \<and> outside_inputs s (?M rb) es)"
      using ensures_write_inputs [OF assms, of Map.empty s] by (fastforce simp: ensures_def map_option_case)
    show ?thesis
      unfolding if_not_P [OF False]
      by (rule ensures_weaken [OF ensures_bind [OF mk ensures_bind [OF k(2) ensures_bind [OF wr k(1)]]]])
        (use False in \<open>fastforce simp: holds_dir_def outside_inputs_def split: option.splits jnode.splits\<close>)+
  qed
  moreover have "ensures ?R (write_new_json J [s] ''status.json'' (command_status_json initial))
      (\<lambda>_ es. \<exists>node. bt_get es s = Some node \<and> complete_entry J r payload files initial node)"
  proof (intro ensures_ex ensures_fact)
    fix rb inp assume rb: "?can (command_record_json r) = Inr rb" and inp: "?inputs inp"
    show "ensures (holds_dir [s] ((?M rb)(''inputs'' := inp))) (write_new_json J [s] ''status.json'' (command_status_json initial))
        (\<lambda>_ es. \<exists>node. bt_get es s = Some node \<and> complete_entry J r payload files initial node)"
      by (rule ensures_weaken [OF ensures_write_new_json]) (auto simp: fun_upd_twist intro!: staged_complete [OF rb inp])
  qed
  ultimately show ?thesis
    unfolding write_staging_def by (intro ensures_bind [OF req ensures_bind [OF pay ensures_bind [OF _ ensures_bind [OF _ k(1)]]]])
qed

section \<open>Publication\<close>

lemma stat_found: "sys_stat dir name w = (Inr node, w') \<Longrightarrow> entry_at dir name (jw_entries w) = Some node"
  by (auto simp: sys_stat_def syscall_def split: list.splits option.splits fault.splits)

lemma stat_missing: "sys_stat dir name w = (Inl (JIo NotFound), w') \<Longrightarrow> entry_at dir name (jw_entries w) = None"
  by (auto simp: sys_stat_def syscall_def split: list.splits option.splits fault.splits)

lemma stat_same: "sys_stat dir name w = (q, w') \<Longrightarrow> jw_entries w' = jw_entries w"
  by (rule keepsD [where P = "\<lambda>es. es = jw_entries w" and m = "sys_stat dir name"]) (auto intro: keeps_rules)

lemma rename_failed: "sys_rename dir a b w = (Inl e, w') \<Longrightarrow> jw_entries w' = jw_entries w"
  by (auto simp: sys_rename_def syscall_def no_effect_def split: list.splits option.splits fault.splits)

lemma rename_done:
  "sys_rename dir a b w = (Inr x, w') \<Longrightarrow> \<exists>node. entry_at dir a (jw_entries w) = Some node
     \<and> jw_entries w' = update_dir dir (\<lambda>ds. bt_insert b node (bt_remove a ds)) (jw_entries w)"
  by (auto simp: sys_rename_def syscall_def split: list.splits option.splits fault.splits)

lemma entry_at_root [simp]: "entry_at [] name es = bt_get es name"
  by (simp add: entry_at_def)

lemma publish_outcome:
  assumes "publish_staging J staging r payload files initial w = (res, w')" "bt_get (jw_entries w) staging = Some node"
    "bt_get (jw_entries w) (cr_command_id r) = None" "staging \<noteq> cr_command_id r"
  shows "(\<forall>n. n \<noteq> staging \<longrightarrow> n \<noteq> cr_command_id r \<longrightarrow> bt_get (jw_entries w') n = bt_get (jw_entries w) n)
    \<and> (bt_get (jw_entries w') (cr_command_id r) = None \<and> (\<exists>e. res = Inl e)
       \<or> bt_get (jw_entries w') (cr_command_id r) = Some node
         \<and> (\<forall>a. res = Inr a \<longrightarrow> a = \<lparr>ad_record = r, ad_status = initial, ad_existing = False, ad_directory = cr_command_id r\<rparr>))"
proof -
  let ?final = "cr_command_id r"
  obtain q w1 where q: "sys_rename [] staging ?final w = (q, w1)" by fastforce
  show ?thesis
  proof (cases q)
    case (Inr x)
    with q have es: "jw_entries w1 = bt_insert ?final node (bt_remove staging (jw_entries w))"
      using rename_done [of "[]" staging ?final w x w1] assms(2) by auto
    have run: "jbind sync_directory (\<lambda>_. jreturn \<lparr>ad_record = r, ad_status = initial, ad_existing = False, ad_directory = ?final\<rparr>) w1 = (res, w')"
      using assms(1) q Inr by (simp add: publish_staging_def Let_def jmatch_def)
    have "keeps (\<lambda>es. es = jw_entries w1) (jbind sync_directory (\<lambda>_. jreturn \<lparr>ad_record = r, ad_status = initial, ad_existing = False, ad_directory = ?final\<rparr>))"
      by (intro keeps_rules)
    from keepsD [OF this _ run] have "jw_entries w' = jw_entries w1" by simp
    moreover have "res = Inr a \<longrightarrow> a = \<lparr>ad_record = r, ad_status = initial, ad_existing = False, ad_directory = ?final\<rparr>" for a
      using run by (auto simp: jbind_def jreturn_def split: prod.splits sum.splits)
    ultimately show ?thesis using es by (simp add: bt_get_insert bt_get_remove)
  next
    case (Inl e)
    with q have es: "jw_entries w1 = jw_entries w" by (simp add: rename_failed)
    obtain o2 w2 where st: "sys_stat [] ?final w1 = (o2, w2)" by fastforce
    then obtain observed where o2: "o2 = Inl observed"
      using stat_found [of "[]" ?final w1] es assms(3) by (cases o2) auto
    have es2: "jw_entries w2 = jw_entries w" using stat_same [OF st] es by simp
    let ?err = "if observed = JIo NotFound then e else observed"
    let ?tail = "jmatch (remove_owned_staging staging) (\<lambda>_. jfail ?err) (\<lambda>_. jfail ?err) :: admission jio"
    have run: "?tail w2 = (res, w')"
      using assms(1) q Inl st o2 by (simp add: publish_staging_def Let_def jmatch_def)
    have "keeps (only_at staging (jw_entries w)) ?tail" by (intro keeps_rules)
    from keepsD [OF this _ run] have "only_at staging (jw_entries w) (jw_entries w')" by (simp add: es2)
    moreover have "res = Inl ?err" using run by (auto simp: jmatch_def jfail_def split: prod.splits sum.splits)
    ultimately show ?thesis using assms(3,4) by (auto simp: only_at_def)
  qed
qed

section \<open>Admission is atomic\<close>

lemma identifier_no_dot: "validate_journal_identifier label v = Inr u \<Longrightarrow> \<not> starts_with ''.staging-'' v"
  by (cases v) (auto simp: validate_journal_identifier_def starts_with_def journal_identifier_char_def
      is_ascii_alphanumeric_def is_ascii_digit_def is_ascii_lowercase_def is_ascii_uppercase_def)

lemma private_files_distinct: "private_files_loop n names files = Inr k \<Longrightarrow> distinct (map fst files) \<and> set (map fst files) \<inter> set names = {}"
proof (induction n names files rule: private_files_loop.induct)
  case (2 n names name bytes files)
  then have "name \<notin> set names" "private_files_loop (n + length bytes) (name # names) files = Inr k"
    by (auto split: if_splits)
  with 2 show ?case by auto
qed simp

text \<open>The part of the admission after the command was found to be new.\<close>

definition admit_new ::
  "journal_env \<Rightarrow> string \<Rightarrow> command_record \<Rightarrow> byte list \<Rightarrow> (string \<times> byte list) list \<Rightarrow> command_status \<Rightarrow> admission jio" where
  "admit_new J staging r payload files initial =
     jbind (sys_read_dir []) (\<lambda>names.
     jbind (jguard (length names < MAXIMUM_COMMANDS) (JInvalid ''command journal is at capacity'')) (\<lambda>_.
     jbind (sys_create_dir [] staging) (\<lambda>_.
     jbind set_private_directory (\<lambda>_.
     jbind (write_staging J staging r payload files initial) (\<lambda>_.
       publish_staging J staging r payload files initial)))))"

lemma jbind_cases:
  assumes "jbind m f w = (res, w')"
  obtains (fails) e where "m w = (Inl e, w')" "res = Inl e"
  | (runs) x w1 where "m w = (Inr x, w1)" "f x w1 = (res, w')"
  using assms by (auto simp: jbind_def split: prod.splits sum.splits)

lemma keeps_same: "keeps (\<lambda>es. es = jw_entries w) m \<Longrightarrow> m w = (q, w') \<Longrightarrow> jw_entries w' = jw_entries w"
  by (rule keepsD [where P = "\<lambda>es. es = jw_entries w" and m = m and w = w]) auto

lemma create_dir_failed: "sys_create_dir dir name w = (Inl e, w') \<Longrightarrow> jw_entries w' = jw_entries w"
  by (auto simp: sys_create_dir_def syscall_def no_effect_def split: list.splits option.splits fault.splits)

lemma create_dir_done:
  "sys_create_dir [] name w = (Inr x, w') \<Longrightarrow> jw_entries w' = bt_insert name (JDir []) (jw_entries w)"
  by (auto simp: sys_create_dir_def syscall_def split: list.splits option.splits fault.splits)

lemmas same_after = keeps_same [OF keeps_reads(4)] keeps_same [OF keeps_return(4)] keeps_same [OF keeps_helpers(5)]
  create_dir_failed

lemma staging_created:
  assumes "sys_read_dir [] w = (Inr names, w1)" "jguard b e w1 = (Inr u1, w2)" "sys_create_dir [] staging w2 = (Inr u2, w3)"
    "set_private_directory w3 = (q, w4)"
  shows "jw_entries w4 = bt_insert staging (JDir []) (jw_entries w)"
  using assms create_dir_done [OF assms(3)] by (auto dest!: same_after)

lemma staging_frame:
  assumes "write_staging J staging r payload files initial w = (q, w')" "jw_entries w = bt_insert staging (JDir []) es" "n \<noteq> staging"
  shows "bt_get (jw_entries w') n = bt_get es n"
proof -
  have "only_at staging (jw_entries w) (jw_entries w')"
    by (rule keepsD [OF frame_write_staging _ assms(1)]) simp
  then show ?thesis using assms(2,3) by (simp add: only_at_def bt_get_insert)
qed

lemma admit_new_outcome:
  assumes "admit_new J staging r payload files initial w = (res, w')" "bt_get (jw_entries w) (cr_command_id r) = None"
    "staging \<noteq> cr_command_id r" "distinct (map fst files)"
  shows "(\<forall>n. n \<noteq> staging \<longrightarrow> n \<noteq> cr_command_id r \<longrightarrow> bt_get (jw_entries w') n = bt_get (jw_entries w) n)
    \<and> (bt_get (jw_entries w') (cr_command_id r) = None \<and> (\<exists>e. res = Inl e)
       \<or> (\<exists>node. bt_get (jw_entries w') (cr_command_id r) = Some node \<and> complete_entry J r payload files initial node
            \<and> (\<forall>a. res = Inr a \<longrightarrow> a = \<lparr>ad_record = r, ad_status = initial, ad_existing = False, ad_directory = cr_command_id r\<rparr>)))"
  using assms(1) unfolding admit_new_def
proof (elim jbind_cases)
  fix names w1 u1 w2 u2 w3 u3 w4 u4 w5
  assume run: "sys_read_dir [] w = (Inr names, w1)"
    "jguard (length names < MAXIMUM_COMMANDS) (JInvalid ''command journal is at capacity'') w1 = (Inr u1, w2)"
    "sys_create_dir [] staging w2 = (Inr u2, w3)" "set_private_directory w3 = (Inr u3, w4)"
    "write_staging J staging r payload files initial w4 = (Inr u4, w5)"
    "publish_staging J staging r payload files initial w5 = (res, w')"
  note es = staging_created [OF run(1-4)]
  then have "holds_dir [staging] Map.empty (jw_entries w4)" by (simp add: holds_dir_def bt_get_insert bt.get_empty)
  then obtain node where "bt_get (jw_entries w5) staging = Some node" "complete_entry J r payload files initial node"
    using ensuresD [OF ensures_write_staging [OF assms(4)] _ run(5)] by blast
  then show ?thesis using publish_outcome [OF run(6)] staging_frame [OF run(5) es] assms(2,3) by auto
next
  fix names w1 u1 w2 u2 w3 u3 w4 e
  assume run: "sys_read_dir [] w = (Inr names, w1)"
    "jguard (length names < MAXIMUM_COMMANDS) (JInvalid ''command journal is at capacity'') w1 = (Inr u1, w2)"
    "sys_create_dir [] staging w2 = (Inr u2, w3)" "set_private_directory w3 = (Inr u3, w4)"
    "write_staging J staging r payload files initial w4 = (Inl e, w')" and "res = Inl e"
  then show ?thesis using staging_frame [OF run(5) staging_created [OF run(1-4)]] assms(2,3) by auto
next
  fix names w1 u1 w2 u2 w3 e
  assume run: "sys_read_dir [] w = (Inr names, w1)"
    "jguard (length names < MAXIMUM_COMMANDS) (JInvalid ''command journal is at capacity'') w1 = (Inr u1, w2)"
    "sys_create_dir [] staging w2 = (Inr u2, w3)" "set_private_directory w3 = (Inl e, w')" and "res = Inl e"
  then show ?thesis using staging_created [OF run] assms(2,3) by (auto simp: bt_get_insert)
qed (use assms(2) in \<open>auto dest!: same_after\<close>)

text \<open>What a repeated admission has read.\<close>

lemma read_bounded_found: "read_bounded J dir name k w = (Inr b, w') \<Longrightarrow> entry_at dir name (jw_entries w) = Some (JFile b)"
  unfolding read_bounded_def
  by (elim jbind_cases; (auto; fail)?)
    (auto simp: sys_read_def syscall_def dest!: stat_same keeps_same [OF keeps_return(4)] keeps_same [OF keeps_reads(2)]
      split: list.splits option.splits fault.splits jnode.splits)

lemma read_existing_found:
  assumes "read_existing J r payload files w = (Inr a, w')"
  shows "ad_existing a" "entry_at [cr_command_id r] ''payload.json'' (jw_entries w) = Some (JFile payload)"
    "same_identity (ad_record a) r"
proof -
  have "ad_existing a \<and> entry_at [cr_command_id r] ''payload.json'' (jw_entries w) = Some (JFile payload)
      \<and> same_identity (ad_record a) r"
    using assms unfolding read_existing_def Let_def
    by (elim jbind_cases; (auto; fail)?)
      (auto elim!: jbind_cases simp: jreturn_def jguard_def jpure_def command_directory_def
        dest!: read_bounded_found keeps_same [OF keeps_load])
  then show "ad_existing a" "entry_at [cr_command_id r] ''payload.json'' (jw_entries w) = Some (JFile payload)"
    "same_identity (ad_record a) r" by auto
qed

text \<open>The command is in the journal now, complete, and was not before.\<close>

definition newly_published ::
  "journal_env \<Rightarrow> command_record \<Rightarrow> byte list \<Rightarrow> (string \<times> byte list) list \<Rightarrow> command_status \<Rightarrow> entries \<Rightarrow> entries \<Rightarrow> bool" where
  "newly_published J r payload files initial es es' \<longleftrightarrow> bt_get es (cr_command_id r) = None
     \<and> (\<exists>node. bt_get es' (cr_command_id r) = Some node \<and> complete_entry J r payload files initial node)"

definition admission_outcome ::
  "journal_env \<Rightarrow> command_record \<Rightarrow> byte list \<Rightarrow> (string \<times> byte list) list \<Rightarrow> command_status \<Rightarrow> entries
     \<Rightarrow> (journal_error + admission) \<Rightarrow> entries \<Rightarrow> bool" where
  "admission_outcome J r payload files initial es res es' \<longleftrightarrow>
     (let cid = cr_command_id r; same = (bt_get es' cid = bt_get es cid) in
      case res of
        Inl e \<Rightarrow> same \<or> newly_published J r payload files initial es es'
      | Inr a \<Rightarrow>
          if ad_existing a
          then same \<and> same_identity (ad_record a) r \<and> entry_at [cid] ''payload.json'' es = Some (JFile payload)
          else newly_published J r payload files initial es es' \<and> ad_record a = r \<and> ad_status a = initial)"

definition others_kept :: "string \<Rightarrow> entries \<Rightarrow> entries \<Rightarrow> bool" where
  "others_kept cid es es' \<longleftrightarrow> (\<forall>n. \<not> starts_with ''.staging-'' n \<longrightarrow> n \<noteq> cid \<longrightarrow> bt_get es' n = bt_get es n)"

lemma unchanged_outcome: "admission_outcome J r payload files initial es (Inl e) es" "others_kept cid es es"
  by (simp_all add: admission_outcome_def others_kept_def)

lemma admit_new_atomic:
  assumes "admit_new J staging r payload files initial w = (res, w')" "bt_get (jw_entries w) (cr_command_id r) = None"
    "starts_with ''.staging-'' staging" "\<not> starts_with ''.staging-'' (cr_command_id r)" "distinct (map fst files)"
  shows "others_kept (cr_command_id r) (jw_entries w) (jw_entries w')
    \<and> admission_outcome J r payload files initial (jw_entries w) res (jw_entries w')"
proof -
  have ne: "staging \<noteq> cr_command_id r" using assms(3,4) by metis
  note out = admit_new_outcome [OF assms(1,2) ne assms(5)]
  then have "others_kept (cr_command_id r) (jw_entries w) (jw_entries w')"
    unfolding others_kept_def using assms(3) by metis
  with out show ?thesis
    by (cases res) (auto simp: admission_outcome_def newly_published_def assms(2))
qed

lemma read_existing_atomic:
  assumes "read_existing J r payload files w = (res, w')"
  shows "others_kept (cr_command_id r) (jw_entries w) (jw_entries w')
    \<and> admission_outcome J r payload files initial (jw_entries w) res (jw_entries w')"
proof -
  have "jw_entries w' = jw_entries w" by (rule keeps_same [OF keeps_read_existing assms])
  then show ?thesis using assms read_existing_found
    by (cases res) (auto simp: others_kept_def admission_outcome_def)
qed

lemma jmatch_cases:
  assumes "jmatch m f g w = (res, w')"
  obtains (fails) e w1 where "m w = (Inl e, w1)" "g e w1 = (res, w')"
  | (runs) x w1 where "m w = (Inr x, w1)" "f x w1 = (res, w')"
  using assms by (auto simp: jmatch_def split: prod.splits sum.splits)

text \<open>An admission with its payload made canonical and its time fixed, where the checks pass.\<close>

lemma admit_with_files_steps:
  assumes "admit_with_files J uuid now later m payload files w = (res, w')"
  obtains (refused) e where "res = Inl e" "jw_entries w' = jw_entries w"
  | (known) payload_bytes submitted w1 where "canonical_to_vec (je_externals J) payload = Inr payload_bytes"
      "submitted_time J (md_submitted_at m) now = Inr submitted" "jw_entries w1 = jw_entries w"
      "read_existing J (admitted_record m submitted (sha256 (je_externals J) payload_bytes)) payload_bytes files w1 = (res, w')"
  | (fresh) payload_bytes submitted w1 where "canonical_to_vec (je_externals J) payload = Inr payload_bytes"
      "submitted_time J (md_submitted_at m) now = Inr submitted" "jw_entries w1 = jw_entries w"
      "bt_get (jw_entries w) (md_command_id m) = None" "\<not> starts_with ''.staging-'' (md_command_id m)" "distinct (map fst files)"
      "admit_new J (''.staging-'' @ md_command_id m @ ''-'' @ uuid)
         (admitted_record m submitted (sha256 (je_externals J) payload_bytes)) payload_bytes files
         (initial_status (md_command_id m) later) w1 = (res, w')"
proof -
  let ?checks = "checks [
       validate_journal_identifier ''command ID'' (md_command_id m),
       validate_journal_identifier ''workspace ID'' (md_workspace_id m),
       opt_str (md_origin_device_id m) (validate_journal_identifier ''origin device ID''), validate_private_files files]"
  note pure = jpure_def jguard_def to_canonical_def command_directory_def
  from assms show thesis unfolding admit_with_files_def Let_def
  proof (elim jbind_cases)
    fix u w1 payload_bytes w2 u2 w3 submitted w4 final w5
    assume run: "jpure ?checks w = (Inr u, w1)" "to_canonical J payload w1 = (Inr payload_bytes, w2)"
      "jguard (length payload_bytes \<le> MAXIMUM_JSON_BYTES) (JInvalid ''command payload exceeds the private journal limit'') w2 = (Inr u2, w3)"
      "jpure (submitted_time J (md_submitted_at m) now) w3 = (Inr submitted, w4)"
    let ?r = "admitted_record m submitted (sha256 (je_externals J) payload_bytes)"
    assume dir: "command_directory (cr_command_id ?r) w4 = (Inr final, w5)"
    have can: "canonical_to_vec (je_externals J) payload = Inr payload_bytes" and sub: "submitted_time J (md_submitted_at m) now = Inr submitted"
      using run(2,4) by (auto simp: pure)
    have ids: "\<not> starts_with ''.staging-'' (md_command_id m)" "distinct (map fst files)" "final = md_command_id m"
      using run(1) dir by (auto simp: pure admitted_record_def validate_private_files_def dest!: identifier_no_dot private_files_distinct)
    have same: "jw_entries w5 = jw_entries w" using run dir by (auto simp: pure)
    assume "jmatch (sys_stat [] final)
       (\<lambda>node. jbind (jguard (is_real_directory node) (JInvalid ''command journal entry is not a real directory'')) (\<lambda>_.
          read_existing J ?r payload_bytes files))
       (\<lambda>e. if e \<noteq> JIo NotFound then jfail e else
          jbind (sys_read_dir []) (\<lambda>names.
          jbind (jguard (length names < MAXIMUM_COMMANDS) (JInvalid ''command journal is at capacity'')) (\<lambda>_.
          jbind (sys_create_dir [] (''.staging-'' @ cr_command_id ?r @ ''-'' @ uuid)) (\<lambda>_.
          jbind set_private_directory (\<lambda>_.
          jbind (write_staging J (''.staging-'' @ cr_command_id ?r @ ''-'' @ uuid) ?r payload_bytes files
             (initial_status (cr_command_id ?r) later)) (\<lambda>_.
            publish_staging J (''.staging-'' @ cr_command_id ?r @ ''-'' @ uuid) ?r payload_bytes files
             (initial_status (cr_command_id ?r) later))))))) w5 = (res, w')"
    then show thesis
    proof (cases rule: jmatch_cases)
      case (runs node w6)
      then have "jw_entries w6 = jw_entries w" using same stat_same by metis
      with runs(2) show thesis
        by (elim jbind_cases) (auto simp: pure intro: refused known [OF can sub])
    next
      case (fails e w6)
      then have es: "jw_entries w6 = jw_entries w" using same stat_same by metis
      have cid: "cr_command_id ?r = md_command_id m" by (simp add: admitted_record_def)
      show thesis
      proof (cases "e = JIo NotFound")
        case True
        then have "bt_get (jw_entries w) (md_command_id m) = None"
          using stat_missing [of "[]" final w5 w6] fails(1) same ids(3) by simp
        then show thesis using fails(2) unfolding True cid by (intro fresh [OF can sub es _ ids(1,2)]) (simp_all add: admit_new_def)
      qed (use fails(2) es in \<open>auto simp: jfail_def intro: refused\<close>)
    qed
  qed (use refused in \<open>auto simp: pure\<close>)
qed

lemma admit_with_files_atomic:
  assumes "admit_with_files J uuid now later m payload files w = (res, w')"
  shows "others_kept (md_command_id m) (jw_entries w) (jw_entries w')
    \<and> (bt_get (jw_entries w') (md_command_id m) = bt_get (jw_entries w) (md_command_id m) \<and> (\<exists>e. res = Inl e)
       \<or> (\<exists>payload_bytes submitted. canonical_to_vec (je_externals J) payload = Inr payload_bytes
            \<and> submitted_time J (md_submitted_at m) now = Inr submitted
            \<and> admission_outcome J (admitted_record m submitted (sha256 (je_externals J) payload_bytes)) payload_bytes files
                (initial_status (md_command_id m) later) (jw_entries w) res (jw_entries w')))"
  using assms
proof (cases rule: admit_with_files_steps)
  case refused
  then show ?thesis by (auto simp: unchanged_outcome)
next
  case (known payload_bytes submitted w1)
  then show ?thesis using read_existing_atomic [OF known(4)] by (auto simp: admitted_record_def)
next
  case (fresh payload_bytes submitted w1)
  have "starts_with ''.staging-'' (''.staging-'' @ md_command_id m @ ''-'' @ uuid)" by (simp add: starts_with_def)
  from admit_new_atomic [OF fresh(7) _ this] fresh show ?thesis by (auto simp: admitted_record_def)
qed

lemma admission_keeps_entries:
  assumes "admit_with_files J uuid now later m payload files w = (res, w')" "\<not> starts_with ''.staging-'' c"
    "bt_get (jw_entries w) c \<noteq> None"
  shows "bt_get (jw_entries w') c = bt_get (jw_entries w) c"
proof (cases "c = md_command_id m")
  case True
  have "bt_get es' (cr_command_id r) = bt_get es (cr_command_id r)"
    if "admission_outcome J r p files i es res es'" "bt_get es (cr_command_id r) \<noteq> None" for r p i es es'
    using that by (auto simp: admission_outcome_def newly_published_def Let_def split: sum.splits if_splits)
  from this [of "admitted_record m _ _"] show ?thesis
    using admit_with_files_atomic [OF assms(1)] assms(3) True by (auto simp: admitted_record_def)
qed (use admit_with_files_atomic [OF assms(1)] assms(2) in \<open>simp add: others_kept_def\<close>)

text \<open>C22: Whatever system call of an admission fails, and however much of it was done by then,
  the other commands of the journal are as they were, and the command is untouched or completely
  there with the request, the payload, the inputs and the initial status of this admission. A
  success that reports a new command has put it there; a success that reports a known command has
  found the same payload under the same identity.\<close>

theorem admission_atomic:
  assumes "admit_with_files J uuid now later m payload files w = (res, w')"
  shows "others_kept (md_command_id m) (jw_entries w) (jw_entries w')
    \<and> (bt_get (jw_entries w') (md_command_id m) = bt_get (jw_entries w) (md_command_id m) \<and> (\<exists>e. res = Inl e)
       \<or> (\<exists>payload_bytes submitted. canonical_to_vec (je_externals J) payload = Inr payload_bytes
            \<and> submitted_time J (md_submitted_at m) now = Inr submitted
            \<and> admission_outcome J (admitted_record m submitted (sha256 (je_externals J) payload_bytes)) payload_bytes files
                (initial_status (md_command_id m) later) (jw_entries w) res (jw_entries w')))"
  using assms by (rule admit_with_files_atomic)

end
