(* ===== verification/Journal_History.thy ===== *)
theory Journal_History
  imports Journal_Atomic
begin

text \<open>
  The life of an admitted command. Any sequence of operations of the journal, each with any
  faults, keeps the evidence of a command (its request, its payload and its inputs), moves its
  status only along the transitions of the source, never replaces a receipt and never leaves a
  final state.
\<close>

section \<open>What an operation touches inside a command\<close>

definition touches :: "string \<Rightarrow> string set \<Rightarrow> entries \<Rightarrow> entries \<Rightarrow> bool" where
  "touches c F es0 es \<longleftrightarrow> only_at c es0 es \<and> (\<forall>f. f \<notin> F \<longrightarrow> entry_at [c] f es = entry_at [c] f es0)"

lemma touches_refl [simp]: "touches c F es es"
  by (simp add: touches_def)

lemma touches_mono: "touches c F es0 es \<Longrightarrow> F \<subseteq> G \<Longrightarrow> touches c G es0 es"
  by (auto simp: touches_def)

lemma touches_trans: "touches c F es0 es1 \<Longrightarrow> touches c F es1 es2 \<Longrightarrow> touches c F es0 es2"
  by (simp add: touches_def only_at_def)

lemma entry_at_update:
  "entry_at p f (update_dir p g es) = (case dir_at p es of None \<Rightarrow> None | Some ds \<Rightarrow> bt_get (g ds) f)"
  by (simp add: entry_at_def dir_at_update split: option.split)

lemma touches_update:
  assumes "touches c F es0 es" "\<And>ds f. f \<notin> F \<Longrightarrow> bt_get (g ds) f = bt_get ds f"
  shows "touches c F es0 (update_dir [c] g es)"
proof -
  have "entry_at [c] f (update_dir [c] g es) = entry_at [c] f es" if "f \<notin> F" for f
    unfolding entry_at_update using assms(2) [OF that] by (simp add: entry_at_def split: option.split)
  then show ?thesis using assms(1) only_at_update [of c es0 es] unfolding touches_def by metis
qed

lemma touches_update_below:
  assumes "touches c F es0 es" "d \<in> F"
  shows "touches c F es0 (update_dir [c, d] g es)"
proof -
  have "update_dir [c, d] g es = update_dir [c] (update_dir [d] g) es" by (simp split: option.split jnode.split)
  moreover have "bt_get (update_dir [d] g ds) f = bt_get ds f" if "f \<notin> F" for ds f
    unfolding bt_get_update_dir using that assms(2) by auto
  ultimately show ?thesis using touches_update [OF assms(1)] by metis
qed

lemma touches_calls [keeps_rules]:
  "name \<in> F \<Longrightarrow> keeps (touches c F es0) (sys_create_dir [c] name)"
  "name \<in> F \<Longrightarrow> keeps (touches c F es0) (sys_create_file [c] name)"
  "name \<in> F \<Longrightarrow> keeps (touches c F es0) (sys_write [c] name bytes)"
  "name \<in> F \<Longrightarrow> keeps (touches c F es0) (sys_open_lock [c] name)"
  "a \<in> F \<Longrightarrow> b \<in> F \<Longrightarrow> keeps (touches c F es0) (sys_rename [c] a b)"
  "d \<in> F \<Longrightarrow> keeps (touches c F es0) (sys_create_file [c, d] name)"
  "d \<in> F \<Longrightarrow> keeps (touches c F es0) (sys_write [c, d] name bytes)"
  unfolding sys_create_dir_def sys_create_file_def sys_write_def sys_open_lock_def sys_rename_def
  by (rule keeps_syscall;
      auto simp: no_effect_def bt_get_remove bt_get_insert simp del: update_dir.simps dir_at.simps
        split: option.split jnode.split prod.split intro!: touches_update touches_update_below)+

lemma touches_writes [keeps_rules]:
  "name \<in> F \<Longrightarrow> keeps (touches c F es0) (write_new_bytes [c] name bytes)"
  "name \<in> F \<Longrightarrow> keeps (touches c F es0) (write_new_json J [c] name v)"
  "d \<in> F \<Longrightarrow> keeps (touches c F es0) (write_new_bytes [c, d] name bytes)"
  "d \<in> F \<Longrightarrow> keeps (touches c F es0) (write_new_json J [c, d] name v)"
  unfolding write_new_bytes_def write_new_json_def by (intro keeps_rules | assumption)+

lemma directory_of_command: "command_directory c w = (Inr d, w') \<Longrightarrow> d = c \<and> w' = w"
  by (auto simp: command_directory_def jpure_def)

lemma jpure_run: "jpure q w = (r, w') \<longleftrightarrow> q = r \<and> w' = w"
  by (auto simp: jpure_def)

text \<open>The three steps that follow a command's directory name.\<close>

lemma keeps_in_directory:
  assumes "keeps P (f c)"
  shows "keeps P (jbind (command_directory c) f)"
  unfolding keeps_def
proof (intro allI impI)
  fix w :: jworld assume P: "P (jw_entries w)"
  obtain res w' where run: "jbind (command_directory c) f w = (res, w')" by fastforce
  then have "P (jw_entries w')"
  proof (cases rule: jbind_cases)
    case (runs d w1)
    then show ?thesis using directory_of_command keepsD [OF assms P] by blast
  qed (use P in \<open>simp add: command_directory_def jpure_run\<close>)
  then show "P (jw_entries (snd (jbind (command_directory c) f w)))" by (simp add: run)
qed

lemma touches_lock: "''status.lock'' \<in> F \<Longrightarrow> keeps (touches c F es0) (lock_status J c)"
  unfolding lock_status_def by (intro keeps_in_directory keeps_rules) simp

lemma touches_operation: "keeps (touches c {''operations''} es0) (write_operation_once J c operation v)"
  unfolding write_operation_once_def ensure_private_directory_def Let_def
  by (intro keeps_rules(3) keeps_bind [OF keeps_return(3)] keeps_in_directory keeps_rules; simp)

section \<open>Transitions\<close>

lemma load_found:
  assumes "load J c w = (Inr (r, s), w')"
  shows "\<exists>b. entry_at [c] ''status.json'' (jw_entries w) = Some (JFile b) \<and> je_parse_status J b = Inr s"
  using assms unfolding load_def
proof (elim jbind_cases)
  fix d w1 u w2 q w3 t w4 u2 w5
  assume run: "command_directory c w = (Inr d, w1)" "require_real_directory J [] d w1 = (Inr u, w2)"
    "read_json J (je_parse_record J) [d] ''request.json'' w2 = (Inr q, w3)"
    "read_json J (je_parse_status J) [d] ''status.json'' w3 = (Inr t, w4)"
    "jpure (validate_loaded q t c) w4 = (Inr u2, w5)" "jreturn (q, t) w5 = (Inr (r, s), w')"
  have "t = s" "d = c" using run(1,6) directory_of_command by (auto simp: jreturn_def)
  moreover have "jw_entries w3 = jw_entries w"
    using run(1-3) directory_of_command keeps_same [OF keeps_helpers(1)] keeps_same [OF keeps_helpers(2)] by metis
  ultimately show ?thesis
    using run(4) unfolding read_json_def by (auto elim!: jbind_cases simp: jpure_run dest!: read_bounded_found)
qed auto

text \<open>The decision of \<open>transition\<close>: a status is written only for a move of the state machine out
  of a state that is not final, and it keeps the receipt there was.\<close>

lemma next_status_written:
  assumes "next_status current c next receipt rejection now = Inr (Some status)"
  shows "st_state status = next" "may_transition_to (st_state current) next" "\<not> terminal (st_state current)"
    "st_result status = (case st_result current of Some x \<Rightarrow> Some x | None \<Rightarrow> receipt)"
proof -
  from assms have s: "st_state status = next" "may_transition_to (st_state current) next" "st_state current \<noteq> next"
      "st_result status = (case st_result current of Some x \<Rightarrow> Some x | None \<Rightarrow> receipt)"
    by (auto simp: next_status_def Let_def split: if_splits)
  then show "st_state status = next" "may_transition_to (st_state current) next" "\<not> terminal (st_state current)"
    "st_result status = (case st_result current of Some x \<Rightarrow> Some x | None \<Rightarrow> receipt)"
    by (auto simp: may_transition_to_def terminal_def)
qed

definition status_written ::
  "journal_env \<Rightarrow> string \<Rightarrow> command_status \<Rightarrow> entries \<Rightarrow> bool" where
  "status_written J c status es \<longleftrightarrow> (\<exists>b. canonical_to_vec (je_externals J) (command_status_json status) = Inr b
     \<and> entry_at [c] ''status.json'' es = Some (JFile b))"

lemma rename_status:
  assumes "sys_rename [c] temporary ''status.json'' w = (Inr u, w')" "temporary \<noteq> ''status.json''"
    "entry_at [c] temporary (jw_entries w) = Some (JFile b)"
  shows "entry_at [c] ''status.json'' (jw_entries w') = Some (JFile b)"
proof -
  from assms(3) obtain ds where "dir_at [c] (jw_entries w) = Some ds" by (auto simp: entry_at_def split: option.splits)
  with rename_done [OF assms(1)] assms(3) show ?thesis
    by (auto simp: entry_at_update bt_get_insert simp del: update_dir.simps dir_at.simps)
qed

lemma written_temporary:
  assumes "write_new_json J [c] temporary v w = (Inr u, w')" "dir_at [c] (jw_entries w) \<noteq> None"
  shows "\<exists>b. canonical_to_vec (je_externals J) v = Inr b \<and> entry_at [c] temporary (jw_entries w') = Some (JFile b)"
proof -
  from assms(2) obtain ds where "holds_dir [c] (bt_get ds) (jw_entries w)" by (auto simp: holds_dir_def)
  from ensuresD [OF ensures_write_new_json this assms(1)] show ?thesis
    by (auto simp: holds_dir_def entry_at_def)
qed

lemma replace_status:
  assumes "write_replace_json J temporary c ''status.json'' (command_status_json status) w = (res, w')"
    "temporary \<noteq> ''status.json''" "dir_at [c] (jw_entries w) \<noteq> None"
  shows "touches c {temporary, ''status.json''} (jw_entries w) (jw_entries w')
    \<and> (entry_at [c] ''status.json'' (jw_entries w') = entry_at [c] ''status.json'' (jw_entries w) \<and> (\<exists>e. res = Inl e)
       \<or> status_written J c status (jw_entries w'))"
proof -
  have fr: "keeps (touches c {temporary, ''status.json''} (jw_entries w))
      (write_replace_json J temporary c ''status.json'' (command_status_json status))"
    unfolding write_replace_json_def by (intro keeps_rules; simp)
  have tmp: "touches c {temporary} (jw_entries v) (jw_entries v')"
    if "write_new_json J [c] temporary (command_status_json status) v = (q, v')" for v v' :: jworld and q
    by (rule keepsD [OF touches_writes(2) _ that]) simp_all
  let ?check = "jmatch (sys_stat [c] ''status.json'')
         (\<lambda>node. jguard (is_regular_file node) (JInvalid ''journal status target is unsafe''))
         (\<lambda>e. if e = JIo NotFound then jreturn () else jfail e)"
  have chk: "jw_entries v' = jw_entries v" if "?check v = (q, v')" for v v' :: jworld and q
    by (rule keeps_same [where m = ?check]) (intro keeps_rules, rule that)
  have "entry_at [c] ''status.json'' (jw_entries w') = entry_at [c] ''status.json'' (jw_entries w) \<and> (\<exists>e. res = Inl e)
       \<or> status_written J c status (jw_entries w')"
    using assms(1) unfolding write_replace_json_def
  proof (elim jbind_cases)
    fix u1 w1 u2 w2 u3 w3 u4 w4
    assume run: "require_real_directory J [] c w = (Inr u1, w1)" "?check w1 = (Inr u2, w2)"
      "write_new_json J [c] temporary (command_status_json status) w2 = (Inr u3, w3)"
      "sys_rename [c] temporary ''status.json'' w3 = (Inr u4, w4)" "sync_directory w4 = (res, w')"
    have "jw_entries w2 = jw_entries w" using keeps_same [OF keeps_helpers(2) run(1)] chk [OF run(2)] by simp
    with written_temporary [OF run(3)] assms(3) obtain b where
      "canonical_to_vec (je_externals J) (command_status_json status) = Inr b" "entry_at [c] temporary (jw_entries w3) = Some (JFile b)"
      by auto
    then show ?thesis
      using rename_status [OF run(4) assms(2)] keeps_same [OF keeps_helpers(6) run(5)] by (simp add: status_written_def)
  next
    fix u1 w1 u2 w2 u3 w3 e
    assume run: "require_real_directory J [] c w = (Inr u1, w1)" "?check w1 = (Inr u2, w2)"
      "write_new_json J [c] temporary (command_status_json status) w2 = (Inr u3, w3)"
      "sys_rename [c] temporary ''status.json'' w3 = (Inl e, w')" "res = Inl e"
    then show ?thesis using keeps_same [OF keeps_helpers(2) run(1)] chk [OF run(2)] tmp [OF run(3)] rename_failed [OF run(4)] assms(2)
      by (simp add: touches_def)
  next
    fix u1 w1 u2 w2 e
    assume run: "require_real_directory J [] c w = (Inr u1, w1)" "?check w1 = (Inr u2, w2)"
      "write_new_json J [c] temporary (command_status_json status) w2 = (Inl e, w')" "res = Inl e"
    then show ?thesis using keeps_same [OF keeps_helpers(2) run(1)] chk [OF run(2)] tmp [OF run(3)] assms(2)
      by (simp add: touches_def)
  next
    fix u1 w1 e
    assume run: "require_real_directory J [] c w = (Inr u1, w1)" "?check w1 = (Inl e, w')" "res = Inl e"
    then show ?thesis using keeps_same [OF keeps_helpers(2) run(1)] chk [OF run(2)] by simp
  next
    fix e assume "require_real_directory J [] c w = (Inl e, w')" "res = Inl e"
    then show ?thesis by (auto dest!: keeps_same [OF keeps_helpers(2)])
  qed
  then show ?thesis using keepsD [OF fr _ assms(1)] by simp
qed

lemma status_tail:
  assumes "jbind (command_directory c) (\<lambda>name. jbind (write_replace_json J temporary name ''status.json''
      (command_status_json status)) (\<lambda>_. jreturn status)) w = (res, w')"
    "temporary \<noteq> ''status.json''" "entry_at [c] ''status.json'' es = Some x" "es = jw_entries w"
  shows "touches c {temporary, ''status.json''} (jw_entries w) (jw_entries w')
    \<and> (entry_at [c] ''status.json'' (jw_entries w') = entry_at [c] ''status.json'' (jw_entries w)
       \<or> status_written J c status (jw_entries w'))"
proof -
  have dir: "dir_at [c] (jw_entries w) \<noteq> None" using assms(3,4) by (auto simp: entry_at_def split: option.splits)
  from assms(1) show ?thesis
  proof (elim jbind_cases)
    fix d w1 u w2
    assume run: "command_directory c w = (Inr d, w1)"
      "write_replace_json J temporary d ''status.json'' (command_status_json status) w1 = (Inr u, w2)" "jreturn status w2 = (res, w')"
    then show ?thesis using replace_status [of J temporary c status w "Inr u" w2] assms(2) dir
      by (auto simp: jreturn_def dest!: directory_of_command)
  next
    fix d w1 e
    assume run: "command_directory c w = (Inr d, w1)"
      "write_replace_json J temporary d ''status.json'' (command_status_json status) w1 = (Inl e, w')"
    then show ?thesis using replace_status [of J temporary c status w "Inl e" w'] assms(2) dir
      by (auto dest!: directory_of_command)
  qed (auto simp: command_directory_def jpure_run)
qed

text \<open>One transition: the status is as it was, or the one the decision gave.\<close>

lemma transition_outcome:
  assumes "transition J temporary now c next receipt rejection w = (res, w')"
  shows "touches c {''status.lock'', ''.status-'' @ temporary @ ''.tmp'', ''status.json''} (jw_entries w) (jw_entries w')
    \<and> (entry_at [c] ''status.json'' (jw_entries w') = entry_at [c] ''status.json'' (jw_entries w)
       \<or> (\<exists>b current status. entry_at [c] ''status.json'' (jw_entries w) = Some (JFile b) \<and> je_parse_status J b = Inr current
            \<and> next_status current c next receipt rejection now = Inr (Some status)
            \<and> status_written J c status (jw_entries w')))"
  (is "?fr \<and> ?st")
proof -
  let ?tmp = "''.status-'' @ temporary @ ''.tmp''"
  have ne: "?tmp \<noteq> ''status.json''" by simp
  have lock: "touches c {''status.lock''} (jw_entries w) (jw_entries v)" if "lock_status J c w = (q, v)" for v :: jworld and q
    by (rule keepsD [OF touches_lock _ that]) simp_all
  from assms show ?thesis unfolding transition_def
  proof (elim jbind_cases)
    fix u1 w1 loaded w2
    assume run: "lock_status J c w = (Inr u1, w1)" "load J c w1 = (Inr loaded, w2)"
    obtain r current where loaded: "loaded = (r, current)" by fastforce
    have same: "jw_entries w2 = jw_entries w1" by (rule keeps_same [OF keeps_load run(2)])
    obtain b where b: "entry_at [c] ''status.json'' (jw_entries w1) = Some (JFile b)" "je_parse_status J b = Inr current"
      using load_found run(2) loaded by blast
    assume "(case loaded of (r, current) \<Rightarrow> jbind (jpure (next_status current c next receipt rejection now)) (\<lambda>decision.
       case decision of
         None \<Rightarrow> jreturn current
       | Some status \<Rightarrow>
           jbind (command_directory c) (\<lambda>name.
           jbind (write_replace_json J (''.status-'' @ temporary @ ''.tmp'') name ''status.json''
             (command_status_json status)) (\<lambda>_. jreturn status)))) w2 = (res, w')"
    then show ?thesis unfolding loaded prod.case
    proof (elim jbind_cases)
      fix decision w3
      assume dec: "jpure (next_status current c next receipt rejection now) w2 = (Inr decision, w3)"
        and "(case decision of None \<Rightarrow> jreturn current
         | Some status \<Rightarrow> jbind (command_directory c) (\<lambda>name.
             jbind (write_replace_json J (''.status-'' @ temporary @ ''.tmp'') name ''status.json''
               (command_status_json status)) (\<lambda>_. jreturn status))) w3 = (res, w')"
      then show ?thesis
      proof (cases decision)
        case None
        with \<open>(case decision of None \<Rightarrow> _ | Some status \<Rightarrow> _) w3 = (res, w')\<close> dec have "jw_entries w' = jw_entries w1"
          by (simp add: jpure_run jreturn_def same)
        then show ?thesis using lock [OF run(1)] by (auto simp: touches_def)
      next
        case (Some status)
        with \<open>(case decision of None \<Rightarrow> _ | Some status \<Rightarrow> _) w3 = (res, w')\<close>
        have "jbind (command_directory c) (\<lambda>name. jbind (write_replace_json J ?tmp name ''status.json''
            (command_status_json status)) (\<lambda>_. jreturn status)) w3 = (res, w')" by simp
        from status_tail [OF this ne b(1)] dec same Some show ?thesis
          using lock [OF run(1)] b by (auto simp: jpure_run touches_def only_at_def)
      qed
    qed (use lock [OF run(1)] same in \<open>auto simp: jpure_run touches_def\<close>)
  qed (use lock in \<open>auto simp: touches_def dest!: keeps_same [OF keeps_load]\<close>)
qed

section \<open>Histories\<close>

text \<open>
  One operation of the journal, with any outcome: an admission, a transition with a receipt of
  \<open>V\<close>, the record of an operation's result. The operations that read change nothing.
\<close>

inductive command_step :: "journal_env \<Rightarrow> json set \<Rightarrow> entries \<Rightarrow> entries \<Rightarrow> bool" for J V where
  admitted: "admit_with_files J uuid now later m payload files w = (res, w') \<Longrightarrow> command_step J V (jw_entries w) (jw_entries w')"
| moved: "transition J temporary now c next receipt rejection w = (res', w') \<Longrightarrow> set_option receipt \<subseteq> V
    \<Longrightarrow> command_step J V (jw_entries w) (jw_entries w')"
| recorded: "write_operation_once J c operation v w = (res'', w') \<Longrightarrow> command_step J V (jw_entries w) (jw_entries w')"

inductive_cases command_step_cases: "command_step J V es es'"

text \<open>The parser reads back the canonical form of a status whose receipt is a value it can build.\<close>

definition reads_back :: "journal_env \<Rightarrow> json set \<Rightarrow> bool" where
  "reads_back J V \<longleftrightarrow> (\<forall>s b. set_option (st_result s) \<subseteq> V
     \<longrightarrow> canonical_to_vec (je_externals J) (command_status_json s) = Inr b \<longrightarrow> je_parse_status J b = Inr s)"

definition status_of :: "journal_env \<Rightarrow> string \<Rightarrow> entries \<Rightarrow> command_status option" where
  "status_of J c es = (case entry_at [c] ''status.json'' es of
     Some (JFile b) \<Rightarrow> (case je_parse_status J b of Inr s \<Rightarrow> Some s | Inl e \<Rightarrow> None) | _ \<Rightarrow> None)"

definition evidence :: "string set" where
  "evidence = {''request.json'', ''payload.json'', ''inputs''}"

text \<open>What the life of a command keeps.\<close>

definition carried_on :: "command_status \<Rightarrow> command_status \<Rightarrow> bool" where
  "carried_on s t \<longleftrightarrow> may_transition_to\<^sup>*\<^sup>* (st_state s) (st_state t)
     \<and> (\<forall>x. st_result s = Some x \<longrightarrow> st_result t = Some x) \<and> (terminal (st_state s) \<longrightarrow> t = s)"

lemma terminal_absorbing: "may_transition_to\<^sup>*\<^sup>* a b \<Longrightarrow> terminal a \<Longrightarrow> b = a"
  by (induction rule: rtranclp_induct) (auto simp: may_transition_to_def terminal_def split: local_state.splits)

lemma carried_on_refl: "carried_on s s"
  by (simp add: carried_on_def)

lemma carried_on_trans: "carried_on r s \<Longrightarrow> carried_on s t \<Longrightarrow> carried_on r t"
  unfolding carried_on_def by (metis rtranclp_trans)

definition command_kept :: "string \<Rightarrow> entries \<Rightarrow> entries \<Rightarrow> bool" where
  "command_kept c es es' \<longleftrightarrow> (\<forall>f \<in> evidence. entry_at [c] f es' = entry_at [c] f es)"

lemma same_entry: "bt_get es' c = bt_get es c \<Longrightarrow> entry_at [c] f es' = entry_at [c] f es"
  by (simp add: entry_at_def)

lemma step_keeps_others:
  assumes "bt_get es' c = bt_get es c"
  shows "command_kept c es es'" "status_of J c es' = status_of J c es"
  using same_entry [OF assms] by (simp_all add: command_kept_def status_of_def)

lemma status_written_reads: "reads_back J V \<Longrightarrow> set_option (st_result s) \<subseteq> V \<Longrightarrow> status_written J c s es \<Longrightarrow> status_of J c es = Some s"
  by (auto simp: reads_back_def status_written_def status_of_def)

lemma status_of_present: "status_of J c es = Some s \<Longrightarrow> bt_get es c \<noteq> None"
  by (auto simp: status_of_def entry_at_def split: option.splits)

definition carries :: "journal_env \<Rightarrow> json set \<Rightarrow> string \<Rightarrow> command_status \<Rightarrow> entries \<Rightarrow> entries \<Rightarrow> bool" where
  "carries J V c s es es' \<longleftrightarrow> command_kept c es es'
     \<and> (\<exists>t. status_of J c es' = Some t \<and> carried_on s t \<and> set_option (st_result t) \<subseteq> V)"

lemma admitted_carries:
  assumes "admit_with_files J uuid now later m payload files w = (res, w')" "\<not> starts_with ''.staging-'' c"
    "status_of J c (jw_entries w) = Some s" "set_option (st_result s) \<subseteq> V"
  shows "carries J V c s (jw_entries w) (jw_entries w')"
  using step_keeps_others [OF admission_keeps_entries [OF assms(1,2) status_of_present [OF assms(3)]]] assms(3,4) carried_on_refl
  by (auto simp: carries_def)

lemma recorded_carries:
  assumes "write_operation_once J d operation v w = (res, w')" 
    "status_of J c (jw_entries w) = Some s" "set_option (st_result s) \<subseteq> V"
  shows "carries J V c s (jw_entries w) (jw_entries w')"
proof -
  have t: "touches d {''operations''} (jw_entries w) (jw_entries w')" by (rule keepsD [OF touches_operation _ assms(1)]) simp
  then have "entry_at [c] f (jw_entries w') = entry_at [c] f (jw_entries w)" if "f \<noteq> ''operations''" for f
    using that same_entry [of "jw_entries w'" c "jw_entries w" f] by (cases "c = d") (simp_all add: touches_def only_at_def)
  then show ?thesis using assms(2,3)
    by (auto simp: carries_def command_kept_def evidence_def status_of_def carried_on_refl)
qed

lemma moved_carries:
  assumes "transition J temporary now d next receipt rejection w = (res, w')" "reads_back J V" "set_option receipt \<subseteq> V"
    "status_of J c (jw_entries w) = Some s" "set_option (st_result s) \<subseteq> V"
  shows "carries J V c s (jw_entries w) (jw_entries w')"
proof (cases "c = d")
  case False
  then have "bt_get (jw_entries w') c = bt_get (jw_entries w) c"
    using transition_outcome [OF assms(1)] by (simp add: touches_def only_at_def)
  from step_keeps_others [OF this] show ?thesis using assms(4,5) carried_on_refl by (auto simp: carries_def)
next
  case True
  note out = transition_outcome [OF assms(1)]
  then have kept: "command_kept c (jw_entries w) (jw_entries w')"
    using True by (auto simp: command_kept_def evidence_def touches_def)
  from out have "entry_at [d] ''status.json'' (jw_entries w') = entry_at [d] ''status.json'' (jw_entries w)
     \<or> (\<exists>status. next_status s d next receipt rejection now = Inr (Some status) \<and> status_written J d status (jw_entries w'))"
    using assms(4) True by (auto simp: status_of_def)
  then show ?thesis
  proof
    assume "entry_at [d] ''status.json'' (jw_entries w') = entry_at [d] ''status.json'' (jw_entries w)"
    then show ?thesis using assms(4,5) kept True carried_on_refl by (auto simp: carries_def status_of_def)
  next
    assume "\<exists>status. next_status s d next receipt rejection now = Inr (Some status) \<and> status_written J d status (jw_entries w')"
    then obtain t where t: "next_status s d next receipt rejection now = Inr (Some t)" "status_written J d t (jw_entries w')" by blast
    note moves = next_status_written [OF t(1)]
    then have V: "set_option (st_result t) \<subseteq> V" using assms(3,5) by (cases "st_result s") auto
    have "carried_on s t" using moves by (auto simp: carried_on_def)
    then show ?thesis using status_written_reads [OF assms(2) V t(2)] V kept True by (auto simp: carries_def)
  qed
qed

lemma step_carries:
  assumes "command_step J V es es'" "reads_back J V" "\<not> starts_with ''.staging-'' c" "status_of J c es = Some s"
    "set_option (st_result s) \<subseteq> V"
  shows "carries J V c s es es'"
  using assms(1)
  by (cases rule: command_step.cases)
    (use assms(2-5) in \<open>auto intro: admitted_carries moved_carries recorded_carries\<close>)

lemma carries_trans: "carries J V c s es es1 \<Longrightarrow> status_of J c es1 = Some t \<Longrightarrow> carries J V c t es1 es2 \<Longrightarrow> carries J V c s es es2"
  by (auto simp: carries_def command_kept_def intro: carried_on_trans)

text \<open>
  The result of an operation has no such protection: its file is written in place, so a fault
  during the write leaves part of it, and from then on every attempt fails.
\<close>

definition torn :: "journal_env \<Rightarrow> string \<Rightarrow> string \<Rightarrow> entries \<Rightarrow> bool" where
  "torn J c file es \<longleftrightarrow> (\<exists>b e. entry_at [c, ''operations''] file es = Some (JFile b) \<and> je_parse_value J b = Inl e)"

lemma torn_directory: "torn J c file es \<Longrightarrow> \<exists>ds. entry_at [c] ''operations'' es = Some (JDir ds) \<and> dir_at [c, ''operations''] es = Some ds"
  by (auto simp: torn_def entry_at_def split: option.splits jnode.splits)

lemma ensures_refused:
  assumes "ensures P m (\<lambda>_ _. False)" "keeps P m" "\<And>e. ensures P (g e) (\<lambda>_ _. False)"
  shows "ensures P (jmatch m f g) (\<lambda>_ _. False)"
  unfolding ensures_def
proof (intro allI impI)
  fix w w' x assume P: "P (jw_entries w)" and "jmatch m f g w = (Inr x, w')"
  from this(2) show False
    by (cases rule: jmatch_cases) (use P assms keepsD [OF assms(2) P] in \<open>auto simp: ensures_def\<close>)
qed

lemma torn_read: "ensures (torn J c file) (read_json J (je_parse_value J) [c, ''operations''] file) (\<lambda>_ _. False)"
  unfolding ensures_def read_json_def
  by (auto elim!: jbind_cases simp: jpure_run torn_def dest!: read_bounded_found)

lemma torn_create: "ensures (torn J c file) (sys_create_file [c, ''operations''] file) (\<lambda>_ _. False)"
  "keeps (torn J c file) (sys_create_file [c, ''operations''] file)"
  unfolding sys_create_file_def
  by ((rule ensures_syscall | rule keeps_syscall);
      auto simp: no_effect_def torn_def simp del: update_dir.simps dir_at.simps split: option.splits)+

lemma torn_directory_kept: "keeps (torn J c file) (sys_create_dir [c] ''operations'')"
  unfolding sys_create_dir_def
  by (rule keeps_syscall)
    (auto simp: no_effect_def simp del: update_dir.simps dir_at.simps split: option.splits dest: torn_directory)

lemma ensures_failed: "ensures P (jfail e) Q"
  by (simp add: ensures_def jfail_def)

lemma ensures_never: "ensures P m (\<lambda>_ _. False) \<Longrightarrow> ensures P (jbind m f) Q"
  by (rule ensures_bind) (auto simp: ensures_def)

lemma keeps_never: "ensures P m (\<lambda>_ _. False) \<Longrightarrow> keeps P m \<Longrightarrow> keeps P (jbind m f)"
  by (auto simp: keeps_def ensures_def jbind_def split: prod.split sum.split)

lemma ensures_in_directory: "ensures P (f c) Q \<Longrightarrow> ensures P (jbind (command_directory c) f) Q"
  by (auto simp: ensures_def elim!: jbind_cases dest!: directory_of_command)

lemma torn_operation_refused:
  "ensures (torn J c (operation @ ''.json'')) (write_operation_once J c operation v) (\<lambda>_ _. False)"
proof -
  let ?P = "torn J c (operation @ ''.json'')" and ?dir = "[c, ''operations'']" and ?file = "operation @ ''.json''"
  have w: "ensures ?P (write_new_json J ?dir ?file v) (\<lambda>_ _. False)" "keeps ?P (write_new_json J ?dir ?file v)"
    unfolding write_new_json_def write_new_bytes_def
    by (intro ensures_bind [OF ensures_keeps] keeps_rules ensures_never torn_create keeps_bind keeps_never)+
  have mk: "keeps ?P (ensure_private_directory J [c] ''operations'')"
    unfolding ensure_private_directory_def by (intro keeps_rules torn_directory_kept)
  show ?thesis
    unfolding write_operation_once_def Let_def
    by (rule ensures_bind [OF ensures_keeps [OF keeps_return(3)]], rule ensures_in_directory,
        rule ensures_bind [OF ensures_keeps [OF keeps_helpers(2)]], rule ensures_bind [OF ensures_keeps [OF mk]],
        rule ensures_refused [OF w])
      (simp add: ensures_never [OF torn_read] ensures_failed)
qed

text \<open>C23: Through every sequence of admissions, transitions and recorded operations, with any
  faults in any of them, a command of the journal keeps its request, its payload and its inputs;
  its status can be read at every moment, has moved only along the transitions of the state
  machine, still has the receipt it had, and is unchanged once its state is final.\<close>

theorem journal_history:
  assumes "(command_step J V)\<^sup>*\<^sup>* es es'" "reads_back J V" "\<not> starts_with ''.staging-'' c" "status_of J c es = Some s"
    "set_option (st_result s) \<subseteq> V"
  shows "command_kept c es es' \<and> (\<exists>t. status_of J c es' = Some t \<and> carried_on s t)"
proof -
  from assms(1) have "carries J V c s es es'"
  proof (induction rule: rtranclp_induct)
    case base
    show ?case using assms(4,5) by (auto simp: carries_def command_kept_def carried_on_refl)
  next
    case (step y z)
    then obtain t where t: "status_of J c y = Some t" "set_option (st_result t) \<subseteq> V" by (auto simp: carries_def)
    show ?case by (rule carries_trans [OF step.IH t(1) step_carries [OF step.hyps(2) assms(2,3) t]])
  qed
  then show ?thesis by (auto simp: carries_def)
qed

end
