(* ===== verification/Document_Witnesses.thy ===== *)
theory Document_Witnesses
  imports Witnesses Source_Tree_Files Fascia_Tree Public_Checkpoint Contract_Release Journal_History
begin

text \<open>
  The properties of the documents and of the command journal at concrete inputs: two
  directories with the same files, a registered checkpoint, an approved activation, and
  admissions with and without a fault.
\<close>

section \<open>Trees\<close>

definition sample_metadata :: "file_kind \<Rightarrow> nat \<Rightarrow> metadata" where
  "sample_metadata kind len = \<lparr>md_kind = kind, md_dev = 1, md_ino = 2, md_len = of_nat len, md_mtime = 0, md_mtime_nsec = 0,
     md_ctime = 0, md_ctime_nsec = 0\<rparr>"

definition sample_file :: "byte list \<Rightarrow> fs_node" where
  "sample_file bytes =
     (let md = sample_metadata KindFile (length bytes) in
      FsNode (Inr md) \<lparr>fr_open = None, fr_opened = Inr md, fr_bytes = Inr bytes, fr_final = Inr md\<rparr> None NoItem)"

definition sample_directory :: "fs_items \<Rightarrow> fs_node" where
  "sample_directory items =
     FsNode (Inr (sample_metadata KindDirectory 0))
       \<lparr>fr_open = Some ''is a directory'', fr_opened = Inl [], fr_bytes = Inl [], fr_final = Inl []\<rparr> None items"

definition sample_tree :: fs_node where
  "sample_tree = sample_directory (Item (Utf8Name ''a'') (sample_file [5])
     (Item (Utf8Name ''b'') (sample_file [6]) NoItem))"

text \<open>The same files, listed in the other order.\<close>

definition sample_mirror :: fs_node where
  "sample_mirror = sample_directory (Item (Utf8Name ''b'') (sample_file [6])
     (Item (Utf8Name ''a'') (sample_file [5]) NoItem))"

definition sample_nfc :: "string \<Rightarrow> string" where
  "sample_nfc s = s"

definition sample_entries :: "source_tree_entry list" where
  "sample_entries = [\<lparr>te_path = ''a'', te_content_sha256 = 6\<rparr>, \<lparr>te_path = ''b'', te_content_sha256 = 7\<rparr>]"

lemma sample_paths: "validate_normalized_path sample_nfc ''a'' = Inr ()" "validate_normalized_path sample_nfc ''b'' = Inr ()"
  "validate_path sample_nfc ''a'' = Inr ()" "validate_path sample_nfc ''b'' = Inr ()"
  by code_simp+

lemma sample_walks:
  "tree_root ''/x'' sample_tree = Inr ()" "tree_root ''/y'' sample_mirror = Inr ()"
  "walk sample_externals sample_nfc ''/x'' [] sample_tree = Inr sample_entries"
  "walk sample_externals sample_nfc ''/y'' [] sample_mirror = Inr (rev sample_entries)"
  "sort_key te_path sample_entries = sample_entries" "sort_key te_path (rev sample_entries) = sample_entries"
  "duplicate_loop [] [] (map te_path sample_entries) = Inr ()" "case_folded_loop [] (map te_path sample_entries) = Inr ()"
  by code_simp+

lemma sample_tree_hashes:
  "\<exists>c. hash_source_tree sample_externals sample_nfc ''/x'' sample_tree = Inr c
     \<and> hash_source_tree sample_externals sample_nfc ''/y'' sample_mirror = Inr c"
proof -
  have "u64_try_from (length sample_entries) = Some 2" by (simp add: u64_try_from_def sample_entries_def)
  moreover have "\<exists>s. entries_stream sample_nfc None sample_entries = Inr s"
    by (simp add: sample_entries_def sample_paths u32_try_from_def)
  ultimately show ?thesis by (auto simp: hash_source_tree_def hash_entries_def sample_walks Let_def)
qed

theorem source_tree_binds_witness:
  "\<exists>c. hash_source_tree sample_externals sample_nfc ''/x'' sample_tree = Inr c
     \<and> hash_source_tree sample_externals sample_nfc ''/y'' sample_mirror = Inr c
     \<and> (set (source_files sample_nfc sample_tree) = set (source_files sample_nfc sample_mirror)
          \<and> (\<forall>(p, b) \<in> set (source_files sample_nfc sample_tree). forbidden_source_reason p = None)
          \<and> distinct (map (to_ascii_lowercase \<circ> fst) (source_files sample_nfc sample_tree))
        \<or> sha_collision sample_externals (tree_stream (tc_entries c)) (tree_stream (tc_entries c))
        \<or> (\<exists>(p, b) \<in> set (source_files sample_nfc sample_tree). \<exists>(q, b') \<in> set (source_files sample_nfc sample_mirror).
             q = p \<and> sha_collision sample_externals b b'))"
proof -
  obtain c where c: "hash_source_tree sample_externals sample_nfc ''/x'' sample_tree = Inr c"
      "hash_source_tree sample_externals sample_nfc ''/y'' sample_mirror = Inr c"
    using sample_tree_hashes by blast
  from source_tree_binds [OF c refl] c show ?thesis by blast
qed

definition sample_inputs :: "fascia_input_entry list" where
  "sample_inputs = [\<lparr>fi_path = ''a'', fi_content = [5]\<rparr>, \<lparr>fi_path = ''b'', fi_content = [6]\<rparr>]"

lemma sample_fascia_walks:
  "validate_exclusions sample_nfc [''z''] = Inr ()"
  "fascia_root ''/x'' sample_tree = Inr ()" "fascia_root ''/y'' sample_mirror = Inr ()"
  "fascia_walk sample_nfc ''/x'' [''z''] [] sample_tree = Inr sample_inputs"
  "fascia_walk sample_nfc ''/y'' [''z''] [] sample_mirror = Inr (rev sample_inputs)"
  "sort_key fi_path sample_inputs = sample_inputs" "sort_key fi_path (rev sample_inputs) = sample_inputs"
  "validate_unique_paths sample_nfc sample_inputs = Inr ()"
  by code_simp+

lemma sample_fascia_hashes:
  "\<exists>c. hash_fascia_tree_with_exclusions sample_externals sample_nfc ''/x'' sample_tree [''z''] = Inr c
     \<and> hash_fascia_tree_with_exclusions sample_externals sample_nfc ''/y'' sample_mirror [''z''] = Inr c"
proof -
  have "\<exists>s. fascia_stream sample_nfc sample_inputs = Inr s"
    by (simp add: sample_inputs_def sample_paths u64_try_from_def)
  then show ?thesis
    by (auto simp: hash_fascia_tree_with_exclusions_def hash_fascia_entries_def sample_fascia_walks Let_def)
qed

theorem fascia_tree_binds_witness:
  "\<exists>c. hash_fascia_tree_with_exclusions sample_externals sample_nfc ''/x'' sample_tree [''z''] = Inr c
     \<and> hash_fascia_tree_with_exclusions sample_externals sample_nfc ''/y'' sample_mirror [''z''] = Inr c
     \<and> (mset (fascia_files sample_nfc [''z''] sample_tree) = mset (fascia_files sample_nfc [''z''] sample_mirror)
          \<and> fc_entries c = fc_entries c
        \<or> (\<exists>es fs. mset (map (\<lambda>e. (fi_path e, fi_content e)) es) = mset (fascia_files sample_nfc [''z''] sample_tree)
             \<and> mset (map (\<lambda>e. (fi_path e, fi_content e)) fs) = mset (fascia_files sample_nfc [''z''] sample_mirror)
             \<and> sha_collision sample_externals (concat (map fascia_code es)) (concat (map fascia_code fs))))"
proof -
  obtain c where c: "hash_fascia_tree_with_exclusions sample_externals sample_nfc ''/x'' sample_tree [''z''] = Inr c"
      "hash_fascia_tree_with_exclusions sample_externals sample_nfc ''/y'' sample_mirror [''z''] = Inr c"
    using sample_fascia_hashes by blast
  from fascia_tree_binds [OF c refl] c show ?thesis by blast
qed

section \<open>Checkpoints\<close>

definition sample_checkpoint :: public_checkpoint where
  "sample_checkpoint = \<lparr>cp_protocol = PUBLIC_CHECKPOINT_PROTOCOL, cp_protocol_version = PUBLIC_CHECKPOINT_PROTOCOL_VERSION,
     cp_schema = PUBLIC_CHECKPOINT_SCHEMA, cp_scope = ShotIdentityContinuity,
     cp_witness = \<lparr>pw_contract_generation = PUBLIC_CHECKPOINT_CONTRACT_GENERATION, pw_chain_id = ROBINHOOD_CHAIN_ID, pw_registry = 5\<rparr>,
     cp_shot_id = 1, cp_sequence = 1, cp_previous = None, cp_issued_at = sample_time\<rparr>"

lemma sample_checkpoint_valid: "checkpoint_validate sample_checkpoint = Inr ()"
  by (simp add: checkpoint_validate_def checkpoint_witness_validate_def checkpoint_predecessor_def sample_checkpoint_def
      MAX_SAFE_JSON_INTEGER_def err_if_def address_is_zero_def is_zero_def)

lemma sample_checkpoint_commitment: "checkpoint_commitment sample_externals sample_checkpoint = Inr 2"
  by (simp add: checkpoint_commitment_def sample_checkpoint_valid checkpoint_json_def sha256_commitment_def
      canonical_to_vec_def sha256_def sample_digest_singleton)

lemma sample_checkpoint_segment:
  "\<exists>v. verify_public_checkpoint_segment sample_externals [sample_checkpoint] None = Inr v \<and> vc_complete_from_registration v"
  by (simp add: verify_public_checkpoint_segment_def checkpoint_start_def checkpoint_step_def sample_checkpoint_valid
      sample_checkpoint_commitment) (simp add: sample_checkpoint_def err_if_def checked_add_def)

lemma sample_checkpoint_registered:
  "validate_registry_action sample_externals sample_checkpoint (sample_registration 1) sample_registry = Inr ()"
  by (simp add: validate_registry_action_def sample_checkpoint_valid sample_checkpoint_commitment sample_registration_def
      registry_action_validate_def sample_typed_simps err_if_def address_is_zero_def)
    (simp add: sample_checkpoint_def ROBINHOOD_CHAIN_ID_def)

theorem registered_head_determines_history_witness:
  "\<exists>v. verify_public_checkpoint_segment sample_externals [sample_checkpoint] None = Inr v
     \<and> validate_registry_action sample_externals sample_checkpoint (sample_registration 1) sample_registry = Inr ()
     \<and> ([sample_checkpoint] = [sample_checkpoint] \<and> ra_shot_id (sample_registration 1) = ra_shot_id (sample_registration 1)
          \<and> dom_chain_id sample_registry = dom_chain_id sample_registry
          \<and> dom_verifying_contract sample_registry = dom_verifying_contract sample_registry
        \<or> (\<exists>x \<in> set [sample_checkpoint]. \<exists>y \<in> set [sample_checkpoint].
             commitment_collision sample_externals (checkpoint_json x) (checkpoint_json y)))"
proof -
  obtain v where v: "verify_public_checkpoint_segment sample_externals [sample_checkpoint] None = Inr v"
      "vc_complete_from_registration v"
    using sample_checkpoint_segment by blast
  have r: "validate_registry_action sample_externals (last [sample_checkpoint]) (sample_registration 1) sample_registry = Inr ()"
    using sample_checkpoint_registered by simp
  from registered_head_determines_history [OF v r v r refl] v(1) sample_checkpoint_registered show ?thesis by blast
qed

section \<open>Activations\<close>

definition sample_authority :: "p256_public_key \<Rightarrow> release_authority" where
  "sample_authority key = \<lparr>la_key_id = release_authority_key_id sample_externals key, la_public_key = key\<rparr>"

definition sample_policy :: release_authority_policy where
  "sample_policy = \<lparr>po_schema = RELEASE_AUTHORITY_POLICY_SCHEMA, po_protocol = CONTRACT_ACTIVATION_PROTOCOL,
     po_protocol_major = CONTRACT_GENERATION_PROTOCOL_MAJOR, po_purpose = ContractGenerationActivation, po_threshold = 2,
     po_authorities = [sample_authority sample_key, sample_authority sample_heir_key], po_issued_at = sample_time\<rparr>"

definition sample_contract :: "address20 \<Rightarrow> activated_contract" where
  "sample_contract a = \<lparr>at_address = a, at_runtime_code_keccak256 = 1,
     at_deployment = \<lparr>do_transaction_hash = 1, do_block_number = 1, do_block_hash = 1\<rparr>\<rparr>"

definition sample_activation :: contract_activation where
  "sample_activation = \<lparr>ac_schema = CONTRACT_ACTIVATION_SCHEMA, ac_protocol = CONTRACT_ACTIVATION_PROTOCOL,
     ac_protocol_major = CONTRACT_GENERATION_PROTOCOL_MAJOR, ac_generation = ''0.8.0'', ac_sequence = 1, ac_previous = None,
     ac_generation_definition_sha256 = 1, ac_authority_policy_sha256 = 2, ac_chain_id = 1,
     ac_builder_account_runtime_keccak256 = 1, ac_factory = sample_contract 1, ac_registry = sample_contract 2,
     ac_block = \<lparr>bl_number = 1, bl_hash = 1\<rparr>, ac_p256_probe_sha256 = 1, ac_issued_at = sample_time\<rparr>"

definition sample_signing_digest :: bytes32 where
  "sample_signing_digest = sample_digest (CONTRACT_ACTIVATION_SIGNING_DOMAIN @ [1])"

definition sample_approval :: "p256_public_key \<Rightarrow> release_authority_approval" where
  "sample_approval key = \<lparr>ap_key_id = release_authority_key_id sample_externals key,
     ap_authorization = \<lparr>ds_algorithm = P256, ds_digest = sample_signing_digest,
       ds_signature = \<lparr>sig_r = pk_x key, sig_s = 1\<rparr>, ds_low_s = True\<rparr>\<rparr>"

definition sample_signed_activation :: signed_contract_activation where
  "sample_signed_activation = \<lparr>sa_schema = SIGNED_CONTRACT_ACTIVATION_SCHEMA, sa_activation = sample_activation,
     sa_approvals = [sample_approval sample_key, sample_approval sample_heir_key]\<rparr>"

lemma sample_digest_word:
  assumes "unat (d :: bytes32) < 2 ^ 32"
  shows "sample_digest (to_be_bytes d) = of_nat (unat d + 1)"
proof -
  have "drop (length (to_be_bytes d) - 4) (to_be_bytes d) = be_nat_bytes 4 (unat d)"
    using drop_be_nat_bytes [of 4 32 "unat d"] by (simp add: to_be_bytes_def)
  then show ?thesis using assms unfolding sample_digest_def by (simp only: be_nat_small)
qed

lemma sample_key_ids:
  "release_authority_key_id sample_externals sample_key = 13" "release_authority_key_id sample_externals sample_heir_key = 15"
  using sample_digest_last [of "RELEASE_AUTHORITY_KEY_DOMAIN @ to_be_bytes (11 :: bytes32)" 12]
    sample_digest_last [of "RELEASE_AUTHORITY_KEY_DOMAIN @ to_be_bytes (13 :: bytes32)" 14]
  by (simp_all add: release_authority_key_id_def sha256_def sample_key_def sample_heir_key_def sample_digest_word)

lemma sample_keys_valid:
  "public_key_validate sample_externals sample_key = Inr ()" "public_key_validate sample_externals sample_heir_key = Inr ()"
  by (simp_all add: public_key_validate_def verifying_key_def sample_key_def sample_heir_key_def)

lemma sample_policy_valid: "policy_validate sample_externals sample_policy = Inr ()"
  by (simp add: policy_validate_def sample_policy_def sample_authority_def authority_validate_def sample_key_ids err_if_def
      MAX_RELEASE_AUTHORITIES_def MAX_SAFE_JSON_INTEGER_def is_some_and_def after_epoch_def sample_keys_valid)

lemma sample_policy_digest: "policy_digest sample_externals sample_policy = Inr 2"
  by (simp add: policy_digest_def sample_policy_valid policy_json_def sha256_commitment_def canonical_to_vec_def sha256_def
      sample_digest_singleton)

lemma sample_activation_valid: "activation_validate sample_externals sample_activation = Inr ()"
proof -
  have "dotted_numeric 3 ''0.8.0''" by code_simp
  then show ?thesis
    by (simp add: activation_validate_def sample_activation_def sample_contract_def activated_validate_def deployment_validate_def
        block_number_check_def chain_block_validate_def activation_predecessor_def after_epoch_def err_if_def
        MAX_SAFE_JSON_INTEGER_def address_is_zero_def)
qed

lemma sample_activation_digest: "signing_digest sample_externals sample_activation = Inr sample_signing_digest"
  by (simp add: signing_digest_def sample_activation_valid activation_json_def canonical_to_vec_def sha256_def
      sample_signing_digest_def)

lemma sample_approval_verifies:
  assumes "key = sample_key \<or> key = sample_heir_key"
  shows "detached_verify sample_externals (ap_authorization (sample_approval key)) key = Inr ()"
    "detached_validate sample_externals (ap_authorization (sample_approval key)) = Inr ()"
  using assms
  by (auto simp: detached_verify_def detached_validate_def sample_approval_def verify_digest_def validate_low_s_def
      validate_scalars_def verifying_key_def half_order_large sample_key_def sample_heir_key_def)

lemma sample_activation_verified: "signed_activation_verify sample_externals sample_signed_activation sample_policy = Inr ()"
proof -
  have "approvals_loop sample_externals (authority_map (po_authorities sample_policy)) sample_signing_digest None
      (sa_approvals sample_signed_activation) = Inr ()"
    using sample_approval_verifies [of sample_key] sample_approval_verifies [of sample_heir_key]
    by (simp add: sample_signed_activation_def sample_policy_def authority_map_def sample_authority_def)
      (simp add: sample_approval_def sample_key_ids bt_get_def is_some_and_def err_if_def)
  moreover have "sa_schema sample_signed_activation = SIGNED_CONTRACT_ACTIVATION_SCHEMA"
      "sa_activation sample_signed_activation = sample_activation" "length (sa_approvals sample_signed_activation) = 2"
      "ac_authority_policy_sha256 sample_activation = 2" "unat (po_threshold sample_policy) = 2" "length (po_authorities sample_policy) = 2"
    by (simp_all add: sample_signed_activation_def sample_activation_def sample_policy_def)
  ultimately show ?thesis
    by (simp add: signed_activation_verify_def sample_policy_valid sample_policy_digest sample_activation_valid
        sample_activation_digest err_if_def Let_def)
qed


section \<open>The journal\<close>

definition sample_status :: "local_state \<Rightarrow> command_status" where
  "sample_status state = \<lparr>st_schema = COMMAND_STATUS_SCHEMA, st_command_id = ''c1'', st_state = state, st_updated_at = ''t1'',
     st_result = None, st_rejection = None\<rparr>"

text \<open>Canonical forms of the documents of one command: its payload, its request, two statuses.\<close>

definition journal_canonicalize :: "json \<Rightarrow> string + byte list" where
  "journal_canonicalize v =
     (if v = JNull then Inr [4]
      else if v = command_status_json (sample_status StReceived) then Inr [6]
      else if v = command_status_json (sample_status StValidated) then Inr [7]
      else case v of JObj ms \<Rightarrow> if map_of ms ''command_kind'' \<noteq> None then Inr [5] else Inl ''unknown'' | _ \<Rightarrow> Inl ''unknown'')"

definition sample_command :: admission_metadata where
  "sample_command = \<lparr>md_command_id = ''c1'', md_command_kind = KindShotCreate, md_origin = OriginCli, md_origin_device_id = None,
     md_workspace_id = ''w1'', md_shot_id = None, md_base_expression_id = None, md_base_version_id = None, md_submitted_at = None\<rparr>"

definition sample_journal :: journal_env where
  "sample_journal = \<lparr>je_externals = sample_externals\<lparr>ext_canonicalize := journal_canonicalize\<rparr>,
     je_parse_record = (\<lambda>b. if b = [5] then Inr (admitted_record sample_command ''t0'' 5) else Inl ''not a record''),
     je_parse_status = (\<lambda>b. if b = [6] then Inr (sample_status StReceived)
        else if b = [7] then Inr (sample_status StValidated) else Inl ''not a status''),
     je_parse_value = (\<lambda>b. if b = [4] then Inr JNull else Inl ''not a value''), je_root = ''/journal''\<rparr>"

definition empty_journal :: jworld where
  "empty_journal = \<lparr>jw_entries = [], jw_faults = []\<rparr>"

text \<open>A journal with the one command, as its admission left it.\<close>

definition sample_journal_entries :: entries where
  "sample_journal_entries = [(''c1'', JDir [(''payload.json'', JFile [4]), (''request.json'', JFile [5]), (''status.json'', JFile [6])])]"

lemmas run_calls = jbind_def jmatch_def jpure_def jreturn_def jfail_def jguard_def syscall_def no_effect_def sys_stat_def
  sys_other_def sys_create_dir_def sys_create_file_def sys_write_def sys_open_lock_def sys_read_def sys_read_dir_def
  sys_rename_def entry_at_def err_if_def bt_get_insert bt_get_remove bt.get_empty

lemmas run_operations = command_directory_def require_real_directory_def to_canonical_def write_new_bytes_def write_new_json_def
  set_private_directory_def sync_directory_def read_bounded_def read_json_def write_replace_json_def load_def validate_loaded_def
  lock_status_def transition_def write_staging_def publish_staging_def admit_with_files_def Let_def MAXIMUM_JSON_BYTES_def
  MAXIMUM_COMMANDS_def

lemma sample_identifiers:
  "validate_journal_identifier l ''c1'' = Inr ()" "validate_journal_identifier l ''w1'' = Inr ()"
  by (simp_all add: validate_journal_identifier_def err_if_def journal_identifier_char_def is_ascii_alphanumeric_def
      is_ascii_digit_def is_ascii_lowercase_def is_ascii_uppercase_def)

lemma sample_canonical_forms:
  "canonical_to_vec (je_externals sample_journal) JNull = Inr [4]"
  "canonical_to_vec (je_externals sample_journal) (command_status_json (sample_status StReceived)) = Inr [6]"
  "canonical_to_vec (je_externals sample_journal) (command_status_json (sample_status StValidated)) = Inr [7]"
  "canonical_to_vec (je_externals sample_journal) (command_record_json r) = Inr [5]"
  by (simp_all add: canonical_to_vec_def sample_journal_def journal_canonicalize_def command_status_json_def
      command_record_json_def sample_status_def)

lemma sample_parses:
  "je_parse_record sample_journal [5] = Inr (admitted_record sample_command ''t0'' 5)"
  "je_parse_status sample_journal [6] = Inr (sample_status StReceived)"
  "je_parse_status sample_journal [7] = Inr (sample_status StValidated)"
  by (simp_all add: sample_journal_def)

lemma sample_command_fields:
  "initial_status ''c1'' ''t1'' = sample_status StReceived" "sha256 (je_externals sample_journal) [4] = 5"
  "cr_command_id (admitted_record sample_command t d) = ''c1''" "md_command_id sample_command = ''c1''"
  "md_workspace_id sample_command = ''w1''" "md_origin_device_id sample_command = None" "md_submitted_at sample_command = None"
  "validate_private_files [] = Inr ()" "cr_schema (admitted_record sample_command t d) = COMMAND_SCHEMA"
  "st_schema (sample_status x) = COMMAND_STATUS_SCHEMA" "st_command_id (sample_status x) = ''c1''"
  "next_status (sample_status StReceived) ''c1'' StValidated None None ''t1'' = Inr (Some (sample_status StValidated))"
  by (simp_all add: initial_status_def sample_status_def sha256_def sample_journal_def sample_digest_singleton admitted_record_def
      sample_command_def validate_private_files_def err_if_def MAXIMUM_TOTAL_ATTACHMENT_BYTES_def next_status_def
      may_transition_to_def)

lemma sample_admission:
  "admit_with_files sample_journal ''u1'' ''t0'' ''t1'' sample_command JNull [] empty_journal
   = (Inr \<lparr>ad_record = admitted_record sample_command ''t0'' 5, ad_status = sample_status StReceived, ad_existing = False,
        ad_directory = ''c1''\<rparr>, \<lparr>jw_entries = sample_journal_entries, jw_faults = []\<rparr>)"
  by (simp add: run_operations run_calls sample_identifiers sample_canonical_forms sample_command_fields empty_journal_def
      submitted_time_def opt_str_def bt_get_def bt_remove_def sample_journal_entries_def)

lemma sample_transition:
  "fst (transition sample_journal ''9'' ''t1'' ''c1'' StValidated None None \<lparr>jw_entries = sample_journal_entries, jw_faults = []\<rparr>)
   = Inr (sample_status StValidated)"
  by (simp add: run_operations run_calls sample_identifiers sample_canonical_forms sample_command_fields sample_parses
      sample_journal_entries_def bt_get_def)

theorem admission_atomic_witness:
  "\<exists>a w'. admit_with_files sample_journal ''u1'' ''t0'' ''t1'' sample_command JNull [] empty_journal = (Inr a, w')
     \<and> \<not> ad_existing a
     \<and> others_kept (md_command_id sample_command) (jw_entries empty_journal) (jw_entries w')
     \<and> (bt_get (jw_entries w') (md_command_id sample_command) = bt_get (jw_entries empty_journal) (md_command_id sample_command)
          \<and> (\<exists>e. Inr a = (Inl e :: journal_error + admission))
        \<or> (\<exists>payload_bytes submitted. canonical_to_vec (je_externals sample_journal) JNull = Inr payload_bytes
             \<and> submitted_time sample_journal (md_submitted_at sample_command) ''t0'' = Inr submitted
             \<and> admission_outcome sample_journal
                 (admitted_record sample_command submitted (sha256 (je_externals sample_journal) payload_bytes)) payload_bytes []
                 (initial_status (md_command_id sample_command) ''t1'') (jw_entries empty_journal) (Inr a) (jw_entries w')))"
proof -
  obtain a w' where run: "admit_with_files sample_journal ''u1'' ''t0'' ''t1'' sample_command JNull [] empty_journal = (Inr a, w')"
      "\<not> ad_existing a"
    using sample_admission by auto
  from admission_atomic [OF run(1)] run show ?thesis by blast
qed

lemma command_status_json_inject: "command_status_json s = command_status_json t \<Longrightarrow> s = t"
  by (cases "st_result s"; cases "st_result t"; cases "st_rejection s"; cases "st_rejection t"; cases "st_state s"; cases "st_state t")
    (auto simp: command_status_json_def intro!: command_status.equality)

lemma sample_reads_back: "reads_back sample_journal {JNull}"
proof -
  have "je_parse_status sample_journal b = Inr s" if "canonical_to_vec (je_externals sample_journal) (command_status_json s) = Inr b" for s b
  proof -
    have "command_status_json s \<noteq> JNull" "\<And>ms. command_status_json s = JObj ms \<Longrightarrow> map_of ms ''command_kind'' = None"
      by (auto simp: command_status_json_def member_option_case split: option.splits)
    with that have "b = [6] \<and> s = sample_status StReceived \<or> b = [7] \<and> s = sample_status StValidated"
      by (auto simp: canonical_to_vec_def sample_journal_def journal_canonicalize_def dest: command_status_json_inject
          split: if_splits json.splits)
    then show ?thesis using sample_parses by auto
  qed
  then show ?thesis by (simp add: reads_back_def)
qed

theorem journal_history_witness:
  "\<exists>es'. (command_step sample_journal {JNull})\<^sup>*\<^sup>* sample_journal_entries es'
     \<and> command_kept ''c1'' sample_journal_entries es'
     \<and> (\<exists>t. status_of sample_journal ''c1'' es' = Some t \<and> carried_on (sample_status StReceived) t)"
proof -
  let ?w = "\<lparr>jw_entries = sample_journal_entries, jw_faults = []\<rparr>"
  obtain w' where "transition sample_journal ''9'' ''t1'' ''c1'' StValidated None None ?w = (Inr (sample_status StValidated), w')"
    using sample_transition by (metis prod.collapse)
  from command_step.moved [OF this, of "{JNull}"]
  have steps: "(command_step sample_journal {JNull})\<^sup>*\<^sup>* sample_journal_entries (jw_entries w')" by auto
  have status: "status_of sample_journal ''c1'' sample_journal_entries = Some (sample_status StReceived)"
    by (simp add: status_of_def entry_at_def sample_journal_entries_def bt_get_def sample_parses)
  have "\<not> starts_with ''.staging-'' ''c1''" "set_option (st_result (sample_status StReceived)) \<subseteq> {JNull}"
    by (simp_all add: starts_with_def sample_status_def)
  from journal_history [OF steps sample_reads_back this(1) status this(2)] steps show ?thesis by blast
qed

end
