(* ===== verification/Entitlement.thy ===== *)
theory Entitlement
  imports Journal_History
begin

text \<open>
  \<open>entitlement.rs\<close> of the application crate: the private state that says whether this
  machine may start new work. The state is one file, replaced by renaming; its operations are
  system calls of the journal's world, so that any of them may fail. The operations here in
  the order of the source; \<open>Entitlement_History\<close> has what they keep.
\<close>

section \<open>Data\<close>

definition ENTITLEMENT_STATE_SCHEMA :: string where "ENTITLEMENT_STATE_SCHEMA = ''tohseno.private-entitlement-state/1''"
definition MAXIMUM_STATE_BYTES :: nat where "MAXIMUM_STATE_BYTES = 256 * 1024"
definition REQUIRED_SUCCESSFUL_DAYS :: nat where "REQUIRED_SUCCESSFUL_DAYS = 5"
definition TRIAL_CALENDAR_DAYS :: int where "TRIAL_CALENDAR_DAYS = 7"

datatype entitlement_phase = GenesisIncomplete | TrialActive | TrialQualified | TrialExpired
  | ProMonthly | ProYearly | ProLapsed

definition phase_mutations_allowed :: "entitlement_phase \<Rightarrow> bool" where
  "phase_mutations_allowed p \<longleftrightarrow> p = TrialActive \<or> p = ProMonthly \<or> p = ProYearly"

definition phase_purchase_allowed :: "entitlement_phase \<Rightarrow> bool" where
  "phase_purchase_allowed p \<longleftrightarrow> p = TrialQualified \<or> p = ProLapsed"

datatype subscription_plan = Monthly | Yearly

record successful_day =
  sd_local_date :: string
  sd_command_id :: string
  sd_execution_id :: string
  sd_accepted_version_id :: string
  sd_accepted_at :: string

record subscription =
  vs_entitlement_id :: string
  vs_plan :: subscription_plan
  vs_issued_at :: string
  vs_paid_through :: string
  vs_cancellation_at_period_end :: bool
  vs_provider_revision :: u64
  vs_receipt_digest :: string

record entitlement_state =
  es_schema :: string
  es_revision :: u64
  es_phase :: entitlement_phase
  es_genesis_completed_at :: "string option"
  es_genesis_local_date :: "string option"
  es_successful_days :: "successful_day list"
  es_subscription :: "subscription option"
  es_migration :: "string option"

definition default_state :: entitlement_state where
  "default_state = \<lparr>es_schema = ENTITLEMENT_STATE_SCHEMA, es_revision = 1, es_phase = GenesisIncomplete,
     es_genesis_completed_at = None, es_genesis_local_date = None, es_successful_days = [],
     es_subscription = None, es_migration = None\<rparr>"

record entitlement_status =
  ts_schema :: string
  ts_phase :: entitlement_phase
  ts_genesis_complete :: bool
  ts_successful_days :: nat
  ts_required_successful_days :: nat
  ts_factory_mutations_allowed :: bool
  ts_purchase_allowed :: bool
  ts_plan :: "subscription_plan option"
  ts_paid_through :: "string option"
  ts_cancellation_at_period_end :: bool

text \<open>\<open>EPanic\<close> is not a variant of the enum: it is a panic, of \<open>unreachable!\<close> or of an addition
  of the \<open>time\<close> crate that leaves the range of its dates.\<close>

datatype entitlement_error = EIo io_error | EJson string | EInvalid string | ELocked string | EPanic string

fun display_entitlement_error :: "entitlement_error \<Rightarrow> string" where
  "display_entitlement_error (EIo e) = display_journal_error (JIo e)"
| "display_entitlement_error (EJson e) = e"
| "display_entitlement_error (EInvalid m) = m"
| "display_entitlement_error (ELocked m) = m"
| "display_entitlement_error (EPanic m) = m"

fun phase_name :: "entitlement_phase \<Rightarrow> string" where
  "phase_name GenesisIncomplete = ''genesis_incomplete''"
| "phase_name TrialActive = ''trial_active''"
| "phase_name TrialQualified = ''trial_qualified''"
| "phase_name TrialExpired = ''trial_expired''"
| "phase_name ProMonthly = ''pro_monthly''"
| "phase_name ProYearly = ''pro_yearly''"
| "phase_name ProLapsed = ''pro_lapsed''"

fun plan_name :: "subscription_plan \<Rightarrow> string" where
  "plan_name Monthly = ''monthly''"
| "plan_name Yearly = ''yearly''"

definition successful_day_json :: "successful_day \<Rightarrow> json" where
  "successful_day_json d = JObj [(''local_date'', JStr (sd_local_date d)), (''command_id'', JStr (sd_command_id d)),
     (''execution_id'', JStr (sd_execution_id d)), (''accepted_version_id'', JStr (sd_accepted_version_id d)),
     (''accepted_at'', JStr (sd_accepted_at d))]"

definition subscription_json :: "subscription \<Rightarrow> json" where
  "subscription_json v = JObj [(''entitlement_id'', JStr (vs_entitlement_id v)), (''plan'', JStr (plan_name (vs_plan v))),
     (''issued_at'', JStr (vs_issued_at v)), (''paid_through'', JStr (vs_paid_through v)),
     (''cancellation_at_period_end'', JBool (vs_cancellation_at_period_end v)),
     (''provider_revision'', JNum (unat (vs_provider_revision v))), (''receipt_digest'', JStr (vs_receipt_digest v))]"

definition entitlement_state_json :: "entitlement_state \<Rightarrow> json" where
  "entitlement_state_json s = JObj ([
     (''schema'', JStr (es_schema s)), (''revision'', JNum (unat (es_revision s))), (''phase'', JStr (phase_name (es_phase s)))]
     @ member_option ''genesis_completed_at'' JStr (es_genesis_completed_at s)
     @ member_option ''genesis_local_date'' JStr (es_genesis_local_date s)
     @ [(''successful_days'', JArr (map successful_day_json (es_successful_days s)))]
     @ member_option ''subscription'' subscription_json (es_subscription s)
     @ member_option ''migration'' JStr (es_migration s))"

text \<open>
  The environment. A \<open>Date\<close> is its number of days since the epoch, an \<open>OffsetDateTime\<close> the
  instant of \<open>rfc3339_time\<close>. Of the crate \<open>time\<close> the model takes the parser and the printer of
  dates, the printer of instants and the dates of the calendar; of the C library
  \<open>localtime_r\<close>; of \<open>serde_json\<close> the derived parser of the state. \<open>ee_service\<close> is the last
  component of the service root, \<open>ee_absolute\<close> whether the path is absolute, and
  \<open>ee_link_resolves\<close> whether a symbolic link in place of the file has a target.
\<close>

record entitlement_env =
  ee_externals :: externals
  ee_parse_state :: "byte list \<Rightarrow> string + entitlement_state"
  ee_service :: string
  ee_absolute :: bool
  ee_link_resolves :: bool
  ee_parse_date :: "string \<Rightarrow> int option"
  ee_date_string :: "int \<Rightarrow> string"
  ee_format_time :: "rfc3339_time \<Rightarrow> string option"
  ee_calendar_date :: "int \<Rightarrow> nat \<Rightarrow> nat \<Rightarrow> int option"
  ee_localtime :: "int \<Rightarrow> (int \<times> int \<times> int) option"

section \<open>Times and dates\<close>

definition time_le :: "rfc3339_time \<Rightarrow> rfc3339_time \<Rightarrow> bool" where
  "time_le a b \<longleftrightarrow> rt_unix a < rt_unix b \<or> rt_unix a = rt_unix b \<and> rt_nanosecond a \<le> rt_nanosecond b"

text \<open>\<open>OffsetDateTime::date\<close>: the day in the offset of the value.\<close>

definition date_of :: "rfc3339_time \<Rightarrow> int" where
  "date_of t = (rt_unix t + rt_offset t) div 86400"

text \<open>\<open>Date::MAX\<close> is the last day of the year 9999.\<close>

definition DATE_MAX :: int where "DATE_MAX = 2932896"

definition date_plus :: "int \<Rightarrow> int \<Rightarrow> entitlement_error + int" where
  "date_plus d n = (if d + n > DATE_MAX then Inl (EPanic ''overflow adding duration to date'') else Inr (d + n))"

definition time_plus_days :: "rfc3339_time \<Rightarrow> int \<Rightarrow> entitlement_error + rfc3339_time" where
  "time_plus_days t n =
     (if date_of t + n > DATE_MAX then Inl (EPanic ''resulting value is out of range'')
      else Inr (t\<lparr>rt_unix := rt_unix t + n * 86400\<rparr>))"

definition entitlement_time :: "entitlement_env \<Rightarrow> string \<Rightarrow> entitlement_error + rfc3339_time" where
  "entitlement_time E value =
     (case ext_rfc3339 (ee_externals E) value of
        None \<Rightarrow> Inl (EInvalid ''entitlement timestamp is invalid'') | Some t \<Rightarrow> Inr t)"

definition format_timestamp :: "entitlement_env \<Rightarrow> rfc3339_time \<Rightarrow> entitlement_error + string" where
  "format_timestamp E t =
     (case ee_format_time E t of None \<Rightarrow> Inl (EInvalid ''entitlement timestamp is invalid'') | Some s \<Rightarrow> Inr s)"

text \<open>The format description is a constant that is valid.\<close>

definition parse_date :: "entitlement_env \<Rightarrow> string \<Rightarrow> entitlement_error + int" where
  "parse_date E value =
     (case ee_parse_date E value of None \<Rightarrow> Inl (EInvalid ''entitlement local date is invalid'') | Some d \<Rightarrow> Inr d)"

definition i32_saturating_add :: "int \<Rightarrow> int \<Rightarrow> int" where
  "i32_saturating_add a b = max (- (2 ^ 31)) (min (2 ^ 31 - 1) (a + b))"

definition local_date_now :: "entitlement_env \<Rightarrow> rfc3339_time \<Rightarrow> int" where
  "local_date_now E utc =
     (case ee_localtime E (rt_unix utc) of
        None \<Rightarrow> date_of utc
      | Some (tm_year, tm_mon, tm_mday) \<Rightarrow>
          (let year = i32_saturating_add tm_year 1900; month = i32_saturating_add tm_mon 1 in
           if 1 \<le> month \<and> month \<le> 12 \<and> 0 \<le> tm_mday \<and> tm_mday \<le> 255 then
             (case ee_calendar_date E year (nat month) (nat tm_mday) of None \<Rightarrow> date_of utc | Some d \<Rightarrow> d)
           else date_of utc))"

section \<open>Validation\<close>

definition evidence_char :: "char \<Rightarrow> bool" where
  "evidence_char c \<longleftrightarrow> is_ascii_alphanumeric c \<or> c = CHR ''_'' \<or> c = CHR ''-'' \<or> c = CHR ''.''"

definition validate_evidence_id :: "string \<Rightarrow> string \<Rightarrow> entitlement_error + unit" where
  "validate_evidence_id label value =
     err_if (value = [] \<or> length value > 160 \<or> \<not> list_all evidence_char value)
       (EInvalid (''successful-day '' @ label @ '' is invalid''))"

definition validate_evidence :: "entitlement_env \<Rightarrow> successful_day \<Rightarrow> entitlement_error + unit" where
  "validate_evidence E d =
     bind_result (parse_date E (sd_local_date d)) (\<lambda>_.
     bind_result (entitlement_time E (sd_accepted_at d)) (\<lambda>_. checks [
       validate_evidence_id ''command ID'' (sd_command_id d),
       validate_evidence_id ''execution ID'' (sd_execution_id d),
       validate_evidence_id ''accepted Version ID'' (sd_accepted_version_id d)]))"

definition subscription_id_char :: "char \<Rightarrow> bool" where
  "subscription_id_char c \<longleftrightarrow> is_ascii_alphanumeric c \<or> c = CHR ''_'' \<or> c = CHR ''-''"

definition validate_subscription_shape :: "entitlement_env \<Rightarrow> subscription \<Rightarrow> entitlement_error + unit" where
  "validate_subscription_shape E v =
     bind_result (err_if (vs_provider_revision v = 0 \<or> vs_entitlement_id v = [] \<or> length (vs_entitlement_id v) > 160
         \<or> \<not> list_all subscription_id_char (vs_entitlement_id v)
         \<or> length (vs_receipt_digest v) \<noteq> 64 \<or> \<not> list_all is_lower_hex_char (vs_receipt_digest v))
       (EInvalid ''verified entitlement receipt metadata is invalid'')) (\<lambda>_.
     bind_result (entitlement_time E (vs_issued_at v)) (\<lambda>issued.
     bind_result (entitlement_time E (vs_paid_through v)) (\<lambda>paid_through.
       err_if (time_le paid_through issued) (EInvalid ''verified entitlement paid-through date is not after issue''))))"

definition validate_subscription :: "entitlement_env \<Rightarrow> subscription \<Rightarrow> rfc3339_time \<Rightarrow> entitlement_error + unit" where
  "validate_subscription E v now =
     bind_result (validate_subscription_shape E v) (\<lambda>_.
     bind_result (entitlement_time E (vs_paid_through v)) (\<lambda>paid_through.
       err_if (time_le paid_through now) (EInvalid ''verified entitlement receipt is already expired'')))"

text \<open>The loop over the days: the four sets hold what the days before had.\<close>

fun evidence_loop :: "entitlement_env \<Rightarrow> successful_day list \<Rightarrow> successful_day list \<Rightarrow> entitlement_error + unit" where
  "evidence_loop E seen [] = Inr ()"
| "evidence_loop E seen (d # days) =
     bind_result (validate_evidence E d) (\<lambda>_.
     bind_result (err_if (List.member (map sd_local_date seen) (sd_local_date d)
         \<or> List.member (map sd_command_id seen) (sd_command_id d)
         \<or> List.member (map sd_execution_id seen) (sd_execution_id d)
         \<or> List.member (map sd_accepted_version_id seen) (sd_accepted_version_id d))
       (EInvalid ''successful-day evidence is not unique'')) (\<lambda>_. evidence_loop E (d # seen) days))"

definition validate_genesis :: "entitlement_env \<Rightarrow> entitlement_state \<Rightarrow> entitlement_error + unit" where
  "validate_genesis E s =
     (case (es_genesis_completed_at s, es_genesis_local_date s) of
        (Some timestamp, Some date) \<Rightarrow>
          bind_result (entitlement_time E timestamp) (\<lambda>_. bind_result (parse_date E date) (\<lambda>_. Inr ()))
      | (None, None) \<Rightarrow>
          err_if (es_phase s \<noteq> GenesisIncomplete) (EInvalid ''private entitlement genesis anchor is inconsistent'')
      | _ \<Rightarrow> Inl (EInvalid ''private entitlement genesis anchor is inconsistent''))"

definition validate_pro :: "entitlement_env \<Rightarrow> entitlement_state \<Rightarrow> entitlement_error + unit" where
  "validate_pro E s =
     (if es_phase s \<in> {ProMonthly, ProYearly, ProLapsed} then
        (case es_subscription s of
           None \<Rightarrow> Inl (EInvalid ''Pro state lacks a verified subscription'')
         | Some v \<Rightarrow> validate_subscription_shape E v)
      else Inr ())"

definition validate_entitlement_state :: "entitlement_env \<Rightarrow> entitlement_state \<Rightarrow> entitlement_error + unit" where
  "validate_entitlement_state E s = checks [
     err_if (es_schema s \<noteq> ENTITLEMENT_STATE_SCHEMA \<or> es_revision s = 0)
       (EInvalid ''private entitlement state has an unsupported schema''),
     validate_genesis E s,
     err_if (length (es_successful_days s) > REQUIRED_SUCCESSFUL_DAYS)
       (EInvalid ''private entitlement state has too many successful days''),
     evidence_loop E [] (es_successful_days s),
     err_if (es_phase s = TrialQualified \<and> length (es_successful_days s) \<noteq> REQUIRED_SUCCESSFUL_DAYS)
       (EInvalid ''qualified trial lacks five successful days''),
     validate_pro E s]"

section \<open>Decisions\<close>

text \<open>\<open>refresh_phase\<close>: the state after, and whether it changed.\<close>

definition refresh_phase ::
  "entitlement_env \<Rightarrow> entitlement_state \<Rightarrow> rfc3339_time \<Rightarrow> int \<Rightarrow> entitlement_error + (entitlement_state \<times> bool)" where
  "refresh_phase E s now local_date =
     (case es_phase s of
        TrialActive \<Rightarrow>
          (case es_genesis_local_date s of
             None \<Rightarrow> Inl (EInvalid ''trial has no local anchor'')
           | Some text \<Rightarrow>
               bind_result (parse_date E text) (\<lambda>genesis.
               bind_result (date_plus genesis TRIAL_CALENDAR_DAYS) (\<lambda>last.
                 Inr (if last \<le> local_date then (s\<lparr>es_phase := TrialExpired\<rparr>, True) else (s, False)))))
      | p \<Rightarrow>
          if p = ProMonthly \<or> p = ProYearly then
            (case es_subscription s of
               None \<Rightarrow> Inl (EInvalid ''active Pro state has no verified subscription'')
             | Some v \<Rightarrow>
                 bind_result (entitlement_time E (vs_paid_through v)) (\<lambda>paid_through.
                   Inr (if time_le paid_through now then (s\<lparr>es_phase := ProLapsed\<rparr>, True) else (s, False))))
          else Inr (s, False))"

definition status_from :: "entitlement_state \<Rightarrow> entitlement_status" where
  "status_from s =
     \<lparr>ts_schema = ''tohseno.private-entitlement-status/1'', ts_phase = es_phase s,
      ts_genesis_complete = (es_genesis_completed_at s \<noteq> None),
      ts_successful_days = length (es_successful_days s), ts_required_successful_days = REQUIRED_SUCCESSFUL_DAYS,
      ts_factory_mutations_allowed = phase_mutations_allowed (es_phase s),
      ts_purchase_allowed = phase_purchase_allowed (es_phase s),
      ts_plan = map_option vs_plan (es_subscription s), ts_paid_through = map_option vs_paid_through (es_subscription s),
      ts_cancellation_at_period_end = (case es_subscription s of None \<Rightarrow> False | Some v \<Rightarrow> vs_cancellation_at_period_end v)\<rparr>"

definition bump :: "entitlement_state \<Rightarrow> entitlement_state" where
  "bump s = s\<lparr>es_revision := saturating_add (es_revision s) 1\<rparr>"

definition duplicate_day :: "successful_day list \<Rightarrow> successful_day \<Rightarrow> bool" where
  "duplicate_day days d \<longleftrightarrow> list_ex (\<lambda>e. sd_local_date e = sd_local_date d \<or> sd_command_id e = sd_command_id d
     \<or> sd_execution_id e = sd_execution_id d \<or> sd_accepted_version_id e = sd_accepted_version_id d) days"

definition plan_phase :: "subscription_plan \<Rightarrow> entitlement_phase" where
  "plan_phase p = (case p of Monthly \<Rightarrow> ProMonthly | Yearly \<Rightarrow> ProYearly)"

section \<open>The store\<close>

type_synonym 'a eio = "jworld \<Rightarrow> (entitlement_error + 'a) \<times> jworld"

definition ereturn :: "'a \<Rightarrow> 'a eio" where
  "ereturn x w = (Inr x, w)"

definition epure :: "(entitlement_error + 'a) \<Rightarrow> 'a eio" where
  "epure r w = (r, w)"

definition ebind :: "'a eio \<Rightarrow> ('a \<Rightarrow> 'b eio) \<Rightarrow> 'b eio" where
  "ebind m f w = (case m w of (Inl e, w') \<Rightarrow> (Inl e, w') | (Inr x, w') \<Rightarrow> f x w')"

text \<open>\<open>From<std::io::Error>\<close>: system calls fail only with errors of input and output.\<close>

fun from_io :: "journal_error \<Rightarrow> entitlement_error" where
  "from_io (JIo e) = EIo e"
| "from_io e = EInvalid (display_journal_error e)"

definition esys :: "'a jio \<Rightarrow> 'a eio" where
  "esys m w = (case m w of (r, w') \<Rightarrow> (map_err from_io r, w'))"

text \<open>The mutex: a thread that panicked while it held the lock has poisoned it.\<close>

definition with_lock :: "bool \<Rightarrow> 'a eio \<Rightarrow> 'a eio" where
  "with_lock poisoned m = (if poisoned then epure (Inl (EInvalid ''private entitlement lock was poisoned'')) else m)"

definition state_directory :: "entitlement_env \<Rightarrow> string list" where
  "state_directory E = [ee_service E, ''entitlement'']"

definition STATE_FILE :: string where "STATE_FILE = ''state-v1.json''"

definition read_locked :: "entitlement_env \<Rightarrow> entitlement_state eio" where
  "read_locked E =
     ebind (esys (sys_stat (state_directory E) STATE_FILE)) (\<lambda>node.
     ebind (epure (err_if (case node of JFile bytes \<Rightarrow> length bytes > MAXIMUM_STATE_BYTES | _ \<Rightarrow> True)
       (EInvalid ''private entitlement state is unsafe or oversized''))) (\<lambda>_.
     ebind (esys sys_other) (\<lambda>_.
     ebind (esys (sys_read (state_directory E) STATE_FILE)) (\<lambda>contents.
       let bytes = take (MAXIMUM_STATE_BYTES + 1) contents in
       epure (bind_result (err_if (length bytes > MAXIMUM_STATE_BYTES) (EInvalid ''private entitlement state is oversized'')) (\<lambda>_.
              bind_result (map_err EJson (ee_parse_state E bytes)) (\<lambda>s.
              bind_result (validate_entitlement_state E s) (\<lambda>_. Inr s))))))))"

definition temporary_name :: "string \<Rightarrow> string" where
  "temporary_name uuid = ''.state-'' @ uuid @ ''.tmp''"

text \<open>The calls that replace the file.\<close>

definition replace_file :: "string list \<Rightarrow> string \<Rightarrow> string \<Rightarrow> byte list \<Rightarrow> unit jio" where
  "replace_file dir temporary name bytes =
     jbind (sys_create_file dir temporary) (\<lambda>_.
     jbind (sys_write dir temporary bytes) (\<lambda>_.
     jbind sys_other (\<lambda>_.
     jbind (sys_rename dir temporary name) (\<lambda>_. sync_directory))))"

definition state_bytes :: "entitlement_env \<Rightarrow> entitlement_state \<Rightarrow> entitlement_error + byte list" where
  "state_bytes E s =
     bind_result (validate_entitlement_state E s) (\<lambda>_.
     bind_result (map_err (EInvalid \<circ> display_error) (canonical_to_vec (ee_externals E) (entitlement_state_json s))) (\<lambda>bytes.
     bind_result (err_if (length bytes > MAXIMUM_STATE_BYTES) (EInvalid ''private entitlement state is oversized'')) (\<lambda>_.
       Inr bytes)))"

definition write_locked :: "entitlement_env \<Rightarrow> string \<Rightarrow> entitlement_state \<Rightarrow> unit eio" where
  "write_locked E uuid s =
     ebind (epure (state_bytes E s)) (\<lambda>bytes.
       esys (replace_file (state_directory E) (temporary_name uuid) STATE_FILE bytes))"

definition ensure_entitlement_directory :: "string list \<Rightarrow> string \<Rightarrow> unit eio" where
  "ensure_entitlement_directory dir name w =
     (case sys_stat dir name w of
        (Inr node, w') \<Rightarrow>
          ebind (epure (err_if (\<not> is_real_directory node) (EInvalid ''private entitlement directory is unsafe'')))
            (\<lambda>_. esys sys_other) w'
      | (Inl e, w') \<Rightarrow>
          (if e = JIo NotFound then ebind (esys (sys_create_dir dir name)) (\<lambda>_. esys sys_other) w'
           else (Inl (from_io e), w')))"

text \<open>\<open>Path::exists\<close> follows links and is false on every error.\<close>

definition path_exists :: "entitlement_env \<Rightarrow> string list \<Rightarrow> string \<Rightarrow> bool eio" where
  "path_exists E dir name w =
     (case sys_stat dir name w of
        (Inr node, w') \<Rightarrow> (Inr (node = JLink \<longrightarrow> ee_link_resolves E), w')
      | (Inl e, w') \<Rightarrow> (Inr False, w'))"

definition open_entitlement :: "entitlement_env \<Rightarrow> string \<Rightarrow> unit eio" where
  "open_entitlement E uuid =
     ebind (epure (err_if (\<not> ee_absolute E) (EInvalid ''private entitlement root must be absolute''))) (\<lambda>_.
     ebind (ensure_entitlement_directory [] (ee_service E)) (\<lambda>_.
     ebind (ensure_entitlement_directory [ee_service E] ''entitlement'') (\<lambda>_.
     ebind (path_exists E (state_directory E) STATE_FILE) (\<lambda>found.
       if \<not> found then write_locked E uuid default_state
       else ebind (read_locked E) (\<lambda>_. ereturn ())))))"

definition entitlement_state_now :: "entitlement_env \<Rightarrow> bool \<Rightarrow> entitlement_state eio" where
  "entitlement_state_now E poisoned = with_lock poisoned (read_locked E)"

text \<open>Writing a changed state and answering with its status.\<close>

definition commit :: "entitlement_env \<Rightarrow> string \<Rightarrow> entitlement_state \<Rightarrow> entitlement_status eio" where
  "commit E uuid s = ebind (write_locked E uuid s) (\<lambda>_. ereturn (status_from s))"

definition status_at :: "entitlement_env \<Rightarrow> bool \<Rightarrow> string \<Rightarrow> rfc3339_time \<Rightarrow> int \<Rightarrow> entitlement_status eio" where
  "status_at E poisoned uuid now local_date = with_lock poisoned (
     ebind (read_locked E) (\<lambda>s.
     ebind (epure (refresh_phase E s now local_date)) (\<lambda>(s', changed).
       if changed then commit E uuid (bump s') else ereturn (status_from s'))))"

definition status_now :: "entitlement_env \<Rightarrow> bool \<Rightarrow> string \<Rightarrow> rfc3339_time \<Rightarrow> entitlement_status eio" where
  "status_now E poisoned uuid utc = status_at E poisoned uuid utc (local_date_now E utc)"

text \<open>The state in which a trial has begun: common to the completion of genesis and to the migration.\<close>

definition begun :: "entitlement_state \<Rightarrow> string \<Rightarrow> string \<Rightarrow> string option \<Rightarrow> entitlement_state" where
  "begun s timestamp date migration =
     bump (s\<lparr>es_phase := TrialActive, es_genesis_completed_at := Some timestamp, es_genesis_local_date := Some date,
       es_migration := migration\<rparr>)"

definition complete_genesis_at ::
  "entitlement_env \<Rightarrow> bool \<Rightarrow> string \<Rightarrow> rfc3339_time \<Rightarrow> int \<Rightarrow> entitlement_status eio" where
  "complete_genesis_at E poisoned uuid completed_at local_date = with_lock poisoned (
     ebind (read_locked E) (\<lambda>s.
       if es_phase s = GenesisIncomplete then
         ebind (epure (format_timestamp E completed_at)) (\<lambda>timestamp.
         let s' = begun s timestamp (ee_date_string E local_date) (es_migration s) in
         ebind (epure (validate_entitlement_state E s')) (\<lambda>_. commit E uuid s'))
       else ereturn (status_from s)))"

definition complete_genesis_now :: "entitlement_env \<Rightarrow> bool \<Rightarrow> string \<Rightarrow> rfc3339_time \<Rightarrow> entitlement_status eio" where
  "complete_genesis_now E poisoned uuid utc = complete_genesis_at E poisoned uuid utc (local_date_now E utc)"

definition migrate_existing_pairing_at ::
  "entitlement_env \<Rightarrow> bool \<Rightarrow> string \<Rightarrow> rfc3339_time \<Rightarrow> int \<Rightarrow> entitlement_status eio" where
  "migrate_existing_pairing_at E poisoned uuid migrated_at local_date = with_lock poisoned (
     ebind (read_locked E) (\<lambda>s.
       if es_phase s = GenesisIncomplete then
         ebind (epure (format_timestamp E migrated_at)) (\<lambda>timestamp.
         let s' = begun s timestamp (ee_date_string E local_date) (Some ''existing_paired_installation_v1'') in
         ebind (epure (validate_entitlement_state E s')) (\<lambda>_. commit E uuid s'))
       else ereturn (status_from s)))"

definition migrate_existing_pairing_now :: "entitlement_env \<Rightarrow> bool \<Rightarrow> string \<Rightarrow> rfc3339_time \<Rightarrow> entitlement_status eio" where
  "migrate_existing_pairing_now E poisoned uuid utc = migrate_existing_pairing_at E poisoned uuid utc (local_date_now E utc)"

definition DEVELOPMENT_MIGRATION :: string where "DEVELOPMENT_MIGRATION = ''explicit_debug_development_entitlement_v1''"

text \<open>\<open>grant_development_at\<close>, which only debug builds have.\<close>

definition grant_development_at :: "entitlement_env \<Rightarrow> bool \<Rightarrow> string \<Rightarrow> rfc3339_time \<Rightarrow> entitlement_status eio" where
  "grant_development_at E poisoned uuid now = with_lock poisoned (
     ebind (read_locked E) (\<lambda>s.
     ebind (epure (format_timestamp E now)) (\<lambda>timestamp.
     ebind (epure (bind_result (time_plus_days now 3650) (format_timestamp E))) (\<lambda>paid_through.
     let s' = bump (s\<lparr>es_phase := ProYearly, es_genesis_completed_at := Some timestamp,
           es_genesis_local_date := Some (ee_date_string E (date_of now)),
           es_subscription := Some \<lparr>vs_entitlement_id = ''entitlement_development_checkout'', vs_plan = Yearly,
             vs_issued_at = timestamp, vs_paid_through = paid_through, vs_cancellation_at_period_end = False,
             vs_provider_revision = 1, vs_receipt_digest = replicate 64 (CHR ''0'')\<rparr>,
           es_migration := Some DEVELOPMENT_MIGRATION\<rparr>) in
     ebind (epure (validate_entitlement_state E s')) (\<lambda>_. commit E uuid s')))))"

text \<open>The state with one more day.\<close>

definition with_day :: "entitlement_state \<Rightarrow> successful_day \<Rightarrow> entitlement_state" where
  "with_day s d =
     (let days = sort_key sd_local_date (es_successful_days s @ [d]) in
      bump (s\<lparr>es_successful_days := days,
        es_phase := if REQUIRED_SUCCESSFUL_DAYS \<le> length days then TrialQualified else es_phase s\<rparr>))"

definition record_successful_day_at ::
  "entitlement_env \<Rightarrow> bool \<Rightarrow> string \<Rightarrow> successful_day \<Rightarrow> rfc3339_time \<Rightarrow> int \<Rightarrow> entitlement_status eio" where
  "record_successful_day_at E poisoned uuid d now local_date = with_lock poisoned (
     ebind (read_locked E) (\<lambda>s0.
     ebind (epure (refresh_phase E s0 now local_date)) (\<lambda>(s, changed).
       if es_phase s \<noteq> TrialActive then (if changed then commit E uuid (bump s) else ereturn (status_from s))
       else
         ebind (epure (validate_evidence E d)) (\<lambda>_.
         ebind (epure (err_if (sd_local_date d \<noteq> ee_date_string E local_date)
           (EInvalid ''successful-day evidence local date differs from the injected clock''))) (\<lambda>_.
         if \<not> duplicate_day (es_successful_days s) d then
           ebind (epure (validate_entitlement_state E (with_day s d))) (\<lambda>_. commit E uuid (with_day s d))
         else if changed then commit E uuid (bump s)
         else ereturn (status_from s))))))"

definition record_successful_day_now ::
  "entitlement_env \<Rightarrow> bool \<Rightarrow> string \<Rightarrow> successful_day \<Rightarrow> rfc3339_time \<Rightarrow> entitlement_status eio" where
  "record_successful_day_now E poisoned uuid d utc =
     ebind (epure (format_timestamp E utc)) (\<lambda>timestamp.
       record_successful_day_at E poisoned uuid
         (d\<lparr>sd_local_date := ee_date_string E (local_date_now E utc), sd_accepted_at := timestamp\<rparr>) utc (local_date_now E utc))"

text \<open>What \<open>install_verified_subscription\<close> does with a receipt beside the one it has: nothing,
  or replace it.\<close>

definition receipt_decision :: "subscription option \<Rightarrow> subscription \<Rightarrow> entitlement_error + bool" where
  "receipt_decision existing v =
     (case existing of
        None \<Rightarrow> Inr True
      | Some old \<Rightarrow>
          if vs_provider_revision v < vs_provider_revision old then
            Inl (EInvalid ''verified entitlement receipt revision moved backwards'')
          else if vs_provider_revision v = vs_provider_revision old then
            (if vs_receipt_digest v = vs_receipt_digest old then Inr False
             else Inl (EInvalid ''verified entitlement receipt revision conflicts with durable state''))
          else Inr True)"

definition install_verified_subscription ::
  "entitlement_env \<Rightarrow> bool \<Rightarrow> string \<Rightarrow> subscription \<Rightarrow> rfc3339_time \<Rightarrow> int \<Rightarrow> entitlement_status eio" where
  "install_verified_subscription E poisoned uuid v now local_date =
     ebind (epure (validate_subscription E v now)) (\<lambda>_. with_lock poisoned (
     ebind (read_locked E) (\<lambda>s0.
     ebind (epure (refresh_phase E s0 now local_date)) (\<lambda>(s, changed).
     ebind (epure (err_if (es_phase s \<notin> {TrialQualified, ProLapsed, ProMonthly, ProYearly})
       (ELocked ''TOHSENO Pro is available only after five successful days''))) (\<lambda>_.
     ebind (epure (receipt_decision (es_subscription s) v)) (\<lambda>replace.
       if \<not> replace then ereturn (status_from s)
       else
         let s' = bump (s\<lparr>es_phase := plan_phase (vs_plan v), es_subscription := Some v\<rparr>) in
         ebind (epure (validate_entitlement_state E s')) (\<lambda>_. commit E uuid s')))))))"

fun locked_message :: "entitlement_phase \<Rightarrow> entitlement_error" where
  "locked_message GenesisIncomplete =
     ELocked ''Finish setting up TOHSENO on your iPhone before creating or evolving an app.''"
| "locked_message TrialQualified = ELocked ''Continue with TOHSENO Pro on this Mac before creating or evolving an app.''"
| "locked_message ProLapsed = ELocked ''Continue with TOHSENO Pro on this Mac before creating or evolving an app.''"
| "locked_message TrialExpired = ELocked ''Your TOHSENO trial has ended. Everything you made is still here.''"
| "locked_message p = EPanic ''internal error: entered unreachable code''"

definition require_new_factory_mutation :: "entitlement_env \<Rightarrow> bool \<Rightarrow> string \<Rightarrow> rfc3339_time \<Rightarrow> unit eio" where
  "require_new_factory_mutation E poisoned uuid utc =
     ebind (status_now E poisoned uuid utc) (\<lambda>status.
       if ts_factory_mutations_allowed status then ereturn () else epure (Inl (locked_message (ts_phase status))))"

end
