(* ===== verification/Entitlement_History.thy ===== *)
theory Entitlement_History
  imports Entitlement
begin

text \<open>
  What the entitlement file is through every history of operations with every fault: the
  bytes of one state that was earned. A logic of the operations as that of the journal, with
  the values they pass on.
\<close>

named_theorems earned_rules \<open>operations that keep the store sound\<close>

section \<open>Operations with entitlement errors\<close>

lemma ebind_cases:
  assumes "ebind m f w = (res, w')"
  obtains (fails) e where "m w = (Inl e, w')" "res = Inl e"
  | (runs) x w1 where "m w = (Inr x, w1)" "f x w1 = (res, w')"
  using assms by (auto simp: ebind_def split: prod.splits sum.splits)

lemma epure_run: "epure q w = (r, w') \<longleftrightarrow> q = r \<and> w' = w"
  by (auto simp: epure_def)

lemma ereturn_run: "ereturn x w = (r, w') \<longleftrightarrow> r = Inr x \<and> w' = w"
  by (auto simp: ereturn_def)

lemma esys_done: "esys m w = (Inr x, w') \<longleftrightarrow> m w = (Inr x, w')"
  by (cases "fst (m w)"; cases "m w") (auto simp: esys_def)

lemma esys_world: "esys m w = (r, w') \<Longrightarrow> \<exists>q. m w = (q, w') \<and> r = map_err from_io q"
  by (auto simp: esys_def split: prod.splits)

definition ekeeps :: "(entries \<Rightarrow> bool) \<Rightarrow> 'a eio \<Rightarrow> bool" where
  "ekeeps P m \<longleftrightarrow> (\<forall>w. P (jw_entries w) \<longrightarrow> P (jw_entries (snd (m w))))"

definition yields :: "(entries \<Rightarrow> bool) \<Rightarrow> 'a eio \<Rightarrow> ('a \<Rightarrow> bool) \<Rightarrow> bool" where
  "yields P m R \<longleftrightarrow> (\<forall>w x w'. P (jw_entries w) \<longrightarrow> m w = (Inr x, w') \<longrightarrow> R x)"

lemma ekeepsD: "ekeeps P m \<Longrightarrow> P (jw_entries w) \<Longrightarrow> m w = (r, w') \<Longrightarrow> P (jw_entries w')"
  by (metis ekeeps_def snd_conv)

lemma ekeeps_sys: "keeps P m \<Longrightarrow> ekeeps P (esys m)"
  by (simp add: ekeeps_def keeps_def esys_def case_prod_beta)

lemma ekeeps_return [earned_rules]: "ekeeps P (ereturn x)" "ekeeps P (epure q)"
  by (simp_all add: ekeeps_def ereturn_def epure_def)

lemma ekeeps_lock [earned_rules]: "ekeeps P m \<Longrightarrow> ekeeps P (with_lock poisoned m)"
  by (simp add: with_lock_def ekeeps_return)

lemma ekeeps_bind:
  assumes "ekeeps P m" "yields P m R" "\<And>x. R x \<Longrightarrow> ekeeps P (f x)"
  shows "ekeeps P (ebind m f)"
  unfolding ekeeps_def
proof (intro allI impI)
  fix w :: jworld assume P: "P (jw_entries w)"
  obtain q w' where m: "m w = (q, w')" by fastforce
  with P have "P (jw_entries w')" using assms(1) by (blast intro: ekeepsD)
  then show "P (jw_entries (snd (ebind m f w)))"
    using m P assms(2,3) by (cases q) (auto simp: ebind_def ekeeps_def yields_def)
qed

lemma ekeeps_then: "ekeeps P m \<Longrightarrow> (\<And>x. ekeeps P (f x)) \<Longrightarrow> ekeeps P (ebind m f)"
  by (rule ekeeps_bind [where R = "\<lambda>_. True"]) (simp_all add: yields_def)

lemma ekeeps_pure: "(\<And>x. q = Inr x \<Longrightarrow> ekeeps P (f x)) \<Longrightarrow> ekeeps P (ebind (epure q) f)"
  by (rule ekeeps_bind [where R = "\<lambda>x. q = Inr x"]) (auto simp: yields_def epure_run ekeeps_return)

section \<open>The file\<close>

definition stored :: "entitlement_env \<Rightarrow> entries \<Rightarrow> jnode option" where
  "stored E es = entry_at (state_directory E) STATE_FILE es"

lemma keeps_other_entry:
  assumes "temporary \<noteq> name"
  shows "keeps (\<lambda>es. entry_at dir name es = x) (sys_create_file dir temporary)"
    "keeps (\<lambda>es. entry_at dir name es = x) (sys_write dir temporary bytes)"
  unfolding sys_create_file_def sys_write_def
  by (rule keeps_syscall;
      use assms in \<open>auto simp: no_effect_def entry_at_update bt_get_insert entry_at_def dir_at_update
        simp del: update_dir.simps dir_at.simps split: option.splits\<close>)+

text \<open>The file is replaced as a whole, or not at all.\<close>

lemma replace_file_outcome:
  assumes "replace_file dir temporary name bytes w = (res, w')" "temporary \<noteq> name"
  shows "entry_at dir name (jw_entries w') = entry_at dir name (jw_entries w) \<and> (\<exists>e. res = Inl e)
    \<or> entry_at dir name (jw_entries w') = Some (JFile bytes)"
proof -
  let ?x = "entry_at dir name (jw_entries w)"
  note kept = keeps_other_entry [OF assms(2), where dir = dir and x = ?x]
  have other: "jw_entries v' = jw_entries v" if "sys_other v = (q, v')" for v v' :: jworld and q
    by (rule keeps_same [OF keeps_reads(2) that])
  from assms(1) show ?thesis unfolding replace_file_def
  proof (elim jbind_cases)
    fix e assume "sys_create_file dir temporary w = (Inl e, w')" "res = Inl e"
    then show ?thesis using keepsD [OF kept(1) refl] by blast
  next
    fix u1 w1 e assume "sys_create_file dir temporary w = (Inr u1, w1)" "sys_write dir temporary bytes w1 = (Inl e, w')" "res = Inl e"
    then show ?thesis using keepsD [OF kept(1) refl] keepsD [OF kept(2)] by blast
  next
    fix u1 w1 u2 w2 e assume "sys_create_file dir temporary w = (Inr u1, w1)" "sys_write dir temporary bytes w1 = (Inr u2, w2)"
      "sys_other w2 = (Inl e, w')" "res = Inl e"
    then show ?thesis using keepsD [OF kept(1) refl] keepsD [OF kept(2)] other by metis
  next
    fix u1 w1 u2 w2 u3 w3 e assume "sys_create_file dir temporary w = (Inr u1, w1)"
      "sys_write dir temporary bytes w1 = (Inr u2, w2)" "sys_other w2 = (Inr u3, w3)"
      "sys_rename dir temporary name w3 = (Inl e, w')" "res = Inl e"
    then show ?thesis using keepsD [OF kept(1) refl] keepsD [OF kept(2)] other rename_failed by metis
  next
    fix u1 w1 u2 w2 u3 w3 u4 w4
    assume run: "sys_create_file dir temporary w = (Inr u1, w1)" "sys_write dir temporary bytes w1 = (Inr u2, w2)"
      "sys_other w2 = (Inr u3, w3)" "sys_rename dir temporary name w3 = (Inr u4, w4)" "sync_directory w4 = (res, w')"
    from run(1) have "dir_at dir (jw_entries w) \<noteq> None"
      by (auto simp: sys_create_file_def syscall_def split: list.splits option.splits fault.splits)
    then obtain ds where "holds_dir dir (bt_get ds) (jw_entries w)" by (auto simp: holds_dir_def)
    from ensuresD [OF ensures_create_file this run(1)] have "holds_dir dir ((bt_get ds)(temporary \<mapsto> JFile [])) (jw_entries w1)" by simp
    from ensuresD [OF ensures_write this run(2)] obtain ds' where
      d: "dir_at dir (jw_entries w3) = Some ds'" "bt_get ds' temporary = Some (JFile bytes)"
      using other [OF run(3)] by (auto simp: holds_dir_def)
    with rename_done [OF run(4)] have "entry_at dir name (jw_entries w4) = Some (JFile bytes)"
      by (auto simp: entry_at_update bt_get_insert entry_at_def dir_at_update)
    then show ?thesis using keeps_same [OF keeps_helpers(6) run(5)] by simp
  qed
qed

lemma temporary_not_state: "temporary_name uuid \<noteq> STATE_FILE"
  by (simp add: temporary_name_def STATE_FILE_def)

lemma write_locked_outcome:
  assumes "write_locked E uuid s w = (res, w')"
  shows "stored E (jw_entries w') = stored E (jw_entries w) \<and> (\<exists>e. res = Inl e)
    \<or> (\<exists>b. state_bytes E s = Inr b \<and> stored E (jw_entries w') = Some (JFile b))"
  using assms unfolding write_locked_def stored_def
proof (elim ebind_cases)
  fix b w1 assume "epure (state_bytes E s) w = (Inr b, w1)"
    "esys (replace_file (state_directory E) (temporary_name uuid) STATE_FILE b) w1 = (res, w')"
  then show "entry_at (state_directory E) STATE_FILE (jw_entries w') = entry_at (state_directory E) STATE_FILE (jw_entries w) \<and> (\<exists>e. res = Inl e)
    \<or> (\<exists>b. state_bytes E s = Inr b \<and> entry_at (state_directory E) STATE_FILE (jw_entries w') = Some (JFile b))"
    using replace_file_outcome [OF _ temporary_not_state] by (fastforce simp: epure_run dest!: esys_world)
qed (auto simp: epure_run)

section \<open>Earned states\<close>

definition days_distinct :: "successful_day list \<Rightarrow> bool" where
  "days_distinct days \<longleftrightarrow> distinct (map sd_local_date days) \<and> distinct (map sd_command_id days)
     \<and> distinct (map sd_execution_id days) \<and> distinct (map sd_accepted_version_id days)"

text \<open>Every recorded day is before the end of the trial.\<close>

definition days_in_trial :: "entitlement_env \<Rightarrow> entitlement_state \<Rightarrow> bool" where
  "days_in_trial E s \<longleftrightarrow> list_all (\<lambda>d. case (ee_parse_date E (sd_local_date d), Option.bind (es_genesis_local_date s) (ee_parse_date E)) of
       (Some n, Some genesis) \<Rightarrow> n < genesis + TRIAL_CALENDAR_DAYS | _ \<Rightarrow> False) (es_successful_days s)"

definition five_days :: "entitlement_env \<Rightarrow> entitlement_state \<Rightarrow> bool" where
  "five_days E s \<longleftrightarrow> length (es_successful_days s) = REQUIRED_SUCCESSFUL_DAYS \<and> days_in_trial E s"

definition subscribed :: "entitlement_state \<Rightarrow> subscription_plan list \<Rightarrow> bool" where
  "subscribed s plans \<longleftrightarrow> (case es_subscription s of None \<Rightarrow> False | Some v \<Rightarrow> vs_plan v \<in> set plans)"

text \<open>A debug build can grant what a release build lets only five days earn.\<close>

definition granted_or_earned :: "bool \<Rightarrow> entitlement_env \<Rightarrow> entitlement_state \<Rightarrow> bool" where
  "granted_or_earned debug E s \<longleftrightarrow> five_days E s \<or> debug"

definition unfinished_trial :: "entitlement_env \<Rightarrow> entitlement_state \<Rightarrow> bool" where
  "unfinished_trial E s \<longleftrightarrow> length (es_successful_days s) < REQUIRED_SUCCESSFUL_DAYS \<and> days_in_trial E s \<and> es_subscription s = None"

definition earned :: "bool \<Rightarrow> entitlement_env \<Rightarrow> entitlement_state \<Rightarrow> bool" where
  "earned debug E s \<longleftrightarrow> days_distinct (es_successful_days s) \<and> sorted (map sd_local_date (es_successful_days s))
     \<and> (case es_phase s of
          GenesisIncomplete \<Rightarrow> es_successful_days s = [] \<and> es_subscription s = None
        | TrialActive \<Rightarrow> unfinished_trial E s
        | TrialExpired \<Rightarrow> unfinished_trial E s
        | TrialQualified \<Rightarrow> five_days E s \<and> es_subscription s = None
        | ProMonthly \<Rightarrow> granted_or_earned debug E s \<and> subscribed s [Monthly]
        | ProYearly \<Rightarrow> granted_or_earned debug E s \<and> subscribed s [Yearly]
        | ProLapsed \<Rightarrow> granted_or_earned debug E s \<and> subscribed s [Monthly, Yearly])"

lemmas earned_parts = earned_def unfinished_trial_def five_days_def granted_or_earned_def subscribed_def
  REQUIRED_SUCCESSFUL_DAYS_def

lemma bump_fields [simp]:
  "es_phase (bump s) = es_phase s" "es_successful_days (bump s) = es_successful_days s" "es_subscription (bump s) = es_subscription s"
  "es_migration (bump s) = es_migration s" "es_genesis_local_date (bump s) = es_genesis_local_date s"
  "es_genesis_completed_at (bump s) = es_genesis_completed_at s" "es_schema (bump s) = es_schema s"
  by (simp_all add: bump_def)

lemma days_in_trial_cong:
  "es_successful_days s = es_successful_days t \<Longrightarrow> es_genesis_local_date s = es_genesis_local_date t \<Longrightarrow> days_in_trial E s = days_in_trial E t"
  by (simp add: days_in_trial_def)

lemma days_in_trial_updates [simp]:
  "days_in_trial E (bump s) = days_in_trial E s" "days_in_trial E (s\<lparr>es_phase := p\<rparr>) = days_in_trial E s"
  "days_in_trial E (s\<lparr>es_phase := p, es_subscription := v\<rparr>) = days_in_trial E s"
  "days_in_trial E (s\<lparr>es_revision := n, es_subscription := v\<rparr>) = days_in_trial E s"
  by (rule days_in_trial_cong; simp)+

lemma earned_bump [simp]: "earned debug E (bump s) = earned debug E s"
  by (simp add: earned_parts split: entitlement_phase.split)

lemma earned_default: "earned debug E default_state"
  by (simp add: earned_def default_state_def days_distinct_def)

text \<open>A number of the file may be rounded by the canonical form; nothing else is.\<close>

definition forget_numbers :: "entitlement_state \<Rightarrow> entitlement_state" where
  "forget_numbers s = s\<lparr>es_revision := 0, es_subscription := map_option (\<lambda>v. v\<lparr>vs_provider_revision := 0\<rparr>) (es_subscription s)\<rparr>"

definition state_reads_back :: "entitlement_env \<Rightarrow> bool" where
  "state_reads_back E \<longleftrightarrow> (\<forall>s b t. canonical_to_vec (ee_externals E) (entitlement_state_json s) = Inr b
     \<longrightarrow> ee_parse_state E b = Inr t \<longrightarrow> forget_numbers t = forget_numbers s)"

text \<open>A printed date that can be parsed is the date.\<close>

definition dates_read_back :: "entitlement_env \<Rightarrow> bool" where
  "dates_read_back E \<longleftrightarrow> (\<forall>n m. ee_parse_date E (ee_date_string E n) = Some m \<longrightarrow> m = n)"

lemma earned_forget: "earned debug E (forget_numbers s) = earned debug E s"
  by (cases "es_subscription s")
    (simp_all add: earned_parts forget_numbers_def split: entitlement_phase.split)

lemma refresh_earned: "refresh_phase E s now d = Inr (s', changed) \<Longrightarrow> earned debug E s \<Longrightarrow> earned debug E s'"
  by (auto simp: refresh_phase_def earned_parts split: entitlement_phase.splits option.splits if_splits)

text \<open>A trial that is still active after the refresh has not reached its last day.\<close>

lemma refresh_active:
  assumes "refresh_phase E s now d = Inr (s', changed)" "es_phase s' = TrialActive"
  shows "s' = s \<and> \<not> changed \<and> (\<exists>text genesis. es_genesis_local_date s = Some text \<and> ee_parse_date E text = Some genesis
    \<and> d < genesis + TRIAL_CALENDAR_DAYS)"
  using assms
  by (auto simp: refresh_phase_def parse_date_def date_plus_def split: entitlement_phase.splits option.splits if_splits)

lemma refresh_paid:
  assumes "refresh_phase E s now d = Inr (s', changed)" "es_phase s' = ProMonthly \<or> es_phase s' = ProYearly"
  shows "s' = s \<and> \<not> changed \<and> (\<exists>v t. es_subscription s = Some v \<and> ext_rfc3339 (ee_externals E) (vs_paid_through v) = Some t
    \<and> \<not> time_le t now)"
  using assms
  by (auto simp: refresh_phase_def entitlement_time_def split: entitlement_phase.splits option.splits if_splits)

lemma evidence_loop_valid:
  "evidence_loop E seen days = Inr u \<Longrightarrow> days_distinct days \<and> list_all (\<lambda>d. ee_parse_date E (sd_local_date d) \<noteq> None) days
     \<and> set (map sd_local_date seen) \<inter> set (map sd_local_date days) = {}
     \<and> set (map sd_command_id seen) \<inter> set (map sd_command_id days) = {}
     \<and> set (map sd_execution_id seen) \<inter> set (map sd_execution_id days) = {}
     \<and> set (map sd_accepted_version_id seen) \<inter> set (map sd_accepted_version_id days) = {}"
proof (induction E seen days arbitrary: u rule: evidence_loop.induct)
  case (2 E seen d days)
  then have loop: "evidence_loop E (d # seen) days = Inr u" and d: "ee_parse_date E (sd_local_date d) \<noteq> None"
    by (auto simp: validate_evidence_def parse_date_def split: option.splits)
  have fresh: "sd_local_date d \<notin> set (map sd_local_date seen)" "sd_command_id d \<notin> set (map sd_command_id seen)"
    "sd_execution_id d \<notin> set (map sd_execution_id seen)" "sd_accepted_version_id d \<notin> set (map sd_accepted_version_id seen)"
    using 2(2) by (auto simp: err_if_def split: if_splits)
  have "days_distinct days \<and> list_all (\<lambda>d. ee_parse_date E (sd_local_date d) \<noteq> None) days
     \<and> set (map sd_local_date (d # seen)) \<inter> set (map sd_local_date days) = {}
     \<and> set (map sd_command_id (d # seen)) \<inter> set (map sd_command_id days) = {}
     \<and> set (map sd_execution_id (d # seen)) \<inter> set (map sd_execution_id days) = {}
     \<and> set (map sd_accepted_version_id (d # seen)) \<inter> set (map sd_accepted_version_id days) = {}"
    using 2(1,2) loop by auto
  then show ?case using fresh d by (auto simp: days_distinct_def)
qed (simp add: days_distinct_def)

lemma validated_days:
  assumes "validate_entitlement_state E s = Inr u"
  shows "days_distinct (es_successful_days s)" "length (es_successful_days s) \<le> REQUIRED_SUCCESSFUL_DAYS"
    "list_all (\<lambda>d. ee_parse_date E (sd_local_date d) \<noteq> None) (es_successful_days s)"
  using assms evidence_loop_valid [of E "[]" "es_successful_days s"]
  by (auto simp: validate_entitlement_state_def err_if_def split: if_splits)

lemma begun_earned: "earned debug E s \<Longrightarrow> es_phase s = GenesisIncomplete \<Longrightarrow> earned debug E (begun s timestamp date m)"
  by (simp add: earned_parts begun_def days_distinct_def days_in_trial_def)

lemma subscribed_earned:
  "earned debug E s \<Longrightarrow> es_phase s \<in> {TrialQualified, ProLapsed, ProMonthly, ProYearly}
    \<Longrightarrow> earned debug E (bump (s\<lparr>es_phase := plan_phase (vs_plan v), es_subscription := Some v\<rparr>))"
  by (cases "vs_plan v") (auto simp: earned_parts plan_phase_def)

lemma with_day_earned:
  assumes "earned debug E s" "es_phase s = TrialActive" "es_genesis_local_date s = Some text" "ee_parse_date E text = Some genesis"
    "n < genesis + TRIAL_CALENDAR_DAYS" "sd_local_date d = ee_date_string E n" "dates_read_back E"
    "validate_entitlement_state E (with_day s d) = Inr u"
  shows "earned debug E (with_day s d)"
proof -
  let ?t = "with_day s d"
  have days: "es_successful_days ?t = sort_key sd_local_date (es_successful_days s @ [d])"
    and fields: "es_genesis_local_date ?t = Some text" "es_subscription ?t = es_subscription s"
    and phase: "es_phase ?t = (if REQUIRED_SUCCESSFUL_DAYS \<le> length (es_successful_days ?t) then TrialQualified else TrialActive)"
    using assms(2,3) by (simp_all add: with_day_def Let_def)
  note valid = validated_days [OF assms(8)]
  have old: "unfinished_trial E s" using assms(1,2) by (simp add: earned_def)
  have "ee_parse_date E (sd_local_date d) = Some n"
    using valid(3) assms(6,7) by (fastforce simp: days list_all_iff dates_read_back_def)
  then have "days_in_trial E ?t"
    using old assms(3-5) by (auto simp: days_in_trial_def unfinished_trial_def list_all_iff days fields)
  then show ?thesis
    using valid(1,2) old phase fields by (auto simp: earned_def unfinished_trial_def five_days_def days)
qed

section \<open>Histories\<close>

definition holds_earned :: "bool \<Rightarrow> entitlement_env \<Rightarrow> entries \<Rightarrow> bool" where
  "holds_earned debug E es \<longleftrightarrow> stored E es = None
     \<or> (\<exists>s b. stored E es = Some (JFile b) \<and> state_bytes E s = Inr b \<and> earned debug E s)"

lemma read_found: "sys_read dir name w = (Inr b, w') \<Longrightarrow> entry_at dir name (jw_entries w) = Some (JFile b)"
  by (auto simp: sys_read_def syscall_def split: list.splits option.splits fault.splits jnode.splits)

lemma read_locked_found:
  assumes "read_locked E w = (Inr s, w')"
  shows "\<exists>b. stored E (jw_entries w) = Some (JFile b) \<and> length b \<le> MAXIMUM_STATE_BYTES \<and> ee_parse_state E b = Inr s
    \<and> validate_entitlement_state E s = Inr () \<and> jw_entries w' = jw_entries w"
proof -
  from assms obtain node w1 w2 contents where
    run: "sys_stat (state_directory E) STATE_FILE w = (Inr node, w1)" "sys_other w1 = (Inr (), w2)"
      "sys_read (state_directory E) STATE_FILE w2 = (Inr contents, w')"
    and small: "\<not> (case node of JFile bytes \<Rightarrow> length bytes > MAXIMUM_STATE_BYTES | _ \<Rightarrow> True)"
    and parse: "ee_parse_state E (take (MAXIMUM_STATE_BYTES + 1) contents) = Inr s" "validate_entitlement_state E s = Inr ()"
    unfolding read_locked_def by (auto elim!: ebind_cases simp: esys_done epure_run Let_def err_if_def split: if_splits)
  have same: "jw_entries w1 = jw_entries w" "jw_entries w2 = jw_entries w1" "jw_entries w' = jw_entries w2"
    using stat_same [OF run(1)] keeps_same [OF keeps_reads(2) run(2)] keeps_same [OF keeps_reads(3) run(3)] by simp_all
  then have "node = JFile contents" using stat_found [OF run(1)] read_found [OF run(3)] by simp
  then show ?thesis using small parse same stat_found [OF run(1)] by (auto simp: stored_def)
qed

lemma ekeeps_read: "ekeeps P (read_locked E)"
  unfolding read_locked_def Let_def by (intro ekeeps_then ekeeps_sys keeps_rules ekeeps_return)

lemma state_bytes_canonical: "state_bytes E s = Inr b \<Longrightarrow> canonical_to_vec (ee_externals E) (entitlement_state_json s) = Inr b"
  by (auto simp: state_bytes_def)

lemma stored_earned:
  "state_reads_back E \<Longrightarrow> holds_earned debug E es \<Longrightarrow> stored E es = Some (JFile b) \<Longrightarrow> ee_parse_state E b = Inr t \<Longrightarrow> earned debug E t"
  unfolding holds_earned_def state_reads_back_def
  by (metis earned_forget jnode.inject(1) option.distinct(1) option.inject state_bytes_canonical)

lemma earned_read [earned_rules]:
  assumes "state_reads_back E" "\<And>s. earned debug E s \<Longrightarrow> ekeeps (holds_earned debug E) (f s)"
  shows "ekeeps (holds_earned debug E) (ebind (read_locked E) f)"
proof (rule ekeeps_bind [OF ekeeps_read _ assms(2)])
  show "yields (holds_earned debug E) (read_locked E) (earned debug E)"
    unfolding yields_def using read_locked_found stored_earned [OF assms(1)] by metis
qed

lemma earned_write: "earned debug E s \<Longrightarrow> ekeeps (holds_earned debug E) (write_locked E uuid s)"
  unfolding ekeeps_def
proof (intro allI impI)
  fix w :: jworld
  assume s: "earned debug E s" and held: "holds_earned debug E (jw_entries w)"
  obtain res w' where "write_locked E uuid s w = (res, w')" by fastforce
  with write_locked_outcome [OF this] show "holds_earned debug E (jw_entries (snd (write_locked E uuid s w)))"
    using s held unfolding holds_earned_def by auto
qed

lemma earned_commit [earned_rules]: "earned debug E s \<Longrightarrow> ekeeps (holds_earned debug E) (commit E uuid s)"
  unfolding commit_def by (intro ekeeps_then earned_write ekeeps_return)

lemma earned_status_at: "state_reads_back E \<Longrightarrow> ekeeps (holds_earned debug E) (status_at E poisoned uuid now d)"
  unfolding status_at_def
  by (intro ekeeps_lock earned_read ekeeps_pure; clarsimp split del: if_split)
    (simp add: ekeeps_return earned_commit refresh_earned)

lemma earned_begin:
  "state_reads_back E \<Longrightarrow> ekeeps (holds_earned debug E) (complete_genesis_at E poisoned uuid now d)"
  "state_reads_back E \<Longrightarrow> ekeeps (holds_earned debug E) (migrate_existing_pairing_at E poisoned uuid now d)"
  unfolding complete_genesis_at_def migrate_existing_pairing_at_def Let_def
  by ((intro ekeeps_lock earned_read, assumption),
      auto intro!: ekeeps_pure ekeeps_return earned_commit begun_earned)+

lemma earned_grant: "state_reads_back E \<Longrightarrow> ekeeps (holds_earned True E) (grant_development_at E poisoned uuid now)"
  unfolding grant_development_at_def Let_def
  by (intro ekeeps_lock earned_read ekeeps_pure earned_commit) (auto simp: earned_parts)

lemma earned_install:
  "state_reads_back E \<Longrightarrow> ekeeps (holds_earned debug E) (install_verified_subscription E poisoned uuid v now d)"
  unfolding install_verified_subscription_def Let_def
  by (intro ekeeps_lock earned_read ekeeps_pure; clarsimp split del: if_split)
    (auto intro!: ekeeps_pure ekeeps_return earned_commit subscribed_earned dest: refresh_earned simp del: earned_bump
      simp: err_if_def split: if_splits)

lemma earned_new_day:
  assumes "earned debug E s0" "refresh_phase E s0 now n = Inr (s, changed)" "es_phase s = TrialActive"
    "sd_local_date d = ee_date_string E n" "dates_read_back E" "validate_entitlement_state E (with_day s d) = Inr u"
  shows "earned debug E (with_day s d)"
  using refresh_active [OF assms(2,3)] refresh_earned [OF assms(2,1)] assms(3-6) by (blast intro: with_day_earned)

lemma earned_record:
  assumes "state_reads_back E" "dates_read_back E"
  shows "ekeeps (holds_earned debug E) (record_successful_day_at E poisoned uuid d now n)"
proof -
  let ?keeps = "ekeeps (holds_earned debug E)"
  have active: "?keeps (ebind (epure (validate_evidence E d)) (\<lambda>_.
         ebind (epure (err_if (sd_local_date d \<noteq> ee_date_string E n)
           (EInvalid ''successful-day evidence local date differs from the injected clock''))) (\<lambda>_.
         if \<not> duplicate_day (es_successful_days s) d then
           ebind (epure (validate_entitlement_state E (with_day s d))) (\<lambda>_. commit E uuid (with_day s d))
         else if changed then commit E uuid (bump s)
         else ereturn (status_from s))))"
    if "earned debug E s0" "refresh_phase E s0 now n = Inr (s, changed)" "es_phase s = TrialActive" for s0 s changed
  proof (intro ekeeps_pure)
    fix x y assume "err_if (sd_local_date d \<noteq> ee_date_string E n)
      (EInvalid ''successful-day evidence local date differs from the injected clock'') = Inr y"
    then have "sd_local_date d = ee_date_string E n" by (simp add: err_if_def split: if_splits)
    then show "?keeps (if \<not> duplicate_day (es_successful_days s) d then
           ebind (epure (validate_entitlement_state E (with_day s d))) (\<lambda>_. commit E uuid (with_day s d))
         else if changed then commit E uuid (bump s) else ereturn (status_from s))"
      using that assms(2) refresh_earned [OF that(2,1)]
      by (auto intro!: ekeeps_pure earned_commit ekeeps_return intro: earned_new_day)
  qed
  show ?thesis
    unfolding record_successful_day_at_def
    by (intro ekeeps_lock earned_read assms(1) ekeeps_pure; clarsimp split del: if_split)
      (simp add: active ekeeps_return earned_commit refresh_earned)
qed

lemma earned_require: "state_reads_back E \<Longrightarrow> ekeeps (holds_earned debug E) (require_new_factory_mutation E poisoned uuid utc)"
  unfolding require_new_factory_mutation_def status_now_def
  by (intro ekeeps_then earned_status_at) (simp_all add: ekeeps_return)

text \<open>A directory on the path of the file is made only where there was none, and is empty.\<close>

lemma held_create_dir:
  "keeps (holds_earned debug E) (sys_create_dir [] (ee_service E))"
  "keeps (holds_earned debug E) (sys_create_dir [ee_service E] ''entitlement'')"
  unfolding sys_create_dir_def
  by (rule keeps_syscall;
      auto simp: no_effect_def holds_earned_def stored_def entry_at_def state_directory_def bt_get_insert bt_get_def [of "[]"]
        split: option.splits jnode.splits)+

lemma held_ensure_directory:
  assumes "keeps P (sys_create_dir dir name)"
  shows "ekeeps P (ensure_entitlement_directory dir name)"
  unfolding ekeeps_def
proof (intro allI impI)
  fix w :: jworld assume P: "P (jw_entries w)"
  obtain q w' where stat: "sys_stat dir name w = (q, w')" by fastforce
  have other: "ekeeps P (esys sys_other)" by (intro ekeeps_sys keeps_rules)
  have k: "ekeeps P (ebind (epure r) (\<lambda>_. esys sys_other))" "ekeeps P (ebind (esys (sys_create_dir dir name)) (\<lambda>_. esys sys_other))"
    for r :: "entitlement_error + unit"
    using other assms by (auto intro!: ekeeps_then ekeeps_return ekeeps_sys)
  have "P (jw_entries w')" using P stat_same [OF stat] by simp
  then show "P (jw_entries (snd (ensure_entitlement_directory dir name w)))"
    using k stat by (cases q) (auto simp: ensure_entitlement_directory_def ekeeps_def)
qed

lemma ekeeps_exists: "ekeeps P (path_exists E dir name)"
  by (auto simp: ekeeps_def path_exists_def split: prod.split sum.split) (metis stat_same)+

lemma earned_open: "state_reads_back E \<Longrightarrow> ekeeps (holds_earned debug E) (open_entitlement E uuid)"
  unfolding open_entitlement_def
  by (intro ekeeps_then ekeeps_return held_ensure_directory held_create_dir ekeeps_exists)
    (auto intro: earned_write earned_default ekeeps_then ekeeps_read ekeeps_return)

text \<open>
  The steps of a history: any operation, with any arguments, any clock and any faults. Only a
  debug build has \<open>grant_development_at\<close>.
\<close>

inductive entitlement_step :: "bool \<Rightarrow> entitlement_env \<Rightarrow> entries \<Rightarrow> entries \<Rightarrow> bool" for debug E where
  opened: "open_entitlement E uuid w = (r1, w') \<Longrightarrow> entitlement_step debug E (jw_entries w) (jw_entries w')"
| refreshed: "status_at E poisoned uuid now d w = (r2, w') \<Longrightarrow> entitlement_step debug E (jw_entries w) (jw_entries w')"
| completed: "complete_genesis_at E poisoned uuid now d w = (r2, w') \<Longrightarrow> entitlement_step debug E (jw_entries w) (jw_entries w')"
| migrated: "migrate_existing_pairing_at E poisoned uuid now d w = (r2, w') \<Longrightarrow> entitlement_step debug E (jw_entries w) (jw_entries w')"
| counted: "record_successful_day_at E poisoned uuid day now d w = (r2, w') \<Longrightarrow> entitlement_step debug E (jw_entries w) (jw_entries w')"
| installed: "install_verified_subscription E poisoned uuid v now d w = (r2, w') \<Longrightarrow> entitlement_step debug E (jw_entries w) (jw_entries w')"
| required: "require_new_factory_mutation E poisoned uuid utc w = (r1, w') \<Longrightarrow> entitlement_step debug E (jw_entries w) (jw_entries w')"
| granted: "debug \<Longrightarrow> grant_development_at E poisoned uuid now w = (r2, w') \<Longrightarrow> entitlement_step debug E (jw_entries w) (jw_entries w')"

lemma step_earned:
  assumes "entitlement_step debug E es es'" "state_reads_back E" "dates_read_back E" "holds_earned debug E es"
  shows "holds_earned debug E es'"
  using assms(1)
proof (cases rule: entitlement_step.cases)
  case granted
  then show ?thesis using assms ekeepsD [OF earned_grant [OF assms(2)]] by simp
qed (use assms in \<open>blast intro: ekeepsD [OF earned_open] ekeepsD [OF earned_status_at] ekeepsD [OF earned_begin(1)]
    ekeepsD [OF earned_begin(2)] ekeepsD [OF earned_record] ekeepsD [OF earned_install] ekeepsD [OF earned_require]\<close>)+

lemma history_earned:
  assumes "(entitlement_step debug E)\<^sup>*\<^sup>* es es'" "state_reads_back E" "dates_read_back E" "holds_earned debug E es"
  shows "holds_earned debug E es'"
  using assms(1) by (induction rule: rtranclp_induct) (use assms in \<open>auto intro: step_earned\<close>)

section \<open>Runs without faults\<close>

definition calm :: "jworld \<Rightarrow> bool" where
  "calm w \<longleftrightarrow> list_all (\<lambda>f. f = None) (jw_faults w)"

lemma calm_syscall:
  assumes "calm w"
  shows "syscall act partial w = (case act (jw_entries w) of
    (r, es) \<Rightarrow> (map_err JIo r, w\<lparr>jw_entries := es, jw_faults := tl (jw_faults w)\<rparr>))"
  using assms by (cases "jw_faults w") (auto simp: syscall_def calm_def)

lemma calm_updates [simp]:
  "calm (w\<lparr>jw_faults := fs\<rparr>) \<longleftrightarrow> list_all (\<lambda>f. f = None) fs" "calm (w\<lparr>jw_entries := es, jw_faults := fs\<rparr>) \<longleftrightarrow> list_all (\<lambda>f. f = None) fs"
  by (simp_all add: calm_def)

lemma list_all_tl [simp]: "list_all P xs \<Longrightarrow> list_all P (tl xs)"
  by (cases xs) simp_all

lemma calm_faults [simp]: "calm w \<Longrightarrow> list_all (\<lambda>f. f = None) (jw_faults w)"
  by (simp add: calm_def)

lemma calm_runs:
  assumes "calm w"
  shows "entry_at dir name (jw_entries w) = Some node \<Longrightarrow> sys_stat dir name w = (Inr node, w\<lparr>jw_faults := tl (jw_faults w)\<rparr>)"
    "entry_at dir name (jw_entries w) = Some (JFile b) \<Longrightarrow> sys_read dir name w = (Inr b, w\<lparr>jw_faults := tl (jw_faults w)\<rparr>)"
    "sys_other w = (Inr (), w\<lparr>jw_faults := tl (jw_faults w)\<rparr>)"
  using assms by (simp_all add: sys_stat_def sys_read_def sys_other_def calm_syscall)

lemma calm_replace:
  assumes "calm w" "dir_at dir (jw_entries w) = Some ds" "bt_get ds temporary = None" "temporary \<noteq> name"
    "bt_get ds name = None \<or> bt_get ds name = Some (JFile old)"
  shows "\<exists>w'. replace_file dir temporary name bytes w = (Inr (), w') \<and> calm w' \<and> entry_at dir name (jw_entries w') = Some (JFile bytes)"
  using assms
  by (auto simp: replace_file_def jbind_def sync_directory_def sys_create_file_def sys_write_def sys_rename_def sys_other_def calm_syscall
      entry_at_def dir_at_update bt_get_insert)

text \<open>
  \<open>open\<close> takes every error of the check for the file as its absence: when that call fails, the
  state on the disk is replaced by the initial one.
\<close>

lemma open_after_fault_resets:
  assumes "ee_absolute E" "dir_at (state_directory E) (jw_entries w) = Some ds"
    "jw_faults w = [None, None, None, None, Some (Fault e k)]" "state_bytes E default_state = Inr b"
    "bt_get ds (temporary_name uuid) = None" "stored E (jw_entries w) = Some (JFile old)"
  shows "\<exists>w'. open_entitlement E uuid w = (Inr (), w') \<and> stored E (jw_entries w') = Some (JFile b)"
proof -
  let ?w = "w\<lparr>jw_faults := []\<rparr>"
  obtain top inner where path: "bt_get (jw_entries w) (ee_service E) = Some (JDir top)" "bt_get top ''entitlement'' = Some (JDir inner)"
    using assms(2) by (auto simp: state_directory_def split: option.splits jnode.splits)
  have "open_entitlement E uuid w = write_locked E uuid default_state ?w"
    using assms(1,3) path
    by (simp add: open_entitlement_def ebind_def epure_def err_if_def ensure_entitlement_directory_def esys_def sys_stat_def
        sys_other_def syscall_def entry_at_def no_effect_def path_exists_def)
  moreover have "calm ?w" by (simp add: calm_def)
  ultimately show ?thesis
    using calm_replace [of ?w "state_directory E" ds "temporary_name uuid" STATE_FILE old b] assms temporary_not_state [of uuid]
    by (auto simp: write_locked_def ebind_def epure_def esys_def stored_def entry_at_def)
qed

section \<open>New work\<close>

text \<open>What lets the machine start new work at \<open>utc\<close>: a trial of fewer than five days that has
  not reached its end, or a subscription that is still paid.\<close>

definition entitled :: "bool \<Rightarrow> entitlement_env \<Rightarrow> entitlement_state \<Rightarrow> rfc3339_time \<Rightarrow> bool" where
  "entitled debug E s utc \<longleftrightarrow>
     es_phase s = TrialActive \<and> length (es_successful_days s) < REQUIRED_SUCCESSFUL_DAYS
       \<and> (case Option.bind (es_genesis_local_date s) (ee_parse_date E) of
            None \<Rightarrow> False | Some genesis \<Rightarrow> local_date_now E utc < genesis + TRIAL_CALENDAR_DAYS)
     \<or> (es_phase s = ProMonthly \<or> es_phase s = ProYearly) \<and> granted_or_earned debug E s
       \<and> (case Option.bind (map_option vs_paid_through (es_subscription s)) (ext_rfc3339 (ee_externals E)) of
            None \<Rightarrow> False | Some paid_through \<Rightarrow> \<not> time_le paid_through utc)"

lemma allowed_entitled:
  assumes "refresh_phase E s utc (local_date_now E utc) = Inr (s', changed)" "phase_mutations_allowed (es_phase s')" "earned debug E s"
  shows "s' = s \<and> \<not> changed \<and> entitled debug E s utc"
proof (cases "es_phase s' = TrialActive")
  case True
  from refresh_active [OF assms(1) True] True assms(3) show ?thesis
    by (auto simp: entitled_def earned_def unfinished_trial_def)
next
  case False
  with assms(2) have p: "es_phase s' = ProMonthly \<or> es_phase s' = ProYearly" by (auto simp: phase_mutations_allowed_def)
  from refresh_paid [OF assms(1) this] p assms(3) show ?thesis by (auto simp: entitled_def earned_def)
qed

lemma required_entitled:
  assumes "require_new_factory_mutation E poisoned uuid utc w = (Inr u, w')" "holds_earned debug E (jw_entries w)" "state_reads_back E"
  shows "\<exists>s b. stored E (jw_entries w') = Some (JFile b) \<and> ee_parse_state E b = Inr s \<and> entitled debug E s utc"
proof -
  from assms(1) obtain status where
    run: "status_at E poisoned uuid utc (local_date_now E utc) w = (Inr status, w')" "ts_factory_mutations_allowed status"
    by (auto simp: require_new_factory_mutation_def status_now_def epure_run ereturn_run elim!: ebind_cases split: if_splits)
  then obtain s w1 s' changed where
    read: "read_locked E w = (Inr s, w1)" and refresh: "refresh_phase E s utc (local_date_now E utc) = Inr (s', changed)"
    and rest: "(if changed then commit E uuid (bump s') else ereturn (status_from s')) w1 = (Inr status, w')"
    by (auto simp: status_at_def with_lock_def epure_run elim!: ebind_cases split: if_splits)
  have status: "status = status_from (if changed then bump s' else s')"
    using rest by (auto simp: commit_def ereturn_run elim!: ebind_cases split: if_splits)
  then have allowed: "phase_mutations_allowed (es_phase s')" using run(2) by (simp add: status_from_def split: if_splits)
  from read_locked_found [OF read] obtain b where
    b: "stored E (jw_entries w) = Some (JFile b)" "ee_parse_state E b = Inr s" "jw_entries w1 = jw_entries w" by blast
  from allowed_entitled [OF refresh allowed stored_earned [OF assms(3,2) b(1,2)]] rest b show ?thesis
    by (auto simp: ereturn_run)
qed

text \<open>C24: Through every history of openings, refreshes, completions, migrations, recorded days and
  installed receipts, with any clock and any faults, the entitlement file is absent or holds the
  complete bytes of one state that was earned: its days are distinct in date, command, execution
  and Version and lie before the end of the trial; a trial that is not qualified has fewer than
  five of them; a qualified one, and in a release build every subscription, paid or lapsed, rests
  on five.\<close>

theorem entitlement_earned:
  assumes "(entitlement_step debug E)\<^sup>*\<^sup>* es es'" "stored E es = None" "state_reads_back E" "dates_read_back E"
  shows "stored E es' = None
    \<or> (\<exists>s b. stored E es' = Some (JFile b) \<and> state_bytes E s = Inr b \<and> earned debug E s)"
  using history_earned [OF assms(1,3,4)] assms(2) by (simp add: holds_earned_def)


end
