(* ===== verification/Billing_Receipt.thy ===== *)
theory Billing_Receipt
  imports Entitlement_History
begin

text \<open>
  \<open>billing.rs\<close> of the application crate: the verification of a receipt that the billing server
  has signed, and what a verified receipt does to the entitlement state.
\<close>

section \<open>Receipts\<close>

definition RECEIPT_SCHEMA :: string where "RECEIPT_SCHEMA = ''tohseno.private-entitlement-receipt/1''"
definition RECEIPT_ENVELOPE_SCHEMA :: string where "RECEIPT_ENVELOPE_SCHEMA = ''tohseno.private-entitlement-envelope/1''"
definition INSTALLATION_DOMAIN :: string where "INSTALLATION_DOMAIN = ''tohseno.billing.installation.v1'' @ [CHR 0x00]"
definition MAX_RECEIPT_BYTES :: nat where "MAX_RECEIPT_BYTES = 32 * 1024"

record receipt_payload =
  rp_schema :: string
  rp_receipt_id :: string
  rp_entitlement_id :: string
  rp_installation_binding :: string
  rp_plan :: subscription_plan
  rp_issued_at :: string
  rp_paid_through :: string
  rp_cancellation_at_period_end :: bool
  rp_provider_revision :: u64

record signed_receipt =
  sr_schema :: string
  sr_payload_base64url :: string
  sr_signature_base64url :: string

datatype receipt_error = RInvalid string | RWrongInstallation | RSignature

fun display_receipt_error :: "receipt_error \<Rightarrow> string" where
  "display_receipt_error (RInvalid message) = message"
| "display_receipt_error RWrongInstallation = ''entitlement receipt belongs to another installation''"
| "display_receipt_error RSignature = ''entitlement receipt signature is invalid''"

definition receipt_payload_json :: "receipt_payload \<Rightarrow> json" where
  "receipt_payload_json r = JObj [(''schema'', JStr (rp_schema r)), (''receipt_id'', JStr (rp_receipt_id r)),
     (''entitlement_id'', JStr (rp_entitlement_id r)), (''installation_binding'', JStr (rp_installation_binding r)),
     (''plan'', JStr (plan_name (rp_plan r))), (''issued_at'', JStr (rp_issued_at r)),
     (''paid_through'', JStr (rp_paid_through r)), (''cancellation_at_period_end'', JBool (rp_cancellation_at_period_end r)),
     (''provider_revision'', JNum (unat (rp_provider_revision r)))]"

text \<open>
  The environment: base64 without padding, the parsers \<open>serde\<close> derives, and of \<open>p256\<close> the
  parsers of a public key and of a signature and the verification of a message.
\<close>

record billing_env =
  be_externals :: externals
  be_encode :: "byte list \<Rightarrow> string"
  be_decode :: "string \<Rightarrow> byte list option"
  be_parse_envelope :: "byte list \<Rightarrow> string + signed_receipt"
  be_parse_payload :: "byte list \<Rightarrow> string + receipt_payload"
  be_public_key :: "byte list \<Rightarrow> (bytes32 \<times> bytes32) option"
  be_signature :: "byte list \<Rightarrow> (bytes32 \<times> bytes32) option"
  be_verify :: "bytes32 \<times> bytes32 \<Rightarrow> byte list \<Rightarrow> bytes32 \<times> bytes32 \<Rightarrow> bool"

text \<open>\<open>map_err(|_| e)\<close> on a function that may fail.\<close>

definition or_refuse :: "receipt_error \<Rightarrow> 'a option \<Rightarrow> receipt_error + 'a" where
  "or_refuse e v = (case v of None \<Rightarrow> Inl e | Some x \<Rightarrow> Inr x)"

definition installation_preimage :: "string \<Rightarrow> byte list" where
  "installation_preimage installation = str_bytes (INSTALLATION_DOMAIN @ installation)"

definition installation_binding :: "billing_env \<Rightarrow> string \<Rightarrow> receipt_error + string" where
  "installation_binding B installation =
     bind_result (err_if (installation = [] \<or> length installation > 128 \<or> \<not> list_all subscription_id_char installation)
       (RInvalid ''installation identity is invalid'')) (\<lambda>_.
       Inr (be_encode B (to_be_bytes (ext_sha256 (be_externals B) (installation_preimage installation)))))"

definition receipt_time :: "billing_env \<Rightarrow> string \<Rightarrow> receipt_error + rfc3339_time" where
  "receipt_time B value = or_refuse (RInvalid ''entitlement receipt timestamp is invalid'') (ext_rfc3339 (be_externals B) value)"

definition validate_receipt_identifier :: "string \<Rightarrow> string \<Rightarrow> receipt_error + unit" where
  "validate_receipt_identifier value message =
     err_if (value = [] \<or> length value > 160 \<or> \<not> list_all subscription_id_char value) (RInvalid message)"

definition hex_sha256 :: "billing_env \<Rightarrow> byte list \<Rightarrow> string" where
  "hex_sha256 B bytes = concat (map hex_pair (to_be_bytes (ext_sha256 (be_externals B) bytes)))"

text \<open>The part of \<open>verify_receipt\<close> before the signature: the envelope, the payload bytes and the receipt.\<close>

definition receipt_contents ::
  "billing_env \<Rightarrow> byte list \<Rightarrow> string \<Rightarrow> receipt_error + (signed_receipt \<times> byte list \<times> receipt_payload)" where
  "receipt_contents B envelope_bytes installation =
     bind_result (err_if (envelope_bytes = [] \<or> length envelope_bytes > MAX_RECEIPT_BYTES)
       (RInvalid ''entitlement receipt is empty or oversized'')) (\<lambda>_.
     bind_result (map_err (\<lambda>_. RInvalid ''entitlement receipt envelope is invalid'') (be_parse_envelope B envelope_bytes)) (\<lambda>envelope.
     bind_result (err_if (sr_schema envelope \<noteq> RECEIPT_ENVELOPE_SCHEMA)
       (RInvalid ''entitlement receipt envelope schema is unsupported'')) (\<lambda>_.
     bind_result (or_refuse (RInvalid ''entitlement receipt payload encoding is invalid'') (be_decode B (sr_payload_base64url envelope))) (\<lambda>payload.
     bind_result (err_if (payload = [] \<or> length payload > MAX_RECEIPT_BYTES)
       (RInvalid ''entitlement receipt payload is empty or oversized'')) (\<lambda>_.
     bind_result (map_err (\<lambda>_. RInvalid ''entitlement receipt payload is invalid'') (be_parse_payload B payload)) (\<lambda>receipt.
     bind_result (map_err (\<lambda>_. RInvalid ''entitlement receipt payload is not canonical'')
       (canonical_to_vec (be_externals B) (receipt_payload_json receipt))) (\<lambda>canonical.
     bind_result (err_if (canonical \<noteq> payload \<or> rp_schema receipt \<noteq> RECEIPT_SCHEMA)
       (RInvalid ''entitlement receipt payload is noncanonical'')) (\<lambda>_.
     bind_result (validate_receipt_identifier (rp_receipt_id receipt) ''receipt identifier is invalid'') (\<lambda>_.
     bind_result (validate_receipt_identifier (rp_entitlement_id receipt) ''entitlement identifier is invalid'') (\<lambda>_.
     bind_result (err_if (rp_provider_revision receipt = 0) (RInvalid ''entitlement provider revision is invalid'')) (\<lambda>_.
     bind_result (installation_binding B installation) (\<lambda>binding.
     bind_result (err_if (rp_installation_binding receipt \<noteq> binding) RWrongInstallation) (\<lambda>_.
       Inr (envelope, payload, receipt))))))))))))))"

definition verify_receipt ::
  "billing_env \<Rightarrow> byte list \<Rightarrow> string \<Rightarrow> string \<Rightarrow> rfc3339_time \<Rightarrow> receipt_error + subscription" where
  "verify_receipt B envelope_bytes pinned_key installation now =
     bind_result (receipt_contents B envelope_bytes installation) (\<lambda>(envelope, payload, receipt).
     bind_result (or_refuse (RInvalid ''billing verification key encoding is invalid'') (be_decode B pinned_key)) (\<lambda>public_key.
     bind_result (or_refuse (RInvalid ''billing verification key is invalid'') (be_public_key B public_key)) (\<lambda>verifying_key.
     bind_result (or_refuse (RInvalid ''entitlement receipt signature encoding is invalid'')
       (be_decode B (sr_signature_base64url envelope))) (\<lambda>signature_bytes.
     bind_result (or_refuse RSignature (be_signature B signature_bytes)) (\<lambda>signature.
     bind_result (err_if (\<not> be_verify B verifying_key payload signature) RSignature) (\<lambda>_.
     bind_result (receipt_time B (rp_issued_at receipt)) (\<lambda>issued_at.
     bind_result (receipt_time B (rp_paid_through receipt)) (\<lambda>paid_through.
     bind_result (err_if (\<not> time_le issued_at now \<or> time_le paid_through now \<or> time_le paid_through issued_at)
       (RInvalid ''entitlement receipt period is invalid'')) (\<lambda>_.
       Inr \<lparr>vs_entitlement_id = rp_entitlement_id receipt, vs_plan = rp_plan receipt, vs_issued_at = rp_issued_at receipt,
         vs_paid_through = rp_paid_through receipt, vs_cancellation_at_period_end = rp_cancellation_at_period_end receipt,
         vs_provider_revision = rp_provider_revision receipt, vs_receipt_digest = hex_sha256 B envelope_bytes\<rparr>)))))))))"

section \<open>What verification shows\<close>

lemma or_refuse_eq_Inr [simp]: "or_refuse e v = Inr x \<longleftrightarrow> v = Some x"
  by (simp add: or_refuse_def split: option.split)

lemma hex_sha256_shape: "length (hex_sha256 B bytes) = 64" "list_all is_lower_hex_char (hex_sha256 B bytes)"
  by (simp_all add: hex_sha256_def hex_pairs_lower)

text \<open>A verified receipt satisfies the validation of the entitlement store.\<close>

lemma verified_receipt_valid:
  assumes "verify_receipt B bytes key installation now = Inr v" "ee_externals E = be_externals B"
  shows "validate_subscription E v now = Inr ()"
  using assms hex_sha256_shape [of B bytes]
  by (auto simp: verify_receipt_def receipt_contents_def validate_subscription_def validate_subscription_shape_def entitlement_time_def
      receipt_time_def validate_receipt_identifier_def err_if_def split: if_splits)

text \<open>A receipt is good for one installation: two that accept it have the same identity, or
  their identities collide under SHA-256.\<close>

lemma receipt_for_one_installation:
  assumes "verify_receipt B bytes key i now = Inr v" "verify_receipt B bytes key' j now' = Inr v'"
    "\<And>b. be_decode B (be_encode B b) = Some b"
  shows "i = j \<or> installation_preimage i \<noteq> installation_preimage j
    \<and> ext_sha256 (be_externals B) (installation_preimage i) = ext_sha256 (be_externals B) (installation_preimage j)"
proof -
  from assms(1,2) have "be_encode B (to_be_bytes (ext_sha256 (be_externals B) (installation_preimage i)))
      = be_encode B (to_be_bytes (ext_sha256 (be_externals B) (installation_preimage j)))"
    by (auto simp: verify_receipt_def receipt_contents_def installation_binding_def err_if_def split: if_splits)
  then have "to_be_bytes (ext_sha256 (be_externals B) (installation_preimage i))
      = to_be_bytes (ext_sha256 (be_externals B) (installation_preimage j))"
    using assms(3) by (metis option.inject)
  then have "ext_sha256 (be_externals B) (installation_preimage i) = ext_sha256 (be_externals B) (installation_preimage j)"
    by simp
  then show ?thesis by (simp add: installation_preimage_def)
qed

section \<open>What a verified receipt does\<close>

lemma calm_read:
  assumes "calm w" "stored E (jw_entries w) = Some (JFile b)" "length b \<le> MAXIMUM_STATE_BYTES" "ee_parse_state E b = Inr s"
    "validate_entitlement_state E s = Inr ()"
  shows "\<exists>w'. read_locked E w = (Inr s, w') \<and> calm w' \<and> jw_entries w' = jw_entries w"
  using assms
  by (simp add: read_locked_def ebind_def esys_def stored_def calm_runs epure_def err_if_def Let_def)

lemma calm_commit:
  assumes "calm w" "dir_at (state_directory E) (jw_entries w) = Some ds" "bt_get ds (temporary_name uuid) = None"
    "stored E (jw_entries w) = Some (JFile old)" "state_bytes E s = Inr b"
  shows "\<exists>w'. commit E uuid s w = (Inr (status_from s), w') \<and> calm w' \<and> stored E (jw_entries w') = Some (JFile b)"
  using calm_replace [OF assms(1-3) temporary_not_state, of old b] assms(4,5)
  by (auto simp: commit_def write_locked_def ebind_def epure_def esys_def stored_def entry_at_def ereturn_def assms(2))

lemma subscribed_valid:
  assumes "validate_entitlement_state E s = Inr ()" "es_phase s \<noteq> GenesisIncomplete" "validate_subscription E v now = Inr ()"
  shows "validate_entitlement_state E (bump (s\<lparr>es_phase := plan_phase (vs_plan v), es_subscription := Some v\<rparr>)) = Inr ()"
proof -
  have "saturating_add n 1 \<noteq> 0" for n :: u64
    by (auto simp: saturating_add_def unat_word_ariths dest!: arg_cong [where f = unat])
  then have "es_revision (bump t) \<noteq> 0" for t by (simp add: bump_def)
  then show ?thesis
    using assms
    by (auto simp: validate_entitlement_state_def validate_genesis_def validate_pro_def validate_subscription_def plan_phase_def
        err_if_def split: option.splits if_splits subscription_plan.splits)
qed

lemma refresh_none: "es_phase s = TrialQualified \<or> es_phase s = ProLapsed \<Longrightarrow> refresh_phase E s now d = Inr (s, False)"
  by (auto simp: refresh_phase_def)

lemma install_run:
  assumes "validate_subscription E v now = Inr ()" "calm w" "stored E (jw_entries w) = Some (JFile old)"
    "length old \<le> MAXIMUM_STATE_BYTES" "ee_parse_state E old = Inr s" "validate_entitlement_state E s = Inr ()"
    "es_phase s = TrialQualified \<or> es_phase s = ProLapsed" "receipt_decision (es_subscription s) v = Inr True"
    "dir_at (state_directory E) (jw_entries w) = Some ds" "bt_get ds (temporary_name uuid) = None"
    "t = bump (s\<lparr>es_phase := plan_phase (vs_plan v), es_subscription := Some v\<rparr>)" "state_bytes E t = Inr b"
  shows "\<exists>w'. install_verified_subscription E False uuid v now d w = (Inr (status_from t), w') \<and> calm w'
    \<and> stored E (jw_entries w') = Some (JFile b)"
proof -
  obtain w1 where read: "read_locked E w = (Inr s, w1)" "calm w1" "jw_entries w1 = jw_entries w"
    using calm_read [OF assms(2-6)] by blast
  have "install_verified_subscription E False uuid v now d w = commit E uuid t w1"
    using assms(1,7,8,11) read(1) subscribed_valid [OF assms(6) _ assms(1)]
    by (auto simp: install_verified_subscription_def with_lock_def ebind_def epure_def refresh_none err_if_def Let_def)
  then show ?thesis using calm_commit [OF read(2), of E ds uuid old t b] assms(3,9,10,12) read(3) by simp
qed

lemma require_run:
  assumes "calm w" "stored E (jw_entries w) = Some (JFile b)" "length b \<le> MAXIMUM_STATE_BYTES" "ee_parse_state E b = Inr t"
    "validate_entitlement_state E t = Inr ()" "es_phase t = ProMonthly \<or> es_phase t = ProYearly" "es_subscription t = Some v"
    "ext_rfc3339 (ee_externals E) (vs_paid_through v) = Some paid" "\<not> time_le paid utc"
  shows "\<exists>w'. require_new_factory_mutation E False uuid utc w = (Inr (), w')"
proof -
  obtain w1 where "read_locked E w = (Inr t, w1)" using calm_read [OF assms(1-5)] by blast
  moreover have "refresh_phase E t utc d = Inr (t, False)" for d
    using assms(6-9) by (auto simp: refresh_phase_def entitlement_time_def)
  ultimately show ?thesis using assms(6)
    by (auto simp: require_new_factory_mutation_def status_now_def status_at_def with_lock_def ebind_def epure_def ereturn_def
        status_from_def phase_mutations_allowed_def)
qed


end
