(* ===== verification/Entitlement_Witnesses.thy ===== *)
theory Entitlement_Witnesses
  imports Billing_Receipt Samples
begin

text \<open>The properties of the entitlement store at concrete inputs: a trial that begins, and a
  receipt installed after five days.\<close>

definition sample_time :: "int \<Rightarrow> rfc3339_time" where
  "sample_time n = \<lparr>rt_offset = 0, rt_nanosecond = 0, rt_unix = n\<rparr>"

definition trial_state :: entitlement_state where
  "trial_state = \<lparr>es_schema = ENTITLEMENT_STATE_SCHEMA, es_revision = 2, es_phase = TrialActive,
     es_genesis_completed_at = Some ''t0'', es_genesis_local_date = Some ''d1'', es_successful_days = [],
     es_subscription = None, es_migration = None\<rparr>"

definition sample_day :: "string \<Rightarrow> successful_day" where
  "sample_day d = \<lparr>sd_local_date = d, sd_command_id = d, sd_execution_id = d, sd_accepted_version_id = d, sd_accepted_at = ''t0''\<rparr>"

definition qualified_state :: entitlement_state where
  "qualified_state = trial_state\<lparr>es_revision := 7, es_phase := TrialQualified,
     es_successful_days := map sample_day [''d1'', ''d2'', ''d3'', ''d4'', ''d5'']\<rparr>"

definition sample_receipt :: receipt_payload where
  "sample_receipt = \<lparr>rp_schema = RECEIPT_SCHEMA, rp_receipt_id = ''r1'', rp_entitlement_id = ''n1'', rp_installation_binding = ''bound'',
     rp_plan = Monthly, rp_issued_at = ''t0'', rp_paid_through = ''t1'', rp_cancellation_at_period_end = False,
     rp_provider_revision = 1\<rparr>"

definition sample_subscription :: subscription where
  "sample_subscription = \<lparr>vs_entitlement_id = ''n1'', vs_plan = Monthly, vs_issued_at = ''t0'', vs_paid_through = ''t1'',
     vs_cancellation_at_period_end = False, vs_provider_revision = 1,
     vs_receipt_digest = concat (map hex_pair (to_be_bytes (5 :: bytes32)))\<rparr>"

definition paid_state :: entitlement_state where
  "paid_state = bump (qualified_state\<lparr>es_phase := plan_phase (vs_plan sample_subscription), es_subscription := Some sample_subscription\<rparr>)"

definition entitlement_canonicalize :: "json \<Rightarrow> string + byte list" where
  "entitlement_canonicalize v =
     (if v = entitlement_state_json default_state then Inr [1]
      else if v = entitlement_state_json trial_state then Inr [2]
      else if v = entitlement_state_json paid_state then Inr [4]
      else if v = receipt_payload_json sample_receipt then Inr [5]
      else Inl ''unknown'')"

definition entitlement_externals :: externals where
  "entitlement_externals = sample_externals\<lparr>ext_sha256 := (\<lambda>b. 5), ext_canonicalize := entitlement_canonicalize,
     ext_rfc3339 := (\<lambda>s. if s = ''t0'' then Some (sample_time 86400) else if s = ''t1'' then Some (sample_time 864000) else None)\<rparr>"

definition sample_dates :: "(int \<times> string) list" where
  "sample_dates = [(1, ''d1''), (2, ''d2''), (3, ''d3''), (4, ''d4''), (5, ''d5'')]"

definition entitlement_sample :: entitlement_env where
  "entitlement_sample = \<lparr>ee_externals = entitlement_externals,
     ee_parse_state = (\<lambda>b. if b = [1] then Inr default_state else if b = [2] then Inr trial_state
        else if b = [3] then Inr qualified_state else if b = [4] then Inr paid_state else Inl ''not a state''),
     ee_service = ''service'', ee_absolute = True, ee_link_resolves = False,
     ee_parse_date = map_of (map prod.swap sample_dates), ee_date_string = (\<lambda>n. case map_of sample_dates n of Some d \<Rightarrow> d | None \<Rightarrow> ''''),
     ee_format_time = (\<lambda>t. Some ''t0''), ee_calendar_date = (\<lambda>y m d. None), ee_localtime = (\<lambda>t. None)\<rparr>"

definition billing_sample :: billing_env where
  "billing_sample = \<lparr>be_externals = entitlement_externals, be_encode = (\<lambda>b. ''bound''), be_decode = (\<lambda>s. Some [5]),
     be_parse_envelope = (\<lambda>b. Inr \<lparr>sr_schema = RECEIPT_ENVELOPE_SCHEMA, sr_payload_base64url = ''p'', sr_signature_base64url = ''s''\<rparr>),
     be_parse_payload = (\<lambda>b. Inr sample_receipt), be_public_key = (\<lambda>b. Some (1, 2)), be_signature = (\<lambda>b. Some (3, 4)),
     be_verify = (\<lambda>key message signature. key = (1, 2) \<and> message = [5] \<and> signature = (3, 4))\<rparr>"

definition holding :: "byte list \<Rightarrow> entries" where
  "holding b = [(''service'', JDir [(''entitlement'', JDir [(''state-v1.json'', JFile b)])])]"

lemma sample_fields [simp]:
  "ee_externals entitlement_sample = entitlement_externals" "be_externals billing_sample = entitlement_externals"
  "ee_service entitlement_sample = ''service''" "ee_absolute entitlement_sample" "ee_parse_state entitlement_sample [1] = Inr default_state"
  "ee_parse_state entitlement_sample [2] = Inr trial_state" "ee_parse_state entitlement_sample [3] = Inr qualified_state"
  "ee_parse_state entitlement_sample [4] = Inr paid_state" "ee_format_time entitlement_sample t = Some ''t0''"
  "ee_localtime entitlement_sample u = None" "ee_date_string entitlement_sample 1 = ''d1''"
  "ee_parse_date entitlement_sample ''d1'' = Some 1" "ee_parse_date entitlement_sample ''d2'' = Some 2"
  "ee_parse_date entitlement_sample ''d3'' = Some 3" "ee_parse_date entitlement_sample ''d4'' = Some 4"
  "ee_parse_date entitlement_sample ''d5'' = Some 5" "ext_rfc3339 entitlement_externals ''t0'' = Some (sample_time 86400)"
  "ext_rfc3339 entitlement_externals ''t1'' = Some (sample_time 864000)" "date_of (sample_time 86400) = 1"
  by (simp_all add: entitlement_sample_def billing_sample_def entitlement_externals_def sample_dates_def sample_time_def date_of_def)

lemma sample_dates_read_back: "dates_read_back entitlement_sample"
  by (auto simp: dates_read_back_def entitlement_sample_def sample_dates_def split: if_splits option.splits)

lemma phase_name_inject: "phase_name p = phase_name q \<longleftrightarrow> p = q"
  by (cases p; cases q) simp_all

lemma plan_name_inject: "plan_name p = plan_name q \<longleftrightarrow> p = q"
  by (cases p; cases q) simp_all

lemma subscription_json_inject: "subscription_json v = subscription_json u \<longleftrightarrow> v = u"
  by (auto simp: subscription_json_def plan_name_inject simp flip: word_unat_eq_iff intro!: subscription.equality)

lemma day_json_inject: "map successful_day_json ds = map successful_day_json es \<longleftrightarrow> ds = es"
  by (rule inj_map_eq_map, rule injI) (auto simp: successful_day_json_def intro!: successful_day.equality)

text \<open>A state is determined by its JSON value.\<close>

lemma state_json_inject: "entitlement_state_json s = entitlement_state_json t \<Longrightarrow> s = t"
  by (cases "es_genesis_completed_at s"; cases "es_genesis_local_date s"; cases "es_subscription s"; cases "es_migration s";
      cases "es_genesis_completed_at t"; cases "es_genesis_local_date t"; cases "es_subscription t"; cases "es_migration t")
    (auto simp: entitlement_state_json_def phase_name_inject subscription_json_inject day_json_inject simp flip: word_unat_eq_iff intro!: entitlement_state.equality)

lemma sample_states_differ: "default_state \<noteq> trial_state" "default_state \<noteq> paid_state" "trial_state \<noteq> paid_state"
  by (auto simp: default_state_def trial_state_def paid_state_def qualified_state_def plan_phase_def sample_subscription_def bump_def
      dest: arg_cong [where f = es_phase])

lemma receipt_not_state [simp]:
  "entitlement_state_json s \<noteq> receipt_payload_json r" "receipt_payload_json r \<noteq> entitlement_state_json s"
  by (simp_all add: entitlement_state_json_def receipt_payload_json_def)

lemma sample_canonical:
  "canonical_to_vec entitlement_externals (entitlement_state_json default_state) = Inr [1]"
  "canonical_to_vec entitlement_externals (entitlement_state_json trial_state) = Inr [2]"
  "canonical_to_vec entitlement_externals (entitlement_state_json paid_state) = Inr [4]"
  "canonical_to_vec entitlement_externals (receipt_payload_json sample_receipt) = Inr [5]"
  using sample_states_differ
  by (auto simp: canonical_to_vec_def entitlement_externals_def entitlement_canonicalize_def dest!: state_json_inject)

lemma sample_state_reads_back: "state_reads_back entitlement_sample"
proof -
  have "s = t" if "canonical_to_vec entitlement_externals (entitlement_state_json s) = Inr b" "ee_parse_state entitlement_sample b = Inr t" for s b t
    using that
    by (auto simp: canonical_to_vec_def entitlement_externals_def entitlement_canonicalize_def entitlement_sample_def
        dest: state_json_inject split: if_splits)
  then show ?thesis by (auto simp: state_reads_back_def)
qed

text \<open>The store opened on an empty disk, and the trial begun.\<close>

lemmas entitlement_runs = ebind_def epure_def ereturn_def esys_def with_lock_def state_directory_def STATE_FILE_def temporary_name_def
  replace_file_def write_locked_def commit_def read_locked_def path_exists_def ensure_entitlement_directory_def sync_directory_def
  jbind_def syscall_def no_effect_def sys_stat_def sys_other_def sys_create_dir_def sys_create_file_def sys_write_def sys_read_def
  sys_rename_def entry_at_def err_if_def bt_get_insert bt_get_remove bt.get_empty Let_def

lemma default_valid: "validate_entitlement_state E default_state = Inr ()"
  by (simp add: validate_entitlement_state_def default_state_def validate_genesis_def validate_pro_def err_if_def)

lemma trial_valid: "validate_entitlement_state entitlement_sample trial_state = Inr ()"
  by (simp add: validate_entitlement_state_def trial_state_def validate_genesis_def validate_pro_def err_if_def parse_date_def
      entitlement_time_def)

lemma sample_state_bytes: "state_bytes entitlement_sample default_state = Inr [1]" "state_bytes entitlement_sample trial_state = Inr [2]"
  by (simp_all add: state_bytes_def default_valid trial_valid sample_canonical err_if_def MAXIMUM_STATE_BYTES_def)

lemma begun_trial: "begun default_state ''t0'' ''d1'' None = trial_state"
  by (simp add: begun_def bump_def default_state_def trial_state_def saturating_add_def)

lemma default_fields: "es_phase default_state = GenesisIncomplete" "es_migration default_state = None"
  by (simp_all add: default_state_def)

lemma open_run: "open_entitlement entitlement_sample ''u'' \<lparr>jw_entries = [], jw_faults = []\<rparr> = (Inr (), \<lparr>jw_entries = holding [1], jw_faults = []\<rparr>)"
  by (simp add: open_entitlement_def entitlement_runs sample_state_bytes holding_def bt_get_def bt_remove_def)

lemma genesis_run:
  "complete_genesis_at entitlement_sample False ''u'' (sample_time 86400) 1 \<lparr>jw_entries = holding [1], jw_faults = []\<rparr>
   = (Inr (status_from trial_state), \<lparr>jw_entries = holding [2], jw_faults = []\<rparr>)"
  by (simp add: complete_genesis_at_def entitlement_runs sample_state_bytes holding_def default_valid trial_valid MAXIMUM_STATE_BYTES_def
      format_timestamp_def bt_get_def bt_remove_def begun_trial default_fields)

lemma trial_reached: "(entitlement_step False entitlement_sample)\<^sup>*\<^sup>* [] (holding [2])"
proof -
  have "entitlement_step False entitlement_sample [] (holding [1])"
    using entitlement_step.opened [OF open_run, where debug = False] by simp
  moreover have "entitlement_step False entitlement_sample (holding [1]) (holding [2])"
    using entitlement_step.completed [OF genesis_run, where debug = False] by simp
  ultimately show ?thesis by simp
qed

lemma sample_stored: "stored entitlement_sample [] = None" "stored entitlement_sample (holding b) = Some (JFile b)"
  by (simp_all add: stored_def entry_at_def state_directory_def STATE_FILE_def holding_def bt_get_def)

theorem entitlement_earned_witness:
  "stored entitlement_sample (holding [2]) = Some (JFile [2])
   \<and> (\<exists>s b. stored entitlement_sample (holding [2]) = Some (JFile b) \<and> state_bytes entitlement_sample s = Inr b
        \<and> earned False entitlement_sample s)"
  using entitlement_earned [OF trial_reached sample_stored(1) sample_state_reads_back sample_dates_read_back]
  by (auto simp: sample_stored)

lemma require_trial_run:
  "require_new_factory_mutation entitlement_sample False ''u'' (sample_time 86400) \<lparr>jw_entries = holding [2], jw_faults = []\<rparr>
   = (Inr (), \<lparr>jw_entries = holding [2], jw_faults = []\<rparr>)"
proof -
  have "refresh_phase entitlement_sample trial_state (sample_time 86400) 1 = Inr (trial_state, False)"
    by (simp add: refresh_phase_def trial_state_def parse_date_def date_plus_def TRIAL_CALENDAR_DAYS_def DATE_MAX_def)
  moreover have "ts_factory_mutations_allowed (status_from trial_state)"
    by (simp add: status_from_def trial_state_def phase_mutations_allowed_def)
  ultimately show ?thesis
    by (simp add: require_new_factory_mutation_def status_now_def status_at_def local_date_now_def entitlement_runs holding_def
        trial_valid MAXIMUM_STATE_BYTES_def bt_get_def)
qed


section \<open>A receipt after five days\<close>

lemma sample_identifier_chars: "c \<in> set ''macr1n'' \<Longrightarrow> subscription_id_char c"
  by (auto simp: subscription_id_char_def is_ascii_alphanumeric_def is_ascii_digit_def is_ascii_lowercase_def is_ascii_uppercase_def)

lemma receipt_verified: "verify_receipt billing_sample [1] ''key'' ''mac'' (sample_time 86400) = Inr sample_subscription"
proof -
  have "receipt_contents billing_sample [1] ''mac'' =
      Inr (\<lparr>sr_schema = RECEIPT_ENVELOPE_SCHEMA, sr_payload_base64url = ''p'', sr_signature_base64url = ''s''\<rparr>, [5], sample_receipt)"
    using sample_canonical(4)
    by (simp add: receipt_contents_def billing_sample_def MAX_RECEIPT_BYTES_def err_if_def or_refuse_def installation_binding_def
        validate_receipt_identifier_def sample_receipt_def sample_identifier_chars)
  then show ?thesis
    by (simp add: verify_receipt_def billing_sample_def or_refuse_def err_if_def receipt_time_def sample_receipt_def)
      (simp add: sample_time_def time_le_def sample_subscription_def hex_sha256_def entitlement_externals_def)
qed

lemma qualified_valid: "validate_entitlement_state entitlement_sample qualified_state = Inr ()"
proof -
  have day: "validate_evidence entitlement_sample (sample_day d) = Inr ()" if "d \<in> {''d1'', ''d2'', ''d3'', ''d4'', ''d5''}" for d
    using that by (auto simp: validate_evidence_def sample_day_def parse_date_def entitlement_time_def validate_evidence_id_def err_if_def
        evidence_char_def is_ascii_alphanumeric_def is_ascii_digit_def is_ascii_lowercase_def is_ascii_uppercase_def)
  have fields: "sd_local_date (sample_day d) = d" "sd_command_id (sample_day d) = d" "sd_execution_id (sample_day d) = d"
    "sd_accepted_version_id (sample_day d) = d" for d by (simp_all add: sample_day_def)
  show ?thesis
    by (simp add: validate_entitlement_state_def qualified_state_def trial_state_def validate_genesis_def validate_pro_def err_if_def
        parse_date_def entitlement_time_def day fields REQUIRED_SUCCESSFUL_DAYS_def)
qed


end
