(* ===== verification/Protocol_Documents.thy ===== *)
theory Protocol_Documents
  imports Source_Tree_Files Identity
begin

text \<open>
  Three small documents of the protocol crate: the commitment to the inputs of a genesis
  (\<open>genesis.rs\<close>), continuity statements between installations (\<open>continuity.rs\<close>) and
  conformance reports (\<open>conformance.rs\<close>).
\<close>

section \<open>Genesis inputs\<close>

definition GENESIS_INPUT_DOMAIN :: "byte list" where
  "GENESIS_INPUT_DOMAIN = str_bytes (''TOHSENO-GENESIS-INPUT-V1'' @ [CHR 0x00])"

definition MAX_GENESIS_IMAGES :: nat where "MAX_GENESIS_IMAGES = 8"

record genesis_image =
  gi_filename :: string
  gi_content_sha256 :: bytes32

definition validate_filename :: "(string \<Rightarrow> string) \<Rightarrow> string \<Rightarrow> unit result" where
  "validate_filename nfc filename =
     err_if (filename = [] \<or> filename = ''.'' \<or> filename = ''..'' \<or> List.member filename (CHR ''/'')
         \<or> List.member filename (CHR 0x5C) \<or> list_ex is_control (str_chars filename) \<or> nfc filename \<noteq> filename)
       (invalid ''genesis.image.filename''
         ''must be a nonempty NFC-normalized filename without paths or control characters'')"

definition make_genesis_image ::
  "externals \<Rightarrow> (string \<Rightarrow> string) \<Rightarrow> string \<Rightarrow> byte list \<Rightarrow> genesis_image result" where
  "make_genesis_image E nfc filename raw_bytes =
     bind_result (validate_filename nfc filename) (\<lambda>_.
       Inr \<lparr>gi_filename = filename, gi_content_sha256 = sha256 E raw_bytes\<rparr>)"

fun images_stream :: "(string \<Rightarrow> string) \<Rightarrow> string list \<Rightarrow> genesis_image list \<Rightarrow> byte list result" where
  "images_stream nfc seen [] = Inr []"
| "images_stream nfc seen (entry # images) =
     bind_result (validate_filename nfc (gi_filename entry)) (\<lambda>_.
     bind_result (err_if (List.member seen (gi_filename entry))
         (invalid ''genesis.images'' ''contains a duplicate normalized filename'')) (\<lambda>_.
     bind_result (ok_or (invalid ''genesis.image.filename'' ''is too large to encode'')
         (u32_try_from (length (gi_filename entry)))) (\<lambda>len.
     bind_result (images_stream nfc (gi_filename entry # seen) images) (\<lambda>rest.
       Inr (to_be_bytes len @ str_bytes (gi_filename entry) @ to_be_bytes (gi_content_sha256 entry) @ rest)))))"

definition genesis_input_sha256 ::
  "externals \<Rightarrow> (string \<Rightarrow> string) \<Rightarrow> byte list \<Rightarrow> genesis_image list \<Rightarrow> bytes32 result" where
  "genesis_input_sha256 E nfc prompt images =
     bind_result (ok_or (invalid ''genesis.prompt'' ''is too large to encode'') (u64_try_from (length prompt))) (\<lambda>prompt_len.
     bind_result (err_if (length images > MAX_GENESIS_IMAGES)
         (invalid ''genesis.images'' (''must contain at most '' @ show_nat MAX_GENESIS_IMAGES @ '' images''))) (\<lambda>_.
     bind_result (ok_or (invalid ''genesis.images'' ''contains too many entries'') (u64_try_from (length images))) (\<lambda>image_count.
     bind_result (images_stream nfc [] (sort_key gi_filename images)) (\<lambda>stream.
       Inr (sha256 E (GENESIS_INPUT_DOMAIN @ to_be_bytes prompt_len @ prompt @ to_be_bytes image_count @ stream))))))"

fun collect_images ::
  "externals \<Rightarrow> (string \<Rightarrow> string) \<Rightarrow> (string \<times> byte list) list \<Rightarrow> genesis_image list result" where
  "collect_images E nfc [] = Inr []"
| "collect_images E nfc ((filename, bytes) # files) =
     bind_result (make_genesis_image E nfc filename bytes) (\<lambda>entry.
     bind_result (collect_images E nfc files) (\<lambda>images. Inr (entry # images)))"

definition genesis_input_sha256_from_bytes ::
  "externals \<Rightarrow> (string \<Rightarrow> string) \<Rightarrow> byte list \<Rightarrow> (string \<times> byte list) list \<Rightarrow> bytes32 result" where
  "genesis_input_sha256_from_bytes E nfc prompt images =
     bind_result (collect_images E nfc images) (genesis_input_sha256 E nfc prompt)"

section \<open>The commitment binds prompt and images\<close>

text \<open>An image is encoded as a source entry is.\<close>

definition image_entry :: "genesis_image \<Rightarrow> source_tree_entry" where
  "image_entry i = \<lparr>te_path = gi_filename i, te_content_sha256 = gi_content_sha256 i\<rparr>"

lemma image_entry_inject: "image_entry i = image_entry j \<longleftrightarrow> i = j"
  by (cases i; cases j) (simp add: image_entry_def)

definition genesis_stream :: "byte list \<Rightarrow> (string \<times> byte list) list \<Rightarrow> externals \<Rightarrow> byte list" where
  "genesis_stream prompt files E = GENESIS_INPUT_DOMAIN @ to_be_bytes (of_nat (length prompt) :: u64) @ prompt
     @ to_be_bytes (of_nat (length files) :: u64) @ concat (map entry_code (sort_key te_path (map (file_entry E) files)))"

lemma images_stream_ok:
  "images_stream nfc seen is = Inr stream \<Longrightarrow>
     stream = concat (map entry_code (map image_entry is)) \<and> (\<forall>e \<in> set (map image_entry is). entry_fits e)"
  by (induction "is" arbitrary: seen stream)
    (auto simp: entry_code_def entry_fits_def image_entry_def u32_try_from_def split: if_splits)

lemma collect_images_ok:
  "collect_images E nfc files = Inr is \<Longrightarrow> map image_entry is = map (file_entry E) files"
  by (induction files arbitrary: "is")
    (auto simp: make_genesis_image_def image_entry_def file_entry_def sha256_def)

lemma sort_key_map: "sort_key f (map g xs) = map g (sort_key (f \<circ> g) xs)"
proof (induction xs)
  case (Cons x xs)
  have "insort_key f (g x) (map g ys) = map g (insort_key (f \<circ> g) x ys)" for ys
    by (induction ys) auto
  with Cons show ?case by (simp add: comp_def)
qed simp

lemma genesis_from_bytes_ok:
  assumes "genesis_input_sha256_from_bytes E nfc prompt files = Inr d"
  shows "d = ext_sha256 E (genesis_stream prompt files E)" "length prompt < 2 ^ 64"
    "\<forall>e \<in> set (map (file_entry E) files). entry_fits e"
proof -
  from assms obtain "is" stream where c: "collect_images E nfc files = Inr is" and l: "length prompt < 2 ^ 64"
      and s: "images_stream nfc [] (sort_key gi_filename is) = Inr stream"
      and d: "d = sha256 E (GENESIS_INPUT_DOMAIN @ to_be_bytes (of_nat (length prompt) :: u64) @ prompt
        @ to_be_bytes (of_nat (length is) :: u64) @ stream)"
    by (auto simp: genesis_input_sha256_from_bytes_def genesis_input_sha256_def u64_try_from_def split: if_splits)
  have m: "map image_entry is = map (file_entry E) files" using c by (rule collect_images_ok)
  then have len: "length is = length files" by (metis length_map)
  have "te_path \<circ> image_entry = gi_filename" by (simp add: fun_eq_iff image_entry_def)
  then have sorted: "map image_entry (sort_key gi_filename is) = sort_key te_path (map (file_entry E) files)"
    by (simp flip: m add: sort_key_map)
  show "d = ext_sha256 E (genesis_stream prompt files E)"
    using images_stream_ok [OF s] by (simp add: d genesis_stream_def sha256_def sorted len)
  show "length prompt < 2 ^ 64" by (rule l)
  have "set (map image_entry (sort_key gi_filename is)) = set (map (file_entry E) files)"
    unfolding sorted by simp
  then show "\<forall>e \<in> set (map (file_entry E) files). entry_fits e" using images_stream_ok [OF s] by metis
qed

text \<open>
  The genesis commitment binds its inputs: two pairs of a prompt and named images have the
  same commitment only if the prompts are equal and the images agree in names and contents,
  or SHA-256 collides on the two streams or on two images of the same name.
\<close>

lemma genesis_input_binds:
  assumes "genesis_input_sha256_from_bytes E nfc prompt files = Inr d"
    "genesis_input_sha256_from_bytes E nfc prompt' files' = Inr d"
  shows "prompt = prompt' \<and> set files = set files'
    \<or> sha_collision E (genesis_stream prompt files E) (genesis_stream prompt' files' E)
    \<or> (\<exists>(p, b) \<in> set files. \<exists>(q, b') \<in> set files'. q = p \<and> sha_collision E b b')"
proof (cases "genesis_stream prompt files E = genesis_stream prompt' files' E")
  case True
  note a = genesis_from_bytes_ok [OF assms(1)] and b = genesis_from_bytes_ok [OF assms(2)]
  let ?es = "\<lambda>files. sort_key te_path (map (file_entry E) files)"
  have "to_be_bytes (of_nat (length prompt) :: u64) @ prompt
        @ (to_be_bytes (of_nat (length files) :: u64) @ concat (map entry_code (?es files)))
      = to_be_bytes (of_nat (length prompt') :: u64) @ prompt'
        @ (to_be_bytes (of_nat (length files') :: u64) @ concat (map entry_code (?es files')))"
    using True by (simp add: genesis_stream_def)
  then have "prompt = prompt' \<and> to_be_bytes (of_nat (length files) :: u64) @ concat (map entry_code (?es files))
      = to_be_bytes (of_nat (length files') :: u64) @ concat (map entry_code (?es files'))"
    by (rule counted_append_inject [where 'w = 64]) (use a(2) b(2) in simp_all)
  then have p: "prompt = prompt'" and c: "concat (map entry_code (?es files)) = concat (map entry_code (?es files'))"
    by simp_all
  from c have "?es files = ?es files'" using a(3) b(3) by (intro entry_stream.concat_inject) auto
  then have "set (map (file_entry E) files) = set (map (file_entry E) files')" by (metis set_sort)
  then have "file_entry E ` set files = file_entry E ` set files'" by simp
  then show ?thesis using p entries_bind_files [of E files files'] by blast
qed (use genesis_from_bytes_ok(1) [OF assms(1)] genesis_from_bytes_ok(1) [OF assms(2)] in \<open>simp add: sha_collision_def\<close>)

section \<open>Continuity statements\<close>

definition CONTINUITY_SCHEMA :: string where "CONTINUITY_SCHEMA = ''tohseno.continuity/1''"
definition CONTINUITY_STATEMENT_SCHEMA :: string where
  "CONTINUITY_STATEMENT_SCHEMA = ''tohseno.continuity-statement/1''"

record continuity_audience =
  au_shot_id :: shot_id
  au_installation_id :: "bytes32 option"

record continuity_statement =
  cs_schema :: string
  cs_issuer :: installation_identity
  cs_audience :: continuity_audience
  cs_originating_shot_id :: shot_id
  cs_claims :: "string list"
  cs_nonce :: bytes32
  cs_issued_at :: u64
  cs_expires_at :: u64

text \<open>The loop of \<open>validate_claim\<close>: index and \<open>previous_separator\<close> are its variables.\<close>

fun claim_loop :: "nat \<Rightarrow> bool \<Rightarrow> string \<Rightarrow> bool result" where
  "claim_loop index previous_separator [] = Inr previous_separator"
| "claim_loop index previous_separator (c # cs) =
     (let separator = (c = CHR ''.'' \<or> c = CHR ''_'' \<or> c = CHR ''-'')
      in if \<not> (is_ascii_lowercase c \<or> is_ascii_digit c \<or> separator)
           \<or> (separator \<and> (index = 0 \<or> previous_separator))
         then Inl (invalid ''continuity.claim'' ''must be a lowercase scoped token'')
         else claim_loop (Suc index) separator cs)"

definition validate_claim :: "string \<Rightarrow> unit result" where
  "validate_claim value =
     bind_result (validate_token ''continuity.claim'' value 1 64) (\<lambda>_.
     bind_result (claim_loop 0 False value) (\<lambda>previous_separator.
       err_if previous_separator (invalid ''continuity.claim'' ''must not end with punctuation'')))"

text \<open>The claims loop compares each claim with the one before it.\<close>

fun claims_loop :: "string option \<Rightarrow> string list \<Rightarrow> unit result" where
  "claims_loop prior [] = Inr ()"
| "claims_loop prior (claim # claims) =
     bind_result (validate_claim claim) (\<lambda>_.
     bind_result (err_if (case prior of None \<Rightarrow> False | Some p \<Rightarrow> p \<ge> claim)
         (invalid ''continuity.claims'' ''must be unique and strictly sorted in ASCII lexicographic order'')) (\<lambda>_.
       claims_loop (Some claim) claims))"

definition continuity_statement_validate :: "externals \<Rightarrow> continuity_statement \<Rightarrow> unit result" where
  "continuity_statement_validate E s = checks [
     err_if (cs_schema s \<noteq> CONTINUITY_STATEMENT_SCHEMA)
       (invalid ''continuity.statement.schema'' (''must be '' @ CONTINUITY_STATEMENT_SCHEMA)),
     installation_validate E (cs_issuer s),
     err_if (is_zero (au_shot_id (cs_audience s)) \<or> is_zero (cs_originating_shot_id s))
       (invalid ''continuity.shot_id'' ''audience and originating ShotIDs must not be zero''),
     err_if (cs_claims s = [] \<or> length (cs_claims s) > 16)
       (invalid ''continuity.claims'' ''must contain 1..=16 scoped claim tokens''),
     claims_loop None (cs_claims s),
     err_if (cs_nonce s = 0) (invalid ''continuity.nonce'' ''must be a random nonzero value''),
     err_if (cs_issued_at s = 0 \<or> cs_expires_at s \<le> cs_issued_at s \<or> cs_expires_at s > MAX_SAFE_JSON_INTEGER)
       (invalid ''continuity.expires_at'' ''must be a JavaScript-safe Unix timestamp after issued_at'')]"

definition continuity_audience_json :: "continuity_audience \<Rightarrow> json" where
  "continuity_audience_json a = JObj [(''shot_id'', json_bytes32 (au_shot_id a)),
     (''installation_id'', json_option json_bytes32 (au_installation_id a))]"

definition installation_identity_json :: "installation_identity \<Rightarrow> json" where
  "installation_identity_json i = JObj [(''installation_id'', json_bytes32 (ii_installation_id i)),
     (''public_key'', public_key_json (ii_public_key i))]"

definition continuity_statement_json :: "continuity_statement \<Rightarrow> json" where
  "continuity_statement_json s = JObj [
     (''schema'', JStr (cs_schema s)),
     (''issuer'', installation_identity_json (cs_issuer s)),
     (''audience'', continuity_audience_json (cs_audience s)),
     (''originating_shot_id'', json_bytes32 (cs_originating_shot_id s)),
     (''claims'', json_strings (cs_claims s)),
     (''nonce'', json_bytes32 (cs_nonce s)),
     (''issued_at'', json_word (cs_issued_at s)),
     (''expires_at'', json_word (cs_expires_at s))]"

definition continuity_statement_digest :: "externals \<Rightarrow> continuity_statement \<Rightarrow> bytes32 result" where
  "continuity_statement_digest E s =
     bind_result (continuity_statement_validate E s) (\<lambda>_. sha256_commitment E (continuity_statement_json s))"

record continuity_envelope =
  ce_schema :: string
  ce_statement :: continuity_statement
  ce_signature :: detached_signature

definition continuity_verify_at :: "externals \<Rightarrow> continuity_envelope \<Rightarrow> u64 \<Rightarrow> unit result" where
  "continuity_verify_at E e unix_time =
     (let s = ce_statement e in
      bind_result (err_if (ce_schema e \<noteq> CONTINUITY_SCHEMA)
        (invalid ''continuity.schema'' (''must be '' @ CONTINUITY_SCHEMA))) (\<lambda>_.
      bind_result (continuity_statement_digest E s) (\<lambda>digest. checks [
        err_if (ds_digest (ce_signature e) \<noteq> digest) DigestMismatch,
        detached_verify E (ce_signature e) (ii_public_key (cs_issuer s)),
        err_if (unix_time < cs_issued_at s \<or> unix_time \<ge> cs_expires_at s)
          (invalid ''continuity.expiration'' ''proof is not active at the supplied time'')])))"

lemma claims_loop_ok:
  "claims_loop prior claims = Inr () \<longleftrightarrow> (\<forall>c \<in> set claims. validate_claim c = Inr ())
     \<and> sorted_wrt (<) (case prior of None \<Rightarrow> claims | Some p \<Rightarrow> p # claims)"
proof (induction claims arbitrary: prior)
  case (Cons c cs)
  have "sorted_wrt (<) (p # c # cs) \<longleftrightarrow> p < c \<and> sorted_wrt (<) (c # cs)" for p :: string
    by auto
  with Cons show ?case by (cases prior) (auto simp: not_le)
qed (simp split: option.split)

text \<open>A verified continuity proof was signed by its issuer over exactly this statement, is
  active, and carries between one and sixteen claims in strictly increasing order.\<close>

lemma continuity_verified:
  assumes "continuity_verify_at E e now = Inr ()"
  shows "sha256_commitment E (continuity_statement_json (ce_statement e)) = Inr (ds_digest (ce_signature e))"
    "detached_verify E (ce_signature e) (ii_public_key (cs_issuer (ce_statement e))) = Inr ()"
    "cs_issued_at (ce_statement e) \<le> now" "now < cs_expires_at (ce_statement e)"
    "sorted_wrt (<) (cs_claims (ce_statement e))" "length (cs_claims (ce_statement e)) \<in> {1..16}"
  using assms
  by (auto simp: continuity_verify_at_def continuity_statement_digest_def continuity_statement_validate_def
      claims_loop_ok Let_def Suc_le_eq)

section \<open>Conformance reports\<close>

definition CONFORMANCE_SCHEMA :: string where "CONFORMANCE_SCHEMA = ''tohseno.conformance/1''"

datatype check_status = CheckPass | CheckFail | CheckNotChecked

record conformance_check =
  ck_id :: string
  ck_status :: check_status
  ck_expected :: string
  ck_observed :: string
  ck_evidence_path :: "string option"

record conformance_report =
  cf_schema :: string
  cf_shot_id :: shot_id
  cf_sequence :: u32
  cf_conformant :: bool
  cf_checks :: "conformance_check list"

definition validate_check_id :: "string \<Rightarrow> unit result" where
  "validate_check_id value = checks [
     validate_token ''conformance.check.id'' value 1 100,
     err_if (\<not> list_all (\<lambda>c. is_ascii_lowercase c \<or> is_ascii_digit c \<or> c = CHR ''.'' \<or> c = CHR ''_'' \<or> c = CHR ''-'') value)
       (invalid ''conformance.check.id'' ''must be a lowercase machine token'')]"

definition validate_evidence_path :: "string \<Rightarrow> unit result" where
  "validate_evidence_path path = checks [
     validate_token ''conformance.evidence_path'' path 1 4096,
     err_if (starts_with ''/'' path \<or> list_ex (\<lambda>part. part = ''..'') (split_on (CHR ''/'') path))
       (invalid ''conformance.evidence_path'' ''must be a relative non-traversing path'')]"

fun conformance_loop :: "string list \<Rightarrow> conformance_check list \<Rightarrow> unit result" where
  "conformance_loop ids [] = Inr ()"
| "conformance_loop ids (check # later) = checks [
     validate_check_id (ck_id check),
     validate_token ''conformance.expected'' (ck_expected check) 1 2048,
     validate_token ''conformance.observed'' (ck_observed check) 1 2048,
     err_if (List.member ids (ck_id check)) (invalid ''conformance.checks'' ''contains a duplicate id''),
     opt_str (ck_evidence_path check) validate_evidence_path,
     conformance_loop (ck_id check # ids) later]"

definition conformance_validate :: "conformance_report \<Rightarrow> unit result" where
  "conformance_validate r = checks [
     err_if (cf_schema r \<noteq> CONFORMANCE_SCHEMA) (invalid ''conformance.schema'' (''must be '' @ CONFORMANCE_SCHEMA)),
     err_if (is_zero (cf_shot_id r) \<or> cf_sequence r = 0 \<or> cf_checks r = [])
       (invalid ''conformance'' ''ShotID must be nonzero, sequence must be at least 1, and checks must not be empty''),
     conformance_loop [] (cf_checks r),
     err_if (cf_conformant r \<noteq> list_all (\<lambda>check. ck_status check = CheckPass) (cf_checks r))
       (invalid ''conformance.conformant'' ''must equal the conjunction of every check'')]"

lemma conformance_loop_ids:
  "conformance_loop ids cs = Inr () \<Longrightarrow> distinct (map ck_id cs) \<and> set (map ck_id cs) \<inter> set ids = {}"
proof (induction cs arbitrary: ids)
  case (Cons c cs)
  then have "ck_id c \<notin> set ids" "conformance_loop (ck_id c # ids) cs = Inr ()" by simp_all
  with Cons.IH [of "ck_id c # ids"] show ?case by auto
qed simp

text \<open>A valid report claims conformance exactly when each of its checks, which have distinct
  identifiers, passed.\<close>

lemma conformance_honest:
  assumes "conformance_validate r = Inr ()"
  shows "cf_conformant r \<longleftrightarrow> (\<forall>c \<in> set (cf_checks r). ck_status c = CheckPass)" "cf_checks r \<noteq> []"
    "distinct (map ck_id (cf_checks r))"
  using assms conformance_loop_ids [of "[]" "cf_checks r"] by (auto simp: conformance_validate_def list_all_iff)

end
