(* ===== verification/App_Metadata.thy ===== *)
theory App_Metadata
  imports Shot_Record
begin

text \<open>
  \<open>fascia.rs\<close> and \<open>app_metadata.rs\<close>: the Fascia manifest of a Shot, the public metadata
  embedded in every generated app (generations 1 and 2) and its decoder; when metadata can
  be made for a record, and what it then says.
\<close>

section \<open>The Fascia manifest\<close>

definition FASCIA_SCHEMA :: string where "FASCIA_SCHEMA = ''tohseno.fascia/1''"

definition REQUIRED_FASCIA_FILES :: "string list" where
  "REQUIRED_FASCIA_FILES = [
     ''TOHSENO/shot.json'', ''TOHSENO/signature.json'', ''TOHSENO/fascia.json'', ''TOHSENO/conformance.json'',
     ''TOHSENO/embedded-provenance.json'', ''TOHSENO/FASCIA.md'', ''TOHSENO/IDENTITY.md'', ''TOHSENO/STORAGE.md'',
     ''TOHSENO/CONTINUITY.md'', ''TOHSENO/PRIVACY.md'', ''TOHSENO/PROVENANCE.md'', ''TOHSENO/DISTRIBUTION.md'',
     ''TohsenoFascia/InstallationIdentity.swift'', ''TohsenoFascia/ContinuityEnvelope.swift'',
     ''TohsenoFascia/LocalPersistence.swift'', ''TohsenoFascia/Provenance.swift'',
     ''TohsenoFascia/TohsenoMetadata.swift'']"

datatype capability = LocalStorage | NetworkAccess | PrivateCloudkitSync | Storekit | Notifications | Camera
  | Microphone | Location | Contacts | Health | Bluetooth | OtherAppleEntitlement

record capability_declaration =
  cd_capability :: capability
  cd_purpose :: string
  cd_entitlement :: "string option"

datatype storage_kind = SwiftData | UserDefaults | Keychain | SecureEnclave | Files | PrivateCloudkit

record storage_declaration =
  sd_kind :: storage_kind
  sd_purpose :: string

record network_declaration =
  nd_endpoint :: string
  nd_purpose :: string
  nd_data_categories :: "string list"

datatype apple_surface = Iphone | Ipad | Vision
datatype distribution_state = DistLocal | DistPublished | DistAppStore

record distribution_declaration =
  di_bundle_id :: string
  di_bundle_version :: u32
  di_surfaces :: "apple_surface list"
  di_state :: distribution_state
  di_app_store_id :: "u64 option"

record installation_identity_declaration =
  id_algorithm :: string
  id_scope :: string
  id_hardware_backed_when_available :: bool

record privacy_declaration =
  pv_telemetry :: bool
  pv_tracking :: bool
  pv_account_required :: bool
  pv_silent_identity_linkage :: bool

record fascia_manifest =
  fm_protocol :: string
  fm_schema :: string
  fm_fascia :: string
  fm_required_files :: "string list"
  fm_installation_identity :: installation_identity_declaration
  fm_capabilities :: "capability_declaration list"
  fm_storage :: "storage_declaration list"
  fm_network :: "network_declaration list"
  fm_privacy :: privacy_declaration
  fm_distribution :: distribution_declaration

definition required_files_ok :: "string list \<Rightarrow> bool" where
  "required_files_ok files \<longleftrightarrow> (let required = remdups files in
     length required = length files \<and> length required = length REQUIRED_FASCIA_FILES
     \<and> list_all (List.member required) REQUIRED_FASCIA_FILES)"

definition entitlement_check :: "capability_declaration \<Rightarrow> unit result" where
  "entitlement_check d =
     (case (cd_capability d, cd_entitlement d) of
        (OtherAppleEntitlement, Some value) \<Rightarrow> validate_token ''fascia.capability.entitlement'' value 1 255
      | (OtherAppleEntitlement, None) \<Rightarrow>
          Inl (invalid ''fascia.capability.entitlement'' ''is required for other_apple_entitlement'')
      | (_, Some _) \<Rightarrow>
          Inl (invalid ''fascia.capability.entitlement'' ''is allowed only for other_apple_entitlement'')
      | (_, None) \<Rightarrow> Inr ())"

fun capabilities_loop :: "capability list \<Rightarrow> capability_declaration list \<Rightarrow> unit result" where
  "capabilities_loop seen [] = Inr ()"
| "capabilities_loop seen (d # ds) = checks [
     validate_token ''fascia.capability.purpose'' (cd_purpose d) 1 500,
     err_if (List.member seen (cd_capability d)) (invalid ''fascia.capabilities'' ''must not repeat a capability''),
     entitlement_check d,
     capabilities_loop (cd_capability d # seen) ds]"

fun fascia_network_loop :: "string list \<Rightarrow> network_declaration list \<Rightarrow> unit result" where
  "fascia_network_loop seen [] = Inr ()"
| "fascia_network_loop seen (d # ds) = checks [
     validate_token ''fascia.network.endpoint'' (nd_endpoint d) 1 2048,
     validate_token ''fascia.network.purpose'' (nd_purpose d) 1 500,
     err_if (List.member seen (nd_endpoint d)) (invalid ''fascia.network'' ''must not repeat an endpoint''),
     err_if (nd_data_categories d = []) (invalid ''fascia.network.data_categories'' ''must not be empty''),
     each_unique (\<lambda>category. validate_token ''fascia.network.data_categories'' category 1 100) (\<lambda>category. category)
       (invalid ''fascia.network.data_categories'' ''must not contain duplicates'') [] (nd_data_categories d),
     fascia_network_loop (nd_endpoint d # seen) ds]"

text \<open>The match on the distribution state is the same in all three validators, up to the
  field named in its error.\<close>

definition app_store_check :: "string \<Rightarrow> distribution_state \<Rightarrow> u64 option \<Rightarrow> unit result" where
  "app_store_check field state app_store_id =
     (if state = DistAppStore
      then err_if (case app_store_id of None \<Rightarrow> True | Some n \<Rightarrow> \<not> (n > 0 \<and> n \<le> MAX_SAFE_JSON_INTEGER))
             (invalid field ''is required for App Store state'')
      else err_if (app_store_id \<noteq> None) (invalid field ''is allowed only for App Store state''))"

definition fascia_validate :: "fascia_manifest \<Rightarrow> unit result" where
  "fascia_validate f =
     (let capabilities = map cd_capability (fm_capabilities f); storage = map sd_kind (fm_storage f);
          i = fm_installation_identity f; p = fm_privacy f; d = fm_distribution f in
      checks [
        err_if (fm_protocol f \<noteq> PROTOCOL_NAME) (invalid ''fascia.protocol'' (''must be '' @ PROTOCOL_NAME)),
        err_if (fm_schema f \<noteq> FASCIA_SCHEMA) (invalid ''fascia.schema'' (''must be '' @ FASCIA_SCHEMA)),
        err_if (fm_fascia f \<noteq> APPLE_FASCIA_ID) (invalid ''fascia.fascia'' (''must be '' @ APPLE_FASCIA_ID)),
        err_if (\<not> required_files_ok (fm_required_files f))
          (invalid ''fascia.required_files'' ''must include each normative Fascia file exactly once''),
        err_if (id_algorithm i \<noteq> ''p256'' \<or> id_scope i \<noteq> ''app_installation''
            \<or> \<not> id_hardware_backed_when_available i)
          (invalid ''fascia.installation_identity''
            ''must declare app-scoped P-256 hardware-backed-when-available identity''),
        err_if (pv_telemetry p \<or> pv_tracking p \<or> pv_account_required p \<or> pv_silent_identity_linkage p)
          (invalid ''fascia.privacy'' ''telemetry, tracking, account walls, and silent linkage must default false''),
        capabilities_loop [] (fm_capabilities f),
        err_if (\<not> List.member capabilities LocalStorage)
          (invalid ''fascia.capabilities'' ''must declare local_storage''),
        err_if (fm_network f \<noteq> [] \<and> \<not> List.member capabilities NetworkAccess)
          (invalid ''fascia.capabilities'' ''must declare network_access when endpoints are present''),
        err_if (fm_network f = [] \<and> List.member capabilities NetworkAccess)
          (invalid ''fascia.network'' ''must declare every network endpoint when network_access is present''),
        each_unique (\<lambda>s. validate_token ''fascia.storage.purpose'' (sd_purpose s) 1 500) sd_kind
          (invalid ''fascia.storage'' ''must not repeat a storage kind'') [] (fm_storage f),
        err_if (fm_storage f = [])
          (invalid ''fascia.storage'' ''must declare at least one local storage mechanism''),
        err_if (List.member storage PrivateCloudkit \<noteq> List.member capabilities PrivateCloudkitSync)
          (invalid ''fascia.storage'' ''private CloudKit storage and capability declarations must agree''),
        fascia_network_loop [] (fm_network f),
        validate_bundle_id ''fascia.distribution.bundle_id'' (di_bundle_id d),
        err_if (di_bundle_version d = 0 \<or> di_surfaces d = [])
          (invalid ''fascia.distribution'' ''bundle_version and supported surfaces must be present''),
        err_if (length (remdups (di_surfaces d)) \<noteq> length (di_surfaces d))
          (invalid ''fascia.distribution.surfaces'' ''must not contain duplicates''),
        app_store_check ''fascia.distribution.app_store_id'' (di_state d) (di_app_store_id d)])"

section \<open>The JSON form of a manifest\<close>

fun capability_name :: "capability \<Rightarrow> string" where
  "capability_name LocalStorage = ''local_storage''"
| "capability_name NetworkAccess = ''network_access''"
| "capability_name PrivateCloudkitSync = ''private_cloudkit_sync''"
| "capability_name Storekit = ''storekit''"
| "capability_name Notifications = ''notifications''"
| "capability_name Camera = ''camera''"
| "capability_name Microphone = ''microphone''"
| "capability_name Location = ''location''"
| "capability_name Contacts = ''contacts''"
| "capability_name Health = ''health''"
| "capability_name Bluetooth = ''bluetooth''"
| "capability_name OtherAppleEntitlement = ''other_apple_entitlement''"

fun storage_kind_name :: "storage_kind \<Rightarrow> string" where
  "storage_kind_name SwiftData = ''swift_data''"
| "storage_kind_name UserDefaults = ''user_defaults''"
| "storage_kind_name Keychain = ''keychain''"
| "storage_kind_name SecureEnclave = ''secure_enclave''"
| "storage_kind_name Files = ''files''"
| "storage_kind_name PrivateCloudkit = ''private_cloudkit''"

fun apple_surface_name :: "apple_surface \<Rightarrow> string" where
  "apple_surface_name Iphone = ''iphone''"
| "apple_surface_name Ipad = ''ipad''"
| "apple_surface_name Vision = ''vision''"

fun distribution_state_name :: "distribution_state \<Rightarrow> string" where
  "distribution_state_name DistLocal = ''local''"
| "distribution_state_name DistPublished = ''published''"
| "distribution_state_name DistAppStore = ''app_store''"

definition capability_declaration_json :: "capability_declaration \<Rightarrow> json" where
  "capability_declaration_json d = JObj [(''capability'', JStr (capability_name (cd_capability d))),
     (''purpose'', JStr (cd_purpose d)), (''entitlement'', json_option JStr (cd_entitlement d))]"

definition storage_declaration_json :: "storage_declaration \<Rightarrow> json" where
  "storage_declaration_json d = JObj [(''kind'', JStr (storage_kind_name (sd_kind d))), (''purpose'', JStr (sd_purpose d))]"

definition network_declaration_json :: "network_declaration \<Rightarrow> json" where
  "network_declaration_json d = JObj [(''endpoint'', JStr (nd_endpoint d)), (''purpose'', JStr (nd_purpose d)),
     (''data_categories'', json_strings (nd_data_categories d))]"

definition surfaces_json :: "apple_surface list \<Rightarrow> json" where
  "surfaces_json surfaces = JArr (map (\<lambda>s. JStr (apple_surface_name s)) surfaces)"

definition distribution_json :: "distribution_declaration \<Rightarrow> json" where
  "distribution_json d = JObj [(''bundle_id'', JStr (di_bundle_id d)), (''bundle_version'', json_word (di_bundle_version d)),
     (''surfaces'', surfaces_json (di_surfaces d)), (''state'', JStr (distribution_state_name (di_state d))),
     (''app_store_id'', json_option json_word (di_app_store_id d))]"

definition identity_declaration_json :: "installation_identity_declaration \<Rightarrow> json" where
  "identity_declaration_json i = JObj [(''algorithm'', JStr (id_algorithm i)), (''scope'', JStr (id_scope i)),
     (''hardware_backed_when_available'', JBool (id_hardware_backed_when_available i))]"

definition privacy_json :: "privacy_declaration \<Rightarrow> json" where
  "privacy_json p = JObj [(''telemetry'', JBool (pv_telemetry p)), (''tracking'', JBool (pv_tracking p)),
     (''account_required'', JBool (pv_account_required p)),
     (''silent_identity_linkage'', JBool (pv_silent_identity_linkage p))]"

definition fascia_manifest_json :: "fascia_manifest \<Rightarrow> json" where
  "fascia_manifest_json f = JObj [
     (''protocol'', JStr (fm_protocol f)),
     (''schema'', JStr (fm_schema f)),
     (''fascia'', JStr (fm_fascia f)),
     (''required_files'', json_strings (fm_required_files f)),
     (''installation_identity'', identity_declaration_json (fm_installation_identity f)),
     (''capabilities'', JArr (map capability_declaration_json (fm_capabilities f))),
     (''storage'', JArr (map storage_declaration_json (fm_storage f))),
     (''network'', JArr (map network_declaration_json (fm_network f))),
     (''privacy'', privacy_json (fm_privacy f)),
     (''distribution'', distribution_json (fm_distribution f))]"

definition fascia_commitment :: "externals \<Rightarrow> fascia_manifest \<Rightarrow> bytes32 result" where
  "fascia_commitment E f = bind_result (fascia_validate f) (\<lambda>_. sha256_commitment E (fascia_manifest_json f))"

section \<open>App metadata, generation 1\<close>

definition APP_METADATA_SCHEMA :: string where "APP_METADATA_SCHEMA = ''tohseno.app-metadata/1''"
definition APP_METADATA_V2_SCHEMA :: string where "APP_METADATA_V2_SCHEMA = ''tohseno.app-metadata/2''"
definition APP_METADATA_V2_PROTOCOL_VERSION :: string where "APP_METADATA_V2_PROTOCOL_VERSION = ''2''"

record app_distribution =
  ad_state :: distribution_state
  ad_surfaces :: "apple_surface list"
  ad_app_store_id :: "u64 option"

datatype app_capability = AppLocalStorage | AppNetworkAccess | AppPrivateCloudkitSync | AppStorekit | AppNotifications
  | AppCamera | AppMicrophone | AppLocation | AppContacts | AppHealth | AppBluetooth | AppOtherAppleEntitlements

fun app_capability_of :: "capability \<Rightarrow> app_capability" where
  "app_capability_of LocalStorage = AppLocalStorage"
| "app_capability_of NetworkAccess = AppNetworkAccess"
| "app_capability_of PrivateCloudkitSync = AppPrivateCloudkitSync"
| "app_capability_of Storekit = AppStorekit"
| "app_capability_of Notifications = AppNotifications"
| "app_capability_of Camera = AppCamera"
| "app_capability_of Microphone = AppMicrophone"
| "app_capability_of Location = AppLocation"
| "app_capability_of Contacts = AppContacts"
| "app_capability_of Health = AppHealth"
| "app_capability_of Bluetooth = AppBluetooth"
| "app_capability_of OtherAppleEntitlement = AppOtherAppleEntitlements"

record app_capability_declaration =
  ac_capability :: app_capability
  ac_purpose :: string
  ac_details :: "string list"

record app_network_declaration =
  an_endpoint :: string
  an_purpose :: string

record app_registry_reference =
  ar_chain_id :: u64
  ar_contract :: address20
  ar_transaction :: "bytes32 option"

record app_metadata =
  am_protocol_name :: string
  am_schema :: string
  am_fascia :: string
  am_shot_id :: shot_id
  am_builder_id :: builder_id
  am_sequence :: u32
  am_previous :: "bytes32 option"
  am_origin :: "shot_origin option"
  am_evolution_commitment :: bytes32
  am_source_tree_sha256 :: bytes32
  am_fascia_sha256 :: bytes32
  am_bundle_id :: string
  am_bundle_version :: u32
  am_factory :: factory_descriptor
  am_distribution :: app_distribution
  am_capabilities :: "app_capability_declaration list"
  am_network :: "app_network_declaration list"
  am_registry :: "app_registry_reference option"

definition metadata_origin_check :: "shot_origin option \<Rightarrow> u32 \<Rightarrow> bytes32 option \<Rightarrow> unit result" where
  "metadata_origin_check origin n predecessor =
     (case origin of
        None \<Rightarrow>
          (if n = 1 then err_if (predecessor \<noteq> None) (invalid ''app_metadata.previous'' ''must be null for sequence 1'')
           else err_if (predecessor = None)
             (invalid ''app_metadata.previous'' ''must identify the preceding Evolution''))
      | Some (LegacyAdoption latest source) \<Rightarrow>
          err_if (\<not> (predecessor = None \<and> latest > 0 \<and> checked_add latest 1 = Some n \<and> source \<noteq> 0))
            (invalid ''app_metadata.origin'' ''must describe a null-previous legacy root at legacy_latest_shot + 1''))"

text \<open>The loops over the declarations; the field names carry the prefix of the generation.
  Only generation 1 demands details.\<close>

fun app_capabilities_loop ::
  "string \<Rightarrow> bool \<Rightarrow> app_capability list \<Rightarrow> app_capability_declaration list \<Rightarrow> unit result" where
  "app_capabilities_loop stem details seen [] = Inr ()"
| "app_capabilities_loop stem details seen (d # ds) = checks [
     validate_token (stem @ ''.capability.purpose'') (ac_purpose d) 1 500,
     err_if (List.member seen (ac_capability d)) (invalid (stem @ ''.capabilities'') ''must not repeat a capability''),
     each (\<lambda>detail. validate_token (stem @ ''.capability.details'') detail 1 500) (ac_details d),
     err_if (details \<and> (ac_capability d = AppPrivateCloudkitSync \<or> ac_capability d = AppOtherAppleEntitlements)
         \<and> ac_details d = [])
       (invalid (stem @ ''.capability.details'') ''private CloudKit and other Apple entitlements require details''),
     app_capabilities_loop stem details (ac_capability d # seen) ds]"

fun app_network_loop :: "string \<Rightarrow> string list \<Rightarrow> app_network_declaration list \<Rightarrow> unit result" where
  "app_network_loop stem seen [] = Inr ()"
| "app_network_loop stem seen (d # ds) = checks [
     validate_token (stem @ ''.network.endpoint'') (an_endpoint d) 1 2048,
     validate_token (stem @ ''.network.purpose'') (an_purpose d) 1 500,
     err_if (List.member seen (an_endpoint d)) (invalid (stem @ ''.network'') ''must not repeat an endpoint''),
     app_network_loop stem (an_endpoint d # seen) ds]"

definition app_declarations_check ::
  "string \<Rightarrow> bool \<Rightarrow> app_distribution \<Rightarrow> app_capability_declaration list \<Rightarrow> app_network_declaration list \<Rightarrow> unit result" where
  "app_declarations_check stem details d capabilities network = checks [
     err_if (ad_surfaces d = [] \<or> length (remdups (ad_surfaces d)) \<noteq> length (ad_surfaces d))
       (invalid (stem @ ''.distribution.supported_apple_surfaces'') ''must be nonempty and unique''),
     app_store_check (stem @ ''.distribution.app_store_id'') (ad_state d) (ad_app_store_id d),
     app_capabilities_loop stem details [] capabilities,
     app_network_loop stem [] network,
     err_if (List.member (map ac_capability capabilities) AppNetworkAccess = (network = []))
       (invalid (stem @ ''.network'') ''network_access and declared endpoints must agree'')]"

definition app_registry_check :: "app_registry_reference option \<Rightarrow> unit result" where
  "app_registry_check registry =
     (case registry of
        None \<Rightarrow> Inr ()
      | Some r \<Rightarrow> checks [
          err_if (ar_chain_id r \<noteq> ROBINHOOD_CHAIN_ID)
            (invalid ''app_metadata.registry.chain_id'' (''must be '' @ show_nat (unat ROBINHOOD_CHAIN_ID))),
          err_if (address_is_zero (ar_contract r) \<or> ar_transaction r = Some 0)
            (invalid ''app_metadata.registry'' ''contract and present transaction must be nonzero'')])"

definition app_metadata_validate :: "app_metadata \<Rightarrow> unit result" where
  "app_metadata_validate m = checks [
     err_if (am_protocol_name m \<noteq> PROTOCOL_NAME) (invalid ''app_metadata.protocol'' (''must be '' @ PROTOCOL_NAME)),
     err_if (am_schema m \<noteq> APP_METADATA_SCHEMA) (invalid ''app_metadata.schema'' (''must be '' @ APP_METADATA_SCHEMA)),
     err_if (am_fascia m \<noteq> APPLE_FASCIA_ID) (invalid ''app_metadata.fascia'' (''must be '' @ APPLE_FASCIA_ID)),
     err_if (is_zero (am_shot_id m)) (invalid ''app_metadata.shot_id'' ''must not be zero''),
     err_if (am_evolution_commitment m = 0 \<or> am_source_tree_sha256 m = 0 \<or> am_fascia_sha256 m = 0)
       (invalid ''app_metadata.commitment'' ''evolution, source-tree, and Fascia commitments must be nonzero''),
     builder_id_validate (am_builder_id m),
     validate_bundle_id ''app_metadata.bundle_id'' (am_bundle_id m),
     err_if (am_sequence m = 0 \<or> am_bundle_version m \<noteq> am_sequence m)
       (invalid ''app_metadata.bundle_version'' ''sequence must be positive and bundle_version must equal sequence''),
     metadata_origin_check (am_origin m) (am_sequence m) (am_previous m),
     factory_validate (am_factory m),
     app_declarations_check ''app_metadata'' True (am_distribution m) (am_capabilities m) (am_network m),
     app_registry_check (am_registry m)]"

fun option_list :: "'a option \<Rightarrow> 'a list" where
  "option_list None = []"
| "option_list (Some x) = [x]"

definition declaration_details :: "fascia_manifest \<Rightarrow> capability_declaration \<Rightarrow> string list" where
  "declaration_details f d =
     (if cd_capability d = OtherAppleEntitlement then option_list (cd_entitlement d)
      else if cd_capability d = PrivateCloudkitSync
      then map sd_purpose (filter (\<lambda>s. sd_kind s = PrivateCloudkit) (fm_storage f))
      else [])"

definition record_metadata :: "shot_record \<Rightarrow> bytes32 \<Rightarrow> fascia_manifest \<Rightarrow> app_metadata" where
  "record_metadata r commitment f =
     \<lparr>am_protocol_name = PROTOCOL_NAME, am_schema = APP_METADATA_SCHEMA, am_fascia = APPLE_FASCIA_ID,
      am_shot_id = sr_shot_id r, am_builder_id = sr_builder_id r, am_sequence = sr_sequence r,
      am_previous = sr_previous r, am_origin = sr_origin r, am_evolution_commitment = commitment,
      am_source_tree_sha256 = sr_source_tree_sha256 r, am_fascia_sha256 = sr_fascia_sha256 r,
      am_bundle_id = sr_bundle_id r, am_bundle_version = sr_bundle_version r, am_factory = sr_factory r,
      am_distribution = \<lparr>ad_state = di_state (fm_distribution f), ad_surfaces = di_surfaces (fm_distribution f),
        ad_app_store_id = di_app_store_id (fm_distribution f)\<rparr>,
      am_capabilities = map (\<lambda>d. \<lparr>ac_capability = app_capability_of (cd_capability d), ac_purpose = cd_purpose d,
        ac_details = declaration_details f d\<rparr>) (fm_capabilities f),
      am_network = map (\<lambda>d. \<lparr>an_endpoint = nd_endpoint d, an_purpose = nd_purpose d\<rparr>) (fm_network f),
      am_registry = None\<rparr>"

definition metadata_for_record ::
  "externals \<Rightarrow> shot_record \<Rightarrow> bytes32 \<Rightarrow> fascia_manifest \<Rightarrow> app_metadata result" where
  "metadata_for_record E r evolution_commitment f =
     bind_result (checks [shot_record_validate r, fascia_validate f,
       err_if (fm_protocol f \<noteq> sr_protocol r \<or> fm_fascia f \<noteq> sr_fascia r
           \<or> di_bundle_id (fm_distribution f) \<noteq> sr_bundle_id r
           \<or> di_bundle_version (fm_distribution f) \<noteq> sr_bundle_version r)
         (invalid ''app_metadata'' ''record and Fascia identity or distribution facts do not agree'')]) (\<lambda>_.
     bind_result (shot_record_commitment E r) (\<lambda>observed.
     bind_result (err_if (observed \<noteq> evolution_commitment)
       (invalid ''app_metadata.evolution_commitment'' ''must equal the canonical signed Shot record commitment'')) (\<lambda>_.
     let metadata = record_metadata r evolution_commitment f in
     bind_result (app_metadata_validate metadata) (\<lambda>_. Inr metadata))))"

section \<open>App metadata, generation 2\<close>

record app_metadata_v2 =
  a2_protocol_name :: string
  a2_protocol_version :: string
  a2_schema :: string
  a2_fascia :: string
  a2_shot_id :: shot_id
  a2_builder_id :: builder_id
  a2_expression_id :: expression_id
  a2_version_id :: version_id
  a2_version_ordinal :: u64
  a2_genome_revision :: u64
  a2_genome_digest :: bytes32
  a2_lineage_sequence :: u64
  a2_lineage_head :: bytes32
  a2_source_tree_sha256 :: bytes32
  a2_fascia_sha256 :: bytes32
  a2_build_digest :: "bytes32 option"
  a2_bundle_id :: string
  a2_bundle_version :: u32
  a2_factory :: factory_descriptor
  a2_distribution :: app_distribution
  a2_capabilities :: "app_capability_declaration list"
  a2_network :: "app_network_declaration list"
  a2_registry :: "app_registry_reference option"
  a2_legacy_v1_evolution_commitment :: "bytes32 option"

definition unsafe_number :: "u64 \<Rightarrow> bool" where
  "unsafe_number n \<longleftrightarrow> n = 0 \<or> n > MAX_SAFE_JSON_INTEGER"

definition app_metadata_v2_validate :: "externals \<Rightarrow> app_metadata_v2 \<Rightarrow> unit result" where
  "app_metadata_v2_validate E m = checks [
     err_if (a2_protocol_name m \<noteq> PROTOCOL_NAME) (invalid ''app_metadata_v2.protocol'' (''must be '' @ PROTOCOL_NAME)),
     err_if (a2_protocol_version m \<noteq> APP_METADATA_V2_PROTOCOL_VERSION)
       (invalid ''app_metadata_v2.protocol_version'' (''must be '' @ APP_METADATA_V2_PROTOCOL_VERSION)),
     err_if (a2_schema m \<noteq> APP_METADATA_V2_SCHEMA)
       (invalid ''app_metadata_v2.schema'' (''must be '' @ APP_METADATA_V2_SCHEMA)),
     err_if (a2_fascia m \<noteq> APPLE_FASCIA_ID) (invalid ''app_metadata_v2.fascia'' (''must be '' @ APPLE_FASCIA_ID)),
     err_if (is_zero (a2_shot_id m) \<or> is_zero (a2_expression_id m) \<or> is_zero (a2_version_id m)
         \<or> a2_genome_digest m = 0 \<or> a2_lineage_head m = 0 \<or> a2_source_tree_sha256 m = 0 \<or> a2_fascia_sha256 m = 0)
       (invalid ''app_metadata_v2.identity'' ''identity and commitment fields must not be zero''),
     builder_id_validate (a2_builder_id m),
     err_if (unsafe_number (a2_version_ordinal m) \<or> unsafe_number (a2_genome_revision m)
         \<or> unsafe_number (a2_lineage_sequence m))
       (invalid ''app_metadata_v2.sequence'' ''version, genome, and lineage numbers must be positive JSON-safe integers''),
     err_if (a2_version_id m \<noteq> version_id_derive E (a2_shot_id m) (a2_expression_id m) (a2_version_ordinal m)
         (a2_genome_digest m) (a2_source_tree_sha256 m))
       (invalid ''app_metadata_v2.version_id'' ''must use the protocol content-bound VersionID derivation''),
     err_if (a2_build_digest m = Some 0 \<or> a2_legacy_v1_evolution_commitment m = Some 0)
       (invalid ''app_metadata_v2.optional_commitment'' ''present commitments must not be zero''),
     validate_bundle_id ''app_metadata_v2.bundle_id'' (a2_bundle_id m),
     err_if (ucast (a2_bundle_version m) \<noteq> a2_version_ordinal m)
       (invalid ''app_metadata_v2.bundle_version'' ''must equal version_ordinal and fit the Apple bundle-version field''),
     factory_validate (a2_factory m),
     app_declarations_check ''app_metadata_v2'' False (a2_distribution m) (a2_capabilities m) (a2_network m),
     (case a2_registry m of
        None \<Rightarrow> Inr ()
      | Some r \<Rightarrow> err_if (ar_chain_id r \<noteq> ROBINHOOD_CHAIN_ID \<or> address_is_zero (ar_contract r)
            \<or> ar_transaction r = Some 0)
          (invalid ''app_metadata_v2.registry'' ''must be a nonzero configured Robinhood registry reference''))]"

definition metadata_from_v1 ::
  "externals \<Rightarrow> app_metadata \<Rightarrow> expression_id \<Rightarrow> version_id \<Rightarrow> u64 \<Rightarrow> u64 \<Rightarrow> bytes32 \<Rightarrow> u64 \<Rightarrow> bytes32
     \<Rightarrow> bytes32 option \<Rightarrow> app_metadata_v2 result" where
  "metadata_from_v1 E v1 expression_id version_id version_ordinal genome_revision genome_digest lineage_sequence
       lineage_head build_digest =
     bind_result (app_metadata_validate v1) (\<lambda>_.
     let metadata = \<lparr>a2_protocol_name = PROTOCOL_NAME, a2_protocol_version = APP_METADATA_V2_PROTOCOL_VERSION,
           a2_schema = APP_METADATA_V2_SCHEMA, a2_fascia = am_fascia v1, a2_shot_id = am_shot_id v1,
           a2_builder_id = am_builder_id v1, a2_expression_id = expression_id, a2_version_id = version_id,
           a2_version_ordinal = version_ordinal, a2_genome_revision = genome_revision,
           a2_genome_digest = genome_digest, a2_lineage_sequence = lineage_sequence, a2_lineage_head = lineage_head,
           a2_source_tree_sha256 = am_source_tree_sha256 v1, a2_fascia_sha256 = am_fascia_sha256 v1,
           a2_build_digest = build_digest, a2_bundle_id = am_bundle_id v1, a2_bundle_version = am_bundle_version v1,
           a2_factory = am_factory v1, a2_distribution = am_distribution v1, a2_capabilities = am_capabilities v1,
           a2_network = am_network v1, a2_registry = am_registry v1,
           a2_legacy_v1_evolution_commitment = Some (am_evolution_commitment v1)\<rparr> in
     bind_result (app_metadata_v2_validate E metadata) (\<lambda>_. Inr metadata))"

section \<open>Embedded metadata\<close>

datatype embedded_app_metadata = EmbeddedV1 app_metadata | EmbeddedV2 app_metadata_v2

text \<open>The three strict parsers that \<open>serde\<close> derives: the schema probe and the two shapes.\<close>

record metadata_parsers =
  mp_probe :: "byte list \<Rightarrow> string + string"
  mp_v1 :: "byte list \<Rightarrow> string + app_metadata"
  mp_v2 :: "byte list \<Rightarrow> string + app_metadata_v2"

definition decode_transport_json :: "externals \<Rightarrow> metadata_parsers \<Rightarrow> byte list \<Rightarrow> embedded_app_metadata result" where
  "decode_transport_json E P bytes =
     bind_result (map_err Json (mp_probe P bytes)) (\<lambda>schema.
       if schema = APP_METADATA_SCHEMA then
         bind_result (map_err Json (mp_v1 P bytes)) (\<lambda>m.
         bind_result (app_metadata_validate m) (\<lambda>_. Inr (EmbeddedV1 m)))
       else if schema = APP_METADATA_V2_SCHEMA then
         bind_result (map_err Json (mp_v2 P bytes)) (\<lambda>m.
         bind_result (app_metadata_v2_validate E m) (\<lambda>_. Inr (EmbeddedV2 m)))
       else Inl (invalid ''app_metadata.schema'' ''must identify a supported closed embedded-metadata schema''))"

fun embedded_schema :: "embedded_app_metadata \<Rightarrow> string" where
  "embedded_schema (EmbeddedV1 m) = am_schema m"
| "embedded_schema (EmbeddedV2 m) = a2_schema m"

section \<open>When metadata can be made\<close>

lemma app_capability_of_inject [simp]: "app_capability_of a = app_capability_of b \<longleftrightarrow> a = b"
  by (cases a; cases b; simp)

lemma app_capability_of_iff [simp]:
  "app_capability_of c = AppPrivateCloudkitSync \<longleftrightarrow> c = PrivateCloudkitSync"
  "app_capability_of c = AppOtherAppleEntitlements \<longleftrightarrow> c = OtherAppleEntitlement"
  "AppNetworkAccess = app_capability_of c \<longleftrightarrow> NetworkAccess = c"
  by (cases c; simp)+

lemma token_field: "validate_token field v lo hi = Inr () \<longleftrightarrow> validate_token field' v lo hi = Inr ()"
  by (simp add: validate_token_def)

lemma token_wider: "validate_token field v lo hi = Inr () \<Longrightarrow> hi \<le> hi' \<Longrightarrow> validate_token field' v lo hi' = Inr ()"
  by (auto simp: validate_token_def)

lemma bundle_id_field: "validate_bundle_id field v = Inr () \<longleftrightarrow> validate_bundle_id field' v = Inr ()"
  using token_field [of field v 3 255 field'] by (auto simp: validate_bundle_id_def Let_def)

lemma app_store_check_field: "app_store_check field s i = Inr () \<longleftrightarrow> app_store_check field' s i = Inr ()"
  by (simp add: app_store_check_def)

lemma network_loop_app:
  "fascia_network_loop seen ds = Inr () \<Longrightarrow>
     app_network_loop stem seen (map (\<lambda>d. \<lparr>an_endpoint = nd_endpoint d, an_purpose = nd_purpose d\<rparr>) ds) = Inr ()"
  by (induction ds arbitrary: seen) (auto intro: iffD1 [OF token_field])

lemma entitlement_details:
  assumes "entitlement_check d = Inr ()" "cd_capability d = OtherAppleEntitlement"
  obtains v where "cd_entitlement d = Some v" "validate_token ''fascia.capability.entitlement'' v 1 255 = Inr ()"
  using assms by (cases "cd_entitlement d") (auto simp: entitlement_check_def)

lemma capabilities_loop_app:
  assumes "capabilities_loop seen ds = Inr ()"
    "\<forall>s \<in> set (fm_storage f). validate_token ''fascia.storage.purpose'' (sd_purpose s) 1 500 = Inr ()"
    "PrivateCloudkitSync \<in> cd_capability ` set ds \<longrightarrow> PrivateCloudkit \<in> sd_kind ` set (fm_storage f)"
  shows "app_capabilities_loop stem True (map app_capability_of seen)
    (map (\<lambda>d. \<lparr>ac_capability = app_capability_of (cd_capability d), ac_purpose = cd_purpose d,
        ac_details = declaration_details f d\<rparr>) ds) = Inr ()"
  using assms(1,3)
proof (induction ds arbitrary: seen)
  case (Cons d ds)
  then have e: "entitlement_check d = Inr ()" and p: "validate_token ''fascia.capability.purpose'' (cd_purpose d) 1 500 = Inr ()"
    and n: "cd_capability d \<notin> set seen" and r: "capabilities_loop (cd_capability d # seen) ds = Inr ()"
    by simp_all
  have "validate_token (stem @ ''.capability.details'') x 1 500 = Inr ()" if "x \<in> set (declaration_details f d)" for x
  proof (cases "cd_capability d = OtherAppleEntitlement")
    case True
    with e obtain v where "cd_entitlement d = Some v" "validate_token ''fascia.capability.entitlement'' v 1 255 = Inr ()"
      by (rule entitlement_details)
    with True that show ?thesis by (auto simp: declaration_details_def intro: token_wider)
  next
    case False
    with that assms(2) show ?thesis
      by (auto simp: declaration_details_def split: if_splits intro: iffD1 [OF token_field])
  qed
  moreover have "declaration_details f d \<noteq> []"
    if "cd_capability d = PrivateCloudkitSync \<or> cd_capability d = OtherAppleEntitlement"
  proof (cases "cd_capability d = OtherAppleEntitlement")
    case True
    with e show ?thesis by (auto simp: declaration_details_def elim: entitlement_details)
  next
    case False
    with that have "cd_capability d = PrivateCloudkitSync" by simp
    moreover from this Cons.prems(2) have "PrivateCloudkit \<in> sd_kind ` set (fm_storage f)" by simp
    ultimately show ?thesis by (fastforce simp: declaration_details_def filter_empty_conv)
  qed
  moreover have "app_capabilities_loop stem True (map app_capability_of (cd_capability d # seen))
      (map (\<lambda>d. \<lparr>ac_capability = app_capability_of (cd_capability d), ac_purpose = cd_purpose d,
        ac_details = declaration_details f d\<rparr>) ds) = Inr ()"
    using Cons.IH [OF r] Cons.prems(2) by simp
  ultimately show ?case using n iffD1 [OF token_field p, of "stem @ ''.capability.purpose''"] by auto
qed simp

lemma fascia_validate_declarations:
  assumes "fascia_validate f = Inr ()"
  shows "app_declarations_check stem True
     \<lparr>ad_state = di_state (fm_distribution f), ad_surfaces = di_surfaces (fm_distribution f),
      ad_app_store_id = di_app_store_id (fm_distribution f)\<rparr>
     (map (\<lambda>d. \<lparr>ac_capability = app_capability_of (cd_capability d), ac_purpose = cd_purpose d,
        ac_details = declaration_details f d\<rparr>) (fm_capabilities f))
     (map (\<lambda>d. \<lparr>an_endpoint = nd_endpoint d, an_purpose = nd_purpose d\<rparr>) (fm_network f)) = Inr ()"
proof -
  have v: "capabilities_loop [] (fm_capabilities f) = Inr ()"
      "fm_network f \<noteq> [] \<longleftrightarrow> NetworkAccess \<in> cd_capability ` set (fm_capabilities f)"
      "\<forall>s \<in> set (fm_storage f). validate_token ''fascia.storage.purpose'' (sd_purpose s) 1 500 = Inr ()"
      "PrivateCloudkit \<in> sd_kind ` set (fm_storage f) \<longleftrightarrow> PrivateCloudkitSync \<in> cd_capability ` set (fm_capabilities f)"
      "fascia_network_loop [] (fm_network f) = Inr ()" "di_surfaces (fm_distribution f) \<noteq> []"
      "length (remdups (di_surfaces (fm_distribution f))) = length (di_surfaces (fm_distribution f))"
      "app_store_check ''fascia.distribution.app_store_id'' (di_state (fm_distribution f)) (di_app_store_id (fm_distribution f)) = Inr ()"
    using assms by (auto simp: fascia_validate_def Let_def)
  have "AppNetworkAccess \<in> set (map ac_capability (map (\<lambda>d. \<lparr>ac_capability = app_capability_of (cd_capability d),
      ac_purpose = cd_purpose d, ac_details = declaration_details f d\<rparr>) (fm_capabilities f)))
    \<longleftrightarrow> NetworkAccess \<in> cd_capability ` set (fm_capabilities f)"
    by (auto simp: image_iff)
  then show ?thesis
    using capabilities_loop_app [OF v(1,3), of stem] network_loop_app [OF v(5), of stem] v(2,4,6,7)
      iffD1 [OF app_store_check_field v(8)]
    by (simp add: app_declarations_check_def)
qed

lemma origin_check_record: "record_origin_checks r = Inr () \<Longrightarrow> metadata_origin_check (sr_origin r) (sr_sequence r) (sr_previous r) = Inr ()"
  by (auto simp: record_origin_checks_def metadata_origin_check_def word_neq_0_conv split: option.splits shot_origin.splits if_splits)


text \<open>Metadata of generation 2 made from generation 1 keeps the identity of the app, and the
  version identifier is the one derived from its contents.\<close>

lemma metadata_from_v1_ok:
  assumes "metadata_from_v1 E v1 x v n g gd l h b = Inr m"
  shows "a2_shot_id m = am_shot_id v1" "a2_builder_id m = am_builder_id v1" "a2_source_tree_sha256 m = am_source_tree_sha256 v1"
    "a2_legacy_v1_evolution_commitment m = Some (am_evolution_commitment v1)"
    "v = version_id_derive E (am_shot_id v1) x n gd (am_source_tree_sha256 v1)" "n = ucast (am_sequence v1)"
  using assms by (auto simp: metadata_from_v1_def Let_def app_metadata_v2_validate_def app_metadata_validate_def)

text \<open>What the decoder accepts is valid and carries the schema it was dispatched on.\<close>

lemma decoded_schema:
  assumes "decode_transport_json E P bytes = Inr e" "mp_probe P bytes = Inr schema"
  shows "embedded_schema e = schema"
  using assms by (auto simp: decode_transport_json_def app_metadata_validate_def app_metadata_v2_validate_def split: if_splits)

end
