(* ===== verification/Spec2Isabelle.thy ===== *)
theory Spec2Isabelle
  imports Node_Witnesses Companion_Witnesses Document_Witnesses Entitlement_Witnesses Protocol_Documents App_Metadata
begin

text \<open>
  A verification library for the Tohseno workspace: the protocol crate
  (\<open>src/protocol/src\<close>), the lineage node built on it (\<open>src/node/src\<close>), the companion crate
  (\<open>src/companion/src\<close>) and the command journal and the entitlement store of the application
  (\<open>src/application/src\<close>), all in Rust.

  \<^bold>\<open>The program.\<close> An app (a \<^emph>\<open>Shot\<close>) is recorded as a lineage of signed actions. Each
  action commits to its predecessor by the SHA-256 digest of its canonical JSON form;
  the first is a commitment of the controlling Builder, later ones record the intention,
  genomes, expressions and their Organs, verification results, accepted versions,
  evolutions, ownership transfers and token associations. \<open>reduce_lineage\<close> checks a
  lineage and computes the state of the Shot, deterministically. Public actions on the
  contracts are EIP-712 typed data signed with P-256 keys. A node keeps public actions in
  content-addressed files, derives an index from them, serves views, and pulls from peers.
  The companion crate lets a paired phone direct a Mac through a relay that is trusted with
  nothing but delivery: a pairing invitation is scanned once, the two devices agree on a key,
  the Mac grants capabilities to the phone, and commands travel in sealed, numbered, signed
  envelopes that are kept in bounded journals. The local application admits commands of every
  origin to a journal on disk before it acts on them, and keeps a private entitlement state, a
  trial of five successful days followed by a subscription that signed receipts renew. Around the lineage stand documents that
  bind it to the outside: digests of source and Fascia trees, public checkpoints for the
  registry, app metadata, definitions and activations of contract generations, genesis inputs,
  continuity statements and conformance reports.

  \<^bold>\<open>Theories and the code they model.\<close>
  \<^item> \<open>Prelude\<close>: results and error propagation, machine integers, bytes and decimal
    numerals, \<open>BTreeMap\<close> as a sorted association list (locale \<open>ordered_map\<close>), folds of a
    fallible step over a log (\<open>run_log\<close>, locales \<open>log_invariant\<close>, \<open>log_preorder\<close>,
    \<open>log_refinement\<close>).
  \<^item> \<open>Text_Digest\<close>: \<open>text.rs\<close>, \<open>error.rs\<close>, \<open>digest.rs\<close>, \<open>canonical.rs\<close>. \<open>Signatures\<close>:
    \<open>signature.rs\<close>. \<open>Identity\<close>: \<open>identity.rs\<close>. \<open>Actions\<close>, \<open>Public_Actions\<close>,
    \<open>Account_Actions\<close>: \<open>actions.rs\<close> and \<open>builder.rs\<close>. \<open>Shot_Record\<close>: \<open>record.rs\<close> and
    \<open>evolution.rs\<close>. \<open>Ontology\<close>, \<open>Expressions\<close>: \<open>ontology.rs\<close>. \<open>Lineage\<close>: \<open>lineage.rs\<close>.
    A struct is a record with the fields of the source under a short prefix, an enum a
    datatype, a function a definition of the same name (with the type's name in front for
    methods), the arms of \<open>apply_one\<close> one definition \<open>apply_...\<close> each.
  \<^item> \<open>Node_Store\<close>, \<open>Node_Scan\<close>: \<open>error.rs\<close>, \<open>model.rs\<close>, \<open>protocol_adapter.rs\<close>, \<open>fs.rs\<close> and
    \<open>store.rs\<close> of the node. \<open>Node_Sync\<close>: its \<open>sync.rs\<close>, with the correctness of a
    synchronization.
  \<^item> \<open>Companion_Journal\<close>: \<open>journal.rs\<close> (replay window, idempotency journal, cursor
    journal). \<open>Companion_Crypto\<close>: \<open>canonical.rs\<close>, \<open>crypto.rs\<close>
    and \<open>identity.rs\<close>. \<open>Companion_Envelope\<close>: \<open>envelope.rs\<close>. \<open>Companion_Command\<close>: \<open>command.rs\<close>
    and the reference descriptors. \<open>Companion_Capability\<close>: \<open>capability.rs\<close>.
    \<open>Companion_Pairing\<close>: \<open>pairing.rs\<close>. \<open>Companion_Blobs\<close>, \<open>Companion_Assembly\<close>: \<open>icon.rs\<close> and
    \<open>reference.rs\<close> (image headers, blobs, chunks). \<open>Companion_Relay\<close>: \<open>relay_client.rs\<close>.

  \<^item> \<open>Source_Tree\<close>, \<open>Source_Tree_Files\<close>: \<open>tree_hash.rs\<close>. \<open>Fascia_Tree\<close>: \<open>fascia_tree.rs\<close>. A
    directory is a tree whose nodes carry their metadata, contents and listing, each of which
    may be an I/O error. \<open>Public_Checkpoint\<close>: \<open>public_checkpoint.rs\<close>. \<open>App_Metadata\<close>:
    \<open>fascia.rs\<close> and \<open>app_metadata.rs\<close>. \<open>Contract_Release\<close>: \<open>contract_generation.rs\<close> and
    \<open>contract_activation.rs\<close>. \<open>Protocol_Documents\<close>: \<open>genesis.rs\<close>, \<open>continuity.rs\<close> and
    \<open>conformance.rs\<close>.
  \<^item> \<open>Command_Journal\<close>: \<open>command.rs\<close> and \<open>journal.rs\<close> of the application. The journal is its
    directory tree, an operation a sequence of system calls on it, and the world carries a
    schedule that lets any call fail, a write after any prefix of its bytes. \<open>Entitlement\<close>:
    \<open>entitlement.rs\<close>, on the same world; \<open>Billing_Receipt\<close>: \<open>billing.rs\<close>.

  \<^bold>\<open>What is shown.\<close>
  \<^item> \<open>Lineage_Segments\<close>, \<open>Lineage_Reduction\<close>: segments and reduction without their loops;
    a lineage may be reduced in any number of parts (C1); controller and key follow an
    abstract hand-over machine (C2); the state names its position in the log.
  \<^item> \<open>Lineage_State\<close>: the state is the replay of its log (C3) and only grows (C4).
  \<^item> \<open>Lineage_Versions\<close>, \<open>Lineage_Integrity\<close>, \<open>Lineage_Progress\<close>: accepted versions were
    verified (C5), the structure of a state (C6), exactness of segment verification (C7),
    the head determines the history up to a digest collision (C8), one origin (C9),
    contiguous genome revisions (C10), lawful evolutions (C11).
  \<^item> \<open>Companion_Envelope\<close>: no run delivers two envelopes of a direction with the same
    sequence, also after the journal evicted the first (C12, through the locale
    \<open>once_only\<close>); a sealed envelope opens to its plaintext (C13).
  \<^item> \<open>Companion_Pairing\<close>: an invitation pairs one device (C14) and the two sides of a
    handshake reach the same key and session (C15). \<open>Companion_Capability\<close>: a revoked epoch
    never returns (C16), an authorized command was granted (C17).
  \<^item> \<open>Companion_Journal\<close>: a command is started once and its result is final (C18), the cursor
    journal refines an unbounded log (C19). \<open>Companion_Assembly\<close>: chunks in any order, with
    repetitions, rebuild the image (C20). \<open>Companion_Blobs\<close>: the two PNG readers agree
    (C21). \<open>Companion_Relay\<close>: pages of a mailbox come in order.
  \<^item> \<open>Journal_Atomic\<close>: a small logic of what operations keep at every outcome and ensure at
    success; an admission is atomic at every fault (C22). \<open>Journal_History\<close>: over every
    sequence of operations a command keeps its evidence and its receipt, and a final state is
    final (C23); the results of operations, which are written in place, have no such
    protection.
  \<^item> \<open>Entitlement_History\<close>: over every history of the store with any faults and any clock the
    file holds one complete state that was earned (C24), and new work is allowed only in a
    running trial or a paid period (C25); an error while \<open>open\<close> looks for the file resets it.
    \<open>Billing_Receipt\<close>: a receipt is good for one installation, and a verified one unlocks (C26).
  \<^item> \<open>Source_Tree_Files\<close>, \<open>Fascia_Tree\<close>: a digest determines the files up to a collision,
    through the locale \<open>prefix_code\<close> of self-delimiting encodings (C27, C29); the lenient
    digest of a working tree is the strict one of its clean snapshot (C28).
    \<open>Public_Checkpoint\<close>: segment verification is exact and a registered head determines the
    public history (C30). \<open>Contract_Release\<close>: an activation needs a threshold of
    authorities (C31). \<open>App_Metadata\<close>: when metadata can be made and what it states (C32).
    \<open>Protocol_Documents\<close>: genesis digests bind prompt and images, a verified continuity
    statement was signed by its issuer and is in force, a conformance report is honest.
  \<^item> \<open>Acceptance_Gates\<close>: gate names, the graph digest, and the limit of 256 gates
    (C33). \<open>Legacy_Lineage\<close>: first-generation verification (C34), its head and its
    projection.
  \<^item> \<open>Commitments\<close>: the JSON form of every record determines it (locale \<open>hash_chain\<close>).
    \<open>Typed_Data\<close>: digests of the four action families bind their action and contract up
    to a collision, through the locale \<open>typed_data\<close>.
  \<^item> \<open>Text_Digest\<close>: text forms, the grammar of slugs and version identifiers. \<open>Signatures\<close>,
    \<open>Identity\<close>: low-s, the compact signature form, Builder identifiers.
  \<^item> \<open>Node_Index\<close>, \<open>Node_Disk\<close>, \<open>Node_Integrity\<close>: the index represents an abstract map
    (\<open>index_repr\<close>) that the files determine; reclassification ends because links between
    accepted actions are acyclic; a node is a content-addressed store (locale
    \<open>content_store\<close>, interpreted on \<open>ingest\<close>). \<open>Node_Views\<close>: in every state a node can
    reach, submissions are answered and nothing is lost (C35), the cache agrees with the
    files (C36), the order of arrival does not matter (C37), neutral authority is claimed
    exactly for complete lineages that reduce (C38), candidate authority never, the limits
    hold (C39). \<open>Node_Sync\<close>: a synchronization ends and accounts for what it stored,
    whatever the peers answer (C40).
  \<^item> \<open>Samples\<close>, \<open>Witnesses\<close>, \<open>Node_Witnesses\<close>, \<open>Companion_Witnesses\<close>,
    \<open>Document_Witnesses\<close>, \<open>Entitlement_Witnesses\<close>: a concrete lineage of fourteen actions, a node that receives its
    first two in both orders, a paired phone and Mac, two directories, a registered
    checkpoint, an approved activation, a journal with one command and an entitlement file,
    and every property with hypotheses applied to them.

  \<^bold>\<open>Parameters.\<close> Code outside the repository is an argument of the definitions: the record
  \<open>externals\<close> holds SHA-256, Keccak, the JSON canonicalizer, P-256, RFC 3339 parsing and the
  JSON string parser; \<open>node_env\<close> adds the typed JSON parsers, the I/O errors of a file
  creation, random bytes and clock; \<open>sync_env\<close> the URL type, the HTTP client and the
  response parsers; \<open>companion_env\<close> Base64, X25519, HKDF, ChaCha20-Poly1305, the device
  signatures and the JSON parsers of the companion crate, with the laws \<open>base64_laws\<close>,
  \<open>agreement_law\<close>, \<open>aead_law\<close> and \<open>signature_law\<close> where a theorem needs them;
  \<open>nfc\<close> is Unicode normalization, \<open>metadata_parsers\<close> the parsers of app metadata, and
  \<open>journal_env\<close> the parsers of the journal, with the law \<open>reads_back\<close>; \<open>entitlement_env\<close> the
  dates of the crate \<open>time\<close>, \<open>localtime_r\<close> and the parser of the state, with the laws
  \<open>state_reads_back\<close> (up to the rounding of numbers) and \<open>dates_read_back\<close>; \<open>billing_env\<close>
  Base64, P-256 and the parsers of receipts. Hypotheses on them are named: \<open>canonical_reparses\<close> (the parser reads
  back the canonical form), \<open>links_durable\<close> (no error is met after a file is linked); together
  \<open>environment_ok\<close>. No injectivity of a hash is assumed: binding theorems exhibit the
  colliding inputs.

  \<^bold>\<open>Loops.\<close> Folds over lists are structural. \<open>walk_branch\<close> ends by its limit of 10,000
  actions. \<open>reclassify_descendants\<close> is a \<open>partial_function (option)\<close>, since on cyclic links
  it would not end; C35 and C40 include that it does. A response body is a finite list of
  chunks, which the client's timeout ensures. There is no fuel.

  \<^bold>\<open>Not modelled.\<close> Random identifiers; serde's parsers; in the node, lock poisoning and submissions
  that interleave with a synchronization (the mutex makes each submission one step);
  \<open>ensure_real_directory\<close>; a temporary file that cannot be removed; \<open>http.rs\<close>, \<open>legacy.rs\<close>
  and \<open>main.rs\<close> of the node. In the journal of the application: \<open>CommandJournal::open\<close>, names
  that are not UTF-8, files that change while they are read, and other processes at work in
  the same directory. In the companion crate: the parser of \<open>PhoneToMacPayload\<close>, and of
  \<open>snapshot.rs\<close>, \<open>event.rs\<close> and \<open>publication.rs\<close> what the commands and blobs do not use. Of the
  workspace: the rest of \<open>application\<close> (the service, snapshots, leases, the execution manager), \<open>network\<close>,
  and \<open>engine\<close> and \<open>cli\<close>, which orchestrate processes, terminals and HTTP clients.
\<close>

end
